(* ===== verification/Prelude.thy ===== *)
theory Prelude
  imports Complex_Main "HOL-Library.Char_ord" "HOL-Library.List_Lexorder"
begin

text \<open>
  What every component of the development shares: the scalar types of the database rows, the
  HTTP errors the services throw, the optional fields of a request body, JavaScript's string
  helpers as far as the sources use them, and the row operations of one database table with
  their frame lemmas.

  \<^item> A UUID is a \<open>nat\<close>: the column default \<open>uuid()\<close> is modelled by a counter of the database
    state, so that generated ids are fresh.
  \<^item> A \<open>Date\<close> is an \<open>int\<close>: the milliseconds since the epoch that \<open>getTime()\<close> returns.
  \<^item> A string is a \<open>string\<close> over the code points 0 to 255.
  \<^item> A handler is a function from the state to an outcome and the state: an exception is \<open>Inl\<close>,
    and the state beside it is the state the exception leaves behind.
\<close>

named_theorems table_simps \<open>row operations on tables\<close>
named_theorems handler_defs \<open>definitions of request handlers\<close>

type_synonym uuid = nat
type_synonym time = int
type_synonym decimal = rat

section \<open>Errors\<close>

text \<open>\<open>common/errors.ts\<close>: a failed workflow guard, reported to the client.\<close>

record guard_failure =
  gf_guard :: string
  gf_message :: string

text \<open>
  The exceptions of \<open>@nestjs/common\<close> the services throw, with their message, the workflow guard
  exception (422), and the two errors of the database client the sources distinguish:
  a violated unique constraint (\<open>P2002\<close>) and a row that is required but missing (\<open>P2025\<close>).
\<close>

datatype http_error =
    BadRequest string
  | Unauthorized string
  | Forbidden string
  | NotFound string
  | Conflict string
  | WorkflowGuard "guard_failure list" string
  | InternalError string
  | PlainError string
  | UniqueViolation
  | RecordRequired

type_synonym 'a result = "http_error + 'a"

fun is_ok :: "'a result \<Rightarrow> bool" where
  "is_ok (Inl _) = False"
| "is_ok (Inr _) = True"

lemma is_ok_iff: "is_ok r \<longleftrightarrow> (\<exists>x. r = Inr x)"
  by (cases r) auto

section \<open>Optional fields of a request body\<close>

text \<open>
  A property of a DTO is \<open>undefined\<close> (absent), \<open>null\<close>, or has a value. \<open>compact\<close> drops the
  \<open>undefined\<close> ones, so that the update keeps the column; \<open>null\<close> clears a nullable column. A
  property whose TypeScript type excludes \<open>null\<close> is an \<open>'a option\<close>.
\<close>

datatype 'a field = Undefined | Null | Value 'a

fun patch_nullable :: "'a field \<Rightarrow> 'a option \<Rightarrow> 'a option" where
  "patch_nullable Undefined old = old"
| "patch_nullable Null old = None"
| "patch_nullable (Value x) old = Some x"

fun patch :: "'a option \<Rightarrow> 'a \<Rightarrow> 'a" where
  "patch None old = old"
| "patch (Some x) old = x"

text \<open>\<open>x ?? null\<close> and \<open>x ?? d\<close> on such fields.\<close>

fun or_null :: "'a field \<Rightarrow> 'a option" where
  "or_null (Value x) = Some x"
| "or_null _ = None"

fun supplied :: "'a field \<Rightarrow> bool" where
  "supplied Undefined = False"
| "supplied _ = True"

definition coalesce :: "'a option \<Rightarrow> 'a \<Rightarrow> 'a" where
  "coalesce x d = (case x of None \<Rightarrow> d | Some y \<Rightarrow> y)"

definition coalesce_opt :: "'a option \<Rightarrow> 'a option \<Rightarrow> 'a option" where
  "coalesce_opt x y = (case x of None \<Rightarrow> y | Some z \<Rightarrow> Some z)"

lemma coalesce_simps [simp]: "coalesce None d = d" "coalesce (Some x) d = x"
  by (simp_all add: coalesce_def)

lemma coalesce_opt_simps [simp]: "coalesce_opt None y = y" "coalesce_opt (Some x) y = Some x"
  by (simp_all add: coalesce_opt_def)

lemma coalesce_opt_None_iff [simp]: "coalesce_opt x y = None \<longleftrightarrow> x = None \<and> y = None"
  by (cases x) simp_all

section \<open>Strings\<close>

definition is_space :: "char \<Rightarrow> bool" where
  "is_space c = ((of_char c :: nat) \<in> {9, 10, 11, 12, 13, 32, 160})"

definition trim :: "string \<Rightarrow> string" where
  "trim s = rev (dropWhile is_space (rev (dropWhile is_space s)))"

definition lower_char :: "char \<Rightarrow> char" where
  "lower_char c =
     (let n = of_char c :: nat
      in if (65 \<le> n \<and> n \<le> 90) \<or> (192 \<le> n \<and> n \<le> 222 \<and> n \<noteq> 215) then char_of (n + 32) else c)"

definition to_lower :: "string \<Rightarrow> string" where
  "to_lower s = map lower_char s"

definition is_digit :: "char \<Rightarrow> bool" where
  "is_digit c = (48 \<le> (of_char c :: nat) \<and> (of_char c :: nat) \<le> 57)"

text \<open>\<open>isBlank\<close> of \<open>common/utils.ts\<close>: absent, or nothing but white space.\<close>

fun is_blank :: "string option \<Rightarrow> bool" where
  "is_blank None = True"
| "is_blank (Some s) = (length (trim s) = 0)"

text \<open>JavaScript's truth value of a nullable string: the empty string is falsy.\<close>

fun truthy :: "string option \<Rightarrow> bool" where
  "truthy None = False"
| "truthy (Some s) = (s \<noteq> [])"

lemma trim_eq_Nil_iff: "trim s = [] \<longleftrightarrow> (\<forall>c \<in> set s. is_space c)"
proof
  assume "trim s = []"
  then have all: "\<forall>c \<in> set (dropWhile is_space s). is_space c"
    by (simp add: trim_def)
  show "\<forall>c \<in> set s. is_space c"
  proof (cases "dropWhile is_space s")
    case Nil
    then show ?thesis by (simp add: dropWhile_eq_Nil_conv)
  next
    case (Cons c cs)
    then have "\<not> is_space c" using hd_dropWhile [of is_space s] by simp
    with all Cons show ?thesis by simp
  qed
next
  assume "\<forall>c \<in> set s. is_space c"
  then show "trim s = []" by (auto simp: trim_def dest: set_dropWhileD)
qed

lemma is_blank_iff: "is_blank v \<longleftrightarrow> (\<forall>s. v = Some s \<longrightarrow> (\<forall>c \<in> set s. is_space c))"
  by (cases v) (auto simp: trim_eq_Nil_iff)

text \<open>Decimal numerals: \<open>String(n)\<close> and \<open>Number(digits)\<close> for natural numbers.\<close>

definition digit_char :: "nat \<Rightarrow> char" where
  "digit_char d = char_of (48 + d)"

fun show_nat :: "nat \<Rightarrow> string" where
  "show_nat n = (if n < 10 then [digit_char n] else show_nat (n div 10) @ [digit_char (n mod 10)])"

declare show_nat.simps [simp del]

definition digit_value :: "char \<Rightarrow> nat" where
  "digit_value c = of_char c - 48"

definition number_of :: "string \<Rightarrow> nat" where
  "number_of s = fold (\<lambda>c acc. 10 * acc + digit_value c) s 0"

lemma of_char_digit: "d < 10 \<Longrightarrow> (of_char (digit_char d) :: nat) = 48 + d"
  by (simp add: digit_char_def)

lemma digit_value_char [simp]: "d < 10 \<Longrightarrow> digit_value (digit_char d) = d"
  by (simp add: digit_value_def of_char_digit)

lemma is_digit_char [simp]: "d < 10 \<Longrightarrow> is_digit (digit_char d)"
  by (simp add: is_digit_def of_char_digit)

lemma number_of_snoc: "number_of (s @ [c]) = 10 * number_of s + digit_value c"
  by (simp add: number_of_def)

lemma number_of_Nil [simp]: "number_of [] = 0"
  by (simp add: number_of_def)

lemma number_of_replicate_zero: "number_of (replicate k (digit_char 0) @ s) = number_of s"
proof -
  have "fold (\<lambda>c acc. 10 * acc + digit_value c) (replicate k (digit_char 0)) 0 = 0"
    by (induction k) simp_all
  then show ?thesis by (simp add: number_of_def)
qed

lemma number_of_show_nat [simp]: "number_of (show_nat n) = n"
proof (induction n rule: show_nat.induct)
  case (1 n)
  show ?case
  proof (cases "n < 10")
    case True
    then show ?thesis
      by (simp add: show_nat.simps number_of_def)
  next
    case False
    then have "number_of (show_nat n) = 10 * number_of (show_nat (n div 10)) + n mod 10"
      by (simp add: show_nat.simps [of n] number_of_snoc)
    with 1 False show ?thesis by simp
  qed
qed

lemma show_nat_not_Nil [simp]: "show_nat n \<noteq> []"
  by (subst show_nat.simps) simp

lemma show_nat_digits: "\<forall>c \<in> set (show_nat n). is_digit c"
proof (induction n rule: show_nat.induct)
  case (1 n)
  then show ?case
    by (subst show_nat.simps) auto
qed

lemma show_nat_inj: "show_nat m = show_nat n \<Longrightarrow> m = n"
  by (metis number_of_show_nat)

lemma digit_char_zero: "CHR ''0'' = digit_char 0"
  by (simp add: digit_char_def char_of_def bit_Suc_0_iff)

text \<open>\<open>pad\<close> of \<open>common/utils.ts\<close>: \<open>String(n).padStart(width, '0')\<close>.\<close>

definition pad :: "nat \<Rightarrow> nat \<Rightarrow> string" where
  "pad n width = replicate (width - length (show_nat n)) (CHR ''0'') @ show_nat n"

lemma number_of_pad [simp]: "number_of (pad n w) = n"
  by (simp add: pad_def digit_char_zero number_of_replicate_zero)

lemma pad_digits: "\<forall>c \<in> set (pad n w). is_digit c"
  using show_nat_digits [of n] by (auto simp: pad_def digit_char_zero)

lemma pad_not_Nil [simp]: "pad n w \<noteq> []"
  by (simp add: pad_def)

lemma pad_inj: "pad m w = pad n w \<Longrightarrow> m = n"
  by (metis number_of_pad)

section \<open>Tables\<close>

text \<open>
  A table is the list of its rows in creation order. \<open>findFirst\<close> is the first row that
  matches, \<open>findMany\<close> all of them, \<open>count\<close> their number; an update rewrites the matching
  rows in place and a deletion removes them.
\<close>

definition find_first :: "('r \<Rightarrow> bool) \<Rightarrow> 'r list \<Rightarrow> 'r option" where
  "find_first P t = List.find P t"

definition find_many :: "('r \<Rightarrow> bool) \<Rightarrow> 'r list \<Rightarrow> 'r list" where
  "find_many P t = filter P t"

definition count_rows :: "('r \<Rightarrow> bool) \<Rightarrow> 'r list \<Rightarrow> nat" where
  "count_rows P t = length (filter P t)"

definition update_rows :: "('r \<Rightarrow> bool) \<Rightarrow> ('r \<Rightarrow> 'r) \<Rightarrow> 'r list \<Rightarrow> 'r list" where
  "update_rows P f t = map (\<lambda>r. if P r then f r else r) t"

definition delete_rows :: "('r \<Rightarrow> bool) \<Rightarrow> 'r list \<Rightarrow> 'r list" where
  "delete_rows P t = filter (\<lambda>r. \<not> P r) t"

definition insert_row :: "'r \<Rightarrow> 'r list \<Rightarrow> 'r list" where
  "insert_row r t = t @ [r]"

lemma find_first_Some: "find_first P t = Some r \<Longrightarrow> r \<in> set t \<and> P r"
  by (auto simp: find_first_def find_Some_iff)

lemma find_first_SomeD1: "find_first P t = Some r \<Longrightarrow> r \<in> set t"
  and find_first_SomeD2: "find_first P t = Some r \<Longrightarrow> P r"
  by (auto dest: find_first_Some)

lemma find_first_None_iff: "find_first P t = None \<longleftrightarrow> (\<forall>r \<in> set t. \<not> P r)"
  by (auto simp: find_first_def find_None_iff)

lemma find_first_Nil [simp]: "find_first P [] = None"
  by (simp add: find_first_def)

lemma find_first_Cons: "find_first P (r # t) = (if P r then Some r else find_first P t)"
  by (simp add: find_first_def)

lemma count_rows_eq_0_iff [table_simps]: "count_rows P t = 0 \<longleftrightarrow> (\<forall>r \<in> set t. \<not> P r)"
  by (simp add: count_rows_def filter_empty_conv)

lemma count_rows_pos_iff [table_simps]: "0 < count_rows P t \<longleftrightarrow> (\<exists>r \<in> set t. P r)"
  by (simp add: count_rows_def filter_empty_conv)

lemma set_find_many [table_simps]: "set (find_many P t) = {r \<in> set t. P r}"
  by (simp add: find_many_def)

lemma set_insert_row [table_simps]: "set (insert_row r t) = insert r (set t)"
  by (simp add: insert_row_def)

lemma set_delete_rows [table_simps]: "set (delete_rows P t) = {r \<in> set t. \<not> P r}"
  by (auto simp: delete_rows_def)

lemma set_update_rows [table_simps]:
  "set (update_rows P f t) = f ` {r \<in> set t. P r} \<union> {r \<in> set t. \<not> P r}"
  by (auto simp: update_rows_def)

lemma length_update_rows [simp]: "length (update_rows P f t) = length t"
  by (simp add: update_rows_def)

lemma map_update_rows_id: "(\<And>r. k (f r) = k r) \<Longrightarrow> map k (update_rows P f t) = map k t"
  by (simp add: update_rows_def)

lemma filter_update_rows_other:
  assumes "\<And>r. Q r \<Longrightarrow> \<not> P r" and "\<And>r. P r \<Longrightarrow> \<not> Q (f r)"
  shows "filter Q (update_rows P f t) = filter Q t"
  using assms by (induction t) (auto simp: update_rows_def)

lemma filter_delete_rows_other:
  assumes "\<And>r. Q r \<Longrightarrow> \<not> P r"
  shows "filter Q (delete_rows P t) = filter Q t"
  using assms by (induction t) (auto simp: delete_rows_def)

lemma filter_insert_row_other: "\<not> Q r \<Longrightarrow> filter Q (insert_row r t) = filter Q t"
  by (simp add: insert_row_def)

lemma find_first_update_rows:
  assumes "\<And>r. P (f r) = P r"
  shows "find_first P (update_rows P f t) = map_option f (find_first P t)"
  using assms by (induction t) (auto simp: update_rows_def find_first_def)

lemma find_first_update_rows_other:
  assumes "\<And>r. Q r \<Longrightarrow> \<not> P r" and "\<And>r. P r \<Longrightarrow> \<not> Q (f r)"
  shows "find_first Q (update_rows P f t) = find_first Q t"
  using assms by (induction t) (auto simp: update_rows_def find_first_def)

end
