(* ===== verification/Rbac.thy ===== *)
theory Rbac
  imports Prelude
begin

text \<open>
  \<open>packages/shared/src/roles.ts\<close> and \<open>packages/shared/src/permissions.ts\<close>: the roles, the
  permission keys \<open><module>:<action>\<close>, the role matrix and \<open>permissionsForRoles\<close>. A \<open>Set\<close> is
  the list of its elements in insertion order. The lemmas state that the matrix only grants keys
  that exist, that the audit roles are ordered by inclusion, and that a user's permissions are
  the union of the matrix rows of the user's roles, without duplicates.
\<close>

section \<open>Roles\<close>

datatype role_key =
    GLOBAL_ADMIN
  | AUDIT_PARTNER
  | CHIEF_AUDIT_EXECUTIVE
  | AUDIT_MANAGER
  | SENIOR_AUDITOR
  | JUNIOR_AUDITOR
  | BUSINESS_OWNER
  | MANAGEMENT_REVIEWER
  | AUDIT_COMMITTEE_VIEWER

definition role_keys :: "role_key list" where
  "role_keys = [GLOBAL_ADMIN, AUDIT_PARTNER, CHIEF_AUDIT_EXECUTIVE, AUDIT_MANAGER,
     SENIOR_AUDITOR, JUNIOR_AUDITOR, BUSINESS_OWNER, MANAGEMENT_REVIEWER, AUDIT_COMMITTEE_VIEWER]"

fun role_label :: "role_key \<Rightarrow> string" where
  "role_label GLOBAL_ADMIN = ''Global Administrator''"
| "role_label AUDIT_PARTNER = ''Audit Partner''"
| "role_label CHIEF_AUDIT_EXECUTIVE = ''Chief Audit Executive''"
| "role_label AUDIT_MANAGER = ''Audit Manager''"
| "role_label SENIOR_AUDITOR = ''Senior Auditor''"
| "role_label JUNIOR_AUDITOR = ''Junior Auditor''"
| "role_label BUSINESS_OWNER = ''Business Owner''"
| "role_label MANAGEMENT_REVIEWER = ''Management Reviewer''"
| "role_label AUDIT_COMMITTEE_VIEWER = ''Audit Committee Viewer''"

text \<open>Roles that belong to the internal audit function, and roles able to review workpapers.\<close>

definition audit_function_roles :: "role_key list" where
  "audit_function_roles = [GLOBAL_ADMIN, AUDIT_PARTNER, CHIEF_AUDIT_EXECUTIVE, AUDIT_MANAGER,
     SENIOR_AUDITOR, JUNIOR_AUDITOR]"

definition reviewer_roles :: "role_key list" where
  "reviewer_roles = [AUDIT_PARTNER, CHIEF_AUDIT_EXECUTIVE, AUDIT_MANAGER, SENIOR_AUDITOR]"

section \<open>Permission keys\<close>

type_synonym permission_key = string

definition permission_keys :: "permission_key list" where
  "permission_keys =
    [''tenant:manage'', ''user:read'', ''user:manage'', ''audit_trail:read'',
     ''universe:read'', ''universe:manage'', ''risk:read'', ''risk:manage'',
     ''risk:assess'', ''risk:configure_scoring'', ''control:read'', ''control:manage'',
     ''control:test'', ''plan:read'', ''plan:manage'', ''plan:approve'',
     ''engagement:read'', ''engagement:create'', ''engagement:manage'',
     ''engagement:advance_stage'', ''engagement:close'', ''engagement:issue_report'',
     ''program:manage'', ''program:approve'', ''workpaper:read'', ''workpaper:prepare'',
     ''workpaper:review'', ''workpaper:sign_off'', ''workpaper:unlock'', ''document:read'',
     ''document:upload'', ''document:delete'', ''document:restricted'', ''finding:read'',
     ''finding:manage'', ''finding:submit'', ''finding:respond'', ''finding:validate'',
     ''finding:accept_risk'', ''request:read'', ''request:manage'', ''request:respond'',
     ''library:read'', ''library:contribute'', ''library:approve'', ''time:own'',
     ''time:approve'', ''resource:read'', ''resource:manage'', ''dashboard:auditor'',
     ''dashboard:partner'', ''dashboard:committee'', ''report:export'', ''ai:use'',
     ''ai:configure'', ''monitoring:read'', ''monitoring:manage'']"

text \<open>\<open>key.split(':')[0]\<close>: the part before the first colon.\<close>

definition permission_module :: "permission_key \<Rightarrow> string" where
  "permission_module key = takeWhile (\<lambda>c. c \<noteq> CHR '':'') key"

section \<open>The role matrix\<close>

definition auditor_base :: "permission_key list" where
  "auditor_base =
    [''user:read'', ''universe:read'', ''risk:read'', ''control:read'', ''plan:read'',
     ''engagement:read'', ''workpaper:read'', ''workpaper:prepare'', ''document:read'',
     ''document:upload'', ''finding:read'', ''finding:manage'', ''request:read'',
     ''request:manage'', ''library:read'', ''library:contribute'', ''time:own'',
     ''dashboard:auditor'', ''ai:use'', ''monitoring:read'']"

definition senior_keys :: "permission_key list" where
  "senior_keys = auditor_base @
    [''risk:manage'', ''risk:assess'', ''control:manage'', ''control:test'',
     ''program:manage'', ''workpaper:review'', ''finding:submit'', ''report:export'']"

definition manager_keys :: "permission_key list" where
  "manager_keys = senior_keys @
    [''universe:manage'', ''plan:manage'', ''engagement:create'', ''engagement:manage'',
     ''engagement:advance_stage'', ''program:approve'', ''workpaper:sign_off'',
     ''finding:validate'', ''document:delete'', ''time:approve'', ''resource:read'',
     ''resource:manage'', ''audit_trail:read'', ''monitoring:manage'']"

definition cae_keys :: "permission_key list" where
  "cae_keys = manager_keys @
    [''plan:approve'', ''engagement:close'', ''engagement:issue_report'',
     ''workpaper:unlock'', ''finding:accept_risk'', ''risk:configure_scoring'',
     ''library:approve'', ''document:restricted'', ''dashboard:partner'',
     ''dashboard:committee'', ''user:manage'', ''ai:configure'']"

definition partner_keys :: "permission_key list" where
  "partner_keys = cae_keys"

definition business_owner_keys :: "permission_key list" where
  "business_owner_keys =
    [''engagement:read'', ''finding:read'', ''finding:respond'', ''request:read'',
     ''request:respond'', ''document:read'', ''document:upload'']"

definition management_reviewer_keys :: "permission_key list" where
  "management_reviewer_keys = business_owner_keys @
    [''universe:read'', ''risk:read'', ''control:read'', ''plan:read'', ''report:export'']"

definition committee_keys :: "permission_key list" where
  "committee_keys =
    [''universe:read'', ''risk:read'', ''plan:read'', ''engagement:read'', ''finding:read'',
     ''dashboard:committee'', ''report:export'']"

text \<open>\<open>Array.from(new Set(arr))\<close> keeps the first occurrence of each element.\<close>

fun set_add :: "'a \<Rightarrow> 'a list \<Rightarrow> 'a list" where
  "set_add x s = (if x \<in> set s then s else s @ [x])"

definition dedupe :: "'a list \<Rightarrow> 'a list" where
  "dedupe arr = fold set_add arr []"

fun role_permissions :: "role_key \<Rightarrow> permission_key list" where
  "role_permissions GLOBAL_ADMIN = permission_keys"
| "role_permissions AUDIT_PARTNER = dedupe partner_keys"
| "role_permissions CHIEF_AUDIT_EXECUTIVE = dedupe cae_keys"
| "role_permissions AUDIT_MANAGER = dedupe manager_keys"
| "role_permissions SENIOR_AUDITOR = dedupe senior_keys"
| "role_permissions JUNIOR_AUDITOR = dedupe auditor_base"
| "role_permissions BUSINESS_OWNER = dedupe business_owner_keys"
| "role_permissions MANAGEMENT_REVIEWER = dedupe management_reviewer_keys"
| "role_permissions AUDIT_COMMITTEE_VIEWER = dedupe committee_keys"

definition permissions_for_roles :: "role_key list \<Rightarrow> permission_key list" where
  "permissions_for_roles roles = fold (\<lambda>r. fold set_add (role_permissions r)) roles []"

section \<open>Facts\<close>

declare set_add.simps [simp del]

lemma set_set_add [simp]: "set (set_add x s) = insert x (set s)"
  by (auto simp: set_add.simps)

lemma distinct_set_add [simp]: "distinct (set_add x s) = distinct s"
  by (simp add: set_add.simps)

lemma set_fold_set_add [simp]: "set (fold set_add xs s) = set xs \<union> set s"
  by (induction xs arbitrary: s) auto

lemma distinct_fold_set_add [simp]: "distinct (fold set_add xs s) = distinct s"
  by (induction xs arbitrary: s) auto

lemma set_dedupe [simp]: "set (dedupe xs) = set xs"
  by (simp add: dedupe_def)

lemma distinct_dedupe [simp]: "distinct (dedupe xs)"
  by (simp add: dedupe_def)

lemma set_fold_roles:
  "set (fold (\<lambda>r. fold set_add (role_permissions r)) roles s) =
   (\<Union>r \<in> set roles. set (role_permissions r)) \<union> set s"
  by (induction roles arbitrary: s) auto

lemma distinct_fold_roles:
  "distinct (fold (\<lambda>r. fold set_add (role_permissions r)) roles s) = distinct s"
  by (induction roles arbitrary: s) auto

lemma permissions_for_roles_iff:
  "p \<in> set (permissions_for_roles roles) \<longleftrightarrow> (\<exists>r \<in> set roles. p \<in> set (role_permissions r))"
  by (simp add: permissions_for_roles_def set_fold_roles)

lemma permissions_for_roles_distinct: "distinct (permissions_for_roles roles)"
  by (simp add: permissions_for_roles_def distinct_fold_roles)

lemmas key_lists = auditor_base_def senior_keys_def manager_keys_def cae_keys_def partner_keys_def
  business_owner_keys_def management_reviewer_keys_def committee_keys_def

text \<open>The matrix grants existing keys only.\<close>

lemma auditor_keys_exist: "set auditor_base \<subseteq> set permission_keys"
  unfolding auditor_base_def permission_keys_def by simp

lemma senior_keys_exist: "set senior_keys \<subseteq> set permission_keys"
  using auditor_keys_exist unfolding senior_keys_def set_append Un_subset_iff
  by (rule conjI) (simp add: permission_keys_def)

lemma manager_keys_exist: "set manager_keys \<subseteq> set permission_keys"
  using senior_keys_exist unfolding manager_keys_def set_append Un_subset_iff
  by (rule conjI) (simp add: permission_keys_def)

lemma cae_keys_exist: "set cae_keys \<subseteq> set permission_keys"
  using manager_keys_exist unfolding cae_keys_def set_append Un_subset_iff
  by (rule conjI) (simp add: permission_keys_def)

lemma business_owner_keys_exist: "set business_owner_keys \<subseteq> set permission_keys"
  unfolding business_owner_keys_def permission_keys_def by simp

lemma management_reviewer_keys_exist: "set management_reviewer_keys \<subseteq> set permission_keys"
  using business_owner_keys_exist unfolding management_reviewer_keys_def set_append Un_subset_iff
  by (rule conjI) (simp add: permission_keys_def)

lemma committee_keys_exist: "set committee_keys \<subseteq> set permission_keys"
  unfolding committee_keys_def permission_keys_def by simp

lemma role_permissions_exist: "set (role_permissions r) \<subseteq> set permission_keys"
  using auditor_keys_exist senior_keys_exist manager_keys_exist cae_keys_exist
    business_owner_keys_exist management_reviewer_keys_exist committee_keys_exist
  by (cases r) (simp_all add: partner_keys_def)

lemma permissions_for_roles_exist: "set (permissions_for_roles roles) \<subseteq> set permission_keys"
  using role_permissions_exist by (fastforce simp: permissions_for_roles_iff)

text \<open>Seniority in the audit function is inclusion of permissions.\<close>

lemma audit_roles_increase:
  "set (role_permissions JUNIOR_AUDITOR) \<subseteq> set (role_permissions SENIOR_AUDITOR)"
  "set (role_permissions SENIOR_AUDITOR) \<subseteq> set (role_permissions AUDIT_MANAGER)"
  "set (role_permissions AUDIT_MANAGER) \<subseteq> set (role_permissions CHIEF_AUDIT_EXECUTIVE)"
  "set (role_permissions CHIEF_AUDIT_EXECUTIVE) = set (role_permissions AUDIT_PARTNER)"
  "set (role_permissions AUDIT_PARTNER) \<subseteq> set (role_permissions GLOBAL_ADMIN)"
  using cae_keys_exist
  by (simp_all only: role_permissions.simps set_dedupe senior_keys_def manager_keys_def
      cae_keys_def partner_keys_def set_append Un_upper1)

text \<open>
  The auditee roles and the committee cannot write to the audit file: the keys that gate
  workpapers, programmes, plans and the audit side of findings and requests are granted to
  roles of the audit function only.
\<close>

definition audit_side_keys :: "permission_key list" where
  "audit_side_keys =
    [''workpaper:read'', ''workpaper:prepare'', ''workpaper:review'', ''workpaper:sign_off'',
     ''workpaper:unlock'', ''program:manage'', ''program:approve'', ''plan:manage'', ''plan:approve'',
     ''engagement:create'', ''engagement:manage'', ''engagement:advance_stage'', ''engagement:close'',
     ''engagement:issue_report'', ''finding:manage'', ''finding:submit'', ''finding:validate'',
     ''finding:accept_risk'', ''request:manage'', ''time:own'', ''time:approve'', ''user:manage'']"

lemma auditee_keys_disjoint:
  "set audit_side_keys \<inter> set management_reviewer_keys = {}"
  "set audit_side_keys \<inter> set business_owner_keys = {}"
  "set audit_side_keys \<inter> set committee_keys = {}"
  unfolding audit_side_keys_def key_lists by simp_all

lemma audit_side_key_roles:
  assumes "p \<in> set audit_side_keys" "p \<in> set (role_permissions r)"
  shows "r \<in> set audit_function_roles"
  using assms auditee_keys_disjoint by (cases r) (auto simp: audit_function_roles_def)

end
