(* ===== verification/Machines.thy ===== *)
theory Machines
  imports Rbac
begin

text \<open>
  \<open>packages/shared/src/workflows.ts\<close> with the status types of \<open>packages/shared/src/constants.ts\<close>:
  the five declarative state machines that the API enforces and the web application renders, and
  the functions that read them. A machine is data (a list of transitions); \<open>sm_step\<close> is the step
  relation it denotes and \<open>sm_run\<close> follows a sequence of actions. The locale \<open>workflow_machine\<close>
  states the law the lookups rely on (an action is declared once per state) and proves the lookup
  functions correct once; \<open>final_machine\<close> adds that terminal states are final. The cut lemma of the
  locale gives, for each machine, the actions no run can avoid on its way to a state.
\<close>

section \<open>Statuses\<close>

datatype engagement_stage =
    PLANNING | RISK_ASSESSMENT | PROGRAMME | FIELDWORK | REVIEW | REPORTING | FOLLOW_UP | CLOSED

datatype finding_status =
    DRAFT | MANAGEMENT_REVIEW | AGREED | IMPLEMENTATION | VALIDATION | CLOSED | RISK_ACCEPTED

datatype workpaper_status =
    DRAFT | PREPARED | IN_REVIEW | REVIEW_NOTES_OPEN | REVIEWED | SIGNED_OFF

datatype plan_status =
    DRAFT | PENDING_APPROVAL | APPROVED | ACTIVE | ARCHIVED

datatype request_status =
    OPEN | SUBMITTED | ACCEPTED | RETURNED | CANCELLED

datatype severity = LOW | MEDIUM | HIGH | CRITICAL

text \<open>\<open>ENGAGEMENT_STAGES\<close> in the order of the constants: the index drives the stage progress.\<close>

definition engagement_stages :: "engagement_stage list" where
  "engagement_stages = [engagement_stage.PLANNING, engagement_stage.RISK_ASSESSMENT,
     engagement_stage.PROGRAMME, engagement_stage.FIELDWORK, engagement_stage.REVIEW,
     engagement_stage.REPORTING, engagement_stage.FOLLOW_UP, engagement_stage.CLOSED]"

definition finding_statuses :: "finding_status list" where
  "finding_statuses = [finding_status.DRAFT, finding_status.MANAGEMENT_REVIEW,
     finding_status.AGREED, finding_status.IMPLEMENTATION, finding_status.VALIDATION,
     finding_status.CLOSED, finding_status.RISK_ACCEPTED]"

definition severities :: "severity list" where
  "severities = [LOW, MEDIUM, HIGH, CRITICAL]"

section \<open>Machines as data\<close>

record 's transition =
  tr_from :: 's
  tr_to :: 's
  tr_action :: string
  tr_label :: string
  tr_permission :: permission_key
  tr_guards :: "string list option"

record 's state_machine_decl =
  sm_name :: string
  sm_initial :: 's
  sm_terminal :: "'s list"
  sm_transitions :: "'s transition list"

definition engagement_workflow :: "engagement_stage state_machine_decl" where
  "engagement_workflow =
    \<lparr> sm_name = ''engagement'', sm_initial = engagement_stage.PLANNING, sm_terminal = [engagement_stage.CLOSED],
     sm_transitions =
      [\<lparr> tr_from = engagement_stage.PLANNING, tr_to = engagement_stage.RISK_ASSESSMENT, tr_action = ''start_risk_assessment'', tr_label = ''Start risk assessment'',
         tr_permission = ''engagement:advance_stage'', tr_guards = Some [''has_objectives_and_scope'', ''has_lead''] \<rparr>,
       \<lparr> tr_from = engagement_stage.RISK_ASSESSMENT, tr_to = engagement_stage.PROGRAMME, tr_action = ''build_programme'', tr_label = ''Build audit programme'',
         tr_permission = ''engagement:advance_stage'', tr_guards = None \<rparr>,
       \<lparr> tr_from = engagement_stage.PROGRAMME, tr_to = engagement_stage.FIELDWORK, tr_action = ''start_fieldwork'', tr_label = ''Start fieldwork'',
         tr_permission = ''engagement:advance_stage'', tr_guards = Some [''programme_approved''] \<rparr>,
       \<lparr> tr_from = engagement_stage.FIELDWORK, tr_to = engagement_stage.REVIEW, tr_action = ''submit_for_review'', tr_label = ''Submit for review'',
         tr_permission = ''engagement:advance_stage'', tr_guards = Some [''all_workpapers_prepared''] \<rparr>,
       \<lparr> tr_from = engagement_stage.REVIEW, tr_to = engagement_stage.FIELDWORK, tr_action = ''return_to_fieldwork'', tr_label = ''Return to fieldwork'',
         tr_permission = ''workpaper:review'', tr_guards = None \<rparr>,
       \<lparr> tr_from = engagement_stage.REVIEW, tr_to = engagement_stage.REPORTING, tr_action = ''start_reporting'', tr_label = ''Start reporting'',
         tr_permission = ''engagement:advance_stage'', tr_guards = Some [''all_workpapers_signed_off'', ''no_open_review_notes''] \<rparr>,
       \<lparr> tr_from = engagement_stage.REPORTING, tr_to = engagement_stage.FOLLOW_UP, tr_action = ''issue_report'', tr_label = ''Issue report'',
         tr_permission = ''engagement:issue_report'', tr_guards = Some [''all_findings_agreed_or_accepted''] \<rparr>,
       \<lparr> tr_from = engagement_stage.FOLLOW_UP, tr_to = engagement_stage.CLOSED, tr_action = ''close'', tr_label = ''Close engagement'',
         tr_permission = ''engagement:close'', tr_guards = Some [''all_findings_owned_and_submitted''] \<rparr>,
       \<lparr> tr_from = engagement_stage.PLANNING, tr_to = engagement_stage.CLOSED, tr_action = ''cancel'', tr_label = ''Cancel engagement'',
         tr_permission = ''engagement:close'', tr_guards = None \<rparr>] \<rparr>"

definition finding_workflow :: "finding_status state_machine_decl" where
  "finding_workflow =
    \<lparr> sm_name = ''finding'', sm_initial = finding_status.DRAFT, sm_terminal = [finding_status.CLOSED, finding_status.RISK_ACCEPTED],
     sm_transitions =
      [\<lparr> tr_from = finding_status.DRAFT, tr_to = finding_status.MANAGEMENT_REVIEW, tr_action = ''submit'', tr_label = ''Submit to management'',
         tr_permission = ''finding:submit'', tr_guards = Some [''has_condition_criteria'', ''has_recommendation''] \<rparr>,
       \<lparr> tr_from = finding_status.MANAGEMENT_REVIEW, tr_to = finding_status.DRAFT, tr_action = ''return_to_draft'', tr_label = ''Return to draft'',
         tr_permission = ''finding:manage'', tr_guards = None \<rparr>,
       \<lparr> tr_from = finding_status.MANAGEMENT_REVIEW, tr_to = finding_status.AGREED, tr_action = ''agree'', tr_label = ''Agree finding'',
         tr_permission = ''finding:respond'', tr_guards = Some [''has_management_response'', ''has_action_owner_and_due_date''] \<rparr>,
       \<lparr> tr_from = finding_status.MANAGEMENT_REVIEW, tr_to = finding_status.RISK_ACCEPTED, tr_action = ''accept_risk'', tr_label = ''Accept risk'',
         tr_permission = ''finding:accept_risk'', tr_guards = None \<rparr>,
       \<lparr> tr_from = finding_status.AGREED, tr_to = finding_status.IMPLEMENTATION, tr_action = ''start_implementation'', tr_label = ''Start implementation'',
         tr_permission = ''finding:respond'', tr_guards = None \<rparr>,
       \<lparr> tr_from = finding_status.IMPLEMENTATION, tr_to = finding_status.VALIDATION, tr_action = ''request_validation'', tr_label = ''Request validation'',
         tr_permission = ''finding:respond'', tr_guards = Some [''has_implementation_evidence''] \<rparr>,
       \<lparr> tr_from = finding_status.VALIDATION, tr_to = finding_status.IMPLEMENTATION, tr_action = ''reject_validation'', tr_label = ''Return to implementation'',
         tr_permission = ''finding:validate'', tr_guards = None \<rparr>,
       \<lparr> tr_from = finding_status.VALIDATION, tr_to = finding_status.CLOSED, tr_action = ''validate_and_close'', tr_label = ''Validate and close'',
         tr_permission = ''finding:validate'', tr_guards = None \<rparr>] \<rparr>"

definition workpaper_workflow :: "workpaper_status state_machine_decl" where
  "workpaper_workflow =
    \<lparr> sm_name = ''workpaper'', sm_initial = workpaper_status.DRAFT, sm_terminal = [workpaper_status.SIGNED_OFF],
     sm_transitions =
      [\<lparr> tr_from = workpaper_status.DRAFT, tr_to = workpaper_status.PREPARED, tr_action = ''mark_prepared'', tr_label = ''Mark as prepared'',
         tr_permission = ''workpaper:prepare'', tr_guards = Some [''has_procedure_and_conclusion''] \<rparr>,
       \<lparr> tr_from = workpaper_status.PREPARED, tr_to = workpaper_status.DRAFT, tr_action = ''reopen'', tr_label = ''Reopen'',
         tr_permission = ''workpaper:prepare'', tr_guards = None \<rparr>,
       \<lparr> tr_from = workpaper_status.PREPARED, tr_to = workpaper_status.IN_REVIEW, tr_action = ''start_review'', tr_label = ''Start review'',
         tr_permission = ''workpaper:review'', tr_guards = Some [''reviewer_is_not_preparer''] \<rparr>,
       \<lparr> tr_from = workpaper_status.IN_REVIEW, tr_to = workpaper_status.REVIEW_NOTES_OPEN, tr_action = ''raise_notes'', tr_label = ''Raise review notes'',
         tr_permission = ''workpaper:review'', tr_guards = None \<rparr>,
       \<lparr> tr_from = workpaper_status.REVIEW_NOTES_OPEN, tr_to = workpaper_status.PREPARED, tr_action = ''address_notes'', tr_label = ''Notes addressed'',
         tr_permission = ''workpaper:prepare'', tr_guards = Some [''all_notes_addressed''] \<rparr>,
       \<lparr> tr_from = workpaper_status.IN_REVIEW, tr_to = workpaper_status.REVIEWED, tr_action = ''approve_review'', tr_label = ''Approve review'',
         tr_permission = ''workpaper:review'', tr_guards = Some [''no_open_review_notes'', ''reviewer_is_not_preparer''] \<rparr>,
       \<lparr> tr_from = workpaper_status.REVIEWED, tr_to = workpaper_status.SIGNED_OFF, tr_action = ''sign_off'', tr_label = ''Sign off'',
         tr_permission = ''workpaper:sign_off'', tr_guards = Some [''signer_is_not_preparer''] \<rparr>,
       \<lparr> tr_from = workpaper_status.SIGNED_OFF, tr_to = workpaper_status.DRAFT, tr_action = ''unlock'', tr_label = ''Unlock'',
         tr_permission = ''workpaper:unlock'', tr_guards = None \<rparr>] \<rparr>"

definition plan_workflow :: "plan_status state_machine_decl" where
  "plan_workflow =
    \<lparr> sm_name = ''audit_plan'', sm_initial = plan_status.DRAFT, sm_terminal = [plan_status.ARCHIVED],
     sm_transitions =
      [\<lparr> tr_from = plan_status.DRAFT, tr_to = plan_status.PENDING_APPROVAL, tr_action = ''submit'', tr_label = ''Submit for approval'',
         tr_permission = ''plan:manage'', tr_guards = Some [''has_items''] \<rparr>,
       \<lparr> tr_from = plan_status.PENDING_APPROVAL, tr_to = plan_status.DRAFT, tr_action = ''return'', tr_label = ''Return to draft'',
         tr_permission = ''plan:approve'', tr_guards = None \<rparr>,
       \<lparr> tr_from = plan_status.PENDING_APPROVAL, tr_to = plan_status.APPROVED, tr_action = ''approve'', tr_label = ''Approve'',
         tr_permission = ''plan:approve'', tr_guards = None \<rparr>,
       \<lparr> tr_from = plan_status.APPROVED, tr_to = plan_status.ACTIVE, tr_action = ''activate'', tr_label = ''Activate'',
         tr_permission = ''plan:manage'', tr_guards = None \<rparr>,
       \<lparr> tr_from = plan_status.APPROVED, tr_to = plan_status.DRAFT, tr_action = ''reopen'', tr_label = ''Reopen'',
         tr_permission = ''plan:approve'', tr_guards = None \<rparr>,
       \<lparr> tr_from = plan_status.ACTIVE, tr_to = plan_status.ARCHIVED, tr_action = ''archive'', tr_label = ''Archive'',
         tr_permission = ''plan:manage'', tr_guards = None \<rparr>] \<rparr>"

definition request_workflow :: "request_status state_machine_decl" where
  "request_workflow =
    \<lparr> sm_name = ''document_request'', sm_initial = request_status.OPEN, sm_terminal = [request_status.ACCEPTED, request_status.CANCELLED],
     sm_transitions =
      [\<lparr> tr_from = request_status.OPEN, tr_to = request_status.SUBMITTED, tr_action = ''submit'', tr_label = ''Submit response'',
         tr_permission = ''request:respond'', tr_guards = Some [''has_attachment_or_response''] \<rparr>,
       \<lparr> tr_from = request_status.SUBMITTED, tr_to = request_status.ACCEPTED, tr_action = ''accept'', tr_label = ''Accept'',
         tr_permission = ''request:manage'', tr_guards = None \<rparr>,
       \<lparr> tr_from = request_status.SUBMITTED, tr_to = request_status.RETURNED, tr_action = ''return'', tr_label = ''Return'',
         tr_permission = ''request:manage'', tr_guards = None \<rparr>,
       \<lparr> tr_from = request_status.RETURNED, tr_to = request_status.SUBMITTED, tr_action = ''resubmit'', tr_label = ''Resubmit'',
         tr_permission = ''request:respond'', tr_guards = Some [''has_attachment_or_response''] \<rparr>,
       \<lparr> tr_from = request_status.OPEN, tr_to = request_status.CANCELLED, tr_action = ''cancel'', tr_label = ''Cancel'',
         tr_permission = ''request:manage'', tr_guards = None \<rparr>,
       \<lparr> tr_from = request_status.RETURNED, tr_to = request_status.CANCELLED, tr_action = ''cancel'', tr_label = ''Cancel'',
         tr_permission = ''request:manage'', tr_guards = None \<rparr>] \<rparr>"

definition find_transition ::
  "'s state_machine_decl \<Rightarrow> 's \<Rightarrow> string \<Rightarrow> 's transition option" where
  "find_transition machine from action =
     List.find (\<lambda>t. tr_from t = from \<and> tr_action t = action) (sm_transitions machine)"

definition available_actions :: "'s state_machine_decl \<Rightarrow> 's \<Rightarrow> 's transition list" where
  "available_actions machine from = filter (\<lambda>t. tr_from t = from) (sm_transitions machine)"

definition can_transition :: "'s state_machine_decl \<Rightarrow> 's \<Rightarrow> 's \<Rightarrow> bool" where
  "can_transition machine from to =
     list_ex (\<lambda>t. tr_from t = from \<and> tr_to t = to) (sm_transitions machine)"

section \<open>The step relation and runs\<close>

inductive sm_step :: "'s state_machine_decl \<Rightarrow> 's \<Rightarrow> string \<Rightarrow> 's \<Rightarrow> bool" for m where
  step: "t \<in> set (sm_transitions m) \<Longrightarrow> sm_step m (tr_from t) (tr_action t) (tr_to t)"

inductive_simps sm_step_iff: "sm_step m s a s'"

fun sm_run :: "'s state_machine_decl \<Rightarrow> 's \<Rightarrow> string list \<Rightarrow> 's option" where
  "sm_run m s [] = Some s"
| "sm_run m s (a # as) =
     (case find_transition m s a of None \<Rightarrow> None | Some t \<Rightarrow> sm_run m (tr_to t) as)"

inductive sm_reachable :: "'s state_machine_decl \<Rightarrow> 's \<Rightarrow> 's \<Rightarrow> bool" for m s where
  reach_refl: "sm_reachable m s s"
| reach_step: "sm_reachable m s s' \<Longrightarrow> sm_step m s' a s'' \<Longrightarrow> sm_reachable m s s''"

lemma find_transition_Some:
  "find_transition m s a = Some t \<Longrightarrow>
   t \<in> set (sm_transitions m) \<and> tr_from t = s \<and> tr_action t = a"
  by (auto simp: find_transition_def find_Some_iff)

lemma find_transition_step:
  "find_transition m s a = Some t \<Longrightarrow> sm_step m s a (tr_to t)"
  by (auto dest!: find_transition_Some simp: sm_step_iff)

lemma find_transition_None_iff:
  "find_transition m s a = None \<longleftrightarrow> (\<forall>s'. \<not> sm_step m s a s')"
  by (auto simp: find_transition_def find_None_iff sm_step_iff)

lemma sm_run_append:
  "sm_run m s (as @ bs) = (case sm_run m s as of None \<Rightarrow> None | Some s' \<Rightarrow> sm_run m s' bs)"
  by (induction as arbitrary: s) (auto split: option.splits)

text \<open>Every step into \<open>T\<close> from outside takes the action \<open>a\<close>: a run into \<open>T\<close> takes \<open>a\<close>.\<close>

definition sm_cut :: "'s state_machine_decl \<Rightarrow> ('s \<Rightarrow> bool) \<Rightarrow> string \<Rightarrow> bool" where
  "sm_cut m T a =
     list_all (\<lambda>t. T (tr_to t) \<and> \<not> T (tr_from t) \<longrightarrow> tr_action t = a) (sm_transitions m)"

lemma run_crosses_cut:
  assumes "sm_cut m T a" and "sm_run m s as = Some s'" and "\<not> T s" and "T s'"
  shows "a \<in> set as"
  using assms(2-)
proof (induction as arbitrary: s)
  case (Cons b bs)
  from Cons.prems obtain t where t: "find_transition m s b = Some t" "sm_run m (tr_to t) bs = Some s'"
    by (auto split: option.splits)
  show ?case
  proof (cases "T (tr_to t)")
    case True
    with assms(1) find_transition_Some [OF t(1)] Cons.prems show ?thesis
      by (auto simp: sm_cut_def list_all_iff)
  next
    case False
    with Cons.IH t Cons.prems show ?thesis by simp
  qed
qed simp

section \<open>What the lookups rely on\<close>

locale workflow_machine =
  fixes m :: "'s state_machine_decl"
  assumes actions_unique: "distinct (map (\<lambda>t. (tr_from t, tr_action t)) (sm_transitions m))"
    and permissions_exist:
      "t \<in> set (sm_transitions m) \<Longrightarrow> tr_permission t \<in> set permission_keys"
begin

lemma transition_unique:
  assumes "t \<in> set (sm_transitions m)" "u \<in> set (sm_transitions m)"
    and "tr_from t = tr_from u" "tr_action t = tr_action u"
  shows "t = u"
  using actions_unique assms unfolding distinct_map by (auto dest: inj_onD)

lemma find_transition_iff:
  "find_transition m s a = Some t \<longleftrightarrow>
   t \<in> set (sm_transitions m) \<and> tr_from t = s \<and> tr_action t = a"
proof
  assume t: "t \<in> set (sm_transitions m) \<and> tr_from t = s \<and> tr_action t = a"
  then have "find_transition m s a \<noteq> None"
    by (auto simp: find_transition_def find_None_iff)
  then obtain u where u: "find_transition m s a = Some u" by blast
  with t have "u = t" by (auto dest!: find_transition_Some intro: transition_unique)
  with u show "find_transition m s a = Some t" by simp
qed (rule find_transition_Some)

text \<open>The machine is deterministic, and the lookup computes its one step.\<close>

lemma step_deterministic: "sm_step m s a s' \<Longrightarrow> sm_step m s a s'' \<Longrightarrow> s' = s''"
  by (auto simp: sm_step_iff dest: transition_unique)

lemma find_transition_complete:
  "sm_step m s a s' \<longleftrightarrow> (\<exists>t. find_transition m s a = Some t \<and> tr_to t = s')"
  by (auto simp: sm_step_iff find_transition_iff)

lemma available_actions_iff:
  "t \<in> set (available_actions m s) \<longleftrightarrow> find_transition m s (tr_action t) = Some t"
  by (auto simp: available_actions_def find_transition_iff)

lemma can_transition_iff:
  "can_transition m s s' \<longleftrightarrow> (\<exists>a t. find_transition m s a = Some t \<and> tr_to t = s')"
  by (auto simp: can_transition_def list_ex_iff find_transition_iff)

lemma available_permission: "t \<in> set (available_actions m s) \<Longrightarrow> tr_permission t \<in> set permission_keys"
  by (auto simp: available_actions_def permissions_exist)

lemma run_reachable: "sm_run m s as = Some s' \<Longrightarrow> sm_reachable m s s'"
proof (induction as arbitrary: s' rule: rev_induct)
  case Nil
  then show ?case by (simp add: reach_refl)
next
  case (snoc a as)
  then obtain u where "sm_run m s as = Some u" "sm_run m u [a] = Some s'"
    by (auto simp: sm_run_append split: option.splits)
  with snoc.IH show ?case
    by (auto split: option.splits intro: reach_step find_transition_step)
qed

lemma reachable_run: "sm_reachable m s s' \<Longrightarrow> \<exists>as. sm_run m s as = Some s'"
proof (induction rule: sm_reachable.induct)
  case reach_refl
  show ?case by (rule exI [of _ "[]"]) simp
next
  case (reach_step s' a s'')
  then obtain as t where "sm_run m s as = Some s'" "find_transition m s' a = Some t" "tr_to t = s''"
    by (auto simp: find_transition_complete)
  then have "sm_run m s (as @ [a]) = Some s''" by (simp add: sm_run_append)
  then show ?case by blast
qed

lemma run_iff_reachable: "(\<exists>as. sm_run m s as = Some s') \<longleftrightarrow> sm_reachable m s s'"
  using run_reachable reachable_run by blast

end

locale final_machine = workflow_machine +
  assumes terminal_final: "t \<in> set (sm_transitions m) \<Longrightarrow> tr_from t \<notin> set (sm_terminal m)"
begin

lemma terminal_no_step: "s \<in> set (sm_terminal m) \<Longrightarrow> \<not> sm_step m s a s'"
  by (auto simp: sm_step_iff dest: terminal_final)

lemma terminal_no_actions: "s \<in> set (sm_terminal m) \<Longrightarrow> available_actions m s = []"
  by (auto simp: available_actions_def filter_empty_conv dest: terminal_final)

lemma terminal_run: "s \<in> set (sm_terminal m) \<Longrightarrow> sm_run m s as = Some s' \<Longrightarrow> as = [] \<and> s' = s"
  by (cases as) (auto split: option.splits dest: find_transition_step simp: terminal_no_step)

end

section \<open>The five machines\<close>

lemmas machine_defs = engagement_workflow_def finding_workflow_def workpaper_workflow_def
  plan_workflow_def request_workflow_def

interpretation engagement_machine: final_machine engagement_workflow
  by unfold_locales (auto simp: engagement_workflow_def permission_keys_def)

interpretation finding_machine: final_machine finding_workflow
  by unfold_locales (auto simp: finding_workflow_def permission_keys_def)

text \<open>\<open>SIGNED_OFF\<close> is declared terminal but can be left through \<open>unlock\<close>.\<close>

interpretation workpaper_machine: workflow_machine workpaper_workflow
  by unfold_locales (auto simp: workpaper_workflow_def permission_keys_def)

interpretation plan_machine: final_machine plan_workflow
  by unfold_locales (auto simp: plan_workflow_def permission_keys_def)

interpretation request_machine: final_machine request_workflow
  by unfold_locales (auto simp: request_workflow_def permission_keys_def)

text \<open>
  Every sequence of actions that takes a finding from its initial status to \<open>CLOSED\<close> contains
  the submission, the agreement of management, the request for validation and the validation
  itself; a finding whose risk was accepted was submitted first.
\<close>

theorem finding_closed_only_after_validation:
  "(sm_run finding_workflow finding_status.DRAFT acts = Some finding_status.CLOSED \<longrightarrow>
     {''submit'', ''agree'', ''start_implementation'', ''request_validation'', ''validate_and_close''}
       \<subseteq> set acts) \<and>
   (sm_run finding_workflow finding_status.DRAFT acts = Some finding_status.RISK_ACCEPTED \<longrightarrow>
     {''submit'', ''accept_risk''} \<subseteq> set acts)"
proof -
  have cuts:
    "sm_cut finding_workflow (\<lambda>s. s \<noteq> finding_status.DRAFT) ''submit''"
    "sm_cut finding_workflow (\<lambda>s. s \<notin> {finding_status.DRAFT, finding_status.MANAGEMENT_REVIEW,
       finding_status.RISK_ACCEPTED}) ''agree''"
    "sm_cut finding_workflow (\<lambda>s. s \<in> {finding_status.IMPLEMENTATION, finding_status.VALIDATION,
       finding_status.CLOSED}) ''start_implementation''"
    "sm_cut finding_workflow (\<lambda>s. s \<in> {finding_status.VALIDATION, finding_status.CLOSED})
       ''request_validation''"
    "sm_cut finding_workflow (\<lambda>s. s = finding_status.CLOSED) ''validate_and_close''"
    "sm_cut finding_workflow (\<lambda>s. s = finding_status.RISK_ACCEPTED) ''accept_risk''"
    by (simp_all add: sm_cut_def finding_workflow_def)
  show ?thesis
    using run_crosses_cut [OF cuts(1)] run_crosses_cut [OF cuts(2)] run_crosses_cut [OF cuts(3)]
      run_crosses_cut [OF cuts(4)] run_crosses_cut [OF cuts(5)] run_crosses_cut [OF cuts(6)]
    by auto
qed

lemma finding_closed_only_after_validation_witness:
  "sm_run finding_workflow finding_status.DRAFT
     [''submit'', ''agree'', ''start_implementation'', ''request_validation'', ''validate_and_close'']
     = Some finding_status.CLOSED \<and>
   ''agree'' \<in> set [''submit'', ''agree'', ''start_implementation'',
     ''request_validation'', ''validate_and_close'']"
  using finding_closed_only_after_validation
    [of "[''submit'', ''agree'', ''start_implementation'', ''request_validation'',
          ''validate_and_close'']"]
  by (simp add: finding_workflow_def find_transition_def)

text \<open>
  Every sequence of actions that takes a workpaper from \<open>DRAFT\<close> to \<open>SIGNED_OFF\<close> contains its
  preparation, the start and the approval of its review and the sign-off.
\<close>

theorem workpaper_signed_off_only_after_review:
  "sm_run workpaper_workflow workpaper_status.DRAFT acts = Some workpaper_status.SIGNED_OFF \<Longrightarrow>
   {''mark_prepared'', ''start_review'', ''approve_review'', ''sign_off''} \<subseteq> set acts"
proof -
  assume run: "sm_run workpaper_workflow workpaper_status.DRAFT acts = Some workpaper_status.SIGNED_OFF"
  have cuts:
    "sm_cut workpaper_workflow (\<lambda>s. s \<noteq> workpaper_status.DRAFT) ''mark_prepared''"
    "sm_cut workpaper_workflow (\<lambda>s. s \<notin> {workpaper_status.DRAFT, workpaper_status.PREPARED}) ''start_review''"
    "sm_cut workpaper_workflow (\<lambda>s. s \<in> {workpaper_status.REVIEWED, workpaper_status.SIGNED_OFF}) ''approve_review''"
    "sm_cut workpaper_workflow (\<lambda>s. s = workpaper_status.SIGNED_OFF) ''sign_off''"
    by (simp_all add: sm_cut_def workpaper_workflow_def)
  show ?thesis
    using run_crosses_cut [OF cuts(1) run] run_crosses_cut [OF cuts(2) run]
      run_crosses_cut [OF cuts(3) run] run_crosses_cut [OF cuts(4) run]
    by simp
qed

lemma workpaper_signed_off_only_after_review_witness:
  "sm_run workpaper_workflow workpaper_status.DRAFT
     [''mark_prepared'', ''start_review'', ''approve_review'', ''sign_off'']
     = Some workpaper_status.SIGNED_OFF \<and>
   ''approve_review'' \<in> set [''mark_prepared'', ''start_review'', ''approve_review'', ''sign_off'']"
  using workpaper_signed_off_only_after_review
    [of "[''mark_prepared'', ''start_review'', ''approve_review'', ''sign_off'']"]
  by (simp add: workpaper_workflow_def find_transition_def)

end
