(* ===== verification/Binary64.thy ===== *)
theory Binary64
  imports Prelude
begin

text \<open>
  ECMAScript numbers as far as the sources compute with fractions: a number is the rational
  that a binary64 value denotes, and every operation rounds its exact result to the nearest
  such value, ties to even (\<open>fl\<close>). The exponent is not bounded above: no product of the sources
  comes near the overflow threshold. Below, the spacing is \<open>2 powi -1074\<close>, as for subnormals.
  What the scoring functions rely on is collected in the locale \<open>rounding\<close>: rounding is
  monotone and exact on integers of at most 53 bits.
\<close>

section \<open>Rounding to the nearest even integer\<close>

definition round_half_even :: "rat \<Rightarrow> int" where
  "round_half_even x =
     (let n = \<lfloor>x\<rfloor>; r = x - of_int n
      in if r < 1/2 then n else if 1/2 < r then n + 1 else if even n then n else n + 1)"

lemma round_half_even_of_int [simp]: "round_half_even (of_int n) = n"
  by (simp add: round_half_even_def)

lemma round_half_even_range: "round_half_even x = \<lfloor>x\<rfloor> \<or> round_half_even x = \<lfloor>x\<rfloor> + 1"
  by (simp add: round_half_even_def Let_def)

lemma round_half_even_mono: "x \<le> y \<Longrightarrow> round_half_even x \<le> round_half_even y"
proof (cases "\<lfloor>x\<rfloor> = \<lfloor>y\<rfloor>")
  case True
  assume "x \<le> y"
  with True show ?thesis by (auto simp: round_half_even_def Let_def)
next
  case False
  assume "x \<le> y"
  with False have "\<lfloor>x\<rfloor> + 1 \<le> \<lfloor>y\<rfloor>" using floor_mono [of x y] by linarith
  with round_half_even_range [of x] round_half_even_range [of y] show ?thesis by linarith
qed

section \<open>The binary exponent\<close>

text \<open>The number of binary digits of a natural number.\<close>

fun bit_length :: "nat \<Rightarrow> nat" where
  "bit_length n = (if n = 0 then 0 else Suc (bit_length (n div 2)))"

declare bit_length.simps [simp del]

lemma bit_length_bounds: "0 < n \<Longrightarrow> 2 ^ (bit_length n - 1) \<le> n \<and> n < 2 ^ bit_length n \<and> 0 < bit_length n"
proof (induction n rule: bit_length.induct)
  case (1 n)
  show ?case
  proof (cases "n div 2 = 0")
    case True
    then have "n = 1" using 1 by simp
    then show ?thesis by (simp add: bit_length.simps)
  next
    case False
    with 1 have IH: "2 ^ (bit_length (n div 2) - 1) \<le> n div 2" "n div 2 < 2 ^ bit_length (n div 2)"
      "0 < bit_length (n div 2)" by auto
    have b: "bit_length n = Suc (bit_length (n div 2))"
      using 1 by (subst bit_length.simps) simp
    have "2 * 2 ^ (bit_length (n div 2) - 1) = (2::nat) ^ bit_length (n div 2)"
      using IH(3) by (simp flip: power_Suc)
    moreover have "n div 2 * 2 \<le> n" "n < (n div 2 + 1) * 2" by simp_all
    moreover have "n div 2 + 1 \<le> 2 ^ bit_length (n div 2)" using IH(2) by simp
    ultimately show ?thesis using IH(1) unfolding b by (simp, linarith)
  qed
qed

text \<open>\<open>\<lfloor>log 2 x\<rfloor>\<close> for a positive rational, from the lengths of numerator and denominator.\<close>

definition binary_exponent :: "rat \<Rightarrow> int" where
  "binary_exponent x =
     (case quotient_of x of (p, q) \<Rightarrow>
        (let n = int (bit_length (nat p)) - int (bit_length (nat q))
         in if 2 powi n \<le> x then n else n - 1))"

lemma powi_nat: "(2::rat) powi (int m - int n) = 2 ^ m / 2 ^ n"
  by (simp add: power_int_diff)

lemma binary_exponent_bounds:
  assumes "0 < x"
  shows "2 powi binary_exponent x \<le> x \<and> x < 2 powi (binary_exponent x + 1)"
proof -
  obtain p q where pq: "quotient_of x = (p, q)" by (cases "quotient_of x")
  then have q: "0 < q" and x: "x = of_int p / of_int q"
    by (rule quotient_of_denom_pos, rule quotient_of_div)
  have p: "0 < p" using assms q x by (simp add: zero_less_divide_iff)
  define a b where "a = bit_length (nat p)" and "b = bit_length (nat q)"
  have a: "2 ^ (a - 1) \<le> nat p" "nat p < 2 ^ a" "0 < a"
    and b: "2 ^ (b - 1) \<le> nat q" "nat q < 2 ^ b" "0 < b"
    using bit_length_bounds [of "nat p"] bit_length_bounds [of "nat q"] p q
    by (auto simp: a_def b_def)
  have nats: "of_int p = (of_nat (nat p) :: rat)" "of_int q = (of_nat (nat q) :: rat)"
    using p q by (simp_all add: of_nat_nat)
  have pr: "2 ^ (a - 1) \<le> (of_int p :: rat)" "(of_int p :: rat) < 2 ^ a"
    and qr: "2 ^ (b - 1) \<le> (of_int q :: rat)" "(of_int q :: rat) < 2 ^ b"
    unfolding nats using a b by (metis of_nat_le_iff of_nat_less_iff of_nat_power of_nat_numeral)+
  let ?n = "int a - int b"
  have "2 powi (?n - 1) = 2 ^ (a - 1) / (2::rat) ^ b"
    using powi_nat [of "a - 1" b] a(3) by (simp add: algebra_simps of_nat_diff)
  also have "\<dots> \<le> x"
    using pr qr p q unfolding x by (intro frac_le) (simp_all add: less_imp_le)
  finally have lo: "2 powi (?n - 1) \<le> x" .
  have "x \<le> of_int p / 2 ^ (b - 1)"
    using pr qr p q unfolding x by (intro divide_left_mono) simp_all
  also have "\<dots> < 2 ^ a / 2 ^ (b - 1)"
    using pr by (intro divide_strict_right_mono) simp_all
  also have "\<dots> = 2 powi (?n + 1)"
    using powi_nat [of a "b - 1"] b(3) by (simp add: algebra_simps of_nat_diff)
  finally have hi: "x < 2 powi (?n + 1)" .
  show ?thesis
    using lo hi by (auto simp: binary_exponent_def pq a_def [symmetric] b_def [symmetric] Let_def)
qed

lemma powi_mono: "m \<le> n \<Longrightarrow> (2::rat) powi m \<le> 2 powi n"
  by (simp add: power_int_increasing)

lemma binary_exponent_mono:
  assumes "0 < x" "x \<le> y"
  shows "binary_exponent x \<le> binary_exponent y"
proof (rule ccontr)
  assume "\<not> ?thesis"
  then have "binary_exponent y + 1 \<le> binary_exponent x" by simp
  then have "(2::rat) powi (binary_exponent y + 1) \<le> 2 powi binary_exponent x" by (rule powi_mono)
  with binary_exponent_bounds [of x] binary_exponent_bounds [of y] assms show False by linarith
qed

section \<open>Rounding to binary64\<close>

text \<open>The spacing of the binary64 values around \<open>x\<close>, as an exponent of two.\<close>

definition ulp_exponent :: "rat \<Rightarrow> int" where
  "ulp_exponent x = max (-1074) (binary_exponent x - 52)"

definition fl_pos :: "rat \<Rightarrow> rat" where
  "fl_pos x = of_int (round_half_even (x / 2 powi ulp_exponent x)) * 2 powi ulp_exponent x"

definition fl :: "rat \<Rightarrow> rat" where
  "fl x = (if x = 0 then 0 else if 0 < x then fl_pos x else - fl_pos (- x))"

lemma ulp_exponent_mono: "0 < x \<Longrightarrow> x \<le> y \<Longrightarrow> ulp_exponent x \<le> ulp_exponent y"
  using binary_exponent_mono by (fastforce simp: ulp_exponent_def)

text \<open>A multiple of the spacing is a value of its own; rounding does not cross it.\<close>

lemma fl_pos_le_grid:
  assumes "x \<le> of_int k * 2 powi ulp_exponent x"
  shows "fl_pos x \<le> of_int k * 2 powi ulp_exponent x"
proof -
  have "x / 2 powi ulp_exponent x \<le> of_int k" using assms by (simp add: divide_le_eq)
  then have "round_half_even (x / 2 powi ulp_exponent x) \<le> k"
    using round_half_even_mono by fastforce
  then show ?thesis by (simp add: fl_pos_def)
qed

lemma fl_pos_ge_grid:
  assumes "of_int k * 2 powi ulp_exponent x \<le> x"
  shows "of_int k * 2 powi ulp_exponent x \<le> fl_pos x"
proof -
  have "of_int k \<le> x / 2 powi ulp_exponent x" using assms by (simp add: le_divide_eq)
  then have "k \<le> round_half_even (x / 2 powi ulp_exponent x)"
    using round_half_even_mono by fastforce
  then show ?thesis by (simp add: fl_pos_def)
qed

lemma powi_grid:
  assumes "e \<le> n"
  shows "(2::rat) powi n = of_int (2 ^ nat (n - e)) * 2 powi e"
proof -
  have "(2::rat) powi n = 2 powi ((n - e) + e)" by simp
  also have "\<dots> = 2 powi (n - e) * 2 powi e" by (rule power_int_add) simp
  also have "(2::rat) powi (n - e) = 2 ^ nat (n - e)"
    using assms by (simp add: power_int_def)
  finally show ?thesis by simp
qed

lemma fl_pos_mono:
  assumes "0 < x" "x \<le> y"
  shows "fl_pos x \<le> fl_pos y"
proof (cases "ulp_exponent x = ulp_exponent y")
  case True
  have "x / 2 powi ulp_exponent y \<le> y / 2 powi ulp_exponent y"
    using assms by (simp add: divide_right_mono)
  with True show ?thesis by (simp add: fl_pos_def round_half_even_mono)
next
  case False
  let ?e = "ulp_exponent x" and ?f = "ulp_exponent y" and ?b = "binary_exponent y"
  have lt: "?e < ?f" using False ulp_exponent_mono assms by fastforce
  then have f: "?f = ?b - 52" and b: "binary_exponent x < ?b" by (auto simp: ulp_exponent_def)
  have e: "?e \<le> ?b" "?f \<le> ?b" using lt f by simp_all
  have "x \<le> 2 powi ?b"
    using binary_exponent_bounds [of x] assms powi_mono [of "binary_exponent x + 1" ?b] b by simp
  then have "fl_pos x \<le> 2 powi ?b"
    using fl_pos_le_grid [of x "2 ^ nat (?b - ?e)"] powi_grid [OF e(1)] by simp
  also have "2 powi ?b \<le> fl_pos y"
    using fl_pos_ge_grid [of "2 ^ nat (?b - ?f)" y] powi_grid [OF e(2)]
      binary_exponent_bounds [of y] assms by simp
  finally show ?thesis .
qed

lemma fl_pos_nonneg: "0 < x \<Longrightarrow> 0 \<le> fl_pos x"
  using fl_pos_ge_grid [of 0 x] by simp

lemma fl_mono: "x \<le> y \<Longrightarrow> fl x \<le> fl y"
  using fl_pos_mono [of x y] fl_pos_mono [of "- y" "- x"] fl_pos_nonneg [of y] fl_pos_nonneg [of "- x"]
  by (auto simp: fl_def)

lemma fl_pos_of_int:
  assumes "0 < n" "n < 2 ^ 53"
  shows "fl_pos (of_int n) = of_int n"
proof -
  let ?x = "of_int n :: rat"
  have "binary_exponent ?x < 53"
  proof (rule ccontr)
    assume "\<not> ?thesis"
    then have "(2::rat) powi 53 \<le> 2 powi binary_exponent ?x" by (intro powi_mono) simp
    with binary_exponent_bounds [of ?x] assms have "(2::rat) powi 53 \<le> ?x" by simp
    moreover have "(2::rat) powi 53 = of_int (2 ^ 53)" by (simp add: power_int_def)
    ultimately show False using assms(2) by (simp only: of_int_le_iff)
  qed
  then have e: "ulp_exponent ?x \<le> 0" by (simp add: ulp_exponent_def)
  define k where "k = n * 2 ^ nat (0 - ulp_exponent ?x)"
  have g: "of_int k * 2 powi ulp_exponent ?x = ?x"
    using powi_grid [OF e] by (simp add: k_def mult.assoc)
  have "fl_pos ?x \<le> of_int k * 2 powi ulp_exponent ?x" "of_int k * 2 powi ulp_exponent ?x \<le> fl_pos ?x"
    by (rule fl_pos_le_grid, simp only: g order_refl, rule fl_pos_ge_grid, simp only: g order_refl)
  with g show ?thesis by simp
qed

lemma fl_of_int:
  assumes "\<bar>n\<bar> < 2 ^ 53"
  shows "fl (of_int n) = of_int n"
  using fl_pos_of_int [of n] fl_pos_of_int [of "- n"] assms by (auto simp: fl_def)

section \<open>What computations on numbers rely on\<close>

text \<open>\<open>Math.round(x)\<close>: the nearest integer, a tie towards plus infinity.\<close>

definition math_round :: "rat \<Rightarrow> int" where
  "math_round x = \<lfloor>x + 1/2\<rfloor>"

locale rounding =
  fixes rnd :: "rat \<Rightarrow> rat"
  assumes rnd_mono: "x \<le> y \<Longrightarrow> rnd x \<le> rnd y"
    and rnd_of_int: "\<bar>n\<bar> < 2 ^ 53 \<Longrightarrow> rnd (of_int n) = of_int n"
begin

lemma rnd_nonneg: "0 \<le> x \<Longrightarrow> 0 \<le> rnd x"
  using rnd_mono [of 0 x] rnd_of_int [of 0] by simp

lemma rnd_between: "of_int a \<le> x \<Longrightarrow> x \<le> of_int b \<Longrightarrow> \<bar>a\<bar> < 2 ^ 53 \<Longrightarrow> \<bar>b\<bar> < 2 ^ 53 \<Longrightarrow>
    of_int a \<le> rnd x \<and> rnd x \<le> of_int b"
  using rnd_mono [of "of_int a" x] rnd_mono [of x "of_int b"] rnd_of_int [of a] rnd_of_int [of b]
  by simp

text \<open>Rounding to a number of hundredths, in rounded arithmetic.\<close>

definition hundredths :: "rat \<Rightarrow> rat" where
  "hundredths x = rnd (of_int (math_round (rnd (x * 100))) / 100)"

lemma hundredths_mono: "x \<le> y \<Longrightarrow> hundredths x \<le> hundredths y"
proof -
  assume "x \<le> y"
  then have "rnd (x * 100) \<le> rnd (y * 100)" by (intro rnd_mono) simp
  then have "math_round (rnd (x * 100)) \<le> math_round (rnd (y * 100))"
    unfolding math_round_def by (intro floor_mono) simp
  then show ?thesis unfolding hundredths_def by (intro rnd_mono divide_right_mono) simp_all
qed

lemma hundredths_of_int:
  assumes "\<bar>n\<bar> < 2 ^ 46"
  shows "hundredths (of_int n) = of_int n"
proof -
  have "rnd (of_int (n * 100)) = of_int (n * 100)" "rnd (of_int n) = of_int n"
    using assms by (intro rnd_of_int; simp)+
  moreover have "\<lfloor>of_int (n * 100) + 1 / (2::rat)\<rfloor> = n * 100" by linarith
  ultimately show ?thesis by (simp add: hundredths_def math_round_def)
qed

lemma hundredths_le_of_int: "x \<le> of_int n \<Longrightarrow> \<bar>n\<bar> < 2 ^ 46 \<Longrightarrow> hundredths x \<le> of_int n"
  using hundredths_mono [of x "of_int n"] hundredths_of_int [of n] by simp

lemma hundredths_ge_of_int: "of_int n \<le> x \<Longrightarrow> \<bar>n\<bar> < 2 ^ 46 \<Longrightarrow> of_int n \<le> hundredths x"
  using hundredths_mono [of "of_int n" x] hundredths_of_int [of n] by simp

end

interpretation binary64: rounding fl
  by unfold_locales (auto intro: fl_mono fl_of_int)

end
