(* ===== verification/Scoring.thy ===== *)
theory Scoring
  imports Machines Binary64
begin

text \<open>
  \<open>packages/shared/src/risk-scoring.ts\<close>: the likelihood by impact model on a 1 to 5 scale, the
  rating thresholds, the audit frequency and the heat map. Every arithmetic operation rounds to
  binary64 (\<open>fl\<close>), in the order the source evaluates it; the decimal literals are rounded too.
  A validation failure of the schemas is \<open>None\<close>. The lemmas show that the scores respond
  monotonically to their inputs, and that with the default weights controls never raise a risk.
\<close>

section \<open>Severities are ordered\<close>

fun severity_rank :: "severity \<Rightarrow> nat" where
  "severity_rank LOW = 0"
| "severity_rank MEDIUM = 1"
| "severity_rank HIGH = 2"
| "severity_rank CRITICAL = 3"

lemma severity_rank_inj: "severity_rank a = severity_rank b \<Longrightarrow> a = b"
  by (cases a; cases b) simp_all

instantiation severity :: linorder
begin

definition less_eq_severity :: "severity \<Rightarrow> severity \<Rightarrow> bool" where
  "a \<le> b \<longleftrightarrow> severity_rank a \<le> severity_rank b"

definition less_severity :: "severity \<Rightarrow> severity \<Rightarrow> bool" where
  "a < b \<longleftrightarrow> severity_rank a < severity_rank b"

instance
  by standard (auto simp: less_eq_severity_def less_severity_def intro: severity_rank_inj)

end

section \<open>Inputs, weights and thresholds\<close>

datatype velocity = SLOW | MODERATE | FAST | IMMEDIATE

record thresholds =
  th_low :: rat
  th_medium :: rat
  th_high :: rat
  th_critical :: rat

record scoring_weights =
  sw_likelihood :: "rat option"
  sw_impact :: "rat option"
  sw_velocity :: "rat option"

record risk_input =
  ri_likelihood :: rat
  ri_impact :: rat
  ri_effectiveness :: rat
  ri_velocity :: "velocity option"
  ri_appetite :: "rat option"

record risk_score_result =
  rs_inherent :: rat
  rs_residual_likelihood :: rat
  rs_residual_impact :: rat
  rs_residual :: rat
  rs_rating :: severity
  rs_within_appetite :: "bool option"

definition default_thresholds :: thresholds where
  "default_thresholds = \<lparr> th_low = 5, th_medium = 10, th_high = 16, th_critical = 25 \<rparr>"

definition default_weights :: scoring_weights where
  "default_weights = \<lparr> sw_likelihood = Some 1, sw_impact = Some 1, sw_velocity = Some 0 \<rparr>"

fun velocity_factor :: "velocity \<Rightarrow> rat" where
  "velocity_factor SLOW = fl (85 / 100)"
| "velocity_factor MODERATE = 1"
| "velocity_factor FAST = fl (115 / 100)"
| "velocity_factor IMMEDIATE = fl (13 / 10)"

text \<open>\<open>scaleValue\<close>: an integer from 1 to 5.\<close>

definition scale_value :: "rat \<Rightarrow> bool" where
  "scale_value x \<longleftrightarrow> of_int \<lfloor>x\<rfloor> = x \<and> 1 \<le> x \<and> x \<le> 5"

definition valid_input :: "risk_input \<Rightarrow> bool" where
  "valid_input i \<longleftrightarrow>
     scale_value (ri_likelihood i) \<and> scale_value (ri_impact i) \<and> scale_value (ri_effectiveness i)"

definition weight_likelihood :: "scoring_weights \<Rightarrow> rat" where
  "weight_likelihood w = coalesce (sw_likelihood w) 1"

definition weight_impact :: "scoring_weights \<Rightarrow> rat" where
  "weight_impact w = coalesce (sw_impact w) 1"

definition weight_velocity :: "scoring_weights \<Rightarrow> rat" where
  "weight_velocity w = coalesce (sw_velocity w) 0"

definition valid_weights :: "scoring_weights \<Rightarrow> bool" where
  "valid_weights w \<longleftrightarrow> 0 \<le> weight_likelihood w \<and> 0 \<le> weight_impact w \<and> 0 \<le> weight_velocity w"

section \<open>The scoring functions\<close>

text \<open>\<open>round(n)\<close>: \<open>Math.round(n * 100) / 100\<close>.\<close>

definition round_dp :: "rat \<Rightarrow> rat" where
  "round_dp n = fl (of_int (math_round (fl (n * 100))) / 100)"

definition clamp :: "rat \<Rightarrow> rat \<Rightarrow> rat \<Rightarrow> rat" where
  "clamp n lo hi = max lo (min hi n)"

definition rating_for :: "rat \<Rightarrow> thresholds \<Rightarrow> severity" where
  "rating_for score th =
     (if score \<le> th_low th then LOW
      else if score \<le> th_medium th then MEDIUM
      else if score \<le> th_high th then HIGH
      else CRITICAL)"

definition inherent_score :: "rat \<Rightarrow> rat \<Rightarrow> rat \<Rightarrow> rat \<Rightarrow> rat" where
  "inherent_score wl wi l i = round_dp (fl (fl (l * wl) * fl (i * wi)))"

definition mitigation :: "rat \<Rightarrow> rat" where
  "mitigation c = fl (fl (c - 1) / 4)"

text \<open>\<open>clamp(round(x * (1 - k * mitigation)), 1, 5)\<close> for \<open>k\<close> = 0.8 (likelihood) or 0.4 (impact).\<close>

definition residual_factor :: "rat \<Rightarrow> rat \<Rightarrow> rat \<Rightarrow> rat" where
  "residual_factor k x c = clamp (round_dp (fl (x * fl (1 - fl (fl k * mitigation c))))) 1 5"

definition velocity_multiplier :: "velocity \<Rightarrow> rat \<Rightarrow> rat" where
  "velocity_multiplier v wv = fl (1 + fl (fl (velocity_factor v - 1) * wv))"

definition residual_score :: "rat \<Rightarrow> rat \<Rightarrow> rat \<Rightarrow> rat \<Rightarrow> rat \<Rightarrow> rat" where
  "residual_score wl wi vf rl ri = round_dp (fl (fl (fl (rl * wl) * fl (ri * wi)) * vf))"

definition score_risk :: "risk_input \<Rightarrow> scoring_weights \<Rightarrow> thresholds \<Rightarrow> risk_score_result option" where
  "score_risk i w th =
     (if \<not> valid_input i \<or> \<not> valid_weights w then None
      else
        let wl = weight_likelihood w; wi = weight_impact w;
            rl = residual_factor (8 / 10) (ri_likelihood i) (ri_effectiveness i);
            ri = residual_factor (4 / 10) (ri_impact i) (ri_effectiveness i);
            vf = velocity_multiplier (coalesce (ri_velocity i) MODERATE) (weight_velocity w);
            res = residual_score wl wi vf rl ri
        in Some \<lparr> rs_inherent = inherent_score wl wi (ri_likelihood i) (ri_impact i),
                  rs_residual_likelihood = rl, rs_residual_impact = ri, rs_residual = res,
                  rs_rating = rating_for res th,
                  rs_within_appetite = map_option (\<lambda>a. res \<le> a) (ri_appetite i) \<rparr>)"

fun suggested_frequency_months :: "severity \<Rightarrow> nat" where
  "suggested_frequency_months CRITICAL = 12"
| "suggested_frequency_months HIGH = 18"
| "suggested_frequency_months MEDIUM = 36"
| "suggested_frequency_months LOW = 60"

record heat_map_cell =
  hm_likelihood :: int
  hm_impact :: int
  hm_score :: int
  hm_rating :: severity

definition heat_map_cells :: "thresholds \<Rightarrow> heat_map_cell list" where
  "heat_map_cells th =
     concat (map (\<lambda>l. map (\<lambda>i. \<lparr> hm_likelihood = l, hm_impact = i, hm_score = l * i,
                                 hm_rating = rating_for (of_int (l * i)) th \<rparr>) [1..5]) [1..5])"

section \<open>Monotonicity\<close>

lemma round_dp_hundredths: "round_dp n = binary64.hundredths n"
  by (simp add: round_dp_def binary64.hundredths_def)

lemma round_dp_mono: "x \<le> y \<Longrightarrow> round_dp x \<le> round_dp y"
  by (simp add: round_dp_hundredths binary64.hundredths_mono)

lemma scale_value_int: "scale_value x \<Longrightarrow> \<exists>n. x = of_int n \<and> 1 \<le> n \<and> n \<le> 5"
  unfolding scale_value_def by (metis le_floor_iff of_int_1 of_int_le_iff of_int_numeral)

lemma scale_value_range: "scale_value x \<Longrightarrow> 1 \<le> x \<and> x \<le> 5"
  by (simp add: scale_value_def)

lemma fl_nonneg: "0 \<le> x \<Longrightarrow> 0 \<le> fl x"
  by (rule binary64.rnd_nonneg)

lemma fl_mult_mono:
  "0 \<le> a \<Longrightarrow> a \<le> b \<Longrightarrow> 0 \<le> c \<Longrightarrow> c \<le> d \<Longrightarrow> fl (a * c) \<le> fl (b * d)"
  by (intro fl_mono mult_mono) auto

lemma mitigation_mono: "c \<le> d \<Longrightarrow> mitigation c \<le> mitigation d"
  unfolding mitigation_def by (intro fl_mono divide_right_mono) simp_all

lemma mitigation_range:
  assumes "scale_value c"
  shows "0 \<le> mitigation c \<and> mitigation c \<le> 1"
proof -
  have "of_int 0 \<le> fl (c - 1) \<and> fl (c - 1) \<le> of_int 4"
    using scale_value_range [OF assms] by (intro binary64.rnd_between) simp_all
  then have "of_int 0 \<le> fl (fl (c - 1) / 4) \<and> fl (fl (c - 1) / 4) \<le> of_int 1"
    by (intro binary64.rnd_between) simp_all
  then show ?thesis by (simp add: mitigation_def)
qed

lemma mitigating_factor_range:
  assumes "0 \<le> k" "k \<le> 1" "scale_value c"
  shows "0 \<le> fl (1 - fl (fl k * mitigation c)) \<and> fl (1 - fl (fl k * mitigation c)) \<le> 1"
proof -
  have k: "of_int 0 \<le> fl k \<and> fl k \<le> of_int 1"
    using assms by (intro binary64.rnd_between) simp_all
  have m: "0 \<le> mitigation c" "mitigation c \<le> 1" using mitigation_range [OF assms(3)] by auto
  have "of_int 0 \<le> fl (fl k * mitigation c) \<and> fl (fl k * mitigation c) \<le> of_int 1"
    using k m mult_le_one [of "fl k" "mitigation c"] by (intro binary64.rnd_between) simp_all
  then have "of_int 0 \<le> fl (1 - fl (fl k * mitigation c)) \<and> fl (1 - fl (fl k * mitigation c)) \<le> of_int 1"
    by (intro binary64.rnd_between) simp_all
  then show ?thesis by simp
qed

lemma clamp_mono: "x \<le> y \<Longrightarrow> clamp x lo hi \<le> clamp y lo hi"
  by (auto simp: clamp_def)

lemma residual_factor_range: "1 \<le> residual_factor k x c \<and> residual_factor k x c \<le> 5"
  by (simp add: residual_factor_def clamp_def)

lemma residual_factor_mono:
  assumes "0 \<le> k" "k \<le> 1" "scale_value x" "scale_value c" "scale_value d" "x \<le> y" "d \<le> c"
  shows "residual_factor k x c \<le> residual_factor k y d"
proof -
  have "0 \<le> fl k" using assms(1) by (rule fl_nonneg)
  then have "fl (fl k * mitigation d) \<le> fl (fl k * mitigation c)"
    using mitigation_mono [OF assms(7)] by (intro fl_mono mult_left_mono)
  then have "fl (1 - fl (fl k * mitigation c)) \<le> fl (1 - fl (fl k * mitigation d))"
    by (intro fl_mono) simp
  then have "fl (x * fl (1 - fl (fl k * mitigation c))) \<le> fl (y * fl (1 - fl (fl k * mitigation d)))"
    using scale_value_range [OF assms(3)] assms(6) mitigating_factor_range [OF assms(1,2,4)]
    by (intro fl_mult_mono) auto
  then show ?thesis unfolding residual_factor_def by (intro clamp_mono round_dp_mono)
qed

text \<open>Controls only lower likelihood and impact.\<close>

lemma residual_factor_le:
  assumes "0 \<le> k" "k \<le> 1" "scale_value x" "scale_value c"
  shows "residual_factor k x c \<le> x"
proof -
  obtain n where n: "x = of_int n" "1 \<le> n" "n \<le> 5" using scale_value_int [OF assms(3)] by blast
  have "x * fl (1 - fl (fl k * mitigation c)) \<le> x * 1"
    using mitigating_factor_range [OF assms(1,2,4)] n by (intro mult_left_mono) auto
  then have "fl (x * fl (1 - fl (fl k * mitigation c))) \<le> fl (of_int n)"
    using n by (intro fl_mono) simp
  also have "\<dots> = of_int n" using n by (intro fl_of_int) simp
  finally have "round_dp (fl (x * fl (1 - fl (fl k * mitigation c)))) \<le> of_int n"
    unfolding round_dp_hundredths using n by (intro binary64.hundredths_le_of_int) simp_all
  then show ?thesis using n by (simp add: residual_factor_def clamp_def)
qed

lemma residual_score_mono:
  assumes "0 \<le> wl" "0 \<le> wi" "0 \<le> vf" "0 \<le> l" "l \<le> l'" "0 \<le> i" "i \<le> i'"
  shows "residual_score wl wi vf l i \<le> residual_score wl wi vf l' i'"
  unfolding residual_score_def using assms
  by (intro round_dp_mono fl_mult_mono fl_nonneg mult_nonneg_nonneg order_refl) auto

lemma inherent_score_mono:
  assumes "0 \<le> wl" "0 \<le> wi" "0 \<le> l" "l \<le> l'" "0 \<le> i" "i \<le> i'"
  shows "inherent_score wl wi l i \<le> inherent_score wl wi l' i'"
  unfolding inherent_score_def using assms
  by (intro round_dp_mono fl_mult_mono fl_nonneg mult_nonneg_nonneg order_refl) auto

lemma rating_for_mono:
  assumes "th_low th \<le> th_medium th" "th_medium th \<le> th_high th" "s \<le> s'"
  shows "rating_for s th \<le> rating_for s' th"
  using assms by (auto simp: rating_for_def less_eq_severity_def)

lemma velocity_multiplier_zero: "velocity_multiplier v 0 = 1"
  using fl_of_int [of 1] by (simp add: velocity_multiplier_def fl_def)

lemma velocity_multiplier_moderate: "velocity_multiplier MODERATE wv = 1"
  using fl_of_int [of 1] by (simp add: velocity_multiplier_def fl_def)

lemma score_risk_Some:
  "score_risk i w th = Some r \<longleftrightarrow>
     valid_input i \<and> valid_weights w \<and>
     rs_inherent r = inherent_score (weight_likelihood w) (weight_impact w) (ri_likelihood i) (ri_impact i) \<and>
     rs_residual_likelihood r = residual_factor (8 / 10) (ri_likelihood i) (ri_effectiveness i) \<and>
     rs_residual_impact r = residual_factor (4 / 10) (ri_impact i) (ri_effectiveness i) \<and>
     rs_residual r = residual_score (weight_likelihood w) (weight_impact w)
       (velocity_multiplier (coalesce (ri_velocity i) MODERATE) (weight_velocity w))
       (rs_residual_likelihood r) (rs_residual_impact r) \<and>
     rs_rating r = rating_for (rs_residual r) th \<and>
     rs_within_appetite r = map_option (\<lambda>a. rs_residual r \<le> a) (ri_appetite i)"
  by (cases r) (auto simp: score_risk_def Let_def)

text \<open>
  Scoring is monotone. If a risk is at least as likely, has at least the impact and has
  controls at most as effective as another of the same velocity, then with any weights for which
  the velocity multiplier is not negative and any ordered thresholds, its inherent score, its
  residual likelihood, impact and score and its rating are at least those of the other.
\<close>

theorem score_risk_monotone:
  assumes "score_risk a w th = Some ra" "score_risk b w th = Some rb"
    and "ri_likelihood a \<le> ri_likelihood b" "ri_impact a \<le> ri_impact b"
    and "ri_effectiveness b \<le> ri_effectiveness a" "ri_velocity a = ri_velocity b"
    and "0 \<le> velocity_multiplier (coalesce (ri_velocity a) MODERATE) (weight_velocity w)"
    and "th_low th \<le> th_medium th" "th_medium th \<le> th_high th"
  shows "rs_inherent ra \<le> rs_inherent rb \<and> rs_residual_likelihood ra \<le> rs_residual_likelihood rb \<and>
    rs_residual_impact ra \<le> rs_residual_impact rb \<and> rs_residual ra \<le> rs_residual rb \<and>
    rs_rating ra \<le> rs_rating rb"
proof -
  note A = assms(1) [unfolded score_risk_Some valid_input_def valid_weights_def]
    and B = assms(2) [unfolded score_risk_Some valid_input_def valid_weights_def]
  have l: "rs_residual_likelihood ra \<le> rs_residual_likelihood rb"
    and i: "rs_residual_impact ra \<le> rs_residual_impact rb"
    using A B assms by (auto intro!: residual_factor_mono)
  have "0 \<le> rs_residual_likelihood ra" "0 \<le> rs_residual_impact ra"
    using A residual_factor_range [of "8/10" "ri_likelihood a" "ri_effectiveness a"]
      residual_factor_range [of "4/10" "ri_impact a" "ri_effectiveness a"] by simp_all
  then have r: "rs_residual ra \<le> rs_residual rb"
    using A B assms l i by (auto intro!: residual_score_mono)
  moreover have "rs_inherent ra \<le> rs_inherent rb"
    using A B assms scale_value_range [of "ri_likelihood a"] scale_value_range [of "ri_impact a"]
    by (auto intro!: inherent_score_mono)
  moreover have "rs_rating ra \<le> rs_rating rb"
    using A B assms r by (auto intro!: rating_for_mono)
  ultimately show ?thesis using l i by simp
qed

text \<open>
  With the default weights (no velocity weight) the scores stay on their scale, and controls
  never raise a risk: the residual likelihood, impact and score are at most the inherent ones.
\<close>

theorem default_scores_bounded:
  assumes "score_risk i default_weights th = Some r"
  shows "1 \<le> rs_residual r \<and> rs_residual r \<le> rs_inherent r \<and> rs_inherent r \<le> 25 \<and>
    rs_inherent r = ri_likelihood i * ri_impact i \<and>
    1 \<le> rs_residual_likelihood r \<and> rs_residual_likelihood r \<le> ri_likelihood i \<and>
    1 \<le> rs_residual_impact r \<and> rs_residual_impact r \<le> ri_impact i"
proof -
  note A = assms [unfolded score_risk_Some valid_input_def default_weights_def weight_likelihood_def
      weight_impact_def weight_velocity_def, simplified]
  obtain l m where l: "ri_likelihood i = of_int l" "1 \<le> l" "l \<le> 5"
    and m: "ri_impact i = of_int m" "1 \<le> m" "m \<le> 5"
    using A scale_value_int by blast
  let ?rl = "rs_residual_likelihood r" and ?ri = "rs_residual_impact r"
  have rl: "1 \<le> ?rl" "?rl \<le> ri_likelihood i" and ri: "1 \<le> ?ri" "?ri \<le> ri_impact i"
    using A residual_factor_range [of "8/10" "ri_likelihood i" "ri_effectiveness i"]
      residual_factor_range [of "4/10" "ri_impact i" "ri_effectiveness i"]
      residual_factor_le [of "8/10" "ri_likelihood i" "ri_effectiveness i"]
      residual_factor_le [of "4/10" "ri_impact i" "ri_effectiveness i"]
    by simp_all
  have exact: "residual_score 1 1 1 (of_int a) (of_int b) = of_int (a * b)"
    "inherent_score 1 1 (of_int a) (of_int b) = of_int (a * b)"
    if "1 \<le> a" "a \<le> 5" "1 \<le> b" "b \<le> 5" for a b
  proof -
    have "a * b \<le> 5 * 5" "1 * 1 \<le> a * b" using that by (intro mult_mono; simp)+
    then have "fl (of_int a) = of_int a" "fl (of_int b) = of_int b" "fl (of_int (a * b)) = of_int (a * b)"
      "round_dp (of_int (a * b)) = of_int (a * b)"
      using that fl_of_int [of a] fl_of_int [of b] fl_of_int [of "a * b"]
        binary64.hundredths_of_int [of "a * b"]
      by (simp_all add: round_dp_hundredths)
    then show "residual_score 1 1 1 (of_int a) (of_int b) = of_int (a * b)"
      "inherent_score 1 1 (of_int a) (of_int b) = of_int (a * b)"
      by (simp_all add: residual_score_def inherent_score_def)
  qed
  have res: "rs_residual r = residual_score 1 1 1 ?rl ?ri"
    using A by (simp add: velocity_multiplier_zero)
  have "rs_residual r \<le> residual_score 1 1 1 (of_int l) (of_int m)"
    unfolding res using rl ri l m by (intro residual_score_mono) auto
  moreover have "residual_score 1 1 1 (of_int 1) (of_int 1) \<le> rs_residual r"
    unfolding res using rl ri by (intro residual_score_mono) auto
  moreover have "l * m \<le> 5 * 5" using l m by (intro mult_mono) simp_all
  then have "of_int (l * m) \<le> (of_int 25 :: rat)" by (simp only: of_int_le_iff)
  moreover have "rs_inherent r = of_int (l * m)"
    using A exact(2) [of l m] l m by simp
  ultimately show ?thesis using rl ri l m exact(1) [of 1 1] exact(1) [of l m] by simp
qed

lemma heat_map_cells_complete:
  "map (\<lambda>c. (hm_likelihood c, hm_impact c)) (heat_map_cells th) = List.product [1..5] [1..5]"
  by (simp add: heat_map_cells_def upto.simps)

definition example_input :: "rat \<Rightarrow> risk_input" where
  "example_input c = \<lparr> ri_likelihood = 4, ri_impact = 5, ri_effectiveness = c,
     ri_velocity = None, ri_appetite = Some 9 \<rparr>"

lemma example_scored:
  assumes "1 \<le> c" "c \<le> 5"
  obtains r where "score_risk (example_input (of_int c)) default_weights default_thresholds = Some r"
proof -
  have "valid_input (example_input (of_int c))" using assms
    by (simp add: valid_input_def scale_value_def example_input_def)
  then show thesis
    using that by (auto simp: score_risk_def Let_def valid_weights_def default_weights_def
        weight_likelihood_def weight_impact_def weight_velocity_def)
qed

lemma score_risk_monotone_witness:
  "\<exists>ra rb. score_risk (example_input 5) default_weights default_thresholds = Some ra \<and>
     score_risk (example_input 1) default_weights default_thresholds = Some rb \<and>
     rs_residual ra \<le> rs_residual rb \<and> rs_rating ra \<le> rs_rating rb"
proof -
  obtain ra where ra: "score_risk (example_input 5) default_weights default_thresholds = Some ra"
    by (rule example_scored [of 5]) simp_all
  obtain rb where rb: "score_risk (example_input 1) default_weights default_thresholds = Some rb"
    by (rule example_scored [of 1]) simp_all
  have "rs_residual ra \<le> rs_residual rb \<and> rs_rating ra \<le> rs_rating rb"
    using score_risk_monotone [OF ra rb]
    by (simp add: example_input_def velocity_multiplier_moderate default_thresholds_def)
  with ra rb show ?thesis by blast
qed

lemma default_scores_bounded_witness:
  "\<exists>r. score_risk (example_input 3) default_weights default_thresholds = Some r \<and>
     1 \<le> rs_residual r \<and> rs_residual r \<le> 20 \<and> rs_inherent r = 20"
proof -
  obtain r where r: "score_risk (example_input 3) default_weights default_thresholds = Some r"
    by (rule example_scored [of 3]) simp_all
  show ?thesis using default_scores_bounded [OF r] r by (auto simp: example_input_def)
qed

end
