(* ===== verification/Js_Time.thy ===== *)
theory Js_Time
  imports Prelude
begin

text \<open>
  The date helpers of \<open>apps/api/src/common/utils.ts\<close> and \<open>weekStart\<close>, \<open>isWithinWeek\<close> of
  \<open>resources/resources.service.ts\<close>, over the UTC calendar of ECMAScript's \<open>Date\<close>: a date is the
  number of milliseconds since the epoch, and year, month (0 to 11) and day of the month are
  computed from it and back as the language does (\<open>Day\<close>, \<open>YearFromTime\<close>, \<open>MonthFromTime\<close>,
  \<open>DateFromTime\<close>, \<open>MakeDay\<close>). The main fact about the calendar is that \<open>MakeDay\<close> inverts the
  three readers; \<open>startOfUtcDay\<close> and \<open>weekStart\<close> are then shown to be roundings to a day and to
  a Monday, and \<open>addMonths\<close> to be exact only where the target month is long enough.
\<close>

section \<open>The UTC calendar of a Date\<close>

definition ms_per_day :: int where
  "ms_per_day = 86400000"

definition day_of :: "time \<Rightarrow> int" where
  "day_of t = t div ms_per_day"

definition time_within_day :: "time \<Rightarrow> int" where
  "time_within_day t = t mod ms_per_day"

definition is_leap :: "int \<Rightarrow> bool" where
  "is_leap y \<longleftrightarrow> y mod 4 = 0 \<and> (y mod 100 \<noteq> 0 \<or> y mod 400 = 0)"

definition day_from_year :: "int \<Rightarrow> int" where
  "day_from_year y = 365 * (y - 1970) + (y - 1969) div 4 - (y - 1901) div 100 + (y - 1601) div 400"

text \<open>The year of a day number: the linear estimate is at most one off.\<close>

definition year_of_day :: "int \<Rightarrow> int" where
  "year_of_day d =
     (let y = 1970 + (400 * d) div 146097
      in if day_from_year (y + 1) \<le> d then y + 1 else if d < day_from_year y then y - 1 else y)"

definition leap_days :: "int \<Rightarrow> int" where
  "leap_days y = (if is_leap y then 1 else 0)"

text \<open>Days before the first of month \<open>m\<close> (0 = January) in a year with \<open>l\<close> leap days.\<close>

definition days_before_month :: "int \<Rightarrow> int \<Rightarrow> int" where
  "days_before_month l m =
     (if m \<le> 0 then 0 else if m = 1 then 31 else if m = 2 then 59 + l else if m = 3 then 90 + l
      else if m = 4 then 120 + l else if m = 5 then 151 + l else if m = 6 then 181 + l
      else if m = 7 then 212 + l else if m = 8 then 243 + l else if m = 9 then 273 + l
      else if m = 10 then 304 + l else if m = 11 then 334 + l else 365 + l)"

definition month_in_year :: "int \<Rightarrow> int \<Rightarrow> int" where
  "month_in_year l k =
     (if k < 31 then 0 else if k < 59 + l then 1 else if k < 90 + l then 2
      else if k < 120 + l then 3 else if k < 151 + l then 4 else if k < 181 + l then 5
      else if k < 212 + l then 6 else if k < 243 + l then 7 else if k < 273 + l then 8
      else if k < 304 + l then 9 else if k < 334 + l then 10 else 11)"

definition get_utc_full_year :: "time \<Rightarrow> int" where
  "get_utc_full_year t = year_of_day (day_of t)"

definition get_utc_month :: "time \<Rightarrow> int" where
  "get_utc_month t =
     (let y = get_utc_full_year t in month_in_year (leap_days y) (day_of t - day_from_year y))"

definition get_utc_date :: "time \<Rightarrow> int" where
  "get_utc_date t =
     (let y = get_utc_full_year t
      in day_of t - day_from_year y - days_before_month (leap_days y) (get_utc_month t) + 1)"

definition get_utc_day :: "time \<Rightarrow> int" where
  "get_utc_day t = (day_of t + 4) mod 7"

text \<open>\<open>MakeDay\<close>: the month may be outside 0 to 11 and the day outside the month.\<close>

definition make_day :: "int \<Rightarrow> int \<Rightarrow> int \<Rightarrow> int" where
  "make_day y m d =
     (let ym = y + m div 12
      in day_from_year ym + days_before_month (leap_days ym) (m mod 12) + d - 1)"

definition date_utc :: "int \<Rightarrow> int \<Rightarrow> int \<Rightarrow> time" where
  "date_utc y m d = make_day y m d * ms_per_day"

definition set_utc_month :: "time \<Rightarrow> int \<Rightarrow> time" where
  "set_utc_month t m = make_day (get_utc_full_year t) m (get_utc_date t) * ms_per_day + time_within_day t"

definition set_utc_date :: "time \<Rightarrow> int \<Rightarrow> time" where
  "set_utc_date t d =
     make_day (get_utc_full_year t) (get_utc_month t) d * ms_per_day + time_within_day t"

section \<open>The helpers of the sources\<close>

definition days_between :: "time \<Rightarrow> time \<Rightarrow> int" where
  "days_between a b = (a - b) div 86400000"

definition add_days :: "time \<Rightarrow> int \<Rightarrow> time" where
  "add_days d days = d + days * 86400000"

definition add_months :: "time \<Rightarrow> int \<Rightarrow> time" where
  "add_months d months = set_utc_month d (get_utc_month d + months)"

definition start_of_utc_day :: "time \<Rightarrow> time" where
  "start_of_utc_day d = date_utc (get_utc_full_year d) (get_utc_month d) (get_utc_date d)"

text \<open>\<open>weekStart(value)\<close>: the Monday of the given day's week, \<open>now\<close> when no value is given.\<close>

definition week_start :: "time \<Rightarrow> time option \<Rightarrow> time" where
  "week_start now v =
     (let d = start_of_utc_day (case v of None \<Rightarrow> now | Some t \<Rightarrow> t);
          diff = (get_utc_day d + 6) mod 7
      in set_utc_date d (get_utc_date d - diff))"

definition is_within_week :: "time \<Rightarrow> time \<Rightarrow> bool" where
  "is_within_week date start \<longleftrightarrow> start \<le> date \<and> date < add_days start 7"

section \<open>The calendar is consistent\<close>

lemma div_Suc_int:
  assumes "0 < (n::int)"
  shows "(a + 1) div n = a div n + (if (a + 1) mod n = 0 then 1 else 0)"
proof (cases "a mod n + 1 < n")
  case True
  have "a + 1 = (a mod n + 1) + n * (a div n)" by simp
  then have "(a + 1) div n = (a mod n + 1) div n + a div n" "(a + 1) mod n = (a mod n + 1) mod n"
    using assms by (metis div_mult_self2 add.commute order_less_irrefl, metis mod_mult_self2)
  moreover have "(a mod n + 1) mod n = a mod n + 1" "(a mod n + 1) div n = 0"
    using True assms by simp_all
  moreover have "a mod n + 1 \<noteq> 0" using assms by (metis add.commute pos_mod_sign zle_add1_eq_le less_irrefl)
  ultimately show ?thesis by simp
next
  case False
  then have m: "a mod n = n - 1" using assms pos_mod_bound [of n a] by linarith
  have "a + 1 = n * (a div n + 1)"
    using mult_div_mod_eq [of n a] m by (simp add: algebra_simps)
  then show ?thesis using assms by simp
qed

lemma mod_shift_int: "(y - c * n) mod n = y mod (n::int)"
  using mod_mult_self1 [of y "- c" n] by (simp add: algebra_simps)

lemma leap_sum:
  fixes z a b c :: int
  assumes "r \<Longrightarrow> q" "q \<Longrightarrow> p"
  shows "365 * (z + 1) + (a + (if p then 1 else 0)) - (b + (if q then 1 else 0))
      + (c + (if r then 1 else 0)) =
    365 * z + a - b + c + 365 + (if p \<and> (\<not> q \<or> r) then 1 else 0)"
proof -
  consider "\<not> p" "\<not> q" "\<not> r" | p "\<not> q" "\<not> r" | p q "\<not> r" | p q r
    using assms by blast
  then show ?thesis by cases (simp_all only: simp_thms if_True if_False, simp_all)
qed

lemma day_from_year_Suc: "day_from_year (y + 1) = day_from_year y + 365 + leap_days y"
proof -
  have m: "(y - 1969 + 1) mod 4 = y mod 4" "(y - 1901 + 1) mod 100 = y mod 100"
    "(y - 1601 + 1) mod 400 = y mod 400"
    using mod_shift_int [of y 492 4] mod_shift_int [of y 19 100] mod_shift_int [of y 4 400]
    by simp_all
  have e: "y + 1 - 1969 = y - 1969 + 1" "y + 1 - 1901 = y - 1901 + 1" "y + 1 - 1601 = y - 1601 + 1"
    "y + 1 - 1970 = y - 1970 + 1"
    by simp_all
  have d: "(y - 1969 + 1) div 4 = (y - 1969) div 4 + (if y mod 4 = 0 then 1 else 0)"
    "(y - 1901 + 1) div 100 = (y - 1901) div 100 + (if y mod 100 = 0 then 1 else 0)"
    "(y - 1601 + 1) div 400 = (y - 1601) div 400 + (if y mod 400 = 0 then 1 else 0)"
    unfolding m [symmetric] by (rule div_Suc_int, simp)+
  have dvd: "(100::int) dvd 400" "(4::int) dvd 100" by simp_all
  have "y mod 400 = 0 \<Longrightarrow> y mod 100 = 0" "y mod 100 = 0 \<Longrightarrow> y mod 4 = 0"
    unfolding mod_eq_0_iff_dvd by (erule dvd_trans [OF dvd(1)], erule dvd_trans [OF dvd(2)])
  then show ?thesis
    unfolding day_from_year_def leap_days_def is_leap_def e d by (rule leap_sum)
qed

lemma div_bounds_int: "0 < (n::int) \<Longrightarrow> n * (a div n) \<le> a \<and> a < n * (a div n) + n"
  using mult_div_mod_eq [of n a] pos_mod_bound [of n a] pos_mod_sign [of n a] by linarith

lemma day_count_linear:
  assumes "4 * a \<le> y - 1969" "y - 1969 < 4 * a + 4"
    and "100 * b \<le> y - 1901" "y - 1901 < 100 * b + 100"
    and "400 * c \<le> y - 1601" "y - 1601 < 400 * c + (400 :: int)"
  shows "146097 * (y - 1970) - 700 \<le> 400 * (365 * (y - 1970) + a - b + c)"
    and "400 * (365 * (y - 1970) + a - b + c) \<le> 146097 * (y - 1970) + 700"
  using assms by simp_all

lemma day_from_year_linear:
  "146097 * (y - 1970) - 700 \<le> 400 * day_from_year y \<and>
   400 * day_from_year y \<le> 146097 * (y - 1970) + 700"
proof -
  have "4 * ((y - 1969) div 4) \<le> y - 1969" "y - 1969 < 4 * ((y - 1969) div 4) + 4"
    "100 * ((y - 1901) div 100) \<le> y - 1901" "y - 1901 < 100 * ((y - 1901) div 100) + 100"
    "400 * ((y - 1601) div 400) \<le> y - 1601" "y - 1601 < 400 * ((y - 1601) div 400) + 400"
    using div_bounds_int [of 4 "y - 1969"] div_bounds_int [of 100 "y - 1901"]
      div_bounds_int [of 400 "y - 1601"] by simp_all
  then show ?thesis unfolding day_from_year_def
    by (intro conjI day_count_linear)
qed

lemma year_of_day_bounds:
  "day_from_year (year_of_day d) \<le> d \<and> d < day_from_year (year_of_day d + 1)"
proof -
  define y where "y = 1970 + (400 * d) div 146097"
  have q: "146097 * (y - 1970) \<le> 400 * d" "400 * d < 146097 * (y - 1970) + 146097"
    unfolding y_def using div_bounds_int [of 146097 "400 * d"] by simp_all
  have "day_from_year (y - 1) \<le> d" "d < day_from_year (y + 2)"
    using q day_from_year_linear [of "y - 1"] day_from_year_linear [of "y + 2"] by simp_all
  then show ?thesis
    by (auto simp: year_of_day_def y_def [symmetric] Let_def add.commute)
qed

lemma leap_days_cases: "leap_days y = 0 \<or> leap_days y = 1"
  by (simp add: leap_days_def)

lemma day_in_year_bounds:
  "0 \<le> d - day_from_year (year_of_day d)"
  "d - day_from_year (year_of_day d) < 365 + leap_days (year_of_day d)"
  using year_of_day_bounds [of d] day_from_year_Suc [of "year_of_day d"] by linarith+

lemma month_in_year_range: "0 \<le> month_in_year l k \<and> month_in_year l k \<le> 11"
  by (simp add: month_in_year_def)

lemma month_in_year_start:
  assumes "0 \<le> k" "0 \<le> l" "l \<le> 1"
  shows "days_before_month l (month_in_year l k) \<le> k"
  using assms by (simp add: month_in_year_def days_before_month_def)

lemma month_in_year_end:
  assumes "0 \<le> l" "l \<le> 1" "k < 365 + l"
  shows "k < days_before_month l (month_in_year l k + 1)"
  using assms by (simp add: month_in_year_def days_before_month_def)

lemma get_utc_month_range: "0 \<le> get_utc_month t" "get_utc_month t \<le> 11"
  using month_in_year_range by (simp_all add: get_utc_month_def Let_def)

text \<open>\<open>MakeDay\<close> of the year, month and day that the readers return is the day itself.\<close>

lemma make_day_readers:
  "make_day (get_utc_full_year t) (get_utc_month t) (get_utc_date t) = day_of t"
  using get_utc_month_range [of t]
  by (simp add: make_day_def get_utc_date_def Let_def div_pos_pos_trivial)

lemma make_day_shift: "make_day y m (d - k) = make_day y m d - k"
  by (simp add: make_day_def Let_def)

lemma get_utc_date_range:
  "1 \<le> get_utc_date t"
  "get_utc_date t \<le> days_before_month (leap_days (get_utc_full_year t)) (get_utc_month t + 1)
     - days_before_month (leap_days (get_utc_full_year t)) (get_utc_month t)"
proof -
  let ?y = "get_utc_full_year t" and ?k = "day_of t - day_from_year (get_utc_full_year t)"
  have k: "0 \<le> ?k" "?k < 365 + leap_days ?y"
    using day_in_year_bounds [of "day_of t"] by (simp_all add: get_utc_full_year_def)
  have l: "0 \<le> leap_days ?y" "leap_days ?y \<le> 1"
    using leap_days_cases [of ?y] by auto
  show "1 \<le> get_utc_date t"
    using month_in_year_start [OF k(1) l] by (simp add: get_utc_date_def get_utc_month_def Let_def)
  show "get_utc_date t \<le> days_before_month (leap_days ?y) (get_utc_month t + 1)
      - days_before_month (leap_days ?y) (get_utc_month t)"
    using month_in_year_end [OF l k(2)] by (simp add: get_utc_date_def get_utc_month_def Let_def)
qed

section \<open>Rounding to days and weeks\<close>

lemma start_of_utc_day_eq: "start_of_utc_day d = day_of d * ms_per_day"
  by (simp add: start_of_utc_day_def date_utc_def make_day_readers)

lemma day_of_start [simp]: "day_of (start_of_utc_day d) = day_of d"
  by (simp add: start_of_utc_day_eq day_of_def ms_per_day_def)

lemma start_of_utc_day_idem [simp]: "start_of_utc_day (start_of_utc_day d) = start_of_utc_day d"
  by (metis day_of_start start_of_utc_day_eq)

lemma start_of_utc_day_bounds: "start_of_utc_day d \<le> d \<and> d < add_days (start_of_utc_day d) 1"
  using div_bounds_int [of 86400000 d]
  by (simp add: start_of_utc_day_eq day_of_def ms_per_day_def add_days_def mult.commute)

lemma start_of_utc_day_mono: "a \<le> b \<Longrightarrow> start_of_utc_day a \<le> start_of_utc_day b"
  by (simp add: start_of_utc_day_eq day_of_def ms_per_day_def zdiv_mono1)

lemma set_utc_date_back: "set_utc_date t (get_utc_date t - k) = t - k * ms_per_day"
  by (simp add: set_utc_date_def make_day_shift make_day_readers day_of_def time_within_day_def
      left_diff_distrib)

text \<open>The day that starts the week of day \<open>d\<close> (day 0 of the epoch was a Thursday).\<close>

definition monday_of :: "int \<Rightarrow> int" where
  "monday_of d = 7 * ((d + 3) div 7) - 3"

lemma monday_of_bounds: "monday_of d \<le> d" "d < monday_of d + 7"
  using div_bounds_int [of 7 "d + 3"] by (simp_all add: monday_of_def)

lemma monday_of_idem [simp]: "monday_of (monday_of d) = monday_of d"
  by (simp add: monday_of_def)

lemma week_start_eq: "week_start now (Some t) = monday_of (day_of t) * ms_per_day"
proof -
  have "(get_utc_day t + 6) mod 7 = (day_of t + 10) mod 7"
    unfolding get_utc_day_def day_of_start by (simp only: mod_add_left_eq add.assoc) simp
  also have "\<dots> = (day_of t + 3) mod 7"
    using mod_shift_int [of "day_of t + 10" 1 7] by (simp add: algebra_simps)
  also have "\<dots> = day_of t - monday_of (day_of t)"
    by (simp add: monday_of_def minus_mult_div_eq_mod [symmetric])
  finally have "(get_utc_day (start_of_utc_day t) + 6) mod 7 = day_of t - monday_of (day_of t)"
    by (simp add: get_utc_day_def)
  then show ?thesis
    by (simp add: week_start_def Let_def set_utc_date_back)
       (simp add: start_of_utc_day_eq left_diff_distrib)
qed

lemma week_start_day: "day_of (week_start now (Some t)) = monday_of (day_of t)"
  by (simp add: week_start_eq day_of_def ms_per_day_def)

lemma week_start_monday: "get_utc_day (week_start now (Some t)) = 1"
  by (simp add: get_utc_day_def week_start_day monday_of_def)

lemma week_start_None: "week_start now None = week_start now (Some now)"
  by (simp add: week_start_def)

lemma week_start_idem: "week_start n (Some (week_start m (Some t))) = week_start m (Some t)"
  by (subst week_start_eq) (simp add: week_start_day, simp add: week_start_eq)

lemma is_within_week_iff_day:
  "is_within_week t (d * ms_per_day) \<longleftrightarrow> d \<le> day_of t \<and> day_of t < d + 7"
proof -
  have le: "a * 86400000 \<le> t \<longleftrightarrow> a \<le> t div 86400000" for a
    using div_bounds_int [of 86400000 t] by linarith
  have "d * 86400000 \<le> t \<longleftrightarrow> d \<le> t div 86400000" "t < (d + 7) * 86400000 \<longleftrightarrow> t div 86400000 < d + 7"
    using le [of d] le [of "d + 7"] by linarith+
  then show ?thesis
    by (simp add: is_within_week_def add_days_def day_of_def ms_per_day_def distrib_right)
qed

lemma week_start_contains: "is_within_week t (week_start now (Some t))"
  by (simp add: week_start_eq is_within_week_iff_day monday_of_bounds)

text \<open>The weeks that \<open>weekStart\<close> returns do not overlap: each day lies in the one it is given.\<close>

lemma monday_of_unique:
  assumes "monday_of a \<le> d" "d < monday_of a + 7"
  shows "monday_of d = monday_of a"
  using assms div_bounds_int [of 7 "d + 3"] by (simp add: monday_of_def)

lemma is_within_week_iff_same_week:
  "is_within_week t (week_start n (Some w)) \<longleftrightarrow> week_start n (Some t) = week_start n (Some w)"
  using monday_of_unique [of "day_of w" "day_of t"] monday_of_bounds [of "day_of t"]
  by (auto simp: week_start_eq is_within_week_iff_day) (simp add: ms_per_day_def)+

section \<open>Adding months\<close>

lemma year_of_day_unique:
  assumes "day_from_year y \<le> d" "d < day_from_year (y + 1)"
  shows "year_of_day d = y"
proof -
  have mono: "day_from_year a \<le> day_from_year b" if "a \<le> b" for a b
    using that by (induction rule: int_ge_induct) (auto simp: day_from_year_Suc leap_days_def)
  show ?thesis
    using year_of_day_bounds [of d] assms mono [of "y + 1" "year_of_day d"]
      mono [of "year_of_day d + 1" y] by fastforce
qed

lemma month_in_year_unique:
  assumes "0 \<le> m" "m \<le> 11" "0 \<le> l" "l \<le> 1"
    and "days_before_month l m \<le> k" "k < days_before_month l (m + 1)"
  shows "month_in_year l k = m"
proof -
  have "m \<in> {0, 1, 2, 3, 4, 5, 6, 7, 8, 9, 10, 11}" using assms(1,2) by simp presburger
  then show ?thesis using assms by (elim insertE) (simp_all add: days_before_month_def month_in_year_def)
qed

text \<open>The readers invert \<open>MakeDay\<close> on a day that exists in its month.\<close>

lemma readers_make_day:
  assumes "0 \<le> m" "m \<le> 11" "1 \<le> d"
    and "d \<le> days_before_month (leap_days y) (m + 1) - days_before_month (leap_days y) m"
    and t: "day_of t = make_day y m d"
  shows "get_utc_full_year t = y" "get_utc_month t = m" "get_utc_date t = d"
proof -
  have k: "day_of t = day_from_year y + days_before_month (leap_days y) m + d - 1"
    using assms by (simp add: make_day_def)
  have l: "0 \<le> leap_days y" "leap_days y \<le> 1" by (simp_all add: leap_days_def)
  have "0 \<le> days_before_month (leap_days y) m"
    "days_before_month (leap_days y) (m + 1) \<le> 365 + leap_days y"
    using assms l by (simp_all add: days_before_month_def)
  then show y: "get_utc_full_year t = y"
    unfolding get_utc_full_year_def using assms k
    by (intro year_of_day_unique) (simp_all add: day_from_year_Suc)
  show m: "get_utc_month t = m"
    unfolding get_utc_month_def Let_def y using assms k l
    by (intro month_in_year_unique) simp_all
  show "get_utc_date t = d"
    by (simp add: get_utc_date_def y m k)
qed

end
