(* ===== verification/Ageing.thy ===== *)
theory Ageing
  imports Js_Time
begin

text \<open>
  \<open>packages/shared/src/ageing.ts\<close> (ageing buckets, days overdue, the escalation ladder) and
  \<open>apps/api/src/jobs/reminder-schedule.ts\<close> (when an item with a due date is reminded about). The
  lemmas relate the buckets to the number of days overdue, show the ladder monotone in time, and
  characterise the days on which a reminder fires.
\<close>

datatype age_bucket = NOT_DUE | Days_1_30 | Days_31_60 | Days_61_90 | Days_91_180 | Days_180_plus

fun ageing_bucket :: "time option \<Rightarrow> time \<Rightarrow> age_bucket" where
  "ageing_bucket None now = NOT_DUE"
| "ageing_bucket (Some due) now =
     (let days = (now - due) div 86400000
      in if days \<le> 0 then NOT_DUE
         else if days \<le> 30 then Days_1_30
         else if days \<le> 60 then Days_31_60
         else if days \<le> 90 then Days_61_90
         else if days \<le> 180 then Days_91_180
         else Days_180_plus)"

fun days_overdue :: "time option \<Rightarrow> time \<Rightarrow> int" where
  "days_overdue None now = 0"
| "days_overdue (Some due) now =
     (let days = (now - due) div 86400000 in if days > 0 then days else 0)"

definition escalation_level :: "int \<Rightarrow> nat" where
  "escalation_level n = (if n \<le> 0 then 0 else if n \<le> 14 then 1 else if n \<le> 45 then 2 else 3)"

definition before_due_days :: "int list" where
  "before_due_days = [14, 7, 1]"

definition after_due_every_days :: int where
  "after_due_every_days = 7"

datatype reminder_reason = before_due | overdue | none

record reminder_decision =
  rd_remind :: bool
  rd_days_until_due :: int
  rd_days_overdue :: int
  rd_level :: nat
  rd_reason :: reminder_reason

text \<open>\<open>Math.round(ms / 86400000)\<close>, a tie towards plus infinity.\<close>

definition rounded_days :: "int \<Rightarrow> int" where
  "rounded_days ms = (2 * ms + 86400000) div 172800000"

text \<open>
  \<open>sinceLast\<close> is \<open>Infinity\<close> when there was no reminder, here the \<open>None\<close> branch of the
  comparison.
\<close>

definition reminder_decision_for :: "time \<Rightarrow> time option \<Rightarrow> time \<Rightarrow> reminder_decision" where
  "reminder_decision_for due_date last_reminder_at now =
     (let today = start_of_utc_day now;
          due = start_of_utc_day due_date;
          days_until_due = rounded_days (due - today);
          overdue_days = days_overdue (Some due_date) now;
          level = escalation_level overdue_days;
          reminded_today = (case last_reminder_at of None \<Rightarrow> False
                            | Some l \<Rightarrow> start_of_utc_day l = today)
      in if days_until_due > 0 then
           (let scheduled = days_until_due \<in> set before_due_days
            in \<lparr> rd_remind = (scheduled \<and> \<not> reminded_today), rd_days_until_due = days_until_due,
                 rd_days_overdue = 0, rd_level = 0,
                 rd_reason = (if scheduled then before_due else none) \<rparr>)
         else
           (let since_ok = (case last_reminder_at of None \<Rightarrow> True
                            | Some l \<Rightarrow> (now - l) div 86400000 \<ge> after_due_every_days);
                due_now = (since_ok \<or> (days_until_due = 0 \<and> \<not> reminded_today))
            in \<lparr> rd_remind = (due_now \<and> \<not> reminded_today), rd_days_until_due = days_until_due,
                 rd_days_overdue = overdue_days, rd_level = level, rd_reason = overdue \<rparr>))"

section \<open>Ageing\<close>

lemma days_overdue_nonneg: "0 \<le> days_overdue d now"
  by (cases d) (simp_all add: Let_def)

lemma days_overdue_mono: "now \<le> later \<Longrightarrow> days_overdue d now \<le> days_overdue d later"
  using zdiv_mono1 [of "now - the d" "later - the d" 86400000] by (cases d) (auto simp: Let_def)

lemma ageing_bucket_days:
  "ageing_bucket d now =
     (let n = days_overdue d now
      in if n = 0 then NOT_DUE else if n \<le> 30 then Days_1_30 else if n \<le> 60 then Days_31_60
         else if n \<le> 90 then Days_61_90 else if n \<le> 180 then Days_91_180 else Days_180_plus)"
  by (cases d) (auto simp: Let_def)

lemma escalation_level_mono: "m \<le> n \<Longrightarrow> escalation_level m \<le> escalation_level n"
  by (simp add: escalation_level_def)

lemma escalation_level_le_3: "escalation_level n \<le> 3"
  by (simp add: escalation_level_def)

section \<open>Reminders\<close>

lemma days_until_due_exact:
  "rounded_days (start_of_utc_day a - start_of_utc_day b) = day_of a - day_of b"
proof -
  have "2 * (start_of_utc_day a - start_of_utc_day b) + 86400000 =
      86400000 + 172800000 * (day_of a - day_of b)"
    by (simp add: start_of_utc_day_eq ms_per_day_def algebra_simps)
  then show ?thesis by (simp only: rounded_days_def div_mult_self2)
qed

lemma same_day_iff: "start_of_utc_day a = start_of_utc_day b \<longleftrightarrow> day_of a = day_of b"
  by (simp add: start_of_utc_day_eq ms_per_day_def)

definition reminded_on :: "time option \<Rightarrow> int \<Rightarrow> bool" where
  "reminded_on l d = (case l of None \<Rightarrow> False | Some t \<Rightarrow> day_of t = d)"

lemma day_of_mono: "a \<le> b \<Longrightarrow> day_of a \<le> day_of b"
  by (simp add: day_of_def ms_per_day_def zdiv_mono1)

lemma remind_iff:
  "rd_remind (reminder_decision_for due l now) \<longleftrightarrow>
     \<not> reminded_on l (day_of now) \<and>
     (if day_of now < day_of due then day_of due - day_of now \<in> {14, 7, 1}
      else day_of now = day_of due \<or> (\<forall>t. l = Some t \<longrightarrow> 7 \<le> (now - t) div 86400000))"
  by (auto simp: reminder_decision_for_def days_until_due_exact same_day_iff Let_def reminded_on_def
      before_due_days_def after_due_every_days_def split: option.splits)



end
