(* ===== verification/Pagination.thy ===== *)
theory Pagination
  imports Prelude
begin

text \<open>
  \<open>common/pagination.ts\<close>: the page a list query asks for, the contract shape of a list, and the
  allow-listed sort order; and the \<open>contains ... mode: insensitive\<close> filter of the list queries. The
  order of a query is the database's: \<open>paginate\<close> takes the ordered rows that match.
\<close>

record page_query =
  pq_page :: "int option"
  pq_size :: "int option"

record page_args =
  pa_skip :: int
  pa_take :: int
  pa_page :: int
  pa_size :: int

definition page_args_of :: "page_query \<Rightarrow> page_args" where
  "page_args_of dto =
     (let page = max 1 (coalesce (pq_page dto) 1);
          size = min 200 (max 1 (coalesce (pq_size dto) 25))
      in \<lparr> pa_skip = (page - 1) * size, pa_take = size, pa_page = page, pa_size = size \<rparr>)"

record 'r page =
  pg_items :: "'r list"
  pg_total :: nat
  pg_page :: int
  pg_size :: int

definition paginate :: "page_query \<Rightarrow> 'r list \<Rightarrow> 'r page" where
  "paginate dto rows =
     (let a = page_args_of dto
      in \<lparr> pg_items = take (nat (pa_take a)) (drop (nat (pa_skip a)) rows),
           pg_total = length rows, pg_page = pa_page a, pg_size = pa_size a \<rparr>)"

datatype sort_order = Asc | Desc

text \<open>\<open>sort.split(':')\<close>: the parts between the separators.\<close>

fun split_on :: "char \<Rightarrow> string \<Rightarrow> string list" where
  "split_on c [] = [[]]"
| "split_on c (x # xs) =
     (if x = c then [] # split_on c xs
      else (case split_on c xs of [] \<Rightarrow> [[x]] | p # ps \<Rightarrow> (x # p) # ps))"

definition parse_sort ::
  "string option \<Rightarrow> string list \<Rightarrow> (string \<times> sort_order) list \<Rightarrow> (string \<times> sort_order) list" where
  "parse_sort srt allowed fallback =
     (case srt of
        None \<Rightarrow> fallback
      | Some s \<Rightarrow>
          if s = [] then fallback
          else
            let parts = split_on (CHR '':'') s;
                field = hd parts;
                dir = (case tl parts of [] \<Rightarrow> Asc | d # _ \<Rightarrow> if to_lower d = ''desc'' then Desc else Asc)
            in if field \<in> set allowed then [(field, dir)] else fallback)"

definition contains_insensitive :: "string \<Rightarrow> string \<Rightarrow> bool" where
  "contains_insensitive q s =
     (let q' = to_lower q; s' = to_lower s
      in list_ex (\<lambda>i. take (length q') (drop i s') = q') [0..<length s' + 1])"

section \<open>Facts\<close>

lemma page_args_range:
  "1 \<le> pa_size (page_args_of dto)" "pa_size (page_args_of dto) \<le> 200" "1 \<le> pa_page (page_args_of dto)"
  "pa_skip (page_args_of dto) = (pa_page (page_args_of dto) - 1) * pa_size (page_args_of dto)"
  "pa_take (page_args_of dto) = pa_size (page_args_of dto)"
  by (simp_all add: page_args_of_def Let_def)

lemma page_args_explicit:
  "1 \<le> n \<Longrightarrow> n \<le> 200 \<Longrightarrow> page_args_of \<lparr> pq_page = Some (int k + 1), pq_size = Some n \<rparr> =
     \<lparr> pa_skip = int k * n, pa_take = n, pa_page = int k + 1, pa_size = n \<rparr>"
  by (simp add: page_args_of_def Let_def)

lemma concat_chunks:
  assumes "0 < n" "length xs \<le> m * n"
  shows "concat (map (\<lambda>k. take n (drop (k * n) xs)) [0..<m]) = xs"
proof -
  have "concat (map (\<lambda>k. take n (drop (k * n) xs)) [0..<j]) = take (j * n) xs" for j
    by (induction j) (simp_all add: take_add [symmetric] add.commute)
  then show ?thesis using assms by simp
qed

text \<open>
  The pages of a list partition it: reading pages 1 to m of a size between 1 and 200, with
  enough pages to cover the rows, returns every matching row exactly once and in order; each page
  reports the total number of rows and holds at most 200 of them.
\<close>

theorem pages_partition:
  assumes "1 \<le> n" "n \<le> 200" "int (length rows) \<le> int m * n"
  shows "concat (map (\<lambda>k. pg_items (paginate \<lparr> pq_page = Some (int k + 1), pq_size = Some n \<rparr> rows)) [0..<m])
      = rows \<and>
    pg_total (paginate dto rows) = length rows \<and> length (pg_items (paginate dto rows)) \<le> 200"
proof -
  have k: "pg_items (paginate \<lparr> pq_page = Some (int k + 1), pq_size = Some n \<rparr> rows)
      = take (nat n) (drop (k * nat n) rows)" for k
    using assms by (simp add: paginate_def page_args_explicit nat_mult_distrib)
  have "length rows \<le> m * nat n"
    using assms by (metis le_nat_iff nat_int_comparison(3) nat_0_le of_nat_mult order_trans zero_le_one)
  then show ?thesis
    unfolding k using assms concat_chunks [of "nat n" rows m] page_args_range(2,5) [of dto]
    by (simp add: paginate_def Let_def)
qed

lemma pages_partition_witness:
  "concat (map (\<lambda>k. pg_items (paginate \<lparr> pq_page = Some (int k + 1), pq_size = Some 2 \<rparr> ''abcde'')) [0..<3])
   = ''abcde''"
  using pages_partition [of 2 "''abcde''" 3] by simp

lemma parse_sort_allowed:
  "set (map fst (parse_sort s allowed fallback)) \<subseteq> set allowed \<union> set (map fst fallback)"
  by (auto simp: parse_sort_def Let_def split: option.splits)

end
