(* ===== verification/Handler.thy ===== *)
theory Handler
  imports Prelude
begin

text \<open>
  The shape of every service operation: a function from the state to a result and a state, where
  an exception stops the operation and leaves the writes made so far in place (the sources await
  one database call after the other), unless they were made inside a transaction, which is
  undone. The combinators follow the source's control flow: \<open>bind_h\<close> is \<open>await\<close>, \<open>throw_h\<close> is
  \<open>throw\<close>, \<open>check_h\<close> is an early \<open>if (...) throw\<close>, \<open>gets_h\<close> a read and \<open>modify_h\<close> a write,
  \<open>transaction_h\<close> is \<open>prisma.transaction\<close>.

  \<open>keeps R m\<close> says that \<open>m\<close> relates the state before and after by \<open>R\<close>, on every outcome. The
  locale \<open>frame\<close> proves, for a reflexive and transitive \<open>R\<close>, that the combinators keep it; the
  development interprets it with the relations it tracks (tenant isolation, the append-only audit
  trail, the life cycles of the records).
\<close>

type_synonym ('s, 'a) handler = "'s \<Rightarrow> 'a result \<times> 's"

definition return_h :: "'a \<Rightarrow> ('s, 'a) handler" where
  "return_h x = (\<lambda>s. (Inr x, s))"

definition throw_h :: "http_error \<Rightarrow> ('s, 'a) handler" where
  "throw_h e = (\<lambda>s. (Inl e, s))"

definition bind_h :: "('s, 'a) handler \<Rightarrow> ('a \<Rightarrow> ('s, 'b) handler) \<Rightarrow> ('s, 'b) handler" where
  "bind_h m f = (\<lambda>s. case m s of (Inl e, s') \<Rightarrow> (Inl e, s') | (Inr x, s') \<Rightarrow> f x s')"

definition then_h :: "('s, 'a) handler \<Rightarrow> ('s, 'b) handler \<Rightarrow> ('s, 'b) handler" where
  "then_h m n = bind_h m (\<lambda>_. n)"

definition gets_h :: "('s \<Rightarrow> 'a) \<Rightarrow> ('s, 'a) handler" where
  "gets_h f = (\<lambda>s. (Inr (f s), s))"

definition modify_h :: "('s \<Rightarrow> 's) \<Rightarrow> ('s, unit) handler" where
  "modify_h f = (\<lambda>s. (Inr (), f s))"

text \<open>An insertion: the row is built from the state (its id, the clock) and returned.\<close>

definition create_h :: "('s \<Rightarrow> 'r) \<Rightarrow> ('r \<Rightarrow> 's \<Rightarrow> 's) \<Rightarrow> ('s, 'r) handler" where
  "create_h mk ins = (\<lambda>s. let r = mk s in (Inr r, ins r s))"

text \<open>A row that must exist: the value, or the exception.\<close>

definition demand_h :: "('s \<Rightarrow> 'a option) \<Rightarrow> http_error \<Rightarrow> ('s, 'a) handler" where
  "demand_h f e = (\<lambda>s. case f s of None \<Rightarrow> (Inl e, s) | Some x \<Rightarrow> (Inr x, s))"

text \<open>\<open>if (!cond) throw e\<close>; the condition may read the state.\<close>

definition check_h :: "bool \<Rightarrow> http_error \<Rightarrow> ('s, unit) handler" where
  "check_h c e = (if c then return_h () else throw_h e)"

definition check_state_h :: "('s \<Rightarrow> bool) \<Rightarrow> http_error \<Rightarrow> ('s, unit) handler" where
  "check_state_h c e = (\<lambda>s. if c s then (Inr (), s) else (Inl e, s))"

definition when_h :: "bool \<Rightarrow> ('s, unit) handler \<Rightarrow> ('s, unit) handler" where
  "when_h c m = (if c then m else return_h ())"

definition lift_h :: "'a result \<Rightarrow> ('s, 'a) handler" where
  "lift_h r = (\<lambda>s. (r, s))"

definition transaction_h :: "('s, 'a) handler \<Rightarrow> ('s, 'a) handler" where
  "transaction_h m = (\<lambda>s. case m s of (Inl e, s') \<Rightarrow> (Inl e, s) | (Inr x, s') \<Rightarrow> (Inr x, s'))"

fun for_h :: "('a \<Rightarrow> ('s, unit) handler) \<Rightarrow> 'a list \<Rightarrow> ('s, unit) handler" where
  "for_h f [] = return_h ()"
| "for_h f (x # xs) = then_h (f x) (for_h f xs)"

section \<open>Evaluation\<close>

named_theorems run_h \<open>evaluation of the combinators on a state\<close>

lemma return_h_run [run_h]: "return_h x s = (Inr x, s)"
  and throw_h_run [run_h]: "throw_h e s = (Inl e, s)"
  and gets_h_run [run_h]: "gets_h f s = (Inr (f s), s)"
  and modify_h_run [run_h]: "modify_h g s = (Inr (), g s)"
  and create_h_run [run_h]: "create_h mk ins s = (Inr (mk s), ins (mk s) s)"
  and lift_h_run [run_h]: "lift_h r s = (r, s)"
  and check_h_run [run_h]: "check_h c e s = (if c then (Inr (), s) else (Inl e, s))"
  and check_state_h_run [run_h]: "check_state_h cs e s = (if cs s then (Inr (), s) else (Inl e, s))"
  and when_h_run [run_h]: "when_h c m s = (if c then m s else (Inr (), s))"
  and demand_h_run [run_h]:
    "demand_h d e s = (case d s of None \<Rightarrow> (Inl e, s) | Some y \<Rightarrow> (Inr y, s))"
  and bind_h_run [run_h]:
    "bind_h n k s = (case n s of (Inl e, s') \<Rightarrow> (Inl e, s') | (Inr z, s') \<Rightarrow> k z s')"
  and then_h_run [run_h]:
    "then_h n n' s = (case n s of (Inl e, s') \<Rightarrow> (Inl e, s') | (Inr z, s') \<Rightarrow> n' s')"
  and transaction_h_run [run_h]:
    "transaction_h n s = (case n s of (Inl e, s') \<Rightarrow> (Inl e, s) | (Inr z, s') \<Rightarrow> (Inr z, s'))"
  by (simp_all add: return_h_def throw_h_def gets_h_def modify_h_def lift_h_def check_h_def create_h_def Let_def
      check_state_h_def when_h_def demand_h_def bind_h_def then_h_def transaction_h_def)

text \<open>How an operation can succeed.\<close>

named_theorems ok_h \<open>the successful runs of the combinators\<close>

lemma return_h_ok [ok_h]: "return_h x s = (Inr y, s') \<longleftrightarrow> y = x \<and> s' = s"
  and throw_h_ok [ok_h]: "throw_h e s = (Inr x4, s') \<longleftrightarrow> False"
  and gets_h_ok [ok_h]: "gets_h f s = (Inr x2, s') \<longleftrightarrow> x2 = f s \<and> s' = s"
  and lift_h_ok [ok_h]: "lift_h r s = (Inr x3, s') \<longleftrightarrow> r = Inr x3 \<and> s' = s"
  and demand_h_ok [ok_h]: "demand_h d e s = (Inr z, s') \<longleftrightarrow> d s = Some z \<and> s' = s"
  by (auto simp: return_h_def throw_h_def gets_h_def lift_h_def demand_h_def split: option.splits)

lemma create_h_ok [ok_h]: "create_h mk ins s = (Inr x, s') \<longleftrightarrow> x = mk s \<and> s' = ins x s"
  by (auto simp: create_h_def Let_def)

lemma modify_h_ok [ok_h]: "modify_h f s = (Inr y, s') \<longleftrightarrow> s' = f s"
  and check_h_ok [ok_h]: "check_h c e s = (Inr y2, s') \<longleftrightarrow> c \<and> s' = s"
  and check_state_h_ok [ok_h]: "check_state_h cs e s = (Inr y3, s') \<longleftrightarrow> cs s \<and> s' = s"
  and when_h_ok [ok_h]: "when_h c mw s = (Inr y4, s') \<longleftrightarrow> (if c then mw s = (Inr y4, s') else s' = s)"
  by (auto simp: modify_h_def check_h_def check_state_h_def when_h_def return_h_def throw_h_def)

lemma bind_h_ok [ok_h]:
  "bind_h m f s = (Inr y, s') \<longleftrightarrow> (\<exists>x s1. m s = (Inr x, s1) \<and> f x s1 = (Inr y, s'))"
  and then_h_ok [ok_h]:
  "then_h m n s = (Inr y, s') \<longleftrightarrow> (\<exists>x s1. m s = (Inr x, s1) \<and> n s1 = (Inr y, s'))"
  and transaction_h_ok [ok_h]: "transaction_h mt s = (Inr z, s') \<longleftrightarrow> mt s = (Inr z, s')"
  by (auto simp: bind_h_def then_h_def transaction_h_def split: prod.splits sum.splits)

text \<open>Operations that only read.\<close>

definition reads :: "('s, 'a) handler \<Rightarrow> bool" where
  "reads m \<longleftrightarrow> (\<forall>s. snd (m s) = s)"

lemma readsD: "reads m \<Longrightarrow> m s = (r, s') \<Longrightarrow> s' = s"
  by (metis reads_def snd_conv)

lemma reads_return [intro]: "reads (return_h x)"
  and reads_throw [intro]: "reads (throw_h e)"
  and reads_gets [intro]: "reads (gets_h f)"
  and reads_lift [intro]: "reads (lift_h r)"
  and reads_check [intro]: "reads (check_h c e)"
  and reads_check_state [intro]: "reads (check_state_h cs e)"
  and reads_demand [intro]: "reads (demand_h d e)"
  by (simp_all add: reads_def run_h split: option.splits)

lemma reads_when [intro]: "reads m \<Longrightarrow> reads (when_h c m)"
  by (simp add: reads_def run_h)

lemma reads_bind [intro]:
  assumes "reads m" "\<And>x. reads (f x)" shows "reads (bind_h m f)"
  using assms unfolding reads_def bind_h_def by (metis (mono_tags, lifting) prod.case_eq_if sum.case_eq_if snd_conv surjective_pairing)

lemma reads_then [intro]: "reads m \<Longrightarrow> reads n \<Longrightarrow> reads (then_h m n)"
  unfolding then_h_def by (rule reads_bind)

lemma reads_if [intro]: "reads m \<Longrightarrow> reads n \<Longrightarrow> reads (if c then m else n)"
  by simp

lemma reads_option [intro]:
  "reads m \<Longrightarrow> (\<And>x. reads (n x)) \<Longrightarrow> reads (case v of None \<Rightarrow> m | Some x \<Rightarrow> n x)"
  by (cases v) simp_all

lemmas reads_intros = reads_return reads_throw reads_gets reads_lift reads_check reads_check_state
  reads_demand reads_when reads_bind reads_then reads_if reads_option

lemma readsI_run: "reads m \<Longrightarrow> \<exists>r. m s = (r, s)"
  by (metis reads_def prod.collapse)

text \<open>A check in front of an operation: it fails, or the operation runs on the same state.\<close>

lemma then_check_cases:
  assumes "then_h m n s = (r, s')" "reads m"
  obtains "s' = s" "\<not> is_ok r" | y where "m s = (Inr y, s)" "n s = (r, s')"
proof -
  obtain x where "m s = (x, s)" using readsI_run [OF assms(2)] by blast
  then show thesis using assms(1) that by (cases x) (auto simp: run_h)
qed

lemma bind_check_cases:
  assumes "bind_h m k s = (r, s')" "reads m"
  obtains "s' = s" "\<not> is_ok r" | y where "m s = (Inr y, s)" "k y s = (r, s')"
proof -
  obtain x where "m s = (x, s)" using readsI_run [OF assms(2)] by blast
  then show thesis using assms(1) that by (cases x) (auto simp: run_h)
qed

section \<open>Relations that operations keep\<close>

definition keeps :: "('s \<Rightarrow> 's \<Rightarrow> bool) \<Rightarrow> ('s, 'a) handler \<Rightarrow> bool" where
  "keeps R m \<longleftrightarrow> (\<forall>s. R s (snd (m s)))"

lemma keepsD: "keeps R m \<Longrightarrow> m s = (r, s') \<Longrightarrow> R s s'"
  by (metis keeps_def snd_conv)

locale frame =
  fixes R :: "'s \<Rightarrow> 's \<Rightarrow> bool"
  assumes refl: "R s s" and trans: "R s t \<Longrightarrow> R t u \<Longrightarrow> R s u"
begin

lemma keeps_reads: "reads m \<Longrightarrow> keeps R m"
  by (simp add: keeps_def reads_def refl)

lemma keeps_return: "keeps R (return_h x)"
  and keeps_throw: "keeps R (throw_h e)"
  and keeps_gets: "keeps R (gets_h f)"
  and keeps_lift: "keeps R (lift_h r)"
  and keeps_check: "keeps R (check_h c e)"
  and keeps_check_state: "keeps R (check_state_h cs e)"
  and keeps_demand: "keeps R (demand_h d e)"
  by (rule keeps_reads, blast)+

lemma keeps_modify: "(\<And>s. R s (f s)) \<Longrightarrow> keeps R (modify_h f)"
  by (simp add: keeps_def run_h)

lemma keeps_create: "(\<And>s. R s (ins (mk s) s)) \<Longrightarrow> keeps R (create_h mk ins)"
  by (simp add: keeps_def run_h)

lemma keeps_bind:
  assumes "keeps R m" "\<And>x. keeps R (f x)" shows "keeps R (bind_h m f)"
  unfolding keeps_def
proof
  fix s
  show "R s (snd (bind_h m f s))"
  proof (cases "m s")
    case (Pair r s')
    then have "R s s'" using assms(1) by (auto intro: keepsD)
    moreover have "R s' (snd (f x s'))" for x using assms(2) by (simp add: keeps_def)
    ultimately show ?thesis
      by (cases r) (auto simp: bind_h_def Pair intro: trans)
  qed
qed

text \<open>What is known of a row that was found may be used in what follows.\<close>

lemma keeps_bind_demand:
  assumes "\<And>x s. f s = Some x \<Longrightarrow> keeps R (k x)"
  shows "keeps R (bind_h (demand_h f e) k)"
  using assms by (auto simp: keeps_def run_h refl split: option.splits)

lemma keeps_then: "keeps R m \<Longrightarrow> keeps R n \<Longrightarrow> keeps R (then_h m n)"
  unfolding then_h_def by (rule keeps_bind)

lemma keeps_when: "(c \<Longrightarrow> keeps R m) \<Longrightarrow> keeps R (when_h c m)"
  by (simp add: when_h_def keeps_return)

lemma keeps_if: "(c \<Longrightarrow> keeps R m) \<Longrightarrow> (\<not> c \<Longrightarrow> keeps R n) \<Longrightarrow> keeps R (if c then m else n)"
  by simp

lemma keeps_transaction: "keeps R m \<Longrightarrow> keeps R (transaction_h m)"
  by (auto simp: keeps_def transaction_h_def refl split: prod.splits sum.splits) (metis snd_conv)

lemma keeps_for: "(\<And>x. x \<in> set xs \<Longrightarrow> keeps R (f x)) \<Longrightarrow> keeps R (for_h f xs)"
  by (induction xs) (auto intro: keeps_return keeps_then)

lemma keeps_option:
  "keeps R m \<Longrightarrow> (\<And>x. keeps R (n x)) \<Longrightarrow> keeps R (case v of None \<Rightarrow> m | Some x \<Rightarrow> n x)"
  by (cases v) simp_all

lemma keeps_prod: "(\<And>a b. keeps R (f a b)) \<Longrightarrow> keeps R (case p of (a, b) \<Rightarrow> f a b)"
  by (cases p) simp

lemma keeps_let: "(\<And>x. keeps R (f x)) \<Longrightarrow> keeps R (let x = e in f x)"
  by simp

lemmas keeps_intros = keeps_prod keeps_let keeps_return keeps_throw keeps_gets keeps_lift keeps_check keeps_check_state
  keeps_demand keeps_bind keeps_then keeps_when keeps_if keeps_transaction keeps_for keeps_option

end

text \<open>The conjunction of two such relations is one; interleavings of operations keep it too.\<close>

definition both :: "('s \<Rightarrow> 's \<Rightarrow> bool) \<Rightarrow> ('s \<Rightarrow> 's \<Rightarrow> bool) \<Rightarrow> 's \<Rightarrow> 's \<Rightarrow> bool" where
  "both R Q s t \<longleftrightarrow> R s t \<and> Q s t"

lemma frame_both: "frame R \<Longrightarrow> frame Q \<Longrightarrow> frame (both R Q)"
  unfolding frame_def both_def by blast

end
