(* ===== verification/Schema.thy ===== *)
theory Schema
  imports Scoring Js_Time
begin

text \<open>
  The rows of the database (\<open>packages/db/prisma/schema.prisma\<close>) that the modelled services read and
  write, one record per model, and the database state: one list per table, the counter of
  generated ids. Every tenant-owned row extends \<open>row\<close>: its id, its tenant and its creation time.
  Columns no modelled operation reads or writes (AI drafts, free metadata, \<open>updatedAt\<close>) are left
  out. A many-to-many relation is the list of the related ids on the side that the services
  write it from.
\<close>

section \<open>Enumerations\<close>

datatype risk_status = ACTIVE | MONITORING | RETIRED
datatype control_type = PREVENTIVE | DETECTIVE | CORRECTIVE | DIRECTIVE
datatype control_nature = MANUAL | AUTOMATED | IT_DEPENDENT_MANUAL
datatype control_frequency = CONTINUOUS | DAILY | WEEKLY | MONTHLY | QUARTERLY | SEMI_ANNUAL | ANNUAL
  | EVENT_DRIVEN
datatype control_effectiveness = NOT_TESTED | EFFECTIVE | PARTIALLY_EFFECTIVE | INEFFECTIVE
datatype control_test_type = DESIGN | OPERATING
datatype control_test_result = NOT_STARTED | IN_PROGRESS | PASS | PASS_WITH_EXCEPTIONS | FAIL
datatype evidence_type = DOCUMENT | SCREENSHOT | SYSTEM_EXTRACT | INTERVIEW_NOTE | OBSERVATION
  | RECALCULATION | CONFIRMATION | EMAIL | PHOTO | VOICE_NOTE
datatype task_status = TODO | IN_PROGRESS | BLOCKED | DONE | CANCELLED
datatype library_type = AUDIT_PROGRAM | RISK | CONTROL | TEST_PROCEDURE | FINDING | RECOMMENDATION
  | WORKPAPER_TEMPLATE | CHECKLIST
datatype library_status = DRAFT | PENDING_APPROVAL | PUBLISHED | RETIRED
datatype user_status = INVITED | ACTIVE | SUSPENDED | DEACTIVATED
datatype entity_type = LEGAL_ENTITY | BUSINESS_UNIT | COUNTRY | DEPARTMENT | PROCESS | SYSTEM | PRODUCT | THIRD_PARTY
datatype auth_provider = LOCAL | ENTRA_ID
datatype engagement_type = OPERATIONAL | FINANCIAL | COMPLIANCE | IT | INVESTIGATION | ADVISORY
  | FOLLOW_UP | INTEGRATED | INTERNAL_AUDIT
datatype engagement_status = ACTIVE | ON_HOLD | CANCELLED | COMPLETED
datatype engagement_role = PARTNER | MANAGER | LEAD | SENIOR | JUNIOR | REVIEWER | SPECIALIST | OBSERVER
datatype audit_opinion = SATISFACTORY | NEEDS_IMPROVEMENT | UNSATISFACTORY | NOT_RATED
datatype plan_item_status = PROPOSED | PLANNED | IN_PROGRESS | COMPLETED | DEFERRED | CANCELLED
datatype plan_item_source = RISK_BASED | MANAGEMENT_REQUEST | REGULATORY | FOLLOW_UP
  | AUDIT_COMMITTEE | ROTATIONAL
datatype program_status = DRAFT | PENDING_APPROVAL | APPROVED | IN_PROGRESS | COMPLETED
datatype step_status = NOT_STARTED | IN_PROGRESS | COMPLETED | NOT_APPLICABLE
datatype review_note_status = OPEN | ADDRESSED | CLEARED
datatype review_note_priority = LOW | NORMAL | HIGH
datatype review_decision = APPROVED | CHANGES_REQUESTED | REJECTED
datatype review_level = PREPARER | FIRST | SECOND | PARTNER | QUALITY
datatype classification = PUBLIC | INTERNAL | CONFIDENTIAL | RESTRICTED
datatype recommendation_status = PROPOSED | AGREED | IN_PROGRESS | IMPLEMENTED | VALIDATED
  | NOT_IMPLEMENTED | SUPERSEDED
datatype root_cause = PEOPLE | PROCESS | TECHNOLOGY | GOVERNANCE | EXTERNAL | DATA | POLICY
datatype task_priority = LOW | MEDIUM | HIGH | URGENT
datatype management_request_status = RECEIVED | UNDER_REVIEW | ACCEPTED | DECLINED | PLANNED
datatype timesheet_status = OPEN | SUBMITTED | APPROVED | REJECTED
datatype availability_type = LEAVE | TRAINING | PUBLIC_HOLIDAY | SECONDMENT | OTHER

text \<open>A JSON value; a UUID in it is kept as such.\<close>

datatype json =
    JNull
  | JBool bool
  | JNum rat
  | JStr string
  | JId uuid
  | JArr "json list"
  | JObj "(string \<times> json) list"

section \<open>Rows\<close>

record row =
  r_id :: uuid
  r_tenant :: uuid
  r_created :: time

record user = row +
  u_email :: string
  u_display_name :: string
  u_first_name :: "string option"
  u_last_name :: "string option"
  u_job_title :: "string option"
  u_office_location :: "string option"
  u_country :: "string option"
  u_phone :: "string option"
  u_avatar :: "string option"
  u_status :: user_status
  u_provider :: auth_provider
  u_password_hash :: "string option"
  u_mfa_enabled :: bool
  u_mfa_secret :: "string option"
  u_recovery_codes :: "string list"
  u_last_login :: "time option"
  u_failed_count :: nat
  u_locked_until :: "time option"
  u_charge_rate :: "decimal option"
  u_weekly_capacity :: decimal
  u_deleted_at :: "time option"
  u_must_change_password :: bool
  u_roles :: "role_key list"

text \<open>A tenant, and a permission that an administrator added to a role of a tenant.\<close>

record tenant =
  t_id :: uuid
  t_slug :: string
  t_name :: string
  t_active :: bool

record role_permission = row +
  rp_role :: role_key
  rp_key :: permission_key

record refresh_token = row +
  rt_user :: uuid
  rt_hash :: string
  rt_family :: uuid
  rt_agent :: "string option"
  rt_ip :: "string option"
  rt_expires :: time
  rt_revoked :: "time option"
  rt_replaced_by :: "uuid option"

record audit_entity = row +
  ae_parent :: "uuid option"
  ae_type :: entity_type
  ae_code :: string
  ae_name :: string
  ae_description :: "string option"
  ae_owner :: "uuid option"
  ae_country :: "string option"
  ae_objectives :: "string list"
  ae_regulatory :: json
  ae_rating :: severity
  ae_last_audit :: "time option"
  ae_next_audit :: "time option"
  ae_frequency :: "int option"
  ae_active :: bool
  ae_metadata :: json
  ae_deleted_at :: "time option"

record business_process = row +
  bp_entity :: uuid
  bp_code :: string
  bp_name :: string
  bp_description :: "string option"
  bp_owner :: "uuid option"
  bp_category :: "string option"
  bp_key :: bool
  bp_deleted_at :: "time option"

record audit_plan = row +
  p_title :: string
  p_fiscal_year :: int
  p_horizon_years :: int
  p_start :: time
  p_end :: time
  p_status :: plan_status
  p_version :: int
  p_budget_hours :: "decimal option"
  p_budget_amount :: "decimal option"
  p_currency :: string
  p_narrative :: "string option"
  p_created_by :: uuid
  p_approved_by :: "uuid option"
  p_approved_at :: "time option"

record plan_item = row +
  pi_plan :: uuid
  pi_entity :: "uuid option"
  pi_engagement :: "uuid option"
  pi_title :: string
  pi_description :: "string option"
  pi_source :: plan_item_source
  pi_type :: engagement_type
  pi_rating :: severity
  pi_priority :: int
  pi_year :: int
  pi_quarter :: "int option"
  pi_start :: "time option"
  pi_end :: "time option"
  pi_budget_hours :: "decimal option"
  pi_budget_amount :: "decimal option"
  pi_lead :: "uuid option"
  pi_status :: plan_item_status
  pi_rationale :: "string option"

record management_request = row +
  mr_title :: string
  mr_description :: "string option"
  mr_requested_by :: "uuid option"
  mr_requester_name :: "string option"
  mr_entity :: "uuid option"
  mr_plan_item :: "uuid option"
  mr_priority :: task_priority
  mr_status :: management_request_status
  mr_decision_note :: "string option"

record engagement = row +
  e_number :: string
  e_title :: string
  e_type :: engagement_type
  e_entity :: "uuid option"
  e_objectives :: "string option"
  e_scope :: "string option"
  e_out_of_scope :: "string option"
  e_background :: "string option"
  e_period_start :: "time option"
  e_period_end :: "time option"
  e_stage :: engagement_stage
  e_status :: engagement_status
  e_rating :: severity
  e_planned_start :: "time option"
  e_planned_end :: "time option"
  e_actual_start :: "time option"
  e_actual_end :: "time option"
  e_budget_hours :: "decimal option"
  e_budget_amount :: "decimal option"
  e_lead :: "uuid option"
  e_manager :: "uuid option"
  e_partner :: "uuid option"
  e_opinion :: audit_opinion
  e_summary :: "string option"
  e_report_issued :: "time option"
  e_report_document :: "uuid option"
  e_deleted_at :: "time option"

record member = row +
  m_engagement :: uuid
  m_user :: uuid
  m_role :: engagement_role
  m_planned_hours :: "decimal option"

record stakeholder = row +
  sh_engagement :: uuid
  sh_user :: "uuid option"
  sh_name :: string
  sh_email :: "string option"
  sh_title :: "string option"
  sh_organisation :: "string option"
  sh_role :: string
  sh_primary :: bool

record milestone = row +
  ms_engagement :: uuid
  ms_name :: string
  ms_stage :: "engagement_stage option"
  ms_due :: time
  ms_completed :: "time option"
  ms_sort :: int

record stage_change = row +
  sc_engagement :: uuid
  sc_from :: "engagement_stage option"
  sc_to :: engagement_stage
  sc_by :: uuid
  sc_comment :: "string option"

record program = row +
  pr_engagement :: uuid
  pr_title :: string
  pr_description :: "string option"
  pr_status :: program_status
  pr_library :: "uuid option"
  pr_approved_by :: "uuid option"
  pr_approved_at :: "time option"

record program_step = row +
  st_program :: uuid
  st_section :: string
  st_reference :: string
  st_order :: int
  st_objective :: string
  st_procedure :: string
  st_risk :: "uuid option"
  st_control :: "uuid option"
  st_assignee :: "uuid option"
  st_hours :: "decimal option"
  st_status :: step_status

record template =
  tp_id :: uuid
  tp_tenant :: "uuid option"
  tp_name :: string
  tp_category :: "string option"
  tp_description :: "string option"
  tp_structure :: json
  tp_active :: bool

text \<open>An item of the knowledge library; without a tenant it is shared.\<close>

record library_item =
  li_id :: uuid
  li_tenant :: "uuid option"
  li_type :: library_type
  li_title :: string
  li_content :: json
  li_status :: library_status
  li_usage :: int

text \<open>
  The fields of a library item that no other tenant may change: all of them, but the usage count
  of a shared item.
\<close>

definition item_core :: "library_item \<Rightarrow> library_item" where
  "item_core l = (if li_tenant l = None then l\<lparr> li_usage := 0 \<rparr> else l)"

record workpaper = row +
  w_engagement :: uuid
  w_step :: "uuid option"
  w_template :: "uuid option"
  w_reference :: string
  w_title :: string
  w_objective :: "string option"
  w_risk :: "uuid option"
  w_control :: "uuid option"
  w_procedure :: "string option"
  w_test_performed :: "string option"
  w_results :: "string option"
  w_exceptions :: "string option"
  w_conclusion :: "string option"
  w_content :: json
  w_status :: workpaper_status
  w_version :: nat
  w_prepared_by :: "uuid option"
  w_prepared_at :: "time option"
  w_reviewed_by :: "uuid option"
  w_reviewed_at :: "time option"
  w_signed_by :: "uuid option"
  w_signed_at :: "time option"
  w_locked :: bool
  w_sort :: int
  w_deleted_at :: "time option"

record workpaper_version = row +
  wv_workpaper :: uuid
  wv_number :: nat
  wv_snapshot :: workpaper
  wv_summary :: "string option"
  wv_by :: uuid

record review_note = row +
  n_workpaper :: uuid
  n_text :: string
  n_priority :: review_note_priority
  n_status :: review_note_status
  n_raised_by :: uuid
  n_assigned_to :: "uuid option"
  n_response :: "string option"
  n_responded_at :: "time option"
  n_cleared_by :: "uuid option"
  n_cleared_at :: "time option"

record review = row +
  rv_target_type :: string
  rv_target :: uuid
  rv_level :: review_level
  rv_reviewer :: uuid
  rv_decision :: review_decision
  rv_comment :: "string option"

record document = row +
  d_owner_type :: "string option"
  d_owner :: "uuid option"
  d_file_name :: string
  d_mime :: string
  d_size :: nat
  d_storage_key :: string
  d_checksum :: "string option"
  d_classification :: classification
  d_uploaded_by :: uuid
  d_quarantined :: bool
  d_uploaded_at :: "time option"
  d_deleted_at :: "time option"

record document_version = row +
  dv_document :: uuid
  dv_number :: nat
  dv_key :: string
  dv_size :: nat
  dv_checksum :: "string option"
  dv_by :: uuid

record evidence = row +
  ev_engagement :: uuid
  ev_workpaper :: "uuid option"
  ev_document :: "uuid option"
  ev_reference :: string
  ev_description :: string
  ev_type :: evidence_type
  ev_from :: "string option"
  ev_obtained_at :: "time option"
  ev_obtained_by :: uuid
  ev_sufficient :: "bool option"
  ev_findings :: "uuid list"

record finding = row +
  f_engagement :: uuid
  f_workpaper :: "uuid option"
  f_entity :: "uuid option"
  f_process :: "uuid option"
  f_risk :: "uuid option"
  f_control :: "uuid option"
  f_reference :: string
  f_title :: string
  f_severity :: severity
  f_status :: finding_status
  f_condition :: string
  f_criteria :: string
  f_cause :: "string option"
  f_impact :: "string option"
  f_recommendation :: "string option"
  f_response :: "string option"
  f_root_cause :: "root_cause option"
  f_category :: "string option"
  f_owner :: "uuid option"
  f_owner_name :: "string option"
  f_owner_email :: "string option"
  f_due :: "time option"
  f_original_due :: "time option"
  f_extensions :: nat
  f_agreed_at :: "time option"
  f_implemented_at :: "time option"
  f_validated_by :: "uuid option"
  f_validated_at :: "time option"
  f_closed_at :: "time option"
  f_is_repeat :: bool
  f_repeat_of :: "uuid option"
  f_raised_by :: uuid
  f_reminders :: nat
  f_last_reminder :: "time option"
  f_escalation :: nat
  f_deleted_at :: "time option"

record recommendation = row +
  rc_finding :: uuid
  rc_sequence :: int
  rc_text :: string
  rc_priority :: task_priority
  rc_owner :: "uuid option"
  rc_owner_name :: "string option"
  rc_due :: "time option"
  rc_status :: recommendation_status
  rc_action_plan :: "string option"
  rc_progress_note :: "string option"
  rc_progress :: int
  rc_completed_at :: "time option"

record finding_change = row +
  fc_finding :: uuid
  fc_from :: "finding_status option"
  fc_to :: finding_status
  fc_by :: uuid
  fc_comment :: "string option"

record document_request = row +
  q_engagement :: uuid
  q_reference :: string
  q_title :: string
  q_description :: "string option"
  q_requested_by :: uuid
  q_assignee :: "uuid option"
  q_assignee_email :: "string option"
  q_due :: time
  q_status :: request_status
  q_response :: "string option"
  q_submitted_at :: "time option"
  q_accepted_at :: "time option"
  q_return_reason :: "string option"
  q_reminders :: nat
  q_last_reminder :: "time option"
  q_documents :: "uuid list"

record charge_code = row +
  cc_code :: string
  cc_active :: bool

record timesheet = row +
  ts_user :: uuid
  ts_week :: time
  ts_status :: timesheet_status
  ts_total :: decimal
  ts_submitted_at :: "time option"
  ts_approved_by :: "uuid option"
  ts_approved_at :: "time option"
  ts_reject_reason :: "string option"

record time_entry = row +
  te_timesheet :: uuid
  te_engagement :: "uuid option"
  te_charge_code :: uuid
  te_date :: time
  te_hours :: decimal
  te_notes :: "string option"

record availability = row +
  av_user :: uuid
  av_type :: availability_type
  av_start :: time
  av_end :: time
  av_hours :: decimal
  av_note :: "string option"

record risk_category = row +
  rk_code :: string
  rk_name :: string
  rk_description :: "string option"
  rk_weight :: decimal
  rk_colour :: "string option"

record scoring_model = row +
  sc_name :: string
  sc_default :: bool
  sc_likelihood_scale :: json
  sc_impact_scale :: json
  sc_weights :: json
  sc_thresholds :: json
  sc_appetite :: json

record risk = row +
  k_code :: string
  k_title :: string
  k_description :: "string option"
  k_category :: "uuid option"
  k_entity :: "uuid option"
  k_process :: "uuid option"
  k_owner :: "uuid option"
  k_source :: "string option"
  k_status :: risk_status
  k_likelihood :: int
  k_impact :: int
  k_inherent_score :: decimal
  k_effectiveness :: int
  k_res_likelihood :: int
  k_res_impact :: int
  k_res_score :: decimal
  k_velocity :: velocity
  k_risk_rating :: severity
  k_appetite :: "decimal option"
  k_within :: "bool option"
  k_assessed_at :: "time option"
  k_tags :: "string list"
  k_deleted_at :: "time option"

record risk_assessment = row +
  ra_risk :: uuid
  ra_model :: "uuid option"
  ra_period :: string
  ra_likelihood :: int
  ra_impact :: int
  ra_inherent_score :: decimal
  ra_effectiveness :: int
  ra_res_likelihood :: int
  ra_res_impact :: int
  ra_res_score :: decimal
  ra_velocity :: velocity
  ra_rating :: severity
  ra_rationale :: "string option"
  ra_assessed_by :: uuid
  ra_assessed_at :: time

text \<open>The rows of \<open>RiskControl\<close> are the list of the risks of a control.\<close>

record control = row +
  ctl_code :: string
  ctl_title :: string
  ctl_description :: "string option"
  ctl_process :: "uuid option"
  ctl_owner :: "uuid option"
  ctl_frequency :: control_frequency
  ctl_type :: control_type
  ctl_nature :: control_nature
  ctl_key :: bool
  ctl_effectiveness :: control_effectiveness
  ctl_design :: "bool option"
  ctl_operating :: "bool option"
  ctl_tested_at :: "time option"
  ctl_frameworks :: json
  ctl_active :: bool
  ctl_deleted_at :: "time option"
  ctl_risks :: "uuid list"

record control_test = row +
  tt_control :: uuid
  tt_engagement :: "uuid option"
  tt_workpaper :: "uuid option"
  tt_type :: control_test_type
  tt_period_start :: "time option"
  tt_period_end :: "time option"
  tt_population :: "int option"
  tt_sample :: "int option"
  tt_exceptions :: int
  tt_result :: control_test_result
  tt_procedure :: "string option"
  tt_conclusion :: "string option"
  tt_remediation :: "string option"
  tt_tested_by :: "uuid option"
  tt_tested_at :: "time option"

record task = row +
  tk_engagement :: "uuid option"
  tk_target_type :: "string option"
  tk_target :: "uuid option"
  tk_title :: string
  tk_description :: "string option"
  tk_assignee :: "uuid option"
  tk_created_by :: uuid
  tk_due :: "time option"
  tk_priority :: task_priority
  tk_status :: task_status
  tk_completed_at :: "time option"

record comment = row +
  cm_target_type :: string
  cm_target :: uuid
  cm_parent :: "uuid option"
  cm_author :: uuid
  cm_body :: string
  cm_mentions :: "uuid list"
  cm_internal :: bool
  cm_deleted_at :: "time option"

record notification = row +
  nt_user :: uuid
  nt_type :: string
  nt_title :: string
  nt_body :: "string option"
  nt_link :: "string option"
  nt_payload :: json
  nt_sent_at :: "time option"
  nt_read_at :: "time option"

text \<open>The columns of a user that the user administration answers with and records.\<close>

record user_view =
  uv_id :: uuid
  uv_email :: string
  uv_display_name :: string
  uv_first_name :: "string option"
  uv_last_name :: "string option"
  uv_job_title :: "string option"
  uv_office_location :: "string option"
  uv_country :: "string option"
  uv_phone :: "string option"
  uv_avatar :: "string option"
  uv_status :: user_status
  uv_provider :: auth_provider
  uv_mfa_enabled :: bool
  uv_last_login :: "time option"
  uv_weekly_capacity :: decimal
  uv_charge_rate :: "decimal option"
  uv_created :: time
  uv_roles :: "role_key list"

text \<open>
  What an audit event stores before and after a change: a row as it is, or named fields; of a user
  it is the view above, which has no secrets.
\<close>

datatype snapshot =
    No_Snapshot
  | Fields "(string \<times> json) list"
  | Engagement_Row engagement
  | Member_Row member
  | Stakeholder_Row stakeholder
  | Milestone_Row milestone
  | Finding_Row finding
  | Recommendation_Row recommendation
  | Workpaper_Row workpaper
  | Note_Row review_note
  | Template_Row template
  | Plan_Row audit_plan
  | Item_Row plan_item
  | Management_Request_Row management_request
  | Request_Row document_request
  | User_View user_view
  | Timesheet_Row timesheet
  | Availability_Row availability
  | Entity_Row audit_entity
  | Process_Row business_process
  | Time_Entry_Row time_entry
  | Program_Row program
  | Step_Row program_step
  | Evidence_Row evidence
  | Category_Row risk_category
  | Model_Row scoring_model
  | Risk_Row risk
  | Control_Row control
  | Control_Test_Row control_test
  | Task_Row task

record audit_event = row +
  at_actor :: "uuid option"
  at_email :: "string option"
  at_action :: string
  at_target_type :: string
  at_target :: "uuid option"
  at_before :: snapshot
  at_after :: snapshot
  at_metadata :: "(string \<times> json) list"
  at_ip :: "string option"
  at_agent :: "string option"
  at_request :: "string option"

section \<open>The database\<close>

record db =
  db_next :: uuid
  db_tenants :: "tenant list"
  db_users :: "user list"
  db_role_permissions :: "role_permission list"
  db_tokens :: "refresh_token list"
  db_entities :: "audit_entity list"
  db_processes :: "business_process list"
  db_plans :: "audit_plan list"
  db_items :: "plan_item list"
  db_management :: "management_request list"
  db_engagements :: "engagement list"
  db_members :: "member list"
  db_stakeholders :: "stakeholder list"
  db_milestones :: "milestone list"
  db_stages :: "stage_change list"
  db_programs :: "program list"
  db_steps :: "program_step list"
  db_templates :: "template list"
  db_library :: "library_item list"
  db_workpapers :: "workpaper list"
  db_versions :: "workpaper_version list"
  db_notes :: "review_note list"
  db_reviews :: "review list"
  db_documents :: "document list"
  db_document_versions :: "document_version list"
  db_evidence :: "evidence list"
  db_findings :: "finding list"
  db_recommendations :: "recommendation list"
  db_changes :: "finding_change list"
  db_requests :: "document_request list"
  db_codes :: "charge_code list"
  db_timesheets :: "timesheet list"
  db_entries :: "time_entry list"
  db_availability :: "availability list"
  db_categories :: "risk_category list"
  db_models :: "scoring_model list"
  db_risks :: "risk list"
  db_assessments :: "risk_assessment list"
  db_controls :: "control list"
  db_tests :: "control_test list"
  db_tasks :: "task list"
  db_comments :: "comment list"
  db_notifications :: "notification list"
  db_audit :: "audit_event list"

definition empty_db :: db where
  "empty_db = \<lparr> db_next = 1, db_tenants = [], db_users = [],
     db_role_permissions = [], db_tokens = [], db_entities = [], db_processes = [], db_plans = [],
     db_items = [], db_management = [], db_engagements = [], db_members = [], db_stakeholders = [],
     db_milestones = [], db_stages = [], db_programs = [], db_steps = [], db_templates = [], db_library = [],
     db_workpapers = [], db_versions = [], db_notes = [], db_reviews = [], db_documents = [], db_document_versions = [],
     db_evidence = [], db_findings = [], db_recommendations = [], db_changes = [],
     db_requests = [], db_codes = [], db_timesheets = [], db_entries = [], db_availability = [],
     db_categories = [], db_models = [], db_risks = [], db_assessments = [], db_controls = [],
     db_tests = [], db_tasks = [], db_comments = [],
     db_notifications = [], db_audit = [] \<rparr>"

end
