(* ===== verification/Store.thy ===== *)
theory Store
  imports Handler Schema
begin

text \<open>
  What every service shares: the request context (\<open>tenancy/tenant-context.ts\<close>), the
  tenant-scoped client as operations on tables (\<open>prisma.scoped()\<close>, see \<open>Tenant_Scope\<close> for the
  rewriting of the query arguments that implements it), the audit trail with \<open>redact\<close>
  (\<open>audit-trail/audit-trail.service.ts\<close>, \<open>common/utils.ts\<close>) and notifications
  (\<open>notifications/notification.service.ts\<close>). The relations \<open>same_outside\<close> (rows of other tenants
  are untouched) and \<open>audit_grows\<close> (the trail is append-only) are frames that every handler of the
  later theories is shown to keep.
\<close>

section \<open>The request context\<close>

record request_context =
  cx_request :: string
  cx_ip :: "string option"
  cx_agent :: "string option"
  cx_tenant :: "uuid option"
  cx_user :: "uuid option"
  cx_email :: "string option"
  cx_roles :: "role_key list"
  cx_permissions :: "permission_key list"

record bind_user_input =
  bu_id :: uuid
  bu_tenant :: uuid
  bu_email :: string
  bu_roles :: "role_key list"
  bu_permissions :: "permission_key list"

text \<open>The context that the middleware opens, and that of a job.\<close>

definition open_context :: "string \<Rightarrow> string option \<Rightarrow> string option \<Rightarrow> request_context" where
  "open_context request ip agent =
     \<lparr> cx_request = request, cx_ip = ip, cx_agent = agent, cx_tenant = None, cx_user = None,
       cx_email = None, cx_roles = [], cx_permissions = [] \<rparr>"

definition run_as ::
  "uuid \<Rightarrow> uuid option \<Rightarrow> string option \<Rightarrow> permission_key list option \<Rightarrow> string option \<Rightarrow> time \<Rightarrow>
   request_context" where
  "run_as tenant user email permissions request now =
     \<lparr> cx_request = coalesce request (''job-'' @ show_nat (nat now)), cx_ip = None, cx_agent = None,
       cx_tenant = Some tenant, cx_user = user, cx_email = email, cx_roles = [],
       cx_permissions = coalesce permissions [] \<rparr>"

text \<open>Outside a request there is no store to bind the user to.\<close>

definition bind_user :: "bind_user_input \<Rightarrow> request_context option \<Rightarrow> request_context option" where
  "bind_user u = map_option (\<lambda>c. c\<lparr> cx_tenant := Some (bu_tenant u), cx_user := Some (bu_id u),
     cx_email := Some (bu_email u), cx_roles := bu_roles u, cx_permissions := bu_permissions u \<rparr>)"

definition ctx_tenant_id :: "request_context option \<Rightarrow> uuid result" where
  "ctx_tenant_id c = (case Option.bind c cx_tenant of
     None \<Rightarrow> Inl (Unauthorized ''No tenant context'') | Some t \<Rightarrow> Inr t)"

definition ctx_user_id :: "request_context option \<Rightarrow> uuid result" where
  "ctx_user_id c = (case Option.bind c cx_user of
     None \<Rightarrow> Inl (Unauthorized ''No user context'') | Some u \<Rightarrow> Inr u)"

definition ctx_permissions :: "request_context option \<Rightarrow> permission_key list" where
  "ctx_permissions c = (case c of None \<Rightarrow> [] | Some x \<Rightarrow> cx_permissions x)"

definition ctx_roles :: "request_context option \<Rightarrow> role_key list" where
  "ctx_roles c = (case c of None \<Rightarrow> [] | Some x \<Rightarrow> cx_roles x)"

definition ctx_has_permission :: "request_context option \<Rightarrow> permission_key list \<Rightarrow> bool" where
  "ctx_has_permission c keys = list_ex (\<lambda>k. k \<in> set (ctx_permissions c)) keys"

definition ctx_has_role :: "request_context option \<Rightarrow> role_key list \<Rightarrow> bool" where
  "ctx_has_role c roles = list_ex (\<lambda>r. r \<in> set (ctx_roles c)) roles"

text \<open>
  The services run behind the JWT guard, which binds tenant, user, roles and permissions; the
  \<open>user\<close> argument of a handler is the bound user. \<open>actor\<close> is that context with both getters
  resolved, and \<open>actor_of\<close> refuses a request in which one of them would throw.
\<close>

record actor =
  ac_tenant :: uuid
  ac_user :: uuid
  ac_email :: "string option"
  ac_roles :: "role_key list"
  ac_permissions :: "permission_key list"
  ac_ip :: "string option"
  ac_agent :: "string option"
  ac_request :: "string option"

definition actor_of :: "request_context option \<Rightarrow> actor result" where
  "actor_of c = (case ctx_tenant_id c of Inl e \<Rightarrow> Inl e | Inr t \<Rightarrow>
     (case ctx_user_id c of Inl e \<Rightarrow> Inl e | Inr u \<Rightarrow>
       Inr \<lparr> ac_tenant = t, ac_user = u, ac_email = Option.bind c cx_email, ac_roles = ctx_roles c,
             ac_permissions = ctx_permissions c, ac_ip = Option.bind c cx_ip,
             ac_agent = Option.bind c cx_agent, ac_request = map_option cx_request c \<rparr>))"

definition has_permission :: "actor \<Rightarrow> permission_key \<Rightarrow> bool" where
  "has_permission ac k \<longleftrightarrow> k \<in> set (ac_permissions ac)"

lemma actor_of_bound:
  "actor_of (bind_user u (Some c)) = Inr \<lparr> ac_tenant = bu_tenant u, ac_user = bu_id u,
     ac_email = Some (bu_email u), ac_roles = bu_roles u, ac_permissions = bu_permissions u,
     ac_ip = cx_ip c, ac_agent = cx_agent c, ac_request = Some (cx_request c) \<rparr>"
  by (simp add: actor_of_def bind_user_def ctx_tenant_id_def ctx_user_id_def ctx_roles_def
      ctx_permissions_def)

lemma actor_of_unbound: "actor_of None = Inl (Unauthorized ''No tenant context'')"
  "actor_of (Some (open_context r i a)) = Inl (Unauthorized ''No tenant context'')"
  by (simp_all add: actor_of_def ctx_tenant_id_def open_context_def)

text \<open>The clock of an operation, and the outcome of sending a mail to an address (not modelled).\<close>

record env =
  env_now :: time
  env_mail :: "string \<Rightarrow> bool"

type_synonym 'a op = "(db, 'a) handler"

section \<open>The tenant-scoped client\<close>

definition mine :: "actor \<Rightarrow> 'r row_scheme \<Rightarrow> bool" where
  "mine ac r \<longleftrightarrow> r_tenant r = ac_tenant ac"

definition first_in :: "actor \<Rightarrow> ('r row_scheme \<Rightarrow> bool) \<Rightarrow> 'r row_scheme list \<Rightarrow> 'r row_scheme option" where
  "first_in ac P t = find_first (\<lambda>r. mine ac r \<and> P r) t"

definition many_in :: "actor \<Rightarrow> ('r row_scheme \<Rightarrow> bool) \<Rightarrow> 'r row_scheme list \<Rightarrow> 'r row_scheme list" where
  "many_in ac P t = find_many (\<lambda>r. mine ac r \<and> P r) t"

definition count_in :: "actor \<Rightarrow> ('r row_scheme \<Rightarrow> bool) \<Rightarrow> 'r row_scheme list \<Rightarrow> nat" where
  "count_in ac P t = count_rows (\<lambda>r. mine ac r \<and> P r) t"

definition update_in ::
  "actor \<Rightarrow> ('r row_scheme \<Rightarrow> bool) \<Rightarrow> ('r row_scheme \<Rightarrow> 'r row_scheme) \<Rightarrow> 'r row_scheme list \<Rightarrow>
   'r row_scheme list" where
  "update_in ac P f t = update_rows (\<lambda>r. mine ac r \<and> P r) f t"

definition delete_in :: "actor \<Rightarrow> ('r row_scheme \<Rightarrow> bool) \<Rightarrow> 'r row_scheme list \<Rightarrow> 'r row_scheme list" where
  "delete_in ac P t = delete_rows (\<lambda>r. mine ac r \<and> P r) t"

definition has_id :: "uuid \<Rightarrow> 'r row_scheme \<Rightarrow> bool" where
  "has_id i r \<longleftrightarrow> r_id r = i"

lemma first_in_Some: "first_in ac P t = Some r \<Longrightarrow> r \<in> set t \<and> mine ac r \<and> P r"
  by (auto simp: first_in_def dest: find_first_Some)

lemma first_in_SomeD:
  assumes "first_in ac P t = Some r" shows "r \<in> set t" "mine ac r" "P r"
  using first_in_Some [OF assms] by auto

lemma first_in_None_iff: "first_in ac P t = None \<longleftrightarrow> (\<forall>r \<in> set t. \<not> (mine ac r \<and> P r))"
  by (simp add: first_in_def find_first_None_iff)

lemma first_in_snoc:
  "\<forall>q \<in> set t. \<not> P q \<Longrightarrow> mine ac r \<Longrightarrow> P r \<Longrightarrow> first_in ac P (t @ [r]) = Some r"
  by (induction t) (simp_all add: first_in_def find_first_Cons)

lemma set_many_in [table_simps]: "set (many_in ac P t) = {r \<in> set t. mine ac r \<and> P r}"
  by (simp add: many_in_def table_simps)

lemma count_in_eq_0_iff [table_simps]: "count_in ac P t = 0 \<longleftrightarrow> (\<forall>r \<in> set t. mine ac r \<longrightarrow> \<not> P r)"
  by (auto simp: count_in_def table_simps)

lemma count_in_pos_iff [table_simps]: "0 < count_in ac P t \<longleftrightarrow> (\<exists>r \<in> set t. mine ac r \<and> P r)"
  by (simp add: count_in_def table_simps)

lemma set_update_in:
  "set (update_in ac P f t) =
     f ` {r \<in> set t. mine ac r \<and> P r} \<union> {r \<in> set t. \<not> (mine ac r \<and> P r)}"
  unfolding update_in_def by (rule set_update_rows)

lemma update_in_cases:
  assumes "r \<in> set (update_in ac P f t)"
  obtains (updated) q where "q \<in> set t" "mine ac q" "P q" "r = f q" | (kept) "r \<in> set t"
  using assms by (auto simp: set_update_in)

lemma first_in_rewritten:
  assumes "\<And>r. r_id (g r) = r_id r" "\<And>r. r_tenant (g r) = r_tenant r" "\<And>r. Q (g r) = Q r"
    "first_in ac (\<lambda>r. has_id i r \<and> Q r) t = Some w"
  shows "first_in ac (\<lambda>r. has_id i r \<and> Q r) (update_in ac (has_id i) g t) = Some (g w)"
  using assms(4)
proof (induction t)
  case (Cons r t)
  then show ?case
    using assms(1-3)
    by (auto simp: first_in_def update_in_def update_rows_def find_first_Cons has_id_def mine_def split: if_splits)
qed (simp add: first_in_def)

text \<open>The row with a primary key, where the key identifies one.\<close>

definition the_row :: "uuid \<Rightarrow> 'r row_scheme list \<Rightarrow> 'r row_scheme option" where
  "the_row i t = (case filter (has_id i) t of [r] \<Rightarrow> Some r | _ \<Rightarrow> None)"

lemma the_row_filter: "the_row i t = Some r \<longleftrightarrow> filter (has_id i) t = [r]"
  by (auto simp: the_row_def split: list.splits)

lemma the_row_Some:
  assumes "the_row i t = Some r"
  shows "r \<in> set t" "r_id r = i" "\<And>q. q \<in> set t \<Longrightarrow> r_id q = i \<Longrightarrow> q = r"
proof -
  have "set (filter (has_id i) t) = {r}" using assms by (simp add: the_row_filter)
  then have s: "{q \<in> set t. r_id q = i} = {r}" by (auto simp: has_id_def)
  then show "r \<in> set t" "r_id r = i" by blast+
  show "q = r" if "q \<in> set t" "r_id q = i" for q using s that by blast
qed

lemma the_row_first_in:
  "the_row i t = Some r \<Longrightarrow> first_in ac P t = Some q \<Longrightarrow> (\<And>x. P x \<Longrightarrow> r_id x = i) \<Longrightarrow> q = r"
  using the_row_Some [of i t r] first_in_Some [of ac P t q] by metis

lemma the_row_update_in:
  assumes "\<And>r. P r \<Longrightarrow> r_id (f r) = r_id r"
  shows "the_row i (update_in ac P f t) = map_option (\<lambda>r. if mine ac r \<and> P r then f r else r) (the_row i t)"
proof -
  let ?g = "\<lambda>r. if mine ac r \<and> P r then f r else r"
  have "filter (has_id i) (map ?g t) = map ?g (filter (has_id i) t)"
    using assms by (induction t) (auto simp: has_id_def)
  then show ?thesis
    by (simp add: the_row_def update_in_def update_rows_def split: list.split)
qed

lemma the_row_update_status:
  assumes "\<And>r. r_id (g r) = r_id r"
  shows "map_option st (the_row j (update_in ac (has_id i) g t)) =
    (if j = i then map_option (\<lambda>r. if mine ac r then st (g r) else st r) (the_row j t)
     else map_option st (the_row j t))"
proof -
  have "the_row j (update_in ac (has_id i) g t) = map_option (\<lambda>r. if mine ac r \<and> has_id i r then g r else r) (the_row j t)"
    using assms by (intro the_row_update_in)
  then show ?thesis
    using the_row_Some(2) [of j t] by (cases "the_row j t") (auto simp: has_id_def)
qed

lemma the_row_update_other:
  "i \<noteq> j \<Longrightarrow> (\<And>x. r_id (g x) = r_id x) \<Longrightarrow> the_row i (update_in ac (has_id j) g t) = the_row i t"
  by (subst the_row_update_in) (auto simp: has_id_def dest: the_row_Some(2) cong: map_option_cong
      intro!: option.map_ident_strong)

lemma the_row_insert_other: "r_id r \<noteq> i \<Longrightarrow> the_row i (insert_row r t) = the_row i t"
  by (simp add: the_row_def insert_row_def has_id_def)

section \<open>The audit trail\<close>

definition sensitive_keys :: "string list" where
  "sensitive_keys = [''passwordHash'', ''mfaSecretEnc'', ''mfaRecoveryCodes'', ''tokenHash'',
     ''configEnc'', ''password'', ''currentPassword'', ''newPassword'']"

text \<open>\<open>redact(value, depth)\<close>: below depth 8 a value is returned as it is.\<close>

fun redact :: "json \<Rightarrow> nat \<Rightarrow> json" where
  "redact (JArr vs) depth =
     (if depth > 8 then JArr vs else JArr (map (\<lambda>v. redact v (depth + 1)) vs))"
| "redact (JObj kvs) depth =
     (if depth > 8 then JObj kvs
      else JObj (map (\<lambda>(k, v). (k, if k \<in> set sensitive_keys then JStr ''[redacted]''
                                   else redact v (depth + 1))) kvs))"
| "redact v depth = v"

definition redact_fields :: "(string \<times> json) list \<Rightarrow> (string \<times> json) list" where
  "redact_fields kvs =
     map (\<lambda>(k, v). (k, if k \<in> set sensitive_keys then JStr ''[redacted]'' else redact v 1)) kvs"

text \<open>Only the JSON columns of the modelled rows have anything to remove.\<close>

fun redact_snapshot :: "snapshot \<Rightarrow> snapshot" where
  "redact_snapshot (Fields kvs) = Fields (redact_fields kvs)"
| "redact_snapshot (Workpaper_Row w) = Workpaper_Row (w\<lparr> w_content := redact (w_content w) 1 \<rparr>)"
| "redact_snapshot (Template_Row t) = Template_Row (t\<lparr> tp_structure := redact (tp_structure t) 1 \<rparr>)"
| "redact_snapshot (Entity_Row e) = Entity_Row (e\<lparr> ae_regulatory := redact (ae_regulatory e) 1,
     ae_metadata := redact (ae_metadata e) 1 \<rparr>)"
| "redact_snapshot s = s"

record audit_input =
  ai_action :: string
  ai_target_type :: string
  ai_target :: "uuid option"
  ai_before :: snapshot
  ai_after :: snapshot
  ai_metadata :: "(string \<times> json) list"

definition audit_entry :: "actor \<Rightarrow> env \<Rightarrow> audit_input \<Rightarrow> db \<Rightarrow> audit_event" where
  "audit_entry ac env inp s =
     \<lparr> r_id = db_next s, r_tenant = ac_tenant ac, r_created = env_now env,
       at_actor = Some (ac_user ac), at_email = ac_email ac, at_action = ai_action inp,
       at_target_type = ai_target_type inp, at_target = ai_target inp,
       at_before = redact_snapshot (ai_before inp), at_after = redact_snapshot (ai_after inp),
       at_metadata = redact_fields (ai_metadata inp), at_ip = ac_ip ac, at_agent = ac_agent ac,
       at_request = ac_request ac \<rparr>"

definition audited :: "actor \<Rightarrow> env \<Rightarrow> audit_input \<Rightarrow> db \<Rightarrow> db" where
  "audited ac env inp s =
     s\<lparr> db_audit := insert_row (audit_entry ac env inp s) (db_audit s), db_next := db_next s + 1 \<rparr>"

definition audit_record :: "actor \<Rightarrow> env \<Rightarrow> audit_input \<Rightarrow> unit op" where
  "audit_record ac env inp = modify_h (audited ac env inp)"

definition audit_of :: "string \<Rightarrow> string \<Rightarrow> uuid \<Rightarrow> snapshot \<Rightarrow> snapshot \<Rightarrow> (string \<times> json) list \<Rightarrow> audit_input" where
  "audit_of action target_type target before after metadata =
     \<lparr> ai_action = action, ai_target_type = target_type, ai_target = Some target,
       ai_before = before, ai_after = after, ai_metadata = metadata \<rparr>"

section \<open>Notifications\<close>

record notify_input =
  ni_type :: string
  ni_title :: string
  ni_body :: "string option"
  ni_link :: "string option"
  ni_payload :: json

definition notified :: "actor \<Rightarrow> env \<Rightarrow> uuid option \<Rightarrow> notify_input \<Rightarrow> db \<Rightarrow> db" where
  "notified ac env uid inp s = (case uid of None \<Rightarrow> s | Some i \<Rightarrow>
     (case first_in ac (\<lambda>u. r_id u = i \<and> u_deleted_at u = None) (db_users s) of
        None \<Rightarrow> s
      | Some u \<Rightarrow>
          if u_status u = user_status.DEACTIVATED then s
          else s\<lparr> db_notifications := insert_row
                 \<lparr> r_id = db_next s, r_tenant = ac_tenant ac, r_created = env_now env,
                   nt_user = i, nt_type = ni_type inp, nt_title = ni_title inp,
                   nt_body = ni_body inp, nt_link = ni_link inp, nt_payload = ni_payload inp,
                   nt_sent_at = (if u_email u \<noteq> [] \<and> env_mail env (u_email u)
                                 then Some (env_now env) else None),
                   nt_read_at = None \<rparr> (db_notifications s),
                 db_next := db_next s + 1 \<rparr>))"

definition notify :: "actor \<Rightarrow> env \<Rightarrow> uuid option \<Rightarrow> notify_input \<Rightarrow> unit op" where
  "notify ac env uid inp = modify_h (notified ac env uid inp)"

definition present :: "'a option list \<Rightarrow> 'a list" where
  "present xs = map the (filter (\<lambda>x. x \<noteq> None) xs)"

definition notify_many :: "actor \<Rightarrow> env \<Rightarrow> uuid option list \<Rightarrow> notify_input \<Rightarrow> unit op" where
  "notify_many ac env uids inp = for_h (\<lambda>i. notify ac env (Some i) inp) (dedupe (present uids))"

definition notified_many :: "actor \<Rightarrow> env \<Rightarrow> uuid option list \<Rightarrow> notify_input \<Rightarrow> db \<Rightarrow> db" where
  "notified_many ac env uids inp s = fold (\<lambda>i. notified ac env (Some i) inp) (dedupe (present uids)) s"

lemma audit_record_run [run_h]: "audit_record ac env ai s = (Inr (), audited ac env ai s)"
  by (simp add: audit_record_def run_h)

lemma notify_run [run_h]: "notify ac env uid ni s = (Inr (), notified ac env uid ni s)"
  by (simp add: notify_def run_h)

lemma for_modify_run: "for_h (\<lambda>x. modify_h (f x)) xs s = (Inr (), fold f xs s)"
  by (induction xs arbitrary: s) (simp_all add: run_h)

lemma notify_many_run [run_h]: "notify_many ac env uids ni s = (Inr (), notified_many ac env uids ni s)"
  by (simp add: notify_many_def notified_many_def notify_def for_modify_run)

lemma audit_record_ok [ok_h]: "audit_record ac env ai s = (Inr y, s') \<longleftrightarrow> s' = audited ac env ai s"
  and notify_ok [ok_h]: "notify ac env uid ni s = (Inr y, s') \<longleftrightarrow> s' = notified ac env uid ni s"
  and notify_many_ok [ok_h]: "notify_many ac env uids ni s = (Inr y, s') \<longleftrightarrow> s' = notified_many ac env uids ni s"
  by (auto simp: run_h)

text \<open>Neither the trail nor the notifications touch any other table.\<close>

lemma audited_tables [simp]:
  "db_tenants (audited ac env inp s) = db_tenants s"
  "db_users (audited ac env inp s) = db_users s"
  "db_role_permissions (audited ac env inp s) = db_role_permissions s"
  "db_tokens (audited ac env inp s) = db_tokens s"
  "db_entities (audited ac env inp s) = db_entities s"
  "db_processes (audited ac env inp s) = db_processes s"
  "db_plans (audited ac env inp s) = db_plans s"
  "db_items (audited ac env inp s) = db_items s"
  "db_management (audited ac env inp s) = db_management s"
  "db_engagements (audited ac env inp s) = db_engagements s"
  "db_members (audited ac env inp s) = db_members s"
  "db_stakeholders (audited ac env inp s) = db_stakeholders s"
  "db_milestones (audited ac env inp s) = db_milestones s"
  "db_stages (audited ac env inp s) = db_stages s"
  "db_programs (audited ac env inp s) = db_programs s"
  "db_steps (audited ac env inp s) = db_steps s"
  "db_templates (audited ac env inp s) = db_templates s"
  "db_library (audited ac env inp s) = db_library s"
  "db_workpapers (audited ac env inp s) = db_workpapers s"
  "db_versions (audited ac env inp s) = db_versions s"
  "db_notes (audited ac env inp s) = db_notes s"
  "db_reviews (audited ac env inp s) = db_reviews s"
  "db_documents (audited ac env inp s) = db_documents s"
  "db_document_versions (audited ac env inp s) = db_document_versions s"
  "db_evidence (audited ac env inp s) = db_evidence s"
  "db_findings (audited ac env inp s) = db_findings s"
  "db_recommendations (audited ac env inp s) = db_recommendations s"
  "db_changes (audited ac env inp s) = db_changes s"
  "db_requests (audited ac env inp s) = db_requests s"
  "db_codes (audited ac env inp s) = db_codes s"
  "db_timesheets (audited ac env inp s) = db_timesheets s"
  "db_entries (audited ac env inp s) = db_entries s"
  "db_availability (audited ac env inp s) = db_availability s"
  "db_categories (audited ac env inp s) = db_categories s"
  "db_models (audited ac env inp s) = db_models s"
  "db_risks (audited ac env inp s) = db_risks s"
  "db_assessments (audited ac env inp s) = db_assessments s"
  "db_controls (audited ac env inp s) = db_controls s"
  "db_tests (audited ac env inp s) = db_tests s"
  "db_tasks (audited ac env inp s) = db_tasks s"
  "db_comments (audited ac env inp s) = db_comments s"
  "db_notifications (audited ac env inp s) = db_notifications s"
  by (simp_all add: audited_def)

lemma notified_tables [simp]:
  "db_tenants (notified ac env uid inp s) = db_tenants s"
  "db_users (notified ac env uid inp s) = db_users s"
  "db_role_permissions (notified ac env uid inp s) = db_role_permissions s"
  "db_tokens (notified ac env uid inp s) = db_tokens s"
  "db_entities (notified ac env uid inp s) = db_entities s"
  "db_processes (notified ac env uid inp s) = db_processes s"
  "db_plans (notified ac env uid inp s) = db_plans s"
  "db_items (notified ac env uid inp s) = db_items s"
  "db_management (notified ac env uid inp s) = db_management s"
  "db_engagements (notified ac env uid inp s) = db_engagements s"
  "db_members (notified ac env uid inp s) = db_members s"
  "db_stakeholders (notified ac env uid inp s) = db_stakeholders s"
  "db_milestones (notified ac env uid inp s) = db_milestones s"
  "db_stages (notified ac env uid inp s) = db_stages s"
  "db_programs (notified ac env uid inp s) = db_programs s"
  "db_steps (notified ac env uid inp s) = db_steps s"
  "db_templates (notified ac env uid inp s) = db_templates s"
  "db_library (notified ac env uid inp s) = db_library s"
  "db_workpapers (notified ac env uid inp s) = db_workpapers s"
  "db_versions (notified ac env uid inp s) = db_versions s"
  "db_notes (notified ac env uid inp s) = db_notes s"
  "db_reviews (notified ac env uid inp s) = db_reviews s"
  "db_documents (notified ac env uid inp s) = db_documents s"
  "db_document_versions (notified ac env uid inp s) = db_document_versions s"
  "db_evidence (notified ac env uid inp s) = db_evidence s"
  "db_findings (notified ac env uid inp s) = db_findings s"
  "db_recommendations (notified ac env uid inp s) = db_recommendations s"
  "db_changes (notified ac env uid inp s) = db_changes s"
  "db_requests (notified ac env uid inp s) = db_requests s"
  "db_codes (notified ac env uid inp s) = db_codes s"
  "db_timesheets (notified ac env uid inp s) = db_timesheets s"
  "db_entries (notified ac env uid inp s) = db_entries s"
  "db_availability (notified ac env uid inp s) = db_availability s"
  "db_categories (notified ac env uid inp s) = db_categories s"
  "db_models (notified ac env uid inp s) = db_models s"
  "db_risks (notified ac env uid inp s) = db_risks s"
  "db_assessments (notified ac env uid inp s) = db_assessments s"
  "db_controls (notified ac env uid inp s) = db_controls s"
  "db_tests (notified ac env uid inp s) = db_tests s"
  "db_tasks (notified ac env uid inp s) = db_tasks s"
  "db_comments (notified ac env uid inp s) = db_comments s"
  "db_audit (notified ac env uid inp s) = db_audit s"
  by (simp_all add: notified_def split: option.split)

lemma notified_many_tables [simp]:
  "db_tenants (notified_many ac env uids inp s) = db_tenants s"
  "db_users (notified_many ac env uids inp s) = db_users s"
  "db_role_permissions (notified_many ac env uids inp s) = db_role_permissions s"
  "db_tokens (notified_many ac env uids inp s) = db_tokens s"
  "db_entities (notified_many ac env uids inp s) = db_entities s"
  "db_processes (notified_many ac env uids inp s) = db_processes s"
  "db_plans (notified_many ac env uids inp s) = db_plans s"
  "db_items (notified_many ac env uids inp s) = db_items s"
  "db_management (notified_many ac env uids inp s) = db_management s"
  "db_engagements (notified_many ac env uids inp s) = db_engagements s"
  "db_members (notified_many ac env uids inp s) = db_members s"
  "db_stakeholders (notified_many ac env uids inp s) = db_stakeholders s"
  "db_milestones (notified_many ac env uids inp s) = db_milestones s"
  "db_stages (notified_many ac env uids inp s) = db_stages s"
  "db_programs (notified_many ac env uids inp s) = db_programs s"
  "db_steps (notified_many ac env uids inp s) = db_steps s"
  "db_templates (notified_many ac env uids inp s) = db_templates s"
  "db_library (notified_many ac env uids inp s) = db_library s"
  "db_workpapers (notified_many ac env uids inp s) = db_workpapers s"
  "db_versions (notified_many ac env uids inp s) = db_versions s"
  "db_notes (notified_many ac env uids inp s) = db_notes s"
  "db_reviews (notified_many ac env uids inp s) = db_reviews s"
  "db_documents (notified_many ac env uids inp s) = db_documents s"
  "db_document_versions (notified_many ac env uids inp s) = db_document_versions s"
  "db_evidence (notified_many ac env uids inp s) = db_evidence s"
  "db_findings (notified_many ac env uids inp s) = db_findings s"
  "db_recommendations (notified_many ac env uids inp s) = db_recommendations s"
  "db_changes (notified_many ac env uids inp s) = db_changes s"
  "db_requests (notified_many ac env uids inp s) = db_requests s"
  "db_codes (notified_many ac env uids inp s) = db_codes s"
  "db_timesheets (notified_many ac env uids inp s) = db_timesheets s"
  "db_entries (notified_many ac env uids inp s) = db_entries s"
  "db_availability (notified_many ac env uids inp s) = db_availability s"
  "db_categories (notified_many ac env uids inp s) = db_categories s"
  "db_models (notified_many ac env uids inp s) = db_models s"
  "db_risks (notified_many ac env uids inp s) = db_risks s"
  "db_assessments (notified_many ac env uids inp s) = db_assessments s"
  "db_controls (notified_many ac env uids inp s) = db_controls s"
  "db_tests (notified_many ac env uids inp s) = db_tests s"
  "db_tasks (notified_many ac env uids inp s) = db_tasks s"
  "db_comments (notified_many ac env uids inp s) = db_comments s"
  "db_audit (notified_many ac env uids inp s) = db_audit s"
proof -
  have f: "g (fold (\<lambda>i. notified ac env (Some i) inp) xs s) = g s"
    if "\<And>i s. g (notified ac env (Some i) inp s) = g s" for g :: "db \<Rightarrow> 'x" and xs s
    using that by (induction xs arbitrary: s) simp_all
  show "db_tenants (notified_many ac env uids inp s) = db_tenants s"
    "db_users (notified_many ac env uids inp s) = db_users s"
    "db_role_permissions (notified_many ac env uids inp s) = db_role_permissions s"
    "db_tokens (notified_many ac env uids inp s) = db_tokens s"
    "db_entities (notified_many ac env uids inp s) = db_entities s"
    "db_processes (notified_many ac env uids inp s) = db_processes s"
    "db_plans (notified_many ac env uids inp s) = db_plans s"
    "db_items (notified_many ac env uids inp s) = db_items s"
    "db_management (notified_many ac env uids inp s) = db_management s"
    "db_engagements (notified_many ac env uids inp s) = db_engagements s"
    "db_members (notified_many ac env uids inp s) = db_members s"
    "db_stakeholders (notified_many ac env uids inp s) = db_stakeholders s"
    "db_milestones (notified_many ac env uids inp s) = db_milestones s"
    "db_stages (notified_many ac env uids inp s) = db_stages s"
    "db_programs (notified_many ac env uids inp s) = db_programs s"
    "db_steps (notified_many ac env uids inp s) = db_steps s"
    "db_templates (notified_many ac env uids inp s) = db_templates s"
    "db_library (notified_many ac env uids inp s) = db_library s"
    "db_workpapers (notified_many ac env uids inp s) = db_workpapers s"
    "db_versions (notified_many ac env uids inp s) = db_versions s"
    "db_notes (notified_many ac env uids inp s) = db_notes s"
    "db_reviews (notified_many ac env uids inp s) = db_reviews s"
    "db_documents (notified_many ac env uids inp s) = db_documents s"
    "db_document_versions (notified_many ac env uids inp s) = db_document_versions s"
    "db_evidence (notified_many ac env uids inp s) = db_evidence s"
    "db_findings (notified_many ac env uids inp s) = db_findings s"
    "db_recommendations (notified_many ac env uids inp s) = db_recommendations s"
    "db_changes (notified_many ac env uids inp s) = db_changes s"
    "db_requests (notified_many ac env uids inp s) = db_requests s"
    "db_codes (notified_many ac env uids inp s) = db_codes s"
    "db_timesheets (notified_many ac env uids inp s) = db_timesheets s"
    "db_entries (notified_many ac env uids inp s) = db_entries s"
    "db_availability (notified_many ac env uids inp s) = db_availability s"
    "db_categories (notified_many ac env uids inp s) = db_categories s"
    "db_models (notified_many ac env uids inp s) = db_models s"
    "db_risks (notified_many ac env uids inp s) = db_risks s"
    "db_assessments (notified_many ac env uids inp s) = db_assessments s"
    "db_controls (notified_many ac env uids inp s) = db_controls s"
    "db_tests (notified_many ac env uids inp s) = db_tests s"
    "db_tasks (notified_many ac env uids inp s) = db_tasks s"
    "db_comments (notified_many ac env uids inp s) = db_comments s"
    "db_audit (notified_many ac env uids inp s) = db_audit s"
    by (simp_all add: notified_many_def f)
qed

section \<open>Frames\<close>

text \<open>The rows of the other tenants.\<close>

definition outside :: "uuid \<Rightarrow> 'r row_scheme list \<Rightarrow> 'r row_scheme list" where
  "outside tn t = filter (\<lambda>r. r_tenant r \<noteq> tn) t"

definition same_outside :: "uuid \<Rightarrow> db \<Rightarrow> db \<Rightarrow> bool" where
  "same_outside tn s s' \<longleftrightarrow>
     db_tenants s' = db_tenants s \<and>
     outside tn (db_users s') = outside tn (db_users s) \<and>
     outside tn (db_role_permissions s') = outside tn (db_role_permissions s) \<and>
     outside tn (db_tokens s') = outside tn (db_tokens s) \<and>
     outside tn (db_entities s') = outside tn (db_entities s) \<and>
     outside tn (db_processes s') = outside tn (db_processes s) \<and>
     outside tn (db_plans s') = outside tn (db_plans s) \<and>
     outside tn (db_items s') = outside tn (db_items s) \<and>
     outside tn (db_management s') = outside tn (db_management s) \<and>
     outside tn (db_engagements s') = outside tn (db_engagements s) \<and>
     outside tn (db_members s') = outside tn (db_members s) \<and>
     outside tn (db_stakeholders s') = outside tn (db_stakeholders s) \<and>
     outside tn (db_milestones s') = outside tn (db_milestones s) \<and>
     outside tn (db_stages s') = outside tn (db_stages s) \<and>
     outside tn (db_programs s') = outside tn (db_programs s) \<and>
     outside tn (db_steps s') = outside tn (db_steps s) \<and>
     filter (\<lambda>t. tp_tenant t \<noteq> Some tn) (db_templates s') = filter (\<lambda>t. tp_tenant t \<noteq> Some tn) (db_templates s) \<and>
     map item_core (filter (\<lambda>l. li_tenant l \<noteq> Some tn) (db_library s')) =
       map item_core (filter (\<lambda>l. li_tenant l \<noteq> Some tn) (db_library s)) \<and>
     outside tn (db_workpapers s') = outside tn (db_workpapers s) \<and>
     outside tn (db_versions s') = outside tn (db_versions s) \<and>
     outside tn (db_notes s') = outside tn (db_notes s) \<and>
     outside tn (db_reviews s') = outside tn (db_reviews s) \<and>
     outside tn (db_documents s') = outside tn (db_documents s) \<and>
     outside tn (db_document_versions s') = outside tn (db_document_versions s) \<and>
     outside tn (db_evidence s') = outside tn (db_evidence s) \<and>
     outside tn (db_findings s') = outside tn (db_findings s) \<and>
     outside tn (db_recommendations s') = outside tn (db_recommendations s) \<and>
     outside tn (db_changes s') = outside tn (db_changes s) \<and>
     outside tn (db_requests s') = outside tn (db_requests s) \<and>
     outside tn (db_codes s') = outside tn (db_codes s) \<and>
     outside tn (db_timesheets s') = outside tn (db_timesheets s) \<and>
     outside tn (db_entries s') = outside tn (db_entries s) \<and>
     outside tn (db_availability s') = outside tn (db_availability s) \<and>
     outside tn (db_categories s') = outside tn (db_categories s) \<and>
     outside tn (db_models s') = outside tn (db_models s) \<and>
     outside tn (db_risks s') = outside tn (db_risks s) \<and>
     outside tn (db_assessments s') = outside tn (db_assessments s) \<and>
     outside tn (db_controls s') = outside tn (db_controls s) \<and>
     outside tn (db_tests s') = outside tn (db_tests s) \<and>
     outside tn (db_tasks s') = outside tn (db_tasks s) \<and>
     outside tn (db_comments s') = outside tn (db_comments s) \<and>
     outside tn (db_notifications s') = outside tn (db_notifications s) \<and>
     outside tn (db_audit s') = outside tn (db_audit s)"

definition audit_grows :: "db \<Rightarrow> db \<Rightarrow> bool" where
  "audit_grows s s' \<longleftrightarrow> (\<exists>new. db_audit s' = db_audit s @ new) \<and> db_next s \<le> db_next s'"

text \<open>What each operation of the services keeps: both of them, for the tenant of the actor.\<close>

definition confined :: "uuid \<Rightarrow> db \<Rightarrow> db \<Rightarrow> bool" where
  "confined tn = both (same_outside tn) audit_grows"

interpretation isolation: frame "same_outside tn" for tn
  by unfold_locales (simp_all add: same_outside_def)

interpretation append_only: frame audit_grows
  by unfold_locales (auto simp: audit_grows_def)

interpretation confinement: frame "confined tn" for tn
  unfolding confined_def by (rule frame_both isolation.frame_axioms append_only.frame_axioms)+

named_theorems confined_simps \<open>tables of other tenants under the scoped operations\<close>

lemma outside_update_in [confined_simps]:
  assumes "\<And>r. r_tenant (f r) = r_tenant r"
  shows "outside (ac_tenant ac) (update_in ac P f t) = outside (ac_tenant ac) t"
  unfolding outside_def update_in_def using assms
  by (intro filter_update_rows_other) (auto simp: mine_def)

lemma outside_delete_in [confined_simps]:
  "outside (ac_tenant ac) (delete_in ac P t) = outside (ac_tenant ac) t"
  unfolding outside_def delete_in_def by (rule filter_delete_rows_other) (simp add: mine_def)

lemma outside_insert_row [confined_simps]:
  "r_tenant r = tn \<Longrightarrow> outside tn (insert_row r t) = outside tn t"
  by (simp add: outside_def filter_insert_row_other)

lemma audit_insert [confined_simps]: "\<exists>new. insert_row r t = t @ new"
  by (simp add: insert_row_def)

lemma confinedI:
  "same_outside tn s s' \<Longrightarrow> audit_grows s s' \<Longrightarrow> confined tn s s'"
  by (simp add: confined_def both_def)

lemma keeps_confined_modify:
  assumes "\<And>s. same_outside tn s (f s)" "\<And>s. audit_grows s (f s)"
  shows "keeps (confined tn) (modify_h f)"
  using assms by (intro confinement.keeps_modify confinedI)

lemma keeps_confined_create:
  assumes "\<And>s. same_outside tn s (ins (mk s) s)" "\<And>s. audit_grows s (ins (mk s) s)"
  shows "keeps (confined tn) (create_h mk ins)"
  using assms by (intro confinement.keeps_create confinedI)

lemma audit_record_confined: "keeps (confined (ac_tenant ac)) (audit_record ac env inp)"
  unfolding audit_record_def
  by (rule keeps_confined_modify)
     (simp_all add: audited_def same_outside_def audit_grows_def confined_simps audit_entry_def)

lemma notify_confined: "keeps (confined (ac_tenant ac)) (notify ac env uid inp)"
  unfolding notify_def
  by (rule keeps_confined_modify)
     (auto simp: notified_def same_outside_def audit_grows_def confined_simps split: option.splits)

lemma notify_many_confined: "keeps (confined (ac_tenant ac)) (notify_many ac env uids inp)"
  unfolding notify_many_def by (intro confinement.keeps_for notify_confined)

lemmas confined_intros = confinement.keeps_intros audit_record_confined notify_confined notify_many_confined

text \<open>What remains of a confinement goal after the control flow: the writes.\<close>

lemmas confined_steps = confined_intros keeps_confined_modify keeps_confined_create

lemmas confined_writes = same_outside_def audit_grows_def confined_simps

lemma confined_next: "confined tn s s' \<Longrightarrow> db_next s \<le> db_next s'"
  by (simp add: confined_def both_def audit_grows_def)

section \<open>Invariants of one table\<close>

text \<open>
  A table whose keys are distinct and already issued and whose rows satisfy \<open>ok\<close>. A handler keeps
  it when it leaves the table alone, adds one good row under the next key, or rewrites the row of
  the actor's tenant that it has read.
\<close>

definition table_ok :: "('r row_scheme \<Rightarrow> bool) \<Rightarrow> nat \<Rightarrow> 'r row_scheme list \<Rightarrow> bool" where
  "table_ok ok n t \<longleftrightarrow> distinct (map r_id t) \<and> (\<forall>r \<in> set t. r_id r < n \<and> ok r)"

definition row_step ::
  "actor \<Rightarrow> ('r row_scheme \<Rightarrow> bool) \<Rightarrow> nat \<Rightarrow> nat \<Rightarrow> 'r row_scheme list \<Rightarrow> 'r row_scheme list \<Rightarrow> bool" where
  "row_step ac ok n n' t t' \<longleftrightarrow> n \<le> n' \<and>
     (t' = t \<or>
      (\<exists>r. t' = t @ [r] \<and> r_id r = n \<and> n < n' \<and> ok r) \<or>
      (\<exists>r g. r \<in> set t \<and> t' = update_in ac (has_id (r_id r)) g t \<and> (\<forall>x. r_id (g x) = r_id x) \<and>
             (ok r \<longrightarrow> ok (g r))))"

lemma row_step_same: "n \<le> n' \<Longrightarrow> row_step ac ok n n' t t"
  by (simp add: row_step_def)

lemma row_step_insert: "r_id r = n \<Longrightarrow> n < n' \<Longrightarrow> ok r \<Longrightarrow> row_step ac ok n n' t (t @ [r])"
  by (simp add: row_step_def)

lemma row_step_update:
  assumes "n \<le> n'" "r \<in> set t" "r_id r = i" "\<And>x. r_id (g x) = r_id x" "ok r \<Longrightarrow> ok (g r)"
  shows "row_step ac ok n n' t (update_in ac (has_id i) g t)"
  using assms unfolding row_step_def by blast

lemma row_step_ok:
  assumes "row_step ac ok n n' t t'" "table_ok ok n t"
  shows "table_ok ok n' t'"
proof -
  have le: "n \<le> n'" using assms(1) by (simp add: row_step_def)
  consider "t' = t" | r where "t' = t @ [r]" "r_id r = n" "n < n'" "ok r"
    | r g where "r \<in> set t" "t' = update_in ac (has_id (r_id r)) g t" "\<And>x. r_id (g x) = r_id x"
        "ok r \<longrightarrow> ok (g r)"
    using assms(1) unfolding row_step_def by blast
  then show ?thesis
  proof cases
    case 1
    then show ?thesis using assms(2) le by (auto simp: table_ok_def)
  next
    case 2
    have "n \<notin> r_id ` set t" using assms(2) by (auto simp: table_ok_def)
    moreover have "r_id q < n'" if "q \<in> set t" for q using that assms(2) le by (auto simp: table_ok_def)
    ultimately show ?thesis using assms(2) 2 by (simp add: table_ok_def)
  next
    case (3 r g)
    have d: "distinct (map r_id t)" using assms(2) by (simp add: table_ok_def)
    have only: "q = r" if "q \<in> set t" "has_id (r_id r) q" for q
      using that 3(1) d by (auto simp: has_id_def distinct_map inj_on_def)
    have "map r_id t' = map r_id t"
      unfolding 3(2) update_in_def using 3(3) by (intro map_update_rows_id)
    moreover have "r_id q < n' \<and> ok q" if "q \<in> set t'" for q
      using that unfolding 3(2)
    proof (cases rule: update_in_cases)
      case (updated p)
      then have "p = r" by (intro only)
      then show ?thesis using updated 3 assms(2) le by (auto simp: table_ok_def)
    next
      case kept
      then show ?thesis using assms(2) le by (auto simp: table_ok_def)
    qed
    ultimately show ?thesis using d by (simp add: table_ok_def)
  qed
qed

lemma table_ok_grow: "table_ok ok n t \<Longrightarrow> n \<le> n' \<Longrightarrow> table_ok ok n' t"
  by (auto simp: table_ok_def)

lemma the_row_table_ok:
  assumes "table_ok ok n t" "r \<in> set t"
  shows "the_row (r_id r) t = Some r"
proof -
  have d: "distinct (map r_id t)" using assms(1) by (simp add: table_ok_def)
  have "filter (has_id (r_id r)) t = [r]"
    using d assms(2) by (induction t) (auto simp: has_id_def filter_empty_conv image_iff)
  then show ?thesis by (simp add: the_row_filter)
qed

lemma kept_confined: "keeps (confined tn) m \<Longrightarrow> confined tn s (snd (m s))"
  by (simp add: keeps_def)

end
