(* ===== verification/Workflow_Service.thy ===== *)
theory Workflow_Service
  imports Store
begin

text \<open>
  \<open>workflow/guard-registry.ts\<close> and \<open>workflow/workflow.service.ts\<close>: guards are registered under a
  machine and a name and looked up when a transition that names them is attempted. A guard reads
  the record, the actor and, through its closure, the database; a registry is a map from names to
  such functions. \<open>workflow_transition\<close> is the check order of the service (409, 403, 422) and
  \<open>workflow_available\<close> its report to the client. The main lemmas: a transition succeeds exactly
  when the machine has it, the actor holds its permission and all its guards pass, and the report
  says \<open>allowed\<close> for exactly those.
\<close>

record 'e guard_context =
  gc_entity :: 'e
  gc_user :: uuid
  gc_permissions :: "permission_key list"
  gc_action :: string
  gc_comment :: "string option"

record guard_result =
  gr_ok :: bool
  gr_message :: "string option"

text \<open>A guard returns a boolean or a result with a message.\<close>

type_synonym 'e guard_fn = "'e guard_context \<Rightarrow> bool + guard_result"

text \<open>A map of maps, as in the source.\<close>

type_synonym 'e guard_registry = "string \<Rightarrow> (string \<Rightarrow> 'e guard_fn option) option"

definition empty_registry :: "'e guard_registry" where
  "empty_registry = (\<lambda>_. None)"

definition register_guard :: "string \<Rightarrow> string \<Rightarrow> 'e guard_fn \<Rightarrow> 'e guard_registry \<Rightarrow> 'e guard_registry" where
  "register_guard machine guard fn reg =
     reg(machine := Some ((case reg machine of None \<Rightarrow> (\<lambda>_. None) | Some m \<Rightarrow> m)(guard := Some fn)))"

definition get_guard :: "'e guard_registry \<Rightarrow> string \<Rightarrow> string \<Rightarrow> 'e guard_fn option" where
  "get_guard reg machine guard = (case reg machine of None \<Rightarrow> None | Some m \<Rightarrow> m guard)"

definition has_guard :: "'e guard_registry \<Rightarrow> string \<Rightarrow> string \<Rightarrow> bool" where
  "has_guard reg machine guard \<longleftrightarrow> get_guard reg machine guard \<noteq> None"

lemma get_guard_register:
  "get_guard (register_guard m g fn reg) m' g' = (if m' = m \<and> g' = g then Some fn else get_guard reg m' g')"
  by (simp add: get_guard_def register_guard_def split: option.splits)

lemma get_guard_empty [simp]: "get_guard empty_registry m g = None"
  by (simp add: get_guard_def empty_registry_def)

text \<open>\<open>has_lead\<close> becomes \<open>Has lead\<close>.\<close>

definition upper_char :: "char \<Rightarrow> char" where
  "upper_char c = (let n = of_char c :: nat in if 97 \<le> n \<and> n \<le> 122 then char_of (n - 32) else c)"

definition humanize_guard :: "string \<Rightarrow> string" where
  "humanize_guard name =
     (case map (\<lambda>c. if c = CHR ''_'' then CHR '' '' else c) name of
        [] \<Rightarrow> [] | c # cs \<Rightarrow> upper_char c # cs)"

fun join_with :: "string \<Rightarrow> string list \<Rightarrow> string" where
  "join_with sep [] = []"
| "join_with sep [x] = x"
| "join_with sep (x # y # zs) = x @ sep @ join_with sep (y # zs)"

section \<open>Evaluation of guards\<close>

definition guard_failed :: "string \<Rightarrow> bool + guard_result \<Rightarrow> guard_failure option" where
  "guard_failed guard raw =
     (let r = (case raw of Inl b \<Rightarrow> \<lparr> gr_ok = b, gr_message = None \<rparr> | Inr r \<Rightarrow> r)
      in if gr_ok r then None
         else Some \<lparr> gf_guard = guard, gf_message = coalesce (gr_message r) (humanize_guard guard) \<rparr>)"

fun evaluate_guards ::
  "'e guard_registry \<Rightarrow> string \<Rightarrow> string list \<Rightarrow> 'e guard_context \<Rightarrow> guard_failure list result" where
  "evaluate_guards reg machine [] gc = Inr []"
| "evaluate_guards reg machine (g # gs) gc =
     (case get_guard reg machine g of
        None \<Rightarrow> Inl (InternalError (''Workflow guard \"'' @ g @ ''\" is not configured''))
      | Some fn \<Rightarrow>
          (case guard_failed g (fn gc) of
             None \<Rightarrow> evaluate_guards reg machine gs gc
           | Some f \<Rightarrow>
               (case evaluate_guards reg machine gs gc of
                  Inl e \<Rightarrow> Inl e | Inr fs \<Rightarrow> Inr (f # fs))))"

definition passes :: "'e guard_registry \<Rightarrow> string \<Rightarrow> 'e guard_context \<Rightarrow> string \<Rightarrow> bool" where
  "passes reg machine gc g \<longleftrightarrow>
     (case get_guard reg machine g of None \<Rightarrow> False | Some fn \<Rightarrow> guard_failed g (fn gc) = None)"

lemma evaluate_guards_Nil_iff:
  "evaluate_guards reg machine gs gc = Inr [] \<longleftrightarrow> list_all (passes reg machine gc) gs"
  by (induction gs) (auto simp: passes_def split: option.splits sum.splits)

lemma evaluate_guards_configured:
  "list_all (has_guard reg machine) gs \<Longrightarrow> \<exists>fs. evaluate_guards reg machine gs gc = Inr fs"
  by (induction gs) (auto simp: has_guard_def split: option.splits)

lemma guard_failed_name: "guard_failed g raw = Some f \<Longrightarrow> gf_guard f = g"
  by (auto simp: guard_failed_def Let_def split: if_splits)

lemma evaluate_guards_failures:
  "evaluate_guards reg machine gs gc = Inr fs \<Longrightarrow>
   map gf_guard fs = filter (\<lambda>g. \<not> passes reg machine gc g) gs"
proof (induction gs arbitrary: fs)
  case (Cons g gs)
  then show ?case
    by (auto simp: passes_def guard_failed_name split: option.splits sum.splits)
qed simp

section \<open>Transitions\<close>

definition guards_of :: "'s transition \<Rightarrow> string list option \<Rightarrow> string list" where
  "guards_of t extra = coalesce (tr_guards t) [] @ coalesce extra []"

text \<open>\<open>name\<close> renders a status, which is a string in the source.\<close>

definition workflow_transition ::
  "'e guard_registry \<Rightarrow> ('s \<Rightarrow> string) \<Rightarrow> 's state_machine_decl \<Rightarrow> 's \<Rightarrow> string \<Rightarrow> actor \<Rightarrow> 'e \<Rightarrow>
   string option \<Rightarrow> string list option \<Rightarrow> 's transition result" where
  "workflow_transition reg name machine current action ac entity comment extra =
     (case find_transition machine current action of
        None \<Rightarrow> Inl (Conflict (''Action \"'' @ action @ ''\" is not available from state '' @ name current))
      | Some t \<Rightarrow>
          if tr_permission t \<notin> set (ac_permissions ac)
          then Inl (Forbidden (''Missing permission: '' @ tr_permission t))
          else
            (case evaluate_guards reg (sm_name machine) (guards_of t extra)
                    \<lparr> gc_entity = entity, gc_user = ac_user ac, gc_permissions = ac_permissions ac,
                      gc_action = action, gc_comment = comment \<rparr> of
               Inl e \<Rightarrow> Inl e
             | Inr failed \<Rightarrow>
                 if failed \<noteq> []
                 then Inl (WorkflowGuard failed (''Cannot '' @ to_lower (tr_label t) @ '': '' @
                        join_with ''; '' (map gf_message failed)))
                 else Inr t))"

record 's available_action =
  aa_action :: string
  aa_label :: string
  aa_to :: 's
  aa_permission :: permission_key
  aa_permitted :: bool
  aa_allowed :: bool
  aa_failed :: "guard_failure list"

fun available_from ::
  "'e guard_registry \<Rightarrow> 's state_machine_decl \<Rightarrow> actor \<Rightarrow> 'e \<Rightarrow> ('s transition \<Rightarrow> string list) \<Rightarrow>
   's transition list \<Rightarrow> 's available_action list result" where
  "available_from reg machine ac entity extra [] = Inr []"
| "available_from reg machine ac entity extra (t # ts) =
     (case evaluate_guards reg (sm_name machine) (guards_of t (Some (extra t)))
             \<lparr> gc_entity = entity, gc_user = ac_user ac, gc_permissions = ac_permissions ac,
               gc_action = tr_action t, gc_comment = None \<rparr> of
        Inl e \<Rightarrow> Inl e
      | Inr failed \<Rightarrow>
          (case available_from reg machine ac entity extra ts of
             Inl e \<Rightarrow> Inl e
           | Inr rest \<Rightarrow>
               Inr (\<lparr> aa_action = tr_action t, aa_label = tr_label t, aa_to = tr_to t,
                      aa_permission = tr_permission t,
                      aa_permitted = tr_permission t \<in> set (ac_permissions ac),
                      aa_allowed = (tr_permission t \<in> set (ac_permissions ac) \<and> failed = []),
                      aa_failed = failed \<rparr> # rest)))"

definition workflow_available ::
  "'e guard_registry \<Rightarrow> 's state_machine_decl \<Rightarrow> 's \<Rightarrow> actor \<Rightarrow> 'e \<Rightarrow> ('s transition \<Rightarrow> string list) \<Rightarrow>
   's available_action list result" where
  "workflow_available reg machine current ac entity extra =
     available_from reg machine ac entity extra
       (filter (\<lambda>x. tr_from x = current) (sm_transitions machine))"

lemma workflow_transition_ok_iff:
  "workflow_transition reg name m s a ac e c extra = Inr t \<longleftrightarrow>
     find_transition m s a = Some t \<and> tr_permission t \<in> set (ac_permissions ac) \<and>
     list_all (passes reg (sm_name m)
       \<lparr> gc_entity = e, gc_user = ac_user ac, gc_permissions = ac_permissions ac,
         gc_action = a, gc_comment = c \<rparr>) (guards_of t extra)"
  by (auto simp: workflow_transition_def evaluate_guards_Nil_iff [symmetric]
      split: option.splits sum.splits if_splits)

lemma workflow_transitionD:
  assumes "workflow_transition reg name m s a ac e c extra = Inr t"
  shows "find_transition m s a = Some t" "t \<in> set (sm_transitions m)" "tr_from t = s" "tr_action t = a"
    "tr_permission t \<in> set (ac_permissions ac)" "sm_step m s a (tr_to t)"
  using assms by (auto simp: workflow_transition_ok_iff dest: find_transition_Some find_transition_step)

text \<open>The report: one entry per transition out of the state, in order.\<close>

lemma available_from_map:
  "available_from reg m ac e extra ts = Inr rs \<Longrightarrow>
   map aa_action rs = map tr_action ts \<and> map aa_to rs = map tr_to ts"
  by (induction ts arbitrary: rs) (auto split: sum.splits)

lemma available_from_allowed:
  assumes "available_from reg m ac e extra ts = Inr rs" "r \<in> set rs"
  shows "\<exists>t \<in> set ts. aa_action r = tr_action t \<and> aa_to r = tr_to t \<and>
    (aa_allowed r \<longleftrightarrow> tr_permission t \<in> set (ac_permissions ac) \<and>
       evaluate_guards reg (sm_name m) (guards_of t (Some (extra t)))
         \<lparr> gc_entity = e, gc_user = ac_user ac, gc_permissions = ac_permissions ac,
           gc_action = tr_action t, gc_comment = None \<rparr> = Inr [])"
  using assms
proof (induction ts arbitrary: rs)
  case (Cons t ts)
  from Cons.prems obtain failed rest where
    ev: "evaluate_guards reg (sm_name m) (guards_of t (Some (extra t)))
        \<lparr> gc_entity = e, gc_user = ac_user ac, gc_permissions = ac_permissions ac,
          gc_action = tr_action t, gc_comment = None \<rparr> = Inr failed"
    and rest: "available_from reg m ac e extra ts = Inr rest"
    by (auto split: sum.splits)
  from Cons.prems ev rest have "r \<in> set rest \<or> (aa_action r = tr_action t \<and> aa_to r = tr_to t \<and>
      (aa_allowed r \<longleftrightarrow> tr_permission t \<in> set (ac_permissions ac) \<and> failed = []))"
    by auto
  then show ?case
  proof
    assume "r \<in> set rest"
    then show ?thesis using Cons.IH [OF rest] by auto
  next
    assume "aa_action r = tr_action t \<and> aa_to r = tr_to t \<and>
      (aa_allowed r \<longleftrightarrow> tr_permission t \<in> set (ac_permissions ac) \<and> failed = [])"
    then show ?thesis using ev by (intro bexI [of _ t]) auto
  qed
qed simp

text \<open>When every declared guard is registered, the report never fails.\<close>

definition guards_registered ::
  "'e guard_registry \<Rightarrow> 's state_machine_decl \<Rightarrow> ('s transition \<Rightarrow> string list) \<Rightarrow> bool" where
  "guards_registered reg m extra \<longleftrightarrow>
     list_all (\<lambda>t. list_all (has_guard reg (sm_name m)) (guards_of t (Some (extra t)))) (sm_transitions m)"

lemma workflow_available_ok:
  assumes "guards_registered reg m extra"
  shows "\<exists>rs. workflow_available reg m s ac e extra = Inr rs"
proof -
  have "\<exists>rs. available_from reg m ac e extra ts = Inr rs" if "set ts \<subseteq> set (sm_transitions m)" for ts
    using that
  proof (induction ts)
    case (Cons t ts)
    from Cons.prems have "t \<in> set (sm_transitions m)" by simp
    then have "list_all (has_guard reg (sm_name m)) (guards_of t (Some (extra t)))"
      using assms unfolding guards_registered_def list_all_iff by fast
    then obtain fs where fs: "evaluate_guards reg (sm_name m) (guards_of t (Some (extra t)))
        \<lparr> gc_entity = e, gc_user = ac_user ac, gc_permissions = ac_permissions ac,
          gc_action = tr_action t, gc_comment = None \<rparr> = Inr fs"
      using evaluate_guards_configured by blast
    from Cons.prems have "set ts \<subseteq> set (sm_transitions m)" by simp
    then obtain rs where "available_from reg m ac e extra ts = Inr rs" using Cons.IH by blast
    with fs show ?case by simp
  qed simp
  then show ?thesis unfolding workflow_available_def by (meson filter_is_subset)
qed

context workflow_machine
begin

text \<open>
  The report and the enforcement agree: an action that is reported as allowed is accepted, and
  every action that is accepted (without a comment) is reported as allowed.
\<close>

lemma available_agrees:
  assumes "workflow_available reg m s ac e extra = Inr rs"
  shows "(\<exists>r \<in> set rs. aa_action r = a \<and> aa_allowed r) \<longleftrightarrow>
    (\<exists>t. find_transition m s a = Some t \<and>
         workflow_transition reg name m s a ac e None (Some (extra t)) = Inr t)"
proof
  assume "\<exists>r \<in> set rs. aa_action r = a \<and> aa_allowed r"
  then obtain r where r: "r \<in> set rs" "aa_action r = a" "aa_allowed r" by blast
  from available_from_allowed [OF assms [unfolded workflow_available_def] r(1)] r
  obtain t where "t \<in> set (sm_transitions m)" "tr_from t = s" "tr_action t = a"
    and "tr_permission t \<in> set (ac_permissions ac)"
    and "evaluate_guards reg (sm_name m) (guards_of t (Some (extra t)))
         \<lparr> gc_entity = e, gc_user = ac_user ac, gc_permissions = ac_permissions ac,
           gc_action = a, gc_comment = None \<rparr> = Inr []"
    by auto
  then show "\<exists>t. find_transition m s a = Some t \<and>
      workflow_transition reg name m s a ac e None (Some (extra t)) = Inr t"
    by (auto simp: workflow_transition_ok_iff evaluate_guards_Nil_iff find_transition_iff)
next
  assume "\<exists>t. find_transition m s a = Some t \<and>
      workflow_transition reg name m s a ac e None (Some (extra t)) = Inr t"
  then obtain t where t: "find_transition m s a = Some t"
      "workflow_transition reg name m s a ac e None (Some (extra t)) = Inr t" by blast
  then have "t \<in> set (filter (\<lambda>x. tr_from x = s) (sm_transitions m))" "tr_action t = a"
    by (auto simp: find_transition_iff)
  moreover have "map aa_action rs = map tr_action (filter (\<lambda>x. tr_from x = s) (sm_transitions m))"
    using available_from_map [OF assms [unfolded workflow_available_def]] by simp
  ultimately have "a \<in> set (map aa_action rs)" by auto
  then obtain r where r: "r \<in> set rs" "aa_action r = a" by auto
  from available_from_allowed [OF assms [unfolded workflow_available_def] r(1)]
  obtain u where u0: "u \<in> set (filter (\<lambda>x. tr_from x = s) (sm_transitions m))" "aa_action r = tr_action u"
    and allowed: "aa_allowed r \<longleftrightarrow> tr_permission u \<in> set (ac_permissions ac) \<and>
       evaluate_guards reg (sm_name m) (guards_of u (Some (extra u)))
         \<lparr> gc_entity = e, gc_user = ac_user ac, gc_permissions = ac_permissions ac,
           gc_action = tr_action u, gc_comment = None \<rparr> = Inr []"
    by blast
  then have u: "u \<in> set (sm_transitions m)" "tr_from u = s" "tr_action u = a"
    using r(2) by simp_all
  have "u = t" using t u by (auto simp: find_transition_iff intro: transition_unique)
  then have "aa_allowed r"
    using t allowed u by (simp add: workflow_transition_ok_iff evaluate_guards_Nil_iff)
  with r show "\<exists>r \<in> set rs. aa_action r = a \<and> aa_allowed r" by blast
qed

end

section \<open>What a status handler promises\<close>

text \<open>
  The contract of the transition endpoints. \<open>status i s\<close> is the status of record \<open>i\<close> in state \<open>s\<close>
  and \<open>perform ac env i a c\<close> the endpoint. A success moves exactly the addressed record along a
  transition whose permission the actor holds; a refusal by the workflow leaves the state as it
  was. From the contract it follows that the status of a record follows runs of the machine.
\<close>

locale status_handler = workflow_machine m for m :: "'st state_machine_decl" +
  fixes status :: "uuid \<Rightarrow> db \<Rightarrow> 'st option"
    and perform :: "actor \<Rightarrow> env \<Rightarrow> uuid \<Rightarrow> string \<Rightarrow> string option \<Rightarrow> db \<Rightarrow> db"
  assumes perform_status:
    "status i (perform ac env i a c s) \<noteq> status i s \<Longrightarrow>
     \<exists>from t. status i s = Some from \<and> find_transition m from a = Some t \<and>
       tr_permission t \<in> set (ac_permissions ac) \<and> status i (perform ac env i a c s) = Some (tr_to t)"
    and perform_others: "j \<noteq> i \<Longrightarrow> status j (perform ac env i a c s) = status j s"
begin

text \<open>Any sequence of calls, by any actors, on any records.\<close>

fun perform_all :: "(actor \<times> env \<times> uuid \<times> string \<times> string option) list \<Rightarrow> db \<Rightarrow> db" where
  "perform_all [] s = s"
| "perform_all ((ac, env, i, a, c) # calls) s = perform_all calls (perform ac env i a c s)"

lemma status_follows_machine:
  assumes "status i s = Some from" and "status i (perform_all calls s) = Some st"
  shows "sm_reachable m from st"
  using assms(2)
proof (induction calls arbitrary: st rule: rev_induct)
  case Nil
  then show ?case using assms(1) by (simp add: reach_refl)
next
  case (snoc call calls)
  obtain ac env j a c where call: "call = (ac, env, j, a, c)" by (cases call)
  have app: "perform_all (calls @ [call]) s = perform ac env j a c (perform_all calls s)"
    by (induction calls s rule: perform_all.induct) (simp_all add: call)
  let ?s = "perform_all calls s"
  have some: "status i (perform_all cs s') \<noteq> None" if "status i s' \<noteq> None" for cs s'
    using that
  proof (induction cs arbitrary: s')
    case (Cons d cs)
    obtain ac env k a c where d: "d = (ac, env, k, a, c)" by (cases d)
    have "status i (perform ac env k a c s') \<noteq> None"
    proof (cases "status i (perform ac env k a c s') = status i s'")
      case False
      then have "k = i" using perform_others [of i k ac env a c s'] by argo
      with False have "status i (perform ac env i a c s') \<noteq> status i s'" by simp
      from perform_status [OF this] \<open>k = i\<close> show ?thesis by auto
    qed (use Cons.prems in simp)
    with Cons.IH show ?case by (simp add: d)
  qed simp
  obtain u where u: "status i ?s = Some u" using some [of s calls] assms(1) by auto
  have reach: "sm_reachable m from u" using snoc.IH [OF u] .
  show ?case
  proof (cases "status i (perform ac env j a c ?s) = status i ?s")
    case True
    then show ?thesis using snoc.prems reach u by (simp add: app)
  next
    case False
    then have "j = i" using perform_others [of i j ac env a c ?s] by argo
    with False have "status i (perform ac env i a c ?s) \<noteq> status i ?s" by simp
    from perform_status [OF this] u obtain t where "find_transition m u a = Some t"
      "status i (perform ac env i a c ?s) = Some (tr_to t)" by auto
    with snoc.prems \<open>j = i\<close> reach show ?thesis
      by (auto simp: app intro: reach_step find_transition_step)
  qed
qed

lemma status_run:
  assumes "status i s = Some from" and "status i (perform_all calls s) = Some st"
  shows "\<exists>acts. sm_run m from acts = Some st"
  using status_follows_machine [OF assms] by (simp add: run_iff_reachable)

end

text \<open>
  The endpoints over a table of records: a request leaves the table as it is or rewrites the row
  with the addressed key, read for the actor's tenant, along a transition the actor may take. Such
  an endpoint is a status handler for the status column of that table.
\<close>

locale row_endpoint = workflow_machine m for m :: "'st state_machine_decl" +
  fixes table :: "db \<Rightarrow> 'r row_scheme list"
    and st :: "'r row_scheme \<Rightarrow> 'st"
    and perform :: "actor \<Rightarrow> env \<Rightarrow> uuid \<Rightarrow> string \<Rightarrow> string option \<Rightarrow> db \<Rightarrow> db"
  assumes perform_row:
    "table (perform ac env i a c s) = table s \<or>
     (\<exists>r t g. r \<in> set (table s) \<and> mine ac r \<and> r_id r = i \<and> find_transition m (st r) a = Some t \<and>
        tr_permission t \<in> set (ac_permissions ac) \<and>
        table (perform ac env i a c s) = update_in ac (has_id i) g (table s) \<and>
        (\<forall>x. r_id x = i \<longrightarrow> r_id (g x) = i \<and> st (g x) = tr_to t))"
begin

lemma status_after_update:
  assumes "\<And>x. r_id x = i \<Longrightarrow> r_id (g x) = i"
  shows "map_option st (the_row j (update_in ac (has_id i) g t)) =
    (if j = i then map_option (\<lambda>r. if mine ac r then st (g r) else st r) (the_row j t)
     else map_option st (the_row j t))"
proof -
  have "the_row j (update_in ac (has_id i) g t) =
      map_option (\<lambda>r. if mine ac r \<and> has_id i r then g r else r) (the_row j t)"
    using assms by (intro the_row_update_in) (simp add: has_id_def)
  then show ?thesis
    using the_row_Some(2) [of j t] by (cases "the_row j t") (auto simp: has_id_def)
qed

end

sublocale row_endpoint \<subseteq> status_handler m "\<lambda>i s. map_option st (the_row i (table s))" perform
proof unfold_locales
  fix i ac env a c s
  let ?s = "perform ac env i a c s"
  assume ne: "map_option st (the_row i (table ?s)) \<noteq> map_option st (the_row i (table s))"
  then obtain r t g where r: "r \<in> set (table s)" "mine ac r" "r_id r = i" "find_transition m (st r) a = Some t"
    "tr_permission t \<in> set (ac_permissions ac)" and u: "table ?s = update_in ac (has_id i) g (table s)"
    and g: "\<And>x. r_id x = i \<Longrightarrow> r_id (g x) = i \<and> st (g x) = tr_to t"
    using perform_row [of ac env i a c s] by auto
  from ne obtain q where q: "the_row i (table s) = Some q"
    unfolding u by (cases "the_row i (table s)") (auto simp: status_after_update g)
  then have "r = q" using the_row_Some(3) r(1,3) by blast
  then show "\<exists>from t. map_option st (the_row i (table s)) = Some from \<and> find_transition m from a = Some t \<and>
      tr_permission t \<in> set (ac_permissions ac) \<and> map_option st (the_row i (table ?s)) = Some (tr_to t)"
    unfolding u using q r g by (simp add: status_after_update)
next
  fix i j :: uuid and ac env a c s
  assume "j \<noteq> i"
  then show "map_option st (the_row j (table (perform ac env i a c s))) = map_option st (the_row j (table s))"
    using perform_row [of ac env i a c s] by (auto simp: status_after_update)
qed

end
