(* ===== verification/Object_Access.thy ===== *)
theory Object_Access
  imports Store
begin

text \<open>
  \<open>auth/object-access.service.ts\<close>: record-level authorization of business owners and management
  reviewers. A scope of the source is a \<open>where\<close> clause that is added to a query; here it is the
  predicate on rows that the clause denotes. A relation filter (\<open>some\<close>) looks at the related rows
  of the whole table: the rewriting of the tenant client does not reach into nested clauses.
\<close>

definition is_portal_scoped :: "actor \<Rightarrow> bool" where
  "is_portal_scoped ac \<longleftrightarrow>
     (let roles = ac_roles ac;
          is_audit_function = list_ex (\<lambda>r. r \<in> set audit_function_roles) roles;
          is_committee = AUDIT_COMMITTEE_VIEWER \<in> set roles;
          is_management_user = BUSINESS_OWNER \<in> set roles \<or> MANAGEMENT_REVIEWER \<in> set roles
      in is_management_user \<and> \<not> is_audit_function \<and> \<not> is_committee)"

text \<open>\<open>{ equals: email, mode: insensitive }\<close> on a nullable column; an empty email adds no clause.\<close>

definition email_matches :: "actor \<Rightarrow> string option \<Rightarrow> bool" where
  "email_matches ac col \<longleftrightarrow>
     (case (ac_email ac, col) of
        (Some e, Some c) \<Rightarrow> e \<noteq> [] \<and> to_lower c = to_lower e
      | _ \<Rightarrow> False)"

definition request_scope :: "actor \<Rightarrow> document_request \<Rightarrow> bool" where
  "request_scope ac q \<longleftrightarrow>
     \<not> is_portal_scoped ac \<or> q_assignee q = Some (ac_user ac) \<or> email_matches ac (q_assignee_email q)"

definition direct_finding_owner :: "actor \<Rightarrow> finding \<Rightarrow> bool" where
  "direct_finding_owner ac f \<longleftrightarrow>
     f_owner f = Some (ac_user ac) \<or> email_matches ac (f_owner_email f)"

definition direct_engagement_scope :: "actor \<Rightarrow> db \<Rightarrow> engagement \<Rightarrow> bool" where
  "direct_engagement_scope ac s e \<longleftrightarrow>
     e_lead e = Some (ac_user ac) \<or> e_manager e = Some (ac_user ac) \<or> e_partner e = Some (ac_user ac) \<or>
     list_ex (\<lambda>m. m_engagement m = r_id e \<and> m_user m = ac_user ac) (db_members s) \<or>
     list_ex (\<lambda>h. sh_engagement h = r_id e \<and>
                (sh_user h = Some (ac_user ac) \<or> email_matches ac (sh_email h))) (db_stakeholders s)"

definition engagement_scope :: "actor \<Rightarrow> db \<Rightarrow> engagement \<Rightarrow> bool" where
  "engagement_scope ac s e \<longleftrightarrow>
     \<not> is_portal_scoped ac \<or> direct_engagement_scope ac s e \<or>
     list_ex (\<lambda>q. q_engagement q = r_id e \<and> request_scope ac q) (db_requests s) \<or>
     list_ex (\<lambda>f. f_engagement f = r_id e \<and> direct_finding_owner ac f) (db_findings s)"

definition finding_scope :: "actor \<Rightarrow> db \<Rightarrow> finding \<Rightarrow> bool" where
  "finding_scope ac s f \<longleftrightarrow>
     \<not> is_portal_scoped ac \<or> direct_finding_owner ac f \<or>
     list_ex (\<lambda>e. r_id e = f_engagement f \<and> direct_engagement_scope ac s e) (db_engagements s)"

definition document_scope :: "actor \<Rightarrow> db \<Rightarrow> document \<Rightarrow> bool" where
  "document_scope ac s d \<longleftrightarrow>
     (let own_ai_context = (d_owner_type d = Some ''AiContext'' \<and> d_owner d = Some (ac_user ac) \<and>
                            d_uploaded_by d = ac_user ac)
      in if \<not> is_portal_scoped ac
         then d_owner_type d = None \<or> d_owner_type d \<noteq> Some ''AiContext'' \<or> own_ai_context
         else
           (let finding_ids = map r_id (many_in ac (\<lambda>f. f_deleted_at f = None \<and> finding_scope ac s f) (db_findings s));
                request_ids = map r_id (many_in ac (request_scope ac) (db_requests s));
                recommendation_ids = (if finding_ids = [] then []
                  else map r_id (many_in ac (\<lambda>r. rc_finding r \<in> set finding_ids) (db_recommendations s)));
                owned_in = (\<lambda>ty ids. d_owner_type d = Some ty \<and> d_owner d \<in> Some ` set ids)
            in own_ai_context \<or> owned_in ''Finding'' finding_ids \<or>
               owned_in ''Recommendation'' recommendation_ids \<or> owned_in ''DocumentRequest'' request_ids \<or>
               list_ex (\<lambda>q. r_id d \<in> set (q_documents q) \<and> request_scope ac q) (db_requests s)))"

section \<open>Assertions\<close>

definition assert_engagement_access :: "actor \<Rightarrow> uuid \<Rightarrow> unit op" where
  "assert_engagement_access ac i = check_state_h (\<lambda>s.
     count_in ac (\<lambda>e. has_id i e \<and> e_deleted_at e = None \<and> engagement_scope ac s e) (db_engagements s) \<noteq> 0)
     (NotFound ''Engagement not found'')"

definition assert_finding_access :: "actor \<Rightarrow> uuid \<Rightarrow> unit op" where
  "assert_finding_access ac i = check_state_h (\<lambda>s.
     count_in ac (\<lambda>f. has_id i f \<and> f_deleted_at f = None \<and> finding_scope ac s f) (db_findings s) \<noteq> 0)
     (NotFound ''Finding not found'')"

definition assert_request_access :: "actor \<Rightarrow> uuid \<Rightarrow> unit op" where
  "assert_request_access ac i = check_state_h (\<lambda>s.
     count_in ac (\<lambda>q. has_id i q \<and> request_scope ac q) (db_requests s) \<noteq> 0)
     (NotFound ''Request not found'')"

definition assert_document_access :: "actor \<Rightarrow> uuid \<Rightarrow> unit op" where
  "assert_document_access ac i = check_state_h (\<lambda>s.
     count_in ac (\<lambda>d. has_id i d \<and> d_deleted_at d = None \<and> document_scope ac s d) (db_documents s) \<noteq> 0)
     (NotFound ''Document not found'')"

definition assert_feature_permission :: "actor \<Rightarrow> permission_key \<Rightarrow> unit op" where
  "assert_feature_permission ac p = check_h (has_permission ac p) (Forbidden (''Missing permission: '' @ p))"

definition owner_permission :: "string \<Rightarrow> permission_key" where
  "owner_permission ty =
     (if ty = ''Engagement'' then ''engagement:read''
      else if ty = ''Workpaper'' \<or> ty = ''Evidence'' then ''workpaper:read''
      else if ty = ''Finding'' \<or> ty = ''Recommendation'' then ''finding:read''
      else if ty = ''DocumentRequest'' then ''request:read''
      else if ty = ''LibraryItem'' then ''library:read''
      else ''document:upload'')"

definition owner_count :: "actor \<Rightarrow> string \<Rightarrow> uuid \<Rightarrow> db \<Rightarrow> nat" where
  "owner_count ac ty i s =
     (if ty = ''Engagement'' then count_in ac (\<lambda>e. has_id i e \<and> e_deleted_at e = None) (db_engagements s)
      else if ty = ''Workpaper'' then count_in ac (\<lambda>w. has_id i w \<and> w_deleted_at w = None) (db_workpapers s)
      else if ty = ''Finding'' then count_in ac (\<lambda>f. has_id i f \<and> f_deleted_at f = None) (db_findings s)
      else if ty = ''Recommendation'' then count_in ac (has_id i) (db_recommendations s)
      else if ty = ''DocumentRequest'' then count_in ac (has_id i) (db_requests s)
      else if ty = ''Evidence'' then count_in ac (has_id i) (db_evidence s)
      else if ty = ''LibraryItem'' then
        count_rows (\<lambda>l. (li_tenant l = Some (ac_tenant ac) \<or> li_tenant l = None) \<and> li_id l = i) (db_library s)
      else 0)"

definition assert_upload_owner :: "actor \<Rightarrow> string \<Rightarrow> uuid \<Rightarrow> unit op" where
  "assert_upload_owner ac ty i =
     (if ty = ''AiContext'' then
        check_h (i = ac_user ac \<and> has_permission ac ''ai:use'')
          (Forbidden ''AI context uploads must belong to the current user'')
      else if is_portal_scoped ac then
        (if ty = ''DocumentRequest'' then assert_request_access ac i
         else if ty = ''Finding'' then assert_finding_access ac i
         else if ty = ''Recommendation'' then
           check_state_h (\<lambda>s. first_in ac (\<lambda>r. has_id i r \<and>
               list_ex (\<lambda>f. r_id f = rc_finding r \<and> f_deleted_at f = None \<and> finding_scope ac s f)
                 (db_findings s)) (db_recommendations s) \<noteq> None)
             (NotFound ''Recommendation not found'')
         else throw_h (Forbidden ''Portal users may upload only to an assigned request, accessible finding, recommendation, or their private AI context''))
      else
        then_h (assert_feature_permission ac (owner_permission ty))
          (check_state_h (\<lambda>s. owner_count ac ty i s \<noteq> 0) (NotFound (ty @ '' not found''))))"

definition assert_comment_target :: "actor \<Rightarrow> string \<Rightarrow> uuid \<Rightarrow> unit op" where
  "assert_comment_target ac ty i =
     (if ty = ''Engagement'' then
        then_h (assert_feature_permission ac ''engagement:read'') (assert_engagement_access ac i)
      else if ty = ''Finding'' then
        then_h (assert_feature_permission ac ''finding:read'') (assert_finding_access ac i)
      else if ty = ''DocumentRequest'' then
        then_h (assert_feature_permission ac ''request:read'') (assert_request_access ac i)
      else if ty = ''Workpaper'' then
        then_h (assert_feature_permission ac ''workpaper:read'')
          (check_state_h (\<lambda>s. count_in ac (\<lambda>w. has_id i w \<and> w_deleted_at w = None) (db_workpapers s) \<noteq> 0)
             (NotFound ''Workpaper not found''))
      else throw_h (Forbidden ''Comments are supported only for engagements, findings, requests, and workpapers''))"

section \<open>Facts\<close>

lemma assert_access_reads [intro]:
  "reads (assert_engagement_access ac i)" "reads (assert_finding_access ac i)"
  "reads (assert_request_access ac i)" "reads (assert_document_access ac i)"
  "reads (assert_feature_permission ac p)"
  by (auto simp: assert_engagement_access_def assert_finding_access_def assert_request_access_def
      assert_document_access_def assert_feature_permission_def)

lemma assert_upload_owner_reads [intro]: "reads (assert_upload_owner ac ty i)"
  unfolding assert_upload_owner_def by (intro reads_intros assert_access_reads)

lemma assert_comment_target_reads [intro]: "reads (assert_comment_target ac ty i)"
  unfolding assert_comment_target_def by (intro reads_intros assert_access_reads)

lemmas access_confined = confinement.keeps_reads [OF assert_access_reads(1)]
  confinement.keeps_reads [OF assert_access_reads(2)] confinement.keeps_reads [OF assert_access_reads(3)]
  confinement.keeps_reads [OF assert_access_reads(4)] confinement.keeps_reads [OF assert_access_reads(5)]
  confinement.keeps_reads [OF assert_upload_owner_reads]
  confinement.keeps_reads [OF assert_comment_target_reads]

lemma assert_engagement_access_run [run_h]:
  "assert_engagement_access ac i s =
     (if \<exists>e \<in> set (db_engagements s). mine ac e \<and> r_id e = i \<and> e_deleted_at e = None \<and> engagement_scope ac s e
      then (Inr (), s) else (Inl (NotFound ''Engagement not found''), s))"
  by (auto simp: assert_engagement_access_def run_h table_simps has_id_def)

lemma assert_finding_access_run [run_h]:
  "assert_finding_access ac i s =
     (if \<exists>f \<in> set (db_findings s). mine ac f \<and> r_id f = i \<and> f_deleted_at f = None \<and> finding_scope ac s f
      then (Inr (), s) else (Inl (NotFound ''Finding not found''), s))"
  by (auto simp: assert_finding_access_def run_h table_simps has_id_def)

lemma assert_request_access_run [run_h]:
  "assert_request_access ac i s =
     (if \<exists>q \<in> set (db_requests s). mine ac q \<and> r_id q = i \<and> request_scope ac q
      then (Inr (), s) else (Inl (NotFound ''Request not found''), s))"
  by (auto simp: assert_request_access_def run_h table_simps has_id_def)

lemma assert_document_access_run [run_h]:
  "assert_document_access ac i s =
     (if \<exists>d \<in> set (db_documents s). mine ac d \<and> r_id d = i \<and> d_deleted_at d = None \<and> document_scope ac s d
      then (Inr (), s) else (Inl (NotFound ''Document not found''), s))"
  by (auto simp: assert_document_access_def run_h table_simps has_id_def)

text \<open>Members of the audit function and of the committee are never restricted.\<close>

lemma audit_function_not_portal:
  "r \<in> set (ac_roles ac) \<Longrightarrow> r \<in> set audit_function_roles \<or> r = AUDIT_COMMITTEE_VIEWER \<Longrightarrow>
   \<not> is_portal_scoped ac"
  by (auto simp: is_portal_scoped_def Let_def list_ex_iff)

text \<open>An AI context document is visible to its owner only.\<close>

lemma ai_context_private:
  assumes "document_scope ac s d" "d_owner_type d = Some ''AiContext''"
    and "\<And>q. q \<in> set (db_requests s) \<Longrightarrow> r_id d \<notin> set (q_documents q)"
  shows "d_owner d = Some (ac_user ac) \<and> d_uploaded_by d = ac_user ac"
  using assms by (auto simp: document_scope_def Let_def list_ex_iff split: if_splits)

text \<open>
  A portal user (business owner or management reviewer, without a role in the audit function
  or the committee) passes the check of a finding exactly when it is a live finding of their own
  tenant which they own, by id or by email, or whose engagement they lead, manage, partner, are a
  member of or are a stakeholder of; the check changes nothing, and answers 404 otherwise.
\<close>

theorem portal_finding_access:
  assumes "is_portal_scoped ac"
  shows "assert_finding_access ac i s =
    (if \<exists>f \<in> set (db_findings s). r_tenant f = ac_tenant ac \<and> r_id f = i \<and> f_deleted_at f = None \<and>
          (f_owner f = Some (ac_user ac) \<or> email_matches ac (f_owner_email f) \<or>
           (\<exists>e \<in> set (db_engagements s). r_id e = f_engagement f \<and> direct_engagement_scope ac s e))
     then (Inr (), s) else (Inl (NotFound ''Finding not found''), s))"
  using assms by (simp add: assert_finding_access_run finding_scope_def direct_finding_owner_def
      mine_def list_ex_iff disj_assoc)

lemma portal_finding_access_witness:
  "assert_finding_access
     \<lparr> ac_tenant = 1, ac_user = 7, ac_email = None, ac_roles = [BUSINESS_OWNER], ac_permissions = [],
       ac_ip = None, ac_agent = None, ac_request = None \<rparr> 5 empty_db
   = (Inl (NotFound ''Finding not found''), empty_db)"
  by (subst portal_finding_access)
     (simp_all add: is_portal_scoped_def audit_function_roles_def empty_db_def)

end
