(* ===== verification/Samples.thy ===== *)
theory Samples
  imports Object_Access
begin

text \<open>
  A small tenant on which the properties of the later theories are exercised: an audit manager, a
  partner, a business owner, one engagement in planning with a member, a programme step, a
  workpaper in draft, a finding, a document, a document request and a plan.
\<close>

definition ex_env :: env where
  "ex_env = \<lparr> env_now = 1767225600000, env_mail = (\<lambda>_. False) \<rparr>"

definition ex_actor :: "uuid \<Rightarrow> role_key list \<Rightarrow> permission_key list \<Rightarrow> actor" where
  "ex_actor u roles perms =
     \<lparr> ac_tenant = 1, ac_user = u, ac_email = Some ''someone'', ac_roles = roles,
       ac_permissions = perms, ac_ip = None, ac_agent = None, ac_request = None \<rparr>"

definition ex_user :: "uuid \<Rightarrow> role_key list \<Rightarrow> user" where
  "ex_user u roles =
     \<lparr> r_id = u, r_tenant = 1, r_created = 0, u_email = ''u'' @ show_nat u, u_display_name = ''User'',
       u_first_name = None, u_last_name = None, u_job_title = None, u_office_location = None,
       u_country = None, u_phone = None, u_avatar = None, u_status = user_status.ACTIVE, u_provider = LOCAL,
       u_password_hash = None, u_mfa_enabled = False, u_mfa_secret = None, u_recovery_codes = [],
       u_last_login = None, u_failed_count = 0, u_locked_until = None, u_charge_rate = None,
       u_weekly_capacity = 40, u_deleted_at = None, u_must_change_password = False,
       u_roles = roles \<rparr>"

definition ex_engagement :: engagement where
  "ex_engagement =
     \<lparr> r_id = 10, r_tenant = 1, r_created = 0, e_number = ''IA-2026-001'', e_title = ''Payroll'',
       e_type = engagement_type.OPERATIONAL, e_entity = None, e_objectives = Some ''o'',
       e_scope = Some ''s'', e_out_of_scope = None, e_background = None, e_period_start = None,
       e_period_end = None, e_stage = engagement_stage.PLANNING, e_status = engagement_status.ACTIVE,
       e_rating = severity.MEDIUM, e_planned_start = None, e_planned_end = None,
       e_actual_start = None, e_actual_end = None, e_budget_hours = None, e_budget_amount = None,
       e_lead = Some 2, e_manager = None, e_partner = None, e_opinion = NOT_RATED, e_summary = None,
       e_report_issued = None, e_report_document = None, e_deleted_at = None \<rparr>"

definition ex_workpaper :: workpaper where
  "ex_workpaper =
     \<lparr> r_id = 20, r_tenant = 1, r_created = 0, w_engagement = 10, w_step = None, w_template = None,
       w_reference = ''A.1'', w_title = ''Access'', w_objective = None, w_risk = None,
       w_control = None, w_procedure = Some ''p'', w_test_performed = None, w_results = None,
       w_exceptions = None, w_conclusion = Some ''c'', w_content = JObj [],
       w_status = workpaper_status.DRAFT, w_version = 1, w_prepared_by = Some 2,
       w_prepared_at = None, w_reviewed_by = None, w_reviewed_at = None, w_signed_by = None,
       w_signed_at = None, w_locked = False, w_sort = 0, w_deleted_at = None \<rparr>"

definition ex_finding :: finding where
  "ex_finding =
     \<lparr> r_id = 30, r_tenant = 1, r_created = 0, f_engagement = 10, f_workpaper = None, f_entity = None,
       f_process = None, f_risk = None, f_control = None, f_reference = ''F-01'', f_title = ''Leavers'',
       f_severity = severity.HIGH, f_status = finding_status.DRAFT, f_condition = ''c'',
       f_criteria = ''k'', f_cause = None, f_impact = None, f_recommendation = Some ''r'',
       f_response = None, f_root_cause = None, f_category = None, f_owner = Some 4,
       f_owner_name = None, f_owner_email = None, f_due = None, f_original_due = None,
       f_extensions = 0, f_agreed_at = None, f_implemented_at = None, f_validated_by = None,
       f_validated_at = None, f_closed_at = None, f_is_repeat = False, f_repeat_of = None,
       f_raised_by = 2, f_reminders = 0, f_last_reminder = None, f_escalation = 0,
       f_deleted_at = None \<rparr>"

definition ex_document :: document where
  "ex_document =
     \<lparr> r_id = 40, r_tenant = 1, r_created = 0, d_owner_type = Some ''Engagement'', d_owner = Some 10,
       d_file_name = ''a.pdf'', d_mime = ''application/pdf'', d_size = 1, d_storage_key = ''1/k'',
       d_checksum = None, d_classification = CONFIDENTIAL, d_uploaded_by = 2,
       d_quarantined = False, d_uploaded_at = Some 0, d_deleted_at = None \<rparr>"

definition ex_request :: document_request where
  "ex_request =
     \<lparr> r_id = 50, r_tenant = 1, r_created = 0, q_engagement = 10, q_reference = ''DR-01'',
       q_title = ''Contracts'', q_description = None, q_requested_by = 2, q_assignee = Some 4,
       q_assignee_email = None, q_due = 0, q_status = request_status.OPEN, q_response = Some ''done'',
       q_submitted_at = None, q_accepted_at = None, q_return_reason = None, q_reminders = 0,
       q_last_reminder = None, q_documents = [] \<rparr>"

definition ex_plan :: audit_plan where
  "ex_plan =
     \<lparr> r_id = 60, r_tenant = 1, r_created = 0, p_title = ''Plan'', p_fiscal_year = 2026,
       p_horizon_years = 1, p_start = 0, p_end = 1, p_status = plan_status.PENDING_APPROVAL,
       p_version = 1, p_budget_hours = None, p_budget_amount = None, p_currency = ''USD'',
       p_narrative = None, p_created_by = 2, p_approved_by = None, p_approved_at = None \<rparr>"

definition ex_db :: db where
  "ex_db = empty_db\<lparr> db_next := 100,
     db_users := [ex_user 2 [AUDIT_MANAGER], ex_user 3 [AUDIT_PARTNER], ex_user 4 [BUSINESS_OWNER]],
     db_engagements := [ex_engagement], db_workpapers := [ex_workpaper],
     db_findings := [ex_finding], db_documents := [ex_document], db_requests := [ex_request],
     db_plans := [ex_plan] \<rparr>"

lemma ex_db_tables [simp]:
  "db_users ex_db = [ex_user 2 [AUDIT_MANAGER], ex_user 3 [AUDIT_PARTNER], ex_user 4 [BUSINESS_OWNER]]"
  "db_engagements ex_db = [ex_engagement]" "db_workpapers ex_db = [ex_workpaper]"
  "db_findings ex_db = [ex_finding]" "db_documents ex_db = [ex_document]"
  "db_requests ex_db = [ex_request]" "db_plans ex_db = [ex_plan]" "db_next ex_db = 100"
  "db_members ex_db = []" "db_stakeholders ex_db = []" "db_notes ex_db = []" "db_items ex_db = []"
  "db_evidence ex_db = []" "db_recommendations ex_db = []" "db_programs ex_db = []"
  "db_steps ex_db = []" "db_entities ex_db = []" "db_audit ex_db = []" "db_stages ex_db = []"
  by (simp_all add: ex_db_def empty_db_def)

lemmas ex_rows = ex_env_def ex_actor_def ex_user_def ex_engagement_def ex_workpaper_def ex_finding_def
  ex_document_def ex_request_def ex_plan_def

text \<open>Looking up a row in a concrete table.\<close>

lemma first_in_Nil [simp]: "first_in ac P [] = None"
  by (simp add: first_in_def)

lemma first_in_Cons [simp]:
  "first_in ac P (r # t) = (if r_tenant r = ac_tenant ac \<and> P r then Some r else first_in ac P t)"
  by (simp add: first_in_def find_first_Cons mine_def)

lemma count_in_Nil [simp]: "count_in ac P [] = 0"
  by (simp add: count_in_def count_rows_def)

lemma count_in_Cons [simp]:
  "count_in ac P (r # t) = (if r_tenant r = ac_tenant ac \<and> P r then Suc (count_in ac P t) else count_in ac P t)"
  by (simp add: count_in_def count_rows_def mine_def)

lemma update_in_Nil [simp]: "update_in ac P f [] = []"
  by (simp add: update_in_def update_rows_def)

lemma update_in_Cons [simp]:
  "update_in ac P f (r # t) =
     (if r_tenant r = ac_tenant ac \<and> P r then f r else r) # update_in ac P f t"
  by (simp add: update_in_def update_rows_def mine_def)

end
