(* ===== verification/Documents.thy ===== *)
theory Documents
  imports Samples
begin

text \<open>
  \<open>documents/documents.service.ts\<close>: access to documents, the two-step upload with its quarantine,
  download and removal. The object storage and the malware scanner are outside the repository's
  logic: what they answer is the parameter \<open>storage\<close> (size and checksum of a stored object, the
  verdict on its content, whether the driver is the local one). The links that are handed out are
  not modelled; an operation that returns one returns the document it points to.
\<close>

datatype scan_result = Clean | Infected "string option"

record storage =
  so_stat :: "string \<Rightarrow> (nat \<times> string option) option"
  so_scan :: "string \<Rightarrow> scan_result"
  so_local :: bool

definition max_document_bytes :: nat where
  "max_document_bytes = 50 * 1024 * 1024"

text \<open>\<open>safeFileName\<close>: separators become underscores, quotes and line breaks are removed.\<close>

definition safe_file_name :: "string \<Rightarrow> string" where
  "safe_file_name name =
     (let base = trim (filter (\<lambda>c. c \<notin> {CHR 0x0D, CHR 0x0A, CHR 0x22})
                         (map (\<lambda>c. if c = CHR 0x2F \<or> c = CHR 0x5C then CHR ''_'' else c) name))
      in if base \<noteq> [] then take 255 base else ''document'')"

section \<open>Access helpers\<close>

definition assert_classification :: "actor \<Rightarrow> classification \<Rightarrow> unit op" where
  "assert_classification ac c =
     check_h (\<not> (c = RESTRICTED \<and> \<not> has_permission ac ''document:restricted''))
       (Forbidden ''This document is RESTRICTED; document:restricted permission is required'')"

definition assert_context_owner :: "actor \<Rightarrow> document \<Rightarrow> unit op" where
  "assert_context_owner ac d =
     check_h (\<not> (d_owner_type d = Some ''AiContext'' \<and>
                 (d_owner d \<noteq> Some (ac_user ac) \<or> d_uploaded_by d \<noteq> ac_user ac)))
       (Forbidden ''AI context documents are private to their uploader.'')"

definition find_document :: "actor \<Rightarrow> uuid \<Rightarrow> db \<Rightarrow> document option" where
  "find_document ac i s = first_in ac (\<lambda>d. has_id i d \<and> d_deleted_at d = None) (db_documents s)"

definition assert_document :: "actor \<Rightarrow> uuid \<Rightarrow> bool \<Rightarrow> bool \<Rightarrow> document op" where
  "assert_document ac i require_uploaded allow_quarantined =
     then_h (assert_document_access ac i)
     (bind_h (demand_h (find_document ac i) (NotFound ''Document not found'')) (\<lambda>d.
      then_h (assert_context_owner ac d)
     (then_h (assert_classification ac (d_classification d))
     (then_h (check_h (\<not> (require_uploaded \<and> d_uploaded_at d = None))
                (Conflict ''Upload has not been completed''))
     (then_h (check_h (\<not> (d_quarantined d \<and> \<not> allow_quarantined))
                (Forbidden ''Document is quarantined''))
      (return_h d))))))"

section \<open>Upload\<close>

record presign_dto =
  pd_file_name :: string
  pd_mime :: string
  pd_size :: nat
  pd_owner_type :: string
  pd_owner :: uuid
  pd_classification :: "classification option"

text \<open>\<open>key\<close> is the random part of the storage key.\<close>

definition new_document :: "actor \<Rightarrow> env \<Rightarrow> string \<Rightarrow> presign_dto \<Rightarrow> classification \<Rightarrow> db \<Rightarrow> document" where
  "new_document ac env key dto c s =
     \<lparr> r_id = db_next s, r_tenant = ac_tenant ac, r_created = env_now env,
       d_owner_type = Some (pd_owner_type dto), d_owner = Some (pd_owner dto),
       d_file_name = safe_file_name (pd_file_name dto), d_mime = pd_mime dto, d_size = pd_size dto,
       d_storage_key = show_nat (ac_tenant ac) @ ''/'' @ key, d_checksum = None,
       d_classification = c, d_uploaded_by = ac_user ac, d_quarantined = True,
       d_uploaded_at = None, d_deleted_at = None \<rparr>"

definition insert_document :: "document \<Rightarrow> db \<Rightarrow> db" where
  "insert_document d s = s\<lparr> db_documents := insert_row d (db_documents s), db_next := db_next s + 1 \<rparr>"

definition presign_upload :: "actor \<Rightarrow> env \<Rightarrow> string \<Rightarrow> presign_dto \<Rightarrow> document op" where
  "presign_upload ac env key dto =
     (let c = coalesce (pd_classification dto) CONFIDENTIAL in
      then_h (assert_classification ac c)
     (then_h (assert_upload_owner ac (pd_owner_type dto) (pd_owner dto))
     (bind_h (create_h (new_document ac env key dto c) insert_document) (\<lambda>d.
      then_h (audit_record ac env (audit_of ''document.upload_started'' ''Document'' (r_id d) No_Snapshot
                (Fields [(''fileName'', JStr (d_file_name d))]) []))
      (return_h d)))))"

text \<open>The write of \<open>complete\<close>: the document leaves the quarantine and gets its first version.\<close>

definition mark_uploaded :: "actor \<Rightarrow> env \<Rightarrow> uuid \<Rightarrow> nat \<Rightarrow> string option \<Rightarrow> db \<Rightarrow> db" where
  "mark_uploaded ac env i bytes checksum s =
     s\<lparr> db_documents := update_in ac (has_id i)
          (\<lambda>d. d\<lparr> d_uploaded_at := Some (env_now env), d_size := bytes, d_checksum := checksum,
                 d_quarantined := False \<rparr>) (db_documents s) \<rparr>"

definition add_first_version :: "actor \<Rightarrow> env \<Rightarrow> document \<Rightarrow> nat \<Rightarrow> string option \<Rightarrow> db \<Rightarrow> db" where
  "add_first_version ac env d bytes checksum s =
     (if count_in ac (\<lambda>v. dv_document v = r_id d) (db_document_versions s) = 0
      then s\<lparr> db_document_versions := insert_row
               \<lparr> r_id = db_next s, r_tenant = ac_tenant ac, r_created = env_now env,
                 dv_document = r_id d, dv_number = 1, dv_key = d_storage_key d, dv_size = bytes,
                 dv_checksum = checksum, dv_by = ac_user ac \<rparr> (db_document_versions s),
               db_next := db_next s + 1 \<rparr>
      else s)"

definition get_document :: "actor \<Rightarrow> uuid \<Rightarrow> document op" where
  "get_document ac i =
     then_h (assert_document_access ac i)
     (bind_h (demand_h (find_document ac i) (NotFound ''Document not found'')) (\<lambda>d.
      then_h (assert_context_owner ac d)
     (then_h (assert_classification ac (d_classification d)) (return_h d))))"

definition complete_upload :: "actor \<Rightarrow> env \<Rightarrow> storage \<Rightarrow> uuid \<Rightarrow> string option \<Rightarrow> document op" where
  "complete_upload ac env so i claimed =
     bind_h (assert_document ac i False True) (\<lambda>d.
      if d_uploaded_at d \<noteq> None then get_document ac i
      else
        (case so_stat so (d_storage_key d) of
           None \<Rightarrow> throw_h (Conflict ''No object found in storage for this document; upload it first'')
         | Some (bytes, stored) \<Rightarrow>
             then_h (check_h (bytes \<le> max_document_bytes) (BadRequest ''File exceeds the 50 MB limit''))
            (let checksum = (case claimed of Some c \<Rightarrow> Some (to_lower c) | None \<Rightarrow> stored) in
             then_h (check_h (\<not> (truthy claimed \<and> truthy stored \<and> map_option to_lower claimed \<noteq> stored))
                       (BadRequest ''Checksum does not match the uploaded content''))
            (case so_scan so (d_storage_key d) of
               Infected detail \<Rightarrow>
                 then_h (audit_record ac env (audit_of ''document.quarantined'' ''Document'' i No_Snapshot No_Snapshot
                           [(''fileName'', JStr (d_file_name d)),
                            (''scanner'', JStr (coalesce detail ''malware detected''))]))
                   (throw_h (Forbidden ''The document failed malware scanning and remains quarantined''))
             | Clean \<Rightarrow>
                 then_h (transaction_h (then_h (modify_h (mark_uploaded ac env i bytes checksum))
                                               (modify_h (add_first_version ac env d bytes checksum))))
                (then_h (audit_record ac env (audit_of ''document.uploaded'' ''Document'' i No_Snapshot
                           (Fields [(''fileName'', JStr (d_file_name d)), (''sizeBytes'', JNum (of_nat bytes))]) []))
                   (demand_h (find_document ac i) RecordRequired))))))"

definition put_content :: "actor \<Rightarrow> env \<Rightarrow> storage \<Rightarrow> uuid \<Rightarrow> nat \<Rightarrow> string \<Rightarrow> document op" where
  "put_content ac env so i len sha =
     then_h (check_h (so_local so) (Conflict ''Direct content upload is only available with the local storage driver''))
     (then_h (check_h (len \<noteq> 0) (BadRequest ''Request body must contain the file bytes''))
     (then_h (check_h (len \<le> max_document_bytes) (BadRequest ''File exceeds the 50 MB limit''))
     (bind_h (assert_document ac i False True) (\<lambda>d.
      then_h (check_h (d_uploaded_at d = None) (Conflict ''Document content has already been uploaded''))
      (complete_upload ac env so i (Some sha))))))"

section \<open>Reading and removal\<close>

definition get_content :: "actor \<Rightarrow> env \<Rightarrow> storage \<Rightarrow> uuid \<Rightarrow> document op" where
  "get_content ac env so i =
     then_h (check_h (so_local so) (Conflict ''Direct content download is only available with the local storage driver''))
     (bind_h (assert_document ac i True False) (\<lambda>d.
      then_h (audit_record ac env (audit_of ''document.content_read'' ''Document'' i No_Snapshot No_Snapshot
                [(''fileName'', JStr (d_file_name d))]))
      (return_h d)))"

definition download_document :: "actor \<Rightarrow> env \<Rightarrow> uuid \<Rightarrow> document op" where
  "download_document ac env i =
     bind_h (assert_document ac i True False) (\<lambda>d.
     then_h (audit_record ac env (audit_of ''document.downloaded'' ''Document'' i No_Snapshot No_Snapshot
               [(''fileName'', JStr (d_file_name d))]))
     (return_h d))"

definition remove_document :: "actor \<Rightarrow> env \<Rightarrow> uuid \<Rightarrow> unit op" where
  "remove_document ac env i =
     bind_h (assert_document ac i False False) (\<lambda>d.
     then_h (check_state_h (\<lambda>s. count_in ac (\<lambda>e. e_report_document e = Some i \<and> e_deleted_at e = None)
                                  (db_engagements s) = 0)
               (Conflict ''Detach this file from the engagement Report tab before deleting it''))
     (then_h (modify_h (\<lambda>s. s\<lparr> db_documents := update_in ac (has_id i)
                (\<lambda>d. d\<lparr> d_deleted_at := Some (env_now env) \<rparr>) (db_documents s) \<rparr>))
     (audit_record ac env (audit_of ''document.deleted'' ''Document'' i
        (Fields [(''fileName'', JStr (d_file_name d))]) No_Snapshot []))))"

definition list_documents :: "actor \<Rightarrow> (document \<Rightarrow> bool) \<Rightarrow> classification option \<Rightarrow> document list op" where
  "list_documents ac extra cls =
     then_h (case cls of None \<Rightarrow> return_h () | Some c \<Rightarrow> assert_classification ac c)
     (gets_h (\<lambda>s. many_in ac (\<lambda>d. document_scope ac s d \<and> d_deleted_at d = None \<and> d_uploaded_at d \<noteq> None \<and>
        \<not> d_quarantined d \<and> (has_permission ac ''document:restricted'' \<or> d_classification d \<noteq> RESTRICTED) \<and>
        (cls = None \<or> cls = Some (d_classification d)) \<and> extra d) (db_documents s)))"

section \<open>Facts\<close>

lemma assert_document_reads [intro]: "reads (assert_document ac i r q)"
  unfolding assert_document_def assert_context_owner_def assert_classification_def
  by (intro reads_intros assert_access_reads)

lemma get_document_reads [intro]: "reads (get_document ac i)"
  unfolding get_document_def assert_context_owner_def assert_classification_def
  by (intro reads_intros assert_access_reads)

text \<open>What a document that \<open>assertDocument\<close> returns is known to be.\<close>

lemma find_document_Some:
  "find_document ac i s = Some d \<Longrightarrow> d \<in> set (db_documents s) \<and> mine ac d \<and> r_id d = i \<and> d_deleted_at d = None"
  by (auto simp: find_document_def has_id_def dest: first_in_Some)

lemma assert_document_ok:
  assumes "assert_document ac i r q s = (Inr d, s')"
  shows "s' = s" "find_document ac i s = Some d"
    and "\<exists>d' \<in> set (db_documents s). mine ac d' \<and> r_id d' = i \<and> document_scope ac s d'"
    and "d_classification d = RESTRICTED \<Longrightarrow> has_permission ac ''document:restricted''"
    and "d_owner_type d = Some ''AiContext'' \<Longrightarrow> d_owner d = Some (ac_user ac) \<and> d_uploaded_by d = ac_user ac"
    and "r \<Longrightarrow> d_uploaded_at d \<noteq> None" and "\<not> q \<Longrightarrow> \<not> d_quarantined d"
  using assms
  by (auto simp: assert_document_def assert_context_owner_def assert_classification_def ok_h
      assert_document_access_run split: if_splits)

lemmas document_confined = confinement.keeps_reads [OF assert_document_reads]
  confinement.keeps_reads [OF get_document_reads] access_confined

lemma presign_upload_confined: "keeps (confined (ac_tenant ac)) (presign_upload ac env key dto)"
  unfolding presign_upload_def assert_classification_def
  by (intro confined_steps document_confined)
     (simp_all add: confined_writes insert_document_def new_document_def)

lemma keeps_confined_scan:
  "keeps R m \<Longrightarrow> (\<And>d. keeps R (n d)) \<Longrightarrow> keeps R (case v of Clean \<Rightarrow> m | Infected d \<Rightarrow> n d)"
  by (cases v) simp_all

lemma complete_upload_confined: "keeps (confined (ac_tenant ac)) (complete_upload ac env so i claimed)"
  unfolding complete_upload_def
  by (intro confined_steps document_confined keeps_confined_scan)
     (simp_all add: confined_writes mark_uploaded_def add_first_version_def)

lemma put_content_confined: "keeps (confined (ac_tenant ac)) (put_content ac env so i len sha)"
  unfolding put_content_def by (intro confined_steps document_confined complete_upload_confined)

lemma document_reads_confined:
  "keeps (confined (ac_tenant ac)) (get_content ac env so i)"
  "keeps (confined (ac_tenant ac)) (download_document ac env i)"
  unfolding get_content_def download_document_def by (intro confined_steps document_confined)+

lemma remove_document_confined: "keeps (confined (ac_tenant ac)) (remove_document ac env i)"
  unfolding remove_document_def
  by (intro confined_steps document_confined) (simp_all add: confined_writes)



end
