(* ===== verification/References.thy ===== *)
theory References
  imports Store
begin

text \<open>
  Human-readable references: \<open>engagements/audit-number.ts\<close> (\<open>IA-2026-007\<close>),
  \<open>nextFindingReference\<close> of \<open>findings/findings.service.ts\<close> (\<open>F-01\<close>) and \<open>nextRequestReference\<close> of
  \<open>requests/requests.service.ts\<close> (\<open>DR-01\<close>), and the loop of the three services that allocates one:
  the highest existing reference is looked up in descending string order, its successor is
  inserted, and a unique-constraint violation retries, five times at most.

  The lemmas show the round trip of the formats, that allocation succeeds as long as the numbers
  fit their padding, and that it cannot succeed any more once they outgrow it: in string order
  \<open>F-99\<close> stays above \<open>F-100\<close>, so every attempt computes the same existing reference.
  The sequence numbers are natural numbers; \<open>Number\<close> is exact on them below 2 to the 53.
\<close>

section \<open>Formats\<close>

definition parse_after :: "string \<Rightarrow> string \<Rightarrow> string option" where
  "parse_after prefix s =
     (if take (length prefix) s = prefix then Some (drop (length prefix) s) else None)"

definition all_digits :: "string \<Rightarrow> bool" where
  "all_digits s = list_all is_digit s"

text \<open>\<open>/^<prefix>(\d+)$/\<close>\<close>

definition parse_reference :: "string \<Rightarrow> string \<Rightarrow> nat option" where
  "parse_reference prefix s =
     (case parse_after prefix s of
        None \<Rightarrow> None
      | Some rest \<Rightarrow> if rest \<noteq> [] \<and> all_digits rest then Some (number_of rest) else None)"

definition next_finding_reference :: "string option \<Rightarrow> string" where
  "next_finding_reference latest =
     (let m = (case latest of None \<Rightarrow> None | Some l \<Rightarrow> if l = [] then None else parse_reference ''F-'' l);
          sq = (case m of None \<Rightarrow> 1 | Some n \<Rightarrow> n + 1)
      in ''F-'' @ pad sq 2)"

definition next_request_reference :: "string option \<Rightarrow> string" where
  "next_request_reference latest =
     (let m = (case latest of None \<Rightarrow> None | Some l \<Rightarrow> if l = [] then None else parse_reference ''DR-'' l);
          sq = (case m of None \<Rightarrow> 1 | Some n \<Rightarrow> n + 1)
      in ''DR-'' @ pad sq 2)"

text \<open>A year is an integer; \<open>formatAuditNumber\<close> throws a plain \<open>Error\<close> out of range.\<close>

definition audit_number_prefix :: "int \<Rightarrow> string" where
  "audit_number_prefix year =
     ''IA-'' @ (if year < 0 then ''-'' @ show_nat (nat (- year)) else show_nat (nat year)) @ ''-''"

definition format_audit_number :: "int \<Rightarrow> nat \<Rightarrow> string result" where
  "format_audit_number year sq =
     (if year < 1000 \<or> year > 9999 then Inl (PlainError ''Invalid year'')
      else if sq < 1 then Inl (PlainError ''Invalid sequence'')
      else Inr (audit_number_prefix year @ pad sq 3))"

text \<open>\<open>/^IA-(\d{4})-(\d{3,})$/\<close> on the trimmed value.\<close>

definition parse_audit_number :: "string \<Rightarrow> (int \<times> nat) option" where
  "parse_audit_number value =
     (case parse_after ''IA-'' (trim value) of
        None \<Rightarrow> None
      | Some r \<Rightarrow>
          let y = take 4 r; rest = drop 4 r
          in if length y = 4 \<and> all_digits y then
               (case parse_after ''-'' rest of
                  None \<Rightarrow> None
                | Some n \<Rightarrow> if 3 \<le> length n \<and> all_digits n then Some (int (number_of y), number_of n)
                            else None)
             else None)"

definition next_audit_number :: "int \<Rightarrow> string option \<Rightarrow> string result" where
  "next_audit_number year latest =
     (let parsed = (case latest of None \<Rightarrow> None | Some l \<Rightarrow> if l = [] then None else parse_audit_number l);
          sq = (case parsed of None \<Rightarrow> 1 | Some (y, n) \<Rightarrow> if y = year then n + 1 else 1)
      in format_audit_number year sq)"

section \<open>Allocation\<close>

text \<open>\<open>orderBy: { reference: 'desc' }\<close>, first row: the greatest in string order.\<close>

definition highest :: "string list \<Rightarrow> string option" where
  "highest xs = (case xs of [] \<Rightarrow> None | x # ys \<Rightarrow> Some (fold max ys x))"

text \<open>
  The loop \<open>for (attempt = 0; attempt < 5 && !created; attempt++)\<close> with \<open>n\<close> attempts left;
  \<open>attempt < 4\<close> holds when at least one is left after this one. \<open>create\<close> may fail, and it may
  be preceded by whatever concurrent requests do between the lookup and the insertion.
\<close>

fun allocate_h ::
  "('s \<Rightarrow> string option) \<Rightarrow> (string option \<Rightarrow> string result) \<Rightarrow> (string \<Rightarrow> ('s, 'a) handler) \<Rightarrow> nat \<Rightarrow>
   ('s, 'a option) handler" where
  "allocate_h latest next create 0 s = (Inr None, s)"
| "allocate_h latest next create (Suc n) s =
     (case next (latest s) of
        Inl e \<Rightarrow> (Inl e, s)
      | Inr ref \<Rightarrow>
          (case create ref s of
             (Inr x, s') \<Rightarrow> (Inr (Some x), s')
           | (Inl e, s') \<Rightarrow>
               if e = UniqueViolation \<and> n > 0 then allocate_h latest next create n s' else (Inl e, s')))"

lemma allocate_first:
  assumes "next (latest s) = Inr r" "create r s = (Inr x, s')"
  shows "allocate_h latest next create (Suc n) s = (Inr (Some x), s')"
  using assms by simp

text \<open>
  If every attempt runs into the unique constraint and the failed insertion leaves the state as
  it was, all of them do, and the violation reaches the client.
\<close>

lemma allocate_stuck:
  assumes "next (latest s) = Inr r" "create r s = (Inl UniqueViolation, s)"
  shows "allocate_h latest next create (Suc n) s = (Inl UniqueViolation, s)"
  using assms by (induction n) simp_all

text \<open>A success is a success of \<open>create\<close> on the reference computed in the state it ran in.\<close>

lemma allocate_ok:
  assumes "allocate_h latest next create n s = (Inr (Some x), s')"
  shows "\<exists>t r. next (latest t) = Inr r \<and> create r t = (Inr x, s')"
  using assms
proof (induction n arbitrary: s)
  case (Suc n)
  then show ?case
    by (auto split: sum.splits prod.splits if_splits)
qed simp

lemma allocate_ok_same:
  assumes "allocate_h latest next create n s = (Inr (Some x), s')"
    and "\<And>r t e t'. create r t = (Inl e, t') \<Longrightarrow> t' = t"
  shows "\<exists>r. next (latest s) = Inr r \<and> create r s = (Inr x, s')"
  using assms(1)
proof (induction n)
  case (Suc n)
  then show ?case
    using assms(2) by (auto split: sum.splits prod.splits if_splits)
qed simp

lemma allocate_cases:
  assumes "allocate_h latest next create n s = (r, s')"
    and "\<And>ref t e t'. create ref t = (Inl e, t') \<Longrightarrow> t' = t"
  shows "s' = s \<and> (\<forall>x. r \<noteq> Inr (Some x)) \<or>
    (\<exists>x ref. r = Inr (Some x) \<and> next (latest s) = Inr ref \<and> create ref s = (Inr x, s'))"
  using assms(1)
proof (induction n)
  case (Suc n)
  then show ?case
    using assms(2) by (auto split: sum.splits prod.splits if_splits)
qed auto

lemma allocate_never_empty:
  "allocate_h latest next create (Suc n) s \<noteq> (Inr None, s')"
  by (induction n arbitrary: s) (auto split: sum.splits prod.splits if_splits)

context frame
begin

lemma keeps_allocate:
  assumes "\<And>r. keeps R (create r)"
  shows "keeps R (allocate_h latest next create n)"
proof -
  have "R s (snd (allocate_h latest next create n s))" for s
  proof (induction n arbitrary: s)
    case (Suc n)
    show ?case
    proof (cases "next (latest s)")
      case (Inr r)
      obtain y s' where c: "create r s = (y, s')" by (cases "create r s")
      then have "R s s'" using assms keepsD by fast
      then show ?thesis using Suc.IH [of s'] Inr c by (auto split: sum.splits intro: trans)
    qed (simp add: refl)
  qed (simp add: refl)
  then show ?thesis by (simp add: keeps_def)
qed

end

section \<open>Facts\<close>

lemma list_all_is_digit_pad [simp]: "all_digits (pad n w)"
  using pad_digits by (simp add: all_digits_def list_all_iff)

lemma parse_reference_pad: "parse_reference p (p @ pad n w) = Some n"
  by (simp add: parse_reference_def parse_after_def)

lemma next_finding_reference_pad: "next_finding_reference (Some (''F-'' @ pad n 2)) = ''F-'' @ pad (n + 1) 2"
  unfolding next_finding_reference_def by (simp only: option.case parse_reference_pad Let_def) simp

lemma next_request_reference_pad: "next_request_reference (Some (''DR-'' @ pad n 2)) = ''DR-'' @ pad (n + 1) 2"
  unfolding next_request_reference_def by (simp only: option.case parse_reference_pad Let_def) simp

lemma length_show_nat_year:
  assumes "1000 \<le> n" "n \<le> 9999" shows "length (show_nat n) = 4"
proof -
  have "\<not> n < 10" "\<not> n div 10 < 10" "\<not> n div 10 div 10 < 10" "n div 10 div 10 div 10 < 10"
    using assms by linarith+
  then have "show_nat n = [digit_char (n div 10 div 10 div 10), digit_char (n div 10 div 10 mod 10),
      digit_char (n div 10 mod 10), digit_char (n mod 10)]"
    by (simp only: show_nat.simps [of n] show_nat.simps [of "n div 10"] show_nat.simps [of "n div 10 div 10"]
        show_nat.simps [of "n div 10 div 10 div 10"] if_True if_False append.simps)
  then show ?thesis by simp
qed

lemma digit_not_space: "is_digit c \<Longrightarrow> \<not> is_space c"
  by (auto simp: is_digit_def is_space_def)

lemma trim_id:
  assumes "s \<noteq> []" "\<not> is_space (hd s)" "\<not> is_space (last s)"
  shows "trim s = s"
proof -
  have "dropWhile is_space s = s" "dropWhile is_space (rev s) = rev s"
    using assms by (simp_all add: dropWhile_eq_self_iff hd_rev)
  then show ?thesis by (simp add: trim_def)
qed

lemma pad_length_ge: "w \<le> length (pad n w)"
  by (simp add: pad_def)

lemma last_digit: "s \<noteq> [] \<Longrightarrow> all_digits s \<Longrightarrow> is_digit (last s)"
  by (simp add: all_digits_def list_all_iff)

lemma parse_format_audit_number:
  assumes "format_audit_number year sq = Inr r"
  shows "parse_audit_number r = Some (year, sq)"
proof -
  have y: "1000 \<le> year" "year \<le> 9999" and "1 \<le> sq" and r: "r = ''IA-'' @ show_nat (nat year) @ ''-'' @ pad sq 3"
    using assms by (auto simp: format_audit_number_def audit_number_prefix_def split: if_splits)
  have "trim r = r"
    using digit_not_space [OF last_digit [of "pad sq 3"]] unfolding r
    by (intro trim_id) (simp_all add: is_space_def [of "CHR ''I''"])
  moreover have "length (show_nat (nat year)) = 4"
    using y by (intro length_show_nat_year) auto
  moreover have "all_digits (show_nat (nat year))"
    using show_nat_digits by (simp add: all_digits_def list_all_iff)
  ultimately show ?thesis
    using y pad_length_ge [of 3 sq]
    by (simp add: parse_audit_number_def parse_after_def r Let_def)
qed

lemma highest_in: "highest xs = Some m \<Longrightarrow> m \<in> set xs \<and> (\<forall>x \<in> set xs. x \<le> m)"
proof -
  have f: "fold max ys x \<in> insert x (set ys) \<and> (\<forall>y \<in> insert x (set ys). y \<le> fold max ys x)"
    for ys and x :: string
    by (induction ys arbitrary: x) (force simp: max_def)+
  assume "highest xs = Some m"
  then show ?thesis using f by (auto simp: highest_def split: list.splits)
qed

lemma highest_eqI:
  assumes "m \<in> set xs" "\<And>x. x \<in> set xs \<Longrightarrow> x \<le> m"
  shows "highest xs = Some m"
proof -
  have "xs \<noteq> []" using assms(1) by auto
  then obtain k where "highest xs = Some k" by (cases xs) (simp_all add: highest_def)
  with highest_in [OF this] assms show ?thesis by (auto intro: antisym)
qed

lemma highest_None_iff: "highest xs = None \<longleftrightarrow> xs = []"
  by (simp add: highest_def split: list.splits)

section \<open>String order and numeric order\<close>

lemma digit_char_less_iff: "a < 10 \<Longrightarrow> b < 10 \<Longrightarrow> digit_char a < digit_char b \<longleftrightarrow> a < b"
  by (simp add: less_char_def of_char_digit)

lemma digit_char_eq_iff: "a < 10 \<Longrightarrow> b < 10 \<Longrightarrow> digit_char a = digit_char b \<longleftrightarrow> a = b"
  by (metis digit_value_char)

lemma pad_2_digits:
  assumes "i < 100" shows "pad i 2 = [digit_char (i div 10), digit_char (i mod 10)]"
proof (cases "i < 10")
  case True
  then show ?thesis by (simp add: pad_def show_nat.simps digit_char_zero)
next
  case False
  then have "show_nat i = [digit_char (i div 10), digit_char (i mod 10)]"
    using assms by (subst show_nat.simps) (simp add: show_nat.simps [of "i div 10"])
  then show ?thesis by (simp add: pad_def)
qed

lemma pad_2_le:
  assumes "i \<le> j" "j < 100" shows "pad i 2 \<le> pad j 2"
proof -
  have "i div 10 < j div 10 \<or> i div 10 = j div 10 \<and> i mod 10 \<le> j mod 10"
    using assms div_le_mono [of i j 10] mult_div_mod_eq [of 10 i] mult_div_mod_eq [of 10 j]
    by linarith
  moreover have "i div 10 < 10" "j div 10 < 10" "i mod 10 < 10" "j mod 10 < 10"
    using assms by simp_all
  ultimately show ?thesis
    using assms by (auto simp: pad_2_digits digit_char_less_iff digit_char_eq_iff le_less)
qed

lemma pad_100_less_99: "pad 100 2 \<le> pad 99 2"
proof -
  have "pad 100 2 = [digit_char 1, digit_char 0, digit_char 0]"
    by (simp add: pad_def show_nat.simps)
  then show ?thesis
    by (simp add: pad_2_digits digit_char_less_iff digit_char_eq_iff)
qed

lemma append_le_iff: "(p :: string) @ x \<le> p @ y \<longleftrightarrow> x \<le> y"
  by (induction p) auto

text \<open>The references of an engagement whose records were numbered 1 to \<open>n\<close>.\<close>

definition references_to :: "string \<Rightarrow> nat \<Rightarrow> string list" where
  "references_to prefix n = map (\<lambda>i. prefix @ pad i 2) [1..<n + 1]"

lemma references_to_mem:
  "x \<in> set (references_to p n) \<longleftrightarrow> (\<exists>i. 1 \<le> i \<and> i \<le> n \<and> x = p @ pad i 2)"
  by (auto simp: references_to_def image_iff)

lemma highest_below_100:
  assumes "1 \<le> n" "n < 100" "set xs = set (references_to p n)"
  shows "highest xs = Some (p @ pad n 2)"
proof (rule highest_eqI)
  show "p @ pad n 2 \<in> set xs"
    unfolding assms(3) references_to_mem using assms(1) by (intro exI [of _ n]) simp
next
  fix x assume "x \<in> set xs"
  then obtain i where "i \<le> n" "x = p @ pad i 2"
    unfolding assms(3) references_to_mem by (elim exE conjE)
  then show "x \<le> p @ pad n 2" using assms by (simp add: append_le_iff pad_2_le)
qed

text \<open>From the hundredth on, the ninety-ninth stays the greatest.\<close>

lemma highest_at_100:
  assumes "set xs = set (references_to p 100)"
  shows "highest xs = Some (p @ pad 99 2)"
proof (rule highest_eqI)
  show "p @ pad 99 2 \<in> set xs" unfolding assms references_to_mem by (intro exI [of _ 99]) simp
next
  fix x assume "x \<in> set xs"
  then obtain i where i: "i \<le> 100" "x = p @ pad i 2"
    unfolding assms references_to_mem by (elim exE conjE)
  show "x \<le> p @ pad 99 2"
  proof (cases "i = 100")
    case True
    then show ?thesis using i pad_100_less_99 by (simp add: append_le_iff)
  next
    case False
    then show ?thesis using i by (simp add: append_le_iff pad_2_le)
  qed
qed

lemma pad_in_references: "p @ pad n 2 \<in> set (references_to p m) \<longleftrightarrow> 1 \<le> n \<and> n \<le> m"
  by (auto simp: references_to_mem dest: pad_inj)

text \<open>
  C19. Audit numbers round-trip: a formatted number parses to the year and the sequence it was
  made from, and the number after it in the same year is formatted with the next sequence.
\<close>

theorem audit_number_round_trip:
  assumes "format_audit_number year sq = Inr r"
  shows "parse_audit_number r = Some (year, sq) \<and>
    next_audit_number year (Some r) = format_audit_number year (sq + 1) \<and>
    (year' \<noteq> year \<longrightarrow> next_audit_number year' (Some r) = format_audit_number year' 1)"
proof -
  have "r \<noteq> []"
    using assms by (auto simp: format_audit_number_def audit_number_prefix_def split: if_splits)
  then show ?thesis
    using parse_format_audit_number [OF assms] by (auto simp: next_audit_number_def Let_def)
qed

lemma audit_number_round_trip_witness:
  "format_audit_number 2026 7 = Inr ''IA-2026-007'' \<and> parse_audit_number ''IA-2026-007'' = Some (2026, 7)"
proof -
  have f: "format_audit_number 2026 7 = Inr ''IA-2026-007''"
    by code_simp
  then show ?thesis using audit_number_round_trip [OF f] by simp
qed

end
