(* ===== verification/Engagements.thy ===== *)
theory Engagements
  imports Workflow_Service Documents References Pagination Binary64
begin

text \<open>
  \<open>engagements/engagements.service.ts\<close>: the audit engagement and its life cycle. The guards are
  registered as in the service's constructor and read the database through the tenant-scoped
  client. Each endpoint is one definition; the order of its checks, writes, audit events and
  notifications is the source's. The lists a response embeds are in table order (the sorting of
  embedded lists is not modelled), and foreign keys are not checked.
\<close>

definition open_finding_statuses :: "finding_status list" where
  "open_finding_statuses = [finding_status.DRAFT, finding_status.MANAGEMENT_REVIEW,
     finding_status.AGREED, finding_status.IMPLEMENTATION, finding_status.VALIDATION]"

fun stage_name :: "engagement_stage \<Rightarrow> string" where
  "stage_name engagement_stage.PLANNING = ''PLANNING''"
| "stage_name engagement_stage.RISK_ASSESSMENT = ''RISK_ASSESSMENT''"
| "stage_name engagement_stage.PROGRAMME = ''PROGRAMME''"
| "stage_name engagement_stage.FIELDWORK = ''FIELDWORK''"
| "stage_name engagement_stage.REVIEW = ''REVIEW''"
| "stage_name engagement_stage.REPORTING = ''REPORTING''"
| "stage_name engagement_stage.FOLLOW_UP = ''FOLLOW_UP''"
| "stage_name engagement_stage.CLOSED = ''CLOSED''"

fun engagement_status_name :: "engagement_status \<Rightarrow> string" where
  "engagement_status_name engagement_status.ACTIVE = ''ACTIVE''"
| "engagement_status_name engagement_status.ON_HOLD = ''ON_HOLD''"
| "engagement_status_name engagement_status.CANCELLED = ''CANCELLED''"
| "engagement_status_name engagement_status.COMPLETED = ''COMPLETED''"

fun engagement_role_name :: "engagement_role \<Rightarrow> string" where
  "engagement_role_name engagement_role.PARTNER = ''PARTNER''"
| "engagement_role_name engagement_role.MANAGER = ''MANAGER''"
| "engagement_role_name engagement_role.LEAD = ''LEAD''"
| "engagement_role_name engagement_role.SENIOR = ''SENIOR''"
| "engagement_role_name engagement_role.JUNIOR = ''JUNIOR''"
| "engagement_role_name engagement_role.REVIEWER = ''REVIEWER''"
| "engagement_role_name engagement_role.SPECIALIST = ''SPECIALIST''"
| "engagement_role_name engagement_role.OBSERVER = ''OBSERVER''"

section \<open>Queries\<close>

record engagement_query =
  eq_page :: page_query
  eq_stage :: "engagement_stage option"
  eq_status :: "engagement_status option"
  eq_entity :: "uuid option"
  eq_type :: "engagement_type option"
  eq_lead :: "uuid option"
  eq_mine :: bool
  eq_text :: "string option"

text \<open>\<open>...(query.x ? { x: query.x } : {})\<close>\<close>

definition opt_eq :: "'a option \<Rightarrow> 'a \<Rightarrow> bool" where
  "opt_eq q x \<longleftrightarrow> (case q of None \<Rightarrow> True | Some v \<Rightarrow> x = v)"

definition opt_contains :: "string option \<Rightarrow> string list \<Rightarrow> bool" where
  "opt_contains q xs \<longleftrightarrow> (case q of None \<Rightarrow> True
     | Some v \<Rightarrow> v = [] \<or> list_ex (contains_insensitive v) xs)"

definition build_engagement_where :: "engagement_query \<Rightarrow> uuid \<Rightarrow> db \<Rightarrow> engagement \<Rightarrow> bool" where
  "build_engagement_where q uid s e \<longleftrightarrow>
     e_deleted_at e = None \<and> opt_eq (eq_stage q) (e_stage e) \<and> opt_eq (eq_status q) (e_status e) \<and>
     opt_eq (map_option Some (eq_entity q)) (e_entity e) \<and> opt_eq (eq_type q) (e_type e) \<and>
     opt_eq (map_option Some (eq_lead q)) (e_lead e) \<and>
     (eq_mine q \<longrightarrow>
        e_lead e = Some uid \<or> e_manager e = Some uid \<or> e_partner e = Some uid \<or>
        list_ex (\<lambda>m. m_engagement m = r_id e \<and> m_user m = uid) (db_members s)) \<and>
     opt_contains (eq_text q) [e_title e, e_number e]"

definition progress_pct :: "int \<Rightarrow> int \<Rightarrow> int" where
  "progress_pct n_total completed =
     (if n_total \<le> 0 then 0 else math_round (fl (fl (of_int completed / of_int n_total) * 100)))"

text \<open>Completed and total steps of the programmes of each engagement, \<open>NOT_APPLICABLE\<close> excluded.\<close>

definition step_engagement :: "db \<Rightarrow> program_step \<Rightarrow> uuid option" where
  "step_engagement s st = map_option pr_engagement (find_first (\<lambda>p. r_id p = st_program st) (db_programs s))"

definition progress_steps :: "actor \<Rightarrow> uuid list \<Rightarrow> db \<Rightarrow> program_step list" where
  "progress_steps ac ids s =
     many_in ac (\<lambda>st. (case step_engagement s st of None \<Rightarrow> False | Some e \<Rightarrow> e \<in> set ids) \<and>
                     st_status st \<noteq> NOT_APPLICABLE) (db_steps s)"

definition tally :: "db \<Rightarrow> program_step \<Rightarrow> (uuid \<Rightarrow> (int \<times> int) option) \<Rightarrow> uuid \<Rightarrow> (int \<times> int) option" where
  "tally s st totals =
     (case step_engagement s st of
        None \<Rightarrow> totals
      | Some e \<Rightarrow>
          (case coalesce (totals e) (0, 0) of
             (n_total, completed) \<Rightarrow>
               totals(e \<mapsto> (n_total + 1, if st_status st = step_status.COMPLETED then completed + 1 else completed))))"

definition progress_for :: "actor \<Rightarrow> uuid list \<Rightarrow> db \<Rightarrow> uuid \<Rightarrow> int option" where
  "progress_for ac ids s =
     (if ids = [] then (\<lambda>_. None)
      else (\<lambda>e. map_option (\<lambda>(n_total, completed). progress_pct n_total completed)
                  (fold (tally s) (progress_steps ac ids s) (\<lambda>_. None) e)))"

record engagement_counts =
  ct_workpapers :: nat
  ct_signed_off :: nat
  ct_findings :: nat
  ct_open_findings :: nat
  ct_evidence :: nat
  ct_requests :: nat
  ct_open_requests :: nat
  ct_programs :: nat
  ct_open_notes :: nat

text \<open>Review notes of the live workpapers of an engagement that are not cleared.\<close>

definition note_on_engagement :: "db \<Rightarrow> uuid \<Rightarrow> review_note \<Rightarrow> bool" where
  "note_on_engagement s e n \<longleftrightarrow>
     list_ex (\<lambda>w. r_id w = n_workpaper n \<and> w_engagement w = e \<and> w_deleted_at w = None) (db_workpapers s)"

definition open_notes :: "actor \<Rightarrow> uuid \<Rightarrow> db \<Rightarrow> nat" where
  "open_notes ac e s =
     count_in ac (\<lambda>n. note_on_engagement s e n \<and>
        n_status n \<in> {review_note_status.OPEN, review_note_status.ADDRESSED}) (db_notes s)"

definition live_workpaper_of :: "uuid \<Rightarrow> workpaper \<Rightarrow> bool" where
  "live_workpaper_of e w \<longleftrightarrow> w_engagement w = e \<and> w_deleted_at w = None"

definition live_finding_of :: "uuid \<Rightarrow> finding \<Rightarrow> bool" where
  "live_finding_of e f \<longleftrightarrow> f_engagement f = e \<and> f_deleted_at f = None"

definition engagement_counts_of :: "actor \<Rightarrow> uuid \<Rightarrow> db \<Rightarrow> engagement_counts" where
  "engagement_counts_of ac e s =
     \<lparr> ct_workpapers = count_in ac (live_workpaper_of e) (db_workpapers s),
       ct_signed_off = count_in ac (\<lambda>w. live_workpaper_of e w \<and> w_status w = workpaper_status.SIGNED_OFF) (db_workpapers s),
       ct_findings = count_in ac (live_finding_of e) (db_findings s),
       ct_open_findings = count_in ac (\<lambda>f. live_finding_of e f \<and> f_status f \<in> set open_finding_statuses) (db_findings s),
       ct_evidence = count_in ac (\<lambda>v. ev_engagement v = e) (db_evidence s),
       ct_requests = count_in ac (\<lambda>q. q_engagement q = e) (db_requests s),
       ct_open_requests = count_in ac (\<lambda>q. q_engagement q = e \<and>
          q_status q \<in> {request_status.OPEN, request_status.RETURNED}) (db_requests s),
       ct_programs = count_in ac (\<lambda>p. pr_engagement p = e) (db_programs s),
       ct_open_notes = open_notes ac e s \<rparr>"

section \<open>Guards\<close>

definition guard_ok :: "bool \<Rightarrow> string \<Rightarrow> bool + guard_result" where
  "guard_ok b msg = Inr \<lparr> gr_ok = b, gr_message = Some msg \<rparr>"

lemma guard_ok_passes: "guard_failed g (guard_ok b msg) = None \<longleftrightarrow> b"
  by (simp add: guard_failed_def guard_ok_def)

definition counted :: "nat \<Rightarrow> string \<Rightarrow> string" where
  "counted n text = show_nat n @ text"

definition engagement_registry :: "actor \<Rightarrow> db \<Rightarrow> engagement guard_registry" where
  "engagement_registry ac s =
     (let m = sm_name engagement_workflow in
      register_guard m ''has_objectives_and_scope'' (\<lambda>gc.
        guard_ok (\<not> is_blank (e_objectives (gc_entity gc)) \<and> \<not> is_blank (e_scope (gc_entity gc)))
          ''Objectives and scope must be documented'')
     (register_guard m ''has_lead'' (\<lambda>gc.
        guard_ok (e_lead (gc_entity gc) \<noteq> None) ''An engagement lead must be assigned'')
     (register_guard m ''programme_approved'' (\<lambda>gc.
        guard_ok (count_in ac (\<lambda>p. pr_engagement p = r_id (gc_entity gc) \<and>
            pr_status p \<in> {program_status.APPROVED, program_status.IN_PROGRESS, program_status.COMPLETED})
            (db_programs s) > 0)
          ''At least one audit programme must be approved'')
     (register_guard m ''all_workpapers_prepared'' (\<lambda>gc.
        let n_total = count_in ac (live_workpaper_of (r_id (gc_entity gc))) (db_workpapers s);
            drafts = count_in ac (\<lambda>w. live_workpaper_of (r_id (gc_entity gc)) w \<and>
                       w_status w = workpaper_status.DRAFT) (db_workpapers s)
        in if n_total = 0 then guard_ok False ''No workpapers have been created''
           else guard_ok (drafts = 0) (counted drafts '' workpaper(s) still in draft''))
     (register_guard m ''all_workpapers_signed_off'' (\<lambda>gc.
        let n_total = count_in ac (live_workpaper_of (r_id (gc_entity gc))) (db_workpapers s);
            pending = count_in ac (\<lambda>w. live_workpaper_of (r_id (gc_entity gc)) w \<and>
                       w_status w \<noteq> workpaper_status.SIGNED_OFF) (db_workpapers s)
        in if n_total = 0 then guard_ok False ''No workpapers have been created''
           else guard_ok (pending = 0) (counted pending '' workpaper(s) not yet signed off''))
     (register_guard m ''no_open_review_notes'' (\<lambda>gc.
        guard_ok (open_notes ac (r_id (gc_entity gc)) s = 0)
          (counted (open_notes ac (r_id (gc_entity gc)) s) '' review note(s) not yet cleared''))
     (register_guard m ''all_findings_agreed_or_accepted'' (\<lambda>gc.
        let pending = count_in ac (\<lambda>f. live_finding_of (r_id (gc_entity gc)) f \<and>
              f_status f \<in> {finding_status.DRAFT, finding_status.MANAGEMENT_REVIEW}) (db_findings s)
        in guard_ok (pending = 0) (counted pending '' finding(s) awaiting management agreement''))
     (register_guard m ''all_findings_owned_and_submitted'' (\<lambda>gc.
        let fs = many_in ac (live_finding_of (r_id (gc_entity gc))) (db_findings s);
            unassigned = length (filter (\<lambda>f. f_owner f = None \<and> is_blank (f_owner_name f) \<and>
                           is_blank (f_owner_email f)) fs);
            drafts = length (filter (\<lambda>f. f_status f = finding_status.DRAFT) fs)
        in guard_ok (unassigned = 0 \<and> drafts = 0)
             (join_with ''; ''
                ((if unassigned > 0 then [counted unassigned '' finding(s) still need an action owner''] else []) @
                 (if drafts > 0 then [counted drafts '' finding(s) must be sent for management review''] else []))))
      empty_registry))))))))"

section \<open>Reading an engagement\<close>

definition find_engagement :: "actor \<Rightarrow> uuid \<Rightarrow> db \<Rightarrow> engagement option" where
  "find_engagement ac i s = first_in ac (\<lambda>e. has_id i e \<and> e_deleted_at e = None) (db_engagements s)"

definition assert_engagement :: "actor \<Rightarrow> uuid \<Rightarrow> engagement op" where
  "assert_engagement ac i = demand_h (find_engagement ac i) (NotFound ''Engagement not found'')"

record engagement_view =
  vw_engagement :: engagement
  vw_members :: "member list"
  vw_stakeholders :: "stakeholder list"
  vw_milestones :: "milestone list"
  vw_history :: "stage_change list"
  vw_counts :: engagement_counts
  vw_progress :: int
  vw_actions :: "engagement_stage available_action list"

definition get_engagement :: "actor \<Rightarrow> uuid \<Rightarrow> engagement_view op" where
  "get_engagement ac i =
     then_h (assert_engagement_access ac i)
     (bind_h (demand_h (find_engagement ac i) (NotFound ''Engagement not found'')) (\<lambda>e.
      bind_h (gets_h (\<lambda>s. workflow_available (engagement_registry ac s) engagement_workflow (e_stage e) ac e (\<lambda>_. [])))
       (\<lambda>r. bind_h (lift_h r) (\<lambda>actions.
      gets_h (\<lambda>s.
        \<lparr> vw_engagement = e,
          vw_members = filter (\<lambda>m. m_engagement m = i) (db_members s),
          vw_stakeholders = filter (\<lambda>h. sh_engagement h = i) (db_stakeholders s),
          vw_milestones = filter (\<lambda>ms. ms_engagement ms = i) (db_milestones s),
          vw_history = take 20 (rev (filter (\<lambda>c. sc_engagement c = i) (db_stages s))),
          vw_counts = engagement_counts_of ac i s,
          vw_progress = coalesce (progress_for ac [i] s i) 0,
          vw_actions = actions \<rparr>)))))"

record engagement_item =
  it_engagement :: engagement
  it_workpapers :: nat
  it_open_findings :: nat
  it_progress :: int

definition list_engagements ::
  "actor \<Rightarrow> (engagement list \<Rightarrow> engagement list) \<Rightarrow> engagement_query \<Rightarrow> engagement_item page op" where
  "list_engagements ac order q = gets_h (\<lambda>s.
     let rows = order (many_in ac (\<lambda>e. build_engagement_where q (ac_user ac) s e \<and> engagement_scope ac s e)
                         (db_engagements s));
         pg = paginate (eq_page q) rows;
         progress = progress_for ac (map r_id (pg_items pg)) s
     in \<lparr> pg_items = map (\<lambda>e.
             \<lparr> it_engagement = e,
               it_workpapers = length (filter (live_workpaper_of (r_id e)) (db_workpapers s)),
               it_open_findings = length (filter (\<lambda>f. live_finding_of (r_id e) f \<and>
                  f_status f \<in> set open_finding_statuses) (db_findings s)),
               it_progress = coalesce (progress (r_id e)) 0 \<rparr>) (pg_items pg),
          pg_total = pg_total pg, pg_page = pg_page pg, pg_size = pg_size pg \<rparr>)"

section \<open>Creation\<close>

record create_engagement_dto =
  ce_title :: string
  ce_type :: engagement_type
  ce_entity :: "uuid option"
  ce_objectives :: "string option"
  ce_scope :: "string option"
  ce_out_of_scope :: "string option"
  ce_background :: "string option"
  ce_period_start :: "time option"
  ce_period_end :: "time option"
  ce_planned_start :: "time option"
  ce_planned_end :: "time option"
  ce_budget_hours :: "decimal option"
  ce_budget_amount :: "decimal option"
  ce_lead :: "uuid option"
  ce_manager :: "uuid option"
  ce_partner :: "uuid option"
  ce_rating :: "severity option"

definition new_engagement :: "actor \<Rightarrow> env \<Rightarrow> create_engagement_dto \<Rightarrow> string \<Rightarrow> db \<Rightarrow> engagement" where
  "new_engagement ac env dto number s =
     \<lparr> r_id = db_next s, r_tenant = ac_tenant ac, r_created = env_now env, e_number = number,
       e_title = ce_title dto, e_type = ce_type dto, e_entity = ce_entity dto,
       e_objectives = ce_objectives dto, e_scope = ce_scope dto,
       e_out_of_scope = ce_out_of_scope dto, e_background = ce_background dto,
       e_period_start = ce_period_start dto, e_period_end = ce_period_end dto,
       e_stage = engagement_stage.PLANNING, e_status = engagement_status.ACTIVE,
       e_rating = coalesce (ce_rating dto) severity.MEDIUM,
       e_planned_start = ce_planned_start dto, e_planned_end = ce_planned_end dto,
       e_actual_start = None, e_actual_end = None, e_budget_hours = ce_budget_hours dto,
       e_budget_amount = ce_budget_amount dto, e_lead = ce_lead dto, e_manager = ce_manager dto,
       e_partner = ce_partner dto, e_opinion = NOT_RATED, e_summary = None, e_report_issued = None,
       e_report_document = None, e_deleted_at = None \<rparr>"

text \<open>The team of a new engagement: nobody twice, the first role wins.\<close>

definition initial_team :: "create_engagement_dto \<Rightarrow> (uuid \<times> engagement_role) list" where
  "initial_team dto =
     (case ce_lead dto of None \<Rightarrow> [] | Some u \<Rightarrow> [(u, engagement_role.LEAD)]) @
     (case ce_manager dto of None \<Rightarrow> []
        | Some u \<Rightarrow> if ce_manager dto \<noteq> ce_lead dto then [(u, engagement_role.MANAGER)] else []) @
     (case ce_partner dto of None \<Rightarrow> []
        | Some u \<Rightarrow> if ce_partner dto \<noteq> ce_lead dto \<and> ce_partner dto \<noteq> ce_manager dto
                    then [(u, engagement_role.PARTNER)] else [])"

definition member_row :: "actor \<Rightarrow> env \<Rightarrow> uuid \<Rightarrow> uuid \<Rightarrow> uuid \<times> engagement_role \<Rightarrow> member" where
  "member_row ac env i e m =
     \<lparr> r_id = i, r_tenant = ac_tenant ac, r_created = env_now env, m_engagement = e,
       m_user = fst m, m_role = snd m, m_planned_hours = None \<rparr>"

definition add_member_row :: "actor \<Rightarrow> env \<Rightarrow> uuid \<Rightarrow> uuid \<times> engagement_role \<Rightarrow> db \<Rightarrow> db" where
  "add_member_row ac env e m s =
     s\<lparr> db_members := insert_row (member_row ac env (db_next s) e m) (db_members s),
        db_next := db_next s + 1 \<rparr>"

definition add_stage_change ::
  "actor \<Rightarrow> env \<Rightarrow> uuid \<Rightarrow> engagement_stage option \<Rightarrow> engagement_stage \<Rightarrow> string option \<Rightarrow> db \<Rightarrow> db" where
  "add_stage_change ac env e from to comment s =
     s\<lparr> db_stages := insert_row
          \<lparr> r_id = db_next s, r_tenant = ac_tenant ac, r_created = env_now env, sc_engagement = e,
            sc_from = from, sc_to = to, sc_by = ac_user ac, sc_comment = comment \<rparr> (db_stages s),
        db_next := db_next s + 1 \<rparr>"

text \<open>
  The nested writes of the creation. The plan item was read through the scoped client, so that
  connecting it by its primary key stays in the tenant.
\<close>

definition insert_engagement ::
  "actor \<Rightarrow> env \<Rightarrow> create_engagement_dto \<Rightarrow> uuid option \<Rightarrow> engagement \<Rightarrow> db \<Rightarrow> db" where
  "insert_engagement ac env dto item e s =
     (let s1 = s\<lparr> db_engagements := insert_row e (db_engagements s), db_next := db_next s + 1 \<rparr>;
          s2 = add_stage_change ac env (r_id e) None engagement_stage.PLANNING
                 (Some ''Engagement created'') s1;
          s3 = fold (add_member_row ac env (r_id e)) (initial_team dto) s2
      in case item of None \<Rightarrow> s3
         | Some i \<Rightarrow> s3\<lparr> db_items := update_in ac (has_id i) (\<lambda>p. p\<lparr> pi_engagement := Some (r_id e) \<rparr>) (db_items s3) \<rparr>)"

definition starts_with :: "string \<Rightarrow> string \<Rightarrow> bool" where
  "starts_with p x \<longleftrightarrow> take (length p) x = p"

definition latest_audit_number :: "actor \<Rightarrow> int \<Rightarrow> db \<Rightarrow> string option" where
  "latest_audit_number ac year s =
     highest (map e_number (many_in ac (\<lambda>e. starts_with (audit_number_prefix year) (e_number e)) (db_engagements s)))"

text \<open>The constraint \<open>@@unique([tenantId, auditNumber])\<close>.\<close>

definition create_numbered ::
  "actor \<Rightarrow> env \<Rightarrow> create_engagement_dto \<Rightarrow> uuid option \<Rightarrow> string \<Rightarrow> engagement op" where
  "create_numbered ac env dto item number =
     then_h (check_state_h (\<lambda>s. count_in ac (\<lambda>e. e_number e = number) (db_engagements s) = 0) UniqueViolation)
       (create_h (new_engagement ac env dto number) (insert_engagement ac env dto item))"

definition create_engagement ::
  "actor \<Rightarrow> env \<Rightarrow> create_engagement_dto \<Rightarrow> uuid option \<Rightarrow> engagement op" where
  "create_engagement ac env dto item =
     then_h (check_state_h (\<lambda>s. case ce_entity dto of None \<Rightarrow> True
         | Some i \<Rightarrow> first_in ac (\<lambda>a. has_id i a \<and> ae_deleted_at a = None) (db_entities s) \<noteq> None)
         (BadRequest ''Entity not found''))
     (let year = get_utc_full_year (coalesce (ce_planned_start dto) (env_now env)) in
      bind_h (allocate_h (latest_audit_number ac year) (next_audit_number year)
                (create_numbered ac env dto item) 5) (\<lambda>created.
      case created of
        None \<Rightarrow> throw_h (Conflict ''Could not allocate an audit number'')
      | Some e \<Rightarrow>
          then_h (audit_record ac env (audit_of ''engagement.created'' ''Engagement'' (r_id e) No_Snapshot
                    (Engagement_Row e) []))
         (then_h (notify_many ac env
                    (filter (\<lambda>u. u \<noteq> None \<and> u \<noteq> Some (ac_user ac)) [ce_lead dto, ce_manager dto, ce_partner dto])
                    \<lparr> ni_type = ''engagement.assigned'',
                      ni_title = ''You were added to '' @ e_number e @ '' '' @ e_title e, ni_body = None,
                      ni_link = Some (''/engagements/'' @ show_nat (r_id e)),
                      ni_payload = JObj [(''engagementId'', JId (r_id e))] \<rparr>)
          (return_h e))))"

section \<open>Update\<close>

record update_engagement_dto =
  ue_title :: "string option"
  ue_type :: "engagement_type option"
  ue_entity :: "uuid field"
  ue_objectives :: "string field"
  ue_scope :: "string field"
  ue_out_of_scope :: "string field"
  ue_background :: "string field"
  ue_period_start :: "time field"
  ue_period_end :: "time field"
  ue_planned_start :: "time field"
  ue_planned_end :: "time field"
  ue_actual_start :: "time field"
  ue_actual_end :: "time field"
  ue_budget_hours :: "decimal field"
  ue_budget_amount :: "decimal field"
  ue_lead :: "uuid field"
  ue_manager :: "uuid field"
  ue_partner :: "uuid field"
  ue_rating :: "severity option"
  ue_status :: "engagement_status option"
  ue_opinion :: "audit_opinion option"
  ue_summary :: "string field"
  ue_report :: "uuid field"

definition patch_engagement :: "update_engagement_dto \<Rightarrow> engagement \<Rightarrow> engagement" where
  "patch_engagement dto e =
     e\<lparr> e_title := patch (ue_title dto) (e_title e), e_type := patch (ue_type dto) (e_type e),
        e_entity := patch_nullable (ue_entity dto) (e_entity e),
        e_objectives := patch_nullable (ue_objectives dto) (e_objectives e),
        e_scope := patch_nullable (ue_scope dto) (e_scope e),
        e_out_of_scope := patch_nullable (ue_out_of_scope dto) (e_out_of_scope e),
        e_background := patch_nullable (ue_background dto) (e_background e),
        e_period_start := patch_nullable (ue_period_start dto) (e_period_start e),
        e_period_end := patch_nullable (ue_period_end dto) (e_period_end e),
        e_planned_start := patch_nullable (ue_planned_start dto) (e_planned_start e),
        e_planned_end := patch_nullable (ue_planned_end dto) (e_planned_end e),
        e_actual_start := patch_nullable (ue_actual_start dto) (e_actual_start e),
        e_actual_end := patch_nullable (ue_actual_end dto) (e_actual_end e),
        e_budget_hours := patch_nullable (ue_budget_hours dto) (e_budget_hours e),
        e_budget_amount := patch_nullable (ue_budget_amount dto) (e_budget_amount e),
        e_lead := patch_nullable (ue_lead dto) (e_lead e),
        e_manager := patch_nullable (ue_manager dto) (e_manager e),
        e_partner := patch_nullable (ue_partner dto) (e_partner e),
        e_rating := patch (ue_rating dto) (e_rating e),
        e_status := patch (ue_status dto) (e_status e),
        e_opinion := patch (ue_opinion dto) (e_opinion e),
        e_summary := patch_nullable (ue_summary dto) (e_summary e),
        e_report_document := patch_nullable (ue_report dto) (e_report_document e) \<rparr>"

definition update_engagement_row :: "actor \<Rightarrow> uuid \<Rightarrow> (engagement \<Rightarrow> engagement) \<Rightarrow> db \<Rightarrow> db" where
  "update_engagement_row ac i f s = s\<lparr> db_engagements := update_in ac (has_id i) f (db_engagements s) \<rparr>"

text \<open>\<open>upsert\<close> on the key \<open>(engagementId, userId)\<close>.\<close>

definition is_member :: "uuid \<Rightarrow> uuid \<Rightarrow> member \<Rightarrow> bool" where
  "is_member e u m \<longleftrightarrow> m_engagement m = e \<and> m_user m = u"

definition upsert_member ::
  "actor \<Rightarrow> env \<Rightarrow> uuid \<Rightarrow> uuid \<Rightarrow> engagement_role \<Rightarrow> (member \<Rightarrow> member) \<Rightarrow> (member \<Rightarrow> member) \<Rightarrow> db \<Rightarrow> db" where
  "upsert_member ac env e u role change init s =
     (if first_in ac (is_member e u) (db_members s) \<noteq> None
      then s\<lparr> db_members := update_in ac (is_member e u) change (db_members s) \<rparr>
      else s\<lparr> db_members := insert_row (init (member_row ac env (db_next s) e (u, role))) (db_members s),
              db_next := db_next s + 1 \<rparr>)"

text \<open>One round of the loop over lead, manager and partner.\<close>

definition assign_role ::
  "actor \<Rightarrow> env \<Rightarrow> engagement \<Rightarrow> uuid field \<times> uuid option \<times> engagement_role \<Rightarrow> unit op" where
  "assign_role ac env after x =
     (case x of (dto_user, before_user, role) \<Rightarrow>
       (case or_null dto_user of
          None \<Rightarrow> return_h ()
        | Some u \<Rightarrow>
            when_h (Some u \<noteq> before_user)
              (then_h (modify_h (upsert_member ac env (r_id after) u role (\<lambda>m. m\<lparr> m_role := role \<rparr>) (\<lambda>m. m)))
                (when_h (u \<noteq> ac_user ac)
                  (notify ac env (Some u)
                    \<lparr> ni_type = ''engagement.assigned'',
                      ni_title = ''You are now '' @ to_lower (engagement_role_name role) @ '' on '' @
                                 e_number after @ '' '' @ e_title after,
                      ni_body = None, ni_link = Some (''/engagements/'' @ show_nat (r_id after)),
                      ni_payload = JObj [(''engagementId'', JId (r_id after))] \<rparr>)))))"

definition check_report :: "actor \<Rightarrow> uuid \<Rightarrow> update_engagement_dto \<Rightarrow> engagement \<Rightarrow> unit op" where
  "check_report ac i dto before =
     when_h (supplied (ue_report dto))
       (then_h (check_h (e_stage before \<noteq> engagement_stage.CLOSED)
                  (Conflict ''The report of a closed engagement cannot be changed''))
         (case or_null (ue_report dto) of
            None \<Rightarrow> return_h ()
          | Some d \<Rightarrow>
              bind_h (assert_document ac d True False) (\<lambda>doc.
                check_h (d_owner_type doc = Some ''Engagement'' \<and> d_owner doc = Some i)
                  (BadRequest ''The report document must belong to this engagement''))))"

definition update_engagement :: "actor \<Rightarrow> env \<Rightarrow> uuid \<Rightarrow> update_engagement_dto \<Rightarrow> engagement op" where
  "update_engagement ac env i dto =
     bind_h (assert_engagement ac i) (\<lambda>before.
     then_h (check_report ac i dto before)
     (then_h (check_h (case ue_status dto of None \<Rightarrow> True
                 | Some st \<Rightarrow> st \<in> {engagement_status.ACTIVE, engagement_status.ON_HOLD})
                (BadRequest ''Use a workflow transition to close or cancel an engagement''))
     (let after = patch_engagement dto before in
      then_h (modify_h (update_engagement_row ac i (patch_engagement dto)))
     (then_h (audit_record ac env (audit_of ''engagement.updated'' ''Engagement'' i
                (Engagement_Row before) (Engagement_Row after) []))
     (then_h (for_h (assign_role ac env after)
                [(ue_lead dto, e_lead before, engagement_role.LEAD),
                 (ue_manager dto, e_manager before, engagement_role.MANAGER),
                 (ue_partner dto, e_partner before, engagement_role.PARTNER)])
      (return_h after))))))"

section \<open>Transitions\<close>

record transition_dto =
  td_action :: string
  td_comment :: "string option"

text \<open>The \<open>switch\<close> over the action: what else changes in the row.\<close>

definition engagement_effect :: "time \<Rightarrow> engagement_stage transition \<Rightarrow> engagement \<Rightarrow> engagement" where
  "engagement_effect now t e =
     (let e' = e\<lparr> e_stage := tr_to t \<rparr>; a = tr_action t in
      if a = ''start_fieldwork'' then
        (if e_actual_start e = None then e'\<lparr> e_actual_start := Some now \<rparr> else e')
      else if a = ''issue_report'' then e'\<lparr> e_report_issued := Some now \<rparr>
      else if a = ''close'' then
        e'\<lparr> e_status := engagement_status.COMPLETED, e_actual_end := Some (coalesce (e_actual_end e) now) \<rparr>
      else if a = ''cancel'' then
        e'\<lparr> e_status := engagement_status.CANCELLED, e_actual_end := Some now \<rparr>
      else e')"

text \<open>The issue of a report dates the audited entity and schedules its next audit.\<close>

definition date_entity :: "time \<Rightarrow> audit_entity \<Rightarrow> audit_entity" where
  "date_entity now a =
     a\<lparr> ae_last_audit := Some now,
        ae_next_audit := (case ae_frequency a of
            None \<Rightarrow> ae_next_audit a
          | Some n \<Rightarrow> if n \<noteq> 0 then Some (add_months now n) else ae_next_audit a) \<rparr>"

definition engagement_side_effects :: "actor \<Rightarrow> time \<Rightarrow> engagement_stage transition \<Rightarrow> engagement \<Rightarrow> db \<Rightarrow> db" where
  "engagement_side_effects ac now t e s =
     (let a = tr_action t;
          s1 = (if a = ''issue_report'' then
                  (case e_entity e of None \<Rightarrow> s
                   | Some i \<Rightarrow> s\<lparr> db_entities := update_in ac (has_id i) (date_entity now) (db_entities s) \<rparr>)
                else s)
      in if a = ''close'' \<or> a = ''cancel'' then
           s1\<lparr> db_items := update_in ac (\<lambda>p. pi_engagement p = Some (r_id e))
                 (\<lambda>p. p\<lparr> pi_status := (if a = ''close'' then plan_item_status.COMPLETED
                                       else plan_item_status.CANCELLED) \<rparr>) (db_items s1) \<rparr>
         else s1)"

definition apply_engagement_transition ::
  "actor \<Rightarrow> env \<Rightarrow> engagement \<Rightarrow> engagement_stage transition \<Rightarrow> string option \<Rightarrow> db \<Rightarrow> db" where
  "apply_engagement_transition ac env e t comment s =
     engagement_side_effects ac (env_now env) t e
       (add_stage_change ac env (r_id e) (Some (e_stage e)) (tr_to t) (Some (coalesce comment (tr_label t)))
         (update_engagement_row ac (r_id e) (\<lambda>_. engagement_effect (env_now env) t e) s))"

definition spaced :: "string \<Rightarrow> string" where
  "spaced x = to_lower (map (\<lambda>c. if c = CHR ''_'' then CHR '' '' else c) x)"

definition transition_engagement :: "actor \<Rightarrow> env \<Rightarrow> uuid \<Rightarrow> transition_dto \<Rightarrow> engagement_view op" where
  "transition_engagement ac env i dto =
     then_h (assert_engagement_access ac i)
     (bind_h (assert_engagement ac i) (\<lambda>e.
      bind_h (gets_h (\<lambda>s. workflow_transition (engagement_registry ac s) stage_name engagement_workflow
                (e_stage e) (td_action dto) ac e (td_comment dto) None)) (\<lambda>r.
      bind_h (lift_h r) (\<lambda>t.
      let updated = engagement_effect (env_now env) t e in
      then_h (transaction_h (modify_h (apply_engagement_transition ac env e t (td_comment dto))))
     (then_h (audit_record ac env (audit_of ''engagement.stage_changed'' ''Engagement'' i
                (Fields [(''stage'', JStr (stage_name (e_stage e))),
                         (''status'', JStr (engagement_status_name (e_status e)))])
                (Fields [(''stage'', JStr (stage_name (e_stage updated))),
                         (''status'', JStr (engagement_status_name (e_status updated)))])
                [(''action'', JStr (tr_action t)),
                 (''comment'', case td_comment dto of None \<Rightarrow> JNull | Some c \<Rightarrow> JStr c)]))
     (then_h (notify_many ac env
                (filter (\<lambda>u. u \<noteq> Some (ac_user ac)) [e_lead updated, e_manager updated, e_partner updated])
                \<lparr> ni_type = ''engagement.stage_changed'',
                  ni_title = e_number updated @ '' moved to '' @ spaced (stage_name (tr_to t)),
                  ni_body = td_comment dto, ni_link = Some (''/engagements/'' @ show_nat i),
                  ni_payload = JObj [(''engagementId'', JId i), (''action'', JStr (tr_action t)),
                    (''from'', JStr (stage_name (e_stage e))), (''to'', JStr (stage_name (tr_to t)))] \<rparr>)
      (get_engagement ac i)))))))"

section \<open>Members, stakeholders, milestones\<close>

record add_member_dto =
  am_user :: uuid
  am_role :: engagement_role
  am_planned_hours :: "decimal option"

definition add_member :: "actor \<Rightarrow> env \<Rightarrow> uuid \<Rightarrow> add_member_dto \<Rightarrow> member op" where
  "add_member ac env e dto =
     then_h (assert_engagement ac e)
     (then_h (check_state_h (\<lambda>s. first_in ac (\<lambda>u. has_id (am_user dto) u \<and> u_deleted_at u = None) (db_users s) \<noteq> None)
                (BadRequest ''User not found''))
     (then_h (modify_h (upsert_member ac env e (am_user dto) (am_role dto)
                (\<lambda>m. m\<lparr> m_role := am_role dto, m_planned_hours := am_planned_hours dto \<rparr>)
                (\<lambda>m. m\<lparr> m_planned_hours := am_planned_hours dto \<rparr>)))
     (bind_h (demand_h (\<lambda>s. first_in ac (is_member e (am_user dto)) (db_members s)) RecordRequired) (\<lambda>m.
      then_h (audit_record ac env (audit_of ''engagement.member_added'' ''Engagement'' e No_Snapshot (Member_Row m) []))
     (then_h (if am_user dto \<noteq> ac_user ac then
                bind_h (assert_engagement ac e) (\<lambda>g.
                  notify ac env (Some (am_user dto))
                    \<lparr> ni_type = ''engagement.assigned'',
                      ni_title = ''You were added to '' @ e_number g @ '' '' @ e_title g @ '' as '' @
                                 to_lower (engagement_role_name (am_role dto)),
                      ni_body = None, ni_link = Some (''/engagements/'' @ show_nat e),
                      ni_payload = JObj [(''engagementId'', JId e)] \<rparr>)
              else return_h ())
      (return_h m))))))"

definition delete_members :: "actor \<Rightarrow> uuid \<Rightarrow> uuid \<Rightarrow> db \<Rightarrow> db" where
  "delete_members ac e u s = s\<lparr> db_members := delete_in ac (is_member e u) (db_members s) \<rparr>"

definition remove_member :: "actor \<Rightarrow> env \<Rightarrow> uuid \<Rightarrow> uuid \<Rightarrow> unit op" where
  "remove_member ac env e u =
     bind_h (assert_engagement ac e) (\<lambda>g.
     then_h (check_h (Some u \<notin> {e_lead g, e_manager g, e_partner g})
               (BadRequest ''Reassign the lead/manager/partner before removing them from the team''))
     (bind_h (gets_h (\<lambda>s. count_in ac (is_member e u) (db_members s))) (\<lambda>n.
      then_h (modify_h (delete_members ac e u))
     (then_h (check_h (n \<noteq> 0) (NotFound ''Member not found''))
      (audit_record ac env (audit_of ''engagement.member_removed'' ''Engagement'' e No_Snapshot No_Snapshot
         [(''userId'', JId u)]))))))"

record create_stakeholder_dto =
  cs_user :: "uuid option"
  cs_name :: string
  cs_email :: "string option"
  cs_title :: "string option"
  cs_organisation :: "string option"
  cs_role :: string
  cs_primary :: "bool option"

definition add_stakeholder :: "actor \<Rightarrow> env \<Rightarrow> uuid \<Rightarrow> create_stakeholder_dto \<Rightarrow> stakeholder op" where
  "add_stakeholder ac env e dto =
     then_h (assert_engagement ac e)
     (bind_h (create_h (\<lambda>s. \<lparr> r_id = db_next s, r_tenant = ac_tenant ac, r_created = env_now env,
          sh_engagement = e, sh_user = cs_user dto, sh_name = cs_name dto, sh_email = cs_email dto,
          sh_title = cs_title dto, sh_organisation = cs_organisation dto, sh_role = cs_role dto,
          sh_primary = coalesce (cs_primary dto) False \<rparr>)
        (\<lambda>h s. s\<lparr> db_stakeholders := insert_row h (db_stakeholders s), db_next := db_next s + 1 \<rparr>)) (\<lambda>h.
      then_h (audit_record ac env (audit_of ''engagement.stakeholder_added'' ''Engagement'' e No_Snapshot
                (Stakeholder_Row h) []))
      (return_h h)))"

definition remove_stakeholder :: "actor \<Rightarrow> env \<Rightarrow> uuid \<Rightarrow> uuid \<Rightarrow> unit op" where
  "remove_stakeholder ac env e i =
     then_h (assert_engagement ac e)
     (bind_h (gets_h (\<lambda>s. count_in ac (\<lambda>h. has_id i h \<and> sh_engagement h = e) (db_stakeholders s))) (\<lambda>n.
      then_h (modify_h (\<lambda>s. s\<lparr> db_stakeholders :=
                delete_in ac (\<lambda>h. has_id i h \<and> sh_engagement h = e) (db_stakeholders s) \<rparr>))
     (then_h (check_h (n \<noteq> 0) (NotFound ''Stakeholder not found''))
      (audit_record ac env (audit_of ''engagement.stakeholder_removed'' ''Engagement'' e No_Snapshot No_Snapshot
         [(''stakeholderId'', JId i)])))))"

record create_milestone_dto =
  cm_name :: string
  cm_stage :: "engagement_stage option"
  cm_due :: time
  cm_completed :: "time option"
  cm_sort :: "int option"

definition add_milestone :: "actor \<Rightarrow> env \<Rightarrow> uuid \<Rightarrow> create_milestone_dto \<Rightarrow> milestone op" where
  "add_milestone ac env e dto =
     then_h (assert_engagement ac e)
     (bind_h (create_h (\<lambda>s. \<lparr> r_id = db_next s, r_tenant = ac_tenant ac, r_created = env_now env,
          ms_engagement = e, ms_name = cm_name dto, ms_stage = cm_stage dto, ms_due = cm_due dto,
          ms_completed = cm_completed dto, ms_sort = coalesce (cm_sort dto) 0 \<rparr>)
        (\<lambda>ms s. s\<lparr> db_milestones := insert_row ms (db_milestones s), db_next := db_next s + 1 \<rparr>)) (\<lambda>ms.
      then_h (audit_record ac env (audit_of ''engagement.milestone_added'' ''EngagementMilestone'' (r_id ms)
                No_Snapshot (Milestone_Row ms) []))
      (return_h ms)))"

record update_milestone_dto =
  um_name :: "string option"
  um_stage :: "engagement_stage field"
  um_due :: "time option"
  um_completed :: "time field"
  um_sort :: "int option"

definition patch_milestone :: "update_milestone_dto \<Rightarrow> milestone \<Rightarrow> milestone" where
  "patch_milestone dto ms =
     ms\<lparr> ms_name := patch (um_name dto) (ms_name ms),
         ms_stage := patch_nullable (um_stage dto) (ms_stage ms),
         ms_due := patch (um_due dto) (ms_due ms),
         ms_completed := patch_nullable (um_completed dto) (ms_completed ms),
         ms_sort := patch (um_sort dto) (ms_sort ms) \<rparr>"

definition update_milestone :: "actor \<Rightarrow> env \<Rightarrow> uuid \<Rightarrow> uuid \<Rightarrow> update_milestone_dto \<Rightarrow> milestone op" where
  "update_milestone ac env e i dto =
     bind_h (demand_h (\<lambda>s. first_in ac (\<lambda>ms. has_id i ms \<and> ms_engagement ms = e) (db_milestones s))
               (NotFound ''Milestone not found'')) (\<lambda>before.
     let after = patch_milestone dto before in
     then_h (modify_h (\<lambda>s. s\<lparr> db_milestones := update_in ac (has_id i) (patch_milestone dto) (db_milestones s) \<rparr>))
     (then_h (audit_record ac env (audit_of ''engagement.milestone_updated'' ''EngagementMilestone'' i
                (Milestone_Row before) (Milestone_Row after) []))
      (return_h after)))"

definition delete_milestone :: "actor \<Rightarrow> env \<Rightarrow> uuid \<Rightarrow> uuid \<Rightarrow> unit op" where
  "delete_milestone ac env e i =
     bind_h (gets_h (\<lambda>s. count_in ac (\<lambda>ms. has_id i ms \<and> ms_engagement ms = e) (db_milestones s))) (\<lambda>n.
     then_h (modify_h (\<lambda>s. s\<lparr> db_milestones :=
               delete_in ac (\<lambda>ms. has_id i ms \<and> ms_engagement ms = e) (db_milestones s) \<rparr>))
     (then_h (check_h (n \<noteq> 0) (NotFound ''Milestone not found''))
      (audit_record ac env (audit_of ''engagement.milestone_deleted'' ''EngagementMilestone'' i
         No_Snapshot No_Snapshot []))))"

section \<open>Confinement\<close>

lemma assert_engagement_reads [intro]: "reads (assert_engagement ac i)"
  unfolding assert_engagement_def by (rule reads_demand)

lemma get_engagement_reads [intro]: "reads (get_engagement ac i)"
  unfolding get_engagement_def by (intro reads_intros assert_access_reads)

lemma list_engagements_reads: "reads (list_engagements ac order q)"
  unfolding list_engagements_def by (rule reads_gets)

lemmas engagement_confined = document_confined confinement.keeps_reads [OF assert_engagement_reads]
  confinement.keeps_reads [OF get_engagement_reads]

lemma add_stage_change_confined:
  "same_outside (ac_tenant ac) s (add_stage_change ac env e from to c s)"
  "audit_grows s (add_stage_change ac env e from to c s)"
  by (simp_all add: add_stage_change_def confined_writes)

lemma fold_add_member_confined:
  "same_outside (ac_tenant ac) s (fold (add_member_row ac env e) ms s)"
  "audit_grows s (fold (add_member_row ac env e) ms s)"
proof -
  have f: "keeps (confined (ac_tenant ac)) (for_h (\<lambda>x. modify_h (add_member_row ac env e x)) ms)"
    by (intro confined_steps) (simp_all add: add_member_row_def member_row_def confined_writes)
  from keepsD [OF f for_modify_run, of s]
  show "same_outside (ac_tenant ac) s (fold (add_member_row ac env e) ms s)"
    "audit_grows s (fold (add_member_row ac env e) ms s)"
    by (simp_all add: confined_def both_def)
qed

lemma insert_engagement_confined:
  assumes "r_tenant e = ac_tenant ac"
  shows "confined (ac_tenant ac) s (insert_engagement ac env dto item e s)"
proof -
  let ?s1 = "s\<lparr> db_engagements := insert_row e (db_engagements s), db_next := db_next s + 1 \<rparr>"
  let ?s2 = "add_stage_change ac env (r_id e) None engagement_stage.PLANNING (Some ''Engagement created'') ?s1"
  let ?s3 = "fold (add_member_row ac env (r_id e)) (initial_team dto) ?s2"
  let ?s4 = "\<lambda>i. ?s3\<lparr> db_items := update_in ac (has_id i) (\<lambda>p. p\<lparr> pi_engagement := Some (r_id e) \<rparr>) (db_items ?s3) \<rparr>"
  have 1: "confined (ac_tenant ac) s ?s1" by (intro confinedI) (simp_all add: confined_writes assms)
  have 2: "confined (ac_tenant ac) ?s1 ?s2" by (intro confinedI add_stage_change_confined)
  have 3: "confined (ac_tenant ac) ?s2 ?s3" by (intro confinedI fold_add_member_confined)
  have 4: "confined (ac_tenant ac) ?s3 (?s4 i)" for i by (intro confinedI) (simp_all add: confined_writes)
  have 123: "confined (ac_tenant ac) s ?s3"
    using confinement.trans [OF confinement.trans [OF 1 2] 3] .
  show ?thesis
  proof (cases item)
    case None
    then show ?thesis using 123 by (simp add: insert_engagement_def Let_def)
  next
    case (Some i)
    then show ?thesis using confinement.trans [OF 123 4] by (simp add: insert_engagement_def Let_def)
  qed
qed

lemma create_engagement_confined: "keeps (confined (ac_tenant ac)) (create_engagement ac env dto item)"
  unfolding create_engagement_def create_numbered_def
  by (intro confined_intros confinement.keeps_allocate confinement.keeps_create insert_engagement_confined)
     (simp add: new_engagement_def)

lemma upsert_member_confined:
  assumes "\<And>m. r_tenant (change m) = r_tenant m" "\<And>m. r_tenant (init m) = r_tenant m"
  shows "keeps (confined (ac_tenant ac)) (modify_h (upsert_member ac env e u role change init))"
  by (intro confined_steps) (simp_all add: upsert_member_def confined_writes assms member_row_def)

lemma assign_role_confined: "keeps (confined (ac_tenant ac)) (assign_role ac env after x)"
  unfolding assign_role_def by (intro confined_intros upsert_member_confined) simp_all

lemma update_engagement_row_confined:
  "(\<And>e. r_tenant (f e) = r_tenant e) \<Longrightarrow>
   keeps (confined (ac_tenant ac)) (modify_h (update_engagement_row ac i f))"
  by (intro confined_steps) (simp_all add: update_engagement_row_def confined_writes)

lemma update_engagement_confined: "keeps (confined (ac_tenant ac)) (update_engagement ac env i dto)"
  unfolding update_engagement_def check_report_def
  by (intro confined_intros engagement_confined update_engagement_row_confined assign_role_confined)
     (simp add: patch_engagement_def)

lemma engagement_effect_row [simp]:
  "r_id (engagement_effect now t e) = r_id e" "r_tenant (engagement_effect now t e) = r_tenant e"
  "e_stage (engagement_effect now t e) = tr_to t" "e_deleted_at (engagement_effect now t e) = e_deleted_at e"
  by (simp_all add: engagement_effect_def Let_def)

lemma outside_update_in_mine:
  assumes "r_tenant x = ac_tenant ac"
  shows "outside (ac_tenant ac) (update_in ac P (\<lambda>_. x) t) = outside (ac_tenant ac) t"
  using assms unfolding outside_def update_in_def
  by (intro filter_update_rows_other) (auto simp: mine_def)

lemma apply_engagement_transition_confined:
  assumes "mine ac e"
  shows "confined (ac_tenant ac) s (apply_engagement_transition ac env e t c s)"
  using assms
  by (intro confinedI)
     (auto simp: apply_engagement_transition_def engagement_side_effects_def Let_def add_stage_change_def
       update_engagement_row_def confined_writes date_entity_def outside_update_in_mine mine_def
       split: option.splits)

lemma find_engagement_Some:
  "find_engagement ac i s = Some e \<Longrightarrow>
   e \<in> set (db_engagements s) \<and> mine ac e \<and> r_id e = i \<and> e_deleted_at e = None"
  by (auto simp: find_engagement_def has_id_def dest: first_in_Some)

lemma transition_engagement_confined: "keeps (confined (ac_tenant ac)) (transition_engagement ac env i dto)"
  unfolding transition_engagement_def assert_engagement_def
  by (intro confinement.keeps_bind_demand confined_intros engagement_confined
      confinement.keeps_modify apply_engagement_transition_confined)
     (blast dest: find_engagement_Some)

lemma member_changes_confined:
  "keeps (confined (ac_tenant ac)) (add_member ac env e am)"
  "keeps (confined (ac_tenant ac)) (remove_member ac env e u)"
  "keeps (confined (ac_tenant ac)) (add_stakeholder ac env e cs)"
  "keeps (confined (ac_tenant ac)) (remove_stakeholder ac env e i)"
  "keeps (confined (ac_tenant ac)) (add_milestone ac env e cm)"
  "keeps (confined (ac_tenant ac)) (update_milestone ac env e i um)"
  "keeps (confined (ac_tenant ac)) (delete_milestone ac env e i)"
  unfolding add_member_def remove_member_def add_stakeholder_def remove_stakeholder_def
    add_milestone_def update_milestone_def delete_milestone_def
  by (intro confined_intros engagement_confined upsert_member_confined keeps_confined_modify
      keeps_confined_create; simp add: confined_writes delete_members_def patch_milestone_def)+

end
