(* ===== verification/Engagement_Life.thy ===== *)
theory Engagement_Life
  imports Engagements
begin

text \<open>
  The life cycle of an engagement: what its guards mean on the database, the effect of an accepted
  transition and the refusal of every other, the contract of status handlers on this endpoint,
  and the allocation of audit numbers.
\<close>

section \<open>What a transition does\<close>

text \<open>The guards a transition declares, evaluated on a row.\<close>

definition engagement_passes :: "actor \<Rightarrow> db \<Rightarrow> engagement \<Rightarrow> transition_dto \<Rightarrow> string \<Rightarrow> bool" where
  "engagement_passes ac s e dto =
     passes (engagement_registry ac s) (sm_name engagement_workflow)
       \<lparr> gc_entity = e, gc_user = ac_user ac, gc_permissions = ac_permissions ac,
         gc_action = td_action dto, gc_comment = td_comment dto \<rparr>"

text \<open>The meaning of each guard.\<close>

lemma engagement_guards:
  "engagement_passes ac s e dto ''has_objectives_and_scope'' \<longleftrightarrow>
     \<not> is_blank (e_objectives e) \<and> \<not> is_blank (e_scope e)"
  "engagement_passes ac s e dto ''has_lead'' \<longleftrightarrow> e_lead e \<noteq> None"
  "engagement_passes ac s e dto ''programme_approved'' \<longleftrightarrow>
     (\<exists>p \<in> set (db_programs s). mine ac p \<and> pr_engagement p = r_id e \<and>
        pr_status p \<in> {program_status.APPROVED, program_status.IN_PROGRESS, program_status.COMPLETED})"
  "engagement_passes ac s e dto ''all_workpapers_prepared'' \<longleftrightarrow>
     (\<exists>w \<in> set (db_workpapers s). mine ac w \<and> live_workpaper_of (r_id e) w) \<and>
     (\<forall>w \<in> set (db_workpapers s). mine ac w \<and> live_workpaper_of (r_id e) w \<longrightarrow> w_status w \<noteq> workpaper_status.DRAFT)"
  "engagement_passes ac s e dto ''all_workpapers_signed_off'' \<longleftrightarrow>
     (\<exists>w \<in> set (db_workpapers s). mine ac w \<and> live_workpaper_of (r_id e) w) \<and>
     (\<forall>w \<in> set (db_workpapers s). mine ac w \<and> live_workpaper_of (r_id e) w \<longrightarrow> w_status w = workpaper_status.SIGNED_OFF)"
  "engagement_passes ac s e dto ''no_open_review_notes'' \<longleftrightarrow>
     (\<forall>n \<in> set (db_notes s). mine ac n \<and> note_on_engagement s (r_id e) n \<longrightarrow> n_status n = CLEARED)"
  "engagement_passes ac s e dto ''all_findings_agreed_or_accepted'' \<longleftrightarrow>
     (\<forall>f \<in> set (db_findings s). mine ac f \<and> live_finding_of (r_id e) f \<longrightarrow>
        f_status f \<notin> {finding_status.DRAFT, finding_status.MANAGEMENT_REVIEW})"
  "engagement_passes ac s e dto ''all_findings_owned_and_submitted'' \<longleftrightarrow>
     (\<forall>f \<in> set (db_findings s). mine ac f \<and> live_finding_of (r_id e) f \<longrightarrow>
        f_status f \<noteq> finding_status.DRAFT \<and>
        (f_owner f \<noteq> None \<or> \<not> is_blank (f_owner_name f) \<or> \<not> is_blank (f_owner_email f)))"
proof -
  note d = engagement_passes_def passes_def engagement_registry_def Let_def get_guard_register guard_ok_passes
  show "engagement_passes ac s e dto ''has_objectives_and_scope'' \<longleftrightarrow>
      \<not> is_blank (e_objectives e) \<and> \<not> is_blank (e_scope e)"
    "engagement_passes ac s e dto ''has_lead'' \<longleftrightarrow> e_lead e \<noteq> None"
    by (simp_all add: d)
  show "engagement_passes ac s e dto ''programme_approved'' \<longleftrightarrow>
     (\<exists>p \<in> set (db_programs s). mine ac p \<and> pr_engagement p = r_id e \<and>
        pr_status p \<in> {program_status.APPROVED, program_status.IN_PROGRESS, program_status.COMPLETED})"
    by (simp add: d table_simps del: neq0_conv)
  show "engagement_passes ac s e dto ''all_workpapers_prepared'' \<longleftrightarrow>
     (\<exists>w \<in> set (db_workpapers s). mine ac w \<and> live_workpaper_of (r_id e) w) \<and>
     (\<forall>w \<in> set (db_workpapers s). mine ac w \<and> live_workpaper_of (r_id e) w \<longrightarrow> w_status w \<noteq> workpaper_status.DRAFT)"
    by (auto simp: d table_simps)
  show "engagement_passes ac s e dto ''all_workpapers_signed_off'' \<longleftrightarrow>
     (\<exists>w \<in> set (db_workpapers s). mine ac w \<and> live_workpaper_of (r_id e) w) \<and>
     (\<forall>w \<in> set (db_workpapers s). mine ac w \<and> live_workpaper_of (r_id e) w \<longrightarrow> w_status w = workpaper_status.SIGNED_OFF)"
    by (auto simp: d table_simps)
  have c: "x \<noteq> review_note_status.OPEN \<and> x \<noteq> review_note_status.ADDRESSED \<longleftrightarrow> x = CLEARED" for x
    by (cases x) simp_all
  show "engagement_passes ac s e dto ''no_open_review_notes'' \<longleftrightarrow>
     (\<forall>n \<in> set (db_notes s). mine ac n \<and> note_on_engagement s (r_id e) n \<longrightarrow> n_status n = CLEARED)"
    by (auto simp: d table_simps open_notes_def c [symmetric])
  show "engagement_passes ac s e dto ''all_findings_agreed_or_accepted'' \<longleftrightarrow>
     (\<forall>f \<in> set (db_findings s). mine ac f \<and> live_finding_of (r_id e) f \<longrightarrow>
        f_status f \<notin> {finding_status.DRAFT, finding_status.MANAGEMENT_REVIEW})"
    by (auto simp: d table_simps)
  show "engagement_passes ac s e dto ''all_findings_owned_and_submitted'' \<longleftrightarrow>
     (\<forall>f \<in> set (db_findings s). mine ac f \<and> live_finding_of (r_id e) f \<longrightarrow>
        f_status f \<noteq> finding_status.DRAFT \<and>
        (f_owner f \<noteq> None \<or> \<not> is_blank (f_owner_name f) \<or> \<not> is_blank (f_owner_email f)))"
    by (auto simp: d table_simps filter_empty_conv simp del: is_blank.simps)
qed

text \<open>An accepted transition: the row it starts from and the transition taken.\<close>

definition engagement_accepted ::
  "actor \<Rightarrow> uuid \<Rightarrow> transition_dto \<Rightarrow> db \<Rightarrow> engagement \<Rightarrow> engagement_stage transition \<Rightarrow> bool" where
  "engagement_accepted ac i dto s e t \<longleftrightarrow>
     find_engagement ac i s = Some e \<and> engagement_scope ac s e \<and>
     find_transition engagement_workflow (e_stage e) (td_action dto) = Some t \<and>
     tr_permission t \<in> set (ac_permissions ac) \<and>
     list_all (engagement_passes ac s e dto) (coalesce (tr_guards t) [])"

definition engagement_transition_event ::
  "actor \<Rightarrow> env \<Rightarrow> uuid \<Rightarrow> transition_dto \<Rightarrow> engagement \<Rightarrow> engagement_stage transition \<Rightarrow> audit_input" where
  "engagement_transition_event ac env i dto e t =
     (let updated = engagement_effect (env_now env) t e in
      audit_of ''engagement.stage_changed'' ''Engagement'' i
        (Fields [(''stage'', JStr (stage_name (e_stage e))),
                 (''status'', JStr (engagement_status_name (e_status e)))])
        (Fields [(''stage'', JStr (stage_name (e_stage updated))),
                 (''status'', JStr (engagement_status_name (e_status updated)))])
        [(''action'', JStr (tr_action t)),
         (''comment'', case td_comment dto of None \<Rightarrow> JNull | Some c \<Rightarrow> JStr c)])"

lemma transition_engagement_cases:
  assumes "transition_engagement ac env i dto s = (r, s')"
  shows "(s' = s \<and> \<not> is_ok r) \<or>
    (\<exists>e t uids inp. find_engagement ac i s = Some e \<and>
       workflow_transition (engagement_registry ac s) stage_name engagement_workflow (e_stage e)
         (td_action dto) ac e (td_comment dto) None = Inr t \<and>
       (\<exists>e' \<in> set (db_engagements s). mine ac e' \<and> r_id e' = i \<and> engagement_scope ac s e') \<and>
       s' = notified_many ac env uids inp (audited ac env (engagement_transition_event ac env i dto e t)
              (apply_engagement_transition ac env e t (td_comment dto) s)))"
proof -
  have "snd (get_engagement ac i x) = x" for x using get_engagement_reads by (simp add: reads_def)
  then have g: "get_engagement ac i x = (y, z) \<Longrightarrow> z = x" for x y z by (metis snd_conv)
  show ?thesis
    using assms
    unfolding transition_engagement_def assert_engagement_def Let_def engagement_transition_event_def
    by (auto simp: run_h split: option.splits sum.splits if_splits prod.splits dest!: g)
qed

lemma passes_iff: "engagement_passes ac s e dto = passes (engagement_registry ac s) (sm_name engagement_workflow)
    \<lparr> gc_entity = e, gc_user = ac_user ac, gc_permissions = ac_permissions ac,
      gc_action = td_action dto, gc_comment = td_comment dto \<rparr>"
  by (simp add: engagement_passes_def fun_eq_iff)

lemma workflow_accepts_engagement:
  "workflow_transition (engagement_registry ac s) stage_name engagement_workflow (e_stage e)
      (td_action dto) ac e (td_comment dto) None = Inr t \<longleftrightarrow>
   find_transition engagement_workflow (e_stage e) (td_action dto) = Some t \<and>
   tr_permission t \<in> set (ac_permissions ac) \<and>
   list_all (engagement_passes ac s e dto) (coalesce (tr_guards t) [])"
  by (simp add: workflow_transition_ok_iff passes_iff guards_of_def)

lemma engagements_after_transition:
  "db_engagements (apply_engagement_transition ac env e t c s) =
     update_in ac (has_id (r_id e)) (\<lambda>_. engagement_effect (env_now env) t e) (db_engagements s)"
  by (simp add: apply_engagement_transition_def engagement_side_effects_def Let_def
      add_stage_change_def update_engagement_row_def split: option.split)

lemma stages_after_transition:
  "\<exists>i. db_stages (apply_engagement_transition ac env e t c s) =
     insert_row \<lparr> r_id = i, r_tenant = ac_tenant ac, r_created = env_now env, sc_engagement = r_id e,
       sc_from = Some (e_stage e), sc_to = tr_to t, sc_by = ac_user ac,
       sc_comment = Some (coalesce c (tr_label t)) \<rparr> (db_stages s)"
  by (auto simp: apply_engagement_transition_def engagement_side_effects_def Let_def
      add_stage_change_def update_engagement_row_def split: option.split)

lemma engagement_transition_run:
  assumes "transition_engagement ac env i dto s = (r, s')"
  shows "(s' = s \<and> \<not> is_ok r) \<or>
    (\<exists>e t. find_engagement ac i s = Some e \<and> r_tenant e = ac_tenant ac \<and>
       find_transition engagement_workflow (e_stage e) (td_action dto) = Some t \<and>
       tr_permission t \<in> set (ac_permissions ac) \<and>
       list_all (engagement_passes ac s e dto) (coalesce (tr_guards t) []) \<and>
       db_engagements s' = update_in ac (has_id i) (\<lambda>_. engagement_effect (env_now env) t e) (db_engagements s) \<and>
       e_stage (engagement_effect (env_now env) t e) = tr_to t \<and>
       (\<exists>row. db_stages s' = db_stages s @ [row] \<and> sc_engagement row = i \<and>
          sc_from row = Some (e_stage e) \<and> sc_to row = tr_to t \<and> sc_by row = ac_user ac))"
  using transition_engagement_cases [OF assms]
proof
  assume "\<exists>e t uids inp. find_engagement ac i s = Some e \<and>
       workflow_transition (engagement_registry ac s) stage_name engagement_workflow (e_stage e)
         (td_action dto) ac e (td_comment dto) None = Inr t \<and>
       (\<exists>e' \<in> set (db_engagements s). mine ac e' \<and> r_id e' = i \<and> engagement_scope ac s e') \<and>
       s' = notified_many ac env uids inp (audited ac env (engagement_transition_event ac env i dto e t)
              (apply_engagement_transition ac env e t (td_comment dto) s))"
  then obtain e t uids inp where e: "find_engagement ac i s = Some e"
    and t: "workflow_transition (engagement_registry ac s) stage_name engagement_workflow (e_stage e)
         (td_action dto) ac e (td_comment dto) None = Inr t"
    and s': "s' = notified_many ac env uids inp (audited ac env (engagement_transition_event ac env i dto e t)
              (apply_engagement_transition ac env e t (td_comment dto) s))"
    by blast
  have i: "r_id e = i" "r_tenant e = ac_tenant ac"
    using find_engagement_Some [OF e] by (simp_all add: mine_def)
  then show ?thesis
    using e t [unfolded workflow_accepts_engagement] s'
      stages_after_transition [of ac env e t "td_comment dto" s]
    by (auto simp: engagements_after_transition insert_row_def)
qed blast

lemma engagement_effect_status:
  assumes "find_transition engagement_workflow (e_stage e) a = Some t"
  shows "e_status (engagement_effect now t e) =
    (if a = ''close'' then engagement_status.COMPLETED else if a = ''cancel'' then engagement_status.CANCELLED
     else e_status e)"
  using find_transition_Some [OF assms] by (simp add: engagement_effect_def Let_def)

text \<open>
  C9. The transition endpoint of engagements either changes nothing and reports an error, or it
  has found a live engagement of the caller's tenant with that id, the action is a transition from
  its stage whose permission the caller holds and whose guards all pass; then exactly the rows
  with that id become the engagement with its new stage (and the dates and status of the action),
  and the stage history gets one row with the old and the new stage and the caller.
\<close>

theorem engagement_transition_outcome:
  assumes "transition_engagement ac env i dto s = (r, s')"
  shows "(s' = s \<and> \<not> is_ok r) \<or>
    (\<exists>e t. find_engagement ac i s = Some e \<and> r_tenant e = ac_tenant ac \<and>
       find_transition engagement_workflow (e_stage e) (td_action dto) = Some t \<and>
       tr_permission t \<in> set (ac_permissions ac) \<and>
       list_all (engagement_passes ac s e dto) (coalesce (tr_guards t) []) \<and>
       db_engagements s' = update_in ac (has_id i) (\<lambda>_. engagement_effect (env_now env) t e) (db_engagements s) \<and>
       e_stage (engagement_effect (env_now env) t e) = tr_to t \<and>
       e_status (engagement_effect (env_now env) t e) =
         (if td_action dto = ''close'' then engagement_status.COMPLETED
          else if td_action dto = ''cancel'' then engagement_status.CANCELLED else e_status e) \<and>
       (\<exists>row. db_stages s' = db_stages s @ [row] \<and> sc_engagement row = i \<and>
          sc_from row = Some (e_stage e) \<and> sc_to row = tr_to t \<and> sc_by row = ac_user ac))"
  using engagement_transition_run [OF assms]
proof (elim disjE exE conjE)
  fix e t row
  assume run: "find_engagement ac i s = Some e" "r_tenant e = ac_tenant ac"
    "find_transition engagement_workflow (e_stage e) (td_action dto) = Some t" "tr_permission t \<in> set (ac_permissions ac)"
    "list_all (engagement_passes ac s e dto) (coalesce (tr_guards t) [])"
    "db_engagements s' = update_in ac (has_id i) (\<lambda>_. engagement_effect (env_now env) t e) (db_engagements s)"
    "e_stage (engagement_effect (env_now env) t e) = tr_to t" "db_stages s' = db_stages s @ [row]"
    "sc_engagement row = i" "sc_from row = Some (e_stage e)" "sc_to row = tr_to t" "sc_by row = ac_user ac"
  then show ?thesis
    using engagement_effect_status [OF run(3), of "env_now env"]
    by (intro disjI2 exI [of _ e] exI [of _ t]) simp
qed blast

text \<open>The stage of an engagement, by primary key.\<close>

definition engagement_stage_of :: "uuid \<Rightarrow> db \<Rightarrow> engagement_stage option" where
  "engagement_stage_of i s = map_option e_stage (the_row i (db_engagements s))"

definition perform_engagement ::
  "actor \<Rightarrow> env \<Rightarrow> uuid \<Rightarrow> string \<Rightarrow> string option \<Rightarrow> db \<Rightarrow> db" where
  "perform_engagement ac env i a c s =
     snd (transition_engagement ac env i \<lparr> td_action = a, td_comment = c \<rparr> s)"

lemma perform_engagement_cases:
  obtains "perform_engagement ac env i a c s = s"
  | e t where "find_engagement ac i s = Some e"
    "find_transition engagement_workflow (e_stage e) a = Some t"
    "tr_permission t \<in> set (ac_permissions ac)"
    "list_all (engagement_passes ac s e \<lparr> td_action = a, td_comment = c \<rparr>) (coalesce (tr_guards t) [])"
    "db_engagements (perform_engagement ac env i a c s) =
       update_in ac (has_id i) (\<lambda>_. engagement_effect (env_now env) t e) (db_engagements s)"
proof -
  obtain r s' where run: "transition_engagement ac env i \<lparr> td_action = a, td_comment = c \<rparr> s = (r, s')"
    by (cases "transition_engagement ac env i \<lparr> td_action = a, td_comment = c \<rparr> s")
  then show thesis
    using that engagement_transition_run [OF run] unfolding perform_engagement_def by auto
qed

interpretation engagement_handler: row_endpoint engagement_workflow db_engagements e_stage perform_engagement
proof unfold_locales
  fix ac env i a c s
  show "db_engagements (perform_engagement ac env i a c s) = db_engagements s \<or>
     (\<exists>r t g. r \<in> set (db_engagements s) \<and> mine ac r \<and> r_id r = i \<and>
        find_transition engagement_workflow (e_stage r) a = Some t \<and> tr_permission t \<in> set (ac_permissions ac) \<and>
        db_engagements (perform_engagement ac env i a c s) = update_in ac (has_id i) g (db_engagements s) \<and>
        (\<forall>x. r_id x = i \<longrightarrow> r_id (g x) = i \<and> e_stage (g x) = tr_to t))"
  proof (cases rule: perform_engagement_cases [of ac env i a c s])
    case (2 e t)
    then show ?thesis using find_engagement_Some [OF 2(1)]
      by (intro disjI2 exI [of _ e] exI [of _ t] exI [of _ "\<lambda>_. engagement_effect (env_now env) t e"]) simp
  qed simp
qed

text \<open>
  Whatever transition requests reach the API, by whichever users and on whichever
  engagements, in any order, the stage of an engagement only moves along a run of the declared
  state machine; in particular a closed engagement stays closed, and one that has reached the
  report stage and started in planning went through every stage in between.
\<close>

theorem engagement_stage_follows_workflow:
  assumes "engagement_stage_of i s = Some from"
    and "engagement_stage_of i (engagement_handler.perform_all calls s) = Some st"
  shows "(\<exists>acts. sm_run engagement_workflow from acts = Some st) \<and>
    (from = engagement_stage.CLOSED \<longrightarrow> st = engagement_stage.CLOSED)"
proof -
  obtain acts where run: "sm_run engagement_workflow from acts = Some st"
    using engagement_handler.status_run [folded engagement_stage_of_def, OF assms] by blast
  moreover have "engagement_stage.CLOSED \<in> set (sm_terminal engagement_workflow)"
    by (simp add: engagement_workflow_def)
  ultimately show ?thesis using engagement_machine.terminal_run by blast
qed


text \<open>An engagement in fieldwork whose only workpaper is prepared is submitted for review.\<close>

definition ex_fieldwork :: db where
  "ex_fieldwork = ex_db\<lparr> db_engagements := [ex_engagement\<lparr> e_stage := engagement_stage.FIELDWORK \<rparr>],
     db_workpapers := [ex_workpaper\<lparr> w_status := workpaper_status.PREPARED \<rparr>] \<rparr>"

definition ex_submit :: transition_dto where
  "ex_submit = \<lparr> td_action = ''submit_for_review'', td_comment = None \<rparr>"

definition ex_manager :: actor where
  "ex_manager = ex_actor 2 [AUDIT_MANAGER] [''engagement:advance_stage'']"

lemma ex_manager_not_portal [simp]: "\<not> is_portal_scoped ex_manager" "ac_tenant ex_manager = 1"
  "ac_user ex_manager = 2" "ac_permissions ex_manager = [''engagement:advance_stage'']"
  by (simp_all add: is_portal_scoped_def ex_manager_def ex_actor_def audit_function_roles_def)

lemma ex_fieldwork_tables [simp]:
  "db_engagements ex_fieldwork = [ex_engagement\<lparr> e_stage := engagement_stage.FIELDWORK \<rparr>]"
  "db_workpapers ex_fieldwork = [ex_workpaper\<lparr> w_status := workpaper_status.PREPARED \<rparr>]"
  "db_members ex_fieldwork = []" "db_stakeholders ex_fieldwork = []" "db_stages ex_fieldwork = []"
  "db_next ex_fieldwork = 100" "db_entities ex_fieldwork = []" "db_items ex_fieldwork = []"
  "db_notes ex_fieldwork = []" "db_findings ex_fieldwork = [ex_finding]" "db_programs ex_fieldwork = []"
  by (simp_all add: ex_fieldwork_def)

lemma ex_find_engagement: "find_engagement ex_manager 10 ex_fieldwork =
    Some (ex_engagement\<lparr> e_stage := engagement_stage.FIELDWORK \<rparr>)"
  by (simp add: find_engagement_def has_id_def ex_engagement_def)

definition ex_submit_transition :: "engagement_stage transition" where
  "ex_submit_transition =
     \<lparr> tr_from = engagement_stage.FIELDWORK, tr_to = engagement_stage.REVIEW,
       tr_action = ''submit_for_review'', tr_label = ''Submit for review'',
       tr_permission = ''engagement:advance_stage'', tr_guards = Some [''all_workpapers_prepared''] \<rparr>"

lemma ex_submit_accepted:
  "find_transition engagement_workflow engagement_stage.FIELDWORK ''submit_for_review'' =
     Some ex_submit_transition"
  by (simp add: find_transition_def engagement_workflow_def ex_submit_transition_def)

lemma ex_engagement_scope: "engagement_scope ex_manager s e"
  by (simp add: engagement_scope_def)

lemma ex_submit_run:
  "\<exists>v s'. transition_engagement ex_manager ex_env 10 ex_submit ex_fieldwork = (Inr v, s')"
proof -
  have ok: "workflow_transition (engagement_registry ex_manager ex_fieldwork) stage_name engagement_workflow
      (e_stage (ex_engagement\<lparr> e_stage := engagement_stage.FIELDWORK \<rparr>)) ''submit_for_review'' ex_manager
      (ex_engagement\<lparr> e_stage := engagement_stage.FIELDWORK \<rparr>) None None = Inr ex_submit_transition"
    using workflow_accepts_engagement [of ex_manager ex_fieldwork
        "ex_engagement\<lparr> e_stage := engagement_stage.FIELDWORK \<rparr>" ex_submit]
    by (simp add: ex_submit_def ex_submit_accepted ex_submit_transition_def engagement_guards(4)
        live_workpaper_of_def mine_def ex_workpaper_def ex_engagement_def)
  have get: "\<exists>v. get_engagement ex_manager 10 s = (Inr v, s)"
    if e: "find_engagement ex_manager 10 s = Some e" "e_stage e = engagement_stage.REVIEW" for s e
  proof -
    have "\<exists>rs. workflow_available (engagement_registry ex_manager s) engagement_workflow
        engagement_stage.REVIEW ex_manager e (\<lambda>_. []) = Inr rs"
      by (simp add: workflow_available_def engagement_workflow_def guards_of_def engagement_registry_def
          Let_def get_guard_register guard_ok_def guard_failed_def)
    moreover have "e \<in> set (db_engagements s) \<and> mine ex_manager e \<and> r_id e = 10 \<and> e_deleted_at e = None"
      using find_engagement_Some [OF e(1)] .
    ultimately show ?thesis
      using e by (auto simp: get_engagement_def run_h ex_engagement_scope)
  qed
  let ?x = "engagement_effect (env_now ex_env) ex_submit_transition
      (ex_engagement\<lparr> e_stage := engagement_stage.FIELDWORK \<rparr>)"
  have fin: "find_engagement ex_manager 10 s = Some ?x"
    if "db_engagements s = db_engagements (apply_engagement_transition ex_manager ex_env
      (ex_engagement\<lparr> e_stage := engagement_stage.FIELDWORK \<rparr>) ex_submit_transition None ex_fieldwork)" for s
    using that by (simp add: find_engagement_def engagements_after_transition has_id_def ex_engagement_def
        engagement_effect_def ex_submit_transition_def mine_def)
  have st: "e_stage ?x = engagement_stage.REVIEW" by (simp add: ex_submit_transition_def)
  have final: "(\<exists>v s'. get_engagement ex_manager 10 s = (Inr v, s')) = True"
    if "db_engagements s = db_engagements (apply_engagement_transition ex_manager ex_env
      (ex_engagement\<lparr> e_stage := engagement_stage.FIELDWORK \<rparr>) ex_submit_transition None ex_fieldwork)" for s
    using get [OF fin [OF that] st] by blast
  have found: "\<exists>e \<in> set (db_engagements ex_fieldwork). mine ex_manager e \<and> r_id e = 10 \<and> e_deleted_at e = None \<and>
      engagement_scope ex_manager ex_fieldwork e"
    using find_engagement_Some [OF ex_find_engagement] ex_engagement_scope by blast
  show ?thesis
    unfolding transition_engagement_def assert_engagement_def Let_def
    by (simp only: run_h found ex_find_engagement if_True prod.case sum.case option.case ex_submit_def
        transition_dto.simps ok final audited_tables notified_many_tables)
qed

lemma ex_submit_result:
  assumes "transition_engagement ex_manager ex_env 10 ex_submit ex_fieldwork = (Inr v, s')"
  shows "engagement_stage_of 10 s' = Some engagement_stage.REVIEW"
proof -
  let ?e = "ex_engagement\<lparr> e_stage := engagement_stage.FIELDWORK \<rparr>"
  have "db_engagements s' =
      update_in ex_manager (has_id 10) (\<lambda>_. engagement_effect (env_now ex_env) ex_submit_transition ?e) [?e]"
    using engagement_transition_run [OF assms] ex_find_engagement
    by (auto simp: ex_submit_def ex_submit_accepted)
  then show ?thesis
    by (simp add: engagement_stage_of_def ex_engagement_def mine_def has_id_def the_row_def
        engagement_effect_def ex_submit_transition_def)
qed

lemma engagement_transition_outcome_witness:
  "\<exists>r s'. transition_engagement ex_manager ex_env 10 ex_submit ex_fieldwork = (r, s') \<and> is_ok r \<and>
     (\<exists>row. db_stages s' = [row] \<and> sc_engagement row = 10)"
proof -
  obtain v s' where run: "transition_engagement ex_manager ex_env 10 ex_submit ex_fieldwork = (Inr v, s')"
    using ex_submit_run by blast
  then show ?thesis using engagement_transition_outcome [OF run] by auto
qed

lemma engagement_stage_follows_workflow_witness:
  "\<exists>acts. sm_run engagement_workflow engagement_stage.FIELDWORK acts = Some engagement_stage.REVIEW"
proof -
  obtain v s' where run: "transition_engagement ex_manager ex_env 10 ex_submit ex_fieldwork = (Inr v, s')"
    using ex_submit_run by blast
  have start: "engagement_stage_of 10 ex_fieldwork = Some engagement_stage.FIELDWORK"
    by (simp add: engagement_stage_of_def ex_engagement_def the_row_def has_id_def)
  have arrived: "engagement_stage_of 10 (engagement_handler.perform_all
      [(ex_manager, ex_env, 10, ''submit_for_review'', None)] ex_fieldwork) = Some engagement_stage.REVIEW"
    using ex_submit_result [OF run] run by (simp add: perform_engagement_def ex_submit_def)
  show ?thesis using engagement_stage_follows_workflow [OF start arrived] by blast
qed


section \<open>Creation\<close>

lemma add_member_row_tables [simp]:
  "db_engagements (fold (add_member_row ac env e) ms s) = db_engagements s"
  "db_stages (fold (add_member_row ac env e) ms s) = db_stages s"
  "db_items (fold (add_member_row ac env e) ms s) = db_items s"
  by (induction ms arbitrary: s) (simp_all add: add_member_row_def)

lemma insert_engagement_tables:
  "db_engagements (insert_engagement ac env dto item e s) = db_engagements s @ [e]"
  "db_stages (insert_engagement ac env dto item e s) =
     db_stages s @ [\<lparr> r_id = db_next s + 1, r_tenant = ac_tenant ac, r_created = env_now env,
       sc_engagement = r_id e, sc_from = None, sc_to = engagement_stage.PLANNING, sc_by = ac_user ac,
       sc_comment = Some ''Engagement created'' \<rparr>]"
  by (simp_all add: insert_engagement_def Let_def add_stage_change_def insert_row_def split: option.split)

lemma create_numbered_failure:
  "create_numbered ac env dto item number s = (Inl e, s') \<Longrightarrow> s' = s"
  by (auto simp: create_numbered_def run_h split: if_splits)

text \<open>The members that the creation adds, in order.\<close>

lemma new_members:
  "map (\<lambda>m. (m_user m, m_role m)) (db_members (fold (add_member_row ac env e) ms s)) =
     map (\<lambda>m. (m_user m, m_role m)) (db_members s) @ ms"
  by (induction ms arbitrary: s) (simp_all add: add_member_row_def insert_row_def member_row_def)

lemma inserted_members:
  "map (\<lambda>m. (m_user m, m_role m)) (db_members (insert_engagement ac env dto item e s)) =
     map (\<lambda>m. (m_user m, m_role m)) (db_members s) @ initial_team dto"
  by (simp add: insert_engagement_def Let_def new_members add_stage_change_def split: option.split)

lemma initial_team_distinct: "distinct (map fst (initial_team dto))"
  by (auto simp: initial_team_def split: option.splits)

text \<open>
  A created engagement belongs to the caller's tenant, starts active in the planning stage,
  has a fresh id and the audit number that follows the highest one of its year, which no other
  engagement of the tenant has; it is the only engagement added, its stage history starts with
  planning, and its team is the lead, manager and partner named, nobody twice.
\<close>

theorem create_engagement_outcome:
  assumes "create_engagement ac env dto item s = (Inr e, s')"
  shows "db_engagements s' = db_engagements s @ [e] \<and> r_tenant e = ac_tenant ac \<and> r_id e = db_next s \<and>
    e_stage e = engagement_stage.PLANNING \<and> e_status e = engagement_status.ACTIVE \<and>
    (let year = get_utc_full_year (coalesce (ce_planned_start dto) (env_now env)) in
       next_audit_number year (latest_audit_number ac year s) = Inr (e_number e)) \<and>
    e_number e \<notin> e_number ` {q \<in> set (db_engagements s). r_tenant q = ac_tenant ac} \<and>
    sc_to (last (db_stages s')) = engagement_stage.PLANNING \<and> sc_engagement (last (db_stages s')) = r_id e \<and>
    map (\<lambda>m. (m_user m, m_role m)) (db_members s') =
      map (\<lambda>m. (m_user m, m_role m)) (db_members s) @ initial_team dto \<and>
    distinct (map fst (initial_team dto))"
proof -
  let ?year = "get_utc_full_year (coalesce (ce_planned_start dto) (env_now env))"
  obtain t where al: "allocate_h (latest_audit_number ac ?year) (next_audit_number ?year)
      (create_numbered ac env dto item) 5 s = (Inr (Some e), t)"
    and s': "db_engagements s' = db_engagements t" "db_stages s' = db_stages t" "db_members s' = db_members t"
    using assms unfolding create_engagement_def Let_def
    by (auto simp: ok_h split: option.splits)
  obtain r where r: "next_audit_number ?year (latest_audit_number ac ?year s) = Inr r"
    and c: "create_numbered ac env dto item r s = (Inr e, t)"
    using allocate_ok_same [OF al] create_numbered_failure by blast
  have e: "e = new_engagement ac env dto r s" and t: "t = insert_engagement ac env dto item e s"
    and new: "count_in ac (\<lambda>e. e_number e = r) (db_engagements s) = 0"
    using c by (auto simp: create_numbered_def ok_h)
  show ?thesis
    using r new s' initial_team_distinct
    by (auto simp: t insert_engagement_tables inserted_members e new_engagement_def Let_def table_simps mine_def)
qed

definition ex_new_engagement :: create_engagement_dto where
  "ex_new_engagement =
     \<lparr> ce_title = ''Payroll'', ce_type = engagement_type.OPERATIONAL, ce_entity = None, ce_objectives = None,
       ce_scope = None, ce_out_of_scope = None, ce_background = None, ce_period_start = None,
       ce_period_end = None, ce_planned_start = None, ce_planned_end = None, ce_budget_hours = None,
       ce_budget_amount = None, ce_lead = Some 2, ce_manager = Some 2, ce_partner = Some 3,
       ce_rating = None \<rparr>"

lemma ex_year: "get_utc_full_year (env_now ex_env) = 2026"
  unfolding ex_env_def env.simps by code_simp

lemma ex_first_number: "next_audit_number 2026 None = Inr ''IA-2026-001''"
  by code_simp

lemma create_engagement_outcome_witness:
  "\<exists>e s'. create_engagement ex_manager ex_env ex_new_engagement None empty_db = (Inr e, s') \<and>
     e_number e = ''IA-2026-001'' \<and> map m_user (db_members s') = [2, 3]"
proof -
  let ?e = "new_engagement ex_manager ex_env ex_new_engagement ''IA-2026-001'' empty_db"
  have l: "latest_audit_number ex_manager 2026 empty_db = None"
    by (simp add: latest_audit_number_def many_in_def find_many_def highest_def empty_db_def)
  have n: "create_numbered ex_manager ex_env ex_new_engagement None ''IA-2026-001'' empty_db =
      (Inr ?e, insert_engagement ex_manager ex_env ex_new_engagement None ?e empty_db)"
    by (simp add: create_numbered_def run_h count_in_def count_rows_def empty_db_def)
  have al: "allocate_h (latest_audit_number ex_manager 2026) (next_audit_number 2026)
      (create_numbered ex_manager ex_env ex_new_engagement None) 5 empty_db =
      (Inr (Some ?e), insert_engagement ex_manager ex_env ex_new_engagement None ?e empty_db)"
    using allocate_first [where r = "''IA-2026-001''" and latest = "latest_audit_number ex_manager 2026"
        and ?next = "next_audit_number 2026" and n = 4
        and create = "create_numbered ex_manager ex_env ex_new_engagement None" and s = empty_db]
    by (simp add: l ex_first_number n)
  have y: "get_utc_full_year (coalesce (ce_planned_start ex_new_engagement) (env_now ex_env)) = 2026"
    "ce_entity ex_new_engagement = None"
    by (simp_all add: ex_year ex_new_engagement_def)
  obtain s' where run: "create_engagement ex_manager ex_env ex_new_engagement None empty_db = (Inr ?e, s')"
    by (simp add: create_engagement_def run_h y al)
  have m: "map (\<lambda>m. (m_user m, m_role m)) (db_members s') =
      [(2, engagement_role.LEAD), (3, engagement_role.PARTNER)]"
    using create_engagement_outcome [OF run]
    by (simp add: Let_def empty_db_def ex_new_engagement_def initial_team_def)
  have "map m_user (db_members s') = map fst (map (\<lambda>m. (m_user m, m_role m)) (db_members s'))"
    by simp
  also have "\<dots> = [2, 3]" unfolding m by simp
  finally show ?thesis using run by (auto simp: new_engagement_def)
qed

end
