(* ===== verification/Findings.thy ===== *)
theory Findings
  imports Engagements Ageing
begin

text \<open>
  \<open>findings/findings.service.ts\<close>: findings, their life cycle, due-date extensions, recommendations
  and ageing. The evidence linked to a finding is kept on the evidence rows (the relation table
  of the many-to-many relation); linked evidence belongs to the tenant of the finding.
\<close>

fun finding_status_name :: "finding_status \<Rightarrow> string" where
  "finding_status_name finding_status.DRAFT = ''DRAFT''"
| "finding_status_name finding_status.MANAGEMENT_REVIEW = ''MANAGEMENT_REVIEW''"
| "finding_status_name finding_status.AGREED = ''AGREED''"
| "finding_status_name finding_status.IMPLEMENTATION = ''IMPLEMENTATION''"
| "finding_status_name finding_status.VALIDATION = ''VALIDATION''"
| "finding_status_name finding_status.CLOSED = ''CLOSED''"
| "finding_status_name finding_status.RISK_ACCEPTED = ''RISK_ACCEPTED''"

definition open_statuses :: "finding_status list" where
  "open_statuses = [finding_status.DRAFT, finding_status.MANAGEMENT_REVIEW, finding_status.AGREED,
     finding_status.IMPLEMENTATION, finding_status.VALIDATION]"

definition actionable_statuses :: "finding_status list" where
  "actionable_statuses = [finding_status.AGREED, finding_status.IMPLEMENTATION, finding_status.VALIDATION]"

definition validator_guard :: string where
  "validator_guard = ''validator_is_not_action_owner''"

section \<open>Queries\<close>

record finding_query =
  fq_page :: page_query
  fq_engagement :: "uuid option"
  fq_entity :: "uuid option"
  fq_status :: "finding_status option"
  fq_severity :: "severity option"
  fq_owner :: "uuid option"
  fq_overdue :: bool
  fq_mine :: bool
  fq_repeat :: "bool option"
  fq_text :: "string option"

text \<open>
  \<open>mine\<close> replaces the filter on the action owner: by id, or also by email when it is known.
  \<open>overdue\<close> without a status restricts the status to the actionable ones.
\<close>

definition build_findings_where :: "finding_query \<Rightarrow> uuid \<Rightarrow> string option \<Rightarrow> time \<Rightarrow> finding \<Rightarrow> bool" where
  "build_findings_where q me email now f \<longleftrightarrow>
     f_deleted_at f = None \<and> opt_eq (fq_engagement q) (f_engagement f) \<and>
     opt_eq (map_option Some (fq_entity q)) (f_entity f) \<and>
     opt_eq (fq_status q) (f_status f) \<and> opt_eq (fq_severity q) (f_severity f) \<and>
     opt_eq (fq_repeat q) (f_is_repeat f) \<and>
     (if fq_mine q then
        f_owner f = Some me \<or>
        (case (email, f_owner_email f) of
           (Some m, Some c) \<Rightarrow> m \<noteq> [] \<and> to_lower c = to_lower m | _ \<Rightarrow> False)
      else opt_eq (map_option Some (fq_owner q)) (f_owner f)) \<and>
     (fq_overdue q \<longrightarrow>
        (case f_due f of None \<Rightarrow> False | Some d \<Rightarrow> d < now) \<and>
        (fq_status q = None \<longrightarrow> f_status f \<in> set actionable_statuses)) \<and>
     opt_contains (fq_text q) [f_title f, f_reference f, f_condition f]"

record aged_finding =
  af_finding :: finding
  af_bucket :: age_bucket
  af_days :: int
  af_overdue :: bool

definition with_ageing :: "finding \<Rightarrow> time \<Rightarrow> aged_finding" where
  "with_ageing f now =
     (let active = (f_status f \<in> set actionable_statuses) in
      \<lparr> af_finding = f,
        af_bucket = (if active then ageing_bucket (f_due f) now else NOT_DUE),
        af_days = (if active then days_overdue (f_due f) now else 0),
        af_overdue = (active \<and> days_overdue (f_due f) now > 0) \<rparr>)"

section \<open>Guards\<close>

definition is_truthy_or_named :: "finding \<Rightarrow> bool" where
  "is_truthy_or_named f \<longleftrightarrow>
     f_owner f \<noteq> None \<or> \<not> is_blank (f_owner_name f) \<or> \<not> is_blank (f_owner_email f)"

definition finding_registry :: "actor \<Rightarrow> db \<Rightarrow> finding guard_registry" where
  "finding_registry ac s =
     (let m = sm_name finding_workflow in
      register_guard m ''has_condition_criteria'' (\<lambda>gc.
        guard_ok (\<not> is_blank (Some (f_condition (gc_entity gc))) \<and> \<not> is_blank (Some (f_criteria (gc_entity gc))))
          ''Condition and criteria must be documented'')
     (register_guard m ''has_recommendation'' (\<lambda>gc.
        if \<not> is_blank (f_recommendation (gc_entity gc)) then Inl True
        else guard_ok (count_in ac (\<lambda>r. rc_finding r = r_id (gc_entity gc)) (db_recommendations s) > 0)
               ''At least one recommendation is required'')
     (register_guard m ''has_management_response'' (\<lambda>gc.
        guard_ok (\<not> is_blank (f_response (gc_entity gc))) ''A management response is required'')
     (register_guard m ''has_action_owner_and_due_date'' (\<lambda>gc.
        let has_owner = is_truthy_or_named (gc_entity gc);
            has_due = (f_due (gc_entity gc) \<noteq> None)
        in guard_ok (has_owner \<and> has_due)
             (if \<not> has_owner \<and> \<not> has_due then ''An action owner and a due date are required''
              else if \<not> has_owner then
                ''An action owner is required. Select a platform user or enter an external owner.''
              else if \<not> has_due then ''A due date is required. The recorded action owner is already sufficient.'' else ''Action owner and due date are recorded.''))
     (register_guard m ''has_implementation_evidence'' (\<lambda>gc.
        let i = r_id (gc_entity gc);
            evidence = count_in ac (\<lambda>v. i \<in> set (ev_findings v)) (db_evidence s);
            documents = count_in ac (\<lambda>d. d_owner_type d = Some ''Finding'' \<and> d_owner d = Some i \<and>
                          d_deleted_at d = None \<and> d_uploaded_at d \<noteq> None) (db_documents s);
            implemented = count_in ac (\<lambda>r. rc_finding r = i \<and>
                          rc_status r \<in> {recommendation_status.IMPLEMENTED, recommendation_status.VALIDATED})
                          (db_recommendations s)
        in guard_ok (evidence + documents + implemented > 0)
             ''Attach implementation evidence (document or evidence record) before requesting validation'')
     (register_guard m validator_guard (\<lambda>gc.
        guard_ok (f_owner (gc_entity gc) = None \<or> f_owner (gc_entity gc) \<noteq> Some (gc_user gc))
          ''The action owner cannot validate their own finding'')
      empty_registry))))))"

definition extra_guards_for :: "string \<Rightarrow> string list" where
  "extra_guards_for action =
     (if action = ''validate_and_close'' \<or> action = ''reject_validation'' then [validator_guard] else [])"

section \<open>Reading\<close>

definition find_finding :: "actor \<Rightarrow> uuid \<Rightarrow> db \<Rightarrow> finding option" where
  "find_finding ac i s = first_in ac (\<lambda>f. has_id i f \<and> f_deleted_at f = None) (db_findings s)"

definition assert_finding :: "actor \<Rightarrow> uuid \<Rightarrow> finding op" where
  "assert_finding ac i =
     then_h (assert_finding_access ac i)
       (demand_h (find_finding ac i) (NotFound ''Finding not found''))"

record finding_view =
  fv_finding :: aged_finding
  fv_recommendations :: "recommendation list"
  fv_history :: "finding_change list"
  fv_evidence :: "evidence list"
  fv_documents :: "document list"
  fv_actions :: "finding_status available_action list"

definition finding_documents :: "actor \<Rightarrow> uuid \<Rightarrow> db \<Rightarrow> document list" where
  "finding_documents ac i s =
     many_in ac (\<lambda>d. d_owner_type d = Some ''Finding'' \<and> d_owner d = Some i \<and> d_deleted_at d = None \<and>
       (has_permission ac ''document:restricted'' \<or> d_classification d \<noteq> RESTRICTED) \<and>
       document_scope ac s d) (db_documents s)"

definition get_finding :: "actor \<Rightarrow> env \<Rightarrow> uuid \<Rightarrow> finding_view op" where
  "get_finding ac env i =
     bind_h (assert_finding ac i) (\<lambda>f.
     bind_h (gets_h (\<lambda>s. workflow_available (finding_registry ac s) finding_workflow (f_status f) ac f
               (\<lambda>t. extra_guards_for (tr_action t))))
      (\<lambda>r. bind_h (lift_h r) (\<lambda>actions.
     gets_h (\<lambda>s.
       \<lparr> fv_finding = with_ageing f (env_now env),
         fv_recommendations = filter (\<lambda>r. rc_finding r = i) (db_recommendations s),
         fv_history = rev (filter (\<lambda>c. fc_finding c = i) (db_changes s)),
         fv_evidence = filter (\<lambda>v. i \<in> set (ev_findings v)) (db_evidence s),
         fv_documents = finding_documents ac i s,
         fv_actions = actions \<rparr>))))"

definition list_findings ::
  "actor \<Rightarrow> env \<Rightarrow> (finding list \<Rightarrow> finding list) \<Rightarrow> finding_query \<Rightarrow> (aged_finding \<times> nat \<times> nat) page op" where
  "list_findings ac env order q = gets_h (\<lambda>s.
     let rows = order (many_in ac (\<lambda>f. build_findings_where q (ac_user ac) (ac_email ac) (env_now env) f \<and>
                         finding_scope ac s f) (db_findings s));
         pg = paginate (fq_page q) rows
     in \<lparr> pg_items = map (\<lambda>f. (with_ageing f (env_now env),
             length (filter (\<lambda>r. rc_finding r = r_id f) (db_recommendations s)),
             length (filter (\<lambda>v. r_id f \<in> set (ev_findings v)) (db_evidence s)))) (pg_items pg),
          pg_total = pg_total pg, pg_page = pg_page pg, pg_size = pg_size pg \<rparr>)"

section \<open>Creation\<close>

record create_finding_dto =
  cf_engagement :: uuid
  cf_title :: string
  cf_severity :: severity
  cf_condition :: string
  cf_criteria :: string
  cf_cause :: "string option"
  cf_impact :: "string option"
  cf_recommendation :: "string option"
  cf_workpaper :: "uuid option"
  cf_risk :: "uuid option"
  cf_control :: "uuid option"
  cf_process :: "uuid option"
  cf_entity :: "uuid field"
  cf_root_cause :: "root_cause option"
  cf_category :: "string option"
  cf_repeat_of :: "uuid option"
  cf_owner :: "uuid option"
  cf_owner_name :: "string option"
  cf_owner_email :: "string option"
  cf_due :: "time option"

definition assert_action_owner :: "actor \<Rightarrow> uuid \<Rightarrow> unit op" where
  "assert_action_owner ac i = check_state_h (\<lambda>s.
     first_in ac (\<lambda>u. has_id i u \<and> u_status u = user_status.ACTIVE \<and> u_deleted_at u = None) (db_users s) \<noteq> None)
     (BadRequest ''Action owner must be an active user in this organisation.'')"

text \<open>\<open>if (x) await check(x)\<close>\<close>

definition check_given :: "'a option \<Rightarrow> ('a \<Rightarrow> unit op) \<Rightarrow> unit op" where
  "check_given v m = (case v of None \<Rightarrow> return_h () | Some x \<Rightarrow> m x)"

definition new_finding ::
  "actor \<Rightarrow> env \<Rightarrow> create_finding_dto \<Rightarrow> engagement \<Rightarrow> string \<Rightarrow> db \<Rightarrow> finding" where
  "new_finding ac env dto e ref s =
     \<lparr> r_id = db_next s, r_tenant = ac_tenant ac, r_created = env_now env,
       f_engagement = cf_engagement dto, f_workpaper = cf_workpaper dto,
       f_entity = (case cf_entity dto of Undefined \<Rightarrow> e_entity e | Null \<Rightarrow> None | Value v \<Rightarrow> Some v),
       f_process = cf_process dto, f_risk = cf_risk dto, f_control = cf_control dto, f_reference = ref,
       f_title = cf_title dto, f_severity = cf_severity dto, f_status = finding_status.DRAFT,
       f_condition = cf_condition dto, f_criteria = cf_criteria dto, f_cause = cf_cause dto,
       f_impact = cf_impact dto, f_recommendation = cf_recommendation dto, f_response = None,
       f_root_cause = cf_root_cause dto, f_category = cf_category dto, f_owner = cf_owner dto,
       f_owner_name = cf_owner_name dto, f_owner_email = cf_owner_email dto, f_due = cf_due dto,
       f_original_due = None, f_extensions = 0, f_agreed_at = None, f_implemented_at = None,
       f_validated_by = None, f_validated_at = None, f_closed_at = None,
       f_is_repeat = (cf_repeat_of dto \<noteq> None), f_repeat_of = cf_repeat_of dto,
       f_raised_by = ac_user ac, f_reminders = 0, f_last_reminder = None, f_escalation = 0,
       f_deleted_at = None \<rparr>"

definition add_status_change ::
  "actor \<Rightarrow> env \<Rightarrow> uuid \<Rightarrow> finding_status option \<Rightarrow> finding_status \<Rightarrow> string option \<Rightarrow> db \<Rightarrow> db" where
  "add_status_change ac env i from to comment s =
     s\<lparr> db_changes := insert_row
          \<lparr> r_id = db_next s, r_tenant = ac_tenant ac, r_created = env_now env, fc_finding = i,
            fc_from = from, fc_to = to, fc_by = ac_user ac, fc_comment = comment \<rparr> (db_changes s),
        db_next := db_next s + 1 \<rparr>"

definition insert_finding :: "actor \<Rightarrow> env \<Rightarrow> finding \<Rightarrow> db \<Rightarrow> db" where
  "insert_finding ac env f s =
     add_status_change ac env (r_id f) None finding_status.DRAFT (Some ''Finding raised'')
       (s\<lparr> db_findings := insert_row f (db_findings s), db_next := db_next s + 1 \<rparr>)"

definition latest_finding_reference :: "actor \<Rightarrow> uuid \<Rightarrow> db \<Rightarrow> string option" where
  "latest_finding_reference ac e s =
     highest (map f_reference (many_in ac (\<lambda>f. f_engagement f = e \<and> starts_with ''F-'' (f_reference f))
       (db_findings s)))"

text \<open>The constraint \<open>@@unique([engagementId, reference])\<close> holds across the whole table.\<close>

definition create_referenced ::
  "actor \<Rightarrow> env \<Rightarrow> create_finding_dto \<Rightarrow> engagement \<Rightarrow> string \<Rightarrow> finding op" where
  "create_referenced ac env dto e ref =
     then_h (check_state_h (\<lambda>s. count_rows (\<lambda>f. f_engagement f = cf_engagement dto \<and> f_reference f = ref)
               (db_findings s) = 0) UniqueViolation)
       (create_h (new_finding ac env dto e ref) (insert_finding ac env))"

text \<open>What the request is checked for before a reference is allocated.\<close>

definition check_new_finding :: "actor \<Rightarrow> create_finding_dto \<Rightarrow> engagement op" where
  "check_new_finding ac dto =
     bind_h (demand_h (find_engagement ac (cf_engagement dto)) (NotFound ''Engagement not found'')) (\<lambda>e.
     then_h (check_h (e_stage e \<noteq> engagement_stage.CLOSED)
               (Conflict ''Closed engagements cannot receive new findings''))
    (then_h (check_given (cf_owner dto) (assert_action_owner ac))
    (then_h (check_given (cf_workpaper dto) (\<lambda>w. check_state_h (\<lambda>s.
               first_in ac (\<lambda>p. has_id w p \<and> w_engagement p = cf_engagement dto \<and> w_deleted_at p = None)
                 (db_workpapers s) \<noteq> None) (BadRequest ''Workpaper not found on this engagement'')))
    (then_h (check_given (cf_repeat_of dto) (\<lambda>r. check_state_h (\<lambda>s. find_finding ac r s \<noteq> None)
               (BadRequest ''repeatOfId does not reference a finding in this tenant'')))
     (return_h e)))))"

definition create_finding :: "actor \<Rightarrow> env \<Rightarrow> create_finding_dto \<Rightarrow> finding op" where
  "create_finding ac env dto =
     bind_h (check_new_finding ac dto) (\<lambda>e.
     bind_h (allocate_h (latest_finding_reference ac (cf_engagement dto))
               (\<lambda>latest. Inr (next_finding_reference latest)) (create_referenced ac env dto e) 5) (\<lambda>created.
     case created of
       None \<Rightarrow> throw_h (Conflict ''Could not allocate a finding reference'')
     | Some f \<Rightarrow>
         then_h (audit_record ac env (audit_of ''finding.created'' ''Finding'' (r_id f) No_Snapshot
                   (Finding_Row f) []))
           (demand_h (\<lambda>s. first_in ac (has_id (r_id f)) (db_findings s)) RecordRequired)))"

section \<open>Update\<close>

record update_finding_dto =
  uf_engagement :: "uuid option"
  uf_title :: "string option"
  uf_severity :: "severity option"
  uf_condition :: "string option"
  uf_criteria :: "string option"
  uf_cause :: "string field"
  uf_impact :: "string field"
  uf_recommendation :: "string field"
  uf_workpaper :: "uuid field"
  uf_risk :: "uuid field"
  uf_control :: "uuid field"
  uf_process :: "uuid field"
  uf_entity :: "uuid field"
  uf_root_cause :: "root_cause field"
  uf_category :: "string field"
  uf_repeat_of :: "uuid field"
  uf_owner :: "uuid field"
  uf_owner_name :: "string field"
  uf_owner_email :: "string field"
  uf_due :: "time field"
  uf_response :: "string field"
  uf_evidence :: "uuid list option"

definition business_owner_fields :: "string list" where
  "business_owner_fields = [''managementResponse'', ''actionOwnerId'', ''actionOwnerName'',
     ''actionOwnerEmail'', ''dueDate'']"

text \<open>\<open>Object.keys(compact(dto))\<close>: the properties that are not \<open>undefined\<close>, in the order of the DTO.\<close>

definition given_fields :: "(string \<times> bool) list \<Rightarrow> string list" where
  "given_fields kvs = map fst (filter snd kvs)"

definition finding_fields :: "update_finding_dto \<Rightarrow> string list" where
  "finding_fields dto = given_fields
     [(''engagementId'', uf_engagement dto \<noteq> None), (''title'', uf_title dto \<noteq> None),
      (''severity'', uf_severity dto \<noteq> None), (''condition'', uf_condition dto \<noteq> None),
      (''criteria'', uf_criteria dto \<noteq> None), (''cause'', supplied (uf_cause dto)),
      (''impact'', supplied (uf_impact dto)), (''recommendation'', supplied (uf_recommendation dto)),
      (''workpaperId'', supplied (uf_workpaper dto)), (''riskId'', supplied (uf_risk dto)),
      (''controlId'', supplied (uf_control dto)), (''processId'', supplied (uf_process dto)),
      (''entityId'', supplied (uf_entity dto)), (''rootCauseCategory'', supplied (uf_root_cause dto)),
      (''category'', supplied (uf_category dto)), (''repeatOfId'', supplied (uf_repeat_of dto)),
      (''actionOwnerId'', supplied (uf_owner dto)), (''actionOwnerName'', supplied (uf_owner_name dto)),
      (''actionOwnerEmail'', supplied (uf_owner_email dto)), (''dueDate'', supplied (uf_due dto)),
      (''managementResponse'', supplied (uf_response dto)), (''evidenceIds'', uf_evidence dto \<noteq> None)]"

definition patch_finding :: "update_finding_dto \<Rightarrow> finding \<Rightarrow> finding" where
  "patch_finding dto f =
     f\<lparr> f_title := patch (uf_title dto) (f_title f), f_severity := patch (uf_severity dto) (f_severity f),
        f_condition := patch (uf_condition dto) (f_condition f),
        f_criteria := patch (uf_criteria dto) (f_criteria f),
        f_cause := patch_nullable (uf_cause dto) (f_cause f),
        f_impact := patch_nullable (uf_impact dto) (f_impact f),
        f_recommendation := patch_nullable (uf_recommendation dto) (f_recommendation f),
        f_response := patch_nullable (uf_response dto) (f_response f),
        f_workpaper := patch_nullable (uf_workpaper dto) (f_workpaper f),
        f_risk := patch_nullable (uf_risk dto) (f_risk f),
        f_control := patch_nullable (uf_control dto) (f_control f),
        f_process := patch_nullable (uf_process dto) (f_process f),
        f_entity := patch_nullable (uf_entity dto) (f_entity f),
        f_root_cause := patch_nullable (uf_root_cause dto) (f_root_cause f),
        f_category := patch_nullable (uf_category dto) (f_category f),
        f_repeat_of := patch_nullable (uf_repeat_of dto) (f_repeat_of f),
        f_is_repeat := (if supplied (uf_repeat_of dto) then or_null (uf_repeat_of dto) \<noteq> None else f_is_repeat f),
        f_owner := patch_nullable (uf_owner dto) (f_owner f),
        f_owner_name := patch_nullable (uf_owner_name dto) (f_owner_name f),
        f_owner_email := patch_nullable (uf_owner_email dto) (f_owner_email f),
        f_due := patch_nullable (uf_due dto) (f_due f) \<rparr>"

definition update_finding_row :: "actor \<Rightarrow> uuid \<Rightarrow> (finding \<Rightarrow> finding) \<Rightarrow> db \<Rightarrow> db" where
  "update_finding_row ac i g s = s\<lparr> db_findings := update_in ac (has_id i) g (db_findings s) \<rparr>"

text \<open>\<open>evidence: { set: ids }\<close>\<close>

definition set_evidence :: "actor \<Rightarrow> uuid \<Rightarrow> uuid list \<Rightarrow> db \<Rightarrow> db" where
  "set_evidence ac i ids s =
     s\<lparr> db_evidence := update_in ac (\<lambda>_. True) (\<lambda>v. v\<lparr> ev_findings :=
          (if r_id v \<in> set ids then (if i \<in> set (ev_findings v) then ev_findings v else ev_findings v @ [i])
           else filter (\<lambda>f. f \<noteq> i) (ev_findings v)) \<rparr>) (db_evidence s) \<rparr>"

definition check_business_owner :: "actor \<Rightarrow> update_finding_dto \<Rightarrow> finding \<Rightarrow> unit op" where
  "check_business_owner ac dto before =
     when_h (\<not> has_permission ac ''finding:manage'')
       (then_h (check_h (has_permission ac ''finding:respond'') (Forbidden ''Missing permission: finding:manage''))
       (then_h (check_h (list_all (\<lambda>k. k \<in> set business_owner_fields) (finding_fields dto))
                  (Forbidden (''Business owners may only edit: '' @ join_with '', '' business_owner_fields)))
         (check_h (f_status before \<in> {finding_status.MANAGEMENT_REVIEW, finding_status.AGREED,
                                     finding_status.IMPLEMENTATION})
            (Conflict ''Management response can only be edited while the finding is under review or being implemented''))))"

definition check_finding_open :: "finding \<Rightarrow> string \<Rightarrow> unit op" where
  "check_finding_open f msg =
     check_h (f_status f \<noteq> finding_status.CLOSED \<and> f_status f \<noteq> finding_status.RISK_ACCEPTED) (Conflict msg)"

definition check_evidence :: "actor \<Rightarrow> uuid list \<Rightarrow> uuid \<Rightarrow> unit op" where
  "check_evidence ac ids e = check_state_h (\<lambda>s.
     count_in ac (\<lambda>v. r_id v \<in> set ids \<and> ev_engagement v = e) (db_evidence s) = card (set ids))
     (BadRequest ''One or more evidence records were not found on this engagement'')"

definition update_finding :: "actor \<Rightarrow> env \<Rightarrow> uuid \<Rightarrow> update_finding_dto \<Rightarrow> aged_finding op" where
  "update_finding ac env i dto =
     bind_h (assert_finding ac i) (\<lambda>before.
     then_h (check_business_owner ac dto before)
    (then_h (check_finding_open before ''Closed findings cannot be edited'')
    (then_h (check_given (or_null (uf_owner dto)) (assert_action_owner ac))
    (then_h (check_given (uf_evidence dto) (\<lambda>ids. check_evidence ac ids (f_engagement before)))
    (let after = patch_finding dto before in
     then_h (modify_h (update_finding_row ac i (patch_finding dto)))
    (then_h (check_given (uf_evidence dto) (\<lambda>ids. modify_h (set_evidence ac i ids)))
    (then_h (audit_record ac env (audit_of ''finding.updated'' ''Finding'' i (Finding_Row before)
               (Finding_Row after) [(''fields'', JArr (map JStr (finding_fields dto)))]))
    (then_h (case or_null (uf_owner dto) of
               None \<Rightarrow> return_h ()
             | Some u \<Rightarrow> when_h (Some u \<noteq> f_owner before \<and> u \<noteq> ac_user ac)
                 (notify ac env (Some u)
                   \<lparr> ni_type = ''finding.assigned'',
                     ni_title = ''You are the action owner for '' @ f_reference after @ '' '' @ f_title after,
                     ni_body = None, ni_link = Some (''/findings/'' @ show_nat i),
                     ni_payload = JObj [(''findingId'', JId i)] \<rparr>))
     (return_h (with_ageing after (env_now env)))))))))))"

section \<open>Transitions\<close>

text \<open>The \<open>switch\<close> over the action: the row, and the open recommendations of the finding.\<close>

definition finding_effect :: "uuid \<Rightarrow> time \<Rightarrow> finding_status transition \<Rightarrow> finding \<Rightarrow> finding" where
  "finding_effect user now t f =
     (let f' = f\<lparr> f_status := tr_to t \<rparr>; a = tr_action t in
      if a = ''agree'' then
        f'\<lparr> f_agreed_at := Some now,
            f_original_due := (if f_original_due f = None then f_due f else f_original_due f) \<rparr>
      else if a = ''request_validation'' then f'\<lparr> f_implemented_at := Some now \<rparr>
      else if a = ''validate_and_close'' then
        f'\<lparr> f_validated_by := Some user, f_validated_at := Some now, f_closed_at := Some now \<rparr>
      else if a = ''accept_risk'' then f'\<lparr> f_closed_at := Some now \<rparr>
      else if a = ''return_to_draft'' then f'\<lparr> f_agreed_at := None \<rparr>
      else f')"

definition recommendation_effect :: "time \<Rightarrow> string \<Rightarrow> recommendation \<Rightarrow> recommendation" where
  "recommendation_effect now a r =
     (if a = ''agree'' then r\<lparr> rc_status := recommendation_status.AGREED \<rparr>
      else if a = ''start_implementation'' then r\<lparr> rc_status := recommendation_status.IN_PROGRESS \<rparr>
      else if a = ''validate_and_close'' then
        r\<lparr> rc_status := recommendation_status.VALIDATED, rc_progress := 100, rc_completed_at := Some now \<rparr>
      else if a = ''accept_risk'' then r\<lparr> rc_status := recommendation_status.NOT_IMPLEMENTED \<rparr>
      else r)"

definition open_recommendation_of :: "uuid \<Rightarrow> recommendation \<Rightarrow> bool" where
  "open_recommendation_of i r \<longleftrightarrow> rc_finding r = i \<and>
     rc_status r \<notin> {recommendation_status.SUPERSEDED, recommendation_status.VALIDATED}"

definition update_recommendations :: "actor \<Rightarrow> (recommendation \<Rightarrow> bool) \<Rightarrow> (recommendation \<Rightarrow> recommendation) \<Rightarrow> db \<Rightarrow> db" where
  "update_recommendations ac P g s = s\<lparr> db_recommendations := update_in ac P g (db_recommendations s) \<rparr>"

definition apply_finding_transition ::
  "actor \<Rightarrow> env \<Rightarrow> finding \<Rightarrow> finding_status transition \<Rightarrow> string option \<Rightarrow> db \<Rightarrow> db" where
  "apply_finding_transition ac env f t comment s =
     update_recommendations ac (open_recommendation_of (r_id f)) (recommendation_effect (env_now env) (tr_action t))
       (add_status_change ac env (r_id f) (Some (f_status f)) (tr_to t) (Some (coalesce comment (tr_label t)))
         (update_finding_row ac (r_id f) (finding_effect (ac_user ac) (env_now env) t) s))"

text \<open>The raiser and the action owner, for two actions also the lead and the manager.\<close>

definition finding_recipients :: "actor \<Rightarrow> finding \<Rightarrow> string \<Rightarrow> db \<Rightarrow> uuid option list" where
  "finding_recipients ac f a s =
     filter (\<lambda>u. u \<noteq> Some (ac_user ac))
       ([Some (f_raised_by f), f_owner f] @
        (if a = ''submit'' \<or> a = ''request_validation'' then
           (case first_in ac (has_id (f_engagement f)) (db_engagements s) of
              None \<Rightarrow> [] | Some e \<Rightarrow> [e_lead e, e_manager e])
         else []))"

definition transition_finding :: "actor \<Rightarrow> env \<Rightarrow> uuid \<Rightarrow> transition_dto \<Rightarrow> finding_view op" where
  "transition_finding ac env i dto =
     bind_h (assert_finding ac i) (\<lambda>f.
     bind_h (gets_h (\<lambda>s. workflow_transition (finding_registry ac s) finding_status_name finding_workflow
               (f_status f) (td_action dto) ac f (td_comment dto) (Some (extra_guards_for (td_action dto))))) (\<lambda>r.
     bind_h (lift_h r) (\<lambda>t.
     let updated = finding_effect (ac_user ac) (env_now env) t f in
     then_h (transaction_h (modify_h (apply_finding_transition ac env f t (td_comment dto))))
    (then_h (audit_record ac env (audit_of ''finding.status_changed'' ''Finding'' i
               (Fields [(''status'', JStr (finding_status_name (f_status f)))])
               (Fields [(''status'', JStr (finding_status_name (f_status updated)))])
               [(''action'', JStr (tr_action t)),
                (''comment'', case td_comment dto of None \<Rightarrow> JNull | Some c \<Rightarrow> JStr c)]))
    (bind_h (gets_h (finding_recipients ac f (tr_action t))) (\<lambda>recipients.
     then_h (notify_many ac env recipients
               \<lparr> ni_type = ''finding.status_changed'',
                 ni_title = f_reference updated @ '' '' @ f_title updated @ '': '' @ to_lower (tr_label t),
                 ni_body = td_comment dto, ni_link = Some (''/findings/'' @ show_nat i),
                 ni_payload = JObj [(''findingId'', JId i), (''action'', JStr (tr_action t)),
                   (''from'', JStr (finding_status_name (f_status f))),
                   (''to'', JStr (finding_status_name (tr_to t)))] \<rparr>)
     (get_finding ac env i)))))))"

section \<open>Extension\<close>

record extend_finding_dto =
  xf_due :: time
  xf_reason :: string

text \<open>\<open>toISOString().slice(0, 10)\<close>, for the years 0 to 9999.\<close>

definition iso_date :: "time \<Rightarrow> string" where
  "iso_date t = pad (nat (get_utc_full_year t)) 4 @ ''-'' @ pad (nat (get_utc_month t + 1)) 2 @ ''-'' @
     pad (nat (get_utc_date t)) 2"

definition extended :: "extend_finding_dto \<Rightarrow> finding \<Rightarrow> finding" where
  "extended dto f =
     f\<lparr> f_due := Some (xf_due dto), f_original_due := coalesce_opt (f_original_due f) (f_due f),
        f_extensions := f_extensions f + 1, f_escalation := 0 \<rparr>"

definition extension_fields :: "finding \<Rightarrow> snapshot" where
  "extension_fields f = Fields
     [(''dueDate'', case f_due f of None \<Rightarrow> JNull | Some d \<Rightarrow> JNum (of_int d)),
      (''extensionCount'', JNum (of_nat (f_extensions f)))]"

definition extend_finding :: "actor \<Rightarrow> env \<Rightarrow> uuid \<Rightarrow> extend_finding_dto \<Rightarrow> aged_finding op" where
  "extend_finding ac env i dto =
     bind_h (assert_finding ac i) (\<lambda>before.
     then_h (check_h (f_status before \<in> set actionable_statuses)
               (Conflict ''Only agreed findings that are being implemented can be extended''))
    (then_h (check_h (case f_due before of None \<Rightarrow> True | Some d \<Rightarrow> d < xf_due dto)
               (BadRequest ''The new due date must be later than the current one''))
    (let after = extended dto before in
     then_h (modify_h (update_finding_row ac i (extended dto)))
    (then_h (audit_record ac env (audit_of ''finding.extended'' ''Finding'' i (extension_fields before)
               (extension_fields after) [(''reason'', JStr (xf_reason dto))]))
    (then_h (notify_many ac env
               (filter (\<lambda>u. u \<noteq> Some (ac_user ac)) [Some (f_raised_by before), f_owner before])
               \<lparr> ni_type = ''finding.extended'',
                 ni_title = f_reference after @ '' due date extended to '' @ iso_date (xf_due dto) @
                            '' (extension #'' @ show_nat (f_extensions after) @ '')'',
                 ni_body = Some (xf_reason dto), ni_link = Some (''/findings/'' @ show_nat i),
                 ni_payload = JObj [(''findingId'', JId i)] \<rparr>)
     (return_h (with_ageing after (env_now env))))))))"

section \<open>Recommendations\<close>

record create_recommendation_dto =
  cr_text :: string
  cr_priority :: "task_priority option"
  cr_owner :: "uuid option"
  cr_owner_name :: "string option"
  cr_due :: "time option"
  cr_action_plan :: "string option"

text \<open>\<open>(max._max.sequence ?? 0) + 1\<close>\<close>

definition next_sequence :: "actor \<Rightarrow> uuid \<Rightarrow> db \<Rightarrow> int" where
  "next_sequence ac i s =
     (case map rc_sequence (many_in ac (\<lambda>r. rc_finding r = i) (db_recommendations s)) of
        [] \<Rightarrow> 0 | x # xs \<Rightarrow> fold max xs x) + 1"

definition new_recommendation ::
  "actor \<Rightarrow> env \<Rightarrow> finding \<Rightarrow> create_recommendation_dto \<Rightarrow> db \<Rightarrow> recommendation" where
  "new_recommendation ac env f dto s =
     \<lparr> r_id = db_next s, r_tenant = ac_tenant ac, r_created = env_now env, rc_finding = r_id f,
       rc_sequence = next_sequence ac (r_id f) s, rc_text = cr_text dto,
       rc_priority = coalesce (cr_priority dto) task_priority.MEDIUM, rc_owner = cr_owner dto,
       rc_owner_name = cr_owner_name dto, rc_due = cr_due dto,
       rc_status = (if f_status f = finding_status.DRAFT \<or> f_status f = finding_status.MANAGEMENT_REVIEW
                    then recommendation_status.PROPOSED else recommendation_status.AGREED),
       rc_action_plan = cr_action_plan dto, rc_progress_note = None, rc_progress = 0,
       rc_completed_at = None \<rparr>"

definition insert_recommendation :: "recommendation \<Rightarrow> db \<Rightarrow> db" where
  "insert_recommendation r s =
     s\<lparr> db_recommendations := insert_row r (db_recommendations s), db_next := db_next s + 1 \<rparr>"

definition add_recommendation ::
  "actor \<Rightarrow> env \<Rightarrow> uuid \<Rightarrow> create_recommendation_dto \<Rightarrow> recommendation op" where
  "add_recommendation ac env i dto =
     bind_h (assert_finding ac i) (\<lambda>f.
     then_h (check_finding_open f ''Closed findings cannot receive recommendations'')
    (bind_h (create_h (new_recommendation ac env f dto) insert_recommendation) (\<lambda>r.
     then_h (audit_record ac env (audit_of ''recommendation.created'' ''Recommendation'' (r_id r) No_Snapshot
               (Recommendation_Row r) [(''findingId'', JId i)]))
      (return_h r))))"

record update_recommendation_dto =
  ur_text :: "string option"
  ur_priority :: "task_priority option"
  ur_owner :: "uuid field"
  ur_owner_name :: "string field"
  ur_due :: "time field"
  ur_action_plan :: "string field"
  ur_status :: "recommendation_status option"
  ur_progress_note :: "string field"
  ur_progress :: "int option"

definition recommendation_fields :: "update_recommendation_dto \<Rightarrow> string list" where
  "recommendation_fields dto = given_fields
     [(''text'', ur_text dto \<noteq> None), (''priority'', ur_priority dto \<noteq> None),
      (''ownerId'', supplied (ur_owner dto)), (''ownerName'', supplied (ur_owner_name dto)),
      (''dueDate'', supplied (ur_due dto)), (''actionPlan'', supplied (ur_action_plan dto)),
      (''status'', ur_status dto \<noteq> None), (''progressNote'', supplied (ur_progress_note dto)),
      (''progressPct'', ur_progress dto \<noteq> None)]"

definition owner_editable :: "string list" where
  "owner_editable = [''actionPlan'', ''progressNote'', ''progressPct'', ''status'', ''ownerId'',
     ''ownerName'', ''dueDate'']"

definition done_status :: "recommendation_status option \<Rightarrow> bool" where
  "done_status st \<longleftrightarrow>
     st = Some recommendation_status.IMPLEMENTED \<or> st = Some recommendation_status.VALIDATED"

definition patch_recommendation :: "time \<Rightarrow> update_recommendation_dto \<Rightarrow> recommendation \<Rightarrow> recommendation" where
  "patch_recommendation now dto r =
     r\<lparr> rc_text := patch (ur_text dto) (rc_text r), rc_priority := patch (ur_priority dto) (rc_priority r),
        rc_owner := patch_nullable (ur_owner dto) (rc_owner r),
        rc_owner_name := patch_nullable (ur_owner_name dto) (rc_owner_name r),
        rc_due := patch_nullable (ur_due dto) (rc_due r),
        rc_action_plan := patch_nullable (ur_action_plan dto) (rc_action_plan r),
        rc_status := patch (ur_status dto) (rc_status r),
        rc_progress_note := patch_nullable (ur_progress_note dto) (rc_progress_note r),
        rc_progress := (if done_status (ur_status dto) then 100 else patch (ur_progress dto) (rc_progress r)),
        rc_completed_at := (if done_status (ur_status dto) then Some (coalesce (rc_completed_at r) now)
                            else rc_completed_at r) \<rparr>"

definition check_recommendation_editor ::
  "actor \<Rightarrow> update_recommendation_dto \<Rightarrow> recommendation \<Rightarrow> finding \<Rightarrow> unit op" where
  "check_recommendation_editor ac dto r f =
     when_h (\<not> has_permission ac ''finding:manage'')
       (then_h (check_h (rc_owner r = Some (ac_user ac) \<or> f_owner f = Some (ac_user ac) \<or>
                         has_permission ac ''finding:respond'')
                  (Forbidden ''You cannot edit this recommendation''))
       (then_h (check_h (list_all (\<lambda>k. k \<in> set owner_editable) (recommendation_fields dto))
                  (Forbidden (''Business owners may only edit: '' @ join_with '', '' owner_editable)))
         (check_h (case ur_status dto of None \<Rightarrow> True
                     | Some st \<Rightarrow> st \<in> {recommendation_status.IN_PROGRESS, recommendation_status.IMPLEMENTED})
            (Forbidden ''Business owners can only mark recommendations IN_PROGRESS or IMPLEMENTED''))))"

text \<open>The joined finding is read by its key, without the tenant filter; it is checked right after.\<close>

definition update_recommendation ::
  "actor \<Rightarrow> env \<Rightarrow> uuid \<Rightarrow> update_recommendation_dto \<Rightarrow> recommendation op" where
  "update_recommendation ac env i dto =
     bind_h (demand_h (\<lambda>s. first_in ac (has_id i) (db_recommendations s))
               (NotFound ''Recommendation not found'')) (\<lambda>before.
     bind_h (demand_h (\<lambda>s. find_first (has_id (rc_finding before)) (db_findings s)) RecordRequired) (\<lambda>f.
     then_h (assert_finding_access ac (r_id f))
    (then_h (check_recommendation_editor ac dto before f)
    (let after = patch_recommendation (env_now env) dto before in
     then_h (modify_h (update_recommendations ac (has_id i) (patch_recommendation (env_now env) dto)))
    (then_h (audit_record ac env (audit_of ''recommendation.updated'' ''Recommendation'' i
               (Recommendation_Row before) (Recommendation_Row after) []))
    (then_h (when_h (ur_status dto = Some recommendation_status.IMPLEMENTED \<and> f_raised_by f \<noteq> ac_user ac)
               (notify ac env (Some (f_raised_by f))
                 \<lparr> ni_type = ''recommendation.implemented'',
                   ni_title = ''Recommendation '' @ show_nat (nat (rc_sequence before)) @ '' on '' @
                              f_reference f @ '' marked implemented'',
                   ni_body = or_null (ur_progress_note dto),
                   ni_link = Some (''/findings/'' @ show_nat (r_id f)),
                   ni_payload = JObj [(''findingId'', JId (r_id f)), (''recommendationId'', JId i)] \<rparr>))
     (return_h after)))))))"

section \<open>Ageing\<close>

definition age_buckets :: "age_bucket list" where
  "age_buckets = [NOT_DUE, Days_1_30, Days_31_60, Days_61_90, Days_91_180, Days_180_plus]"

record ageing_report =
  ag_buckets :: "(age_bucket \<times> nat) list"
  ag_by_severity :: "(severity \<times> nat \<times> nat) list"
  ag_by_status :: "(finding_status \<times> nat) list"
  ag_overdue :: nat
  ag_open :: nat

text \<open>The loop over the actionable findings.\<close>

fun ageing_loop ::
  "time \<Rightarrow> finding list \<Rightarrow> (age_bucket \<Rightarrow> nat) \<times> (severity \<Rightarrow> nat) \<times> nat \<Rightarrow>
   (age_bucket \<Rightarrow> nat) \<times> (severity \<Rightarrow> nat) \<times> nat" where
  "ageing_loop now [] acc = acc"
| "ageing_loop now (f # fs) (buckets, late, n) =
     (let b = ageing_bucket (f_due f) now;
          buckets' = buckets(b := buckets b + 1)
      in if b \<noteq> NOT_DUE
         then ageing_loop now fs (buckets', late(f_severity f := late (f_severity f) + 1), n + 1)
         else ageing_loop now fs (buckets', late, n))"

text \<open>\<open>groupBy\<close> reports the groups that occur, here in the order of the enumeration.\<close>

definition group_by :: "'k list \<Rightarrow> ('r \<Rightarrow> 'k) \<Rightarrow> 'r list \<Rightarrow> ('k \<times> nat) list" where
  "group_by ks key rows =
     filter (\<lambda>p. snd p > 0) (map (\<lambda>k. (k, length (filter (\<lambda>r. key r = k) rows))) ks)"

definition ageing :: "actor \<Rightarrow> env \<Rightarrow> uuid option \<Rightarrow> uuid option \<Rightarrow> ageing_report op" where
  "ageing ac env eng ent = gets_h (\<lambda>s.
     let base = many_in ac (\<lambda>f. f_deleted_at f = None \<and> opt_eq eng (f_engagement f) \<and>
                  opt_eq (map_option Some ent) (f_entity f) \<and> finding_scope ac s f) (db_findings s);
         opn = filter (\<lambda>f. f_status f \<in> set actionable_statuses) base
     in (case ageing_loop (env_now env) opn ((\<lambda>_. 0), (\<lambda>_. 0), 0) of
           (buckets, late, n) \<Rightarrow>
             \<lparr> ag_buckets = map (\<lambda>b. (b, buckets b)) age_buckets,
               ag_by_severity = map (\<lambda>(sv, k). (sv, k, late sv))
                 (group_by severities f_severity (filter (\<lambda>f. f_status f \<in> set open_statuses) base)),
               ag_by_status = group_by finding_statuses f_status base,
               ag_overdue = n, ag_open = length opn \<rparr>))"

section \<open>Confinement\<close>

lemma assert_finding_reads [intro]: "reads (assert_finding ac i)"
  unfolding assert_finding_def by (intro reads_intros assert_access_reads)

lemma get_finding_reads [intro]: "reads (get_finding ac env i)"
  unfolding get_finding_def by (intro reads_intros assert_finding_reads)

lemma list_findings_reads: "reads (list_findings ac env order q)"
  unfolding list_findings_def by (rule reads_gets)

lemma ageing_reads: "reads (ageing ac env eng ent)"
  unfolding ageing_def by (rule reads_gets)

lemma assert_action_owner_reads [intro]: "reads (assert_action_owner ac i)"
  unfolding assert_action_owner_def by (rule reads_check_state)

lemma check_given_reads: "(\<And>x. reads (m x)) \<Longrightarrow> reads (check_given v m)"
  unfolding check_given_def by (intro reads_intros)

lemma check_new_finding_reads [intro]: "reads (check_new_finding ac dto)"
  unfolding check_new_finding_def
  by (intro reads_intros check_given_reads assert_action_owner_reads)

lemma check_given_confined:
  "(\<And>x. keeps (confined tn) (m x)) \<Longrightarrow> keeps (confined tn) (check_given v m)"
  unfolding check_given_def by (intro confined_intros)

lemma check_finding_reads [intro]:
  "reads (check_business_owner ac dto f)" "reads (check_finding_open f msg)" "reads (check_evidence ac ids e)"
  "reads (check_recommendation_editor ac udto r f)"
  unfolding check_business_owner_def check_finding_open_def check_evidence_def check_recommendation_editor_def
  by (intro reads_intros)+

lemmas finding_confined = engagement_confined check_given_confined
  confinement.keeps_reads [OF assert_finding_reads] confinement.keeps_reads [OF get_finding_reads]
  confinement.keeps_reads [OF assert_action_owner_reads]
  confinement.keeps_reads [OF check_new_finding_reads] confinement.keeps_reads [OF check_finding_reads(1)] confinement.keeps_reads [OF check_finding_reads(2)]
  confinement.keeps_reads [OF check_finding_reads(3)] confinement.keeps_reads [OF check_finding_reads(4)]

lemma create_finding_confined: "keeps (confined (ac_tenant ac)) (create_finding ac env dto)"
  unfolding create_finding_def create_referenced_def
  by (intro confined_intros finding_confined confinement.keeps_allocate keeps_confined_create)
     (simp_all add: confined_writes insert_finding_def add_status_change_def new_finding_def)

lemma finding_effect_row [simp]:
  "r_id (finding_effect u now t f) = r_id f" "r_tenant (finding_effect u now t f) = r_tenant f"
  "f_status (finding_effect u now t f) = tr_to t" "f_deleted_at (finding_effect u now t f) = f_deleted_at f"
  "f_engagement (finding_effect u now t f) = f_engagement f" "f_reference (finding_effect u now t f) = f_reference f"
  by (simp_all add: finding_effect_def Let_def)

lemma recommendation_effect_row [simp]:
  "r_id (recommendation_effect now a r) = r_id r" "r_tenant (recommendation_effect now a r) = r_tenant r"
  by (simp_all add: recommendation_effect_def)

lemma update_finding_row_confined:
  assumes "\<And>f. r_tenant (g f) = r_tenant f"
  shows "same_outside (ac_tenant ac) s (update_finding_row ac i g s)" "audit_grows s (update_finding_row ac i g s)"
  using assms by (simp_all add: update_finding_row_def confined_writes)

lemma update_recommendations_confined:
  assumes "\<And>r. r_tenant (g r) = r_tenant r"
  shows "same_outside (ac_tenant ac) s (update_recommendations ac P g s)"
    "audit_grows s (update_recommendations ac P g s)"
  using assms by (simp_all add: update_recommendations_def confined_writes)

lemma set_evidence_confined:
  "same_outside (ac_tenant ac) s (set_evidence ac i ids s)" "audit_grows s (set_evidence ac i ids s)"
  by (simp_all add: set_evidence_def confined_writes)

lemma apply_finding_transition_confined:
  "same_outside (ac_tenant ac) s (apply_finding_transition ac env f t c s)"
  "audit_grows s (apply_finding_transition ac env f t c s)"
  by (simp_all add: apply_finding_transition_def add_status_change_def update_finding_row_def
      update_recommendations_def confined_writes)

lemma update_finding_confined: "keeps (confined (ac_tenant ac)) (update_finding ac env i dto)"
  unfolding update_finding_def
  by (intro confined_steps finding_confined set_evidence_confined update_finding_row_confined)
     (simp_all add: patch_finding_def)

lemma transition_finding_confined: "keeps (confined (ac_tenant ac)) (transition_finding ac env i dto)"
  unfolding transition_finding_def
  by (intro confined_steps finding_confined apply_finding_transition_confined)

lemma extend_finding_confined: "keeps (confined (ac_tenant ac)) (extend_finding ac env i dto)"
  unfolding extend_finding_def
  by (intro confined_steps finding_confined update_finding_row_confined) (simp_all add: extended_def)

lemma recommendations_confined:
  "keeps (confined (ac_tenant ac)) (add_recommendation ac env i cdto)"
  "keeps (confined (ac_tenant ac)) (update_recommendation ac env i udto)"
  unfolding add_recommendation_def update_recommendation_def
  by (intro confined_steps finding_confined access_confined update_recommendations_confined;
      simp add: patch_recommendation_def insert_recommendation_def new_recommendation_def confined_writes)+

end
