(* ===== verification/Numbering.thy ===== *)
theory Numbering
  imports Engagements
begin

text \<open>
  References that are numbered within an engagement (findings, document requests). The contract of
  such a series is that the successor of a reference is computed from the highest one in string
  order; from it follow the next number of a series without gaps, and the end of the series at
  its hundredth record.
\<close>

text \<open>The records of engagement \<open>e\<close> are those of its tenant and are numbered 1 to \<open>n\<close>.\<close>

definition numbered_rows ::
  "('r row_scheme \<Rightarrow> uuid) \<Rightarrow> ('r row_scheme \<Rightarrow> string) \<Rightarrow> string \<Rightarrow> actor \<Rightarrow> uuid \<Rightarrow> nat \<Rightarrow>
   'r row_scheme list \<Rightarrow> bool" where
  "numbered_rows parent ref prefix ac e n rows \<longleftrightarrow>
     (\<forall>r \<in> set rows. parent r = e \<longrightarrow> mine ac r) \<and>
     set (map ref (many_in ac (\<lambda>r. parent r = e \<and> starts_with prefix (ref r)) rows)) =
       set (references_to prefix n)"

lemma starts_with_append [simp]: "starts_with p (p @ x)"
  by (simp add: starts_with_def)

lemma references_to_Suc: "set (references_to p (Suc n)) = insert (p @ pad (Suc n) 2) (set (references_to p n))"
  unfolding references_to_def by simp

locale reference_series =
  fixes rows :: "db \<Rightarrow> 'r row_scheme list"
    and parent :: "'r row_scheme \<Rightarrow> uuid"
    and ref :: "'r row_scheme \<Rightarrow> string"
    and prefix :: string
    and successor :: "string option \<Rightarrow> string"
    and latest :: "actor \<Rightarrow> uuid \<Rightarrow> db \<Rightarrow> string option"
  assumes latest_highest:
    "latest ac e s = highest (map ref (many_in ac (\<lambda>r. parent r = e \<and> starts_with prefix (ref r)) (rows s)))"
    and successor_first: "successor None = prefix @ pad 1 2"
    and successor_next: "successor (Some (prefix @ pad n 2)) = prefix @ pad (n + 1) 2"
begin

lemma next_after_latest:
  assumes "numbered_rows parent ref prefix ac e n (rows s)" "n < 100"
  shows "successor (latest ac e s) = prefix @ pad (n + 1) 2"
proof (cases n)
  case 0
  have "set (map ref (many_in ac (\<lambda>r. parent r = e \<and> starts_with prefix (ref r)) (rows s))) = {}"
    using assms(1) 0 by (simp add: numbered_rows_def references_to_def)
  then have "latest ac e s = None" unfolding latest_highest highest_None_iff set_empty .
  then show ?thesis by (simp add: successor_first 0)
next
  case (Suc k)
  have "latest ac e s = Some (prefix @ pad n 2)"
    unfolding latest_highest using assms Suc by (intro highest_below_100) (simp_all add: numbered_rows_def)
  then show ?thesis by (simp only: successor_next)
qed

lemma next_after_hundredth:
  assumes "numbered_rows parent ref prefix ac e 100 (rows s)"
  shows "successor (latest ac e s) = prefix @ pad 100 2"
proof -
  have "latest ac e s = Some (prefix @ pad 99 2)"
    unfolding latest_highest using assms by (intro highest_at_100) (simp add: numbered_rows_def)
  then show ?thesis using successor_next [of 99] by simp
qed

lemma taken_iff:
  assumes "numbered_rows parent ref prefix ac e n (rows s)"
  shows "(\<exists>r \<in> set (rows s). parent r = e \<and> ref r = prefix @ pad k 2) \<longleftrightarrow> 1 \<le> k \<and> k \<le> n"
proof -
  have m: "\<forall>r \<in> set (rows s). parent r = e \<longrightarrow> mine ac r"
    using assms by (simp add: numbered_rows_def)
  have "(\<exists>r \<in> set (rows s). parent r = e \<and> ref r = prefix @ pad k 2) \<longleftrightarrow>
      prefix @ pad k 2 \<in> set (map ref (many_in ac (\<lambda>r. parent r = e \<and> starts_with prefix (ref r)) (rows s)))"
    using m by (auto simp: many_in_def find_many_def image_iff)
  also have "\<dots> \<longleftrightarrow> 1 \<le> k \<and> k \<le> n"
    using assms unfolding numbered_rows_def by (simp only: pad_in_references)
  finally show ?thesis .
qed

lemma numbered_extend:
  assumes "numbered_rows parent ref prefix ac e n (rows s)" "rows s' = rows s @ [r]" "parent r = e" "mine ac r"
    and "ref r = prefix @ pad (n + 1) 2"
  shows "numbered_rows parent ref prefix ac e (n + 1) (rows s')"
  using assms unfolding numbered_rows_def
  by (auto simp: many_in_def find_many_def references_to_Suc)

text \<open>The retry loop of the services on such a series.\<close>

lemma allocate_numbered:
  assumes "numbered_rows parent ref prefix ac e n (rows s)" "n < 100"
    and "create (prefix @ pad (n + 1) 2) s = (Inr x, s')"
  shows "allocate_h (latest ac e) (\<lambda>l. Inr (successor l)) create (Suc k) s = (Inr (Some x), s')"
  by (rule allocate_first [where r = "prefix @ pad (n + 1) 2"])
    (simp_all only: next_after_latest [OF assms(1,2)] assms(3))

lemma allocate_exhausted:
  assumes "numbered_rows parent ref prefix ac e 100 (rows s)"
    and "create (prefix @ pad 100 2) s = (Inl UniqueViolation, s)"
  shows "allocate_h (latest ac e) (\<lambda>l. Inr (successor l)) create (Suc k) s = (Inl UniqueViolation, s)"
  by (rule allocate_stuck [where r = "prefix @ pad 100 2"])
    (simp_all only: next_after_hundredth [OF assms(1)] assms(2))

end

end
