(* ===== verification/Finding_Life.thy ===== *)
theory Finding_Life
  imports Findings Samples Numbering
begin

text \<open>
  The life cycle of a finding: the meaning of its guards on the database, the outcome of the
  transition endpoint, the contract of status handlers, the invariant that every finding endpoint
  keeps (who may have closed what, and which dates are set), the allocation of references with its
  limit of 99, due-date extensions, the restriction of business owners, and the ageing report.
\<close>

section \<open>What a transition does\<close>

definition finding_passes :: "actor \<Rightarrow> db \<Rightarrow> finding \<Rightarrow> transition_dto \<Rightarrow> string \<Rightarrow> bool" where
  "finding_passes ac s f dto =
     passes (finding_registry ac s) (sm_name finding_workflow)
       \<lparr> gc_entity = f, gc_user = ac_user ac, gc_permissions = ac_permissions ac,
         gc_action = td_action dto, gc_comment = td_comment dto \<rparr>"

lemma finding_guards:
  "finding_passes ac s f dto ''has_condition_criteria'' \<longleftrightarrow>
     \<not> is_blank (Some (f_condition f)) \<and> \<not> is_blank (Some (f_criteria f))"
  "finding_passes ac s f dto ''has_recommendation'' \<longleftrightarrow>
     \<not> is_blank (f_recommendation f) \<or>
     (\<exists>r \<in> set (db_recommendations s). mine ac r \<and> rc_finding r = r_id f)"
  "finding_passes ac s f dto ''has_management_response'' \<longleftrightarrow> \<not> is_blank (f_response f)"
  "finding_passes ac s f dto ''has_action_owner_and_due_date'' \<longleftrightarrow> is_truthy_or_named f \<and> f_due f \<noteq> None"
  "finding_passes ac s f dto ''has_implementation_evidence'' \<longleftrightarrow>
     (\<exists>v \<in> set (db_evidence s). mine ac v \<and> r_id f \<in> set (ev_findings v)) \<or>
     (\<exists>d \<in> set (db_documents s). mine ac d \<and> d_owner_type d = Some ''Finding'' \<and>
        d_owner d = Some (r_id f) \<and> d_deleted_at d = None \<and> d_uploaded_at d \<noteq> None) \<or>
     (\<exists>r \<in> set (db_recommendations s). mine ac r \<and> rc_finding r = r_id f \<and>
        rc_status r \<in> {recommendation_status.IMPLEMENTED, recommendation_status.VALIDATED})"
  "finding_passes ac s f dto validator_guard \<longleftrightarrow> f_owner f \<noteq> Some (ac_user ac)"
proof -
  note d = finding_passes_def passes_def finding_registry_def Let_def get_guard_register guard_ok_passes
    validator_guard_def
  show "finding_passes ac s f dto ''has_condition_criteria'' \<longleftrightarrow>
     \<not> is_blank (Some (f_condition f)) \<and> \<not> is_blank (Some (f_criteria f))"
    "finding_passes ac s f dto ''has_management_response'' \<longleftrightarrow> \<not> is_blank (f_response f)"
    "finding_passes ac s f dto ''has_action_owner_and_due_date'' \<longleftrightarrow> is_truthy_or_named f \<and> f_due f \<noteq> None"
    by (simp_all add: d del: is_blank.simps)
  show "finding_passes ac s f dto validator_guard \<longleftrightarrow> f_owner f \<noteq> Some (ac_user ac)"
    by (auto simp: d)
  show "finding_passes ac s f dto ''has_recommendation'' \<longleftrightarrow> \<not> is_blank (f_recommendation f) \<or>
     (\<exists>r \<in> set (db_recommendations s). mine ac r \<and> rc_finding r = r_id f)"
    by (simp add: d table_simps guard_failed_def [of _ "Inl True"] del: is_blank.simps neq0_conv)
  show "finding_passes ac s f dto ''has_implementation_evidence'' \<longleftrightarrow>
     (\<exists>v \<in> set (db_evidence s). mine ac v \<and> r_id f \<in> set (ev_findings v)) \<or>
     (\<exists>d \<in> set (db_documents s). mine ac d \<and> d_owner_type d = Some ''Finding'' \<and>
        d_owner d = Some (r_id f) \<and> d_deleted_at d = None \<and> d_uploaded_at d \<noteq> None) \<or>
     (\<exists>r \<in> set (db_recommendations s). mine ac r \<and> rc_finding r = r_id f \<and>
        rc_status r \<in> {recommendation_status.IMPLEMENTED, recommendation_status.VALIDATED})"
    by (simp add: d table_simps add_is_0 del: neq0_conv)
qed

definition finding_transition_guards :: "finding_status transition \<Rightarrow> string list" where
  "finding_transition_guards t = coalesce (tr_guards t) [] @ extra_guards_for (tr_action t)"

definition finding_transition_event ::
  "actor \<Rightarrow> env \<Rightarrow> uuid \<Rightarrow> transition_dto \<Rightarrow> finding \<Rightarrow> finding_status transition \<Rightarrow> audit_input" where
  "finding_transition_event ac env i dto f t =
     audit_of ''finding.status_changed'' ''Finding'' i
       (Fields [(''status'', JStr (finding_status_name (f_status f)))])
       (Fields [(''status'', JStr (finding_status_name (f_status (finding_effect (ac_user ac) (env_now env) t f))))])
       [(''action'', JStr (tr_action t)),
        (''comment'', case td_comment dto of None \<Rightarrow> JNull | Some c \<Rightarrow> JStr c)]"

lemma workflow_accepts_finding:
  "workflow_transition (finding_registry ac s) finding_status_name finding_workflow (f_status f)
      (td_action dto) ac f (td_comment dto) (Some (extra_guards_for (td_action dto))) = Inr t \<longleftrightarrow>
   find_transition finding_workflow (f_status f) (td_action dto) = Some t \<and>
   tr_permission t \<in> set (ac_permissions ac) \<and>
   list_all (finding_passes ac s f dto) (finding_transition_guards t)"
proof -
  have p: "finding_passes ac s f dto = passes (finding_registry ac s) (sm_name finding_workflow)
    \<lparr> gc_entity = f, gc_user = ac_user ac, gc_permissions = ac_permissions ac,
      gc_action = td_action dto, gc_comment = td_comment dto \<rparr>"
    by (simp add: finding_passes_def fun_eq_iff)
  show ?thesis
    by (auto simp: workflow_transition_ok_iff p guards_of_def finding_transition_guards_def
        dest: find_transition_Some)
qed

lemma find_finding_Some:
  "find_finding ac i s = Some f \<Longrightarrow>
   f \<in> set (db_findings s) \<and> mine ac f \<and> r_id f = i \<and> f_deleted_at f = None"
  by (auto simp: find_finding_def has_id_def dest: first_in_Some)

lemma assert_finding_run [run_h]:
  "assert_finding ac i s =
     (case find_finding ac i s of
        None \<Rightarrow> (Inl (NotFound ''Finding not found''), s)
      | Some f \<Rightarrow>
          if \<exists>g \<in> set (db_findings s). mine ac g \<and> r_id g = i \<and> f_deleted_at g = None \<and> finding_scope ac s g
          then (Inr f, s) else (Inl (NotFound ''Finding not found''), s))"
  by (auto simp: assert_finding_def run_h split: option.split)

lemma transition_finding_cases:
  assumes "transition_finding ac env i dto s = (r, s')"
  shows "(s' = s \<and> \<not> is_ok r) \<or>
    (\<exists>f t uids inp. find_finding ac i s = Some f \<and>
       workflow_transition (finding_registry ac s) finding_status_name finding_workflow (f_status f)
         (td_action dto) ac f (td_comment dto) (Some (extra_guards_for (td_action dto))) = Inr t \<and>
       s' = notified_many ac env uids inp (audited ac env (finding_transition_event ac env i dto f t)
              (apply_finding_transition ac env f t (td_comment dto) s)))"
proof -
  have "snd (get_finding ac env i x) = x" for x using get_finding_reads by (simp add: reads_def)
  then have g: "get_finding ac env i x = (y, z) \<Longrightarrow> z = x" for x y z by (metis snd_conv)
  show ?thesis
    using assms unfolding transition_finding_def Let_def finding_transition_event_def
    by (auto simp: run_h split: option.splits sum.splits if_splits prod.splits dest!: g)
qed

lemma finding_tables_after_transition:
  "db_findings (apply_finding_transition ac env f t c s) =
     update_in ac (has_id (r_id f)) (finding_effect (ac_user ac) (env_now env) t) (db_findings s)"
  "db_recommendations (apply_finding_transition ac env f t c s) =
     update_in ac (open_recommendation_of (r_id f)) (recommendation_effect (env_now env) (tr_action t))
       (db_recommendations s)"
  "db_changes (apply_finding_transition ac env f t c s) =
     db_changes s @ [\<lparr> r_id = db_next s, r_tenant = ac_tenant ac, r_created = env_now env,
       fc_finding = r_id f, fc_from = Some (f_status f), fc_to = tr_to t, fc_by = ac_user ac,
       fc_comment = Some (coalesce c (tr_label t)) \<rparr>]"
  by (simp_all add: apply_finding_transition_def add_status_change_def update_finding_row_def
      update_recommendations_def insert_row_def)

lemma finding_transition_run:
  assumes "transition_finding ac env i dto s = (r, s')"
  shows "(s' = s \<and> \<not> is_ok r) \<or>
    (\<exists>f t. find_finding ac i s = Some f \<and> r_tenant f = ac_tenant ac \<and>
       find_transition finding_workflow (f_status f) (td_action dto) = Some t \<and>
       tr_permission t \<in> set (ac_permissions ac) \<and>
       list_all (finding_passes ac s f dto) (finding_transition_guards t) \<and>
       db_findings s' =
         update_in ac (has_id i) (finding_effect (ac_user ac) (env_now env) t) (db_findings s) \<and>
       db_recommendations s' =
         update_in ac (open_recommendation_of i) (recommendation_effect (env_now env) (tr_action t))
           (db_recommendations s) \<and>
       (\<exists>row. db_changes s' = db_changes s @ [row] \<and> fc_finding row = i \<and>
          fc_from row = Some (f_status f) \<and> fc_to row = tr_to t \<and> fc_by row = ac_user ac))"
  using transition_finding_cases [OF assms]
proof
  assume "\<exists>f t uids inp. find_finding ac i s = Some f \<and>
       workflow_transition (finding_registry ac s) finding_status_name finding_workflow (f_status f)
         (td_action dto) ac f (td_comment dto) (Some (extra_guards_for (td_action dto))) = Inr t \<and>
       s' = notified_many ac env uids inp (audited ac env (finding_transition_event ac env i dto f t)
              (apply_finding_transition ac env f t (td_comment dto) s))"
  then obtain f t where f: "find_finding ac i s = Some f"
    and t: "workflow_transition (finding_registry ac s) finding_status_name finding_workflow (f_status f)
         (td_action dto) ac f (td_comment dto) (Some (extra_guards_for (td_action dto))) = Inr t"
    and s': "\<exists>uids inp. s' = notified_many ac env uids inp (audited ac env (finding_transition_event ac env i dto f t)
              (apply_finding_transition ac env f t (td_comment dto) s))"
    by blast
  have i: "r_id f = i" "r_tenant f = ac_tenant ac"
    using find_finding_Some [OF f] by (simp_all add: mine_def)
  show ?thesis
    using f t [unfolded workflow_accepts_finding] s' i
    by (auto simp: finding_tables_after_transition)
qed blast

text \<open>
  The transition endpoint of findings either changes nothing and reports an error, or it found
  a live finding of the caller's tenant with that id, the action is a transition from its status
  whose permission the caller holds and whose guards all pass; then exactly the rows with that id
  get the new status and the fields of the action, the open recommendations of the finding follow,
  and the history gets one row with the old and the new status and the caller.
\<close>

theorem finding_transition_outcome:
  assumes "transition_finding ac env i dto s = (r, s')"
  shows "(s' = s \<and> \<not> is_ok r) \<or>
    (\<exists>f t. find_finding ac i s = Some f \<and> r_tenant f = ac_tenant ac \<and>
       find_transition finding_workflow (f_status f) (td_action dto) = Some t \<and>
       tr_permission t \<in> set (ac_permissions ac) \<and>
       list_all (finding_passes ac s f dto) (finding_transition_guards t) \<and>
       db_findings s' =
         update_in ac (has_id i) (finding_effect (ac_user ac) (env_now env) t) (db_findings s) \<and>
       db_recommendations s' =
         update_in ac (open_recommendation_of i) (recommendation_effect (env_now env) (tr_action t))
           (db_recommendations s) \<and>
       (\<exists>row. db_changes s' = db_changes s @ [row] \<and> fc_finding row = i \<and>
          fc_from row = Some (f_status f) \<and> fc_to row = tr_to t \<and> fc_by row = ac_user ac))"
  by (rule finding_transition_run [OF assms])

text \<open>The guards each action carries, the ones the service adds included.\<close>

lemma finding_action_guards:
  assumes "find_transition finding_workflow st a = Some t"
  shows "finding_transition_guards t =
    (if a = ''submit'' then [''has_condition_criteria'', ''has_recommendation'']
     else if a = ''agree'' then [''has_management_response'', ''has_action_owner_and_due_date'']
     else if a = ''request_validation'' then [''has_implementation_evidence'']
     else if a = ''validate_and_close'' \<or> a = ''reject_validation'' then [validator_guard]
     else [])"
proof -
  have "t \<in> set (sm_transitions finding_workflow)" "tr_action t = a"
    using find_transition_Some [OF assms] by simp_all
  then show ?thesis
    unfolding finding_transition_guards_def extra_guards_for_def finding_workflow_def by auto
qed

text \<open>
  C11. The gates of a finding. It goes to management only with a condition, criteria and a
  recommendation; it is agreed only with a management response, an action owner and a due date;
  validation is requested only with implementation evidence; and whoever closes it or sends it
  back from validation is not its action owner, and is recorded as the validator.
\<close>

theorem finding_gates:
  assumes "transition_finding ac env i dto s = (Inr v, s')" "find_finding ac i s = Some f"
  shows
    "(td_action dto = ''submit'' \<longrightarrow>
       \<not> is_blank (Some (f_condition f)) \<and> \<not> is_blank (Some (f_criteria f)) \<and>
       (\<not> is_blank (f_recommendation f) \<or>
        (\<exists>r \<in> set (db_recommendations s). mine ac r \<and> rc_finding r = i))) \<and>
     (td_action dto = ''agree'' \<longrightarrow>
       \<not> is_blank (f_response f) \<and> is_truthy_or_named f \<and> f_due f \<noteq> None) \<and>
     (td_action dto = ''request_validation'' \<longrightarrow>
       (\<exists>v \<in> set (db_evidence s). mine ac v \<and> i \<in> set (ev_findings v)) \<or>
       (\<exists>d \<in> set (db_documents s). mine ac d \<and> d_owner_type d = Some ''Finding'' \<and>
          d_owner d = Some i \<and> d_deleted_at d = None \<and> d_uploaded_at d \<noteq> None) \<or>
       (\<exists>r \<in> set (db_recommendations s). mine ac r \<and> rc_finding r = i \<and>
          rc_status r \<in> {recommendation_status.IMPLEMENTED, recommendation_status.VALIDATED})) \<and>
     (td_action dto = ''validate_and_close'' \<or> td_action dto = ''reject_validation'' \<longrightarrow>
       f_owner f \<noteq> Some (ac_user ac)) \<and>
     (td_action dto = ''validate_and_close'' \<longrightarrow>
       (\<exists>g \<in> set (db_findings s'). r_id g = i \<and> f_status g = finding_status.CLOSED \<and>
          f_validated_by g = Some (ac_user ac) \<and> f_closed_at g = Some (env_now env) \<and>
          f_owner g \<noteq> Some (ac_user ac)))"
proof -
  obtain t where t: "find_transition finding_workflow (f_status f) (td_action dto) = Some t"
    and p: "list_all (finding_passes ac s f dto) (finding_transition_guards t)"
    and d: "db_findings s' =
      update_in ac (has_id i) (finding_effect (ac_user ac) (env_now env) t) (db_findings s)"
    using finding_transition_run [OF assms(1)] assms(2) by auto
  have i: "r_id f = i" "f \<in> set (db_findings s)" "mine ac f"
    using find_finding_Some [OF assms(2)] by simp_all
  have a: "tr_action t = td_action dto" "t \<in> set (sm_transitions finding_workflow)"
    using find_transition_Some [OF t] by simp_all
  have m: "finding_effect (ac_user ac) (env_now env) t f \<in> set (db_findings s')"
    using i unfolding d set_update_in by (auto simp: has_id_def)
  have "tr_to t = finding_status.CLOSED" if "td_action dto = ''validate_and_close''"
    using a that unfolding finding_workflow_def by auto
  then show ?thesis
    using p m i a(1) unfolding finding_action_guards [OF t]
    by (auto simp: finding_guards finding_effect_def simp del: is_blank.simps split: if_splits
        intro!: bexI [of _ "finding_effect (ac_user ac) (env_now env) t f"])
qed

section \<open>The status follows the machine\<close>

definition finding_status_of :: "uuid \<Rightarrow> db \<Rightarrow> finding_status option" where
  "finding_status_of i s = map_option f_status (the_row i (db_findings s))"

definition perform_finding ::
  "actor \<Rightarrow> env \<Rightarrow> uuid \<Rightarrow> string \<Rightarrow> string option \<Rightarrow> db \<Rightarrow> db" where
  "perform_finding ac env i a c s =
     snd (transition_finding ac env i \<lparr> td_action = a, td_comment = c \<rparr> s)"

lemma perform_finding_cases:
  obtains "perform_finding ac env i a c s = s"
  | f t where "find_finding ac i s = Some f" "find_transition finding_workflow (f_status f) a = Some t"
    "tr_permission t \<in> set (ac_permissions ac)"
    "db_findings (perform_finding ac env i a c s) =
       update_in ac (has_id i) (finding_effect (ac_user ac) (env_now env) t) (db_findings s)"
proof -
  obtain r s' where run: "transition_finding ac env i \<lparr> td_action = a, td_comment = c \<rparr> s = (r, s')"
    by (cases "transition_finding ac env i \<lparr> td_action = a, td_comment = c \<rparr> s")
  then show thesis
    using that finding_transition_run [OF run] unfolding perform_finding_def by auto
qed

lemma find_finding_the_row:
  "the_row i (db_findings s) = Some q \<Longrightarrow> find_finding ac i s = Some f \<Longrightarrow> f = q"
  using the_row_first_in [of i "db_findings s" q ac "\<lambda>f. has_id i f \<and> f_deleted_at f = None" f]
  by (simp add: find_finding_def has_id_def)

interpretation finding_handler: row_endpoint finding_workflow db_findings f_status perform_finding
proof unfold_locales
  fix ac env i a c s
  show "db_findings (perform_finding ac env i a c s) = db_findings s \<or>
     (\<exists>r t g. r \<in> set (db_findings s) \<and> mine ac r \<and> r_id r = i \<and>
        find_transition finding_workflow (f_status r) a = Some t \<and> tr_permission t \<in> set (ac_permissions ac) \<and>
        db_findings (perform_finding ac env i a c s) = update_in ac (has_id i) g (db_findings s) \<and>
        (\<forall>x. r_id x = i \<longrightarrow> r_id (g x) = i \<and> f_status (g x) = tr_to t))"
  proof (cases rule: perform_finding_cases [of ac env i a c s])
    case (2 f t)
    then show ?thesis using find_finding_Some [OF 2(1)]
      by (intro disjI2 exI [of _ f] exI [of _ t] exI [of _ "finding_effect (ac_user ac) (env_now env) t"]) simp
  qed simp
qed

section \<open>The invariant of findings\<close>

text \<open>
  What the dates and the validator of a finding say of its status: an agreed finding has a date of
  agreement and an original due date; a closed one was implemented and validated by somebody who
  is not its action owner; an accepted risk has a closing date.
\<close>

definition finding_ok :: "finding \<Rightarrow> bool" where
  "finding_ok f \<longleftrightarrow>
     (f_status f \<in> {finding_status.AGREED, finding_status.IMPLEMENTATION, finding_status.VALIDATION,
                     finding_status.CLOSED} \<longrightarrow> f_agreed_at f \<noteq> None \<and> f_original_due f \<noteq> None) \<and>
     (f_status f \<in> {finding_status.VALIDATION, finding_status.CLOSED} \<longrightarrow> f_implemented_at f \<noteq> None) \<and>
     (f_status f \<in> {finding_status.CLOSED, finding_status.RISK_ACCEPTED} \<longrightarrow> f_closed_at f \<noteq> None) \<and>
     (f_status f = finding_status.CLOSED \<longrightarrow>
        (\<exists>v. f_validated_by f = Some v \<and> f_owner f \<noteq> Some v) \<and> f_validated_at f \<noteq> None)"

definition findings_ok :: "db \<Rightarrow> bool" where
  "findings_ok s \<longleftrightarrow> table_ok finding_ok (db_next s) (db_findings s)"

text \<open>The calls of the findings API.\<close>

datatype finding_call =
    Create_Finding create_finding_dto
  | Update_Finding uuid update_finding_dto
  | Transition_Finding uuid transition_dto
  | Extend_Finding uuid extend_finding_dto
  | Add_Recommendation uuid create_recommendation_dto
  | Update_Recommendation uuid update_recommendation_dto

fun call_finding :: "actor \<Rightarrow> env \<Rightarrow> finding_call \<Rightarrow> db \<Rightarrow> db" where
  "call_finding ac env (Create_Finding dto) s = snd (create_finding ac env dto s)"
| "call_finding ac env (Update_Finding i udto) s = snd (update_finding ac env i udto s)"
| "call_finding ac env (Transition_Finding i tdto) s = snd (transition_finding ac env i tdto s)"
| "call_finding ac env (Extend_Finding i edto) s = snd (extend_finding ac env i edto s)"
| "call_finding ac env (Add_Recommendation i rdto) s = snd (add_recommendation ac env i rdto s)"
| "call_finding ac env (Update_Recommendation i pdto) s = snd (update_recommendation ac env i pdto s)"

definition call_findings :: "(actor \<times> env \<times> finding_call) list \<Rightarrow> db \<Rightarrow> db" where
  "call_findings calls s = fold (\<lambda>(ac, env, c). call_finding ac env c) calls s"

lemma create_referenced_failure: "create_referenced ac env dto e ref s = (Inl er, s') \<Longrightarrow> s' = s"
  by (auto simp: create_referenced_def run_h split: if_splits)

lemma create_referenced_ok:
  "create_referenced ac env dto e ref s = (Inr f, s') \<longleftrightarrow>
   (\<forall>g \<in> set (db_findings s). \<not> (f_engagement g = cf_engagement dto \<and> f_reference g = ref)) \<and>
   f = new_finding ac env dto e ref s \<and> s' = insert_finding ac env f s"
  by (auto simp: create_referenced_def ok_h table_simps)

lemma insert_finding_tables [simp]:
  "db_findings (insert_finding ac env f s) = db_findings s @ [f]"
  "db_next (insert_finding ac env f s) = db_next s + 2"
  "db_changes (insert_finding ac env f s) =
     db_changes s @ [\<lparr> r_id = db_next s + 1, r_tenant = ac_tenant ac, r_created = env_now env,
       fc_finding = r_id f, fc_from = None, fc_to = finding_status.DRAFT, fc_by = ac_user ac,
       fc_comment = Some ''Finding raised'' \<rparr>]"
  by (simp_all add: insert_finding_def add_status_change_def insert_row_def)

lemma create_finding_cases:
  assumes "create_finding ac env dto s = (r, s')"
  shows "(s' = s \<and> \<not> is_ok r) \<or>
    (\<exists>e f. find_engagement ac (cf_engagement dto) s = Some e \<and> e_stage e \<noteq> engagement_stage.CLOSED \<and>
       create_referenced ac env dto e (next_finding_reference (latest_finding_reference ac (cf_engagement dto) s)) s =
         (Inr f, insert_finding ac env f s) \<and>
       f = new_finding ac env dto e (next_finding_reference (latest_finding_reference ac (cf_engagement dto) s)) s \<and>
       s' = audited ac env (audit_of ''finding.created'' ''Finding'' (r_id f) No_Snapshot (Finding_Row f) [])
              (insert_finding ac env f s))"
proof -
  let ?ref = "next_finding_reference (latest_finding_reference ac (cf_engagement dto) s)"
  let ?al = "allocate_h (latest_finding_reference ac (cf_engagement dto))
    (\<lambda>latest. Inr (next_finding_reference latest))"
  from assms [unfolded create_finding_def] check_new_finding_reads show ?thesis
  proof (cases rule: bind_check_cases)
    case (2 e)
    note run = 2(2)
    obtain x t where al: "?al (create_referenced ac env dto e) 5 s = (x, t)"
      by (cases "?al (create_referenced ac env dto e) 5 s")
    have e: "find_engagement ac (cf_engagement dto) s = Some e" "e_stage e \<noteq> engagement_stage.CLOSED"
      using 2(1) by (auto simp: check_new_finding_def ok_h)
    have "t = s \<and> (\<forall>y. x \<noteq> Inr (Some y)) \<or>
        (\<exists>f ref. x = Inr (Some f) \<and> (Inr ?ref :: string result) = Inr ref \<and> create_referenced ac env dto e ref s = (Inr f, t))"
      by (rule allocate_cases [OF al]) (rule create_referenced_failure)
    then consider "t = s" "\<forall>y. x \<noteq> Inr (Some y)"
      | f where "x = Inr (Some f)" "create_referenced ac env dto e ?ref s = (Inr f, t)" by auto
    then show ?thesis
    proof cases
      case 1
      then show ?thesis using 2(2) al by (auto simp: run_h split: sum.splits option.splits)
    next
      case (2 f)
      have t: "t = insert_finding ac env f s" "f = new_finding ac env dto e ?ref s"
        using 2(2) by (simp_all add: create_referenced_ok)
      have "s' = audited ac env (audit_of ''finding.created'' ''Finding'' (r_id f) No_Snapshot (Finding_Row f) []) t"
        using run al 2(1) by (auto simp: run_h split: option.splits)
      then show ?thesis using t 2(2) e by blast
    qed
  qed simp
qed

lemma update_finding_cases:
  assumes "update_finding ac env i dto s = (r, s')"
  shows "(s' = s \<and> \<not> is_ok r) \<or>
    (\<exists>f. find_finding ac i s = Some f \<and>
       f_status f \<noteq> finding_status.CLOSED \<and> f_status f \<noteq> finding_status.RISK_ACCEPTED \<and>
       (\<exists>u. check_business_owner ac dto f s = (Inr u, s)) \<and>
       db_findings s' = update_in ac (has_id i) (patch_finding dto) (db_findings s) \<and>
       r = Inr (with_ageing (patch_finding dto f) (env_now env)))"
  using assms [unfolded update_finding_def] assert_finding_reads
proof (cases rule: bind_check_cases)
  case (2 f)
  have f: "find_finding ac i s = Some f" using 2(1) by (auto simp: run_h split: option.splits if_splits)
  from 2(2) check_finding_reads(1) show ?thesis
  proof (cases rule: then_check_cases)
    case inner: 2
    from inner(2) check_finding_reads(2) show ?thesis
    proof (cases rule: then_check_cases)
      case open_f: 2
      from open_f(2) check_given_reads [OF assert_action_owner_reads] show ?thesis
      proof (cases rule: then_check_cases)
        case owner: 2
        from owner(2) check_given_reads [OF check_finding_reads(3)] show ?thesis
        proof (cases rule: then_check_cases)
          case fine: 2
          then show ?thesis
            using f inner(1) open_f(1)
            by (auto simp: run_h Let_def update_finding_row_def check_given_def set_evidence_def
                check_finding_open_def split: option.splits if_splits)
        qed simp
      qed simp
    qed simp
  qed simp
qed simp

lemma extend_finding_cases:
  assumes "extend_finding ac env i dto s = (r, s')"
  shows "(s' = s \<and> \<not> is_ok r) \<or>
    (\<exists>f. find_finding ac i s = Some f \<and> f_status f \<in> set actionable_statuses \<and>
       (\<forall>d. f_due f = Some d \<longrightarrow> d < xf_due dto) \<and>
       db_findings s' = update_in ac (has_id i) (extended dto) (db_findings s) \<and>
       r = Inr (with_ageing (extended dto f) (env_now env)))"
  using assms unfolding extend_finding_def Let_def
  by (auto simp: run_h update_finding_row_def split: option.splits if_splits)

lemma recommendation_calls_findings:
  "add_recommendation ac env i rdto s = (r1, s1) \<Longrightarrow> db_findings s1 = db_findings s"
  "update_recommendation ac env i udto s = (r2, s2) \<Longrightarrow> db_findings s2 = db_findings s"
proof -
  assume "add_recommendation ac env i rdto s = (r1, s1)"
  then show "db_findings s1 = db_findings s"
    unfolding add_recommendation_def
    by (auto simp: run_h insert_recommendation_def check_finding_open_def split: option.splits if_splits)
next
  assume "update_recommendation ac env i udto s = (r2, s2)"
  from this [unfolded update_recommendation_def] reads_demand show "db_findings s2 = db_findings s"
  proof (cases rule: bind_check_cases)
    case (2 q)
    from 2(2) reads_demand show ?thesis
    proof (cases rule: bind_check_cases)
      case inner: (2 f)
      from inner(2) assert_access_reads(2) show ?thesis
      proof (cases rule: then_check_cases)
        case access: 2
        from access(2) check_finding_reads(4) show ?thesis
        proof (cases rule: then_check_cases)
          case fine: 2
          then show ?thesis by (auto simp: run_h Let_def update_recommendations_def split: if_splits)
        qed simp
      qed simp
    qed simp
  qed simp
qed

lemma finding_moves:
  assumes "t \<in> set (sm_transitions finding_workflow)"
  shows "(tr_from t, tr_action t, tr_to t) = (finding_status.DRAFT, ''submit'', finding_status.MANAGEMENT_REVIEW) \<or>
     (tr_from t, tr_action t, tr_to t) = (finding_status.MANAGEMENT_REVIEW, ''return_to_draft'', finding_status.DRAFT) \<or>
     (tr_from t, tr_action t, tr_to t) = (finding_status.MANAGEMENT_REVIEW, ''agree'', finding_status.AGREED) \<or>
     (tr_from t, tr_action t, tr_to t) = (finding_status.MANAGEMENT_REVIEW, ''accept_risk'', finding_status.RISK_ACCEPTED) \<or>
     (tr_from t, tr_action t, tr_to t) = (finding_status.AGREED, ''start_implementation'', finding_status.IMPLEMENTATION) \<or>
     (tr_from t, tr_action t, tr_to t) = (finding_status.IMPLEMENTATION, ''request_validation'', finding_status.VALIDATION) \<or>
     (tr_from t, tr_action t, tr_to t) = (finding_status.VALIDATION, ''reject_validation'', finding_status.IMPLEMENTATION) \<or>
     (tr_from t, tr_action t, tr_to t) = (finding_status.VALIDATION, ''validate_and_close'', finding_status.CLOSED)"
  using imageI [OF assms, of "\<lambda>t. (tr_from t, tr_action t, tr_to t)"]
  unfolding finding_workflow_def by simp

lemma finding_effect_ok:
  assumes "find_transition finding_workflow (f_status f) a = Some t"
    and "list_all (finding_passes ac s f dto) (finding_transition_guards t)" and "finding_ok f"
  shows "finding_ok (finding_effect (ac_user ac) now t f)"
proof -
  have t: "t \<in> set (sm_transitions finding_workflow)" "tr_action t = a" "tr_from t = f_status f"
    using find_transition_Some [OF assms(1)] by simp_all
  have g: "a = ''agree'' \<Longrightarrow> f_due f \<noteq> None" "a = ''validate_and_close'' \<Longrightarrow> f_owner f \<noteq> Some (ac_user ac)"
    using assms(2) unfolding finding_action_guards [OF assms(1)] by (simp_all add: finding_guards)
  have "tr_action t = ''agree'' \<Longrightarrow> f_due f \<noteq> None"
    "tr_action t = ''validate_and_close'' \<Longrightarrow> f_owner f \<noteq> Some (ac_user ac)"
    using g t(2) by simp_all
  then show ?thesis
    using finding_moves [OF t(1)] t(3) assms(3)
    by (elim disjE) (simp_all add: finding_ok_def finding_effect_def)
qed

lemma patch_finding_ok:
  "f_status f \<noteq> finding_status.CLOSED \<Longrightarrow> f_status f \<noteq> finding_status.RISK_ACCEPTED \<Longrightarrow>
   finding_ok f \<Longrightarrow> finding_ok (patch_finding dto f)"
  by (auto simp: finding_ok_def patch_finding_def)

lemma extended_ok: "f_status f \<in> set actionable_statuses \<Longrightarrow> finding_ok f \<Longrightarrow> finding_ok (extended dto f)"
  by (auto simp: finding_ok_def extended_def actionable_statuses_def)

lemma call_finding_confined: "confined (ac_tenant ac) s (call_finding ac env c s)"
proof -
  have k: "confined (ac_tenant ac) s (snd (m s))" if "keeps (confined (ac_tenant ac)) m" for m :: "'a op"
    using that by (simp add: keeps_def)
  show ?thesis
    using k [OF create_finding_confined] k [OF update_finding_confined] k [OF transition_finding_confined]
      k [OF extend_finding_confined] k [OF recommendations_confined(1)] k [OF recommendations_confined(2)]
    by (cases c) simp_all
qed

definition finding_step :: "actor \<Rightarrow> db \<Rightarrow> db \<Rightarrow> bool" where
  "finding_step ac s s' \<longleftrightarrow> row_step ac finding_ok (db_next s) (db_next s') (db_findings s) (db_findings s')"

lemma call_finding_step: "finding_step ac s (call_finding ac env c s)"
proof -
  have n: "db_next s \<le> db_next (call_finding ac env c s)"
    by (rule confined_next [OF call_finding_confined])
  have same: "finding_step ac s s'" if "db_findings s' = db_findings s" "db_next s \<le> db_next s'" for s'
    using that by (simp add: finding_step_def row_step_same)
  have upd: "finding_step ac s s'"
    if "find_finding ac i s = Some f" "db_findings s' = update_in ac (has_id i) g (db_findings s)"
      "\<And>x. r_id (g x) = r_id x" "finding_ok f \<Longrightarrow> finding_ok (g f)" "db_next s \<le> db_next s'" for i f g s'
    using that find_finding_Some [OF that(1)] unfolding finding_step_def
    by (metis row_step_update)
  show ?thesis
  proof (cases c)
    case (Create_Finding dto)
    obtain r s' where run: "create_finding ac env dto s = (r, s')" by (cases "create_finding ac env dto s")
    have s': "call_finding ac env c s = s'" using run Create_Finding by simp
    from create_finding_cases [OF run] show ?thesis unfolding s'
    proof
      assume "s' = s \<and> \<not> is_ok r"
      then show "finding_step ac s s'" by (simp add: same)
    next
      assume "\<exists>e f. find_engagement ac (cf_engagement dto) s = Some e \<and> e_stage e \<noteq> engagement_stage.CLOSED \<and>
       create_referenced ac env dto e (next_finding_reference (latest_finding_reference ac (cf_engagement dto) s)) s =
         (Inr f, insert_finding ac env f s) \<and>
       f = new_finding ac env dto e (next_finding_reference (latest_finding_reference ac (cf_engagement dto) s)) s \<and>
       s' = audited ac env (audit_of ''finding.created'' ''Finding'' (r_id f) No_Snapshot (Finding_Row f) [])
              (insert_finding ac env f s)"
      then obtain e ref f where "f = new_finding ac env dto e ref s"
        "s' = audited ac env (audit_of ''finding.created'' ''Finding'' (r_id f) No_Snapshot (Finding_Row f) [])
              (insert_finding ac env f s)" by blast
      then show "finding_step ac s s'"
        by (auto simp: finding_step_def new_finding_def audited_def finding_ok_def intro!: row_step_insert)
    qed
  next
    case (Update_Finding i dto)
    obtain r s' where run: "update_finding ac env i dto s = (r, s')" by (cases "update_finding ac env i dto s")
    have "r_id (patch_finding dto x) = r_id x" for x by (simp add: patch_finding_def)
    then show ?thesis
      using update_finding_cases [OF run] n run Update_Finding
      by (auto intro: same upd patch_finding_ok)
  next
    case (Transition_Finding i dto)
    obtain r s' where run: "transition_finding ac env i dto s = (r, s')"
      by (cases "transition_finding ac env i dto s")
    show ?thesis
      using finding_transition_run [OF run] n run Transition_Finding
      by (auto intro: same upd finding_effect_ok)
  next
    case (Extend_Finding i dto)
    obtain r s' where run: "extend_finding ac env i dto s = (r, s')" by (cases "extend_finding ac env i dto s")
    have "r_id (extended dto x) = r_id x" for x by (simp add: extended_def)
    then show ?thesis
      using extend_finding_cases [OF run] n run Extend_Finding
      by (auto intro: same upd extended_ok)
  next
    case (Add_Recommendation i dto)
    obtain r s' where run: "add_recommendation ac env i dto s = (r, s')" by (cases "add_recommendation ac env i dto s")
    then show ?thesis using recommendation_calls_findings(1) [OF run] n Add_Recommendation by (auto intro: same)
  next
    case (Update_Recommendation i dto)
    obtain r s' where run: "update_recommendation ac env i dto s = (r, s')" by (cases "update_recommendation ac env i dto s")
    then show ?thesis using recommendation_calls_findings(2) [OF run] n Update_Recommendation by (auto intro: same)
  qed
qed

text \<open>
  C12. The invariant of findings. Whatever requests reach the findings API, by whichever users and
  in any order, in a database where it held: ids stay unique; a finding that is agreed or beyond
  has a date of agreement and keeps an original due date; one in validation or closed was
  implemented; and a closed finding was validated by a recorded user who is not its action owner.
\<close>

theorem findings_invariant:
  assumes "findings_ok s"
  shows "findings_ok (call_findings calls s)"
  using assms
proof (induction calls arbitrary: s)
  case (Cons c calls)
  then show ?case
    using row_step_ok [OF call_finding_step [unfolded finding_step_def], folded findings_ok_def]
    by (auto simp: call_findings_def split: prod.split)
qed (simp add: call_findings_def)

text \<open>
  Whatever transition requests reach the findings API, in any order and by whichever users,
  the status of a finding only moves along a run of the declared machine; a closed finding and an
  accepted risk stay as they are.
\<close>

theorem finding_status_follows_workflow:
  assumes "finding_status_of i s = Some from"
    and "finding_status_of i (finding_handler.perform_all calls s) = Some st"
  shows "(\<exists>acts. sm_run finding_workflow from acts = Some st) \<and>
    (from = finding_status.CLOSED \<or> from = finding_status.RISK_ACCEPTED \<longrightarrow> st = from)"
proof -
  obtain acts where run: "sm_run finding_workflow from acts = Some st"
    using finding_handler.status_run [folded finding_status_of_def, OF assms] by blast
  moreover have "{finding_status.CLOSED, finding_status.RISK_ACCEPTED} \<subseteq> set (sm_terminal finding_workflow)"
    by (simp add: finding_workflow_def)
  ultimately show ?thesis using finding_machine.terminal_run by blast
qed

section \<open>References\<close>

interpretation finding_series:
  reference_series db_findings f_engagement f_reference "''F-''" next_finding_reference latest_finding_reference
  by unfold_locales
    (simp_all only: latest_finding_reference_def next_finding_reference_pad, simp add: next_finding_reference_def)

text \<open>The findings of an engagement are those of its tenant, numbered 1 to \<open>n\<close>.\<close>

definition numbered_findings :: "actor \<Rightarrow> uuid \<Rightarrow> nat \<Rightarrow> db \<Rightarrow> bool" where
  "numbered_findings ac e n s \<longleftrightarrow> numbered_rows f_engagement f_reference ''F-'' ac e n (db_findings s)"

text \<open>
  C20. References of findings run out. In an engagement whose findings are numbered without gaps,
  an admissible request gets the next number as long as there are fewer than a hundred; with a
  hundred of them every request fails on the unique constraint, whatever it contains, and leaves
  the database as it was, so that no finding can be raised on that engagement any more: in string
  order \<open>F-99\<close> stays above \<open>F-100\<close>, and each attempt computes \<open>F-100\<close> again.
\<close>

theorem finding_references_run_out:
  assumes "numbered_findings ac (cf_engagement dto) n s" "check_new_finding ac dto s = (Inr e, s)"
    and "findings_ok s"
  shows "(n < 100 \<longrightarrow> (\<exists>f s'. create_finding ac env dto s = (Inr f, s') \<and>
            f_reference f = ''F-'' @ pad (n + 1) 2 \<and> db_findings s' = db_findings s @ [f])) \<and>
    (n = 100 \<longrightarrow> create_finding ac env dto s = (Inl UniqueViolation, s))"
proof (intro conjI impI)
  assume n: "n < 100"
  let ?ref = "''F-'' @ pad (n + 1) 2"
  let ?f = "new_finding ac env dto e ?ref s"
  have c: "create_referenced ac env dto e ?ref s = (Inr ?f, insert_finding ac env ?f s)"
    using finding_series.taken_iff [OF assms(1) [unfolded numbered_findings_def], of "n + 1"]
    unfolding create_referenced_ok by auto
  have al: "allocate_h (latest_finding_reference ac (cf_engagement dto))
      (\<lambda>latest. Inr (next_finding_reference latest)) (create_referenced ac env dto e) (Suc 4) s =
      (Inr (Some ?f), insert_finding ac env ?f s)"
    by (rule finding_series.allocate_numbered [where create = "create_referenced ac env dto e", OF assms(1) [unfolded numbered_findings_def] n c])
  have "\<forall>g \<in> set (db_findings s). r_id g \<noteq> db_next s" using assms(3) by (auto simp: findings_ok_def table_ok_def)
  then have "first_in ac (has_id (db_next s)) (db_findings s @ [?f]) = Some ?f"
    by (intro first_in_snoc) (simp_all add: has_id_def mine_def new_finding_def)
  then show "\<exists>f s'. create_finding ac env dto s = (Inr f, s') \<and> f_reference f = ?ref \<and>
      db_findings s' = db_findings s @ [f]"
    using assms(2) al by (simp add: create_finding_def run_h new_finding_def)
next
  assume n: "n = 100"
  note full = assms(1) [unfolded numbered_findings_def n]
  have c: "create_referenced ac env dto e (''F-'' @ pad 100 2) s = (Inl UniqueViolation, s)"
    using finding_series.taken_iff [OF full, of 100] by (auto simp: create_referenced_def run_h table_simps)
  have "allocate_h (latest_finding_reference ac (cf_engagement dto))
      (\<lambda>latest. Inr (next_finding_reference latest)) (create_referenced ac env dto e) (Suc 4) s = (Inl UniqueViolation, s)"
    by (rule finding_series.allocate_exhausted [where create = "create_referenced ac env dto e", OF full c])
  then show "create_finding ac env dto s = (Inl UniqueViolation, s)"
    using assms(2) by (simp add: create_finding_def run_h)
qed

section \<open>Due dates\<close>

text \<open>Extension requests, one after the other.\<close>

fun extend_all :: "(actor \<times> env \<times> extend_finding_dto) list \<Rightarrow> uuid \<Rightarrow> db \<Rightarrow> db" where
  "extend_all [] i s = s"
| "extend_all ((ac, env, dto) # xs) i s = extend_all xs i (snd (extend_finding ac env i dto s))"

lemma extend_finding_row:
  assumes "the_row i (db_findings s) = Some f" "extend_finding ac env i dto s = (r, s')"
  shows "the_row i (db_findings s') = Some f \<or>
    (the_row i (db_findings s') = Some (extended dto f) \<and> (\<forall>d. f_due f = Some d \<longrightarrow> d < xf_due dto))"
  using extend_finding_cases [OF assms(2)]
proof
  assume "\<exists>g. find_finding ac i s = Some g \<and> f_status g \<in> set actionable_statuses \<and>
       (\<forall>d. f_due g = Some d \<longrightarrow> d < xf_due dto) \<and>
       db_findings s' = update_in ac (has_id i) (extended dto) (db_findings s) \<and>
       r = Inr (with_ageing (extended dto g) (env_now env))"
  then obtain g where g: "find_finding ac i s = Some g" "\<forall>d. f_due g = Some d \<longrightarrow> d < xf_due dto"
    and s': "db_findings s' = update_in ac (has_id i) (extended dto) (db_findings s)" by blast
  have "g = f" by (rule find_finding_the_row [OF assms(1) g(1)])
  moreover have "mine ac g" using find_finding_Some [OF g(1)] by simp
  moreover have "the_row i (db_findings s') =
      map_option (\<lambda>x. if mine ac x \<and> has_id i x then extended dto x else x) (the_row i (db_findings s))"
    unfolding s' by (rule the_row_update_in) (simp add: extended_def)
  ultimately show ?thesis
    using g(2) assms(1) the_row_Some(2) [OF assms(1)] by (simp add: has_id_def)
qed (use assms(1) in simp)

text \<open>
  Due dates only move forward. However often the extension of a finding with a due date and an
  original due date is requested, the original due date stays what it was, the due date never moves
  back, and the number of extensions counts those that were granted: it grows at most by one per
  request, and each one granted moved the due date strictly later.
\<close>

theorem extensions_only_forward:
  assumes "the_row i (db_findings s) = Some f" "f_due f = Some d" "f_original_due f = Some d0"
  shows "\<exists>f' d'. the_row i (db_findings (extend_all reqs i s)) = Some f' \<and> f_due f' = Some d' \<and>
    f_original_due f' = Some d0 \<and> d + int (f_extensions f' - f_extensions f) \<le> d' \<and>
    f_extensions f \<le> f_extensions f' \<and> f_extensions f' \<le> f_extensions f + length reqs"
  using assms
proof (induction reqs arbitrary: s f d)
  case (Cons q reqs)
  obtain ac env dto where q: "q = (ac, env, dto)" by (cases q)
  obtain r s' where run: "extend_finding ac env i dto s = (r, s')" by (cases "extend_finding ac env i dto s")
  have rest: "extend_all (q # reqs) i s = extend_all reqs i s'" using run by (simp add: q)
  from extend_finding_row [OF Cons.prems(1) run] show ?case
  proof (elim disjE conjE)
    assume "the_row i (db_findings s') = Some f"
    from Cons.IH [OF this Cons.prems(2,3)] show ?thesis unfolding rest by fastforce
  next
    assume row: "the_row i (db_findings s') = Some (extended dto f)"
      and "\<forall>d. f_due f = Some d \<longrightarrow> d < xf_due dto"
    then have "d < xf_due dto" using Cons.prems(2) by blast
    moreover obtain f' d' where "the_row i (db_findings (extend_all reqs i s')) = Some f'" "f_due f' = Some d'"
      "f_original_due f' = Some d0" "xf_due dto + int (f_extensions f' - f_extensions (extended dto f)) \<le> d'"
      "f_extensions (extended dto f) \<le> f_extensions f'"
      "f_extensions f' \<le> f_extensions (extended dto f) + length reqs"
      using Cons.IH [OF row, of "xf_due dto"] Cons.prems(3) by (auto simp: extended_def)
    ultimately show ?thesis unfolding rest by (auto simp: extended_def)
  qed
qed simp

section \<open>Business owners\<close>

text \<open>
  Whoever may not manage findings changes only the management's part of one: the call succeeds
  only for a user who may respond, on a finding under management review, agreed or being
  implemented; the new row differs from the old one at most in the management response, the
  action owner and the due date, and the links to evidence stay as they are.
\<close>

theorem business_owner_edits:
  assumes "update_finding ac env i dto s = (Inr v, s')" "\<not> has_permission ac ''finding:manage''"
  shows "has_permission ac ''finding:respond'' \<and> db_evidence s' = db_evidence s \<and>
    (\<exists>f. find_finding ac i s = Some f \<and>
       f_status f \<in> {finding_status.MANAGEMENT_REVIEW, finding_status.AGREED, finding_status.IMPLEMENTATION} \<and>
       af_finding v = f\<lparr> f_response := f_response (af_finding v), f_owner := f_owner (af_finding v),
         f_owner_name := f_owner_name (af_finding v), f_owner_email := f_owner_email (af_finding v),
         f_due := f_due (af_finding v) \<rparr>)"
proof -
  obtain f u where f: "find_finding ac i s = Some f" "check_business_owner ac dto f s = (Inr u, s)"
    and v: "v = with_ageing (patch_finding dto f) (env_now env)"
    using update_finding_cases [OF assms(1)] by auto
  have ok: "has_permission ac ''finding:respond''"
      "f_status f \<in> {finding_status.MANAGEMENT_REVIEW, finding_status.AGREED, finding_status.IMPLEMENTATION}"
      "list_all (\<lambda>k. k \<in> set business_owner_fields) (finding_fields dto)"
    using f(2) assms(2) by (auto simp: check_business_owner_def ok_h)
  have none: "uf_title dto = None" "uf_severity dto = None" "uf_condition dto = None" "uf_criteria dto = None"
      "\<not> supplied (uf_cause dto)" "\<not> supplied (uf_impact dto)" "\<not> supplied (uf_recommendation dto)"
      "\<not> supplied (uf_workpaper dto)" "\<not> supplied (uf_risk dto)" "\<not> supplied (uf_control dto)"
      "\<not> supplied (uf_process dto)" "\<not> supplied (uf_entity dto)" "\<not> supplied (uf_root_cause dto)"
      "\<not> supplied (uf_category dto)" "\<not> supplied (uf_repeat_of dto)" "uf_evidence dto = None"
    using ok(3) by (auto simp: finding_fields_def given_fields_def business_owner_fields_def split: if_splits)
  have keep: "patch_nullable w old = old" if "\<not> supplied w" for w :: "'a field" and old
    using that by (cases w) simp_all
  have p: "patch_finding dto f = f\<lparr> f_response := patch_nullable (uf_response dto) (f_response f),
      f_owner := patch_nullable (uf_owner dto) (f_owner f),
      f_owner_name := patch_nullable (uf_owner_name dto) (f_owner_name f),
      f_owner_email := patch_nullable (uf_owner_email dto) (f_owner_email f),
      f_due := patch_nullable (uf_due dto) (f_due f) \<rparr>"
    by (simp add: patch_finding_def none keep)
  have "db_evidence s' = db_evidence s"
    using assms(1) none(16) unfolding update_finding_def Let_def check_given_def
    by (auto simp: ok_h check_business_owner_def check_finding_open_def assert_action_owner_def update_finding_row_def
        split: option.splits if_splits dest!: readsD [OF assert_finding_reads])
  then show ?thesis using ok(1,2) f(1) by (auto simp: v with_ageing_def Let_def p)
qed

section \<open>Ageing\<close>

lemma ageing_loop_counts:
  "ageing_loop now fs (bs, ov, n) =
    ((\<lambda>b. bs b + length (filter (\<lambda>f. ageing_bucket (f_due f) now = b) fs)),
     (\<lambda>sv. ov sv + length (filter (\<lambda>f. f_severity f = sv \<and> ageing_bucket (f_due f) now \<noteq> NOT_DUE) fs)),
     n + length (filter (\<lambda>f. ageing_bucket (f_due f) now \<noteq> NOT_DUE) fs))"
  by (induction fs arbitrary: bs ov n) (auto simp: Let_def fun_eq_iff)

lemma age_bucket_cases: "b \<in> set age_buckets"
  by (cases b) (simp_all add: age_buckets_def)

lemma bucket_sum:
  "sum_list (map (\<lambda>b. length (filter (\<lambda>f. g f = b) fs)) age_buckets) = length fs"
proof (induction fs)
  case (Cons f fs)
  have "sum_list (map (\<lambda>b. length (filter (\<lambda>f. g f = b) (f # fs))) age_buckets) =
      sum_list (map (\<lambda>b. if g f = b then 1 else 0) age_buckets) +
      sum_list (map (\<lambda>b. length (filter (\<lambda>f. g f = b) fs)) age_buckets)"
    by (simp add: age_buckets_def)
  moreover have "sum_list (map (\<lambda>b. if g f = b then 1 else 0) age_buckets) = (1 :: nat)"
    by (cases "g f") (simp_all add: age_buckets_def)
  ultimately show ?case using Cons by simp
qed (simp add: age_buckets_def)

text \<open>
  The ageing report counts each live actionable finding in the caller's scope exactly once, in
  the bucket of its due date; the overdue total counts those with at least one full day past the
  due date, and the report changes nothing.
\<close>

theorem ageing_report_counts:
  "\<exists>r fs. ageing ac env eng ent s = (Inr r, s) \<and>
    fs = filter (\<lambda>f. mine ac f \<and> f_deleted_at f = None \<and> opt_eq eng (f_engagement f) \<and>
      opt_eq (map_option Some ent) (f_entity f) \<and> finding_scope ac s f \<and>
      f_status f \<in> set actionable_statuses) (db_findings s) \<and>
    ag_open r = length fs \<and> sum_list (map snd (ag_buckets r)) = length fs \<and>
    ag_buckets r =
      map (\<lambda>b. (b, length (filter (\<lambda>f. ageing_bucket (f_due f) (env_now env) = b) fs))) age_buckets \<and>
    ag_overdue r = length (filter (\<lambda>f. days_overdue (f_due f) (env_now env) > 0) fs)"
proof -
  have nd: "ageing_bucket d now \<noteq> NOT_DUE \<longleftrightarrow> days_overdue d now > 0" for d now
    using days_overdue_nonneg [of d now] by (simp add: ageing_bucket_days Let_def)
  show ?thesis
    using bucket_sum [of "\<lambda>f. ageing_bucket (f_due f) (env_now env)" "filter (\<lambda>f. mine ac f \<and>
      f_deleted_at f = None \<and> opt_eq eng (f_engagement f) \<and> opt_eq (map_option Some ent) (f_entity f) \<and>
      finding_scope ac s f \<and> f_status f \<in> set actionable_statuses) (db_findings s)"]
    by (simp add: ageing_def run_h Let_def ageing_loop_counts many_in_def find_many_def
        conj_assoc nd comp_def)
qed

section \<open>Examples\<close>

lemma finding_guards_registered:
  "guards_registered (finding_registry ac s) finding_workflow (\<lambda>t. extra_guards_for (tr_action t))"
  by (simp add: guards_registered_def finding_workflow_def guards_of_def has_guard_def finding_registry_def
      Let_def get_guard_register extra_guards_for_def validator_guard_def)

lemma get_finding_succeeds:
  assumes "\<not> is_portal_scoped ac" "find_finding ac i s = Some f"
  shows "\<exists>v. get_finding ac env i s = (Inr v, s)"
proof -
  obtain rs where "workflow_available (finding_registry ac s) finding_workflow (f_status f) ac f
      (\<lambda>t. extra_guards_for (tr_action t)) = Inr rs"
    using workflow_available_ok [OF finding_guards_registered] by blast
  moreover have "assert_finding ac i s = (Inr f, s)"
    using find_finding_Some [OF assms(2)] assms by (auto simp: assert_finding_run finding_scope_def)
  ultimately show ?thesis by (simp add: get_finding_def run_h)
qed

text \<open>For a user outside the portal, the conditions of the outcome are also sufficient.\<close>

lemma transition_finding_succeeds:
  assumes "\<not> is_portal_scoped ac" "find_finding ac i s = Some f"
    and "find_transition finding_workflow (f_status f) (td_action dto) = Some t"
    and "tr_permission t \<in> set (ac_permissions ac)"
    and "list_all (finding_passes ac s f dto) (finding_transition_guards t)"
  shows "\<exists>v s'. transition_finding ac env i dto s = (Inr v, s')"
proof -
  have wt: "workflow_transition (finding_registry ac s) finding_status_name finding_workflow (f_status f)
      (td_action dto) ac f (td_comment dto) (Some (extra_guards_for (td_action dto))) = Inr t"
    unfolding workflow_accepts_finding using assms(3-5) by blast
  have sc: "(\<exists>g \<in> set (db_findings s). mine ac g \<and> r_id g = i \<and> f_deleted_at g = None \<and> finding_scope ac s g) = True"
    using find_finding_Some [OF assms(2)] assms(1) by (auto simp: finding_scope_def)
  have "r_id f = i" using find_finding_Some [OF assms(2)] by simp
  then have "find_finding ac i x = Some (finding_effect (ac_user ac) (env_now env) t f)"
    if "db_findings x = db_findings (apply_finding_transition ac env f t (td_comment dto) s)" for x
    using assms(2) that unfolding find_finding_def
    by (auto simp: finding_tables_after_transition
        intro!: first_in_rewritten [where Q = "\<lambda>f. f_deleted_at f = None"])
  then have g: "\<exists>v. get_finding ac env i x = (Inr v, x)"
    if "db_findings x = db_findings (apply_finding_transition ac env f t (td_comment dto) s)" for x
    using get_finding_succeeds [OF assms(1)] that by blast
  then have g': "(\<exists>v s'. get_finding ac env i x = (Inr v, s')) = True"
    if "db_findings x = db_findings (apply_finding_transition ac env f t (td_comment dto) s)" for x
    using that by blast
  show ?thesis
    unfolding transition_finding_def Let_def
    by (simp only: run_h assms(2) sc option.case if_True wt sum.case prod.case g' audited_tables notified_many_tables)
qed

definition ex_respondent :: actor where
  "ex_respondent = ex_actor 4 [BUSINESS_OWNER] [''finding:respond'']"

definition ex_raiser :: actor where
  "ex_raiser = ex_actor 2 [AUDIT_MANAGER] [''finding:submit'', ''finding:manage'']"

definition ex_submit_finding :: transition_dto where
  "ex_submit_finding = \<lparr> td_action = ''submit'', td_comment = None \<rparr>"

definition ex_submit_move :: "finding_status transition" where
  "ex_submit_move = the (find_transition finding_workflow finding_status.DRAFT ''submit'')"

lemma ex_raiser_fields [simp]: "ac_user ex_raiser = 2" "ac_tenant ex_raiser = 1" "\<not> is_portal_scoped ex_raiser"
  "ac_permissions ex_raiser = [''finding:submit'', ''finding:manage'']"
  by (simp_all add: ex_raiser_def ex_actor_def is_portal_scoped_def audit_function_roles_def)

definition ex_submitted :: db where
  "ex_submitted = snd (transition_finding ex_raiser ex_env 30 ex_submit_finding ex_db)"

lemma ex_find_finding: "find_finding ac 30 ex_db = Some ex_finding" if "ac_tenant ac = 1"
  using that by (simp add: find_finding_def has_id_def ex_finding_def)

lemma ex_submit_found: "find_transition finding_workflow (f_status ex_finding) ''submit'' = Some ex_submit_move"
  by (simp add: ex_submit_move_def ex_finding_def find_transition_def finding_workflow_def)

lemma ex_submit_finding_run:
  "\<exists>v s'. transition_finding ex_raiser ex_env 30 ex_submit_finding ex_db = (Inr v, s')"
proof -
  have m: "tr_permission ex_submit_move = ''finding:submit''"
    by (simp add: ex_submit_move_def find_transition_def finding_workflow_def)
  have "finding_transition_guards ex_submit_move = [''has_condition_criteria'', ''has_recommendation'']"
    using finding_action_guards [OF ex_submit_found] by simp
  moreover have "finding_passes ex_raiser ex_db ex_finding ex_submit_finding ''has_condition_criteria''"
    "finding_passes ex_raiser ex_db ex_finding ex_submit_finding ''has_recommendation''"
    unfolding finding_guards by (simp_all add: ex_finding_def is_space_def trim_def)
  ultimately show ?thesis
    using m ex_submit_found
    by (intro transition_finding_succeeds [where t = ex_submit_move, OF _ ex_find_finding])
      (simp_all only: ex_submit_finding_def transition_dto.simps ex_raiser_fields list.pred_inject, simp_all)
qed

lemma ex_findings_ok: "findings_ok ex_db"
  by (simp add: findings_ok_def table_ok_def finding_ok_def ex_finding_def)

lemma finding_transition_outcome_witness:
  "\<exists>r s' row. transition_finding ex_raiser ex_env 30 ex_submit_finding ex_db = (r, s') \<and> is_ok r \<and>
     row \<in> set (db_changes s') \<and> fc_from row = Some finding_status.DRAFT"
proof -
  obtain v s' where run: "transition_finding ex_raiser ex_env 30 ex_submit_finding ex_db = (Inr v, s')"
    using ex_submit_finding_run by blast
  then show ?thesis
    using finding_transition_outcome [OF run] by (auto simp: ex_find_finding ex_finding_def)
qed

lemma finding_gates_witness:
  "\<exists>v s'. transition_finding ex_raiser ex_env 30 ex_submit_finding ex_db = (Inr v, s') \<and>
     \<not> is_blank (Some (f_condition ex_finding))"
proof -
  obtain v s' where run: "transition_finding ex_raiser ex_env 30 ex_submit_finding ex_db = (Inr v, s')"
    using ex_submit_finding_run by blast
  have "find_finding ex_raiser 30 ex_db = Some ex_finding" by (simp add: ex_find_finding)
  from finding_gates [OF run this] show ?thesis using run by (simp add: ex_submit_finding_def)
qed

lemma findings_invariant_witness:
  "findings_ok (call_findings [(ex_raiser, ex_env, Transition_Finding 30 ex_submit_finding)] ex_db)"
  by (rule findings_invariant [OF ex_findings_ok])

lemma finding_status_follows_workflow_witness:
  "\<exists>acts. sm_run finding_workflow finding_status.DRAFT acts = Some finding_status.MANAGEMENT_REVIEW"
proof -
  obtain v s' where run: "transition_finding ex_raiser ex_env 30 ex_submit_finding ex_db = (Inr v, s')"
    using ex_submit_finding_run by blast
  have f: "f_status ex_finding = finding_status.DRAFT" "r_id ex_finding = 30" "r_tenant ex_finding = 1"
    by (simp_all add: ex_finding_def)
  have start: "finding_status_of 30 ex_db = Some finding_status.DRAFT"
    by (simp add: finding_status_of_def the_row_def has_id_def f)
  have m: "tr_to ex_submit_move = finding_status.MANAGEMENT_REVIEW"
    by (simp add: ex_submit_move_def find_transition_def finding_workflow_def)
  have "db_findings s' = [finding_effect 2 (env_now ex_env) ex_submit_move ex_finding]"
    using finding_transition_run [OF run]
    by (auto simp: ex_submit_finding_def ex_find_finding ex_submit_found [unfolded f(1)] f has_id_def)
  then have "finding_status_of 30 (finding_handler.perform_all [(ex_raiser, ex_env, 30, ''submit'', None)] ex_db) =
      Some finding_status.MANAGEMENT_REVIEW"
    using run by (simp add: perform_finding_def ex_submit_finding_def finding_status_of_def the_row_def has_id_def f m)
  from finding_status_follows_workflow [OF start this] show ?thesis by blast
qed

definition ex_new_finding :: create_finding_dto where
  "ex_new_finding =
     \<lparr> cf_engagement = 10, cf_title = ''t'', cf_severity = severity.HIGH, cf_condition = ''c'', cf_criteria = ''k'',
       cf_cause = None, cf_impact = None, cf_recommendation = None, cf_workpaper = None, cf_risk = None,
       cf_control = None, cf_process = None, cf_entity = Undefined, cf_root_cause = None, cf_category = None,
       cf_repeat_of = None, cf_owner = None, cf_owner_name = None, cf_owner_email = None, cf_due = None \<rparr>"

lemma ex_pad: "pad (Suc 0) 2 = ''01''" "pad 2 2 = ''02''"
  by code_simp+

lemma finding_references_run_out_witness:
  "\<exists>f s'. create_finding ex_raiser ex_env ex_new_finding ex_db = (Inr f, s') \<and> f_reference f = ''F-02''"
proof -
  have "numbered_findings ex_raiser (cf_engagement ex_new_finding) 1 ex_db"
    by (simp add: numbered_findings_def numbered_rows_def ex_new_finding_def ex_finding_def mine_def many_in_def find_many_def
        starts_with_def references_to_def ex_pad)
  moreover have "check_new_finding ex_raiser ex_new_finding ex_db = (Inr ex_engagement, ex_db)"
    by (simp add: check_new_finding_def run_h ex_new_finding_def find_engagement_def has_id_def ex_engagement_def
        check_given_def)
  moreover note ex_pad(2)
  ultimately show ?thesis
    using finding_references_run_out [of ex_raiser ex_new_finding 1 ex_db ex_engagement ex_env] ex_findings_ok
    by (auto simp: numeral_2_eq_2 [symmetric])
qed

text \<open>A finding that management has agreed, with its due dates.\<close>

definition ex_agreed :: finding where
  "ex_agreed = ex_finding\<lparr> f_status := finding_status.AGREED, f_due := Some 5, f_original_due := Some 5,
     f_agreed_at := Some 1 \<rparr>"

definition ex_agreed_db :: db where
  "ex_agreed_db = ex_db\<lparr> db_findings := [ex_agreed] \<rparr>"

lemma ex_agreed_tables [simp]: "db_findings ex_agreed_db = [ex_agreed]" "db_users ex_agreed_db = db_users ex_db"
  by (simp_all add: ex_agreed_db_def)

lemma extensions_only_forward_witness:
  "\<exists>f' d'. the_row 30 (db_findings (extend_all
     [(ex_raiser, ex_env, \<lparr> xf_due = 9, xf_reason = ''r'' \<rparr>)] 30 ex_agreed_db)) = Some f' \<and>
     f_due f' = Some d' \<and> 5 \<le> d' \<and> f_original_due f' = Some 5"
proof -
  have "the_row 30 (db_findings ex_agreed_db) = Some ex_agreed" "f_due ex_agreed = Some 5" "f_original_due ex_agreed = Some 5"
    by (simp_all add: the_row_def has_id_def ex_agreed_def ex_finding_def)
  from extensions_only_forward [OF this, of "[(ex_raiser, ex_env, \<lparr> xf_due = 9, xf_reason = ''r'' \<rparr>)]"]
  show ?thesis by fastforce
qed

definition ex_response :: update_finding_dto where
  "ex_response =
     \<lparr> uf_engagement = None, uf_title = None, uf_severity = None, uf_condition = None, uf_criteria = None,
       uf_cause = Undefined, uf_impact = Undefined, uf_recommendation = Undefined, uf_workpaper = Undefined,
       uf_risk = Undefined, uf_control = Undefined, uf_process = Undefined, uf_entity = Undefined,
       uf_root_cause = Undefined, uf_category = Undefined, uf_repeat_of = Undefined, uf_owner = Undefined,
       uf_owner_name = Undefined, uf_owner_email = Undefined, uf_due = Undefined,
       uf_response = Value ''done'', uf_evidence = None \<rparr>"

lemma business_owner_edits_witness:
  "\<exists>v s'. update_finding ex_respondent ex_env 30 ex_response ex_agreed_db = (Inr v, s') \<and>
     f_response (af_finding v) = Some ''done'' \<and> f_title (af_finding v) = f_title ex_agreed"
proof -
  have found: "find_finding ex_respondent 30 ex_agreed_db = Some ex_agreed"
    by (simp add: find_finding_def has_id_def ex_agreed_def ex_finding_def ex_respondent_def ex_actor_def)
  have acc: "mine ex_respondent ex_agreed" "r_id ex_agreed = 30" "f_deleted_at ex_agreed = None"
      "finding_scope ex_respondent ex_agreed_db ex_agreed"
    by (simp_all add: ex_agreed_def ex_finding_def mine_def ex_respondent_def ex_actor_def finding_scope_def direct_finding_owner_def)
  have perm: "has_permission ex_respondent ''finding:manage'' = False" "has_permission ex_respondent ''finding:respond''"
    by (simp_all add: has_permission_def ex_respondent_def ex_actor_def)
  have fields: "finding_fields ex_response = [''managementResponse'']"
    by (simp add: finding_fields_def given_fields_def ex_response_def)
  have st: "f_status ex_agreed = finding_status.AGREED" by (simp add: ex_agreed_def)
  have "uf_owner ex_response = Undefined" "uf_evidence ex_response = None" by (simp_all add: ex_response_def)
  then obtain s' where run: "update_finding ex_respondent ex_env 30 ex_response ex_agreed_db =
      (Inr (with_ageing (patch_finding ex_response ex_agreed) (env_now ex_env)), s')"
    by (simp add: update_finding_def run_h found acc check_business_owner_def perm fields st
        business_owner_fields_def check_finding_open_def check_given_def Let_def)
  let ?g = "af_finding (with_ageing (patch_finding ex_response ex_agreed) (env_now ex_env))"
  from business_owner_edits [OF run] perm found
  have eq: "?g = ex_agreed\<lparr> f_response := f_response ?g, f_owner := f_owner ?g, f_owner_name := f_owner_name ?g,
      f_owner_email := f_owner_email ?g, f_due := f_due ?g \<rparr>"
    by auto
  have "f_title ?g = f_title ex_agreed" by (subst eq) simp
  then show ?thesis using run by (auto simp: with_ageing_def Let_def patch_finding_def ex_response_def)
qed

end
