(* ===== verification/Workpapers.thy ===== *)
theory Workpapers
  imports Findings
begin

text \<open>
  \<open>workpapers/workpapers.service.ts\<close>: workpapers with their version history and sign-off, review
  notes and templates. A template without a tenant is shared by all of them.
\<close>

fun workpaper_status_name :: "workpaper_status \<Rightarrow> string" where
  "workpaper_status_name workpaper_status.DRAFT = ''DRAFT''"
| "workpaper_status_name workpaper_status.PREPARED = ''PREPARED''"
| "workpaper_status_name workpaper_status.IN_REVIEW = ''IN_REVIEW''"
| "workpaper_status_name workpaper_status.REVIEW_NOTES_OPEN = ''REVIEW_NOTES_OPEN''"
| "workpaper_status_name workpaper_status.REVIEWED = ''REVIEWED''"
| "workpaper_status_name workpaper_status.SIGNED_OFF = ''SIGNED_OFF''"

section \<open>Content from a template\<close>

text \<open>\<open>value.key\<close> on a JSON value: \<open>undefined\<close> on everything that is not an object with that key.\<close>

definition json_field :: "json \<Rightarrow> string \<Rightarrow> json option" where
  "json_field j k = (case j of JObj kvs \<Rightarrow> map_of kvs k | _ \<Rightarrow> None)"

definition json_string :: "json option \<Rightarrow> string option" where
  "json_string v = (case v of Some (JStr x) \<Rightarrow> Some x | _ \<Rightarrow> None)"

definition json_truthy :: "json option \<Rightarrow> bool" where
  "json_truthy v \<longleftrightarrow>
     (case v of None \<Rightarrow> False | Some JNull \<Rightarrow> False | Some (JBool b) \<Rightarrow> b | Some (JNum n) \<Rightarrow> n \<noteq> 0
      | Some (JStr x) \<Rightarrow> x \<noteq> [] | _ \<Rightarrow> True)"

definition template_section :: "nat \<Rightarrow> json \<Rightarrow> json" where
  "template_section i s = JObj
     [(''key'', JStr (coalesce (json_string (json_field s ''key'')) (''section_'' @ show_nat (i + 1)))),
      (''title'', JStr (coalesce (coalesce_opt (json_string (json_field s ''title''))
                          (json_string (json_field s ''name''))) (''Section '' @ show_nat (i + 1)))),
      (''prompt'', case json_string (json_field s ''prompt'') of None \<Rightarrow> JNull | Some p \<Rightarrow> JStr p),
      (''required'', JBool (json_truthy (json_field s ''required''))),
      (''value'', JStr [])]"

definition content_from_template :: "json \<Rightarrow> json" where
  "content_from_template structure =
     (case json_field structure ''sections'' of
        Some (JArr xs) \<Rightarrow> JObj [(''sections'', JArr (map2 template_section [0..<length xs] xs))]
      | _ \<Rightarrow> JObj [])"

section \<open>Guards\<close>

definition notes_in :: "actor \<Rightarrow> uuid \<Rightarrow> review_note_status set \<Rightarrow> db \<Rightarrow> nat" where
  "notes_in ac i sts s = count_in ac (\<lambda>n. n_workpaper n = i \<and> n_status n \<in> sts) (db_notes s)"

definition workpaper_registry :: "actor \<Rightarrow> db \<Rightarrow> workpaper guard_registry" where
  "workpaper_registry ac s =
     (let m = sm_name workpaper_workflow;
          not_preparer = (\<lambda>gc. w_prepared_by (gc_entity gc) = None \<or> w_prepared_by (gc_entity gc) \<noteq> Some (gc_user gc))
      in register_guard m ''has_procedure_and_conclusion'' (\<lambda>gc.
        guard_ok (\<not> is_blank (w_procedure (gc_entity gc)) \<and> \<not> is_blank (w_conclusion (gc_entity gc)))
          ''Procedure and conclusion must be documented'')
     (register_guard m ''reviewer_is_not_preparer'' (\<lambda>gc.
        guard_ok (not_preparer gc) ''The preparer cannot review their own workpaper'')
     (register_guard m ''signer_is_not_preparer'' (\<lambda>gc.
        guard_ok (not_preparer gc) ''The preparer cannot sign off their own workpaper'')
     (register_guard m ''all_notes_addressed'' (\<lambda>gc.
        let n = notes_in ac (r_id (gc_entity gc)) {review_note_status.OPEN} s
        in guard_ok (n = 0) (counted n '' review note(s) not yet addressed''))
     (register_guard m ''no_open_review_notes'' (\<lambda>gc.
        let n = notes_in ac (r_id (gc_entity gc)) {review_note_status.OPEN, review_note_status.ADDRESSED} s
        in guard_ok (n = 0) (counted n '' review note(s) not yet cleared''))
      empty_registry)))))"

section \<open>Reading\<close>

definition find_workpaper :: "actor \<Rightarrow> uuid \<Rightarrow> db \<Rightarrow> workpaper option" where
  "find_workpaper ac i s = first_in ac (\<lambda>w. has_id i w \<and> w_deleted_at w = None) (db_workpapers s)"

definition assert_workpaper :: "actor \<Rightarrow> uuid \<Rightarrow> workpaper op" where
  "assert_workpaper ac i = demand_h (find_workpaper ac i) (NotFound ''Workpaper not found'')"

record workpaper_view =
  wk_workpaper :: workpaper
  wk_versions :: "workpaper_version list"
  wk_notes :: "review_note list"
  wk_evidence :: "evidence list"
  wk_findings :: "finding list"
  wk_open_notes :: nat
  wk_actions :: "workpaper_status available_action list"

definition unresolved_notes :: "uuid \<Rightarrow> db \<Rightarrow> nat" where
  "unresolved_notes i s = count_rows (\<lambda>n. n_workpaper n = i \<and>
     n_status n \<in> {review_note_status.OPEN, review_note_status.ADDRESSED}) (db_notes s)"

definition get_workpaper :: "actor \<Rightarrow> uuid \<Rightarrow> workpaper_view op" where
  "get_workpaper ac i =
     bind_h (assert_workpaper ac i) (\<lambda>w.
     bind_h (gets_h (\<lambda>s. workflow_available (workpaper_registry ac s) workpaper_workflow (w_status w) ac w (\<lambda>_. [])))
      (\<lambda>r. bind_h (lift_h r) (\<lambda>actions.
     gets_h (\<lambda>s.
       \<lparr> wk_workpaper = w,
         wk_versions = rev (filter (\<lambda>v. wv_workpaper v = i) (db_versions s)),
         wk_notes = rev (filter (\<lambda>n. n_workpaper n = i) (db_notes s)),
         wk_evidence = filter (\<lambda>v. ev_workpaper v = Some i) (db_evidence s),
         wk_findings = filter (\<lambda>f. f_workpaper f = Some i \<and> f_deleted_at f = None) (db_findings s),
         wk_open_notes = unresolved_notes i s,
         wk_actions = actions \<rparr>))))"

definition list_workpapers :: "actor \<Rightarrow> uuid \<Rightarrow> (workpaper \<times> nat \<times> nat \<times> nat) list op" where
  "list_workpapers ac e =
     bind_h (demand_h (find_engagement ac e) (NotFound ''Engagement not found'')) (\<lambda>_.
     gets_h (\<lambda>s. map (\<lambda>w. (w, unresolved_notes (r_id w) s,
         length (filter (\<lambda>v. ev_workpaper v = Some (r_id w)) (db_evidence s)),
         length (filter (\<lambda>f. f_workpaper f = Some (r_id w)) (db_findings s))))
       (many_in ac (live_workpaper_of e) (db_workpapers s))))"

definition get_version :: "actor \<Rightarrow> uuid \<Rightarrow> nat \<Rightarrow> workpaper_version op" where
  "get_version ac i n =
     then_h (assert_workpaper ac i)
       (demand_h (\<lambda>s. first_in ac (\<lambda>v. wv_workpaper v = i \<and> wv_number v = n) (db_versions s))
         (NotFound ''Version not found''))"

section \<open>Creation\<close>

record create_workpaper_dto =
  cw_reference :: string
  cw_title :: string
  cw_objective :: "string option"
  cw_procedure :: "string option"
  cw_risk :: "uuid option"
  cw_control :: "uuid option"
  cw_template :: "uuid option"
  cw_step :: "uuid option"
  cw_sort :: "int option"

definition find_template :: "actor \<Rightarrow> uuid \<Rightarrow> db \<Rightarrow> template option" where
  "find_template ac i s = find_first (\<lambda>t. (tp_tenant t = Some (ac_tenant ac) \<or> tp_tenant t = None) \<and>
     tp_id t = i \<and> tp_active t) (db_templates s)"

text \<open>The constraint \<open>@@unique([engagementId, reference])\<close>, for a row other than \<open>i\<close>.\<close>

definition workpaper_unique :: "uuid \<Rightarrow> string \<Rightarrow> uuid option \<Rightarrow> unit op" where
  "workpaper_unique e ref i = check_state_h (\<lambda>s. count_rows (\<lambda>w. w_engagement w = e \<and> w_reference w = ref \<and>
     Some (r_id w) \<noteq> i) (db_workpapers s) = 0) UniqueViolation"

definition new_workpaper ::
  "actor \<Rightarrow> env \<Rightarrow> uuid \<Rightarrow> create_workpaper_dto \<Rightarrow> json \<Rightarrow> db \<Rightarrow> workpaper" where
  "new_workpaper ac env e dto content s =
     \<lparr> r_id = db_next s, r_tenant = ac_tenant ac, r_created = env_now env, w_engagement = e,
       w_step = cw_step dto, w_template = cw_template dto, w_reference = cw_reference dto,
       w_title = cw_title dto, w_objective = cw_objective dto, w_risk = cw_risk dto,
       w_control = cw_control dto, w_procedure = cw_procedure dto, w_test_performed = None,
       w_results = None, w_exceptions = None, w_conclusion = None, w_content = content,
       w_status = workpaper_status.DRAFT, w_version = 1, w_prepared_by = Some (ac_user ac),
       w_prepared_at = None, w_reviewed_by = None, w_reviewed_at = None, w_signed_by = None,
       w_signed_at = None, w_locked = False, w_sort = coalesce (cw_sort dto) 0, w_deleted_at = None \<rparr>"

definition insert_workpaper :: "workpaper \<Rightarrow> db \<Rightarrow> db" where
  "insert_workpaper w s = s\<lparr> db_workpapers := insert_row w (db_workpapers s), db_next := db_next s + 1 \<rparr>"

definition set_step_status :: "actor \<Rightarrow> (program_step \<Rightarrow> bool) \<Rightarrow> step_status \<Rightarrow> db \<Rightarrow> db" where
  "set_step_status ac P st s = s\<lparr> db_steps := update_in ac P (\<lambda>x. x\<lparr> st_status := st \<rparr>) (db_steps s) \<rparr>"

definition template_content :: "actor \<Rightarrow> uuid option \<Rightarrow> json op" where
  "template_content ac t =
     (case t of None \<Rightarrow> return_h (JObj [])
      | Some i \<Rightarrow> bind_h (demand_h (find_template ac i) (BadRequest ''Template not found''))
                   (\<lambda>tp. return_h (content_from_template (tp_structure tp))))"

definition create_workpaper :: "actor \<Rightarrow> env \<Rightarrow> uuid \<Rightarrow> create_workpaper_dto \<Rightarrow> workpaper op" where
  "create_workpaper ac env e dto =
     bind_h (demand_h (find_engagement ac e) (NotFound ''Engagement not found'')) (\<lambda>g.
     then_h (check_h (e_stage g \<noteq> engagement_stage.CLOSED)
               (Conflict ''Closed engagements cannot receive new workpapers''))
    (bind_h (template_content ac (cw_template dto)) (\<lambda>content.
     then_h (check_given (cw_step dto) (\<lambda>i. check_state_h (\<lambda>s.
               first_in ac (\<lambda>st. has_id i st \<and> step_engagement s st = Some e) (db_steps s) \<noteq> None)
               (BadRequest ''Programme step not found on this engagement'')))
    (then_h (check_state_h (\<lambda>s. first_in ac (\<lambda>w. w_engagement w = e \<and> w_reference w = cw_reference dto)
               (db_workpapers s) = None)
               (Conflict (''Workpaper reference '' @ cw_reference dto @ '' already exists on this engagement'')))
    (then_h (workpaper_unique e (cw_reference dto) None)
    (bind_h (create_h (new_workpaper ac env e dto content) insert_workpaper) (\<lambda>w.
     then_h (check_given (cw_step dto) (\<lambda>i. modify_h (set_step_status ac
               (\<lambda>st. has_id i st \<and> st_status st = NOT_STARTED) step_status.IN_PROGRESS)))
    (then_h (audit_record ac env (audit_of ''workpaper.created'' ''Workpaper'' (r_id w) No_Snapshot
               (Workpaper_Row w) []))
     (return_h w)))))))))"

section \<open>Update\<close>

record update_workpaper_dto =
  uw_reference :: "string option"
  uw_title :: "string option"
  uw_objective :: "string field"
  uw_procedure :: "string field"
  uw_test_performed :: "string field"
  uw_results :: "string field"
  uw_exceptions :: "string field"
  uw_conclusion :: "string field"
  uw_content :: "json option"
  uw_risk :: "uuid field"
  uw_control :: "uuid field"
  uw_sort :: "int option"
  uw_summary :: "string option"

definition content_fields :: "update_workpaper_dto \<Rightarrow> string list" where
  "content_fields dto = given_fields
     [(''reference'', uw_reference dto \<noteq> None), (''title'', uw_title dto \<noteq> None),
      (''objective'', supplied (uw_objective dto)), (''procedure'', supplied (uw_procedure dto)),
      (''testPerformed'', supplied (uw_test_performed dto)), (''results'', supplied (uw_results dto)),
      (''exceptions'', supplied (uw_exceptions dto)), (''conclusion'', supplied (uw_conclusion dto)),
      (''content'', uw_content dto \<noteq> None), (''riskId'', supplied (uw_risk dto)),
      (''controlId'', supplied (uw_control dto)), (''sortOrder'', uw_sort dto \<noteq> None)]"

definition patch_workpaper :: "uuid \<Rightarrow> update_workpaper_dto \<Rightarrow> workpaper \<Rightarrow> workpaper" where
  "patch_workpaper user dto w =
     w\<lparr> w_reference := patch (uw_reference dto) (w_reference w), w_title := patch (uw_title dto) (w_title w),
        w_objective := patch_nullable (uw_objective dto) (w_objective w),
        w_procedure := patch_nullable (uw_procedure dto) (w_procedure w),
        w_test_performed := patch_nullable (uw_test_performed dto) (w_test_performed w),
        w_results := patch_nullable (uw_results dto) (w_results w),
        w_exceptions := patch_nullable (uw_exceptions dto) (w_exceptions w),
        w_conclusion := patch_nullable (uw_conclusion dto) (w_conclusion w),
        w_content := patch (uw_content dto) (w_content w),
        w_risk := patch_nullable (uw_risk dto) (w_risk w),
        w_control := patch_nullable (uw_control dto) (w_control w),
        w_sort := patch (uw_sort dto) (w_sort w), w_version := w_version w + 1,
        w_prepared_by := Some (coalesce (w_prepared_by w) user) \<rparr>"

text \<open>The snapshot of the row before the update, under the number it had.\<close>

definition add_version :: "actor \<Rightarrow> env \<Rightarrow> workpaper \<Rightarrow> string option \<Rightarrow> db \<Rightarrow> db" where
  "add_version ac env w summary s =
     s\<lparr> db_versions := insert_row
          \<lparr> r_id = db_next s, r_tenant = ac_tenant ac, r_created = env_now env, wv_workpaper = r_id w,
            wv_number = w_version w, wv_snapshot = w, wv_summary = summary, wv_by = ac_user ac \<rparr>
          (db_versions s), db_next := db_next s + 1 \<rparr>"

definition update_workpaper_row :: "actor \<Rightarrow> uuid \<Rightarrow> (workpaper \<Rightarrow> workpaper) \<Rightarrow> db \<Rightarrow> db" where
  "update_workpaper_row ac i g s = s\<lparr> db_workpapers := update_in ac (has_id i) g (db_workpapers s) \<rparr>"

definition check_editable :: "actor \<Rightarrow> workpaper \<Rightarrow> unit op" where
  "check_editable ac w =
     then_h (check_h (\<not> w_locked w) (Conflict ''Workpaper is signed off and locked; unlock it first''))
       (check_h (\<not> (w_status w = workpaper_status.IN_REVIEW \<and> \<not> has_permission ac ''workpaper:review''))
         (Conflict ''Workpaper is in review; it can be edited once notes are raised or it is reopened''))"

text \<open>A new reference that another workpaper of the engagement already has.\<close>

definition check_renamed :: "actor \<Rightarrow> uuid \<Rightarrow> update_workpaper_dto \<Rightarrow> workpaper \<Rightarrow> unit op" where
  "check_renamed ac i dto w =
     (case uw_reference dto of
        None \<Rightarrow> return_h ()
      | Some ref \<Rightarrow> when_h (ref \<noteq> [] \<and> ref \<noteq> w_reference w)
          (check_state_h (\<lambda>s. first_in ac (\<lambda>x. w_engagement x = w_engagement w \<and> w_reference x = ref \<and>
              \<not> has_id i x) (db_workpapers s) = None)
            (Conflict (''Workpaper reference '' @ ref @ '' already exists on this engagement''))))"

definition write_version ::
  "actor \<Rightarrow> env \<Rightarrow> uuid \<Rightarrow> update_workpaper_dto \<Rightarrow> workpaper \<Rightarrow> unit op" where
  "write_version ac env i dto w =
     transaction_h
       (then_h (check_state_h (\<lambda>s. count_rows (\<lambda>v. wv_workpaper v = i \<and> wv_number v = w_version w)
                  (db_versions s) = 0) UniqueViolation)
       (then_h (modify_h (add_version ac env w
                  (Some (coalesce (uw_summary dto) (''Updated '' @ join_with '', '' (content_fields dto))))))
       (then_h (workpaper_unique (w_engagement w) (patch (uw_reference dto) (w_reference w)) (Some i))
         (modify_h (update_workpaper_row ac i (patch_workpaper (ac_user ac) dto))))))"

definition update_workpaper :: "actor \<Rightarrow> env \<Rightarrow> uuid \<Rightarrow> update_workpaper_dto \<Rightarrow> workpaper op" where
  "update_workpaper ac env i dto =
     bind_h (assert_workpaper ac i) (\<lambda>before.
     then_h (check_editable ac before)
    (then_h (check_h (content_fields dto \<noteq> []) (BadRequest ''No content fields supplied''))
    (then_h (check_renamed ac i dto before)
    (let after = patch_workpaper (ac_user ac) dto before in
     then_h (write_version ac env i dto before)
    (then_h (audit_record ac env (audit_of ''workpaper.updated'' ''Workpaper'' i (Workpaper_Row before)
               (Workpaper_Row after) [(''fields'', JArr (map JStr (content_fields dto)))]))
     (return_h after))))))"

section \<open>Transitions\<close>

definition workpaper_effect :: "uuid \<Rightarrow> time \<Rightarrow> workpaper_status transition \<Rightarrow> workpaper \<Rightarrow> workpaper" where
  "workpaper_effect user now t w =
     (let w' = w\<lparr> w_status := tr_to t \<rparr>; a = tr_action t in
      if a = ''mark_prepared'' then
        w'\<lparr> w_prepared_by := Some (coalesce (w_prepared_by w) user), w_prepared_at := Some now \<rparr>
      else if a = ''reopen'' then w'\<lparr> w_prepared_at := None \<rparr>
      else if a = ''start_review'' then w'\<lparr> w_reviewed_by := Some user, w_reviewed_at := None \<rparr>
      else if a = ''approve_review'' then w'\<lparr> w_reviewed_by := Some user, w_reviewed_at := Some now \<rparr>
      else if a = ''sign_off'' then
        w'\<lparr> w_signed_by := Some user, w_signed_at := Some now, w_locked := True \<rparr>
      else if a = ''unlock'' then
        w'\<lparr> w_locked := False, w_signed_by := None, w_signed_at := None, w_reviewed_at := None,
            w_prepared_at := None \<rparr>
      else w')"

definition review_of :: "actor \<Rightarrow> string \<Rightarrow> (review_level \<times> review_decision) option" where
  "review_of ac a =
     (if a = ''raise_notes'' then Some (FIRST, CHANGES_REQUESTED)
      else if a = ''approve_review'' then Some (FIRST, review_decision.APPROVED)
      else if a = ''sign_off'' then
        Some (if AUDIT_PARTNER \<in> set (ac_roles ac) then review_level.PARTNER else SECOND, review_decision.APPROVED)
      else None)"

definition add_review :: "actor \<Rightarrow> env \<Rightarrow> uuid \<Rightarrow> string \<Rightarrow> string option \<Rightarrow> db \<Rightarrow> db" where
  "add_review ac env i a comment s =
     (case review_of ac a of
        None \<Rightarrow> s
      | Some (level, decision) \<Rightarrow>
          s\<lparr> db_reviews := insert_row
               \<lparr> r_id = db_next s, r_tenant = ac_tenant ac, r_created = env_now env,
                 rv_target_type = ''Workpaper'', rv_target = i, rv_level = level,
                 rv_reviewer = ac_user ac, rv_decision = decision, rv_comment = comment \<rparr> (db_reviews s),
             db_next := db_next s + 1 \<rparr>)"

text \<open>The programme step of the workpaper follows its sign-off and its unlocking; it must exist.\<close>

definition follow_step :: "actor \<Rightarrow> workpaper \<Rightarrow> string \<Rightarrow> unit op" where
  "follow_step ac w a =
     (case w_step w of
        None \<Rightarrow> return_h ()
      | Some st \<Rightarrow> when_h (a = ''sign_off'' \<or> a = ''unlock'')
          (then_h (check_state_h (\<lambda>s. count_in ac (has_id st) (db_steps s) \<noteq> 0) RecordRequired)
            (modify_h (set_step_status ac (has_id st)
              (if a = ''sign_off'' then step_status.COMPLETED else step_status.IN_PROGRESS)))))"

definition apply_workpaper_transition ::
  "actor \<Rightarrow> env \<Rightarrow> workpaper \<Rightarrow> workpaper_status transition \<Rightarrow> string option \<Rightarrow> unit op" where
  "apply_workpaper_transition ac env w t comment =
     transaction_h
       (then_h (modify_h (update_workpaper_row ac (r_id w) (workpaper_effect (ac_user ac) (env_now env) t)))
       (then_h (modify_h (add_review ac env (r_id w) (tr_action t) comment))
         (follow_step ac w (tr_action t))))"

definition workpaper_recipients :: "actor \<Rightarrow> workpaper \<Rightarrow> string \<Rightarrow> db \<Rightarrow> uuid option list" where
  "workpaper_recipients ac w a s =
     filter (\<lambda>u. u \<noteq> Some (ac_user ac))
       ((if a \<in> {''start_review'', ''raise_notes'', ''approve_review'', ''sign_off'', ''unlock''}
         then [w_prepared_by w] else []) @
        (if a = ''mark_prepared'' \<or> a = ''address_notes'' then
           [w_reviewed_by w,
            Option.bind (first_in ac (has_id (w_engagement w)) (db_engagements s))
              (\<lambda>e. coalesce_opt (e_manager e) (e_lead e))]
         else []))"

definition workpaper_event :: "string \<Rightarrow> string" where
  "workpaper_event a =
     (if a = ''sign_off'' then ''workpaper.signed_off''
      else if a = ''unlock'' then ''workpaper.unlocked'' else ''workpaper.status_changed'')"

definition workpaper_state_fields :: "workpaper \<Rightarrow> snapshot" where
  "workpaper_state_fields w = Fields
     [(''status'', JStr (workpaper_status_name (w_status w))), (''isLocked'', JBool (w_locked w))]"

definition transition_workpaper :: "actor \<Rightarrow> env \<Rightarrow> uuid \<Rightarrow> transition_dto \<Rightarrow> workpaper_view op" where
  "transition_workpaper ac env i dto =
     bind_h (assert_workpaper ac i) (\<lambda>w.
     bind_h (gets_h (\<lambda>s. workflow_transition (workpaper_registry ac s) workpaper_status_name workpaper_workflow
               (w_status w) (td_action dto) ac w (td_comment dto) None)) (\<lambda>r.
     bind_h (lift_h r) (\<lambda>t.
     let updated = workpaper_effect (ac_user ac) (env_now env) t w in
     then_h (apply_workpaper_transition ac env w t (td_comment dto))
    (then_h (audit_record ac env (audit_of (workpaper_event (tr_action t)) ''Workpaper'' i
               (workpaper_state_fields w) (workpaper_state_fields updated)
               [(''action'', JStr (tr_action t)),
                (''comment'', case td_comment dto of None \<Rightarrow> JNull | Some c \<Rightarrow> JStr c)]))
    (bind_h (gets_h (workpaper_recipients ac w (tr_action t))) (\<lambda>recipients.
     then_h (notify_many ac env recipients
               \<lparr> ni_type = ''workpaper.status_changed'',
                 ni_title = ''Workpaper '' @ w_reference w @ '' '' @ w_title w @ '': '' @ to_lower (tr_label t),
                 ni_body = td_comment dto,
                 ni_link = Some (''/engagements/'' @ show_nat (w_engagement w) @ ''/workpapers/'' @ show_nat i),
                 ni_payload = JObj [(''workpaperId'', JId i), (''engagementId'', JId (w_engagement w)),
                   (''action'', JStr (tr_action t))] \<rparr>)
     (get_workpaper ac i)))))))"

section \<open>Review notes\<close>

record create_note_dto =
  cn_text :: string
  cn_priority :: "review_note_priority option"
  cn_assigned_to :: "uuid option"

definition note_link :: "workpaper \<Rightarrow> string" where
  "note_link w = ''/engagements/'' @ show_nat (w_engagement w) @ ''/workpapers/'' @ show_nat (r_id w)"

definition new_note :: "actor \<Rightarrow> env \<Rightarrow> workpaper \<Rightarrow> create_note_dto \<Rightarrow> db \<Rightarrow> review_note" where
  "new_note ac env w dto s =
     \<lparr> r_id = db_next s, r_tenant = ac_tenant ac, r_created = env_now env, n_workpaper = r_id w,
       n_text = cn_text dto, n_priority = coalesce (cn_priority dto) review_note_priority.NORMAL,
       n_status = review_note_status.OPEN, n_raised_by = ac_user ac,
       n_assigned_to = coalesce_opt (cn_assigned_to dto) (w_prepared_by w), n_response = None,
       n_responded_at = None, n_cleared_by = None, n_cleared_at = None \<rparr>"

definition create_review_note :: "actor \<Rightarrow> env \<Rightarrow> uuid \<Rightarrow> create_note_dto \<Rightarrow> review_note op" where
  "create_review_note ac env i dto =
     bind_h (assert_workpaper ac i) (\<lambda>w.
     bind_h (create_h (new_note ac env w dto)
       (\<lambda>n s. s\<lparr> db_notes := insert_row n (db_notes s), db_next := db_next s + 1 \<rparr>)) (\<lambda>n.
     then_h (audit_record ac env (audit_of ''review_note.created'' ''ReviewNote'' (r_id n) No_Snapshot (Note_Row n)
               [(''workpaperId'', JId i)]))
    (then_h (when_h (n_assigned_to n \<noteq> None \<and> n_assigned_to n \<noteq> Some (ac_user ac))
               (notify ac env (n_assigned_to n)
                 \<lparr> ni_type = ''review_note.raised'',
                   ni_title = ''Review note on '' @ w_reference w @ '' '' @ w_title w,
                   ni_body = Some (cn_text dto), ni_link = Some (note_link w),
                   ni_payload = JObj [(''workpaperId'', JId i), (''reviewNoteId'', JId (r_id n))] \<rparr>))
     (return_h n))))"

record update_note_dto =
  un_response :: "string option"
  un_clear :: bool
  un_reopen :: bool

datatype note_action = Clear_Note | Reopen_Note | Address_Note string

definition note_action_name :: "note_action \<Rightarrow> string" where
  "note_action_name a = (case a of Clear_Note \<Rightarrow> ''cleared'' | Reopen_Note \<Rightarrow> ''reopened'' | Address_Note _ \<Rightarrow> ''addressed'')"

definition note_effect :: "uuid \<Rightarrow> time \<Rightarrow> note_action \<Rightarrow> review_note \<Rightarrow> review_note" where
  "note_effect user now a n =
     (case a of
        Clear_Note \<Rightarrow> n\<lparr> n_status := CLEARED, n_cleared_by := Some user, n_cleared_at := Some now \<rparr>
      | Reopen_Note \<Rightarrow> n\<lparr> n_status := review_note_status.OPEN, n_cleared_by := None, n_cleared_at := None \<rparr>
      | Address_Note x \<Rightarrow> n\<lparr> n_response := Some x, n_responded_at := Some now, n_status := ADDRESSED \<rparr>)"

text \<open>Which of the three a request asks for, and whether it may: \<open>clear\<close> wins over \<open>reopen\<close> over a response.\<close>

definition note_request :: "actor \<Rightarrow> update_note_dto \<Rightarrow> review_note \<Rightarrow> workpaper \<Rightarrow> note_action result" where
  "note_request ac dto n w =
     (let can_review = (n_raised_by n = ac_user ac \<or> has_permission ac ''workpaper:review'') in
      if un_clear dto then
        (if \<not> can_review then Inl (Forbidden ''Only the raiser or a reviewer can clear a note'')
         else if n_status n = CLEARED then Inl (Conflict ''Note is already cleared'')
         else Inr Clear_Note)
      else if un_reopen dto then
        (if \<not> can_review then Inl (Forbidden ''Only the raiser or a reviewer can reopen a note'')
         else if n_status n = review_note_status.OPEN then Inl (Conflict ''Note is already open'')
         else Inr Reopen_Note)
      else
        (case un_response dto of
           None \<Rightarrow> Inl (BadRequest ''Provide response, clear or reopen'')
         | Some x \<Rightarrow>
             if \<not> (can_review \<or> n_assigned_to n = Some (ac_user ac) \<or> w_prepared_by w = Some (ac_user ac) \<or>
                   has_permission ac ''workpaper:prepare'')
             then Inl (Forbidden ''You cannot respond to this note'')
             else if n_status n = CLEARED then Inl (Conflict ''Cleared notes cannot be responded to'')
             else Inr (Address_Note x)))"

text \<open>The joined workpaper is read by its key.\<close>

definition update_review_note :: "actor \<Rightarrow> env \<Rightarrow> uuid \<Rightarrow> update_note_dto \<Rightarrow> review_note op" where
  "update_review_note ac env i dto =
     bind_h (demand_h (\<lambda>s. first_in ac (has_id i) (db_notes s)) (NotFound ''Review note not found'')) (\<lambda>before.
     bind_h (demand_h (\<lambda>s. find_first (has_id (n_workpaper before)) (db_workpapers s)) RecordRequired) (\<lambda>w.
     bind_h (lift_h (note_request ac dto before w)) (\<lambda>a.
     let after = note_effect (ac_user ac) (env_now env) a before;
         event = ''review_note.'' @ note_action_name a;
         recipient = (case a of Address_Note _ \<Rightarrow> Some (n_raised_by before) | _ \<Rightarrow> n_assigned_to before)
     in then_h (modify_h (\<lambda>s. s\<lparr> db_notes := update_in ac (has_id i)
                  (note_effect (ac_user ac) (env_now env) a) (db_notes s) \<rparr>))
       (then_h (audit_record ac env (audit_of event ''ReviewNote'' i (Note_Row before) (Note_Row after) []))
       (then_h (when_h (recipient \<noteq> None \<and> recipient \<noteq> Some (ac_user ac))
                  (notify ac env recipient
                    \<lparr> ni_type = event,
                      ni_title = ''Review note on '' @ w_reference w @ '' '' @ note_action_name a,
                      ni_body = un_response dto, ni_link = Some (note_link w),
                      ni_payload = JObj [(''workpaperId'', JId (r_id w)), (''reviewNoteId'', JId i)] \<rparr>))
        (return_h after))))))"

section \<open>Templates\<close>

record create_template_dto =
  ct_name :: string
  ct_category :: "string option"
  ct_description :: "string option"
  ct_structure :: json
  ct_active :: "bool option"

definition list_templates :: "actor \<Rightarrow> (template \<times> bool) list op" where
  "list_templates ac = gets_h (\<lambda>s. map (\<lambda>t. (t, tp_tenant t = None))
     (find_many (\<lambda>t. (tp_tenant t = Some (ac_tenant ac) \<or> tp_tenant t = None) \<and> tp_active t) (db_templates s)))"

definition create_template :: "actor \<Rightarrow> env \<Rightarrow> create_template_dto \<Rightarrow> template op" where
  "create_template ac env dto =
     bind_h (create_h (\<lambda>s. \<lparr> tp_id = db_next s, tp_tenant = Some (ac_tenant ac), tp_name = ct_name dto,
          tp_category = ct_category dto, tp_description = ct_description dto,
          tp_structure = ct_structure dto, tp_active = coalesce (ct_active dto) True \<rparr>)
        (\<lambda>t s. s\<lparr> db_templates := insert_row t (db_templates s), db_next := db_next s + 1 \<rparr>)) (\<lambda>t.
     then_h (audit_record ac env (audit_of ''workpaper_template.created'' ''WorkpaperTemplate'' (tp_id t) No_Snapshot
               (Template_Row t) []))
      (return_h t))"

section \<open>Confinement\<close>

lemma assert_workpaper_reads [intro]: "reads (assert_workpaper ac i)"
  unfolding assert_workpaper_def by (rule reads_demand)

lemma get_workpaper_reads [intro]: "reads (get_workpaper ac i)"
  unfolding get_workpaper_def by (intro reads_intros assert_workpaper_reads)

lemma workpaper_queries_read: "reads (list_workpapers ac e)" "reads (get_version ac i n)" "reads (list_templates ac)"
  unfolding list_workpapers_def get_version_def list_templates_def
  by (intro reads_intros assert_workpaper_reads)+

lemma workpaper_checks_read [intro]:
  "reads (check_editable ac w)" "reads (check_renamed ac i dto w)" "reads (template_content ac t)"
  "reads (workpaper_unique e ref j)"
  unfolding check_editable_def check_renamed_def template_content_def workpaper_unique_def
  by (intro reads_intros)+

lemmas workpaper_confined = finding_confined confinement.keeps_reads [OF assert_workpaper_reads]
  confinement.keeps_reads [OF get_workpaper_reads] confinement.keeps_reads [OF workpaper_checks_read(1)]
  confinement.keeps_reads [OF workpaper_checks_read(2)] confinement.keeps_reads [OF workpaper_checks_read(3)]
  confinement.keeps_reads [OF workpaper_checks_read(4)]

lemma workpaper_effect_row [simp]:
  "r_id (workpaper_effect u now t w) = r_id w" "r_tenant (workpaper_effect u now t w) = r_tenant w"
  "w_status (workpaper_effect u now t w) = tr_to t" "w_version (workpaper_effect u now t w) = w_version w"
  "w_deleted_at (workpaper_effect u now t w) = w_deleted_at w"
  by (simp_all add: workpaper_effect_def Let_def)

lemma update_workpaper_row_confined:
  assumes "\<And>w. r_tenant (g w) = r_tenant w"
  shows "same_outside (ac_tenant ac) s (update_workpaper_row ac i g s)" "audit_grows s (update_workpaper_row ac i g s)"
  using assms by (simp_all add: update_workpaper_row_def confined_writes)

lemma workpaper_writes_confined:
  "same_outside (ac_tenant ac) s (set_step_status ac P st s)" "audit_grows s (set_step_status ac P st s)"
  "same_outside (ac_tenant ac) s (add_version ac env w sm s)" "audit_grows s (add_version ac env w sm s)"
  "same_outside (ac_tenant ac) s (add_review ac env i a c s)" "audit_grows s (add_review ac env i a c s)"
  by (simp_all add: set_step_status_def add_version_def add_review_def confined_writes split: option.split prod.split)

lemma create_workpaper_confined: "keeps (confined (ac_tenant ac)) (create_workpaper ac env e dto)"
  unfolding create_workpaper_def
  by (intro confined_steps workpaper_confined workpaper_writes_confined)
     (simp_all add: insert_workpaper_def new_workpaper_def confined_writes)

lemma update_workpaper_confined: "keeps (confined (ac_tenant ac)) (update_workpaper ac env i dto)"
  unfolding update_workpaper_def write_version_def
  by (intro confined_steps workpaper_confined workpaper_writes_confined update_workpaper_row_confined)
     (simp_all add: patch_workpaper_def)

lemma transition_workpaper_confined: "keeps (confined (ac_tenant ac)) (transition_workpaper ac env i dto)"
  unfolding transition_workpaper_def apply_workpaper_transition_def follow_step_def
  by (intro confined_steps workpaper_confined workpaper_writes_confined update_workpaper_row_confined) simp_all

lemma note_effect_tenant [simp]: "r_tenant (note_effect u now a n) = r_tenant n"
  by (simp add: note_effect_def split: note_action.split)

lemma create_note_confined: "keeps (confined (ac_tenant ac)) (create_review_note ac env i dto)"
  unfolding create_review_note_def
  by (intro confined_steps workpaper_confined) (simp_all add: confined_writes new_note_def)

lemma update_note_confined: "keeps (confined (ac_tenant ac)) (update_review_note ac env i dto)"
  unfolding update_review_note_def Let_def
  by (intro confined_steps workpaper_confined) (simp_all add: confined_writes)

lemma create_template_confined: "keeps (confined (ac_tenant ac)) (create_template ac env dto)"
  unfolding create_template_def
  by (intro confined_steps workpaper_confined) (simp_all add: confined_writes insert_row_def)

end
