(* ===== verification/Workpaper_Life.thy ===== *)
theory Workpaper_Life
  imports Workpapers Samples
begin

text \<open>
  The life cycle of a workpaper: its guards on the database, the outcome of the transition
  endpoint, separation of preparer, reviewer and signer, the invariant of the table and of its
  version history under every request, the edits of a workpaper and its lock, review notes, and
  the content that a template gives.
\<close>

section \<open>What a transition does\<close>

definition workpaper_passes :: "actor \<Rightarrow> db \<Rightarrow> workpaper \<Rightarrow> transition_dto \<Rightarrow> string \<Rightarrow> bool" where
  "workpaper_passes ac s w dto =
     passes (workpaper_registry ac s) (sm_name workpaper_workflow)
       \<lparr> gc_entity = w, gc_user = ac_user ac, gc_permissions = ac_permissions ac,
         gc_action = td_action dto, gc_comment = td_comment dto \<rparr>"

lemma workpaper_guards:
  "workpaper_passes ac s w dto ''has_procedure_and_conclusion'' \<longleftrightarrow>
     \<not> is_blank (w_procedure w) \<and> \<not> is_blank (w_conclusion w)"
  "workpaper_passes ac s w dto ''reviewer_is_not_preparer'' \<longleftrightarrow> w_prepared_by w \<noteq> Some (ac_user ac)"
  "workpaper_passes ac s w dto ''signer_is_not_preparer'' \<longleftrightarrow> w_prepared_by w \<noteq> Some (ac_user ac)"
  "workpaper_passes ac s w dto ''all_notes_addressed'' \<longleftrightarrow>
     (\<forall>n \<in> set (db_notes s). mine ac n \<and> n_workpaper n = r_id w \<longrightarrow> n_status n \<noteq> review_note_status.OPEN)"
  "workpaper_passes ac s w dto ''no_open_review_notes'' \<longleftrightarrow>
     (\<forall>n \<in> set (db_notes s). mine ac n \<and> n_workpaper n = r_id w \<longrightarrow> n_status n = CLEARED)"
proof -
  note d = workpaper_passes_def passes_def workpaper_registry_def Let_def get_guard_register guard_ok_passes
  show "workpaper_passes ac s w dto ''has_procedure_and_conclusion'' \<longleftrightarrow>
     \<not> is_blank (w_procedure w) \<and> \<not> is_blank (w_conclusion w)"
    by (simp add: d del: is_blank.simps)
  show "workpaper_passes ac s w dto ''reviewer_is_not_preparer'' \<longleftrightarrow> w_prepared_by w \<noteq> Some (ac_user ac)"
    "workpaper_passes ac s w dto ''signer_is_not_preparer'' \<longleftrightarrow> w_prepared_by w \<noteq> Some (ac_user ac)"
    by (auto simp: d)
  show "workpaper_passes ac s w dto ''all_notes_addressed'' \<longleftrightarrow>
     (\<forall>n \<in> set (db_notes s). mine ac n \<and> n_workpaper n = r_id w \<longrightarrow> n_status n \<noteq> review_note_status.OPEN)"
    by (auto simp: d notes_in_def table_simps)
  have "st \<notin> {review_note_status.OPEN, review_note_status.ADDRESSED} \<longleftrightarrow> st = CLEARED" for st
    by (cases st) simp_all
  then show "workpaper_passes ac s w dto ''no_open_review_notes'' \<longleftrightarrow>
     (\<forall>n \<in> set (db_notes s). mine ac n \<and> n_workpaper n = r_id w \<longrightarrow> n_status n = CLEARED)"
    by (auto simp: d notes_in_def table_simps)
qed

lemma find_workpaper_Some:
  "find_workpaper ac i s = Some w \<Longrightarrow>
   w \<in> set (db_workpapers s) \<and> mine ac w \<and> r_id w = i \<and> w_deleted_at w = None"
  by (auto simp: find_workpaper_def has_id_def dest: first_in_Some)

lemma workflow_accepts_workpaper:
  "workflow_transition (workpaper_registry ac s) workpaper_status_name workpaper_workflow (w_status w)
      (td_action dto) ac w (td_comment dto) None = Inr t \<longleftrightarrow>
   find_transition workpaper_workflow (w_status w) (td_action dto) = Some t \<and>
   tr_permission t \<in> set (ac_permissions ac) \<and>
   list_all (workpaper_passes ac s w dto) (coalesce (tr_guards t) [])"
proof -
  have p: "workpaper_passes ac s w dto = passes (workpaper_registry ac s) (sm_name workpaper_workflow)
    \<lparr> gc_entity = w, gc_user = ac_user ac, gc_permissions = ac_permissions ac,
      gc_action = td_action dto, gc_comment = td_comment dto \<rparr>"
    by (simp add: workpaper_passes_def fun_eq_iff)
  show ?thesis
    by (auto simp: workflow_transition_ok_iff p guards_of_def dest: find_transition_Some)
qed

lemma set_step_status_tables [simp]:
  "db_workpapers (set_step_status ac P st s) = db_workpapers s"
  "db_versions (set_step_status ac P st s) = db_versions s"
  "db_notes (set_step_status ac P st s) = db_notes s"
  "db_reviews (set_step_status ac P st s) = db_reviews s"
  "db_next (set_step_status ac P st s) = db_next s"
  by (simp_all add: set_step_status_def)

lemma update_workpaper_row_tables [simp]:
  "db_workpapers (update_workpaper_row ac i g s) = update_in ac (has_id i) g (db_workpapers s)"
  "db_versions (update_workpaper_row ac i g s) = db_versions s"
  "db_notes (update_workpaper_row ac i g s) = db_notes s"
  "db_reviews (update_workpaper_row ac i g s) = db_reviews s"
  "db_steps (update_workpaper_row ac i g s) = db_steps s"
  "db_next (update_workpaper_row ac i g s) = db_next s"
  by (simp_all add: update_workpaper_row_def)

lemma add_review_tables [simp]:
  "db_workpapers (add_review ac env i a c s) = db_workpapers s"
  "db_versions (add_review ac env i a c s) = db_versions s"
  "db_notes (add_review ac env i a c s) = db_notes s"
  "db_steps (add_review ac env i a c s) = db_steps s"
  by (simp_all add: add_review_def split: option.split prod.split)

lemma add_version_tables [simp]:
  "db_workpapers (add_version ac env w sm s) = db_workpapers s"
  "db_next (add_version ac env w sm s) = db_next s + 1"
  by (simp_all add: add_version_def)

text \<open>The programme steps once action \<open>a\<close> has been taken on a workpaper.\<close>

definition steps_after :: "actor \<Rightarrow> workpaper \<Rightarrow> string \<Rightarrow> program_step list \<Rightarrow> program_step list" where
  "steps_after ac w a steps =
     (case w_step w of
        None \<Rightarrow> steps
      | Some st \<Rightarrow>
          if a = ''sign_off'' then update_in ac (has_id st) (\<lambda>x. x\<lparr> st_status := step_status.COMPLETED \<rparr>) steps
          else if a = ''unlock'' then update_in ac (has_id st) (\<lambda>x. x\<lparr> st_status := step_status.IN_PROGRESS \<rparr>) steps
          else steps)"

lemma apply_workpaper_transition_cases:
  assumes "apply_workpaper_transition ac env w t c s = (r, s')"
  shows "(s' = s \<and> \<not> is_ok r) \<or>
    (r = Inr () \<and>
     db_workpapers s' = update_in ac (has_id (r_id w)) (workpaper_effect (ac_user ac) (env_now env) t) (db_workpapers s) \<and>
     db_versions s' = db_versions s \<and> db_notes s' = db_notes s \<and>
     db_steps s' = steps_after ac w (tr_action t) (db_steps s))"
  using assms unfolding apply_workpaper_transition_def follow_step_def
  by (auto simp: run_h set_step_status_def steps_after_def split: option.splits if_splits)

lemma workpaper_transition_run:
  assumes "transition_workpaper ac env i dto s = (r, s')"
  shows "(s' = s \<and> \<not> is_ok r) \<or>
    (\<exists>w t. find_workpaper ac i s = Some w \<and>
       find_transition workpaper_workflow (w_status w) (td_action dto) = Some t \<and>
       tr_permission t \<in> set (ac_permissions ac) \<and>
       list_all (workpaper_passes ac s w dto) (coalesce (tr_guards t) []) \<and>
       db_workpapers s' = update_in ac (has_id i) (workpaper_effect (ac_user ac) (env_now env) t) (db_workpapers s) \<and>
       db_versions s' = db_versions s \<and> db_notes s' = db_notes s \<and>
       db_steps s' = steps_after ac w (tr_action t) (db_steps s))"
proof -
  have g: "get_workpaper ac i x = (y, z) \<Longrightarrow> z = x" for x y z
    using get_workpaper_reads by (rule readsD)
  from assms [unfolded transition_workpaper_def] assert_workpaper_reads show ?thesis
  proof (cases rule: bind_check_cases)
    case (2 w)
    have w: "find_workpaper ac i s = Some w"
      using 2(1) by (auto simp: assert_workpaper_def run_h split: option.splits)
    then have "r_id w = i" using find_workpaper_Some by blast
    let ?wt = "workflow_transition (workpaper_registry ac s) workpaper_status_name workpaper_workflow (w_status w)
      (td_action dto) ac w (td_comment dto) None"
    show ?thesis
    proof (cases ?wt)
      case (Inl e)
      then have "s' = s" "\<not> is_ok r" using 2(2) by (auto simp: run_h)
      then show ?thesis by blast
    next
      case (Inr t)
      obtain q z where ap: "apply_workpaper_transition ac env w t (td_comment dto) s = (q, z)"
        by (cases "apply_workpaper_transition ac env w t (td_comment dto) s")
      show ?thesis
      proof (cases q)
        case (Inl e)
        then have "s' = s" "\<not> is_ok r"
          using 2(2) Inr ap apply_workpaper_transition_cases [OF ap] by (auto simp: run_h Let_def)
        then show ?thesis by blast
      next
        case ok: (Inr u)
        obtain uids inp ev where "s' = notified_many ac env uids inp (audited ac env ev z)"
          using 2(2) Inr ap ok by (auto simp: run_h Let_def split: prod.splits sum.splits dest!: g)
        then show ?thesis
          using w Inr [unfolded workflow_accepts_workpaper] apply_workpaper_transition_cases [OF ap] ok \<open>r_id w = i\<close>
          by simp
      qed
    qed
  qed simp
qed

text \<open>
  The transition endpoint of workpapers either changes nothing and reports an error, or it found
  a live workpaper of the caller's tenant, the action leads on from its status, the caller holds
  its permission and every guard passes; then the workpaper gets the new status and the fields of
  the action, its versions and notes stay as they are, and the programme step it documents is
  completed by \<open>sign_off\<close>, back in progress by \<open>unlock\<close> and untouched by the other actions.
\<close>

theorem workpaper_transition_outcome:
  assumes "transition_workpaper ac env i dto s = (r, s')"
  shows "(s' = s \<and> \<not> is_ok r) \<or>
    (\<exists>w t. find_workpaper ac i s = Some w \<and>
       find_transition workpaper_workflow (w_status w) (td_action dto) = Some t \<and>
       tr_permission t \<in> set (ac_permissions ac) \<and>
       list_all (workpaper_passes ac s w dto) (coalesce (tr_guards t) []) \<and>
       db_workpapers s' = update_in ac (has_id i) (workpaper_effect (ac_user ac) (env_now env) t) (db_workpapers s) \<and>
       db_versions s' = db_versions s \<and> db_notes s' = db_notes s \<and>
       db_steps s' = steps_after ac w (tr_action t) (db_steps s))"
  by (rule workpaper_transition_run [OF assms])

lemma workpaper_action_guards:
  assumes "find_transition workpaper_workflow st a = Some t"
  shows "coalesce (tr_guards t) [] =
    (if a = ''mark_prepared'' then [''has_procedure_and_conclusion'']
     else if a = ''start_review'' then [''reviewer_is_not_preparer'']
     else if a = ''address_notes'' then [''all_notes_addressed'']
     else if a = ''approve_review'' then [''no_open_review_notes'', ''reviewer_is_not_preparer'']
     else if a = ''sign_off'' then [''signer_is_not_preparer''] else [])"
proof -
  have t: "t \<in> set (sm_transitions workpaper_workflow)" "tr_action t = a"
    using find_transition_Some [OF assms] by simp_all
  from imageI [OF t(1), of "\<lambda>t. (tr_action t, tr_guards t)"] show ?thesis
    unfolding workpaper_workflow_def t(2) by (simp, elim disjE) simp_all
qed

lemma workpaper_moves:
  assumes "t \<in> set (sm_transitions workpaper_workflow)"
  shows "(tr_from t, tr_action t, tr_to t) = (workpaper_status.DRAFT, ''mark_prepared'', PREPARED) \<or>
     (tr_from t, tr_action t, tr_to t) = (PREPARED, ''reopen'', workpaper_status.DRAFT) \<or>
     (tr_from t, tr_action t, tr_to t) = (PREPARED, ''start_review'', IN_REVIEW) \<or>
     (tr_from t, tr_action t, tr_to t) = (IN_REVIEW, ''raise_notes'', REVIEW_NOTES_OPEN) \<or>
     (tr_from t, tr_action t, tr_to t) = (REVIEW_NOTES_OPEN, ''address_notes'', PREPARED) \<or>
     (tr_from t, tr_action t, tr_to t) = (IN_REVIEW, ''approve_review'', REVIEWED) \<or>
     (tr_from t, tr_action t, tr_to t) = (REVIEWED, ''sign_off'', SIGNED_OFF) \<or>
     (tr_from t, tr_action t, tr_to t) = (SIGNED_OFF, ''unlock'', workpaper_status.DRAFT)"
  using imageI [OF assms, of "\<lambda>t. (tr_from t, tr_action t, tr_to t)"]
  unfolding workpaper_workflow_def by simp


section \<open>When a transition succeeds\<close>

lemma workpaper_guards_registered: "guards_registered (workpaper_registry ac s) workpaper_workflow (\<lambda>_. [])"
  by (simp add: guards_registered_def workpaper_workflow_def guards_of_def has_guard_def workpaper_registry_def
      Let_def get_guard_register)

lemma get_workpaper_succeeds:
  assumes "find_workpaper ac i s = Some w"
  shows "\<exists>v. get_workpaper ac i s = (Inr v, s)"
proof -
  obtain rs where "workflow_available (workpaper_registry ac s) workpaper_workflow (w_status w) ac w (\<lambda>_. []) = Inr rs"
    using workflow_available_ok [OF workpaper_guards_registered] by blast
  then show ?thesis by (simp add: get_workpaper_def assert_workpaper_def run_h assms)
qed

definition step_exists :: "actor \<Rightarrow> workpaper \<Rightarrow> string \<Rightarrow> db \<Rightarrow> bool" where
  "step_exists ac w a s \<longleftrightarrow>
     (a = ''sign_off'' \<or> a = ''unlock'' \<longrightarrow>
        (case w_step w of None \<Rightarrow> True | Some i \<Rightarrow> \<exists>st \<in> set (db_steps s). mine ac st \<and> r_id st = i))"

lemma follow_step_ok: "is_ok (fst (follow_step ac w a s)) \<longleftrightarrow> step_exists ac w a s"
proof -
  have n: "count_in ac (has_id i) (db_steps s) \<noteq> 0 \<longleftrightarrow> (\<exists>st \<in> set (db_steps s). mine ac st \<and> r_id st = i)" for i
    unfolding count_in_eq_0_iff by (auto simp: has_id_def)
  show ?thesis
  proof (cases "a = ''sign_off'' \<or> a = ''unlock''")
    case True
    show ?thesis unfolding follow_step_def step_exists_def n [symmetric] using True
      by (cases "w_step w") (simp_all add: when_h_def run_h)
  next
    case False
    then show ?thesis by (simp add: follow_step_def step_exists_def run_h split: option.split)
  qed
qed

lemma apply_workpaper_transition_ok:
  "is_ok (fst (apply_workpaper_transition ac env w t c s)) \<longleftrightarrow> step_exists ac w (tr_action t) s"
proof -
  let ?s = "add_review ac env (r_id w) (tr_action t) c
    (update_workpaper_row ac (r_id w) (workpaper_effect (ac_user ac) (env_now env) t) s)"
  have "is_ok (fst (apply_workpaper_transition ac env w t c s)) = is_ok (fst (follow_step ac w (tr_action t) ?s))"
    by (cases "follow_step ac w (tr_action t) ?s")
      (auto simp: apply_workpaper_transition_def run_h split: sum.split)
  also have "\<dots> = step_exists ac w (tr_action t) s"
    unfolding follow_step_ok by (cases "w_step w") (simp_all add: step_exists_def)
  finally show ?thesis .
qed

lemma workpaper_transition_ok_iff:
  "is_ok (fst (transition_workpaper ac env i dto s)) \<longleftrightarrow>
   (\<exists>w t. find_workpaper ac i s = Some w \<and>
      find_transition workpaper_workflow (w_status w) (td_action dto) = Some t \<and>
      tr_permission t \<in> set (ac_permissions ac) \<and>
      list_all (workpaper_passes ac s w dto) (coalesce (tr_guards t) []) \<and>
      step_exists ac w (td_action dto) s)"
proof (cases "find_workpaper ac i s")
  case None
  then show ?thesis by (simp add: transition_workpaper_def assert_workpaper_def run_h)
next
  case (Some w)
  let ?wt = "workflow_transition (workpaper_registry ac s) workpaper_status_name workpaper_workflow (w_status w)
    (td_action dto) ac w (td_comment dto) None"
  have i: "r_id w = i" using find_workpaper_Some [OF Some] by simp
  show ?thesis
  proof (cases ?wt)
    case (Inl e)
    then have "\<not> is_ok (fst (transition_workpaper ac env i dto s))"
      by (simp add: transition_workpaper_def assert_workpaper_def run_h Some)
    moreover have "?wt \<noteq> Inr t" for t using Inl by simp
    ultimately show ?thesis using Some unfolding workflow_accepts_workpaper by auto
  next
    case (Inr t)
    note acc = Inr [unfolded workflow_accepts_workpaper]
    have a: "tr_action t = td_action dto" using find_transition_Some [OF conjunct1 [OF acc]] by simp
    obtain q z where ap: "apply_workpaper_transition ac env w t (td_comment dto) s = (q, z)"
      by (cases "apply_workpaper_transition ac env w t (td_comment dto) s")
    have "is_ok (fst (transition_workpaper ac env i dto s)) \<longleftrightarrow> is_ok q"
    proof (cases q)
      case (Inl e)
      then show ?thesis
        using Inr ap by (simp add: transition_workpaper_def assert_workpaper_def run_h Some Let_def)
    next
      case q: (Inr u)
      have "db_workpapers z = update_in ac (has_id i) (workpaper_effect (ac_user ac) (env_now env) t) (db_workpapers s)"
        using apply_workpaper_transition_cases [OF ap] q i by simp
      then have "find_workpaper ac i x = Some (workpaper_effect (ac_user ac) (env_now env) t w)"
        if "db_workpapers x = db_workpapers z" for x
        using Some that unfolding find_workpaper_def
        by (auto intro!: first_in_rewritten [where Q = "\<lambda>w. w_deleted_at w = None"])
      then have "\<exists>v. get_workpaper ac i x = (Inr v, x)" if "db_workpapers x = db_workpapers z" for x
        using get_workpaper_succeeds that by blast
      then have "is_ok (fst (get_workpaper ac i x))" if "db_workpapers x = db_workpapers z" for x
        using that by (metis fst_conv is_ok.simps(2))
      then show ?thesis
        using Inr ap q by (simp add: transition_workpaper_def assert_workpaper_def run_h Some Let_def)
    qed
    then show ?thesis
      using apply_workpaper_transition_ok [of ac env w t "td_comment dto" s] ap acc Some a by auto
  qed
qed

text \<open>
  C16. The transition endpoint succeeds exactly when it may: when a live workpaper of the tenant is
  found, the action leads on from its status, the caller holds the permission, every guard passes,
  and, for a sign-off or an unlocking, the programme step it documents is still there.
\<close>

theorem workpaper_transition_possible:
  "is_ok (fst (transition_workpaper ac env i dto s)) \<longleftrightarrow>
   (\<exists>w t. find_workpaper ac i s = Some w \<and>
      find_transition workpaper_workflow (w_status w) (td_action dto) = Some t \<and>
      tr_permission t \<in> set (ac_permissions ac) \<and>
      list_all (workpaper_passes ac s w dto) (coalesce (tr_guards t) []) \<and>
      step_exists ac w (td_action dto) s)"
  by (rule workpaper_transition_ok_iff)

section \<open>The status follows the machine\<close>

definition workpaper_status_of :: "uuid \<Rightarrow> db \<Rightarrow> workpaper_status option" where
  "workpaper_status_of i s = map_option w_status (the_row i (db_workpapers s))"

definition perform_workpaper ::
  "actor \<Rightarrow> env \<Rightarrow> uuid \<Rightarrow> string \<Rightarrow> string option \<Rightarrow> db \<Rightarrow> db" where
  "perform_workpaper ac env i a c s =
     snd (transition_workpaper ac env i \<lparr> td_action = a, td_comment = c \<rparr> s)"

lemma perform_workpaper_cases:
  obtains "perform_workpaper ac env i a c s = s"
  | w t where "find_workpaper ac i s = Some w" "find_transition workpaper_workflow (w_status w) a = Some t"
    "tr_permission t \<in> set (ac_permissions ac)"
    "db_workpapers (perform_workpaper ac env i a c s) =
       update_in ac (has_id i) (workpaper_effect (ac_user ac) (env_now env) t) (db_workpapers s)"
proof -
  obtain r s' where run: "transition_workpaper ac env i \<lparr> td_action = a, td_comment = c \<rparr> s = (r, s')"
    by (cases "transition_workpaper ac env i \<lparr> td_action = a, td_comment = c \<rparr> s")
  then show thesis
    using that workpaper_transition_run [OF run] unfolding perform_workpaper_def by auto
qed

interpretation workpaper_handler: row_endpoint workpaper_workflow db_workpapers w_status perform_workpaper
proof unfold_locales
  fix ac env i a c s
  show "db_workpapers (perform_workpaper ac env i a c s) = db_workpapers s \<or>
     (\<exists>r t g. r \<in> set (db_workpapers s) \<and> mine ac r \<and> r_id r = i \<and>
        find_transition workpaper_workflow (w_status r) a = Some t \<and> tr_permission t \<in> set (ac_permissions ac) \<and>
        db_workpapers (perform_workpaper ac env i a c s) = update_in ac (has_id i) g (db_workpapers s) \<and>
        (\<forall>x. r_id x = i \<longrightarrow> r_id (g x) = i \<and> w_status (g x) = tr_to t))"
  proof (cases rule: perform_workpaper_cases [of ac env i a c s])
    case (2 w t)
    then show ?thesis using find_workpaper_Some [OF 2(1)]
      by (intro disjI2 exI [of _ w] exI [of _ t] exI [of _ "workpaper_effect (ac_user ac) (env_now env) t"]) simp
  qed simp
qed

text \<open>
  Whatever transition requests reach the workpapers API, in any order and by whichever users, the
  status of a workpaper only moves along a run of the declared machine.
\<close>

theorem workpaper_status_follows_workflow:
  assumes "workpaper_status_of i s = Some from"
    and "workpaper_status_of i (workpaper_handler.perform_all calls s) = Some st"
  shows "\<exists>acts. sm_run workpaper_workflow from acts = Some st"
  by (rule workpaper_handler.status_run [folded workpaper_status_of_def, OF assms])

section \<open>The invariant of workpapers\<close>

text \<open>
  A workpaper is locked and signed exactly while it is signed off; it always has a preparer; from
  the start of its review to its sign-off it has a reviewer other than the preparer, and a signer
  other than the preparer signs it.
\<close>

definition workpaper_ok :: "workpaper \<Rightarrow> bool" where
  "workpaper_ok w \<longleftrightarrow>
     1 \<le> w_version w \<and> w_prepared_by w \<noteq> None \<and>
     (w_locked w \<longleftrightarrow> w_status w = SIGNED_OFF) \<and> (w_signed_by w \<noteq> None \<longleftrightarrow> w_status w = SIGNED_OFF) \<and>
     (w_status w = SIGNED_OFF \<longrightarrow> w_signed_at w \<noteq> None \<and> w_signed_by w \<noteq> w_prepared_by w) \<and>
     (w_status w \<in> {IN_REVIEW, REVIEW_NOTES_OPEN, REVIEWED, SIGNED_OFF} \<longrightarrow>
        w_reviewed_by w \<noteq> None \<and> w_reviewed_by w \<noteq> w_prepared_by w)"

definition note_ok :: "review_note \<Rightarrow> bool" where
  "note_ok n \<longleftrightarrow> (n_status n = CLEARED \<longleftrightarrow> n_cleared_by n \<noteq> None) \<and>
     (n_cleared_by n = None \<longleftrightarrow> n_cleared_at n = None)"

text \<open>The numbers of the versions of workpaper \<open>i\<close>, in the order they were written.\<close>

definition version_numbers :: "uuid \<Rightarrow> workpaper_version list \<Rightarrow> nat list" where
  "version_numbers i vs = map wv_number (filter (\<lambda>v. wv_workpaper v = i) vs)"

definition versions_ok :: "nat \<Rightarrow> workpaper list \<Rightarrow> workpaper_version list \<Rightarrow> bool" where
  "versions_ok n ws vs \<longleftrightarrow>
     (\<forall>w \<in> set ws. version_numbers (r_id w) vs = [1..<w_version w]) \<and> (\<forall>v \<in> set vs. wv_workpaper v < n)"

definition references_unique :: "workpaper list \<Rightarrow> bool" where
  "references_unique ws \<longleftrightarrow>
     (\<forall>w \<in> set ws. \<forall>q \<in> set ws. w_engagement w = w_engagement q \<and> w_reference w = w_reference q \<longrightarrow> r_id w = r_id q)"

definition workpapers_ok :: "db \<Rightarrow> bool" where
  "workpapers_ok s \<longleftrightarrow> table_ok workpaper_ok (db_next s) (db_workpapers s) \<and>
     table_ok note_ok (db_next s) (db_notes s) \<and>
     versions_ok (db_next s) (db_workpapers s) (db_versions s) \<and> references_unique (db_workpapers s)"

text \<open>The calls of the workpapers API.\<close>

datatype workpaper_call =
    Create_Workpaper uuid create_workpaper_dto
  | Update_Workpaper uuid update_workpaper_dto
  | Transition_Workpaper uuid transition_dto
  | Create_Note uuid create_note_dto
  | Update_Note uuid update_note_dto
  | Create_Template create_template_dto

fun call_workpaper :: "actor \<Rightarrow> env \<Rightarrow> workpaper_call \<Rightarrow> db \<Rightarrow> db" where
  "call_workpaper ac env (Create_Workpaper e dto) s = snd (create_workpaper ac env e dto s)"
| "call_workpaper ac env (Update_Workpaper i udto) s = snd (update_workpaper ac env i udto s)"
| "call_workpaper ac env (Transition_Workpaper i tdto) s = snd (transition_workpaper ac env i tdto s)"
| "call_workpaper ac env (Create_Note i cdto) s = snd (create_review_note ac env i cdto s)"
| "call_workpaper ac env (Update_Note i ndto) s = snd (update_review_note ac env i ndto s)"
| "call_workpaper ac env (Create_Template pdto) s = snd (create_template ac env pdto s)"

definition call_workpapers :: "(actor \<times> env \<times> workpaper_call) list \<Rightarrow> db \<Rightarrow> db" where
  "call_workpapers calls s = fold (\<lambda>(ac, env, c). call_workpaper ac env c) calls s"

lemma call_workpaper_confined: "confined (ac_tenant ac) s (call_workpaper ac env c s)"
proof -
  have k: "confined (ac_tenant ac) s (snd (m s))" if "keeps (confined (ac_tenant ac)) m" for m :: "'a op"
    using that by (simp add: keeps_def)
  show ?thesis
    using k [OF create_workpaper_confined] k [OF update_workpaper_confined] k [OF transition_workpaper_confined]
      k [OF create_note_confined] k [OF update_note_confined] k [OF create_template_confined]
    by (cases c) simp_all
qed

text \<open>What each call does to the workpapers, their versions and the notes.\<close>

lemma create_workpaper_cases:
  assumes "create_workpaper ac env e dto s = (r, s')"
  shows "(s' = s \<and> \<not> is_ok r) \<or>
    (\<exists>w content. w = new_workpaper ac env e dto content s \<and>
       (\<forall>q \<in> set (db_workpapers s). \<not> (w_engagement q = e \<and> w_reference q = cw_reference dto)) \<and>
       db_workpapers s' = db_workpapers s @ [w] \<and> db_versions s' = db_versions s \<and>
       db_notes s' = db_notes s \<and> db_next s < db_next s' \<and> r = Inr w)"
  using assms [unfolded create_workpaper_def] reads_demand
proof (cases rule: bind_check_cases)
  case (2 g)
  from 2(2) reads_check show ?thesis
  proof (cases rule: then_check_cases)
    case stage: 2
    from stage(2) workpaper_checks_read(3) show ?thesis
    proof (cases rule: bind_check_cases)
      case content: (2 c)
      have "reads (check_given (cw_step dto) (\<lambda>i. check_state_h (\<lambda>s.
               first_in ac (\<lambda>st. has_id i st \<and> step_engagement s st = Some e) (db_steps s) \<noteq> None)
               (BadRequest ''Programme step not found on this engagement'')))"
        by (intro check_given_reads reads_check_state)
      from content(2) this show ?thesis
      proof (cases rule: then_check_cases)
        case step: 2
        have uniq: "count_rows (\<lambda>w. w_engagement w = e \<and> w_reference w = cw_reference dto) (db_workpapers s) = 0 \<Longrightarrow>
            \<forall>q \<in> set (db_workpapers s). \<not> (w_engagement q = e \<and> w_reference q = cw_reference dto)"
          by (auto simp: table_simps)
        have "(s' = s \<and> \<not> is_ok r) \<or>
          (count_rows (\<lambda>w. w_engagement w = e \<and> w_reference w = cw_reference dto) (db_workpapers s) = 0 \<and>
           db_workpapers s' = db_workpapers s @ [new_workpaper ac env e dto c s] \<and>
           db_versions s' = db_versions s \<and> db_notes s' = db_notes s \<and> db_next s < db_next s' \<and>
           r = Inr (new_workpaper ac env e dto c s))"
          using step(2) unfolding workpaper_unique_def
          by (auto simp: run_h insert_workpaper_def insert_row_def check_given_def audited_def
              split: option.splits if_splits)
        then show ?thesis using uniq by blast
      qed simp
    qed simp
  qed simp
qed simp


lemma update_workpaper_cases:
  assumes "update_workpaper ac env i dto s = (r, s')"
  shows "(s' = s \<and> \<not> is_ok r) \<or>
    (\<exists>w summary. find_workpaper ac i s = Some w \<and> \<not> w_locked w \<and>
       (w_status w = IN_REVIEW \<longrightarrow> has_permission ac ''workpaper:review'') \<and> content_fields dto \<noteq> [] \<and>
       (\<forall>q \<in> set (db_workpapers s). w_engagement q = w_engagement w \<and>
          w_reference q = patch (uw_reference dto) (w_reference w) \<longrightarrow> r_id q = i) \<and>
       db_workpapers s' = update_in ac (has_id i) (patch_workpaper (ac_user ac) dto) (db_workpapers s) \<and>
       db_versions s' = db_versions s @
         [\<lparr> r_id = db_next s, r_tenant = ac_tenant ac, r_created = env_now env, wv_workpaper = i,
            wv_number = w_version w, wv_snapshot = w, wv_summary = summary, wv_by = ac_user ac \<rparr>] \<and>
       db_notes s' = db_notes s \<and> r = Inr (patch_workpaper (ac_user ac) dto w))"
  using assms [unfolded update_workpaper_def] assert_workpaper_reads
proof (cases rule: bind_check_cases)
  case (2 w)
  have w: "find_workpaper ac i s = Some w"
    using 2(1) by (auto simp: assert_workpaper_def run_h split: option.splits)
  then have i: "r_id w = i" using find_workpaper_Some by blast
  from 2(2) workpaper_checks_read(1) show ?thesis
  proof (cases rule: then_check_cases)
    case edit: 2
    have e: "\<not> w_locked w" "w_status w = IN_REVIEW \<longrightarrow> has_permission ac ''workpaper:review''"
      using edit(1) by (auto simp: check_editable_def run_h split: if_splits)
    from edit(2) reads_check show ?thesis
    proof (cases rule: then_check_cases)
      case fields: 2
      have f: "content_fields dto \<noteq> []" using fields(1) by (auto simp: run_h split: if_splits)
      from fields(2) workpaper_checks_read(2) show ?thesis
      proof (cases rule: then_check_cases)
        case named: 2
        have u: "count_rows (\<lambda>q. w_engagement q = w_engagement w \<and>
             w_reference q = patch (uw_reference dto) (w_reference w) \<and> r_id q \<noteq> i) (db_workpapers s) = 0 \<Longrightarrow>
            \<forall>q \<in> set (db_workpapers s). w_engagement q = w_engagement w \<and>
              w_reference q = patch (uw_reference dto) (w_reference w) \<longrightarrow> r_id q = i"
          by (auto simp: table_simps)
        have "(s' = s \<and> \<not> is_ok r) \<or>
          (count_rows (\<lambda>q. w_engagement q = w_engagement w \<and>
             w_reference q = patch (uw_reference dto) (w_reference w) \<and> r_id q \<noteq> i) (db_workpapers s) = 0 \<and>
           db_workpapers s' = update_in ac (has_id i) (patch_workpaper (ac_user ac) dto) (db_workpapers s) \<and>
           (\<exists>sm. db_versions s' = db_versions s @
             [\<lparr> r_id = db_next s, r_tenant = ac_tenant ac, r_created = env_now env, wv_workpaper = i,
                wv_number = w_version w, wv_snapshot = w, wv_summary = sm, wv_by = ac_user ac \<rparr>]) \<and>
           db_notes s' = db_notes s \<and> r = Inr (patch_workpaper (ac_user ac) dto w))"
          using named(2) i unfolding write_version_def workpaper_unique_def
          by (auto simp: run_h Let_def add_version_def insert_row_def split: if_splits)
        then show ?thesis using w e f u by blast
      qed simp
    qed simp
  qed simp
qed simp

lemma note_calls_tables:
  assumes "create_review_note ac env i dto s = (r, s')"
  shows "db_workpapers s' = db_workpapers s \<and> db_versions s' = db_versions s \<and>
    (db_notes s' = db_notes s \<or>
     (\<exists>w. find_workpaper ac i s = Some w \<and> db_notes s' = db_notes s @ [new_note ac env w dto s] \<and> db_next s < db_next s'))"
proof -
  have n: "db_next z \<le> db_next (notified ac env u inp z)" for u inp z
    by (simp add: notified_def split: option.split)
  show ?thesis
    using assms unfolding create_review_note_def assert_workpaper_def
    by (auto simp: run_h insert_row_def audited_def less_eq_Suc_le split: option.splits if_splits
        intro: order_trans [OF _ n])
qed

lemma update_note_tables:
  assumes "update_review_note ac env i dto s = (r, s')"
  shows "db_workpapers s' = db_workpapers s \<and> db_versions s' = db_versions s \<and>
    (db_notes s' = db_notes s \<or>
     (\<exists>n w a. first_in ac (has_id i) (db_notes s) = Some n \<and> note_request ac dto n w = Inr a \<and>
        db_notes s' = update_in ac (has_id i) (note_effect (ac_user ac) (env_now env) a) (db_notes s)))"
  using assms [unfolded update_review_note_def] reads_demand
proof (cases rule: bind_check_cases)
  case (2 n)
  from 2(2) reads_demand show ?thesis
  proof (cases rule: bind_check_cases)
    case joined: (2 w)
    show ?thesis
    proof (cases "note_request ac dto n w")
      case (Inl e)
      then show ?thesis using joined(2) by (auto simp: run_h)
    next
      case (Inr a)
      have "db_workpapers s' = db_workpapers s \<and> db_versions s' = db_versions s \<and>
        db_notes s' = update_in ac (has_id i) (note_effect (ac_user ac) (env_now env) a) (db_notes s)"
        using joined(2) Inr by (auto simp: run_h Let_def split: if_splits)
      moreover have "first_in ac (has_id i) (db_notes s) = Some n"
        using 2(1) by (auto simp: run_h split: option.splits)
      ultimately show ?thesis using Inr by blast
    qed
  qed simp
qed simp

section \<open>Every call keeps the invariant\<close>

lemma workpaper_effect_ok:
  assumes "find_transition workpaper_workflow (w_status w) (td_action dto) = Some t"
    and "list_all (workpaper_passes ac s w dto) (coalesce (tr_guards t) [])" and "workpaper_ok w"
  shows "workpaper_ok (workpaper_effect (ac_user ac) now t w)"
proof -
  have t: "t \<in> set (sm_transitions workpaper_workflow)" "tr_action t = td_action dto" "tr_from t = w_status w"
    using find_transition_Some [OF assms(1)] by simp_all
  have g: "tr_action t \<in> {''start_review'', ''approve_review'', ''sign_off''} \<Longrightarrow> w_prepared_by w \<noteq> Some (ac_user ac)"
    using assms(2) t(2) unfolding workpaper_action_guards [OF assms(1)] by (auto simp: workpaper_guards)
  obtain p where "w_prepared_by w = Some p" using assms(3) by (auto simp: workpaper_ok_def)
  then show ?thesis
    using workpaper_moves [OF t(1)] t(3) assms(3) g
    by (elim disjE) (simp_all add: workpaper_ok_def workpaper_effect_def Let_def)
qed

lemma patch_workpaper_ok: "workpaper_ok w \<Longrightarrow> workpaper_ok (patch_workpaper u dto w)"
  by (cases "w_prepared_by w") (simp_all add: workpaper_ok_def patch_workpaper_def)

lemma patch_workpaper_row [simp]:
  "r_id (patch_workpaper u dto w) = r_id w" "w_engagement (patch_workpaper u dto w) = w_engagement w"
  "w_reference (patch_workpaper u dto w) = patch (uw_reference dto) (w_reference w)"
  "w_version (patch_workpaper u dto w) = Suc (w_version w)"
  by (simp_all add: patch_workpaper_def)

lemma workpaper_effect_names [simp]:
  "w_engagement (workpaper_effect u now t w) = w_engagement w"
  "w_reference (workpaper_effect u now t w) = w_reference w"
  by (simp_all add: workpaper_effect_def Let_def)

lemma note_effect_id [simp]: "r_id (note_effect u now a n) = r_id n"
  by (simp add: note_effect_def split: note_action.split)

lemma note_effect_ok:
  "note_request ac dto n w = Inr a \<Longrightarrow> note_ok n \<Longrightarrow> note_ok (note_effect u now a n)"
  by (auto simp: note_request_def note_effect_def note_ok_def Let_def split: if_splits option.splits)

lemma new_note_id [simp]: "r_id (new_note ac env w dto s) = db_next s"
  by (simp add: new_note_def)

lemma new_workpaper_ok: "workpaper_ok (new_workpaper ac env e dto c s)"
  and new_note_ok: "note_ok (new_note ac env w ndto s)"
  by (simp_all add: workpaper_ok_def new_workpaper_def note_ok_def new_note_def)

text \<open>The rows of a table of unique keys, once the row \<open>w\<close> has been rewritten.\<close>

lemma update_in_row:
  assumes "table_ok ok n t" "w \<in> set t" "mine ac w"
  shows "set (update_in ac (has_id (r_id w)) g t) = insert (g w) (set t - {w})"
proof -
  have "q = w" if "q \<in> set t" "r_id q = r_id w" for q
    using assms(1,2) that by (auto simp: table_ok_def distinct_map inj_on_def)
  then have "{q \<in> set t. mine ac q \<and> has_id (r_id w) q} = {w}"
    using assms(2,3) by (auto simp: has_id_def)
  moreover from this have "{q \<in> set t. \<not> (mine ac q \<and> has_id (r_id w) q)} = set t - {w}" by blast
  ultimately show ?thesis unfolding set_update_in by simp
qed

lemma versions_ok_grow: "versions_ok n ws vs \<Longrightarrow> n \<le> n' \<Longrightarrow> versions_ok n' ws vs"
  by (auto simp: versions_ok_def)

lemma version_numbers_fresh: "\<forall>v \<in> set vs. wv_workpaper v < n \<Longrightarrow> version_numbers n vs = []"
  by (auto simp: version_numbers_def filter_empty_conv)

lemma references_unique_rewrite:
  assumes "references_unique ws" "set ws' = insert x (set ws - {w})"
    and "r_id x = r_id w" "w_engagement x = w_engagement w"
    and "\<forall>q \<in> set ws. w_engagement q = w_engagement w \<and> w_reference q = w_reference x \<longrightarrow> r_id q = r_id w"
  shows "references_unique ws'"
proof -
  have x: "r_id q = r_id x" if "q \<in> set ws" "w_engagement q = w_engagement x" "w_reference q = w_reference x" for q
    using assms(3-5) that by simp
  have "r_id a = r_id b"
    if m: "a \<in> insert x (set ws - {w})" "b \<in> insert x (set ws - {w})"
      and k: "w_engagement a = w_engagement b" "w_reference a = w_reference b" for a b
  proof -
    consider "a = x" "b = x" | "a = x" "b \<in> set ws" | "a \<in> set ws" "b = x" | "a \<in> set ws" "b \<in> set ws"
      using m by blast
    then show ?thesis
    proof cases
      case 2
      then show ?thesis using x [of b] k by simp
    next
      case 3
      then show ?thesis using x [of a] k by simp
    next
      case 4
      then show ?thesis using assms(1) k unfolding references_unique_def by blast
    qed simp
  qed
  then show ?thesis unfolding references_unique_def assms(2) by blast
qed

lemma references_unique_insert:
  assumes "references_unique ws"
    and "\<forall>q \<in> set ws. \<not> (w_engagement q = w_engagement w \<and> w_reference q = w_reference w)"
  shows "references_unique (ws @ [w])"
proof (cases "w \<in> set ws")
  case False
  then show ?thesis using assms
    by (intro references_unique_rewrite [OF assms(1), of _ w w]) auto
qed (use assms(2) in blast)

text \<open>The four ways a call can change the tables.\<close>

lemma workpapers_ok_notes:
  assumes "workpapers_ok s" "db_workpapers s' = db_workpapers s" "db_versions s' = db_versions s"
    and "row_step ac note_ok (db_next s) (db_next s') (db_notes s) (db_notes s')" "db_next s \<le> db_next s'"
  shows "workpapers_ok s'"
  using assms table_ok_grow [OF _ assms(5), of workpaper_ok "db_workpapers s"]
    row_step_ok [OF assms(4)] versions_ok_grow [OF _ assms(5)]
  unfolding workpapers_ok_def by simp

lemma workpapers_ok_insert:
  assumes "workpapers_ok s" "db_workpapers s' = db_workpapers s @ [w]" "db_versions s' = db_versions s"
    and "db_notes s' = db_notes s" "r_id w = db_next s" "db_next s < db_next s'" "workpaper_ok w" "w_version w = 1"
    and "\<forall>q \<in> set (db_workpapers s). \<not> (w_engagement q = w_engagement w \<and> w_reference q = w_reference w)"
  shows "workpapers_ok s'"
proof -
  have le: "db_next s \<le> db_next s'" using assms(6) by simp
  have "table_ok workpaper_ok (db_next s') (db_workpapers s')"
    unfolding assms(2) using assms(1)
    by (intro row_step_ok [OF row_step_insert [where ok = workpaper_ok, OF assms(5-7)]]) (simp add: workpapers_ok_def)
  moreover have "table_ok note_ok (db_next s') (db_notes s')"
    using assms(1,4) table_ok_grow [OF _ le, of note_ok] by (simp add: workpapers_ok_def)
  moreover have "versions_ok (db_next s') (db_workpapers s') (db_versions s')"
  proof -
    have v: "versions_ok (db_next s) (db_workpapers s) (db_versions s)" using assms(1) by (simp add: workpapers_ok_def)
    then have "version_numbers (r_id w) (db_versions s) = []"
      unfolding assms(5) by (intro version_numbers_fresh) (simp add: versions_ok_def)
    with versions_ok_grow [OF v le] show ?thesis by (simp add: versions_ok_def assms(2,3,8))
  qed
  moreover have "references_unique (db_workpapers s')"
    unfolding assms(2) using assms(1,9) by (intro references_unique_insert) (simp_all add: workpapers_ok_def)
  ultimately show ?thesis by (simp add: workpapers_ok_def)
qed

lemma workpapers_ok_update:
  assumes "workpapers_ok s" "find_workpaper ac i s = Some w"
    and "db_workpapers s' = update_in ac (has_id i) g (db_workpapers s)" "db_notes s' = db_notes s"
    and "\<And>x. r_id (g x) = r_id x" "\<And>x. w_engagement (g x) = w_engagement x" "workpaper_ok w \<Longrightarrow> workpaper_ok (g w)"
    and "\<forall>q \<in> set (db_workpapers s). w_engagement q = w_engagement w \<and> w_reference q = w_reference (g w) \<longrightarrow> r_id q = i"
    and vs: "db_versions s' = db_versions s \<and> w_version (g w) = w_version w \<or>
      w_version (g w) = Suc (w_version w) \<and>
      (\<exists>v. db_versions s' = db_versions s @ [v] \<and> wv_workpaper v = i \<and> wv_number v = w_version w)"
    and le: "db_next s \<le> db_next s'"
  shows "workpapers_ok s'"
proof -
  have w: "w \<in> set (db_workpapers s)" "mine ac w" "r_id w = i" using find_workpaper_Some [OF assms(2)] by simp_all
  have t: "table_ok workpaper_ok (db_next s) (db_workpapers s)" using assms(1) by (simp add: workpapers_ok_def)
  have rows: "set (db_workpapers s') = insert (g w) (set (db_workpapers s) - {w})"
    unfolding assms(3) using update_in_row [OF t w(1,2), of g] w(3) by simp
  have other: "r_id q \<noteq> i" if "q \<in> set (db_workpapers s) - {w}" for q
    using that w t by (auto simp: table_ok_def distinct_map inj_on_def)
  have old: "version_numbers (r_id q) (db_versions s) = [1..<w_version q]" if "q \<in> set (db_workpapers s)" for q
    using that assms(1) by (simp add: workpapers_ok_def versions_ok_def)
  have lt: "\<forall>v \<in> set (db_versions s). wv_workpaper v < db_next s" "i < db_next s"
    using assms(1) w by (auto simp: workpapers_ok_def versions_ok_def table_ok_def)
  have "1 \<le> w_version w" using t w(1) by (simp add: table_ok_def workpaper_ok_def)
  have "version_numbers i (db_versions s') = [1..<w_version (g w)]"
    using vs old [OF w(1)] w(3) \<open>1 \<le> w_version w\<close> by (auto simp: version_numbers_def)
  moreover have "version_numbers (r_id q) (db_versions s') = [1..<w_version q]"
    if "q \<in> set (db_workpapers s) - {w}" for q
    using vs old that other [OF that] by (auto simp: version_numbers_def)
  moreover have "\<forall>v \<in> set (db_versions s'). wv_workpaper v < db_next s'"
    using vs lt le by (elim disjE conjE exE) (auto intro: less_le_trans)
  ultimately have "versions_ok (db_next s') (db_workpapers s') (db_versions s')"
    unfolding versions_ok_def rows using assms(5) w(3) by auto
  moreover have "table_ok workpaper_ok (db_next s') (db_workpapers s')"
    unfolding assms(3) by (rule row_step_ok [OF row_step_update [where ok = workpaper_ok and g = g, OF le w(1,3) assms(5,7)] t])
  moreover have "table_ok note_ok (db_next s') (db_notes s')"
    using assms(1,4) table_ok_grow [OF _ le, of note_ok] by (simp add: workpapers_ok_def)
  moreover have "references_unique (db_workpapers s')"
    using assms(1,5,6,8) w by (intro references_unique_rewrite [OF _ rows]) (simp_all add: workpapers_ok_def)
  ultimately show ?thesis by (simp add: workpapers_ok_def)
qed

lemma call_workpaper_ok:
  assumes "workpapers_ok s"
  shows "workpapers_ok (call_workpaper ac env c s)"
proof -
  let ?s = "call_workpaper ac env c s"
  have n: "db_next s \<le> db_next ?s" by (rule confined_next [OF call_workpaper_confined])
  have t: "table_ok note_ok (db_next s) (db_notes s)" using assms by (simp add: workpapers_ok_def)
  show ?thesis
  proof (cases c)
    case (Create_Workpaper e dto)
    obtain r s' where run: "create_workpaper ac env e dto s = (r, s')" by (cases "create_workpaper ac env e dto s")
    from create_workpaper_cases [OF run] show ?thesis
    proof
      assume "\<exists>w content. w = new_workpaper ac env e dto content s \<and>
       (\<forall>q \<in> set (db_workpapers s). \<not> (w_engagement q = e \<and> w_reference q = cw_reference dto)) \<and>
       db_workpapers s' = db_workpapers s @ [w] \<and> db_versions s' = db_versions s \<and>
       db_notes s' = db_notes s \<and> db_next s < db_next s' \<and> r = Inr w"
      then obtain content where w: "db_workpapers s' = db_workpapers s @ [new_workpaper ac env e dto content s]"
        "\<forall>q \<in> set (db_workpapers s). \<not> (w_engagement q = e \<and> w_reference q = cw_reference dto)"
        "db_versions s' = db_versions s" "db_notes s' = db_notes s" "db_next s < db_next s'" by auto
      have "workpapers_ok s'"
        using w(2) by (intro workpapers_ok_insert [OF assms w(1,3,4)] w(5) new_workpaper_ok) (simp_all add: new_workpaper_def)
      then show ?thesis using run Create_Workpaper by simp
    qed (use run assms Create_Workpaper in simp)
  next
    case (Update_Workpaper i dto)
    obtain r s' where run: "update_workpaper ac env i dto s = (r, s')" by (cases "update_workpaper ac env i dto s")
    have le: "db_next s \<le> db_next s'" using n run Update_Workpaper by simp
    have "workpapers_ok s'" using update_workpaper_cases [OF run]
    proof
      assume "\<exists>w summary. find_workpaper ac i s = Some w \<and> \<not> w_locked w \<and>
         (w_status w = IN_REVIEW \<longrightarrow> has_permission ac ''workpaper:review'') \<and> content_fields dto \<noteq> [] \<and>
         (\<forall>q \<in> set (db_workpapers s). w_engagement q = w_engagement w \<and>
            w_reference q = patch (uw_reference dto) (w_reference w) \<longrightarrow> r_id q = i) \<and>
         db_workpapers s' = update_in ac (has_id i) (patch_workpaper (ac_user ac) dto) (db_workpapers s) \<and>
         db_versions s' = db_versions s @
           [\<lparr> r_id = db_next s, r_tenant = ac_tenant ac, r_created = env_now env, wv_workpaper = i,
              wv_number = w_version w, wv_snapshot = w, wv_summary = summary, wv_by = ac_user ac \<rparr>] \<and>
         db_notes s' = db_notes s \<and> r = Inr (patch_workpaper (ac_user ac) dto w)"
      then obtain w where w: "find_workpaper ac i s = Some w"
        "db_workpapers s' = update_in ac (has_id i) (patch_workpaper (ac_user ac) dto) (db_workpapers s)"
        "db_notes s' = db_notes s" and q: "\<forall>q \<in> set (db_workpapers s). w_engagement q = w_engagement w \<and>
            w_reference q = patch (uw_reference dto) (w_reference w) \<longrightarrow> r_id q = i"
        and v: "\<exists>v. db_versions s' = db_versions s @ [v] \<and> wv_workpaper v = i \<and> wv_number v = w_version w"
        by auto
      show "workpapers_ok s'"
        using q v by (intro workpapers_ok_update [OF assms w] patch_workpaper_ok le) simp_all
    qed (use assms in simp)
    then show ?thesis using run Update_Workpaper by simp
  next
    case (Transition_Workpaper i dto)
    obtain r s' where run: "transition_workpaper ac env i dto s = (r, s')"
      by (cases "transition_workpaper ac env i dto s")
    have le: "db_next s \<le> db_next s'" using n run Transition_Workpaper by simp
    have "workpapers_ok s'" using workpaper_transition_run [OF run]
    proof
      assume "\<exists>w t. find_workpaper ac i s = Some w \<and>
         find_transition workpaper_workflow (w_status w) (td_action dto) = Some t \<and>
         tr_permission t \<in> set (ac_permissions ac) \<and>
         list_all (workpaper_passes ac s w dto) (coalesce (tr_guards t) []) \<and>
         db_workpapers s' = update_in ac (has_id i) (workpaper_effect (ac_user ac) (env_now env) t) (db_workpapers s) \<and>
         db_versions s' = db_versions s \<and> db_notes s' = db_notes s \<and>
         db_steps s' = steps_after ac w (tr_action t) (db_steps s)"
      then obtain w t where w: "find_workpaper ac i s = Some w"
        "db_workpapers s' = update_in ac (has_id i) (workpaper_effect (ac_user ac) (env_now env) t) (db_workpapers s)"
        "db_notes s' = db_notes s" and v: "db_versions s' = db_versions s"
        and t: "find_transition workpaper_workflow (w_status w) (td_action dto) = Some t"
          "list_all (workpaper_passes ac s w dto) (coalesce (tr_guards t) [])"
        by auto
      have "\<forall>q \<in> set (db_workpapers s). w_engagement q = w_engagement w \<and> w_reference q = w_reference w \<longrightarrow> r_id q = i"
        using assms find_workpaper_Some [OF w(1)] unfolding workpapers_ok_def references_unique_def by metis
      then show "workpapers_ok s'"
        using v by (intro workpapers_ok_update [OF assms w] workpaper_effect_ok [OF t] le) simp_all
    qed (use assms in simp)
    then show ?thesis using run Transition_Workpaper by simp
  next
    case (Create_Note i dto)
    obtain r s' where run: "create_review_note ac env i dto s = (r, s')" by (cases "create_review_note ac env i dto s")
    show ?thesis using note_calls_tables [OF run] n run Create_Note
      by (auto intro!: workpapers_ok_notes [OF assms] row_step_same row_step_insert new_note_ok)
  next
    case (Update_Note i dto)
    obtain r s' where run: "update_review_note ac env i dto s = (r, s')" by (cases "update_review_note ac env i dto s")
    have le: "db_next s \<le> db_next s'" using n run Update_Note by simp
    have "row_step ac note_ok (db_next s) (db_next s') (db_notes s)
        (update_in ac (has_id i) (note_effect (ac_user ac) (env_now env) a) (db_notes s))"
      if "first_in ac (has_id i) (db_notes s) = Some q" "note_request ac dto q w = Inr a" for q w a
      using that first_in_Some [OF that(1)]
      by (intro row_step_update [OF le, of q]) (auto simp: has_id_def intro: note_effect_ok)
    then show ?thesis using update_note_tables [OF run] le run Update_Note
      by (auto intro!: workpapers_ok_notes [where ac = ac, OF assms] row_step_same)
  next
    case (Create_Template dto)
    then show ?thesis using n
      by (auto intro!: workpapers_ok_notes [OF assms] row_step_same simp: create_template_def run_h)
  qed
qed

text \<open>
  C13. The invariant of workpapers. Whatever requests reach the workpapers API, by whichever users
  and in any order, in a database where it held: keys stay unique and so do references within an
  engagement; a workpaper is locked and signed exactly while it is signed off; it has been reviewed
  and signed by users other than its preparer; its versions are numbered from 1 without a gap up to
  its current version; and a review note is cleared exactly when it records who cleared it.
\<close>

theorem workpapers_invariant:
  assumes "workpapers_ok s"
  shows "workpapers_ok (call_workpapers calls s)"
  using assms
proof (induction calls arbitrary: s)
  case (Cons c calls)
  then show ?case by (auto simp: call_workpapers_def call_workpaper_ok split: prod.split)
qed (simp add: call_workpapers_def)

section \<open>The lock\<close>

text \<open>Requests that unlock workpaper \<open>i\<close>.\<close>

fun unlocks :: "uuid \<Rightarrow> workpaper_call \<Rightarrow> bool" where
  "unlocks i (Transition_Workpaper j tdto) \<longleftrightarrow> j = i \<and> td_action tdto = ''unlock''"
| "unlocks i c \<longleftrightarrow> False"

lemma locked_step:
  assumes "workpapers_ok s" "the_row i (db_workpapers s) = Some w" "w_locked w" "\<not> unlocks i c"
  shows "the_row i (db_workpapers (call_workpaper ac env c s)) = Some w"
proof -
  have found: "q = w" if "find_workpaper ac i s = Some q" for q
    using the_row_Some(3) [OF assms(2)] find_workpaper_Some [OF that] by blast
  have w: "w_status w = SIGNED_OFF" "i < db_next s"
    using assms(1,3) the_row_Some(1,2) [OF assms(2)]
    by (simp_all add: workpapers_ok_def table_ok_def workpaper_ok_def) blast+
  show ?thesis
  proof (cases c)
    case (Create_Workpaper e dto)
    obtain r s' where run: "create_workpaper ac env e dto s = (r, s')" by (cases "create_workpaper ac env e dto s")
    show ?thesis
      using create_workpaper_cases [OF run] run Create_Workpaper assms(2) w(2)
      by (auto simp: the_row_insert_other [unfolded insert_row_def] new_workpaper_def)
  next
    case (Update_Workpaper j dto)
    obtain r s' where run: "update_workpaper ac env j dto s = (r, s')" by (cases "update_workpaper ac env j dto s")
    show ?thesis
    proof (cases "j = i")
      case True
      then have "s' = s" using update_workpaper_cases [OF run] found assms(3) by auto
      then show ?thesis using run Update_Workpaper assms(2) by simp
    next
      case False
      then show ?thesis
        using update_workpaper_cases [OF run] run Update_Workpaper assms(2)
        by (auto simp: the_row_update_other)
    qed
  next
    case (Transition_Workpaper j dto)
    obtain r s' where run: "transition_workpaper ac env j dto s = (r, s')"
      by (cases "transition_workpaper ac env j dto s")
    show ?thesis
    proof (cases "j = i")
      case True
      have "find_transition workpaper_workflow SIGNED_OFF (td_action dto) \<noteq> Some t" for t
      proof
        assume t: "find_transition workpaper_workflow SIGNED_OFF (td_action dto) = Some t"
        from workpaper_moves [OF conjunct1 [OF find_transition_Some [OF t]]] have "tr_action t = ''unlock''"
          using find_transition_Some [OF t] by auto
        then show False using find_transition_Some [OF t] assms(4) True Transition_Workpaper by simp
      qed
      then have "s' = s" using workpaper_transition_run [OF run] True found w(1) by auto
      then show ?thesis using run Transition_Workpaper assms(2) by simp
    next
      case False
      then show ?thesis
        using workpaper_transition_run [OF run] run Transition_Workpaper assms(2)
        by (auto simp: the_row_update_other)
    qed
  next
    case (Create_Note j dto)
    obtain r s' where run: "create_review_note ac env j dto s = (r, s')" by (cases "create_review_note ac env j dto s")
    show ?thesis using note_calls_tables [OF run] run Create_Note assms(2) by simp
  next
    case (Update_Note j dto)
    obtain r s' where run: "update_review_note ac env j dto s = (r, s')" by (cases "update_review_note ac env j dto s")
    show ?thesis using update_note_tables [OF run] run Update_Note assms(2) by simp
  next
    case (Create_Template dto)
    then show ?thesis using assms(2) by (simp add: create_template_def run_h)
  qed
qed

text \<open>
  C15. A signed-off workpaper is frozen. No sequence of requests changes any column of a locked
  workpaper, whoever makes them, unless one of them is an \<open>unlock\<close> of that workpaper.
\<close>

theorem locked_workpaper_frozen:
  assumes "workpapers_ok s" "the_row i (db_workpapers s) = Some w" "w_locked w"
    and "\<not> list_ex (\<lambda>(ac, env, c). unlocks i c) calls"
  shows "the_row i (db_workpapers (call_workpapers calls s)) = Some w"
  using assms
proof (induction calls arbitrary: s)
  case (Cons c calls)
  obtain ac env d where c: "c = (ac, env, d)" by (cases c)
  have "the_row i (db_workpapers (call_workpaper ac env d s)) = Some w"
    using Cons.prems c by (intro locked_step) simp_all
  with Cons c show ?case using call_workpaper_ok [OF Cons.prems(1), of ac env d]
    by (simp add: call_workpapers_def)
qed (simp add: call_workpapers_def)

section \<open>Edits\<close>

text \<open>
  Editing a workpaper whose reference is not changed, in a database with the invariant: a locked
  workpaper is refused, one in review needs the review permission, a request without a content
  field is refused; every other edit succeeds (the version number it writes is free), stores the
  row as it was under the old version number, applies the patch, raises the version by one and
  leaves exactly one audit event.
\<close>

theorem update_workpaper_outcome:
  assumes "workpapers_ok s" "find_workpaper ac i s = Some w" "uw_reference dto = None"
  shows "update_workpaper ac env i dto s =
    (if w_locked w then (Inl (Conflict ''Workpaper is signed off and locked; unlock it first''), s)
     else if w_status w = IN_REVIEW \<and> \<not> has_permission ac ''workpaper:review'' then
       (Inl (Conflict ''Workpaper is in review; it can be edited once notes are raised or it is reopened''), s)
     else if content_fields dto = [] then (Inl (BadRequest ''No content fields supplied''), s)
     else (Inr (patch_workpaper (ac_user ac) dto w),
       audited ac env (audit_of ''workpaper.updated'' ''Workpaper'' i (Workpaper_Row w)
           (Workpaper_Row (patch_workpaper (ac_user ac) dto w)) [(''fields'', JArr (map JStr (content_fields dto)))])
         (update_workpaper_row ac i (patch_workpaper (ac_user ac) dto)
           (add_version ac env w
             (Some (coalesce (uw_summary dto) (''Updated '' @ join_with '', '' (content_fields dto)))) s))))"
proof -
  have w: "w \<in> set (db_workpapers s)" "r_id w = i" using find_workpaper_Some [OF assms(2)] by simp_all
  have v: "version_numbers i (db_versions s) = [1..<w_version w]"
    using assms(1) w by (auto simp: workpapers_ok_def versions_ok_def)
  have "count_rows (\<lambda>v. wv_workpaper v = i \<and> wv_number v = w_version w) (db_versions s) = 0"
  proof -
    have "wv_number v \<noteq> w_version w" if "v \<in> set (db_versions s)" "wv_workpaper v = i" for v
    proof -
      have "wv_number v \<in> set (version_numbers i (db_versions s))"
        using that by (auto simp: version_numbers_def)
      then show ?thesis unfolding v by simp
    qed
    then show ?thesis by (auto simp: table_simps)
  qed
  moreover have "count_rows (\<lambda>q. w_engagement q = w_engagement w \<and> w_reference q = w_reference w \<and> r_id q \<noteq> i)
      (db_workpapers (add_version ac env w sm s)) = 0" for sm
  proof -
    have "\<forall>q \<in> set (db_workpapers s). w_engagement q = w_engagement w \<and> w_reference q = w_reference w \<longrightarrow> r_id q = i"
      using assms(1) w unfolding workpapers_ok_def references_unique_def by metis
    then show ?thesis by (simp add: table_simps)
  qed
  ultimately show ?thesis
    unfolding update_workpaper_def write_version_def check_editable_def check_renamed_def workpaper_unique_def
      assert_workpaper_def
    by (simp add: run_h assms(2,3) Let_def w)
qed

section \<open>Templates\<close>

lemma template_section_again:
  "template_section j (template_section i x) = template_section i x"
  by (simp add: template_section_def json_field_def json_string_def json_truthy_def split: option.split)

text \<open>
  The content built from a template is a fixed point: whatever JSON document the template
  holds, building content from the content gives the same document, so every section of it carries
  a string key and title, a prompt, a boolean flag and the empty value.
\<close>

theorem content_from_template_idem:
  "content_from_template (content_from_template structure) = content_from_template structure"
proof -
  have again: "map2 template_section [0..<n] (map2 template_section [0..<n] xs) = map2 template_section [0..<n] xs"
    for n and xs
    by (rule nth_equalityI) (simp_all add: template_section_again)
  show ?thesis
    by (simp add: content_from_template_def json_field_def again split: option.split json.split)
qed

section \<open>Examples\<close>

definition ex_reviewed :: workpaper where
  "ex_reviewed = ex_workpaper\<lparr> w_status := REVIEWED, w_reviewed_by := Some 3 \<rparr>"

definition ex_review_db :: db where
  "ex_review_db = ex_db\<lparr> db_workpapers := [ex_reviewed] \<rparr>"

definition ex_signer :: actor where
  "ex_signer = ex_actor 3 [AUDIT_PARTNER] [''workpaper:sign_off'']"

definition ex_sign :: transition_dto where
  "ex_sign = \<lparr> td_action = ''sign_off'', td_comment = None \<rparr>"

definition ex_edit :: update_workpaper_dto where
  "ex_edit = \<lparr> uw_reference = None, uw_title = Some ''New title'', uw_objective = Undefined,
     uw_procedure = Undefined, uw_test_performed = Undefined, uw_results = Undefined,
     uw_exceptions = Undefined, uw_conclusion = Undefined, uw_content = None, uw_risk = Undefined,
     uw_control = Undefined, uw_sort = None, uw_summary = None \<rparr>"

lemma ex_review_tables [simp]:
  "db_workpapers ex_review_db = [ex_reviewed]" "db_notes ex_review_db = []" "db_steps ex_review_db = []"
  "db_next ex_review_db = 100" "db_versions ex_review_db = []" "db_versions ex_db = []"
  by (simp_all add: ex_review_db_def ex_db_def empty_db_def)

lemma ex_signer_fields [simp]: "ac_user ex_signer = 3" "ac_tenant ex_signer = 1"
  "ac_permissions ex_signer = [''workpaper:sign_off'']"
  by (simp_all add: ex_signer_def ex_actor_def)

lemma ex_found: "find_workpaper ex_signer 20 ex_review_db = Some ex_reviewed"
  by (simp add: find_workpaper_def has_id_def ex_reviewed_def ex_workpaper_def)

definition ex_sign_transition :: "workpaper_status transition" where
  "ex_sign_transition = \<lparr> tr_from = REVIEWED, tr_to = SIGNED_OFF, tr_action = ''sign_off'', tr_label = ''Sign off'',
     tr_permission = ''workpaper:sign_off'', tr_guards = Some [''signer_is_not_preparer''] \<rparr>"

lemma ex_sign_found: "find_transition workpaper_workflow REVIEWED ''sign_off'' = Some ex_sign_transition"
  by (simp add: find_transition_def workpaper_workflow_def ex_sign_transition_def)

lemma ex_sign_run: "\<exists>v s'. transition_workpaper ex_signer ex_env 20 ex_sign ex_review_db = (Inr v, s')"
proof -
  have st: "w_status ex_reviewed = REVIEWED" "w_prepared_by ex_reviewed = Some 2" "w_step ex_reviewed = None"
    by (simp_all add: ex_reviewed_def ex_workpaper_def)
  have "is_ok (fst (transition_workpaper ex_signer ex_env 20 ex_sign ex_review_db))"
    unfolding workpaper_transition_ok_iff ex_found
    by (simp add: ex_sign_def st ex_sign_found ex_sign_transition_def workpaper_guards step_exists_def)
  then show ?thesis
    by (cases "transition_workpaper ex_signer ex_env 20 ex_sign ex_review_db") (auto simp: is_ok_iff)
qed

lemma ex_review_ok: "workpapers_ok ex_review_db"
  by (simp add: workpapers_ok_def table_ok_def workpaper_ok_def versions_ok_def version_numbers_def
      references_unique_def ex_reviewed_def ex_workpaper_def)

lemma workpaper_transition_outcome_witness:
  "\<exists>r s'. transition_workpaper ex_signer ex_env 20 ex_sign ex_review_db = (r, s') \<and> is_ok r \<and> db_versions s' = []"
proof -
  obtain v s' where run: "transition_workpaper ex_signer ex_env 20 ex_sign ex_review_db = (Inr v, s')"
    using ex_sign_run by blast
  then show ?thesis using workpaper_transition_outcome [OF run] by auto
qed


lemma workpaper_status_follows_workflow_witness:
  "\<exists>acts. sm_run workpaper_workflow REVIEWED acts = Some SIGNED_OFF"
proof -
  obtain v s' where run: "transition_workpaper ex_signer ex_env 20 ex_sign ex_review_db = (Inr v, s')"
    using ex_sign_run by blast
  have st: "w_status ex_reviewed = REVIEWED" "r_id ex_reviewed = 20" "r_tenant ex_reviewed = 1"
    by (simp_all add: ex_reviewed_def ex_workpaper_def)
  have start: "workpaper_status_of 20 ex_review_db = Some REVIEWED"
    by (simp add: workpaper_status_of_def the_row_def has_id_def st)
  have "db_workpapers s' = [workpaper_effect 3 (env_now ex_env) ex_sign_transition ex_reviewed]"
    using workpaper_transition_run [OF run] ex_found
    by (auto simp: ex_sign_def ex_sign_found st has_id_def)
  then have "workpaper_status_of 20 (workpaper_handler.perform_all
      [(ex_signer, ex_env, 20, ''sign_off'', None)] ex_review_db) = Some SIGNED_OFF"
    using run by (simp add: perform_workpaper_def ex_sign_def workpaper_status_of_def the_row_def has_id_def st
        ex_sign_transition_def)
  with start show ?thesis by (rule workpaper_status_follows_workflow)
qed

lemma workpapers_invariant_witness:
  "workpapers_ok (call_workpapers [(ex_signer, ex_env, Transition_Workpaper 20 ex_sign)] ex_review_db)"
  by (rule workpapers_invariant [OF ex_review_ok])

lemma locked_workpaper_frozen_witness:
  "\<exists>s w. w_locked w \<and> the_row 20 (db_workpapers (call_workpapers [(ex_signer, ex_env, Update_Workpaper 20 ex_edit)] s)) = Some w"
proof -
  obtain v s' where run: "transition_workpaper ex_signer ex_env 20 ex_sign ex_review_db = (Inr v, s')"
    using ex_sign_run by blast
  have "workpapers_ok s'" using call_workpaper_ok [OF ex_review_ok, of ex_signer ex_env "Transition_Workpaper 20 ex_sign"] run
    by simp
  moreover obtain w where w: "w \<in> set (db_workpapers s')" "r_id w = 20" "w_locked w"
    using workpaper_transition_run [OF run] ex_found
    by (auto simp: ex_sign_def ex_reviewed_def ex_workpaper_def ex_sign_found ex_sign_transition_def has_id_def
        workpaper_effect_def Let_def)
  moreover have "the_row 20 (db_workpapers s') = Some w"
    using the_row_table_ok [of workpaper_ok "db_next s'" "db_workpapers s'" w] w(1) \<open>workpapers_ok s'\<close> w(2) by (simp add: workpapers_ok_def)
  ultimately have "the_row 20 (db_workpapers (call_workpapers [(ex_signer, ex_env, Update_Workpaper 20 ex_edit)] s')) = Some w"
    by (intro locked_workpaper_frozen) simp_all
  with w(3) show ?thesis by blast
qed

lemma update_workpaper_outcome_witness:
  "\<exists>q s'. update_workpaper ex_signer ex_env 20 ex_edit ex_review_db = (Inr q, s') \<and> w_title q = ''New title'' \<and>
     w_version q = 2"
proof -
  have "\<not> w_locked ex_reviewed" "w_status ex_reviewed = REVIEWED" "w_version ex_reviewed = 1"
    by (simp_all add: ex_reviewed_def ex_workpaper_def)
  moreover have "content_fields ex_edit = [''title'']"
    by (simp add: content_fields_def ex_edit_def given_fields_def)
  moreover have "uw_reference ex_edit = None" "w_title (patch_workpaper u ex_edit w) = ''New title''" for u w
    by (simp_all add: ex_edit_def patch_workpaper_def)
  ultimately show ?thesis
    using update_workpaper_outcome [OF ex_review_ok ex_found, of ex_edit ex_env] by simp
qed

end
