(* ===== verification/Requests.thy ===== *)
theory Requests
  imports Findings Numbering
begin

text \<open>
  \<open>requests/requests.service.ts\<close>: requests for documents that the auditors address to the business,
  from their creation under the next reference of the engagement through response, return and
  acceptance. A row keeps the ids of the linked documents.
\<close>

fun request_status_name :: "request_status \<Rightarrow> string" where
  "request_status_name request_status.OPEN = ''OPEN''"
| "request_status_name request_status.SUBMITTED = ''SUBMITTED''"
| "request_status_name request_status.ACCEPTED = ''ACCEPTED''"
| "request_status_name RETURNED = ''RETURNED''"
| "request_status_name request_status.CANCELLED = ''CANCELLED''"

section \<open>Queries\<close>

record request_query =
  rq_page :: page_query
  rq_engagement :: "uuid option"
  rq_status :: "request_status option"
  rq_mine :: bool
  rq_overdue :: bool
  rq_text :: "string option"

definition build_request_where :: "request_query \<Rightarrow> uuid \<Rightarrow> string option \<Rightarrow> time \<Rightarrow> document_request \<Rightarrow> bool" where
  "build_request_where q me email now r \<longleftrightarrow>
     opt_eq (rq_engagement q) (q_engagement r) \<and> opt_eq (rq_status q) (q_status r) \<and>
     (rq_mine q \<longrightarrow>
        q_assignee r = Some me \<or>
        (case (email, q_assignee_email r) of
           (Some m, Some c) \<Rightarrow> m \<noteq> [] \<and> to_lower c = to_lower m | _ \<Rightarrow> False)) \<and>
     (rq_overdue q \<longrightarrow>
        q_due r < now \<and> (rq_status q = None \<longrightarrow> q_status r \<in> {request_status.OPEN, RETURNED})) \<and>
     opt_contains (rq_text q) [q_title r, q_reference r]"

text \<open>The linked documents that are not deleted, and those of them that the caller may see.\<close>

definition live_documents :: "document_request \<Rightarrow> db \<Rightarrow> document list" where
  "live_documents r s = filter (\<lambda>d. r_id d \<in> set (q_documents r) \<and> d_deleted_at d = None) (db_documents s)"

definition request_documents :: "actor \<Rightarrow> document_request \<Rightarrow> db \<Rightarrow> document list" where
  "request_documents ac r s =
     filter (\<lambda>d. (has_permission ac ''document:restricted'' \<or> d_classification d \<noteq> RESTRICTED) \<and>
       document_scope ac s d) (live_documents r s)"

definition request_registry :: "actor \<Rightarrow> db \<Rightarrow> document_request guard_registry" where
  "request_registry ac s =
     register_guard (sm_name request_workflow) ''has_attachment_or_response'' (\<lambda>gc.
       if \<not> is_blank (q_response (gc_entity gc)) then Inl True
       else guard_ok (count_in ac (\<lambda>d. d_deleted_at d = None \<and> d_uploaded_at d \<noteq> None \<and>
              list_ex (\<lambda>r. r_id r = r_id (gc_entity gc) \<and> r_id d \<in> set (q_documents r)) (db_requests s))
              (db_documents s) > 0)
            ''Attach at least one document or write a response note'') empty_registry"

definition list_requests ::
  "actor \<Rightarrow> env \<Rightarrow> (document_request list \<Rightarrow> document_request list) \<Rightarrow> request_query \<Rightarrow>
   (document_request \<times> nat) page op" where
  "list_requests ac env order q = gets_h (\<lambda>s.
     let rows = order (many_in ac (\<lambda>r. build_request_where q (ac_user ac) (ac_email ac) (env_now env) r \<and>
                         request_scope ac r) (db_requests s));
         pg = paginate (rq_page q) rows
     in \<lparr> pg_items = map (\<lambda>r. (r, length (live_documents r s))) (pg_items pg),
          pg_total = pg_total pg, pg_page = pg_page pg, pg_size = pg_size pg \<rparr>)"

definition find_request :: "actor \<Rightarrow> uuid \<Rightarrow> db \<Rightarrow> document_request option" where
  "find_request ac i s = first_in ac (has_id i) (db_requests s)"

definition assert_request :: "actor \<Rightarrow> uuid \<Rightarrow> document_request op" where
  "assert_request ac i =
     then_h (assert_request_access ac i) (demand_h (find_request ac i) (NotFound ''Request not found''))"

record request_view =
  vr_request :: document_request
  vr_documents :: "document list"
  vr_count :: nat
  vr_actions :: "request_status available_action list"

definition get_request :: "actor \<Rightarrow> uuid \<Rightarrow> request_view op" where
  "get_request ac i =
     bind_h (assert_request ac i) (\<lambda>r.
     bind_h (gets_h (\<lambda>s. workflow_available (request_registry ac s) request_workflow (q_status r) ac r (\<lambda>_. [])))
      (\<lambda>x. bind_h (lift_h x) (\<lambda>actions.
     gets_h (\<lambda>s. \<lparr> vr_request = r, vr_documents = request_documents ac r s,
       vr_count = length (live_documents r s), vr_actions = actions \<rparr>))))"

section \<open>Creation\<close>

record create_request_dto =
  cq_engagement :: uuid
  cq_title :: string
  cq_description :: "string option"
  cq_assignee :: "uuid option"
  cq_assignee_email :: "string option"
  cq_due :: time

definition latest_request_reference :: "actor \<Rightarrow> uuid \<Rightarrow> db \<Rightarrow> string option" where
  "latest_request_reference ac e s =
     highest (map q_reference (many_in ac (\<lambda>r. q_engagement r = e \<and> starts_with ''DR-'' (q_reference r))
       (db_requests s)))"

definition new_request :: "actor \<Rightarrow> env \<Rightarrow> create_request_dto \<Rightarrow> string \<Rightarrow> db \<Rightarrow> document_request" where
  "new_request ac env dto ref s =
     \<lparr> r_id = db_next s, r_tenant = ac_tenant ac, r_created = env_now env, q_engagement = cq_engagement dto,
       q_reference = ref, q_title = cq_title dto, q_description = cq_description dto,
       q_requested_by = ac_user ac, q_assignee = cq_assignee dto, q_assignee_email = cq_assignee_email dto,
       q_due = cq_due dto, q_status = request_status.OPEN, q_response = None, q_submitted_at = None,
       q_accepted_at = None, q_return_reason = None, q_reminders = 0, q_last_reminder = None,
       q_documents = [] \<rparr>"

definition insert_request :: "document_request \<Rightarrow> db \<Rightarrow> db" where
  "insert_request r s = s\<lparr> db_requests := insert_row r (db_requests s), db_next := db_next s + 1 \<rparr>"

text \<open>The constraint \<open>@@unique([engagementId, reference])\<close> holds across the whole table.\<close>

definition create_referenced_request ::
  "actor \<Rightarrow> env \<Rightarrow> create_request_dto \<Rightarrow> string \<Rightarrow> document_request op" where
  "create_referenced_request ac env dto ref =
     then_h (check_state_h (\<lambda>s. count_rows (\<lambda>r. q_engagement r = cq_engagement dto \<and> q_reference r = ref)
               (db_requests s) = 0) UniqueViolation)
       (create_h (new_request ac env dto ref) insert_request)"

definition check_new_request :: "actor \<Rightarrow> create_request_dto \<Rightarrow> engagement op" where
  "check_new_request ac dto =
     bind_h (demand_h (find_engagement ac (cq_engagement dto)) (NotFound ''Engagement not found'')) (\<lambda>e.
     then_h (check_given (cq_assignee dto) (\<lambda>u. check_state_h (\<lambda>s.
               first_in ac (\<lambda>x. has_id u x \<and> u_deleted_at x = None) (db_users s) \<noteq> None)
               (BadRequest ''Assignee not found'')))
       (return_h e))"

definition create_request :: "actor \<Rightarrow> env \<Rightarrow> create_request_dto \<Rightarrow> document_request op" where
  "create_request ac env dto =
     bind_h (check_new_request ac dto) (\<lambda>e.
     bind_h (allocate_h (latest_request_reference ac (cq_engagement dto))
               (\<lambda>latest. Inr (next_request_reference latest)) (create_referenced_request ac env dto) 5) (\<lambda>created.
     case created of
       None \<Rightarrow> throw_h (Conflict ''Could not allocate a request reference'')
     | Some r \<Rightarrow>
         then_h (audit_record ac env (audit_of ''request.created'' ''DocumentRequest'' (r_id r) No_Snapshot
                   (Request_Row r) []))
        (then_h (notify ac env (q_assignee r)
                   \<lparr> ni_type = ''request.assigned'',
                     ni_title = ''Document request '' @ q_reference r @ '': '' @ q_title r,
                     ni_body = Some (''Due '' @ iso_date (q_due r) @ '' for '' @ e_number e),
                     ni_link = Some (''/requests/'' @ show_nat (r_id r)),
                     ni_payload = JObj [(''requestId'', JId (r_id r)), (''engagementId'', JId (r_id e))] \<rparr>)
          (demand_h (find_request ac (r_id r)) RecordRequired))))"

section \<open>Update\<close>

record update_request_dto =
  uq_title :: "string option"
  uq_description :: "string field"
  uq_assignee :: "uuid field"
  uq_assignee_email :: "string field"
  uq_due :: "time option"
  uq_response :: "string field"

definition request_fields :: "update_request_dto \<Rightarrow> string list" where
  "request_fields dto = given_fields
     [(''title'', uq_title dto \<noteq> None), (''description'', supplied (uq_description dto)),
      (''assigneeId'', supplied (uq_assignee dto)), (''assigneeEmail'', supplied (uq_assignee_email dto)),
      (''dueDate'', uq_due dto \<noteq> None), (''responseNote'', supplied (uq_response dto))]"

definition patch_request :: "update_request_dto \<Rightarrow> document_request \<Rightarrow> document_request" where
  "patch_request dto r =
     r\<lparr> q_title := patch (uq_title dto) (q_title r),
        q_description := patch_nullable (uq_description dto) (q_description r),
        q_assignee := patch_nullable (uq_assignee dto) (q_assignee r),
        q_assignee_email := patch_nullable (uq_assignee_email dto) (q_assignee_email r),
        q_due := patch (uq_due dto) (q_due r),
        q_response := patch_nullable (uq_response dto) (q_response r) \<rparr>"

definition update_request_row :: "actor \<Rightarrow> uuid \<Rightarrow> (document_request \<Rightarrow> document_request) \<Rightarrow> db \<Rightarrow> db" where
  "update_request_row ac i g s = s\<lparr> db_requests := update_in ac (has_id i) g (db_requests s) \<rparr>"

definition check_responder :: "actor \<Rightarrow> update_request_dto \<Rightarrow> document_request \<Rightarrow> unit op" where
  "check_responder ac dto r =
     when_h (\<not> has_permission ac ''request:manage'')
       (then_h (check_h (list_all (\<lambda>k. k = ''responseNote'') (request_fields dto))
                  (Forbidden ''Responders may only edit responseNote''))
         (check_h (q_assignee r = None \<or> q_assignee r = Some (ac_user ac))
            (Forbidden ''This request is assigned to someone else'')))"

definition check_request_open :: "document_request \<Rightarrow> string \<Rightarrow> unit op" where
  "check_request_open r msg =
     check_h (q_status r \<noteq> request_status.ACCEPTED \<and> q_status r \<noteq> request_status.CANCELLED) (Conflict msg)"

definition update_request :: "actor \<Rightarrow> env \<Rightarrow> uuid \<Rightarrow> update_request_dto \<Rightarrow> document_request op" where
  "update_request ac env i dto =
     bind_h (assert_request ac i) (\<lambda>before.
     then_h (check_responder ac dto before)
    (then_h (check_request_open before ''Closed requests cannot be edited'')
    (let after = patch_request dto before in
     then_h (modify_h (update_request_row ac i (patch_request dto)))
    (then_h (audit_record ac env (audit_of ''request.updated'' ''DocumentRequest'' i (Request_Row before)
               (Request_Row after) []))
    (then_h (case or_null (uq_assignee dto) of
               None \<Rightarrow> return_h ()
             | Some u \<Rightarrow> when_h (Some u \<noteq> q_assignee before \<and> u \<noteq> ac_user ac)
                 (notify ac env (Some u)
                   \<lparr> ni_type = ''request.assigned'',
                     ni_title = ''Document request '' @ q_reference after @ '': '' @ q_title after,
                     ni_body = None, ni_link = Some (''/requests/'' @ show_nat i),
                     ni_payload = JObj [(''requestId'', JId i)] \<rparr>))
     (return_h after))))))"

section \<open>Transitions\<close>

text \<open>Submitting is for the assignee, where there is one, and for those who manage requests.\<close>

definition check_assignee :: "actor \<Rightarrow> document_request \<Rightarrow> string \<Rightarrow> unit op" where
  "check_assignee ac r a =
     when_h (q_status r \<in> {request_status.OPEN, RETURNED} \<and> (a = ''submit'' \<or> a = ''resubmit''))
       (check_h (q_assignee r = None \<or> q_assignee r = Some (ac_user ac) \<or> has_permission ac ''request:manage'')
         (Forbidden ''This request is assigned to someone else''))"

definition request_effect :: "time \<Rightarrow> request_status transition \<Rightarrow> string option \<Rightarrow> document_request \<Rightarrow> document_request" where
  "request_effect now t comment r =
     (let r' = r\<lparr> q_status := tr_to t \<rparr>; a = tr_action t in
      if a = ''submit'' \<or> a = ''resubmit'' then r'\<lparr> q_submitted_at := Some now \<rparr>
      else if a = ''accept'' then r'\<lparr> q_accepted_at := Some now \<rparr>
      else if a = ''return'' then r'\<lparr> q_return_reason := comment \<rparr>
      else r')"

definition transition_request :: "actor \<Rightarrow> env \<Rightarrow> uuid \<Rightarrow> transition_dto \<Rightarrow> request_view op" where
  "transition_request ac env i dto =
     bind_h (assert_request ac i) (\<lambda>r.
     then_h (check_assignee ac r (td_action dto))
    (bind_h (gets_h (\<lambda>s. workflow_transition (request_registry ac s) request_status_name request_workflow
               (q_status r) (td_action dto) ac r (td_comment dto) None)) (\<lambda>x.
     bind_h (lift_h x) (\<lambda>t.
     let updated = request_effect (env_now env) t (td_comment dto) r in
     then_h (check_h (tr_action t = ''return'' \<longrightarrow> \<not> is_blank (td_comment dto))
               (BadRequest ''A comment explaining why the request is returned is required''))
    (then_h (modify_h (update_request_row ac i (request_effect (env_now env) t (td_comment dto))))
    (then_h (audit_record ac env (audit_of ''request.status_changed'' ''DocumentRequest'' i
               (Fields [(''status'', JStr (request_status_name (q_status r)))])
               (Fields [(''status'', JStr (request_status_name (q_status updated)))])
               [(''action'', JStr (tr_action t)),
                (''comment'', case td_comment dto of None \<Rightarrow> JNull | Some c \<Rightarrow> JStr c)]))
    (let recipient = (if tr_action t = ''submit'' \<or> tr_action t = ''resubmit'' then Some (q_requested_by r)
                      else q_assignee r) in
     then_h (when_h (recipient \<noteq> None \<and> recipient \<noteq> Some (ac_user ac))
               (notify ac env recipient
                 \<lparr> ni_type = ''request.status_changed'',
                   ni_title = ''Request '' @ q_reference updated @ '' '' @ q_title updated @ '': '' @ to_lower (tr_label t),
                   ni_body = td_comment dto, ni_link = Some (''/requests/'' @ show_nat i),
                   ni_payload = JObj [(''requestId'', JId i), (''action'', JStr (tr_action t))] \<rparr>))
     (get_request ac i))))))))"

section \<open>Linking documents\<close>

definition link_to_request :: "uuid \<Rightarrow> document_request \<Rightarrow> document_request" where
  "link_to_request d r = r\<lparr> q_documents := (if d \<in> set (q_documents r) then q_documents r else q_documents r @ [d]) \<rparr>"

definition own_by_request :: "actor \<Rightarrow> uuid \<Rightarrow> uuid \<Rightarrow> db \<Rightarrow> db" where
  "own_by_request ac d i s =
     s\<lparr> db_documents := update_in ac (has_id d)
          (\<lambda>x. x\<lparr> d_owner_type := Some ''DocumentRequest'', d_owner := Some i \<rparr>) (db_documents s) \<rparr>"

definition link_document :: "actor \<Rightarrow> env \<Rightarrow> uuid \<Rightarrow> uuid \<Rightarrow> request_view op" where
  "link_document ac env i document =
     bind_h (assert_request ac i) (\<lambda>r.
     then_h (check_request_open r ''Closed requests cannot receive documents'')
    (then_h (check_h (has_permission ac ''request:manage'' \<or> q_assignee r = None \<or> q_assignee r = Some (ac_user ac))
               (Forbidden ''This request is assigned to someone else''))
    (then_h (assert_document_access ac document)
    (bind_h (demand_h (\<lambda>s. first_in ac (\<lambda>d. has_id document d \<and> d_deleted_at d = None) (db_documents s))
               (BadRequest ''Document not found'')) (\<lambda>d.
     then_h (check_h (d_owner_type d \<noteq> Some ''AiContext'')
               (BadRequest ''Private AI context cannot be linked to a shared request. Upload the document to the request separately.''))
    (then_h (modify_h (update_request_row ac i (link_to_request document)))
    (then_h (when_h (\<not> truthy (d_owner_type d) \<or> d_owner_type d = Some ''DocumentRequest'')
               (modify_h (own_by_request ac document i)))
    (then_h (audit_record ac env (audit_of ''request.document_linked'' ''DocumentRequest'' i No_Snapshot No_Snapshot
               [(''documentId'', JId document), (''fileName'', JStr (d_file_name d))]))
     (get_request ac i)))))))))"

section \<open>Confinement\<close>

lemma assert_request_reads [intro]: "reads (assert_request ac i)"
  unfolding assert_request_def by (intro reads_intros assert_access_reads)

lemma get_request_reads [intro]: "reads (get_request ac i)"
  unfolding get_request_def by (intro reads_intros assert_request_reads)

lemma request_checks_read [intro]:
  "reads (check_new_request ac cdto)" "reads (check_responder ac udto r)" "reads (check_request_open r msg)"
  "reads (check_assignee ac r a)"
  unfolding check_new_request_def check_responder_def check_request_open_def check_assignee_def
  by (intro reads_intros check_given_reads)+

lemmas request_confined = finding_confined confinement.keeps_reads [OF assert_request_reads]
  confinement.keeps_reads [OF get_request_reads] confinement.keeps_reads [OF request_checks_read(1)]
  confinement.keeps_reads [OF request_checks_read(2)] confinement.keeps_reads [OF request_checks_read(3)]
  confinement.keeps_reads [OF request_checks_read(4)]

lemma request_row_changes [simp]:
  "r_id (patch_request dto r) = r_id r" "r_tenant (patch_request dto r) = r_tenant r"
  "q_status (patch_request dto r) = q_status r"
  "r_id (request_effect now t c r) = r_id r" "r_tenant (request_effect now t c r) = r_tenant r"
  "q_status (request_effect now t c r) = tr_to t"
  "r_id (link_to_request d r) = r_id r" "r_tenant (link_to_request d r) = r_tenant r"
  "q_status (link_to_request d r) = q_status r"
  by (simp_all add: patch_request_def request_effect_def link_to_request_def Let_def)

lemma update_request_row_confined:
  assumes "\<And>r. r_tenant (g r) = r_tenant r"
  shows "same_outside (ac_tenant ac) s (update_request_row ac i g s)" "audit_grows s (update_request_row ac i g s)"
  using assms by (simp_all add: update_request_row_def confined_writes)

lemma own_by_request_confined:
  "same_outside (ac_tenant ac) s (own_by_request ac d i s)" "audit_grows s (own_by_request ac d i s)"
  by (simp_all add: own_by_request_def confined_writes)

lemma create_request_confined: "keeps (confined (ac_tenant ac)) (create_request ac env dto)"
  unfolding create_request_def create_referenced_request_def
  by (intro confined_steps confinement.keeps_allocate request_confined)
     (simp_all add: insert_request_def new_request_def confined_writes)

lemma update_request_confined: "keeps (confined (ac_tenant ac)) (update_request ac env i dto)"
  unfolding update_request_def
  by (intro confined_steps request_confined update_request_row_confined) simp_all

lemma transition_request_confined: "keeps (confined (ac_tenant ac)) (transition_request ac env i dto)"
  unfolding transition_request_def
  by (intro confined_steps request_confined update_request_row_confined) simp_all

lemma link_document_confined: "keeps (confined (ac_tenant ac)) (link_document ac env i d)"
  unfolding link_document_def
  by (intro confined_steps request_confined update_request_row_confined own_by_request_confined assert_access_reads
      confinement.keeps_reads) simp_all

end
