(* ===== verification/Request_Life.thy ===== *)
theory Request_Life
  imports Requests Samples
begin

text \<open>
  The life cycle of a document request: the outcome of its transition endpoint, who may submit and
  what a return needs, the invariant under every request of the API, the finality of closed
  requests, the restriction of responders, and the end of the reference series.
\<close>

section \<open>What a transition does\<close>

definition request_passes :: "actor \<Rightarrow> db \<Rightarrow> document_request \<Rightarrow> transition_dto \<Rightarrow> string \<Rightarrow> bool" where
  "request_passes ac s r dto =
     passes (request_registry ac s) (sm_name request_workflow)
       \<lparr> gc_entity = r, gc_user = ac_user ac, gc_permissions = ac_permissions ac,
         gc_action = td_action dto, gc_comment = td_comment dto \<rparr>"

lemma request_guard:
  "request_passes ac s r dto ''has_attachment_or_response'' \<longleftrightarrow>
     \<not> is_blank (q_response r) \<or>
     (\<exists>d \<in> set (db_documents s). mine ac d \<and> d_deleted_at d = None \<and> d_uploaded_at d \<noteq> None \<and>
        (\<exists>q \<in> set (db_requests s). r_id q = r_id r \<and> r_id d \<in> set (q_documents q)))"
  by (simp add: request_passes_def passes_def request_registry_def get_guard_register guard_ok_passes
      table_simps guard_failed_def [of _ "Inl True"] list_ex_iff del: is_blank.simps neq0_conv)

lemma workflow_accepts_request:
  "workflow_transition (request_registry ac s) request_status_name request_workflow (q_status r)
      (td_action dto) ac r (td_comment dto) None = Inr t \<longleftrightarrow>
   find_transition request_workflow (q_status r) (td_action dto) = Some t \<and>
   tr_permission t \<in> set (ac_permissions ac) \<and>
   list_all (request_passes ac s r dto) (coalesce (tr_guards t) [])"
proof -
  have p: "request_passes ac s r dto = passes (request_registry ac s) (sm_name request_workflow)
    \<lparr> gc_entity = r, gc_user = ac_user ac, gc_permissions = ac_permissions ac,
      gc_action = td_action dto, gc_comment = td_comment dto \<rparr>"
    by (simp add: request_passes_def fun_eq_iff)
  show ?thesis
    by (auto simp: workflow_transition_ok_iff p guards_of_def dest: find_transition_Some)
qed

lemma find_request_Some: "find_request ac i s = Some r \<Longrightarrow> r \<in> set (db_requests s) \<and> mine ac r \<and> r_id r = i"
  by (auto simp: find_request_def has_id_def dest: first_in_Some)

lemma assert_request_found: "assert_request ac i s = (Inr r, s') \<Longrightarrow> find_request ac i s = Some r"
  by (auto simp: assert_request_def assert_request_access_def run_h split: option.splits if_splits)

lemma update_request_row_tables [simp]:
  "db_requests (update_request_row ac i g s) = update_in ac (has_id i) g (db_requests s)"
  "db_documents (update_request_row ac i g s) = db_documents s"
  "db_next (update_request_row ac i g s) = db_next s"
  by (simp_all add: update_request_row_def)

lemma own_by_request_tables [simp]:
  "db_requests (own_by_request ac d i s) = db_requests s" "db_next (own_by_request ac d i s) = db_next s"
  by (simp_all add: own_by_request_def)

text \<open>Who may submit: the assignee, anybody where there is none, and those who manage requests.\<close>

definition may_submit :: "actor \<Rightarrow> document_request \<Rightarrow> bool" where
  "may_submit ac r \<longleftrightarrow> q_assignee r = None \<or> q_assignee r = Some (ac_user ac) \<or> has_permission ac ''request:manage''"

lemma request_transition_run:
  assumes "transition_request ac env i dto s = (x, s')"
  shows "(s' = s \<and> \<not> is_ok x) \<or>
    (\<exists>r t. find_request ac i s = Some r \<and>
       find_transition request_workflow (q_status r) (td_action dto) = Some t \<and>
       tr_permission t \<in> set (ac_permissions ac) \<and>
       list_all (request_passes ac s r dto) (coalesce (tr_guards t) []) \<and>
       (td_action dto \<in> {''submit'', ''resubmit''} \<and> q_status r \<in> {request_status.OPEN, RETURNED} \<longrightarrow> may_submit ac r) \<and>
       (td_action dto = ''return'' \<longrightarrow> \<not> is_blank (td_comment dto)) \<and>
       db_requests s' = update_in ac (has_id i) (request_effect (env_now env) t (td_comment dto)) (db_requests s) \<and>
       db_documents s' = db_documents s)"
proof -
  have g: "get_request ac i x = (y, z) \<Longrightarrow> z = x" for x y z
    using get_request_reads by (rule readsD)
  from assms [unfolded transition_request_def] assert_request_reads show ?thesis
  proof (cases rule: bind_check_cases)
    case (2 r)
    have r: "find_request ac i s = Some r" by (rule assert_request_found [OF 2(1)])
    from 2(2) request_checks_read(4) show ?thesis
    proof (cases rule: then_check_cases)
      case chk: 2
      have m: "td_action dto \<in> {''submit'', ''resubmit''} \<and> q_status r \<in> {request_status.OPEN, RETURNED} \<longrightarrow> may_submit ac r"
        using chk(1) by (auto simp: check_assignee_def may_submit_def run_h split: if_splits)
      let ?wt = "workflow_transition (request_registry ac s) request_status_name request_workflow (q_status r)
        (td_action dto) ac r (td_comment dto) None"
      show ?thesis
      proof (cases ?wt)
        case (Inl e)
        then have "s' = s" "\<not> is_ok x" using chk(2) by (auto simp: run_h)
        then show ?thesis by blast
      next
        case (Inr t)
        note acc = Inr [unfolded workflow_accepts_request]
        have a: "tr_action t = td_action dto" using find_transition_Some [OF conjunct1 [OF acc]] by simp
        have "(s' = s \<and> \<not> is_ok x) \<or>
          ((td_action dto = ''return'' \<longrightarrow> \<not> is_blank (td_comment dto)) \<and>
           db_requests s' = update_in ac (has_id i) (request_effect (env_now env) t (td_comment dto)) (db_requests s) \<and>
           db_documents s' = db_documents s)"
          using chk(2) Inr
          by (auto simp: run_h Let_def a simp del: is_blank.simps split: if_splits dest!: g)
        then show ?thesis using r acc m by blast
      qed
    qed simp
  qed simp
qed

lemma request_moves:
  assumes "t \<in> set (sm_transitions request_workflow)"
  shows "(tr_from t, tr_action t, tr_to t) = (request_status.OPEN, ''submit'', request_status.SUBMITTED) \<or>
     (tr_from t, tr_action t, tr_to t) = (request_status.SUBMITTED, ''accept'', request_status.ACCEPTED) \<or>
     (tr_from t, tr_action t, tr_to t) = (request_status.SUBMITTED, ''return'', RETURNED) \<or>
     (tr_from t, tr_action t, tr_to t) = (RETURNED, ''resubmit'', request_status.SUBMITTED) \<or>
     (tr_from t, tr_action t, tr_to t) = (request_status.OPEN, ''cancel'', request_status.CANCELLED) \<or>
     (tr_from t, tr_action t, tr_to t) = (RETURNED, ''cancel'', request_status.CANCELLED)"
  using imageI [OF assms, of "\<lambda>t. (tr_from t, tr_action t, tr_to t)"]
  unfolding request_workflow_def by simp

lemma request_action_guards:
  assumes "find_transition request_workflow st a = Some t"
  shows "coalesce (tr_guards t) [] =
    (if a = ''submit'' \<or> a = ''resubmit'' then [''has_attachment_or_response''] else [])"
proof -
  have t: "t \<in> set (sm_transitions request_workflow)" "tr_action t = a"
    using find_transition_Some [OF assms] by simp_all
  from imageI [OF t(1), of "\<lambda>t. (tr_action t, tr_guards t)"] show ?thesis
    unfolding request_workflow_def t(2) by (simp, elim disjE) simp_all
qed

text \<open>
  The gates of a document request. A response is submitted only with a response note or an
  uploaded document linked to the request, and only by its assignee, by anybody where nobody is
  assigned, or by a user who manages requests; it is returned only with a reason, which the row
  then carries; and the row gets the status the action leads to.
\<close>

theorem request_gates:
  assumes "transition_request ac env i dto s = (Inr v, s')"
  shows "\<exists>r g. find_request ac i s = Some r \<and> g \<in> set (db_requests s') \<and> r_id g = i \<and>
    (\<exists>t. find_transition request_workflow (q_status r) (td_action dto) = Some t \<and> q_status g = tr_to t) \<and>
    (td_action dto \<in> {''submit'', ''resubmit''} \<longrightarrow> may_submit ac r \<and>
       (\<not> is_blank (q_response r) \<or>
        (\<exists>d \<in> set (db_documents s). mine ac d \<and> d_deleted_at d = None \<and> d_uploaded_at d \<noteq> None \<and>
          (\<exists>q \<in> set (db_requests s). r_id q = i \<and> r_id d \<in> set (q_documents q))))) \<and>
    (td_action dto = ''return'' \<longrightarrow> \<not> is_blank (q_return_reason g) \<and> q_return_reason g = td_comment dto)"
proof -
  obtain r t where r: "find_request ac i s = Some r"
    and t: "find_transition request_workflow (q_status r) (td_action dto) = Some t"
    and p: "list_all (request_passes ac s r dto) (coalesce (tr_guards t) [])"
    and m: "td_action dto \<in> {''submit'', ''resubmit''} \<and> q_status r \<in> {request_status.OPEN, RETURNED} \<longrightarrow> may_submit ac r"
    and c: "td_action dto = ''return'' \<longrightarrow> \<not> is_blank (td_comment dto)"
    and d: "db_requests s' = update_in ac (has_id i) (request_effect (env_now env) t (td_comment dto)) (db_requests s)"
    using request_transition_run [OF assms] by auto
  let ?g = "request_effect (env_now env) t (td_comment dto) r"
  have q: "r_id r = i" "r \<in> set (db_requests s)" "mine ac r" using find_request_Some [OF r] by simp_all
  have a: "tr_action t = td_action dto" "t \<in> set (sm_transitions request_workflow)" "tr_from t = q_status r"
    using find_transition_Some [OF t] by simp_all
  have "?g \<in> set (db_requests s')" using q unfolding d set_update_in by (auto simp: has_id_def)
  moreover have "td_action dto \<in> {''submit'', ''resubmit''} \<longrightarrow> q_status r \<in> {request_status.OPEN, RETURNED}"
    using request_moves [OF a(2)] a(1,3) by (elim disjE) simp_all
  moreover have "td_action dto \<in> {''submit'', ''resubmit''} \<longrightarrow> request_passes ac s r dto ''has_attachment_or_response''"
    using p unfolding request_action_guards [OF t] by (simp split: if_splits)
  moreover have "td_action dto = ''return'' \<longrightarrow> q_return_reason ?g = td_comment dto"
    using a(1) by (simp add: request_effect_def Let_def)
  ultimately show ?thesis
    using r t m c q unfolding request_guard
    by (intro exI [of _ r] exI [of _ ?g]) (simp del: is_blank.simps)
qed

section \<open>The status follows the machine\<close>

definition request_status_of :: "uuid \<Rightarrow> db \<Rightarrow> request_status option" where
  "request_status_of i s = map_option q_status (the_row i (db_requests s))"

definition perform_request ::
  "actor \<Rightarrow> env \<Rightarrow> uuid \<Rightarrow> string \<Rightarrow> string option \<Rightarrow> db \<Rightarrow> db" where
  "perform_request ac env i a c s =
     snd (transition_request ac env i \<lparr> td_action = a, td_comment = c \<rparr> s)"

interpretation request_handler: row_endpoint request_workflow db_requests q_status perform_request
proof unfold_locales
  fix ac env i a c s
  obtain x s' where run: "transition_request ac env i \<lparr> td_action = a, td_comment = c \<rparr> s = (x, s')"
    by (cases "transition_request ac env i \<lparr> td_action = a, td_comment = c \<rparr> s")
  from request_transition_run [OF run]
  show "db_requests (perform_request ac env i a c s) = db_requests s \<or>
     (\<exists>r t g. r \<in> set (db_requests s) \<and> mine ac r \<and> r_id r = i \<and>
        find_transition request_workflow (q_status r) a = Some t \<and> tr_permission t \<in> set (ac_permissions ac) \<and>
        db_requests (perform_request ac env i a c s) = update_in ac (has_id i) g (db_requests s) \<and>
        (\<forall>x. r_id x = i \<longrightarrow> r_id (g x) = i \<and> q_status (g x) = tr_to t))"
  proof
    assume "\<exists>r t. find_request ac i s = Some r \<and>
       find_transition request_workflow (q_status r) (td_action \<lparr> td_action = a, td_comment = c \<rparr>) = Some t \<and>
       tr_permission t \<in> set (ac_permissions ac) \<and>
       list_all (request_passes ac s r \<lparr> td_action = a, td_comment = c \<rparr>) (coalesce (tr_guards t) []) \<and>
       (td_action \<lparr> td_action = a, td_comment = c \<rparr> \<in> {''submit'', ''resubmit''} \<and>
          q_status r \<in> {request_status.OPEN, RETURNED} \<longrightarrow> may_submit ac r) \<and>
       (td_action \<lparr> td_action = a, td_comment = c \<rparr> = ''return'' \<longrightarrow>
          \<not> is_blank (td_comment \<lparr> td_action = a, td_comment = c \<rparr>)) \<and>
       db_requests s' = update_in ac (has_id i)
         (request_effect (env_now env) t (td_comment \<lparr> td_action = a, td_comment = c \<rparr>)) (db_requests s) \<and>
       db_documents s' = db_documents s"
    then obtain r t where r: "find_request ac i s = Some r" "find_transition request_workflow (q_status r) a = Some t"
      "tr_permission t \<in> set (ac_permissions ac)"
      "db_requests s' = update_in ac (has_id i) (request_effect (env_now env) t c) (db_requests s)"
      by auto
    then show ?thesis using run find_request_Some [OF r(1)]
      by (intro disjI2 exI [of _ r] exI [of _ t] exI [of _ "request_effect (env_now env) t c"])
        (simp add: perform_request_def)
  qed (use run in \<open>simp add: perform_request_def\<close>)
qed

section \<open>The invariant of requests\<close>

definition request_ok :: "document_request \<Rightarrow> bool" where
  "request_ok r \<longleftrightarrow>
     (q_status r \<in> {request_status.SUBMITTED, request_status.ACCEPTED, RETURNED} \<longrightarrow> q_submitted_at r \<noteq> None) \<and>
     (q_status r = request_status.ACCEPTED \<longleftrightarrow> q_accepted_at r \<noteq> None) \<and>
     (q_status r = RETURNED \<longrightarrow> \<not> is_blank (q_return_reason r))"

definition requests_ok :: "db \<Rightarrow> bool" where
  "requests_ok s \<longleftrightarrow> table_ok request_ok (db_next s) (db_requests s)"

datatype request_call =
    Create_Request create_request_dto
  | Update_Request uuid update_request_dto
  | Transition_Request uuid transition_dto
  | Link_Document uuid uuid

fun call_request :: "actor \<Rightarrow> env \<Rightarrow> request_call \<Rightarrow> db \<Rightarrow> db" where
  "call_request ac env (Create_Request dto) s = snd (create_request ac env dto s)"
| "call_request ac env (Update_Request i udto) s = snd (update_request ac env i udto s)"
| "call_request ac env (Transition_Request i tdto) s = snd (transition_request ac env i tdto s)"
| "call_request ac env (Link_Document i d) s = snd (link_document ac env i d s)"

definition call_requests :: "(actor \<times> env \<times> request_call) list \<Rightarrow> db \<Rightarrow> db" where
  "call_requests calls s = fold (\<lambda>(ac, env, c). call_request ac env c) calls s"

lemma call_request_confined: "confined (ac_tenant ac) s (call_request ac env c s)"
proof -
  have k: "confined (ac_tenant ac) s (snd (m s))" if "keeps (confined (ac_tenant ac)) m" for m :: "'a op"
    using that by (simp add: keeps_def)
  show ?thesis
    using k [OF create_request_confined] k [OF update_request_confined] k [OF transition_request_confined]
      k [OF link_document_confined]
    by (cases c) simp_all
qed

lemma create_referenced_request_failure: "create_referenced_request ac env dto ref s = (Inl er, s') \<Longrightarrow> s' = s"
  by (auto simp: create_referenced_request_def run_h split: if_splits)

lemma create_referenced_request_ok:
  "create_referenced_request ac env dto ref s = (Inr r, s') \<longleftrightarrow>
   (\<forall>q \<in> set (db_requests s). \<not> (q_engagement q = cq_engagement dto \<and> q_reference q = ref)) \<and>
   r = new_request ac env dto ref s \<and> s' = insert_request r s"
  by (auto simp: create_referenced_request_def ok_h table_simps)

lemma insert_request_tables [simp]:
  "db_requests (insert_request r s) = db_requests s @ [r]" "db_next (insert_request r s) = db_next s + 1"
  "db_users (insert_request r s) = db_users s"
  by (simp_all add: insert_request_def insert_row_def)

lemma new_request_row [simp]:
  "r_id (new_request ac env dto ref s) = db_next s" "r_tenant (new_request ac env dto ref s) = ac_tenant ac"
  "q_status (new_request ac env dto ref s) = request_status.OPEN"
  "q_engagement (new_request ac env dto ref s) = cq_engagement dto"
  "q_reference (new_request ac env dto ref s) = ref"
  by (simp_all add: new_request_def)

lemma create_request_tables:
  assumes "create_request ac env dto s = (r, s')"
  shows "db_requests s' = db_requests s \<or>
    (\<exists>ref. db_requests s' = db_requests s @ [new_request ac env dto ref s] \<and> db_next s < db_next s')"
proof -
  let ?al = "allocate_h (latest_request_reference ac (cq_engagement dto))
    (\<lambda>latest. Inr (next_request_reference latest)) (create_referenced_request ac env dto)"
  have n: "db_next z \<le> db_next (notified ac env u inp z)" for u inp z
    by (simp add: notified_def split: option.split)
  from assms [unfolded create_request_def] request_checks_read(1) show ?thesis
  proof (cases rule: bind_check_cases)
    case (2 e)
    obtain x t where al: "?al 5 s = (x, t)" by (cases "?al 5 s")
    have "t = s \<and> (\<forall>y. x \<noteq> Inr (Some y)) \<or>
        (\<exists>q ref. x = Inr (Some q) \<and> (Inr (next_request_reference (latest_request_reference ac (cq_engagement dto) s)) :: string result) = Inr ref \<and>
           create_referenced_request ac env dto ref s = (Inr q, t))"
      by (rule allocate_cases [OF al]) (rule create_referenced_request_failure)
    then consider "t = s" "\<forall>y. x \<noteq> Inr (Some y)"
      | q ref where "x = Inr (Some q)" "create_referenced_request ac env dto ref s = (Inr q, t)" by auto
    then show ?thesis
    proof cases
      case 1
      then show ?thesis using 2(2) al by (auto simp: run_h split: sum.splits option.splits)
    next
      case made: (2 q ref)
      then have t: "t = insert_request q s" "q = new_request ac env dto ref s"
        by (simp_all add: create_referenced_request_ok)
      obtain u inp ev where "s' = notified ac env u inp (audited ac env ev t)"
        using 2(2) al made(1) by (auto simp: run_h split: option.splits)
      then have "db_requests s' = db_requests s @ [new_request ac env dto ref s]" "db_next s < db_next s'"
        using t n [of "audited ac env ev t" u inp] by (simp_all add: audited_def)
      then show ?thesis by blast
    qed
  qed simp
qed

lemma update_request_run:
  assumes "update_request ac env i dto s = (x, s')"
  shows "(s' = s \<and> \<not> is_ok x) \<or>
    (\<exists>r. find_request ac i s = Some r \<and> q_status r \<noteq> request_status.ACCEPTED \<and> q_status r \<noteq> request_status.CANCELLED \<and>
       (has_permission ac ''request:manage'' \<or>
        list_all (\<lambda>k. k = ''responseNote'') (request_fields dto) \<and> (q_assignee r = None \<or> q_assignee r = Some (ac_user ac))) \<and>
       db_requests s' = update_in ac (has_id i) (patch_request dto) (db_requests s) \<and> x = Inr (patch_request dto r))"
  using assms [unfolded update_request_def] assert_request_reads
proof (cases rule: bind_check_cases)
  case (2 r)
  have r: "find_request ac i s = Some r" by (rule assert_request_found [OF 2(1)])
  from 2(2) request_checks_read(2) show ?thesis
  proof (cases rule: then_check_cases)
    case resp: 2
    have w: "has_permission ac ''request:manage'' \<or>
        list_all (\<lambda>k. k = ''responseNote'') (request_fields dto) \<and> (q_assignee r = None \<or> q_assignee r = Some (ac_user ac))"
      using resp(1) by (auto simp: check_responder_def run_h split: if_splits)
    from resp(2) request_checks_read(3) show ?thesis
    proof (cases rule: then_check_cases)
      case opn: 2
      have o: "q_status r \<noteq> request_status.ACCEPTED" "q_status r \<noteq> request_status.CANCELLED"
        using opn(1) by (auto simp: check_request_open_def run_h split: if_splits)
      have "db_requests s' = update_in ac (has_id i) (patch_request dto) (db_requests s)" "x = Inr (patch_request dto r)"
        using opn(2) by (auto simp: run_h Let_def split: option.splits if_splits)
      then show ?thesis using r w o by blast
    qed simp
  qed simp
qed simp

lemma link_document_run:
  assumes "link_document ac env i d s = (x, s')"
  shows "db_requests s' = db_requests s \<or>
    (\<exists>r. find_request ac i s = Some r \<and> q_status r \<noteq> request_status.ACCEPTED \<and> q_status r \<noteq> request_status.CANCELLED \<and>
       db_requests s' = update_in ac (has_id i) (link_to_request d) (db_requests s))"
proof -
  have g: "get_request ac i x = (y, z) \<Longrightarrow> z = x" for x y z
    using get_request_reads by (rule readsD)
  from assms [unfolded link_document_def] assert_request_reads show ?thesis
  proof (cases rule: bind_check_cases)
    case (2 r)
    have r: "find_request ac i s = Some r" by (rule assert_request_found [OF 2(1)])
    from 2(2) request_checks_read(3) show ?thesis
    proof (cases rule: then_check_cases)
      case opn: 2
      have o: "q_status r \<noteq> request_status.ACCEPTED" "q_status r \<noteq> request_status.CANCELLED"
        using opn(1) by (auto simp: check_request_open_def run_h split: if_splits)
      from opn(2) reads_check show ?thesis
      proof (cases rule: then_check_cases)
        case own: 2
        from own(2) assert_access_reads(4) show ?thesis
        proof (cases rule: then_check_cases)
          case acc: 2
          from acc(2) reads_demand show ?thesis
          proof (cases rule: bind_check_cases)
            case doc: (2 q)
            from doc(2) reads_check show ?thesis
            proof (cases rule: then_check_cases)
              case ai: 2
              have "db_requests s' = update_in ac (has_id i) (link_to_request d) (db_requests s)"
                using ai(2) by (auto simp: run_h split: if_splits dest!: g)
              then show ?thesis using r o by blast
            qed simp
          qed simp
        qed simp
      qed simp
    qed simp
  qed simp
qed

lemma request_effect_ok:
  assumes "find_transition request_workflow (q_status r) a = Some t" "a = ''return'' \<Longrightarrow> \<not> is_blank c" "request_ok r"
  shows "request_ok (request_effect now t c r)"
proof -
  have t: "t \<in> set (sm_transitions request_workflow)" "tr_action t = a" "tr_from t = q_status r"
    using find_transition_Some [OF assms(1)] by simp_all
  then show ?thesis
    using request_moves [OF t(1)] assms(2,3)
    by (elim disjE) (simp_all add: request_ok_def request_effect_def Let_def del: is_blank.simps)
qed

lemma patch_request_ok: "request_ok r \<Longrightarrow> request_ok (patch_request dto r)"
  and link_to_request_ok: "request_ok r \<Longrightarrow> request_ok (link_to_request d r)"
  by (simp_all add: request_ok_def patch_request_def link_to_request_def del: is_blank.simps)

text \<open>A call adds an open request or rewrites one that is still open.\<close>

definition request_change :: "actor \<Rightarrow> db \<Rightarrow> db \<Rightarrow> bool" where
  "request_change ac s s' \<longleftrightarrow>
     db_requests s' = db_requests s \<or>
     (\<exists>r. db_requests s' = db_requests s @ [r] \<and> r_id r = db_next s \<and> db_next s < db_next s' \<and> request_ok r) \<or>
     (\<exists>r g. r \<in> set (db_requests s) \<and> mine ac r \<and> q_status r \<noteq> request_status.ACCEPTED \<and>
        q_status r \<noteq> request_status.CANCELLED \<and>
        db_requests s' = update_in ac (has_id (r_id r)) g (db_requests s) \<and> (\<forall>x. r_id (g x) = r_id x) \<and>
        (request_ok r \<longrightarrow> request_ok (g r)))"

lemma request_changeI:
  assumes "find_request ac i s = Some r" "q_status r \<noteq> request_status.ACCEPTED" "q_status r \<noteq> request_status.CANCELLED"
    and "db_requests s' = update_in ac (has_id i) g (db_requests s)" "\<And>x. r_id (g x) = r_id x"
    and "request_ok r \<Longrightarrow> request_ok (g r)"
  shows "request_change ac s s'"
  using assms find_request_Some [OF assms(1)] unfolding request_change_def by blast

lemma request_transition_open:
  assumes "find_transition request_workflow (q_status r) a = Some t"
  shows "q_status r \<noteq> request_status.ACCEPTED" "q_status r \<noteq> request_status.CANCELLED"
proof -
  have t: "t \<in> set (sm_transitions request_workflow)" "tr_from t = q_status r"
    using find_transition_Some [OF assms] by simp_all
  show "q_status r \<noteq> request_status.ACCEPTED" "q_status r \<noteq> request_status.CANCELLED"
    using request_moves [OF t(1)] t(2) by (elim disjE; simp)+
qed

lemma call_request_change: "request_change ac s (call_request ac env c s)"
proof (cases c)
  case (Create_Request dto)
  obtain r s' where run: "create_request ac env dto s = (r, s')" by (cases "create_request ac env dto s")
  have "request_ok (new_request ac env dto ref s)" for ref by (simp add: request_ok_def new_request_def)
  then show ?thesis using create_request_tables [OF run] run Create_Request
    unfolding request_change_def by auto
next
  case (Update_Request i dto)
  obtain x s' where run: "update_request ac env i dto s = (x, s')" by (cases "update_request ac env i dto s")
  show ?thesis using update_request_run [OF run] run Update_Request
    by (auto intro: request_changeI patch_request_ok simp: request_change_def [of ac s s])
next
  case (Transition_Request i dto)
  obtain x s' where run: "transition_request ac env i dto s = (x, s')" by (cases "transition_request ac env i dto s")
  show ?thesis using request_transition_run [OF run] run Transition_Request
    by (auto intro: request_changeI request_effect_ok dest: request_transition_open
        simp: request_change_def [of ac s s] simp del: is_blank.simps)
next
  case (Link_Document i d)
  obtain x s' where run: "link_document ac env i d s = (x, s')" by (cases "link_document ac env i d s")
  have "request_change ac s s'" if "db_requests s' = db_requests s" using that by (simp add: request_change_def)
  then show ?thesis using link_document_run [OF run] run Link_Document
    by (auto intro: request_changeI link_to_request_ok)
qed

lemma call_request_ok:
  assumes "requests_ok s" shows "requests_ok (call_request ac env c s)"
proof -
  have "db_next s \<le> db_next (call_request ac env c s)" by (rule confined_next [OF call_request_confined])
  then have "row_step ac request_ok (db_next s) (db_next (call_request ac env c s)) (db_requests s)
      (db_requests (call_request ac env c s))"
    using call_request_change [of ac s env c] unfolding request_change_def row_step_def by blast
  then show ?thesis using assms row_step_ok unfolding requests_ok_def by blast
qed

text \<open>
  C21. The invariant of document requests. Whatever requests reach the API, by whichever users and in
  any order, in a database where it held: keys stay unique; a submitted, returned or accepted
  request carries the time of its submission; it carries a time of acceptance exactly when it is
  accepted; and a returned one carries a reason.
\<close>

theorem requests_invariant:
  assumes "requests_ok s"
  shows "requests_ok (call_requests calls s)"
  using assms
proof (induction calls arbitrary: s)
  case (Cons c calls)
  then show ?case by (auto simp: call_requests_def call_request_ok split: prod.split)
qed (simp add: call_requests_def)

lemma closed_request_step:
  assumes "requests_ok s" "the_row i (db_requests s) = Some r"
    and "q_status r = request_status.ACCEPTED \<or> q_status r = request_status.CANCELLED"
  shows "the_row i (db_requests (call_request ac env c s)) = Some r"
proof -
  have i: "i < db_next s" using assms(1) the_row_Some(1,2) [OF assms(2)]
    by (simp add: requests_ok_def table_ok_def) blast
  from call_request_change [of ac s env c, unfolded request_change_def] show ?thesis
  proof (elim disjE exE conjE)
    fix q assume "db_requests (call_request ac env c s) = db_requests s @ [q]" "r_id q = db_next s"
    then show ?thesis using assms(2) i by (simp add: the_row_insert_other [unfolded insert_row_def])
  next
    fix q g
    assume q: "q \<in> set (db_requests s)" "q_status q \<noteq> request_status.ACCEPTED" "q_status q \<noteq> request_status.CANCELLED"
      and u: "db_requests (call_request ac env c s) = update_in ac (has_id (r_id q)) g (db_requests s)"
      and g: "\<forall>x. r_id (g x) = r_id x"
    have "i \<noteq> r_id q" using the_row_Some(3) [OF assms(2) q(1)] q(2,3) assms(3) by auto
    then show ?thesis using assms(2) g unfolding u by (simp add: the_row_update_other)
  qed (use assms(2) in simp)
qed

text \<open>
  An accepted or cancelled request is final: no sequence of requests to the API changes any of
  its columns or the documents linked to it, whoever makes them.
\<close>

theorem closed_request_frozen:
  assumes "requests_ok s" "the_row i (db_requests s) = Some r"
    and "q_status r \<in> {request_status.ACCEPTED, request_status.CANCELLED}"
  shows "the_row i (db_requests (call_requests calls s)) = Some r"
  using assms
proof (induction calls arbitrary: s)
  case (Cons c calls)
  obtain ac env d where c: "c = (ac, env, d)" by (cases c)
  have "the_row i (db_requests (call_request ac env d s)) = Some r"
    using Cons.prems by (intro closed_request_step) simp_all
  with Cons c show ?case using call_request_ok [OF Cons.prems(1), of ac env d]
    by (simp add: call_requests_def)
qed (simp add: call_requests_def)

text \<open>
  Whoever may not manage requests can change only the response: the edit succeeds only on an
  open request that is assigned to the caller or to nobody, and the row it returns and stores
  differs from the old one at most in the response note.
\<close>

theorem responder_edits:
  assumes "update_request ac env i dto s = (Inr v, s')" "\<not> has_permission ac ''request:manage''"
  shows "\<exists>r. find_request ac i s = Some r \<and>
    (q_assignee r = None \<or> q_assignee r = Some (ac_user ac)) \<and>
    q_status r \<notin> {request_status.ACCEPTED, request_status.CANCELLED} \<and>
    v = r\<lparr> q_response := q_response v \<rparr> \<and> v \<in> set (db_requests s')"
proof -
  obtain r where r: "find_request ac i s = Some r" "q_status r \<noteq> request_status.ACCEPTED"
      "q_status r \<noteq> request_status.CANCELLED" "q_assignee r = None \<or> q_assignee r = Some (ac_user ac)"
    and f: "list_all (\<lambda>k. k = ''responseNote'') (request_fields dto)"
    and d: "db_requests s' = update_in ac (has_id i) (patch_request dto) (db_requests s)"
    and v: "v = patch_request dto r"
    using update_request_run [OF assms(1)] assms(2) by auto
  have none: "uq_title dto = None" "\<not> supplied (uq_description dto)" "\<not> supplied (uq_assignee dto)"
      "\<not> supplied (uq_assignee_email dto)" "uq_due dto = None"
    using f by (auto simp: request_fields_def given_fields_def split: if_splits)
  have keep: "patch_nullable w old = old" if "\<not> supplied w" for w :: "'a field" and old
    using that by (cases w) simp_all
  have "v = r\<lparr> q_response := q_response v \<rparr>" unfolding v patch_request_def by (simp add: none keep)
  moreover have "v \<in> set (db_requests s')"
    using find_request_Some [OF r(1)] unfolding d set_update_in v by (auto simp: has_id_def)
  ultimately show ?thesis using r by blast
qed

section \<open>References\<close>

interpretation request_series:
  reference_series db_requests q_engagement q_reference "''DR-''" next_request_reference latest_request_reference
  by unfold_locales
    (simp_all only: latest_request_reference_def next_request_reference_pad, simp add: next_request_reference_def)

text \<open>
  References of document requests run out. In an engagement whose requests are numbered without
  gaps, an admissible request gets the next number as long as there are fewer than a hundred, and
  the series stays without gaps; with a hundred of them every creation fails on the unique
  constraint and leaves the database as it was.
\<close>

theorem request_references_run_out:
  assumes "numbered_rows q_engagement q_reference ''DR-'' ac (cq_engagement dto) n (db_requests s)"
    and "check_new_request ac dto s = (Inr e, s)" and "requests_ok s"
  shows "(n < 100 \<longrightarrow> (\<exists>r s'. create_request ac env dto s = (Inr r, s') \<and> q_reference r = ''DR-'' @ pad (n + 1) 2 \<and>
            numbered_rows q_engagement q_reference ''DR-'' ac (cq_engagement dto) (n + 1) (db_requests s'))) \<and>
    (n = 100 \<longrightarrow> create_request ac env dto s = (Inl UniqueViolation, s))"
proof (intro conjI impI)
  assume n: "n < 100"
  let ?ref = "''DR-'' @ pad (n + 1) 2"
  let ?r = "new_request ac env dto ?ref s"
  have c: "create_referenced_request ac env dto ?ref s = (Inr ?r, insert_request ?r s)"
    using request_series.taken_iff [OF assms(1), of "n + 1"] unfolding create_referenced_request_ok by auto
  have al: "allocate_h (latest_request_reference ac (cq_engagement dto))
      (\<lambda>latest. Inr (next_request_reference latest)) (create_referenced_request ac env dto) (Suc 4) s =
      (Inr (Some ?r), insert_request ?r s)"
    by (rule request_series.allocate_numbered [where create = "create_referenced_request ac env dto", OF assms(1) n c])
  have "\<forall>g \<in> set (db_requests s). r_id g \<noteq> db_next s" using assms(3) by (auto simp: requests_ok_def table_ok_def)
  then have f: "first_in ac (has_id (db_next s)) (db_requests s @ [?r]) = Some ?r"
    by (intro first_in_snoc) (simp_all add: has_id_def mine_def)
  obtain s' where "create_request ac env dto s = (Inr ?r, s')" "db_requests s' = db_requests s @ [?r]"
    using assms(2) al f by (simp add: create_request_def run_h find_request_def)
  moreover from this have "numbered_rows q_engagement q_reference ''DR-'' ac (cq_engagement dto) (n + 1) (db_requests s')"
    by (intro request_series.numbered_extend [where r = ?r, OF assms(1)]) (simp_all add: mine_def)
  ultimately show "\<exists>r s'. create_request ac env dto s = (Inr r, s') \<and> q_reference r = ''DR-'' @ pad (n + 1) 2 \<and>
      numbered_rows q_engagement q_reference ''DR-'' ac (cq_engagement dto) (n + 1) (db_requests s')"
    by (intro exI [of _ ?r] exI [of _ s']) simp
next
  assume n: "n = 100"
  note full = assms(1) [unfolded n]
  have c: "create_referenced_request ac env dto (''DR-'' @ pad 100 2) s = (Inl UniqueViolation, s)"
    using request_series.taken_iff [OF full, of 100] by (auto simp: create_referenced_request_def run_h table_simps)
  have "allocate_h (latest_request_reference ac (cq_engagement dto))
      (\<lambda>latest. Inr (next_request_reference latest)) (create_referenced_request ac env dto) (Suc 4) s =
      (Inl UniqueViolation, s)"
    by (rule request_series.allocate_exhausted [where create = "create_referenced_request ac env dto", OF full c])
  then show "create_request ac env dto s = (Inl UniqueViolation, s)"
    using assms(2) by (simp add: create_request_def run_h)
qed

section \<open>Examples\<close>

definition ex_responder :: actor where
  "ex_responder = ex_actor 4 [BUSINESS_OWNER] [''request:respond'']"

definition ex_auditor :: actor where
  "ex_auditor = ex_actor 2 [AUDIT_MANAGER] [''request:manage'', ''request:respond'']"

lemma ex_request_actors [simp]:
  "ac_user ex_responder = 4" "ac_tenant ex_responder = 1" "ac_permissions ex_responder = [''request:respond'']"
  "ac_user ex_auditor = 2" "ac_tenant ex_auditor = 1" "\<not> is_portal_scoped ex_auditor"
  "ac_permissions ex_auditor = [''request:manage'', ''request:respond'']"
  by (simp_all add: ex_responder_def ex_auditor_def ex_actor_def is_portal_scoped_def audit_function_roles_def)

lemma ex_find_request: "ac_tenant ac = 1 \<Longrightarrow> find_request ac 50 ex_db = Some ex_request"
  by (simp add: find_request_def has_id_def ex_request_def)

lemma ex_assert_request: "assert_request ex_responder 50 ex_db = (Inr ex_request, ex_db)"
  by (simp add: assert_request_def assert_request_access_def run_h ex_find_request has_id_def ex_request_def
      request_scope_def)

definition ex_respond :: update_request_dto where
  "ex_respond = \<lparr> uq_title = None, uq_description = Undefined, uq_assignee = Undefined,
     uq_assignee_email = Undefined, uq_due = None, uq_response = Value ''attached'' \<rparr>"

lemma ex_requests_ok: "requests_ok ex_db"
  by (simp add: requests_ok_def table_ok_def request_ok_def ex_request_def)

lemma request_guards_registered: "guards_registered (request_registry ac s) request_workflow (\<lambda>_. [])"
  by (simp add: guards_registered_def request_workflow_def guards_of_def has_guard_def request_registry_def
      get_guard_register)

definition ex_submit_request :: transition_dto where
  "ex_submit_request = \<lparr> td_action = ''submit'', td_comment = None \<rparr>"

definition ex_submit_step :: "request_status transition" where
  "ex_submit_step = \<lparr> tr_from = request_status.OPEN, tr_to = request_status.SUBMITTED, tr_action = ''submit'',
     tr_label = ''Submit response'', tr_permission = ''request:respond'',
     tr_guards = Some [''has_attachment_or_response''] \<rparr>"

lemma ex_submit_request_run: "\<exists>v s'. transition_request ex_auditor ex_env 50 ex_submit_request ex_db = (Inr v, s')"
proof -
  have st: "q_status ex_request = request_status.OPEN" by (simp add: ex_request_def)
  have "find_transition request_workflow (q_status ex_request) ''submit'' = Some ex_submit_step"
    by (simp add: st find_transition_def request_workflow_def ex_submit_step_def)
  moreover have "request_passes ex_auditor ex_db ex_request ex_submit_request ''has_attachment_or_response''"
    unfolding request_guard by (simp add: ex_request_def trim_def is_space_def)
  ultimately have wt: "workflow_transition (request_registry ex_auditor ex_db) request_status_name request_workflow
      (q_status ex_request) ''submit'' ex_auditor ex_request None None = Inr ex_submit_step"
    using workflow_accepts_request [of ex_auditor ex_db ex_request ex_submit_request ex_submit_step]
    by (simp add: ex_submit_request_def) (simp add: ex_submit_step_def)
  let ?r = "request_effect (env_now ex_env) ex_submit_step None ex_request"
  have get: "(\<exists>v s'. get_request ex_auditor 50 x = (Inr v, s')) = True"
    if "db_requests x = [?r]" for x
  proof -
    obtain acts where "workflow_available (request_registry ex_auditor x) request_workflow (q_status ?r) ex_auditor ?r (\<lambda>_. []) = Inr acts"
      using workflow_available_ok [OF request_guards_registered] by blast
    moreover have "r_id ex_request = 50" "r_tenant ex_request = 1" by (simp_all add: ex_request_def)
    ultimately show ?thesis
      using that by (simp add: get_request_def assert_request_def assert_request_access_def find_request_def run_h
          has_id_def request_scope_def)
  qed
  have as: "assert_request ex_auditor 50 ex_db = (Inr ex_request, ex_db)"
    by (simp add: assert_request_def assert_request_access_def run_h ex_find_request has_id_def ex_request_def
        request_scope_def)
  have row: "r_id ex_request = 50" "r_tenant ex_request = 1" by (simp_all add: ex_request_def)
  have ca: "check_assignee ex_auditor ex_request ''submit'' ex_db = (Inr (), ex_db)"
    by (simp add: check_assignee_def run_h has_permission_def)
  have ac: "tr_action ex_submit_step = ''submit''" by (simp add: ex_submit_step_def)
  show ?thesis
    unfolding transition_request_def Let_def ex_submit_request_def
    by (cases "q_requested_by ex_request = 2") (simp_all add: run_h as ca wt ac get row has_id_def)
qed

lemma request_gates_witness:
  "\<exists>v s' g. transition_request ex_auditor ex_env 50 ex_submit_request ex_db = (Inr v, s') \<and>
     g \<in> set (db_requests s') \<and> r_id g = 50 \<and> q_status g = request_status.SUBMITTED"
proof -
  obtain v s' where run: "transition_request ex_auditor ex_env 50 ex_submit_request ex_db = (Inr v, s')"
    using ex_submit_request_run by blast
  have "find_transition request_workflow request_status.OPEN ''submit'' = Some ex_submit_step"
    by (simp add: find_transition_def request_workflow_def ex_submit_step_def)
  moreover have "q_status ex_request = request_status.OPEN" by (simp add: ex_request_def)
  ultimately show ?thesis
    using run request_gates [OF run] by (auto simp: ex_find_request ex_submit_request_def ex_submit_step_def)
qed

lemma requests_invariant_witness:
  "requests_ok (call_requests [(ex_responder, ex_env, Update_Request 50 ex_respond),
     (ex_auditor, ex_env, Transition_Request 50 ex_submit_request)] ex_db)"
  by (rule requests_invariant [OF ex_requests_ok])

definition ex_accepted :: document_request where
  "ex_accepted = ex_request\<lparr> q_status := request_status.ACCEPTED, q_submitted_at := Some 1, q_accepted_at := Some 2 \<rparr>"

definition ex_accepted_db :: db where
  "ex_accepted_db = ex_db\<lparr> db_requests := [ex_accepted] \<rparr>"

lemma closed_request_frozen_witness:
  "the_row 50 (db_requests (call_requests [(ex_auditor, ex_env, Update_Request 50 ex_respond)] ex_accepted_db)) =
     Some ex_accepted"
  by (rule closed_request_frozen)
    (simp_all add: ex_accepted_db_def ex_accepted_def ex_request_def requests_ok_def table_ok_def request_ok_def
      the_row_def has_id_def)

lemma responder_edits_witness:
  "\<exists>v s'. update_request ex_responder ex_env 50 ex_respond ex_db = (Inr v, s') \<and>
     q_response v = Some ''attached'' \<and> v \<in> set (db_requests s')"
proof -
  have "request_fields ex_respond = [''responseNote'']" by (simp add: request_fields_def given_fields_def ex_respond_def)
  moreover have "\<not> has_permission ex_responder ''request:manage''" by (simp add: has_permission_def)
  moreover have "q_assignee ex_request = Some 4" "q_status ex_request = request_status.OPEN" by (simp_all add: ex_request_def)
  moreover have "uq_assignee ex_respond = Undefined" "patch_request ex_respond r = r\<lparr> q_response := Some ''attached'' \<rparr>" for r
    by (simp_all add: ex_respond_def patch_request_def)
  ultimately obtain s' where run: "update_request ex_responder ex_env 50 ex_respond ex_db =
      (Inr (ex_request\<lparr> q_response := Some ''attached'' \<rparr>), s')"
    by (simp add: update_request_def run_h ex_assert_request check_responder_def check_request_open_def Let_def)
  with responder_edits [OF run] show ?thesis by (auto simp: has_permission_def)
qed

definition ex_new_request :: create_request_dto where
  "ex_new_request = \<lparr> cq_engagement = 10, cq_title = ''t'', cq_description = None, cq_assignee = None,
     cq_assignee_email = None, cq_due = 5 \<rparr>"

lemma ex_request_pad: "pad (Suc 0) 2 = ''01''" "pad 2 2 = ''02''"
  by code_simp+

lemma request_references_run_out_witness:
  "\<exists>r s'. create_request ex_auditor ex_env ex_new_request ex_db = (Inr r, s') \<and> q_reference r = ''DR-02''"
proof -
  have "numbered_rows q_engagement q_reference ''DR-'' ex_auditor (cq_engagement ex_new_request) 1 (db_requests ex_db)"
    by (simp add: numbered_rows_def ex_new_request_def ex_request_def mine_def many_in_def find_many_def
        starts_with_def references_to_def ex_request_pad)
  moreover have "check_new_request ex_auditor ex_new_request ex_db = (Inr ex_engagement, ex_db)"
    by (simp add: check_new_request_def run_h ex_new_request_def find_engagement_def has_id_def ex_engagement_def
        check_given_def)
  moreover note ex_request_pad(2)
  ultimately show ?thesis
    using request_references_run_out [of ex_auditor ex_new_request 1 ex_db ex_engagement ex_env] ex_requests_ok
    by (auto simp: numeral_2_eq_2 [symmetric])
qed

end
