(* ===== verification/Plans.thy ===== *)
theory Plans
  imports Findings
begin

text \<open>
  \<open>plans/plans.service.ts\<close>: audit plans with their items, approval and roll-ups, the start of an
  engagement from a plan item, and the audits that management asks for.
\<close>

fun plan_status_name :: "plan_status \<Rightarrow> string" where
  "plan_status_name plan_status.DRAFT = ''DRAFT''"
| "plan_status_name plan_status.PENDING_APPROVAL = ''PENDING_APPROVAL''"
| "plan_status_name plan_status.APPROVED = ''APPROVED''"
| "plan_status_name plan_status.ACTIVE = ''ACTIVE''"
| "plan_status_name plan_status.ARCHIVED = ''ARCHIVED''"

fun management_status_name :: "management_request_status \<Rightarrow> string" where
  "management_status_name management_request_status.RECEIVED = ''RECEIVED''"
| "management_status_name management_request_status.UNDER_REVIEW = ''UNDER_REVIEW''"
| "management_status_name management_request_status.ACCEPTED = ''ACCEPTED''"
| "management_status_name management_request_status.DECLINED = ''DECLINED''"
| "management_status_name management_request_status.PLANNED = ''PLANNED''"

definition editable_statuses :: "plan_status list" where
  "editable_statuses = [plan_status.DRAFT, plan_status.APPROVED, plan_status.ACTIVE]"

definition plan_registry :: "actor \<Rightarrow> db \<Rightarrow> audit_plan guard_registry" where
  "plan_registry ac s =
     register_guard (sm_name plan_workflow) ''has_items'' (\<lambda>gc.
       guard_ok (count_in ac (\<lambda>i. pi_plan i = r_id (gc_entity gc) \<and> pi_status i \<noteq> plan_item_status.CANCELLED)
           (db_items s) > 0) ''The plan has no items'') empty_registry"

section \<open>Plans\<close>

record plan_query =
  pl_page :: page_query
  pl_status :: "plan_status option"
  pl_year :: "int option"
  pl_text :: "string option"

definition list_plans ::
  "actor \<Rightarrow> (audit_plan list \<Rightarrow> audit_plan list) \<Rightarrow> plan_query \<Rightarrow> (audit_plan \<times> nat) page op" where
  "list_plans ac order q = gets_h (\<lambda>s.
     let rows = order (many_in ac (\<lambda>p. opt_eq (pl_status q) (p_status p) \<and>
                  (case pl_year q of None \<Rightarrow> True | Some y \<Rightarrow> y = 0 \<or> p_fiscal_year p = y) \<and>
                  opt_contains (pl_text q) [p_title p]) (db_plans s));
         pg = paginate (pl_page q) rows
     in \<lparr> pg_items = map (\<lambda>p. (p, length (filter (\<lambda>i. pi_plan i = r_id p) (db_items s)))) (pg_items pg),
          pg_total = pg_total pg, pg_page = pg_page pg, pg_size = pg_size pg \<rparr>)"

definition find_plan :: "actor \<Rightarrow> uuid \<Rightarrow> db \<Rightarrow> audit_plan option" where
  "find_plan ac i s = first_in ac (has_id i) (db_plans s)"

definition assert_plan :: "actor \<Rightarrow> uuid \<Rightarrow> audit_plan op" where
  "assert_plan ac i = demand_h (find_plan ac i) (NotFound ''Plan not found'')"

text \<open>A \<open>Map\<close> keeps its keys in the order of their first insertion.\<close>

fun map_set :: "'k \<Rightarrow> ('v \<Rightarrow> 'v) \<Rightarrow> 'v \<Rightarrow> ('k \<times> 'v) list \<Rightarrow> ('k \<times> 'v) list" where
  "map_set k f d [] = [(k, f d)]"
| "map_set k f d ((k', v) # kvs) = (if k' = k then (k', f v) # kvs else (k', v) # map_set k f d kvs)"

text \<open>\<open>toNumber()\<close> of a nullable decimal, and addition, on doubles.\<close>

definition hours_number :: "decimal option \<Rightarrow> rat" where
  "hours_number h = (case h of None \<Rightarrow> 0 | Some x \<Rightarrow> fl x)"

definition sum_numbers :: "(plan_item \<Rightarrow> decimal option) \<Rightarrow> plan_item list \<Rightarrow> rat" where
  "sum_numbers col items = fold (\<lambda>i sm. fl (sm + hours_number (col i))) items 0"

record rollup =
  ru_count :: nat
  ru_hours :: rat

definition count_item :: "plan_item \<Rightarrow> rollup \<Rightarrow> rollup" where
  "count_item i r = \<lparr> ru_count = ru_count r + 1, ru_hours = fl (ru_hours r + hours_number (pi_budget_hours i)) \<rparr>"

definition empty_rollup :: rollup where
  "empty_rollup = \<lparr> ru_count = 0, ru_hours = 0 \<rparr>"

text \<open>The key of a quarter; an item without one is filed under quarter 0.\<close>

definition quarter_key :: "plan_item \<Rightarrow> int \<times> int" where
  "quarter_key i = (pi_year i, coalesce (pi_quarter i) 0)"

definition roll_up :: "(plan_item \<Rightarrow> 'k) \<Rightarrow> plan_item list \<Rightarrow> ('k \<times> rollup) list" where
  "roll_up key items = fold (\<lambda>i. map_set (key i) (count_item i) empty_rollup) items []"

definition count_statuses :: "plan_item list \<Rightarrow> (plan_item_status \<times> nat) list" where
  "count_statuses items = fold (\<lambda>i. map_set (pi_status i) (\<lambda>n. n + 1) 0) items []"

record plan_rollups =
  pr_hours :: rat
  pr_amount :: rat
  pr_count :: nat
  pr_by_quarter :: "((int \<times> int) \<times> rollup) list"
  pr_by_rating :: "(severity \<times> rollup) list"
  pr_by_status :: "(plan_item_status \<times> nat) list"

text \<open>The stable sort by year, then by quarter.\<close>

definition rollups_of :: "plan_item list \<Rightarrow> plan_rollups" where
  "rollups_of items =
     (let active = filter (\<lambda>i. pi_status i \<noteq> plan_item_status.CANCELLED) items
      in \<lparr> pr_hours = sum_numbers pi_budget_hours active, pr_amount = sum_numbers pi_budget_amount active,
           pr_count = length active,
           pr_by_quarter = sort_key (\<lambda>p. fst (fst p)) (sort_key (\<lambda>p. snd (fst p)) (roll_up quarter_key active)),
           pr_by_rating = roll_up pi_rating active, pr_by_status = count_statuses items \<rparr>)"

record plan_view =
  pv_plan :: audit_plan
  pv_items :: "plan_item list"
  pv_rollups :: plan_rollups
  pv_actions :: "plan_status available_action list"

definition get_plan :: "actor \<Rightarrow> (plan_item list \<Rightarrow> plan_item list) \<Rightarrow> uuid \<Rightarrow> plan_view op" where
  "get_plan ac order i =
     bind_h (assert_plan ac i) (\<lambda>p.
     bind_h (gets_h (\<lambda>s. workflow_available (plan_registry ac s) plan_workflow (p_status p) ac p (\<lambda>_. []))) (\<lambda>x.
     bind_h (lift_h x) (\<lambda>actions.
     gets_h (\<lambda>s. let items = order (filter (\<lambda>it. pi_plan it = i) (db_items s))
       in \<lparr> pv_plan = p, pv_items = items, pv_rollups = rollups_of items, pv_actions = actions \<rparr>))))"

record create_plan_dto =
  cp_title :: string
  cp_year :: int
  cp_horizon :: "int option"
  cp_start :: time
  cp_end :: time
  cp_hours :: "decimal option"
  cp_amount :: "decimal option"
  cp_currency :: "string option"
  cp_narrative :: "string option"

definition latest_version :: "actor \<Rightarrow> int \<Rightarrow> db \<Rightarrow> int option" where
  "latest_version ac y s =
     (case map p_version (many_in ac (\<lambda>p. p_fiscal_year p = y) (db_plans s)) of
        [] \<Rightarrow> None | v # vs \<Rightarrow> Some (fold max vs v))"

definition new_plan :: "actor \<Rightarrow> env \<Rightarrow> create_plan_dto \<Rightarrow> int \<Rightarrow> db \<Rightarrow> audit_plan" where
  "new_plan ac env dto version s =
     \<lparr> r_id = db_next s, r_tenant = ac_tenant ac, r_created = env_now env, p_title = cp_title dto,
       p_fiscal_year = cp_year dto, p_horizon_years = coalesce (cp_horizon dto) 1, p_start = cp_start dto,
       p_end = cp_end dto, p_status = plan_status.DRAFT, p_version = version, p_budget_hours = cp_hours dto,
       p_budget_amount = cp_amount dto, p_currency = coalesce (cp_currency dto) ''USD'',
       p_narrative = cp_narrative dto, p_created_by = ac_user ac, p_approved_by = None, p_approved_at = None \<rparr>"

definition insert_plan :: "audit_plan \<Rightarrow> db \<Rightarrow> db" where
  "insert_plan p s = s\<lparr> db_plans := insert_row p (db_plans s), db_next := db_next s + 1 \<rparr>"

text \<open>The constraint \<open>@@unique([tenantId, fiscalYear, version])\<close>, for a row other than \<open>i\<close>.\<close>

definition plan_unique :: "actor \<Rightarrow> int \<Rightarrow> int \<Rightarrow> uuid option \<Rightarrow> unit op" where
  "plan_unique ac y v i = check_state_h (\<lambda>s. count_in ac (\<lambda>p. p_fiscal_year p = y \<and> p_version p = v \<and>
     Some (r_id p) \<noteq> i) (db_plans s) = 0) UniqueViolation"

definition create_plan :: "actor \<Rightarrow> env \<Rightarrow> create_plan_dto \<Rightarrow> audit_plan op" where
  "create_plan ac env dto =
     then_h (check_h (cp_start dto < cp_end dto) (BadRequest ''endDate must be after startDate''))
    (bind_h (gets_h (latest_version ac (cp_year dto))) (\<lambda>latest.
     let version = coalesce latest 0 + 1 in
     then_h (plan_unique ac (cp_year dto) version None)
    (bind_h (create_h (new_plan ac env dto version) insert_plan) (\<lambda>p.
     then_h (audit_record ac env (audit_of ''plan.created'' ''AuditPlan'' (r_id p) No_Snapshot (Plan_Row p) []))
     (return_h p)))))"

record update_plan_dto =
  up_title :: "string option"
  up_year :: "int option"
  up_horizon :: "int option"
  up_start :: "time option"
  up_end :: "time option"
  up_hours :: "decimal field"
  up_amount :: "decimal field"
  up_currency :: "string option"
  up_narrative :: "string field"

definition patch_plan :: "update_plan_dto \<Rightarrow> audit_plan \<Rightarrow> audit_plan" where
  "patch_plan dto p =
     p\<lparr> p_title := patch (up_title dto) (p_title p), p_fiscal_year := patch (up_year dto) (p_fiscal_year p),
        p_horizon_years := patch (up_horizon dto) (p_horizon_years p), p_start := patch (up_start dto) (p_start p),
        p_end := patch (up_end dto) (p_end p), p_budget_hours := patch_nullable (up_hours dto) (p_budget_hours p),
        p_budget_amount := patch_nullable (up_amount dto) (p_budget_amount p),
        p_currency := patch (up_currency dto) (p_currency p),
        p_narrative := patch_nullable (up_narrative dto) (p_narrative p) \<rparr>"

definition update_plan_row :: "actor \<Rightarrow> uuid \<Rightarrow> (audit_plan \<Rightarrow> audit_plan) \<Rightarrow> db \<Rightarrow> db" where
  "update_plan_row ac i g s = s\<lparr> db_plans := update_in ac (has_id i) g (db_plans s) \<rparr>"

definition update_plan :: "actor \<Rightarrow> env \<Rightarrow> uuid \<Rightarrow> update_plan_dto \<Rightarrow> audit_plan op" where
  "update_plan ac env i dto =
     bind_h (assert_plan ac i) (\<lambda>before.
     then_h (check_h (p_status before \<in> set editable_statuses)
               (Conflict (''A plan in status '' @ plan_status_name (p_status before) @ '' cannot be edited'')))
    (let after = patch_plan dto before in
     then_h (plan_unique ac (p_fiscal_year after) (p_version after) (Some i))
    (then_h (modify_h (update_plan_row ac i (patch_plan dto)))
    (then_h (audit_record ac env (audit_of ''plan.updated'' ''AuditPlan'' i (Plan_Row before) (Plan_Row after) []))
     (return_h after)))))"

definition plan_effect :: "uuid \<Rightarrow> time \<Rightarrow> plan_status transition \<Rightarrow> audit_plan \<Rightarrow> audit_plan" where
  "plan_effect user now t p =
     (let p' = p\<lparr> p_status := tr_to t \<rparr>; a = tr_action t in
      if a = ''approve'' then p'\<lparr> p_approved_by := Some user, p_approved_at := Some now \<rparr>
      else if a = ''reopen'' \<or> a = ''return'' then p'\<lparr> p_approved_by := None, p_approved_at := None \<rparr>
      else p')"

text \<open>Activating a plan turns its proposed items into planned ones.\<close>

definition plan_proposed_items :: "actor \<Rightarrow> uuid \<Rightarrow> db \<Rightarrow> db" where
  "plan_proposed_items ac i s =
     s\<lparr> db_items := update_in ac (\<lambda>it. pi_plan it = i \<and> pi_status it = plan_item_status.PROPOSED)
          (\<lambda>it. it\<lparr> pi_status := plan_item_status.PLANNED \<rparr>) (db_items s) \<rparr>"

definition transition_plan ::
  "actor \<Rightarrow> env \<Rightarrow> (plan_item list \<Rightarrow> plan_item list) \<Rightarrow> uuid \<Rightarrow> transition_dto \<Rightarrow> plan_view op" where
  "transition_plan ac env order i dto =
     bind_h (assert_plan ac i) (\<lambda>p.
     bind_h (gets_h (\<lambda>s. workflow_transition (plan_registry ac s) plan_status_name plan_workflow
               (p_status p) (td_action dto) ac p (td_comment dto) None)) (\<lambda>x.
     bind_h (lift_h x) (\<lambda>t.
     let updated = plan_effect (ac_user ac) (env_now env) t p in
     then_h (transaction_h
              (then_h (modify_h (update_plan_row ac i (plan_effect (ac_user ac) (env_now env) t)))
                (when_h (tr_action t = ''activate'') (modify_h (plan_proposed_items ac i)))))
    (then_h (audit_record ac env (audit_of ''plan.status_changed'' ''AuditPlan'' i
               (Fields [(''status'', JStr (plan_status_name (p_status p)))])
               (Fields [(''status'', JStr (plan_status_name (p_status updated)))])
               [(''action'', JStr (tr_action t)),
                (''comment'', case td_comment dto of None \<Rightarrow> JNull | Some c \<Rightarrow> JStr c)]))
    (then_h (when_h (p_created_by p \<noteq> ac_user ac)
               (notify ac env (Some (p_created_by p))
                 \<lparr> ni_type = ''plan.status_changed'',
                   ni_title = ''Audit plan '' @ [CHR 0x22] @ p_title p @ [CHR 0x22] @ '' is now '' @
                     spaced (plan_status_name (p_status updated)),
                   ni_body = td_comment dto, ni_link = Some (''/plans/'' @ show_nat i),
                   ni_payload = JObj [(''planId'', JId i), (''action'', JStr (tr_action t))] \<rparr>))
     (get_plan ac order i))))))"

section \<open>Items\<close>

record create_item_dto =
  ci_entity :: "uuid option"
  ci_title :: string
  ci_description :: "string option"
  ci_source :: "plan_item_source option"
  ci_type :: "engagement_type option"
  ci_rating :: "severity option"
  ci_priority :: "int option"
  ci_year :: int
  ci_quarter :: "int option"
  ci_start :: "time option"
  ci_end :: "time option"
  ci_hours :: "decimal option"
  ci_amount :: "decimal option"
  ci_lead :: "uuid option"
  ci_status :: "plan_item_status option"
  ci_rationale :: "string option"

definition new_item :: "actor \<Rightarrow> env \<Rightarrow> audit_plan \<Rightarrow> create_item_dto \<Rightarrow> db \<Rightarrow> plan_item" where
  "new_item ac env p dto s =
     \<lparr> r_id = db_next s, r_tenant = ac_tenant ac, r_created = env_now env, pi_plan = r_id p,
       pi_entity = ci_entity dto, pi_engagement = None, pi_title = ci_title dto,
       pi_description = ci_description dto, pi_source = coalesce (ci_source dto) RISK_BASED,
       pi_type = coalesce (ci_type dto) engagement_type.OPERATIONAL,
       pi_rating = coalesce (ci_rating dto) severity.MEDIUM, pi_priority = coalesce (ci_priority dto) 3,
       pi_year = ci_year dto, pi_quarter = ci_quarter dto, pi_start = ci_start dto, pi_end = ci_end dto,
       pi_budget_hours = ci_hours dto, pi_budget_amount = ci_amount dto, pi_lead = ci_lead dto,
       pi_status = coalesce (ci_status dto)
         (if p_status p = plan_status.DRAFT then plan_item_status.PROPOSED else plan_item_status.PLANNED),
       pi_rationale = ci_rationale dto \<rparr>"

definition insert_item :: "plan_item \<Rightarrow> db \<Rightarrow> db" where
  "insert_item it s = s\<lparr> db_items := insert_row it (db_items s), db_next := db_next s + 1 \<rparr>"

definition add_item :: "actor \<Rightarrow> env \<Rightarrow> uuid \<Rightarrow> create_item_dto \<Rightarrow> plan_item op" where
  "add_item ac env i dto =
     bind_h (assert_plan ac i) (\<lambda>p.
     then_h (check_h (p_status p \<noteq> plan_status.ARCHIVED) (Conflict ''Archived plans cannot be changed''))
    (bind_h (create_h (new_item ac env p dto) insert_item) (\<lambda>it.
     then_h (audit_record ac env (audit_of ''plan_item.created'' ''AuditPlanItem'' (r_id it) No_Snapshot (Item_Row it) []))
     (return_h it))))"

record update_item_dto =
  ui_entity :: "uuid field"
  ui_title :: "string option"
  ui_description :: "string field"
  ui_source :: "plan_item_source option"
  ui_type :: "engagement_type option"
  ui_rating :: "severity option"
  ui_priority :: "int option"
  ui_year :: "int option"
  ui_quarter :: "int field"
  ui_start :: "time field"
  ui_end :: "time field"
  ui_hours :: "decimal field"
  ui_amount :: "decimal field"
  ui_lead :: "uuid field"
  ui_status :: "plan_item_status option"
  ui_rationale :: "string field"

definition patch_item :: "update_item_dto \<Rightarrow> plan_item \<Rightarrow> plan_item" where
  "patch_item dto it =
     it\<lparr> pi_entity := patch_nullable (ui_entity dto) (pi_entity it), pi_title := patch (ui_title dto) (pi_title it),
         pi_description := patch_nullable (ui_description dto) (pi_description it),
         pi_source := patch (ui_source dto) (pi_source it), pi_type := patch (ui_type dto) (pi_type it),
         pi_rating := patch (ui_rating dto) (pi_rating it), pi_priority := patch (ui_priority dto) (pi_priority it),
         pi_year := patch (ui_year dto) (pi_year it), pi_quarter := patch_nullable (ui_quarter dto) (pi_quarter it),
         pi_start := patch_nullable (ui_start dto) (pi_start it), pi_end := patch_nullable (ui_end dto) (pi_end it),
         pi_budget_hours := patch_nullable (ui_hours dto) (pi_budget_hours it),
         pi_budget_amount := patch_nullable (ui_amount dto) (pi_budget_amount it),
         pi_lead := patch_nullable (ui_lead dto) (pi_lead it), pi_status := patch (ui_status dto) (pi_status it),
         pi_rationale := patch_nullable (ui_rationale dto) (pi_rationale it) \<rparr>"

definition find_item :: "actor \<Rightarrow> uuid \<Rightarrow> uuid \<Rightarrow> db \<Rightarrow> plan_item option" where
  "find_item ac p i s = first_in ac (\<lambda>it. has_id i it \<and> pi_plan it = p) (db_items s)"

definition assert_item :: "actor \<Rightarrow> uuid \<Rightarrow> uuid \<Rightarrow> plan_item op" where
  "assert_item ac p i = demand_h (find_item ac p i) (NotFound ''Plan item not found'')"

definition update_item_row :: "actor \<Rightarrow> uuid \<Rightarrow> (plan_item \<Rightarrow> plan_item) \<Rightarrow> db \<Rightarrow> db" where
  "update_item_row ac i g s = s\<lparr> db_items := update_in ac (has_id i) g (db_items s) \<rparr>"

definition update_item :: "actor \<Rightarrow> env \<Rightarrow> uuid \<Rightarrow> uuid \<Rightarrow> update_item_dto \<Rightarrow> plan_item op" where
  "update_item ac env p i dto =
     bind_h (assert_item ac p i) (\<lambda>before.
     let after = patch_item dto before in
     then_h (modify_h (update_item_row ac i (patch_item dto)))
    (then_h (audit_record ac env (audit_of ''plan_item.updated'' ''AuditPlanItem'' i (Item_Row before) (Item_Row after) []))
     (return_h after)))"

definition delete_item :: "actor \<Rightarrow> env \<Rightarrow> uuid \<Rightarrow> uuid \<Rightarrow> unit op" where
  "delete_item ac env p i =
     bind_h (assert_item ac p i) (\<lambda>before.
     then_h (check_h (pi_engagement before = None)
               (Conflict ''This item already has an engagement; cancel it instead of deleting''))
    (then_h (modify_h (\<lambda>s. s\<lparr> db_items := delete_in ac (has_id i) (db_items s) \<rparr>))
     (audit_record ac env (audit_of ''plan_item.deleted'' ''AuditPlanItem'' i (Item_Row before) No_Snapshot []))))"

text \<open>The request that the item makes of the engagements service; dates and numbers pass unchanged.\<close>

definition engagement_of_item :: "plan_item \<Rightarrow> create_engagement_dto" where
  "engagement_of_item it =
     \<lparr> ce_title = pi_title it, ce_type = pi_type it, ce_entity = pi_entity it, ce_objectives = pi_description it,
       ce_scope = None, ce_out_of_scope = None, ce_background = None, ce_period_start = None,
       ce_period_end = None, ce_planned_start = pi_start it, ce_planned_end = pi_end it,
       ce_budget_hours = pi_budget_hours it, ce_budget_amount = pi_budget_amount it, ce_lead = pi_lead it,
       ce_manager = None, ce_partner = None, ce_rating = Some (pi_rating it) \<rparr>"

definition create_engagement_from_item :: "actor \<Rightarrow> env \<Rightarrow> uuid \<Rightarrow> uuid \<Rightarrow> engagement op" where
  "create_engagement_from_item ac env p i =
     bind_h (assert_item ac p i) (\<lambda>it.
     then_h (check_h (pi_engagement it = None) (Conflict ''An engagement already exists for this plan item''))
    (then_h (check_h (pi_status it \<noteq> plan_item_status.CANCELLED) (Conflict ''Cancelled items cannot be started''))
    (bind_h (create_engagement ac env (engagement_of_item it) (Some (r_id it))) (\<lambda>e.
     then_h (modify_h (update_item_row ac i (\<lambda>x. x\<lparr> pi_status := plan_item_status.IN_PROGRESS \<rparr>)))
    (then_h (audit_record ac env (audit_of ''plan_item.engagement_created'' ''AuditPlanItem'' i No_Snapshot No_Snapshot
               [(''engagementId'', JId (r_id e)), (''auditNumber'', JStr (e_number e))]))
     (return_h e))))))"

section \<open>Management requests\<close>

record management_query =
  mq_page :: page_query
  mq_status :: "management_request_status option"
  mq_entity :: "uuid option"
  mq_text :: "string option"

definition list_management_requests ::
  "actor \<Rightarrow> (management_request list \<Rightarrow> management_request list) \<Rightarrow> management_query \<Rightarrow> management_request page op" where
  "list_management_requests ac order q = gets_h (\<lambda>s.
     paginate (mq_page q) (order (many_in ac (\<lambda>m. opt_eq (mq_status q) (mr_status m) \<and>
       opt_eq (map_option Some (mq_entity q)) (mr_entity m) \<and> opt_contains (mq_text q) [mr_title m]) (db_management s))))"

record create_management_dto =
  cm_title :: string
  cm_description :: "string option"
  cm_requester :: "string option"
  cm_entity :: "uuid option"
  cm_item :: "uuid option"
  cm_priority :: "task_priority option"

definition create_management_request :: "actor \<Rightarrow> env \<Rightarrow> create_management_dto \<Rightarrow> management_request op" where
  "create_management_request ac env dto =
     bind_h (create_h (\<lambda>s.
        \<lparr> r_id = db_next s, r_tenant = ac_tenant ac, r_created = env_now env, mr_title = cm_title dto,
          mr_description = cm_description dto, mr_requested_by = Some (ac_user ac),
          mr_requester_name = cm_requester dto, mr_entity = cm_entity dto, mr_plan_item = cm_item dto,
          mr_priority = coalesce (cm_priority dto) task_priority.MEDIUM,
          mr_status = management_request_status.RECEIVED, mr_decision_note = None \<rparr>)
        (\<lambda>m s. s\<lparr> db_management := insert_row m (db_management s), db_next := db_next s + 1 \<rparr>)) (\<lambda>m.
     then_h (audit_record ac env (audit_of ''management_request.created'' ''ManagementRequest'' (r_id m) No_Snapshot
               (Management_Request_Row m) []))
      (return_h m))"

record update_management_dto =
  um_title :: "string option"
  um_description :: "string field"
  um_requester :: "string field"
  um_entity :: "uuid field"
  um_item :: "uuid field"
  um_priority :: "task_priority option"
  um_status :: "management_request_status option"
  um_decision :: "string field"

definition patch_management :: "update_management_dto \<Rightarrow> management_request \<Rightarrow> management_request" where
  "patch_management dto m =
     m\<lparr> mr_title := patch (um_title dto) (mr_title m),
        mr_description := patch_nullable (um_description dto) (mr_description m),
        mr_requester_name := patch_nullable (um_requester dto) (mr_requester_name m),
        mr_entity := patch_nullable (um_entity dto) (mr_entity m),
        mr_plan_item := patch_nullable (um_item dto) (mr_plan_item m),
        mr_priority := patch (um_priority dto) (mr_priority m), mr_status := patch (um_status dto) (mr_status m),
        mr_decision_note := patch_nullable (um_decision dto) (mr_decision_note m) \<rparr>"

definition update_management_request :: "actor \<Rightarrow> env \<Rightarrow> uuid \<Rightarrow> update_management_dto \<Rightarrow> management_request op" where
  "update_management_request ac env i dto =
     bind_h (demand_h (\<lambda>s. first_in ac (has_id i) (db_management s)) (NotFound ''Management request not found'')) (\<lambda>before.
     let after = patch_management dto before in
     then_h (modify_h (\<lambda>s. s\<lparr> db_management := update_in ac (has_id i) (patch_management dto) (db_management s) \<rparr>))
    (then_h (audit_record ac env (audit_of ''management_request.updated'' ''ManagementRequest'' i
               (Management_Request_Row before) (Management_Request_Row after) []))
    (then_h (when_h (um_status dto \<noteq> None \<and> um_status dto \<noteq> Some (mr_status before) \<and>
                     mr_requested_by before \<noteq> None \<and> mr_requested_by before \<noteq> Some (ac_user ac))
               (notify ac env (mr_requested_by before)
                 \<lparr> ni_type = ''management_request.status_changed'',
                   ni_title = ''Your audit request '' @ [CHR 0x22] @ mr_title before @ [CHR 0x22] @ '' is now '' @
                     spaced (management_status_name (mr_status after)),
                   ni_body = or_null (um_decision dto), ni_link = Some (''/plans/requests/'' @ show_nat i),
                   ni_payload = JObj [(''managementRequestId'', JId i)] \<rparr>))
     (return_h after))))"

section \<open>Confinement\<close>

lemma assert_plan_reads [intro]: "reads (assert_plan ac i)" and assert_item_reads [intro]: "reads (assert_item ac p i)"
  and plan_unique_reads [intro]: "reads (plan_unique ac y v j)"
  unfolding assert_plan_def assert_item_def plan_unique_def by (intro reads_intros)+

lemma get_plan_reads [intro]: "reads (get_plan ac order i)"
  unfolding get_plan_def by (intro reads_intros assert_plan_reads)

lemmas plan_confined = engagement_confined
  confinement.keeps_reads [OF assert_plan_reads] confinement.keeps_reads [OF assert_item_reads]
  confinement.keeps_reads [OF plan_unique_reads] confinement.keeps_reads [OF get_plan_reads]

lemma plan_row_changes [simp]:
  "r_id (patch_plan dto p) = r_id p" "r_tenant (patch_plan dto p) = r_tenant p" "p_status (patch_plan dto p) = p_status p"
  "p_version (patch_plan dto p) = p_version p"
  "r_id (plan_effect u now t p) = r_id p" "r_tenant (plan_effect u now t p) = r_tenant p"
  "p_status (plan_effect u now t p) = tr_to t" "p_version (plan_effect u now t p) = p_version p"
  "p_fiscal_year (plan_effect u now t p) = p_fiscal_year p"
  "r_id (patch_item idto it) = r_id it" "r_tenant (patch_item idto it) = r_tenant it"
  "pi_engagement (patch_item idto it) = pi_engagement it" "pi_plan (patch_item idto it) = pi_plan it"
  "r_tenant (patch_management mdto m) = r_tenant m"
  by (simp_all add: patch_plan_def plan_effect_def patch_item_def patch_management_def Let_def)

lemma plan_writes_confined:
  "(\<And>x. r_tenant (g x) = r_tenant x) \<Longrightarrow> same_outside (ac_tenant ac) s (update_plan_row ac i g s)"
  "audit_grows s (update_plan_row ac i g s)"
  "(\<And>x. r_tenant (h x) = r_tenant x) \<Longrightarrow> same_outside (ac_tenant ac) s (update_item_row ac i h s)"
  "audit_grows s (update_item_row ac i h s)"
  "same_outside (ac_tenant ac) s (plan_proposed_items ac i s)" "audit_grows s (plan_proposed_items ac i s)"
  by (simp_all add: update_plan_row_def update_item_row_def plan_proposed_items_def confined_writes)

lemma plans_confined:
  "keeps (confined (ac_tenant ac)) (create_plan ac env cdto)"
  "keeps (confined (ac_tenant ac)) (update_plan ac env i udto)"
  "keeps (confined (ac_tenant ac)) (transition_plan ac env order i tdto)"
  unfolding create_plan_def update_plan_def transition_plan_def
  by (intro confined_steps plan_confined plan_writes_confined;
      simp add: insert_plan_def new_plan_def confined_writes)+

lemma items_confined:
  "keeps (confined (ac_tenant ac)) (add_item ac env p cdto)"
  "keeps (confined (ac_tenant ac)) (update_item ac env p i udto)"
  "keeps (confined (ac_tenant ac)) (delete_item ac env p i)"
  "keeps (confined (ac_tenant ac)) (create_engagement_from_item ac env p i)"
  unfolding add_item_def update_item_def delete_item_def create_engagement_from_item_def
  by (intro confined_steps plan_confined plan_writes_confined create_engagement_confined;
      simp add: insert_item_def new_item_def confined_writes)+

lemma management_confined:
  "keeps (confined (ac_tenant ac)) (create_management_request ac env cdto)"
  "keeps (confined (ac_tenant ac)) (update_management_request ac env i udto)"
  unfolding create_management_request_def update_management_request_def
  by (intro confined_steps plan_confined; simp add: confined_writes)+

end
