(* ===== verification/Plan_Life.thy ===== *)
theory Plan_Life
  imports Plans Engagement_Life "HOL-Library.Multiset"
begin

text \<open>
  What the audit plans guarantee: the roll-ups of a plan against their reference definition, the
  creation of plan versions, the approval gate, the invariant of plans, and the permanent link of a
  plan item to the engagement that was started from it.
\<close>

section \<open>Roll-ups\<close>

text \<open>The keys of a list, in the order of their first occurrence.\<close>

definition first_keys :: "'k list \<Rightarrow> 'k list" where
  "first_keys ks = rev (remdups (rev ks))"

lemma first_keys_snoc: "first_keys (ks @ [k]) = (if k \<in> set ks then first_keys ks else first_keys ks @ [k])"
  by (simp add: first_keys_def)

lemma first_keys_facts [simp]: "first_keys [] = []" "distinct (first_keys ks)" "set (first_keys ks) = set ks"
  by (simp_all add: first_keys_def)

lemma map_set_map:
  assumes "distinct ks"
  shows "map_set k f d (map (\<lambda>j. (j, g j)) ks) =
    (if k \<in> set ks then map (\<lambda>j. (j, if j = k then f (g j) else g j)) ks
     else map (\<lambda>j. (j, g j)) ks @ [(k, f d)])"
  using assms by (induction ks) auto

lemma fold_map_set:
  "fold (\<lambda>i. map_set (key i) (f i) d) items [] =
     map (\<lambda>k. (k, fold f (filter (\<lambda>i. key i = k) items) d)) (first_keys (map key items))"
proof (induction items rule: rev_induct)
  case (snoc x xs)
  have "key x \<notin> set (map key xs) \<Longrightarrow> filter (\<lambda>i. key i = key x) xs = []"
    by (simp add: filter_empty_conv image_iff) metis
  then show ?case
    by (auto simp: snoc map_set_map first_keys_snoc)
qed simp

lemma fold_count_item:
  "fold count_item items r =
     \<lparr> ru_count = ru_count r + length items,
       ru_hours = fold (\<lambda>i sm. fl (sm + hours_number (pi_budget_hours i))) items (ru_hours r) \<rparr>"
  by (induction items arbitrary: r) (simp_all add: count_item_def)

text \<open>The reference: one group for each key, in the order in which the keys first occur.\<close>

definition groups :: "(plan_item \<Rightarrow> 'k) \<Rightarrow> plan_item list \<Rightarrow> ('k \<times> plan_item list) list" where
  "groups key items = map (\<lambda>k. (k, filter (\<lambda>i. key i = k) items)) (first_keys (map key items))"

definition total_of :: "plan_item list \<Rightarrow> rollup" where
  "total_of items = \<lparr> ru_count = length items, ru_hours = sum_numbers pi_budget_hours items \<rparr>"

lemma roll_up_groups: "roll_up key items = map (\<lambda>(k, g). (k, total_of g)) (groups key items)"
  by (simp add: roll_up_def fold_map_set groups_def fold_count_item empty_rollup_def total_of_def sum_numbers_def)

lemma count_statuses_groups: "count_statuses items = map (\<lambda>(k, g). (k, length g)) (groups pi_status items)"
proof -
  have "fold (\<lambda>_ n. n + 1) xs m = m + length xs" for xs :: "plan_item list" and m :: nat
    by (induction xs arbitrary: m) simp_all
  then show ?thesis by (simp add: count_statuses_def fold_map_set groups_def)
qed

lemma groups_partition: "(\<Sum>(k, g) \<leftarrow> groups key items. length g) = length items"
proof -
  have "(\<Sum>k \<leftarrow> ks. length (filter (\<lambda>i. key i = k) items)) = length (filter (\<lambda>i. key i \<in> set ks) items)"
    if "distinct ks" for ks
    using that
  proof (induction ks)
    case (Cons k ks)
    have "filter (\<lambda>i. key i \<in> set (k # ks)) xs = filter (\<lambda>i. key i = k \<or> key i \<in> set ks) xs" for xs by simp
    moreover have "length (filter (\<lambda>i. key i = k \<or> key i \<in> set ks) xs) =
        length (filter (\<lambda>i. key i = k) xs) + length (filter (\<lambda>i. key i \<in> set ks) xs)" for xs
      using Cons.prems by (induction xs) auto
    ultimately show ?case using Cons by simp
  qed simp
  from this [of "first_keys (map key items)"]
  have "(\<Sum>k \<leftarrow> first_keys (map key items). length (filter (\<lambda>i. key i = k) items)) =
      length (filter (\<lambda>i. key i \<in> key ` set items) items)"
    by simp
  also have "filter (\<lambda>i. key i \<in> key ` set items) items = items"
    by (simp add: filter_id_conv)
  finally show ?thesis by (simp add: groups_def comp_def)
qed

lemma sort_twice:
  fixes f g :: "'a \<Rightarrow> 'k :: linorder"
  shows "sorted (map g (filter (\<lambda>x. f x = y) (sort_key f (sort_key g xs))))"
proof -
  have "filter (\<lambda>x. f x = y) (sort_key f (sort_key g xs)) = filter (\<lambda>x. f x = y) (sort_key g xs)"
    by (rule sort_key_stable)
  then show ?thesis by (simp add: sorted_filter)
qed

text \<open>
  C22. The figures of a plan agree with their definition. Counting the items of each status,
  and counting and adding up the hours of the active items of each rating, gives one entry for every
  key that occurs, in the order of first occurrence, over exactly the items with that key; the
  quarters are the same entries sorted by year and, within a year, by quarter; and the counts of
  the quarters add up to the number of active items.
\<close>

theorem rollups_agree:
  "pr_by_status (rollups_of items) = map (\<lambda>(k, g). (k, length g)) (groups pi_status items) \<and>
   pr_by_rating (rollups_of items) =
     map (\<lambda>(k, g). (k, total_of g)) (groups pi_rating (filter (\<lambda>i. pi_status i \<noteq> plan_item_status.CANCELLED) items)) \<and>
   mset (pr_by_quarter (rollups_of items)) =
     mset (map (\<lambda>(k, g). (k, total_of g)) (groups quarter_key (filter (\<lambda>i. pi_status i \<noteq> plan_item_status.CANCELLED) items))) \<and>
   sorted (map (\<lambda>e. fst (fst e)) (pr_by_quarter (rollups_of items))) \<and>
   (\<forall>y. sorted (map (\<lambda>e. snd (fst e)) (filter (\<lambda>e. fst (fst e) = y) (pr_by_quarter (rollups_of items))))) \<and>
   (\<Sum>e \<leftarrow> pr_by_quarter (rollups_of items). ru_count (snd e)) = pr_count (rollups_of items) \<and>
   pr_count (rollups_of items) = length (filter (\<lambda>i. pi_status i \<noteq> plan_item_status.CANCELLED) items)"
proof -
  let ?active = "filter (\<lambda>i. pi_status i \<noteq> plan_item_status.CANCELLED) items"
  have q: "mset (pr_by_quarter (rollups_of items)) = mset (map (\<lambda>(k, g). (k, total_of g)) (groups quarter_key ?active))"
    by (simp add: rollups_of_def Let_def roll_up_groups)
  have "(\<Sum>e \<leftarrow> pr_by_quarter (rollups_of items). ru_count (snd e)) =
      sum_mset (image_mset (\<lambda>e. ru_count (snd e)) (mset (pr_by_quarter (rollups_of items))))"
    by (simp flip: sum_mset_sum_list mset_map)
  also have "\<dots> = (\<Sum>(k, g) \<leftarrow> groups quarter_key ?active. length g)"
    unfolding q by (simp flip: mset_map add: sum_mset_sum_list comp_def split_def total_of_def)
  also have "\<dots> = length ?active" by (rule groups_partition)
  finally have c: "(\<Sum>e \<leftarrow> pr_by_quarter (rollups_of items). ru_count (snd e)) = length ?active" .
  show ?thesis
    using q c by (simp add: rollups_of_def Let_def roll_up_groups count_statuses_groups sort_twice)
qed

section \<open>What a transition does\<close>

definition plan_passes :: "actor \<Rightarrow> db \<Rightarrow> audit_plan \<Rightarrow> transition_dto \<Rightarrow> string \<Rightarrow> bool" where
  "plan_passes ac s p dto =
     passes (plan_registry ac s) (sm_name plan_workflow)
       \<lparr> gc_entity = p, gc_user = ac_user ac, gc_permissions = ac_permissions ac,
         gc_action = td_action dto, gc_comment = td_comment dto \<rparr>"

lemma plan_guard:
  "plan_passes ac s p dto ''has_items'' \<longleftrightarrow>
     (\<exists>it \<in> set (db_items s). mine ac it \<and> pi_plan it = r_id p \<and> pi_status it \<noteq> plan_item_status.CANCELLED)"
  by (simp add: plan_passes_def passes_def plan_registry_def get_guard_register guard_ok_passes
      table_simps guard_failed_def [of _ "Inl True"] del: neq0_conv)

lemma workflow_accepts_plan:
  "workflow_transition (plan_registry ac s) plan_status_name plan_workflow (p_status p)
      (td_action dto) ac p (td_comment dto) None = Inr t \<longleftrightarrow>
   find_transition plan_workflow (p_status p) (td_action dto) = Some t \<and>
   tr_permission t \<in> set (ac_permissions ac) \<and>
   list_all (plan_passes ac s p dto) (coalesce (tr_guards t) [])"
proof -
  have p: "plan_passes ac s p dto = passes (plan_registry ac s) (sm_name plan_workflow)
    \<lparr> gc_entity = p, gc_user = ac_user ac, gc_permissions = ac_permissions ac,
      gc_action = td_action dto, gc_comment = td_comment dto \<rparr>"
    by (simp add: plan_passes_def fun_eq_iff)
  show ?thesis
    by (auto simp: workflow_transition_ok_iff p guards_of_def dest: find_transition_Some)
qed

lemma find_plan_Some: "find_plan ac i s = Some p \<Longrightarrow> p \<in> set (db_plans s) \<and> mine ac p \<and> r_id p = i"
  by (auto simp: find_plan_def has_id_def dest: first_in_Some)

lemma assert_plan_found: "assert_plan ac i s = (Inr p, s') \<Longrightarrow> find_plan ac i s = Some p"
  by (simp add: assert_plan_def ok_h)

lemma plan_writes_tables [simp]:
  "db_plans (update_plan_row ac i g s) = update_in ac (has_id i) g (db_plans s)"
  "db_items (update_plan_row ac i g s) = db_items s"
  "db_plans (update_item_row ac i h s) = db_plans s"
  "db_items (update_item_row ac i h s) = update_in ac (has_id i) h (db_items s)"
  "db_plans (plan_proposed_items ac i s) = db_plans s" "db_engagements (update_item_row ac i h s) = db_engagements s"
  "db_plans (insert_plan p s) = db_plans s @ [p]" "db_items (insert_plan p s) = db_items s"
  "db_plans (insert_item it s) = db_plans s" "db_items (insert_item it s) = db_items s @ [it]"
  "db_next (insert_plan p s) = db_next s + 1" "db_next (insert_item it s) = db_next s + 1"
  by (simp_all add: update_plan_row_def update_item_row_def plan_proposed_items_def insert_plan_def
      insert_item_def insert_row_def)

lemma plan_transition_run:
  assumes "transition_plan ac env order i dto s = (x, s')"
  shows "(s' = s \<and> \<not> is_ok x) \<or>
    (\<exists>p t. find_plan ac i s = Some p \<and> find_transition plan_workflow (p_status p) (td_action dto) = Some t \<and>
       tr_permission t \<in> set (ac_permissions ac) \<and>
       list_all (plan_passes ac s p dto) (coalesce (tr_guards t) []) \<and>
       db_plans s' = update_in ac (has_id i) (plan_effect (ac_user ac) (env_now env) t) (db_plans s) \<and>
       db_items s' = (if td_action dto = ''activate'' then db_items (plan_proposed_items ac i s) else db_items s))"
proof -
  have g: "get_plan ac order i x = (y, z) \<Longrightarrow> z = x" for x y z
    using get_plan_reads by (rule readsD)
  from assms [unfolded transition_plan_def] assert_plan_reads show ?thesis
  proof (cases rule: bind_check_cases)
    case (2 p)
    let ?wt = "workflow_transition (plan_registry ac s) plan_status_name plan_workflow (p_status p)
      (td_action dto) ac p (td_comment dto) None"
    show ?thesis
    proof (cases ?wt)
      case (Inl e)
      then have "s' = s" "\<not> is_ok x" using 2(2) by (auto simp: run_h)
      then show ?thesis by blast
    next
      case (Inr t)
      note acc = Inr [unfolded workflow_accepts_plan]
      have a: "tr_action t = td_action dto" using find_transition_Some [OF conjunct1 [OF acc]] by simp
      have "db_plans s' = update_in ac (has_id i) (plan_effect (ac_user ac) (env_now env) t) (db_plans s) \<and>
          db_items s' = (if td_action dto = ''activate'' then db_items (plan_proposed_items ac i s) else db_items s)"
        using 2(2) Inr
        by (auto simp: run_h Let_def a plan_proposed_items_def split: if_splits dest!: g)
      then show ?thesis using assert_plan_found [OF 2(1)] acc by blast
    qed
  qed simp
qed

lemma plan_moves:
  assumes "t \<in> set (sm_transitions plan_workflow)"
  shows "(tr_from t, tr_action t, tr_to t) = (plan_status.DRAFT, ''submit'', plan_status.PENDING_APPROVAL) \<or>
     (tr_from t, tr_action t, tr_to t) = (plan_status.PENDING_APPROVAL, ''return'', plan_status.DRAFT) \<or>
     (tr_from t, tr_action t, tr_to t) = (plan_status.PENDING_APPROVAL, ''approve'', plan_status.APPROVED) \<or>
     (tr_from t, tr_action t, tr_to t) = (plan_status.APPROVED, ''activate'', plan_status.ACTIVE) \<or>
     (tr_from t, tr_action t, tr_to t) = (plan_status.APPROVED, ''reopen'', plan_status.DRAFT) \<or>
     (tr_from t, tr_action t, tr_to t) = (plan_status.ACTIVE, ''archive'', plan_status.ARCHIVED)"
  using imageI [OF assms, of "\<lambda>t. (tr_from t, tr_action t, tr_to t)"]
  unfolding plan_workflow_def by simp

section \<open>The invariant of plans\<close>

definition plan_ok :: "audit_plan \<Rightarrow> bool" where
  "plan_ok p \<longleftrightarrow>
     (p_approved_by p \<noteq> None \<longleftrightarrow> p_status p \<in> {plan_status.APPROVED, plan_status.ACTIVE, plan_status.ARCHIVED}) \<and>
     (p_approved_at p \<noteq> None \<longleftrightarrow> p_approved_by p \<noteq> None) \<and> 1 \<le> p_version p"

definition version_key :: "audit_plan \<Rightarrow> uuid \<times> int \<times> int" where
  "version_key p = (r_tenant p, p_fiscal_year p, p_version p)"

definition plans_ok :: "db \<Rightarrow> bool" where
  "plans_ok s \<longleftrightarrow> table_ok plan_ok (db_next s) (db_plans s) \<and> inj_on version_key (set (db_plans s)) \<and>
     table_ok (\<lambda>_. True) (db_next s) (db_items s)"

datatype plan_call =
    Create_Plan create_plan_dto
  | Update_Plan uuid update_plan_dto
  | Transition_Plan uuid transition_dto
  | Add_Item uuid create_item_dto
  | Update_Item uuid uuid update_item_dto
  | Delete_Item uuid uuid
  | Start_Item uuid uuid

fun call_plan :: "actor \<Rightarrow> env \<Rightarrow> plan_call \<Rightarrow> db \<Rightarrow> db" where
  "call_plan ac env (Create_Plan dto) s = snd (create_plan ac env dto s)"
| "call_plan ac env (Update_Plan i udto) s = snd (update_plan ac env i udto s)"
| "call_plan ac env (Transition_Plan i tdto) s = snd (transition_plan ac env (\<lambda>is. is) i tdto s)"
| "call_plan ac env (Add_Item p cidto) s = snd (add_item ac env p cidto s)"
| "call_plan ac env (Update_Item p i uidto) s = snd (update_item ac env p i uidto s)"
| "call_plan ac env (Delete_Item p i) s = snd (delete_item ac env p i s)"
| "call_plan ac env (Start_Item p i) s = snd (create_engagement_from_item ac env p i s)"

definition call_plans :: "(actor \<times> env \<times> plan_call) list \<Rightarrow> db \<Rightarrow> db" where
  "call_plans calls s = fold (\<lambda>(ac, env, c). call_plan ac env c) calls s"

lemma call_plan_confined: "confined (ac_tenant ac) s (call_plan ac env c s)"
proof -
  have k: "confined (ac_tenant ac) s (snd (m s))" if "keeps (confined (ac_tenant ac)) m" for m :: "'a op"
    using that by (simp add: keeps_def)
  show ?thesis
    using k [OF plans_confined(1)] k [OF plans_confined(2)] k [OF plans_confined(3)] k [OF items_confined(1)]
      k [OF items_confined(2)] k [OF items_confined(3)] k [OF items_confined(4)]
    by (cases c) simp_all
qed

lemma plan_effect_ok:
  assumes "find_transition plan_workflow (p_status p) a = Some t" "plan_ok p"
  shows "plan_ok (plan_effect u now t p)"
proof -
  have t: "t \<in> set (sm_transitions plan_workflow)" "tr_from t = p_status p"
    using find_transition_Some [OF assms(1)] by simp_all
  then show ?thesis using plan_moves [OF t(1)] assms(2)
    by (elim disjE) (simp_all add: plan_ok_def plan_effect_def Let_def)
qed

lemma patch_plan_ok: "plan_ok p \<Longrightarrow> plan_ok (patch_plan dto p)"
  by (simp add: plan_ok_def patch_plan_def)

lemma fold_max:
  fixes v :: int
  shows "v \<le> fold max vs v" "x \<in> set vs \<Longrightarrow> x \<le> fold max vs v" "fold max vs v \<in> insert v (set vs)"
  using Max_ge [of "set (v # vs)"] Max_in [of "set (v # vs)"]
  by (simp_all flip: Max.set_eq_fold del: Max_insert)

definition year_versions :: "actor \<Rightarrow> int \<Rightarrow> db \<Rightarrow> int set" where
  "year_versions ac y s = {p_version p | p. p \<in> set (db_plans s) \<and> mine ac p \<and> p_fiscal_year p = y}"

lemma latest_version_cases:
  obtains "latest_version ac y s = None" "year_versions ac y s = {}"
  | v where "latest_version ac y s = Some v" "v \<in> year_versions ac y s" "\<forall>x \<in> year_versions ac y s. x \<le> v"
proof -
  let ?l = "map p_version (many_in ac (\<lambda>p. p_fiscal_year p = y) (db_plans s))"
  have s: "set ?l = year_versions ac y s" by (auto simp: year_versions_def table_simps)
  show thesis
  proof (cases ?l)
    case Nil
    then show thesis using s that(1) by (simp add: latest_version_def)
  next
    case (Cons v vs)
    then show thesis using s that(2) [of "fold max vs v"] fold_max(1) [of v vs] fold_max(3) [of vs v]
      by (simp add: latest_version_def) (metis fold_max(2) insert_iff)
  qed
qed

definition next_version :: "actor \<Rightarrow> int \<Rightarrow> db \<Rightarrow> int" where
  "next_version ac y s = coalesce (latest_version ac y s) 0 + 1"

lemma next_version_free: "next_version ac y s \<notin> year_versions ac y s"
  by (rule latest_version_cases [of ac y s]) (auto simp: next_version_def)

lemma next_version_positive: "plans_ok s \<Longrightarrow> 1 \<le> next_version ac y s"
  by (rule latest_version_cases [of ac y s])
     (auto simp: next_version_def year_versions_def plans_ok_def table_ok_def plan_ok_def)

lemma plan_unique_run:
  "plan_unique ac y v j s =
     (if \<exists>p \<in> set (db_plans s). mine ac p \<and> p_fiscal_year p = y \<and> p_version p = v \<and> Some (r_id p) \<noteq> j
      then (Inl UniqueViolation, s) else (Inr (), s))"
  by (auto simp: plan_unique_def run_h table_simps simp del: neq0_conv)

text \<open>The creation of a plan cannot meet the unique constraint.\<close>

lemma create_plan_run:
  "create_plan ac env dto s =
    (if cp_start dto < cp_end dto
     then let p = new_plan ac env dto (next_version ac (cp_year dto) s) s in
       (Inr p, audited ac env (audit_of ''plan.created'' ''AuditPlan'' (r_id p) No_Snapshot (Plan_Row p) []) (insert_plan p s))
     else (Inl (BadRequest ''endDate must be after startDate''), s))"
proof -
  have "plan_unique ac (cp_year dto) (next_version ac (cp_year dto) s) None s = (Inr (), s)"
    using next_version_free [of ac "cp_year dto" s] by (auto simp: plan_unique_run year_versions_def)
  then show ?thesis by (simp add: create_plan_def run_h Let_def next_version_def)
qed

lemma new_plan_row [simp]:
  "r_id (new_plan ac env dto v s) = db_next s" "r_tenant (new_plan ac env dto v s) = ac_tenant ac"
  "p_fiscal_year (new_plan ac env dto v s) = cp_year dto" "p_version (new_plan ac env dto v s) = v"
  "p_status (new_plan ac env dto v s) = plan_status.DRAFT"
  by (simp_all add: new_plan_def)

text \<open>
  The versions of a year's plan. A plan whose end lies after its start is always created, in
  the caller's tenant, as a draft under a fresh key, and gets the number after the highest version
  of its year, or 1 where there is none, so that the unique constraint on year and version never
  fails; with any other dates nothing is written.
\<close>

theorem plan_versions:
  "(if cp_start dto < cp_end dto
    then \<exists>p s'. create_plan ac env dto s = (Inr p, s') \<and> db_plans s' = db_plans s @ [p] \<and> r_id p = db_next s \<and>
      r_tenant p = ac_tenant ac \<and> p_fiscal_year p = cp_year dto \<and> p_status p = plan_status.DRAFT \<and>
      p_approved_by p = None \<and> year_versions ac (cp_year dto) s \<subseteq> {..<p_version p} \<and>
      p_version p - 1 \<in> insert 0 (year_versions ac (cp_year dto) s)
    else create_plan ac env dto s = (Inl (BadRequest ''endDate must be after startDate''), s))"
proof -
  have "year_versions ac (cp_year dto) s \<subseteq> {..<next_version ac (cp_year dto) s} \<and>
      next_version ac (cp_year dto) s - 1 \<in> insert 0 (year_versions ac (cp_year dto) s)"
    by (rule latest_version_cases [of ac "cp_year dto" s]) (auto simp: next_version_def)
  then show ?thesis by (simp add: create_plan_run Let_def) (simp add: new_plan_def)
qed

lemma update_plan_run:
  assumes "update_plan ac env i dto s = (x, s')"
  shows "(s' = s \<and> \<not> is_ok x) \<or>
    (\<exists>p. find_plan ac i s = Some p \<and> p_status p \<in> set editable_statuses \<and>
       \<not> (\<exists>q \<in> set (db_plans s). mine ac q \<and> p_fiscal_year q = p_fiscal_year (patch_plan dto p) \<and>
            p_version q = p_version p \<and> r_id q \<noteq> i) \<and>
       db_plans s' = update_in ac (has_id i) (patch_plan dto) (db_plans s) \<and> db_items s' = db_items s \<and>
       x = Inr (patch_plan dto p))"
  using assms [unfolded update_plan_def] assert_plan_reads
proof (cases rule: bind_check_cases)
  case (2 p)
  then show ?thesis using assert_plan_found [OF 2(1)]
    by (auto simp: run_h Let_def plan_unique_run split: if_splits)
qed simp

text \<open>The effect of a call on the plans: nothing, a new version, or one plan rewritten.\<close>

definition plan_change :: "actor \<Rightarrow> db \<Rightarrow> db \<Rightarrow> bool" where
  "plan_change ac s s' \<longleftrightarrow>
     db_plans s' = db_plans s \<or>
     (\<exists>p. db_plans s' = db_plans s @ [p] \<and> r_id p = db_next s \<and> db_next s < db_next s' \<and> plan_ok p \<and>
        version_key p \<notin> version_key ` set (db_plans s)) \<or>
     (\<exists>p g. p \<in> set (db_plans s) \<and> mine ac p \<and> db_plans s' = update_in ac (has_id (r_id p)) g (db_plans s) \<and>
        (\<forall>x. r_id (g x) = r_id x) \<and> (plan_ok p \<longrightarrow> plan_ok (g p)) \<and>
        (\<forall>q \<in> set (db_plans s). r_id q \<noteq> r_id p \<longrightarrow> version_key q \<noteq> version_key (g p) \<or> version_key (g p) = version_key p))"

lemma create_plan_change:
  assumes "plans_ok s" shows "plan_change ac s (snd (create_plan ac env dto s))"
proof (cases "cp_start dto < cp_end dto")
  case True
  let ?p = "new_plan ac env dto (next_version ac (cp_year dto) s) s"
  have "plan_ok ?p" using next_version_positive [OF assms, of ac "cp_year dto"]
    by (simp add: plan_ok_def) (simp add: new_plan_def)
  moreover have "version_key ?p \<notin> version_key ` set (db_plans s)"
    using next_version_free [of ac "cp_year dto" s]
    by (auto simp: version_key_def year_versions_def mine_def)
  ultimately have "\<exists>p. db_plans s @ [?p] = db_plans s @ [p] \<and> r_id p = db_next s \<and> plan_ok p \<and>
      version_key p \<notin> version_key ` set (db_plans s)"
    by (intro exI [of _ ?p]) simp
  then show ?thesis using True
    by (simp add: plan_change_def create_plan_run Let_def audited_def)
qed (simp add: plan_change_def create_plan_run)

section \<open>The items of a plan\<close>

lemma find_item_Some:
  "find_item ac p i s = Some it \<Longrightarrow> it \<in> set (db_items s) \<and> mine ac it \<and> r_id it = i \<and> pi_plan it = p"
  by (auto simp: find_item_def has_id_def dest: first_in_Some)

lemma assert_item_found: "assert_item ac p i s = (Inr it, s') \<Longrightarrow> find_item ac p i s = Some it"
  by (simp add: assert_item_def ok_h)

lemma fold_member_plans [simp]: "db_plans (fold (add_member_row ac env e) ms s) = db_plans s"
  by (induction ms arbitrary: s) (simp_all add: add_member_row_def)

lemma insert_engagement_plans:
  "db_plans (insert_engagement ac env dto item e s) = db_plans s"
  "db_items (insert_engagement ac env dto (Some i) e s) =
     update_in ac (has_id i) (\<lambda>it. it\<lparr> pi_engagement := Some (r_id e) \<rparr>) (db_items s)"
  by (simp_all add: insert_engagement_def Let_def add_stage_change_def split: option.split)

lemma create_engagement_plans:
  assumes "create_engagement ac env dto (Some i) s = (x, s')"
  shows "(s' = s \<and> \<not> is_ok x) \<or>
    (\<exists>e. x = Inr e \<and> r_id e = db_next s \<and> db_plans s' = db_plans s \<and>
       db_engagements s' = db_engagements s @ [e] \<and>
       db_items s' = update_in ac (has_id i) (\<lambda>it. it\<lparr> pi_engagement := Some (r_id e) \<rparr>) (db_items s))"
proof -
  let ?year = "get_utc_full_year (coalesce (ce_planned_start dto) (env_now env))"
  let ?al = "allocate_h (latest_audit_number ac ?year) (next_audit_number ?year) (create_numbered ac env dto (Some i)) 5"
  from assms [unfolded create_engagement_def] reads_check_state show ?thesis
  proof (cases rule: then_check_cases)
    case entered: 2
    obtain y t where al: "?al s = (y, t)" by (cases "?al s")
    have "t = s \<and> (\<forall>z. y \<noteq> Inr (Some z)) \<or>
        (\<exists>e ref. y = Inr (Some e) \<and> next_audit_number ?year (latest_audit_number ac ?year s) = Inr ref \<and>
           create_numbered ac env dto (Some i) ref s = (Inr e, t))"
      by (rule allocate_cases [OF al]) (rule create_numbered_failure)
    then consider "t = s" "\<forall>z. y \<noteq> Inr (Some z)"
      | e ref where "y = Inr (Some e)" "create_numbered ac env dto (Some i) ref s = (Inr e, t)" by auto
    then show ?thesis
    proof cases
      case 1
      then show ?thesis using entered(2) al by (auto simp: run_h Let_def split: sum.splits option.splits)
    next
      case made: (2 e ref)
      have t: "t = insert_engagement ac env dto (Some i) e s" "r_id e = db_next s"
        using made(2) by (auto simp: create_numbered_def ok_h new_engagement_def)
      obtain us ni ev where "x = Inr e" "s' = notified_many ac env us ni (audited ac env ev t)"
        using entered(2) al made(1) by (auto simp: run_h Let_def)
      then show ?thesis using t by (simp add: insert_engagement_plans insert_engagement_tables)
    qed
  qed simp
qed

lemma update_in_twice:
  assumes "\<And>x. r_tenant (g x) = r_tenant x" "\<And>x. r_id (g x) = r_id x"
  shows "update_in ac (has_id i) f (update_in ac (has_id i) g t) = update_in ac (has_id i) (\<lambda>x. f (g x)) t"
  using assms by (auto simp: update_in_def update_rows_def mine_def has_id_def)

definition started_item :: "uuid \<Rightarrow> plan_item \<Rightarrow> plan_item" where
  "started_item e it = it\<lparr> pi_engagement := Some e, pi_status := plan_item_status.IN_PROGRESS \<rparr>"

lemma started_item_row [simp]:
  "r_id (started_item e it) = r_id it" "r_tenant (started_item e it) = r_tenant it"
  "pi_plan (started_item e it) = pi_plan it" "pi_engagement (started_item e it) = Some e"
  "pi_status (started_item e it) = plan_item_status.IN_PROGRESS"
  by (simp_all add: started_item_def)

lemma start_item_run:
  assumes "create_engagement_from_item ac env p i s = (x, s')"
  shows "(s' = s \<and> \<not> is_ok x) \<or>
    (\<exists>it e. find_item ac p i s = Some it \<and> pi_engagement it = None \<and> pi_status it \<noteq> plan_item_status.CANCELLED \<and>
       x = Inr e \<and> r_id e = db_next s \<and> db_plans s' = db_plans s \<and> db_engagements s' = db_engagements s @ [e] \<and>
       db_items s' = update_in ac (has_id i) (started_item (r_id e)) (db_items s))"
  using assms [unfolded create_engagement_from_item_def] assert_item_reads
proof (cases rule: bind_check_cases)
  case (2 it)
  have it: "find_item ac p i s = Some it" "r_id it = i"
    using assert_item_found [OF 2(1)] find_item_Some by simp_all
  from 2(2) reads_check show ?thesis
  proof (cases rule: then_check_cases)
    case new: 2
    from new(2) reads_check show ?thesis
    proof (cases rule: then_check_cases)
      case live: 2
      obtain y t where c: "create_engagement ac env (engagement_of_item it) (Some i) s = (y, t)"
        by (cases "create_engagement ac env (engagement_of_item it) (Some i) s")
      from create_engagement_plans [OF c] show ?thesis
      proof
        assume "t = s \<and> \<not> is_ok y"
        then have "s' = s \<and> \<not> is_ok x" using live(2) c it(2) by (cases y) (auto simp: run_h)
        then show ?thesis by blast
      next
        assume "\<exists>e. y = Inr e \<and> r_id e = db_next s \<and> db_plans t = db_plans s \<and>
          db_engagements t = db_engagements s @ [e] \<and>
          db_items t = update_in ac (has_id i) (\<lambda>it. it\<lparr> pi_engagement := Some (r_id e) \<rparr>) (db_items s)"
        then obtain e where e: "y = Inr e" "r_id e = db_next s" "db_plans t = db_plans s"
          "db_engagements t = db_engagements s @ [e]"
          "db_items t = update_in ac (has_id i) (\<lambda>it. it\<lparr> pi_engagement := Some (r_id e) \<rparr>) (db_items s)" by blast
        have "x = Inr e" "db_plans s' = db_plans s" "db_engagements s' = db_engagements s @ [e]"
          "db_items s' = update_in ac (has_id i) (\<lambda>x. x\<lparr> pi_status := plan_item_status.IN_PROGRESS \<rparr>) (db_items t)"
          using live(2) c it(2) e by (auto simp: run_h)
        then have "x = Inr e \<and> r_id e = db_next s \<and> db_plans s' = db_plans s \<and>
            db_engagements s' = db_engagements s @ [e] \<and>
            db_items s' = update_in ac (has_id i) (started_item (r_id e)) (db_items s)"
          unfolding e(5) using e(2) by (simp add: update_in_twice started_item_def [abs_def])
        moreover have "pi_engagement it = None" "pi_status it \<noteq> plan_item_status.CANCELLED"
          using new(1) live(1) by (auto simp: run_h split: if_splits)
        ultimately show ?thesis using it(1) by blast
      qed
    qed simp
  qed simp
qed simp

text \<open>The effect of a call on the items.\<close>

definition item_change :: "actor \<Rightarrow> db \<Rightarrow> db \<Rightarrow> bool" where
  "item_change ac s s' \<longleftrightarrow>
     (\<exists>g. db_items s' = map g (db_items s) \<and>
        (\<forall>it. r_id (g it) = r_id it \<and> r_tenant (g it) = r_tenant it \<and> pi_plan (g it) = pi_plan it) \<and>
        (\<forall>it \<in> set (db_items s). g it = it \<or> mine ac it) \<and>
        (\<forall>it \<in> set (db_items s). pi_engagement (g it) = pi_engagement it \<or>
           (\<exists>r \<in> set (db_items s). r_id r = r_id it \<and> pi_engagement r = None))) \<or>
     (\<exists>it. db_items s' = db_items s @ [it] \<and> r_id it = db_next s \<and> db_next s < db_next s' \<and> pi_engagement it = None) \<or>
     (\<exists>it \<in> set (db_items s). pi_engagement it = None \<and> db_items s' = delete_in ac (has_id (r_id it)) (db_items s))"

lemma item_changeE:
  assumes "item_change ac s s'"
  obtains (rows) g where "db_items s' = map g (db_items s)" "\<forall>it. r_id (g it) = r_id it" "\<forall>it. r_tenant (g it) = r_tenant it"
      "\<forall>it. pi_plan (g it) = pi_plan it"
      "\<forall>it \<in> set (db_items s). pi_engagement (g it) = pi_engagement it \<or>
         (\<exists>r \<in> set (db_items s). r_id r = r_id it \<and> pi_engagement r = None)"
  | (new) it where "db_items s' = db_items s @ [it]" "r_id it = db_next s" "db_next s < db_next s'"
  | (gone) it where "it \<in> set (db_items s)" "pi_engagement it = None"
      "db_items s' = delete_in ac (has_id (r_id it)) (db_items s)"
proof -
  from assms consider (1) g where "db_items s' = map g (db_items s) \<and>
        (\<forall>it. r_id (g it) = r_id it \<and> r_tenant (g it) = r_tenant it \<and> pi_plan (g it) = pi_plan it) \<and>
        (\<forall>it \<in> set (db_items s). g it = it \<or> mine ac it) \<and>
        (\<forall>it \<in> set (db_items s). pi_engagement (g it) = pi_engagement it \<or>
           (\<exists>r \<in> set (db_items s). r_id r = r_id it \<and> pi_engagement r = None))"
    | (2) it where "db_items s' = db_items s @ [it] \<and> r_id it = db_next s \<and> db_next s < db_next s' \<and> pi_engagement it = None"
    | (3) it where "it \<in> set (db_items s)" "pi_engagement it = None \<and> db_items s' = delete_in ac (has_id (r_id it)) (db_items s)"
    unfolding item_change_def by (elim disjE exE bexE) assumption+
  then show thesis
  proof cases
    case (1 g)
    show thesis by (rule rows [of g]) (use 1 in simp_all)
  next
    case (2 it)
    show thesis by (rule new [of it]) (use 2 in simp_all)
  next
    case (3 it)
    show thesis by (rule gone [of it]) (use 3 in simp_all)
  qed
qed

lemma item_change_same: "db_items s' = db_items s \<Longrightarrow> item_change ac s s'"
  unfolding item_change_def by (intro disjI1 exI [of _ id]) simp

lemma item_change_insert:
  "db_items s' = db_items s @ [it] \<Longrightarrow> r_id it = db_next s \<Longrightarrow> db_next s < db_next s' \<Longrightarrow> pi_engagement it = None \<Longrightarrow>
   item_change ac s s'"
  unfolding item_change_def by blast

lemma item_change_delete:
  "it \<in> set (db_items s) \<Longrightarrow> pi_engagement it = None \<Longrightarrow> db_items s' = delete_in ac (has_id (r_id it)) (db_items s) \<Longrightarrow>
   item_change ac s s'"
  unfolding item_change_def by blast

lemma item_change_update:
  assumes "db_items s' = update_in ac P g (db_items s)"
    and "\<And>it. r_id (g it) = r_id it \<and> r_tenant (g it) = r_tenant it \<and> pi_plan (g it) = pi_plan it"
    and "\<And>it. it \<in> set (db_items s) \<Longrightarrow> P it \<Longrightarrow> pi_engagement (g it) = pi_engagement it \<or>
           (\<exists>r \<in> set (db_items s). r_id r = r_id it \<and> pi_engagement r = None)"
  shows "item_change ac s s'"
  unfolding item_change_def assms(1) update_in_def update_rows_def
  using assms(2,3)
  by (intro disjI1 exI [of _ "\<lambda>it. if mine ac it \<and> P it then g it else it"]) auto

lemma add_item_run:
  assumes "add_item ac env p dto s = (x, s')"
  shows "db_plans s' = db_plans s \<and> (db_items s' = db_items s \<or>
    (\<exists>it. db_items s' = db_items s @ [it] \<and> r_id it = db_next s \<and> db_next s < db_next s' \<and> pi_engagement it = None))"
  using assms [unfolded add_item_def] assert_plan_reads
proof (cases rule: bind_check_cases)
  case (2 q)
  have n: "db_next t < db_next (audited ac env ev (insert_item it t))" for ev it t by (simp add: audited_def)
  from 2 show ?thesis by (auto simp: run_h n new_item_def split: if_splits)
qed simp

lemma update_item_run:
  assumes "update_item ac env p i dto s = (x, s')"
  shows "db_plans s' = db_plans s \<and>
    (db_items s' = db_items s \<or> db_items s' = update_in ac (has_id i) (patch_item dto) (db_items s))"
  using assms [unfolded update_item_def] assert_item_reads
proof (cases rule: bind_check_cases)
  case (2 it)
  then show ?thesis by (auto simp: run_h Let_def)
qed simp

lemma delete_item_run:
  assumes "delete_item ac env p i s = (x, s')"
  shows "db_plans s' = db_plans s \<and>
    (db_items s' = db_items s \<or>
     (\<exists>it. find_item ac p i s = Some it \<and> pi_engagement it = None \<and> db_items s' = delete_in ac (has_id i) (db_items s)))"
  using assms [unfolded delete_item_def] assert_item_reads
proof (cases rule: bind_check_cases)
  case (2 it)
  then show ?thesis using assert_item_found [OF 2(1)] by (auto simp: run_h split: if_splits)
qed simp

lemma call_plan_items: "item_change ac s (call_plan ac env c s)"
proof (cases c)
  case (Create_Plan dto)
  show ?thesis unfolding Create_Plan
    by (rule item_change_same) (simp add: create_plan_run Let_def)
next
  case (Update_Plan i dto)
  obtain x s' where run: "update_plan ac env i dto s = (x, s')" by (cases "update_plan ac env i dto s")
  then show ?thesis using update_plan_run [OF run] Update_Plan by (auto intro: item_change_same)
next
  case (Transition_Plan i dto)
  obtain x s' where run: "transition_plan ac env (\<lambda>is. is) i dto s = (x, s')"
    by (cases "transition_plan ac env (\<lambda>is. is) i dto s")
  have act: "item_change ac s s'" if "db_items s' = db_items (plan_proposed_items ac i s)"
    using that unfolding plan_proposed_items_def by (auto intro: item_change_update)
  show ?thesis using plan_transition_run [OF run] run Transition_Plan act
    by (auto intro: item_change_same split: if_splits)
next
  case (Add_Item p dto)
  obtain x s' where run: "add_item ac env p dto s = (x, s')" by (cases "add_item ac env p dto s")
  then show ?thesis using add_item_run [OF run] Add_Item
    by (auto intro: item_change_same item_change_insert)
next
  case (Update_Item p i dto)
  obtain x s' where run: "update_item ac env p i dto s = (x, s')" by (cases "update_item ac env p i dto s")
  then show ?thesis using update_item_run [OF run] Update_Item
    by (auto intro: item_change_same item_change_update [where g = "patch_item dto"])
next
  case (Delete_Item p i)
  obtain x s' where run: "delete_item ac env p i s = (x, s')" by (cases "delete_item ac env p i s")
  then show ?thesis using delete_item_run [OF run] Delete_Item
    by (auto intro: item_change_same item_change_delete dest: find_item_Some)
next
  case (Start_Item p i)
  obtain x s' where run: "create_engagement_from_item ac env p i s = (x, s')"
    by (cases "create_engagement_from_item ac env p i s")
  have "item_change ac s s'"
    if "find_item ac p i s = Some it" "pi_engagement it = None"
      "db_items s' = update_in ac (has_id i) (started_item e) (db_items s)" for it e
    by (rule item_change_update [OF that(3)]) (use find_item_Some [OF that(1)] that(2) in \<open>auto simp: has_id_def\<close>)
  then show ?thesis using start_item_run [OF run] run Start_Item
    by (auto intro: item_change_same)
qed

lemma call_plan_plans: assumes "plans_ok s" shows "plan_change ac s (call_plan ac env c s)"
proof -
  have same: "plan_change ac s s'" if "db_plans s' = db_plans s" for s' using that by (simp add: plan_change_def)
  show ?thesis
  proof (cases c)
    case (Create_Plan dto)
    then show ?thesis using create_plan_change [OF assms] by simp
  next
    case (Update_Plan i dto)
    obtain x s' where run: "update_plan ac env i dto s = (x, s')" by (cases "update_plan ac env i dto s")
    have "plan_change ac s s'" if p: "find_plan ac i s = Some p"
      and u: "\<not> (\<exists>q \<in> set (db_plans s). mine ac q \<and> p_fiscal_year q = p_fiscal_year (patch_plan dto p) \<and>
            p_version q = p_version p \<and> r_id q \<noteq> i)"
      and d: "db_plans s' = update_in ac (has_id i) (patch_plan dto) (db_plans s)" for p
    proof -
      have "version_key q \<noteq> version_key (patch_plan dto p)" if "q \<in> set (db_plans s)" "r_id q \<noteq> r_id p" for q
        using that u find_plan_Some [OF p] by (auto simp: version_key_def mine_def)
      then show ?thesis using d find_plan_Some [OF p] unfolding plan_change_def
        by (intro disjI2 exI [of _ p] exI [of _ "patch_plan dto"]) (simp add: patch_plan_ok)
    qed
    then show ?thesis using update_plan_run [OF run] run Update_Plan same by auto
  next
    case (Transition_Plan i dto)
    obtain x s' where run: "transition_plan ac env (\<lambda>is. is) i dto s = (x, s')"
      by (cases "transition_plan ac env (\<lambda>is. is) i dto s")
    have "plan_change ac s s'" if p: "find_plan ac i s = Some p"
      and t: "find_transition plan_workflow (p_status p) (td_action dto) = Some t"
      and d: "db_plans s' = update_in ac (has_id i) (plan_effect (ac_user ac) (env_now env) t) (db_plans s)" for p t
    proof -
      have "version_key (plan_effect (ac_user ac) (env_now env) t p) = version_key p" by (simp add: version_key_def)
      then show ?thesis using d find_plan_Some [OF p] plan_effect_ok [OF t] unfolding plan_change_def
        by (intro disjI2 exI [of _ p] exI [of _ "plan_effect (ac_user ac) (env_now env) t"]) simp
    qed
    then show ?thesis using plan_transition_run [OF run] run Transition_Plan same by auto
  next
    case (Add_Item p dto)
    then show ?thesis using add_item_run [of ac env p dto s] by (intro same) (simp add: prod_eq_iff)
  next
    case (Update_Item p i dto)
    then show ?thesis using update_item_run [of ac env p i dto s] by (intro same) (simp add: prod_eq_iff)
  next
    case (Delete_Item p i)
    then show ?thesis using delete_item_run [of ac env p i s] by (intro same) (simp add: prod_eq_iff)
  next
    case (Start_Item p i)
    obtain x s' where run: "create_engagement_from_item ac env p i s = (x, s')"
      by (cases "create_engagement_from_item ac env p i s")
    then show ?thesis using start_item_run [OF run] Start_Item same by auto
  qed
qed

lemma plan_change_keys:
  assumes "plan_change ac s s'" "db_next s \<le> db_next s'" "table_ok plan_ok (db_next s) (db_plans s)"
    and "inj_on version_key (set (db_plans s))"
  shows "table_ok plan_ok (db_next s') (db_plans s') \<and> inj_on version_key (set (db_plans s'))"
proof
  have "row_step ac plan_ok (db_next s) (db_next s') (db_plans s) (db_plans s')"
    using assms(1,2) unfolding plan_change_def row_step_def by blast
  then show "table_ok plan_ok (db_next s') (db_plans s')" using assms(3) by (rule row_step_ok)
  from assms(1) consider "db_plans s' = db_plans s"
    | p where "db_plans s' = db_plans s @ [p]" "version_key p \<notin> version_key ` set (db_plans s)"
    | p g where "p \<in> set (db_plans s)" "mine ac p" "db_plans s' = update_in ac (has_id (r_id p)) g (db_plans s)"
        "\<forall>q \<in> set (db_plans s). r_id q \<noteq> r_id p \<longrightarrow> version_key q \<noteq> version_key (g p) \<or> version_key (g p) = version_key p"
    unfolding plan_change_def by blast
  then show "inj_on version_key (set (db_plans s'))"
  proof cases
    case (3 p g)
    have only: "q = p" if "q \<in> set (db_plans s)" "r_id q = r_id p" for q
      using that 3(1) assms(3) by (auto simp: table_ok_def distinct_map inj_on_def)
    have sub: "q = g p \<or> q \<in> set (db_plans s) \<and> r_id q \<noteq> r_id p" if "q \<in> set (db_plans s')" for q
    proof -
      from that have "(\<exists>r \<in> set (db_plans s). (mine ac r \<and> r_id r = r_id p) \<and> q = g r) \<or>
          q \<in> set (db_plans s) \<and> \<not> (mine ac q \<and> r_id q = r_id p)"
        unfolding 3(3) by (auto simp: update_in_def update_rows_def has_id_def)
      then show ?thesis using only 3(2) by blast
    qed
    have apart: "version_key q \<noteq> version_key (g p)" if "q \<in> set (db_plans s)" "r_id q \<noteq> r_id p" for q
      using that 3(4) assms(4) 3(1) by (metis inj_onD)
    show ?thesis
    proof (rule inj_onI)
      fix a b
      assume "a \<in> set (db_plans s')" "b \<in> set (db_plans s')" "version_key a = version_key b"
      then show "a = b" using sub [of a] sub [of b] apart assms(4) by (metis inj_onD)
    qed
  qed (use assms(4) in auto)
qed

lemma item_change_keys:
  assumes "item_change ac s s'" "db_next s \<le> db_next s'" "table_ok (\<lambda>_. True) (db_next s) (db_items s)"
  shows "table_ok (\<lambda>_. True) (db_next s') (db_items s')"
proof -
  show ?thesis
    using assms(1)
  proof (cases rule: item_changeE)
    case (rows g)
    then have "map r_id (db_items s') = map r_id (db_items s)" by simp
    then show ?thesis using assms(2,3) rows(1,2) by (auto simp: table_ok_def simp del: map_map)
  next
    case (new it)
    then show ?thesis using assms(2,3) by (auto simp: table_ok_def)
  next
    case (gone it)
    then show ?thesis using assms(2,3)
      by (auto simp: table_ok_def delete_in_def delete_rows_def distinct_map_filter)
  qed
qed

lemma call_plan_ok: assumes "plans_ok s" shows "plans_ok (call_plan ac env c s)"
proof -
  have "db_next s \<le> db_next (call_plan ac env c s)" by (rule confined_next [OF call_plan_confined])
  then show ?thesis
    using plan_change_keys [OF call_plan_plans [OF assms]] item_change_keys [OF call_plan_items] assms
    unfolding plans_ok_def by blast
qed

lemma call_plans_ok: "plans_ok s \<Longrightarrow> plans_ok (call_plans calls s)"
  by (induction calls arbitrary: s) (auto simp: call_plans_def call_plan_ok split: prod.split)

text \<open>
  C23. The invariant of audit plans. Whatever requests reach the API of plans and plan items, by
  whichever users and in any order, in a database where it held: a plan names its approver and the
  time of the approval exactly when it is approved, active or archived; versions start at 1, and
  no two plans of a tenant have the same year and version; the keys of plans and items stay unique.
\<close>

theorem plans_invariant:
  assumes "plans_ok s"
  shows "plans_ok (call_plans calls s)"
  using assms by (rule call_plans_ok)

lemma item_link_step:
  assumes "plans_ok s" "the_row i (db_items s) = Some it" "pi_engagement it = Some e"
  shows "\<exists>it'. the_row i (db_items (call_plan ac env c s)) = Some it' \<and> pi_engagement it' = Some e \<and>
    pi_plan it' = pi_plan it \<and> r_tenant it' = r_tenant it"
proof -
  let ?s = "call_plan ac env c s"
  have it: "it \<in> set (db_items s)" "r_id it = i" using the_row_Some(1,2) [OF assms(2)] by simp_all
  have only: "q = it" if "q \<in> set (db_items s)" "r_id q = i" for q
    using the_row_Some(3) [OF assms(2)] that by blast
  have ok: "table_ok (\<lambda>_. True) (db_next ?s) (db_items ?s)" using call_plan_ok [OF assms(1)] by (simp add: plans_ok_def)
  show ?thesis
    using call_plan_items [of ac s env c]
  proof (cases rule: item_changeE)
    case (rows g)
    have "g it \<in> set (db_items ?s)" "r_id (g it) = i" using rows(1,2) it by auto
    moreover have "pi_engagement (g it) = Some e" 
    proof -
      from rows(5) it(1) have "pi_engagement (g it) = pi_engagement it \<or>
          (\<exists>r \<in> set (db_items s). r_id r = r_id it \<and> pi_engagement r = None)" by blast
      then show ?thesis
      proof
        assume "\<exists>r \<in> set (db_items s). r_id r = r_id it \<and> pi_engagement r = None"
        then obtain r where "r \<in> set (db_items s)" "r_id r = i" "pi_engagement r = None" using it(2) by blast
        then show ?thesis using only [of r] assms(3) by simp
      qed (simp add: assms(3))
    qed
    ultimately show ?thesis using the_row_table_ok [OF ok] rows(3,4) by blast
  next
    case (new x)
    then show ?thesis using the_row_table_ok [OF ok, of it] it assms(3) by auto
  next
    case (gone x)
    have "r_id x \<noteq> i" using gone(1,2) only assms(3) by auto
    then have "it \<in> set (db_items ?s)" using it unfolding gone(3) by (auto simp: delete_in_def delete_rows_def has_id_def)
    then show ?thesis using the_row_table_ok [OF ok, of it] it assms(3) by auto
  qed
qed

lemma item_link_run:
  assumes "plans_ok s" "the_row i (db_items s) = Some it" "pi_engagement it = Some e"
  shows "\<exists>it'. the_row i (db_items (call_plans calls s)) = Some it' \<and> pi_engagement it' = Some e \<and>
    pi_plan it' = pi_plan it \<and> r_tenant it' = r_tenant it"
  using assms
proof (induction calls arbitrary: s it)
  case (Cons c calls)
  obtain ac env d where c: "c = (ac, env, d)" by (cases c)
  obtain it' where it': "the_row i (db_items (call_plan ac env d s)) = Some it'" "pi_engagement it' = Some e"
      "pi_plan it' = pi_plan it" "r_tenant it' = r_tenant it"
    using item_link_step [OF Cons.prems] by blast
  from Cons.IH [OF call_plan_ok [OF Cons.prems(1)] it'(1,2)] it'(3,4) show ?case
    by (simp add: c call_plans_def)
qed (simp add: call_plans_def)

text \<open>
  An item starts one engagement. Where the start of a plan item succeeds, the item was there,
  not cancelled and without an engagement; one engagement was added, under a fresh key; the item
  points to it and is in progress; and whatever requests reach the API of plans afterwards, the item
  is still there, in the same plan, and points to the same engagement, so that no second one can be
  started from it.
\<close>

theorem item_starts_once:
  assumes "plans_ok s" and "create_engagement_from_item ac env p i s = (Inr e, s')"
  shows "(\<exists>it. find_item ac p i s = Some it \<and> pi_engagement it = None \<and> pi_status it \<noteq> plan_item_status.CANCELLED) \<and>
    db_engagements s' = db_engagements s @ [e] \<and> r_id e = db_next s \<and>
    (\<exists>it'. the_row i (db_items s') = Some it' \<and> pi_engagement it' = Some (r_id e) \<and>
       pi_status it' = plan_item_status.IN_PROGRESS) \<and>
    (\<exists>it''. the_row i (db_items (call_plans calls s')) = Some it'' \<and> pi_plan it'' = p \<and> r_tenant it'' = ac_tenant ac \<and>
       pi_engagement it'' = Some (r_id e))"
proof -
  have call: "s' = call_plan ac env (Start_Item p i) s" using assms(2) by simp
  have ok: "plans_ok s'" unfolding call by (rule call_plan_ok [OF assms(1)])
  obtain it where it: "find_item ac p i s = Some it" "pi_engagement it = None" "pi_status it \<noteq> plan_item_status.CANCELLED"
    and e: "r_id e = db_next s" "db_engagements s' = db_engagements s @ [e]"
    and d: "db_items s' = update_in ac (has_id i) (started_item (r_id e)) (db_items s)"
    using start_item_run [OF assms(2)] by auto
  let ?it = "started_item (r_id e) it"
  have m: "it \<in> set (db_items s)" "mine ac it" "r_id it = i" "pi_plan it = p" using find_item_Some [OF it(1)] by simp_all
  have "?it \<in> set (db_items s')" using m unfolding d set_update_in by (auto simp: has_id_def)
  then have r: "the_row i (db_items s') = Some ?it"
    using the_row_table_ok [of _ _ _ ?it] ok m(3) unfolding plans_ok_def by auto
  obtain it'' where "the_row i (db_items (call_plans calls s')) = Some it''" "pi_engagement it'' = Some (r_id e)"
      "pi_plan it'' = pi_plan ?it" "r_tenant it'' = r_tenant ?it"
    using item_link_run [OF ok r] by auto
  then show ?thesis using it e r m by (auto simp: mine_def)
qed

section \<open>Examples\<close>

definition ex_plan_dto :: create_plan_dto where
  "ex_plan_dto = \<lparr> cp_title = ''Plan'', cp_year = 2026, cp_horizon = None, cp_start = 0, cp_end = 1, cp_hours = None,
     cp_amount = None, cp_currency = None, cp_narrative = None \<rparr>"

lemma ex_plans_ok: "plans_ok ex_db"
  by (simp add: plans_ok_def table_ok_def plan_ok_def ex_plan_def)

lemma plans_invariant_witness:
  "plans_ok (call_plans [(ex_manager, ex_env, Create_Plan ex_plan_dto), (ex_manager, ex_env, Delete_Item 60 61)] ex_db)"
  by (rule plans_invariant [OF ex_plans_ok])

definition ex_item :: plan_item where
  "ex_item =
     \<lparr> r_id = 61, r_tenant = 1, r_created = 0, pi_plan = 60, pi_entity = None, pi_engagement = None,
       pi_title = ''Payroll'', pi_description = None, pi_source = RISK_BASED, pi_type = engagement_type.OPERATIONAL,
       pi_rating = severity.HIGH, pi_priority = 1, pi_year = 2026, pi_quarter = Some 2, pi_start = None,
       pi_end = None, pi_budget_hours = None, pi_budget_amount = None, pi_lead = Some 2,
       pi_status = plan_item_status.PLANNED, pi_rationale = None \<rparr>"

definition ex_plan_db :: db where
  "ex_plan_db = empty_db\<lparr> db_next := 100, db_plans := [ex_plan], db_items := [ex_item] \<rparr>"

lemma ex_plan_db_tables [simp]:
  "db_next ex_plan_db = 100" "db_plans ex_plan_db = [ex_plan]" "db_items ex_plan_db = [ex_item]"
  "db_engagements ex_plan_db = []"
  by (simp_all add: ex_plan_db_def empty_db_def)

lemma ex_plan_db_ok: "plans_ok ex_plan_db"
  by (simp add: plans_ok_def table_ok_def plan_ok_def ex_plan_def ex_item_def)

lemma ex_item_start: "\<exists>e s'. create_engagement_from_item ex_manager ex_env 60 61 ex_plan_db = (Inr e, s')"
proof -
  let ?dto = "engagement_of_item ex_item"
  let ?e = "new_engagement ex_manager ex_env ?dto ''IA-2026-001'' ex_plan_db"
  let ?s = "insert_engagement ex_manager ex_env ?dto (Some 61) ?e ex_plan_db"
  have l: "latest_audit_number ex_manager 2026 ex_plan_db = None"
    by (simp add: latest_audit_number_def many_in_def find_many_def highest_def)
  have n: "create_numbered ex_manager ex_env ?dto (Some 61) ''IA-2026-001'' ex_plan_db = (Inr ?e, ?s)"
    by (simp add: create_numbered_def run_h)
  have al: "allocate_h (latest_audit_number ex_manager 2026) (next_audit_number 2026)
      (create_numbered ex_manager ex_env ?dto (Some 61)) 5 ex_plan_db = (Inr (Some ?e), ?s)"
    using allocate_first [where r = "''IA-2026-001''" and latest = "latest_audit_number ex_manager 2026"
        and ?next = "next_audit_number 2026" and n = 4
        and create = "create_numbered ex_manager ex_env ?dto (Some 61)" and s = ex_plan_db]
    by (simp add: l ex_first_number n)
  have y: "get_utc_full_year (coalesce (ce_planned_start ?dto) (env_now ex_env)) = 2026" "ce_entity ?dto = None"
    by (simp_all add: ex_year engagement_of_item_def ex_item_def)
  obtain t where c: "create_engagement ex_manager ex_env ?dto (Some 61) ex_plan_db = (Inr ?e, t)"
    by (simp add: create_engagement_def run_h y al)
  have f: "find_item ex_manager 60 61 ex_plan_db = Some ex_item"
    by (simp add: find_item_def has_id_def ex_item_def)
  have r: "r_id ex_item = 61" "pi_engagement ex_item = None" "pi_status ex_item \<noteq> plan_item_status.CANCELLED"
    by (simp_all add: ex_item_def)
  show ?thesis
    by (simp add: create_engagement_from_item_def assert_item_def run_h f r c)
qed

lemma item_starts_once_witness:
  "\<exists>e s'. create_engagement_from_item ex_manager ex_env 60 61 ex_plan_db = (Inr e, s') \<and> db_engagements s' = [e] \<and>
     (\<exists>it. the_row 61 (db_items (call_plans [(ex_manager, ex_env, Delete_Item 60 61),
        (ex_manager, ex_env, Start_Item 60 61)] s')) = Some it \<and> pi_engagement it = Some 100)"
proof -
  obtain e s' where run: "create_engagement_from_item ex_manager ex_env 60 61 ex_plan_db = (Inr e, s')"
    using ex_item_start by blast
  show ?thesis
    using run item_starts_once [OF ex_plan_db_ok run, of "[(ex_manager, ex_env, Delete_Item 60 61),
        (ex_manager, ex_env, Start_Item 60 61)]"]
    by auto
qed

end
