(* ===== verification/Universe.thy ===== *)
theory Universe
  imports Findings
begin

text \<open>
  \<open>universe/universe.service.ts\<close>: the audit universe, a hierarchy of auditable entities with their
  processes, and the coverage figures. The reading of one entity with its risks is left out, as the
  risk register is not modelled.
\<close>

section \<open>The tree\<close>

datatype entity_node = Entity_Node audit_entity "entity_node list"

text \<open>
  \<open>buildEntityTree\<close>: the roots are the rows whose parent is not among the rows; below a node come the
  rows that name it as their parent. Siblings are sorted by name with the stable sort of the
  language, where \<open>leq\<close> is the order of \<open>localeCompare\<close>. The recursion follows the parent column,
  which the database does not keep free of cycles; the model runs it with fuel, and \<open>None\<close> would
  be a recursion that does not return.
\<close>

fun insert_node :: "(string \<Rightarrow> string \<Rightarrow> bool) \<Rightarrow> audit_entity \<Rightarrow> audit_entity list \<Rightarrow> audit_entity list" where
  "insert_node leq x [] = [x]"
| "insert_node leq x (y # ys) = (if leq (ae_name x) (ae_name y) then x # y # ys else y # insert_node leq x ys)"

definition sort_nodes :: "(string \<Rightarrow> string \<Rightarrow> bool) \<Rightarrow> audit_entity list \<Rightarrow> audit_entity list" where
  "sort_nodes leq rows = foldr (insert_node leq) rows []"

definition parent_row :: "audit_entity list \<Rightarrow> audit_entity \<Rightarrow> audit_entity option" where
  "parent_row rows r = (case ae_parent r of None \<Rightarrow> None | Some p \<Rightarrow> find_first (has_id p) rows)"

definition root_rows :: "audit_entity list \<Rightarrow> audit_entity list" where
  "root_rows rows = filter (\<lambda>r. parent_row rows r = None) rows"

definition child_rows :: "audit_entity list \<Rightarrow> audit_entity \<Rightarrow> audit_entity list" where
  "child_rows rows r = filter (\<lambda>c. ae_parent c = Some (r_id r)) rows"

fun all_some :: "'a option list \<Rightarrow> 'a list option" where
  "all_some [] = Some []"
| "all_some (x # xs) = (case (x, all_some xs) of (Some y, Some ys) \<Rightarrow> Some (y # ys) | _ \<Rightarrow> None)"

fun entity_tree :: "nat \<Rightarrow> (string \<Rightarrow> string \<Rightarrow> bool) \<Rightarrow> audit_entity list \<Rightarrow> audit_entity \<Rightarrow> entity_node option" where
  "entity_tree 0 leq rows r = None"
| "entity_tree (Suc n) leq rows r =
     map_option (Entity_Node r) (all_some (map (entity_tree n leq rows) (sort_nodes leq (child_rows rows r))))"

definition build_entity_tree :: "nat \<Rightarrow> (string \<Rightarrow> string \<Rightarrow> bool) \<Rightarrow> audit_entity list \<Rightarrow> entity_node list option" where
  "build_entity_tree n leq rows = all_some (map (entity_tree n leq rows) (sort_nodes leq (root_rows rows)))"

section \<open>Entities\<close>

record entity_query =
  eq_page :: page_query
  eq_flat :: bool
  eq_type :: "entity_type option"
  eq_country :: "string option"
  eq_rating :: "severity option"
  eq_parent :: "uuid option"
  eq_inactive :: bool
  eq_text :: "string option"

definition entity_where :: "entity_query \<Rightarrow> audit_entity \<Rightarrow> bool" where
  "entity_where q e \<longleftrightarrow>
     ae_deleted_at e = None \<and> (eq_inactive q \<or> ae_active e) \<and> opt_eq (eq_type q) (ae_type e) \<and>
     (case eq_country q of None \<Rightarrow> True
        | Some c \<Rightarrow> c = [] \<or> map_option to_lower (ae_country e) = Some (to_lower c)) \<and>
     opt_eq (eq_rating q) (ae_rating e) \<and> opt_eq (map_option Some (eq_parent q)) (ae_parent e) \<and>
     opt_contains (eq_text q) [ae_name e, ae_code e]"

text \<open>The flat list is a page; otherwise the answer is the whole tree with the number of its rows.\<close>

definition list_entities ::
  "actor \<Rightarrow> nat \<Rightarrow> (string \<Rightarrow> string \<Rightarrow> bool) \<Rightarrow> (audit_entity list \<Rightarrow> audit_entity list) \<Rightarrow> entity_query \<Rightarrow>
   (audit_entity page + entity_node list option \<times> nat) op" where
  "list_entities ac n leq order q = gets_h (\<lambda>s.
     let rows = order (many_in ac (entity_where q) (db_entities s))
     in if eq_flat q then Inl (paginate (eq_page q) rows) else Inr (build_entity_tree n leq rows, length rows))"

definition find_entity :: "actor \<Rightarrow> uuid \<Rightarrow> db \<Rightarrow> audit_entity option" where
  "find_entity ac i s = first_in ac (\<lambda>e. has_id i e \<and> ae_deleted_at e = None) (db_entities s)"

definition assert_entity :: "actor \<Rightarrow> uuid \<Rightarrow> audit_entity op" where
  "assert_entity ac i = demand_h (find_entity ac i) (NotFound ''Entity not found'')"

text \<open>The climb from a candidate towards the root, 64 levels at most.\<close>

fun climb :: "actor \<Rightarrow> audit_entity list \<Rightarrow> uuid \<Rightarrow> nat \<Rightarrow> uuid option \<Rightarrow> bool" where
  "climb ac t ancestor 0 current = False"
| "climb ac t ancestor (Suc n) None = False"
| "climb ac t ancestor (Suc n) (Some c) =
     (case first_in ac (has_id c) t of
        None \<Rightarrow> False
      | Some r \<Rightarrow> ae_parent r = Some ancestor \<or> climb ac t ancestor n (ae_parent r))"

definition is_descendant :: "actor \<Rightarrow> uuid \<Rightarrow> uuid \<Rightarrow> db \<Rightarrow> bool" where
  "is_descendant ac candidate ancestor s = climb ac (db_entities s) ancestor 64 (Some candidate)"

text \<open>The constraint \<open>@@unique([tenantId, code])\<close>, for a row other than \<open>i\<close>.\<close>

definition entity_code_unique :: "actor \<Rightarrow> string \<Rightarrow> uuid option \<Rightarrow> unit op" where
  "entity_code_unique ac code i = check_state_h (\<lambda>s. count_in ac (\<lambda>e. ae_code e = code \<and> Some (r_id e) \<noteq> i)
     (db_entities s) = 0) UniqueViolation"

record create_entity_dto =
  cy_parent :: "uuid option"
  cy_type :: entity_type
  cy_code :: string
  cy_name :: string
  cy_description :: "string option"
  cy_owner :: "uuid option"
  cy_country :: "string option"
  cy_objectives :: "string list option"
  cy_regulatory :: "json list option"
  cy_rating :: "severity option"
  cy_last :: "time option"
  cy_next :: "time option"
  cy_frequency :: "int option"
  cy_metadata :: "json option"

definition first_audit_due :: "create_entity_dto \<Rightarrow> time option" where
  "first_audit_due dto = coalesce_opt (cy_next dto)
     (case (cy_last dto, cy_frequency dto) of
        (Some d, Some n) \<Rightarrow> if n \<noteq> 0 then Some (add_months d n) else None
      | _ \<Rightarrow> None)"

definition new_entity :: "actor \<Rightarrow> env \<Rightarrow> create_entity_dto \<Rightarrow> db \<Rightarrow> audit_entity" where
  "new_entity ac env dto s =
     \<lparr> r_id = db_next s, r_tenant = ac_tenant ac, r_created = env_now env, ae_parent = cy_parent dto,
       ae_type = cy_type dto, ae_code = cy_code dto, ae_name = cy_name dto, ae_description = cy_description dto,
       ae_owner = cy_owner dto, ae_country = cy_country dto, ae_objectives = coalesce (cy_objectives dto) [],
       ae_regulatory = JArr (coalesce (cy_regulatory dto) []), ae_rating = coalesce (cy_rating dto) severity.MEDIUM,
       ae_last_audit = cy_last dto, ae_next_audit = first_audit_due dto, ae_frequency = cy_frequency dto,
       ae_active = True, ae_metadata = coalesce (cy_metadata dto) (JObj []), ae_deleted_at = None \<rparr>"

definition insert_entity :: "audit_entity \<Rightarrow> db \<Rightarrow> db" where
  "insert_entity e s = s\<lparr> db_entities := insert_row e (db_entities s), db_next := db_next s + 1 \<rparr>"

definition create_entity :: "actor \<Rightarrow> env \<Rightarrow> create_entity_dto \<Rightarrow> audit_entity op" where
  "create_entity ac env dto =
     then_h (case cy_parent dto of None \<Rightarrow> return_h () | Some p \<Rightarrow> then_h (assert_entity ac p) (return_h ()))
    (then_h (entity_code_unique ac (cy_code dto) None)
    (bind_h (create_h (new_entity ac env dto) insert_entity) (\<lambda>e.
     then_h (audit_record ac env (audit_of ''entity.created'' ''AuditEntity'' (r_id e) No_Snapshot (Entity_Row e) []))
     (return_h e))))"

record update_entity_dto =
  uy_parent :: "uuid field"
  uy_type :: "entity_type option"
  uy_code :: "string option"
  uy_name :: "string option"
  uy_description :: "string option"
  uy_owner :: "uuid field"
  uy_country :: "string option"
  uy_objectives :: "string list option"
  uy_regulatory :: "json list option"
  uy_rating :: "severity option"
  uy_last :: "time field"
  uy_next :: "time field"
  uy_frequency :: "int field"
  uy_metadata :: "json option"
  uy_active :: "bool option"

definition patch_entity :: "update_entity_dto \<Rightarrow> audit_entity \<Rightarrow> audit_entity" where
  "patch_entity dto e =
     e\<lparr> ae_parent := patch_nullable (uy_parent dto) (ae_parent e), ae_type := patch (uy_type dto) (ae_type e),
        ae_code := patch (uy_code dto) (ae_code e), ae_name := patch (uy_name dto) (ae_name e),
        ae_description := (case uy_description dto of None \<Rightarrow> ae_description e | Some d \<Rightarrow> Some d),
        ae_owner := patch_nullable (uy_owner dto) (ae_owner e),
        ae_country := (case uy_country dto of None \<Rightarrow> ae_country e | Some c \<Rightarrow> Some c),
        ae_objectives := patch (uy_objectives dto) (ae_objectives e),
        ae_regulatory := patch (map_option JArr (uy_regulatory dto)) (ae_regulatory e),
        ae_rating := patch (uy_rating dto) (ae_rating e),
        ae_last_audit := patch_nullable (uy_last dto) (ae_last_audit e),
        ae_next_audit := patch_nullable (uy_next dto) (ae_next_audit e),
        ae_frequency := patch_nullable (uy_frequency dto) (ae_frequency e),
        ae_metadata := patch (uy_metadata dto) (ae_metadata e), ae_active := patch (uy_active dto) (ae_active e) \<rparr>"

definition check_move :: "actor \<Rightarrow> uuid \<Rightarrow> uuid \<Rightarrow> unit op" where
  "check_move ac i p =
     then_h (check_h (p \<noteq> i) (BadRequest ''An entity cannot be its own parent''))
    (then_h (assert_entity ac p)
     (check_state_h (\<lambda>s. \<not> is_descendant ac p i s) (BadRequest ''Cannot move an entity under its own descendant'')))"

definition update_entity_row :: "actor \<Rightarrow> uuid \<Rightarrow> (audit_entity \<Rightarrow> audit_entity) \<Rightarrow> db \<Rightarrow> db" where
  "update_entity_row ac i g s = s\<lparr> db_entities := update_in ac (has_id i) g (db_entities s) \<rparr>"

definition update_entity :: "actor \<Rightarrow> env \<Rightarrow> uuid \<Rightarrow> update_entity_dto \<Rightarrow> audit_entity op" where
  "update_entity ac env i dto =
     bind_h (assert_entity ac i) (\<lambda>before.
     then_h (case uy_parent dto of Value p \<Rightarrow> check_move ac i p | _ \<Rightarrow> return_h ())
    (let after = patch_entity dto before in
     then_h (entity_code_unique ac (ae_code after) (Some i))
    (then_h (modify_h (update_entity_row ac i (patch_entity dto)))
    (then_h (audit_record ac env (audit_of ''entity.updated'' ''AuditEntity'' i (Entity_Row before) (Entity_Row after) []))
     (return_h after)))))"

definition deleted_entity :: "time \<Rightarrow> audit_entity \<Rightarrow> audit_entity" where
  "deleted_entity now e = e\<lparr> ae_deleted_at := Some now, ae_active := False \<rparr>"

definition delete_entity :: "actor \<Rightarrow> env \<Rightarrow> uuid \<Rightarrow> unit op" where
  "delete_entity ac env i =
     bind_h (assert_entity ac i) (\<lambda>before.
     then_h (check_state_h (\<lambda>s. count_in ac (\<lambda>e. ae_parent e = Some i \<and> ae_deleted_at e = None) (db_entities s) = 0)
               (BadRequest ''Delete or move child entities first''))
    (then_h (modify_h (update_entity_row ac i (deleted_entity (env_now env))))
     (audit_record ac env (audit_of ''entity.deleted'' ''AuditEntity'' i (Entity_Row before) No_Snapshot []))))"

section \<open>Processes\<close>

record process_query =
  pq_page :: page_query
  pq_entity :: "uuid option"
  pq_key :: "bool option"
  pq_text :: "string option"

definition list_processes ::
  "actor \<Rightarrow> (business_process list \<Rightarrow> business_process list) \<Rightarrow> process_query \<Rightarrow> business_process page op" where
  "list_processes ac order q = gets_h (\<lambda>s. paginate (pq_page q) (order (many_in ac (\<lambda>p.
     bp_deleted_at p = None \<and> opt_eq (pq_entity q) (bp_entity p) \<and> opt_eq (pq_key q) (bp_key p) \<and>
     opt_contains (pq_text q) [bp_name p, bp_code p]) (db_processes s))))"

text \<open>The constraint \<open>@@unique([tenantId, code])\<close> of processes.\<close>

definition process_code_unique :: "actor \<Rightarrow> string \<Rightarrow> uuid option \<Rightarrow> unit op" where
  "process_code_unique ac code i = check_state_h (\<lambda>s. count_in ac (\<lambda>p. bp_code p = code \<and> Some (r_id p) \<noteq> i)
     (db_processes s) = 0) UniqueViolation"

record create_process_dto =
  cb_entity :: uuid
  cb_code :: string
  cb_name :: string
  cb_description :: "string option"
  cb_owner :: "uuid option"
  cb_category :: "string option"
  cb_key :: "bool option"

definition create_process :: "actor \<Rightarrow> env \<Rightarrow> create_process_dto \<Rightarrow> business_process op" where
  "create_process ac env dto =
     then_h (assert_entity ac (cb_entity dto))
    (then_h (process_code_unique ac (cb_code dto) None)
    (bind_h (create_h (\<lambda>s.
        \<lparr> r_id = db_next s, r_tenant = ac_tenant ac, r_created = env_now env, bp_entity = cb_entity dto,
          bp_code = cb_code dto, bp_name = cb_name dto, bp_description = cb_description dto,
          bp_owner = cb_owner dto, bp_category = cb_category dto, bp_key = coalesce (cb_key dto) False,
          bp_deleted_at = None \<rparr>)
        (\<lambda>p s. s\<lparr> db_processes := insert_row p (db_processes s), db_next := db_next s + 1 \<rparr>)) (\<lambda>p.
     then_h (audit_record ac env (audit_of ''process.created'' ''Process'' (r_id p) No_Snapshot (Process_Row p) []))
     (return_h p))))"

record update_process_dto =
  ub_entity :: "uuid option"
  ub_code :: "string option"
  ub_name :: "string option"
  ub_description :: "string option"
  ub_owner :: "uuid field"
  ub_category :: "string option"
  ub_key :: "bool option"

definition patch_process :: "update_process_dto \<Rightarrow> business_process \<Rightarrow> business_process" where
  "patch_process dto p =
     p\<lparr> bp_entity := patch (ub_entity dto) (bp_entity p), bp_code := patch (ub_code dto) (bp_code p),
        bp_name := patch (ub_name dto) (bp_name p),
        bp_description := (case ub_description dto of None \<Rightarrow> bp_description p | Some d \<Rightarrow> Some d),
        bp_owner := patch_nullable (ub_owner dto) (bp_owner p),
        bp_category := (case ub_category dto of None \<Rightarrow> bp_category p | Some c \<Rightarrow> Some c),
        bp_key := patch (ub_key dto) (bp_key p) \<rparr>"

definition update_process :: "actor \<Rightarrow> env \<Rightarrow> uuid \<Rightarrow> update_process_dto \<Rightarrow> business_process op" where
  "update_process ac env i dto =
     bind_h (demand_h (\<lambda>s. first_in ac (\<lambda>p. has_id i p \<and> bp_deleted_at p = None) (db_processes s))
               (NotFound ''Process not found'')) (\<lambda>before.
     then_h (case ub_entity dto of None \<Rightarrow> return_h () | Some e \<Rightarrow> then_h (assert_entity ac e) (return_h ()))
    (let after = patch_process dto before in
     then_h (process_code_unique ac (bp_code after) (Some i))
    (then_h (modify_h (\<lambda>s. s\<lparr> db_processes := update_in ac (has_id i) (patch_process dto) (db_processes s) \<rparr>))
    (then_h (audit_record ac env (audit_of ''process.updated'' ''Process'' i (Process_Row before) (Process_Row after) []))
     (return_h after)))))"

section \<open>Coverage\<close>

record coverage_report =
  cv_total :: nat
  cv_last_12 :: nat
  cv_last_36 :: nat
  cv_never :: nat
  cv_by_type :: "(entity_type \<times> nat \<times> nat) list"

definition live_entity :: "audit_entity \<Rightarrow> bool" where
  "live_entity e \<longleftrightarrow> ae_deleted_at e = None \<and> ae_active e"

definition audited_since :: "db \<Rightarrow> time \<Rightarrow> audit_entity \<Rightarrow> bool" where
  "audited_since s since e \<longleftrightarrow> live_entity e \<and>
     ((case ae_last_audit e of None \<Rightarrow> False | Some d \<Rightarrow> since \<le> d) \<or>
      list_ex (\<lambda>g. e_entity g = Some (r_id e) \<and> e_deleted_at g = None \<and>
        (case e_report_issued g of None \<Rightarrow> False | Some d \<Rightarrow> since \<le> d)) (db_engagements s))"

definition never_audited :: "db \<Rightarrow> audit_entity \<Rightarrow> bool" where
  "never_audited s e \<longleftrightarrow> live_entity e \<and> ae_last_audit e = None \<and>
     \<not> list_ex (\<lambda>g. e_entity g = Some (r_id e) \<and> e_deleted_at g = None \<and> e_report_issued g \<noteq> None) (db_engagements s)"

text \<open>\<open>groupBy\<close> with a count: one entry for each type that occurs, in an order the database chooses.\<close>

definition count_by_type :: "(entity_type list \<Rightarrow> entity_type list) \<Rightarrow> audit_entity list \<Rightarrow> (entity_type \<times> nat) list" where
  "count_by_type order rows =
     map (\<lambda>k. (k, length (filter (\<lambda>e. ae_type e = k) rows))) (order (remdups (map ae_type rows)))"

definition coverage :: "actor \<Rightarrow> env \<Rightarrow> (entity_type list \<Rightarrow> entity_type list) \<Rightarrow> coverage_report op" where
  "coverage ac env order = gets_h (\<lambda>s.
     let m12 = add_months (env_now env) (- 12); m36 = add_months (env_now env) (- 36);
         covered = map_of (count_by_type order (many_in ac (audited_since s m36) (db_entities s)))
     in \<lparr> cv_total = count_in ac live_entity (db_entities s),
          cv_last_12 = count_in ac (audited_since s m12) (db_entities s),
          cv_last_36 = count_in ac (audited_since s m36) (db_entities s),
          cv_never = count_in ac (never_audited s) (db_entities s),
          cv_by_type = map (\<lambda>(k, n). (k, n, coalesce (covered k) 0))
            (count_by_type order (many_in ac live_entity (db_entities s))) \<rparr>)"

section \<open>Confinement\<close>

lemma assert_entity_reads [intro]: "reads (assert_entity ac i)"
  and entity_code_unique_reads [intro]: "reads (entity_code_unique ac code j)"
  and process_code_unique_reads [intro]: "reads (process_code_unique ac code j)"
  unfolding assert_entity_def entity_code_unique_def process_code_unique_def by (intro reads_intros)+

lemma check_move_reads [intro]: "reads (check_move ac i p)"
  unfolding check_move_def by (intro reads_intros assert_entity_reads)

lemma move_check_reads [intro]: "reads (case f of Value p \<Rightarrow> check_move ac i p | _ \<Rightarrow> return_h ())"
  by (cases f) auto

lemma parent_check_reads [intro]:
  "reads (case v of None \<Rightarrow> return_h () | Some p \<Rightarrow> then_h (assert_entity ac p) (return_h ()))"
  by (intro reads_intros assert_entity_reads)

lemma universe_rows [simp]:
  "r_id (patch_entity udto e) = r_id e" "r_tenant (patch_entity udto e) = r_tenant e"
  "r_id (deleted_entity now e) = r_id e" "r_tenant (deleted_entity now e) = r_tenant e"
  "ae_parent (deleted_entity now e) = ae_parent e" "r_tenant (patch_process pdto p) = r_tenant p"
  "r_id (new_entity ac env cdto s) = db_next s" "r_tenant (new_entity ac env cdto s) = ac_tenant ac"
  "ae_parent (new_entity ac env cdto s) = cy_parent cdto"
  by (simp_all add: patch_entity_def deleted_entity_def patch_process_def new_entity_def)

lemma update_entity_row_confined:
  "(\<And>x. r_tenant (g x) = r_tenant x) \<Longrightarrow> same_outside (ac_tenant ac) s (update_entity_row ac i g s)"
  "audit_grows s (update_entity_row ac i g s)"
  by (simp_all add: update_entity_row_def confined_writes)

lemmas universe_confined = confinement.keeps_reads [OF assert_entity_reads]
  confinement.keeps_reads [OF entity_code_unique_reads] confinement.keeps_reads [OF process_code_unique_reads]
  confinement.keeps_reads [OF move_check_reads] confinement.keeps_reads [OF parent_check_reads]
  update_entity_row_confined

lemma entities_confined:
  "keeps (confined (ac_tenant ac)) (create_entity ac env cdto)"
  "keeps (confined (ac_tenant ac)) (update_entity ac env i udto)"
  "keeps (confined (ac_tenant ac)) (delete_entity ac env i)"
  unfolding create_entity_def update_entity_def delete_entity_def
  by (intro universe_confined confined_steps; simp add: insert_entity_def confined_writes)+

lemma processes_confined:
  "keeps (confined (ac_tenant ac)) (create_process ac env pdto)"
  "keeps (confined (ac_tenant ac)) (update_process ac env i qdto)"
  unfolding create_process_def update_process_def
  by (intro universe_confined confined_steps; simp add: confined_writes)+

end
