(* ===== verification/Universe_Life.thy ===== *)
theory Universe_Life
  imports Universe Samples
begin

text \<open>
  The hierarchy of the audit universe: the tree builder returns on every table, even on one with
  cycles, and lists exactly the entities below a root, each once; a move keeps the hierarchy free of
  cycles as long as it has at most 64 levels, and a deeper one can be turned into a cycle.
\<close>

section \<open>Sorting and collecting\<close>

lemma insert_node_set: "set (insert_node leq x ys) = insert x (set ys)"
  by (induction ys) auto

lemma insert_node_distinct: "distinct (insert_node leq x ys) \<longleftrightarrow> x \<notin> set ys \<and> distinct ys"
  by (induction ys) (auto simp: insert_node_set)

lemma sort_nodes_set [simp]: "set (sort_nodes leq rows) = set rows"
  by (induction rows) (simp_all add: sort_nodes_def insert_node_set)

lemma sort_nodes_distinct [simp]: "distinct (sort_nodes leq rows) = distinct rows"
proof (induction rows)
  case (Cons r rows)
  have "sort_nodes leq (r # rows) = insert_node leq r (sort_nodes leq rows)" by (simp add: sort_nodes_def)
  then show ?case using Cons by (simp add: insert_node_distinct)
qed (simp add: sort_nodes_def)

lemma all_some_SomeD: "all_some xs = Some ys \<Longrightarrow> xs = map Some ys"
  by (induction xs arbitrary: ys) (auto split: option.splits)

lemma all_some_map: "(\<And>x. x \<in> set xs \<Longrightarrow> f x \<noteq> None) \<Longrightarrow> \<exists>ys. all_some (map f xs) = Some ys"
proof (induction xs)
  case (Cons x xs)
  then obtain ys where ys: "all_some (map f xs) = Some ys" by auto
  obtain y where "f x = Some y" using Cons.prems [of x] by auto
  with ys show ?case by simp
qed simp

section \<open>Chains from a root\<close>

text \<open>A path of rows from a root downwards.\<close>

fun descends :: "audit_entity list \<Rightarrow> bool" where
  "descends (r # c # p) \<longleftrightarrow> ae_parent c = Some (r_id r) \<and> descends (c # p)"
| "descends p \<longleftrightarrow> True"

definition chain :: "audit_entity list \<Rightarrow> audit_entity list \<Rightarrow> bool" where
  "chain rows p \<longleftrightarrow> p \<noteq> [] \<and> set p \<subseteq> set rows \<and> hd p \<in> set (root_rows rows) \<and> descends p"

lemma descends_snoc: "descends (p @ [r, c]) \<longleftrightarrow> descends (p @ [r]) \<and> ae_parent c = Some (r_id r)"
proof (induction p)
  case (Cons x p)
  then show ?case by (cases p) auto
qed simp

lemma chain_snoc:
  "chain rows (p @ [r, c]) \<longleftrightarrow> chain rows (p @ [r]) \<and> c \<in> set (child_rows rows r)"
  by (cases p) (auto simp: chain_def descends_snoc [of "_ # _", simplified] descends_snoc child_rows_def)

lemma chain_parent:
  assumes "chain rows (p @ [r, c])"
  shows "r \<in> set rows" "c \<in> set rows" "ae_parent c = Some (r_id r)" "chain rows (p @ [r])"
  using assms unfolding chain_snoc by (auto simp: child_rows_def) (simp add: chain_def)

lemma chain_root: "chain rows [r] \<longleftrightarrow> r \<in> set (root_rows rows)"
  by (auto simp: chain_def root_rows_def)

lemma parent_row_iff:
  assumes "distinct (map r_id rows)"
  shows "parent_row rows c = Some r \<longleftrightarrow> r \<in> set rows \<and> ae_parent c = Some (r_id r)"
proof
  assume "parent_row rows c = Some r"
  then show "r \<in> set rows \<and> ae_parent c = Some (r_id r)"
    by (auto simp: parent_row_def has_id_def split: option.splits dest: find_first_Some)
next
  assume r: "r \<in> set rows \<and> ae_parent c = Some (r_id r)"
  then obtain q where q: "find_first (has_id (r_id r)) rows = Some q"
    by (metis find_first_None_iff has_id_def not_Some_eq)
  then have "q \<in> set rows" "r_id q = r_id r" by (auto simp: has_id_def dest: find_first_Some)
  then have "q = r" using assms r by (metis (no_types, lifting) distinct_map inj_onD)
  then show "parent_row rows c = Some r" using q r by (simp add: parent_row_def)
qed

text \<open>A row has one chain at most.\<close>

lemma chain_unique:
  assumes "distinct (map r_id rows)" "chain rows p" "chain rows q" "last p = last q"
  shows "p = q"
  using assms(2-4)
proof (induction p arbitrary: q rule: rev_induct)
  case (snoc x p)
  have split: "\<exists>r' q'. q = q' @ [r', x]" if "q \<noteq> [x]" "chain rows q" "last q = x" for q
    using that by (cases q rule: rev_cases; cases "butlast q" rule: rev_cases) (auto simp: chain_def)
  have root: "x \<in> set (root_rows rows) \<Longrightarrow> \<not> chain rows (q' @ [r', x])" for q' r'
  proof
    assume x: "x \<in> set (root_rows rows)" and c: "chain rows (q' @ [r', x])"
    from chain_parent [OF c] have "parent_row rows x = Some r'" by (simp add: parent_row_iff [OF assms(1)])
    then show False using x by (simp add: root_rows_def)
  qed
  have l: "last q = x" using snoc.prems(3) by simp
  show ?case
  proof (cases p rule: rev_cases)
    case Nil
    then have "x \<in> set (root_rows rows)" using snoc.prems(1) by (simp add: chain_root)
    then have "q = [x]" using split [OF _ snoc.prems(2) l] root snoc.prems(2) by blast
    then show ?thesis using Nil by simp
  next
    case (snoc p' r)
    have pc: "chain rows (p' @ [r, x])" using snoc.prems(1) snoc by simp
    have "q \<noteq> [x]" using root pc snoc.prems(2) by (auto simp: chain_root)
    then obtain r' q' where q: "q = q' @ [r', x]" using split snoc.prems(2) l by blast
    have "parent_row rows x = Some r" "parent_row rows x = Some r'"
      using chain_parent [OF pc] chain_parent [OF snoc.prems(2) [unfolded q]]
      by (simp_all add: parent_row_iff [OF assms(1)])
    then have "r = r'" by simp
    moreover have "chain rows (q' @ [r'])" "chain rows (p' @ [r])" using snoc.prems(2) pc q by (simp_all add: chain_snoc)
    ultimately have "p = q' @ [r']" using snoc.IH [of "q' @ [r']"] snoc by simp
    then show ?thesis using q by simp
  qed
qed (simp add: chain_def)

lemma chain_distinct:
  assumes "distinct (map r_id rows)" "chain rows p"
  shows "distinct p"
proof -
  have "chain rows (take (Suc i) p)" if "i < length p" for i
    using that
  proof (induction "length p - Suc i" arbitrary: i)
    case 0
    then show ?case using assms(2) by simp
  next
    case (Suc k)
    then have i: "Suc i < length p" "k = length p - Suc (Suc i)" by simp_all
    have "chain rows (take (Suc (Suc i)) p)" using Suc(1) [OF i(2) i(1)] .
    moreover have "take (Suc (Suc i)) p = take i p @ [p ! i, p ! Suc i]"
      using i(1) by (simp add: take_Suc_conv_app_nth)
    ultimately have "chain rows (take i p @ [p ! i])" using chain_parent(4) by metis
    then show ?case using i(1) by (simp add: take_Suc_conv_app_nth)
  qed
  then have c: "chain rows (take i p @ [p ! i])" if "i < length p" for i
    using that by (simp add: take_Suc_conv_app_nth)
  have "p ! i \<noteq> p ! j" if "i < length p" "j < length p" "i \<noteq> j" for i j
  proof
    assume "p ! i = p ! j"
    then have "take i p @ [p ! i] = take j p @ [p ! j]"
      by (intro chain_unique [OF assms(1) c [OF that(1)] c [OF that(2)]]) simp
    then have "length (take i p) = length (take j p)" by (metis length_append_singleton nat.inject)
    then show False using that by simp
  qed
  then show ?thesis by (simp add: distinct_conv_nth)
qed

lemma chain_short:
  assumes "distinct (map r_id rows)" "chain rows p"
  shows "length p \<le> length rows"
proof -
  have "length p = card (set p)" using chain_distinct [OF assms] by (simp add: distinct_card)
  also have "\<dots> \<le> card (set rows)" using assms(2) by (intro card_mono) (auto simp: chain_def)
  finally show ?thesis using card_length [of rows] by linarith
qed

section \<open>The tree\<close>

fun node_rows :: "entity_node \<Rightarrow> audit_entity list" where
  "node_rows (Entity_Node r ns) = r # concat (map node_rows ns)"

lemma entity_tree_exists:
  assumes "distinct (map r_id rows)"
  shows "chain rows (p @ [r]) \<Longrightarrow> length rows < n + length (p @ [r]) \<Longrightarrow> \<exists>t. entity_tree n leq rows r = Some t"
proof (induction n arbitrary: p r)
  case 0
  then show ?case using chain_short [OF assms 0(1)] by simp
next
  case (Suc n)
  have "entity_tree n leq rows c \<noteq> None" if "c \<in> set (sort_nodes leq (child_rows rows r))" for c
  proof -
    have "chain rows ((p @ [r]) @ [c])" using that Suc.prems(1) by (simp add: chain_snoc)
    then show ?thesis using Suc.IH [of "p @ [r]" c] Suc.prems(2) by simp
  qed
  then show ?case using all_some_map [of "sort_nodes leq (child_rows rows r)" "entity_tree n leq rows"] by auto
qed

lemma set_nth: "set xs = (!) xs ` {..<length xs}"
  by (auto simp: in_set_conv_nth)

lemma node_rows_set: "set (node_rows (Entity_Node r ts)) = insert r (\<Union>k < length ts. set (node_rows (ts ! k)))"
  by (simp add: set_nth [of ts])

lemma distinct_concat_nth:
  assumes "\<And>k. k < length xs \<Longrightarrow> distinct (xs ! k)" "\<And>k. k < length xs \<Longrightarrow> xs ! k \<noteq> []"
    and "\<And>k l. k < length xs \<Longrightarrow> l < length xs \<Longrightarrow> k \<noteq> l \<Longrightarrow> set (xs ! k) \<inter> set (xs ! l) = {}"
  shows "distinct (concat xs)"
proof (rule distinct_concat)
  have "xs ! k \<noteq> xs ! l" if "k < length xs" "l < length xs" "k \<noteq> l" for k l
    using assms(3) [OF that] assms(2) [OF that(1)] by auto
  then show "distinct xs" by (simp add: distinct_conv_nth)
  show "distinct ys" if "ys \<in> set xs" for ys using that assms(1) by (auto simp: in_set_conv_nth)
  show "set ys \<inter> set zs = {}" if "ys \<in> set xs" "zs \<in> set xs" "ys \<noteq> zs" for ys zs
    using that assms(3) by (metis in_set_conv_nth)
qed

text \<open>The rows of a subtree are those with a chain through its root.\<close>

lemma node_rows_chain:
  assumes "distinct (map r_id rows)" "distinct rows"
  shows "entity_tree n leq rows r = Some t \<Longrightarrow> chain rows (p @ [r]) \<Longrightarrow>
    set (node_rows t) = {x. \<exists>q. chain rows (p @ r # q) \<and> last (r # q) = x} \<and> distinct (node_rows t)"
proof (induction n arbitrary: p r t)
  case (Suc n)
  let ?cs = "sort_nodes leq (child_rows rows r)"
  obtain ts where ts: "map (entity_tree n leq rows) ?cs = map Some ts" "t = Entity_Node r ts"
    using Suc.prems(1) by (auto dest: all_some_SomeD)
  have len: "length ts = length ?cs" using ts(1) by (metis length_map)
  have sub: "entity_tree n leq rows (?cs ! k) = Some (ts ! k)" if "k < length ts" for k
    using arg_cong [OF ts(1), of "\<lambda>xs. xs ! k"] that len by simp
  have ch: "chain rows ((p @ [r]) @ [?cs ! k])" if "k < length ts" for k
  proof -
    have "?cs ! k \<in> set (child_rows rows r)" using that len by (metis nth_mem sort_nodes_set)
    then show ?thesis using Suc.prems(2) by (simp add: chain_snoc)
  qed
  have ih: "set (node_rows (ts ! k)) = {x. \<exists>q. chain rows ((p @ [r]) @ ?cs ! k # q) \<and> last (?cs ! k # q) = x}"
      "distinct (node_rows (ts ! k))" if "k < length ts" for k
    using Suc.IH [OF sub [OF that] ch [OF that]] by simp_all
  have kid: "\<exists>k < length ts. c = ?cs ! k" if "chain rows (p @ r # c # q)" for c q
  proof -
    have "descends (p @ r # c # q) \<Longrightarrow> ae_parent c = Some (r_id r)"
      by (induction p rule: descends.induct) auto
    then have "c \<in> set (child_rows rows r)" using that by (auto simp: chain_def child_rows_def)
    then show ?thesis using len by (metis in_set_conv_nth sort_nodes_set)
  qed
  have "set (node_rows t) = {x. \<exists>q. chain rows (p @ r # q) \<and> last (r # q) = x}"
  proof (intro equalityI subsetI)
    fix x
    assume "x \<in> set (node_rows t)"
    then consider "x = r" | k where "k < length ts" "x \<in> set (node_rows (ts ! k))"
      unfolding ts(2) node_rows_set by blast
    then show "x \<in> {x. \<exists>q. chain rows (p @ r # q) \<and> last (r # q) = x}"
    proof cases
      case 1
      then show ?thesis using Suc.prems(2) by (auto intro: exI [of _ "[]"])
    next
      case (2 k)
      then obtain q where "chain rows ((p @ [r]) @ ?cs ! k # q)" "last (?cs ! k # q) = x" using ih(1) [OF 2(1)] by blast
      then have "chain rows (p @ r # (?cs ! k # q)) \<and> last (r # (?cs ! k # q)) = x" by simp
      then show ?thesis by blast
    qed
  next
    fix x
    assume "x \<in> {x. \<exists>q. chain rows (p @ r # q) \<and> last (r # q) = x}"
    then obtain q where q: "chain rows (p @ r # q)" "last (r # q) = x" by blast
    show "x \<in> set (node_rows t)"
    proof (cases q)
      case Nil
      then show ?thesis using q by (simp add: ts(2))
    next
      case (Cons c q')
      then obtain k where k: "k < length ts" "c = ?cs ! k" using kid q(1) by blast
      have "chain rows ((p @ [r]) @ c # q')" "last (c # q') = x" using q Cons by simp_all
      then have "x \<in> set (node_rows (ts ! k))" unfolding ih(1) [OF k(1)] k(2) by blast
      then show ?thesis using k(1) unfolding ts(2) node_rows_set by blast
    qed
  qed
  moreover have "r \<notin> set (node_rows (ts ! k))" if k: "k < length ts" for k
  proof
    assume "r \<in> set (node_rows (ts ! k))"
    then obtain q where q: "chain rows ((p @ [r]) @ ?cs ! k # q)" "last (?cs ! k # q) = r" using ih(1) [OF k] by blast
    then have "p @ [r] = (p @ [r]) @ ?cs ! k # q"
      by (intro chain_unique [OF assms(1) Suc.prems(2) q(1)]) simp
    then show False by simp
  qed
  moreover have dis: "set (node_rows (ts ! k)) \<inter> set (node_rows (ts ! l)) = {}"
    if k: "k < length ts" and l: "l < length ts" and "k \<noteq> l" for k l
  proof (rule ccontr)
    assume "set (node_rows (ts ! k)) \<inter> set (node_rows (ts ! l)) \<noteq> {}"
    then obtain x where "x \<in> set (node_rows (ts ! k))" "x \<in> set (node_rows (ts ! l))" by blast
    then obtain q q' where q: "chain rows ((p @ [r]) @ ?cs ! k # q)" "last (?cs ! k # q) = x"
        and q': "chain rows ((p @ [r]) @ ?cs ! l # q')" "last (?cs ! l # q') = x"
      using ih(1) [OF k] ih(1) [OF l] by blast
    then have "(p @ [r]) @ ?cs ! k # q = (p @ [r]) @ ?cs ! l # q'"
      by (intro chain_unique [OF assms(1) q(1) q'(1)]) simp
    then have "?cs ! k = ?cs ! l" by simp
    moreover have "distinct ?cs" using assms(2) by (simp add: child_rows_def)
    ultimately show False using that len by (simp add: nth_eq_iff_index_eq)
  qed
  moreover have "distinct (concat (map node_rows ts))"
  proof (rule distinct_concat_nth)
    show "map node_rows ts ! k \<noteq> []" if "k < length (map node_rows ts)" for k
      using that by (cases "ts ! k") simp
  qed (use ih(2) dis in simp_all)
  ultimately show ?case unfolding ts(2) node_rows_set by (simp add: set_nth [of ts])
qed simp

text \<open>The entities that hang below a root.\<close>

definition rooted :: "audit_entity list \<Rightarrow> audit_entity \<Rightarrow> bool" where
  "rooted rows x \<longleftrightarrow> (\<exists>p. chain rows (p @ [x]))"

lemma rooted_via_root: "rooted rows x \<longleftrightarrow> (\<exists>r \<in> set (root_rows rows). \<exists>q. chain rows (r # q) \<and> last (r # q) = x)"
proof
  assume "rooted rows x"
  then obtain p where p: "chain rows (p @ [x])" by (auto simp: rooted_def)
  then obtain r q where rq: "p @ [x] = r # q" by (cases p) auto
  then have "r \<in> set (root_rows rows)" using p by (auto simp: chain_def)
  moreover have "last (r # q) = x" using rq by (metis last_snoc)
  ultimately show "\<exists>r \<in> set (root_rows rows). \<exists>q. chain rows (r # q) \<and> last (r # q) = x" using p rq by metis
next
  assume "\<exists>r \<in> set (root_rows rows). \<exists>q. chain rows (r # q) \<and> last (r # q) = x"
  then obtain r q where "chain rows (r # q)" "last (r # q) = x" by blast
  then have "chain rows (butlast (r # q) @ [x])" by (metis append_butlast_last_id list.distinct(1))
  then show "rooted rows x" unfolding rooted_def by blast
qed

lemma build_entity_tree_run:
  assumes "distinct (map r_id rows)" "length rows \<le> n"
  shows "\<exists>ts. build_entity_tree n leq rows = Some ts \<and> distinct (concat (map node_rows ts)) \<and>
    set (concat (map node_rows ts)) = {x. rooted rows x}"
proof -
  let ?rs = "sort_nodes leq (root_rows rows)"
  have d: "distinct rows" using assms(1) by (rule distinct_map [THEN iffD1, THEN conjunct1])
  have len0: "n = 0 \<Longrightarrow> ?rs = []" using assms(2) by (simp add: root_rows_def sort_nodes_def)
  have ex: "entity_tree n leq rows r \<noteq> None" if "r \<in> set ?rs" for r
  proof -
    have "chain rows ([] @ [r])" using that by (simp add: chain_root)
    moreover have "length rows < n + length ([] @ [r])" using assms(2) by simp
    ultimately show ?thesis using entity_tree_exists [OF assms(1)] by blast
  qed
  then obtain ts where b: "all_some (map (entity_tree n leq rows) ?rs) = Some ts"
    using all_some_map [of ?rs "entity_tree n leq rows"] by blast
  then have m: "map (entity_tree n leq rows) ?rs = map Some ts" by (rule all_some_SomeD)
  then have len: "length ts = length ?rs" by (metis length_map)
  have sub: "entity_tree n leq rows (?rs ! k) = Some (ts ! k)" if "k < length ts" for k
    using arg_cong [OF m, of "\<lambda>xs. xs ! k"] that len by simp
  have ch: "chain rows ([] @ [?rs ! k])" if "k < length ts" for k
    using that len nth_mem [of k ?rs] by (simp add: chain_root)
  have rows: "set (node_rows (ts ! k)) = {x. \<exists>q. chain rows (?rs ! k # q) \<and> last (?rs ! k # q) = x}"
      "distinct (node_rows (ts ! k))" if "k < length ts" for k
    using node_rows_chain [OF assms(1) d sub [OF that] ch [OF that]] by simp_all
  have "distinct (concat (map node_rows ts))"
  proof (rule distinct_concat_nth)
    show "map node_rows ts ! k \<noteq> []" if "k < length (map node_rows ts)" for k
      using that by (cases "ts ! k") simp
    show "set (map node_rows ts ! k) \<inter> set (map node_rows ts ! l) = {}"
      if kl: "k < length (map node_rows ts)" "l < length (map node_rows ts)" "k \<noteq> l" for k l
    proof (rule ccontr)
      assume "set (map node_rows ts ! k) \<inter> set (map node_rows ts ! l) \<noteq> {}"
      then obtain x where "x \<in> set (node_rows (ts ! k))" "x \<in> set (node_rows (ts ! l))" using kl by auto
      then obtain q q' where q: "chain rows (?rs ! k # q)" "last (?rs ! k # q) = x"
          and q': "chain rows (?rs ! l # q')" "last (?rs ! l # q') = x"
        using rows(1) [of k] rows(1) [of l] kl by (simp only: length_map) blast
      then have "?rs ! k # q = ?rs ! l # q'" by (intro chain_unique [OF assms(1) q(1) q'(1)]) simp
      moreover have "distinct ?rs" using d by (simp add: root_rows_def)
      ultimately show False using kl len by (simp add: nth_eq_iff_index_eq)
    qed
  qed (use rows(2) in simp_all)
  moreover have "set (concat (map node_rows ts)) = {x. rooted rows x}"
  proof -
    have "set (concat (map node_rows ts)) = (\<Union>k < length ts. set (node_rows (ts ! k)))" by (simp add: set_nth [of ts])
    also have "\<dots> = (\<Union>k < length ?rs. {x. \<exists>q. chain rows (?rs ! k # q) \<and> last (?rs ! k # q) = x})"
      using rows(1) len by simp
    also have "\<dots> = {x. \<exists>r \<in> set ?rs. \<exists>q. chain rows (r # q) \<and> last (r # q) = x}"
      unfolding set_nth [of ?rs] by blast
    finally show ?thesis by (simp add: rooted_via_root)
  qed
  ultimately show ?thesis using b by (simp add: build_entity_tree_def)
qed

section \<open>The hierarchy\<close>

text \<open>The parent column as a relation from an entity to its parent.\<close>

definition parent_rel :: "audit_entity list \<Rightarrow> (uuid \<times> uuid) set" where
  "parent_rel t = {(r_id r, p) | r p. r \<in> set t \<and> ae_parent r = Some p}"

lemma parent_relI: "r \<in> set t \<Longrightarrow> ae_parent r = Some p \<Longrightarrow> (r_id r, p) \<in> parent_rel t"
  by (auto simp: parent_rel_def)

lemma finite_parent_rel: "finite (parent_rel t)"
proof -
  have "parent_rel t \<subseteq> (\<lambda>r. (r_id r, the (ae_parent r))) ` set t" by (force simp: parent_rel_def)
  then show ?thesis by (rule finite_subset) simp
qed

lemma acyclic_rooted:
  assumes "distinct (map r_id rows)" "acyclic (parent_rel rows)" "x \<in> set rows"
  shows "rooted rows x"
proof -
  have "wf ((parent_rel rows)\<inverse>)" using assms(2) finite_parent_rel
    by (simp add: finite_acyclic_wf acyclic_converse finite_converse)
  then have "\<forall>x \<in> set rows. r_id x = i \<longrightarrow> rooted rows x" for i
  proof (induction i rule: wf_induct_rule)
    case (less i)
    show ?case
    proof (intro ballI impI)
      fix x assume x: "x \<in> set rows" "r_id x = i"
      show "rooted rows x"
      proof (cases "parent_row rows x")
        case None
        then have "chain rows ([] @ [x])" using x by (simp add: chain_root root_rows_def)
        then show ?thesis unfolding rooted_def by blast
      next
        case (Some r)
        then have r: "r \<in> set rows" "ae_parent x = Some (r_id r)" by (simp_all add: parent_row_iff [OF assms(1)])
        then have "(r_id r, i) \<in> (parent_rel rows)\<inverse>" using x by (auto simp: parent_rel_def)
        then have "rooted rows r" using less.IH r(1) by blast
        then obtain p where "chain rows (p @ [r])" by (auto simp: rooted_def)
        then have "chain rows ((p @ [r]) @ [x])" using r x by (simp add: chain_snoc child_rows_def)
        then show ?thesis unfolding rooted_def by blast
      qed
    qed
  qed
  then show ?thesis using assms(3) by blast
qed

text \<open>
  C24. The tree builder returns on every table whose keys are distinct, whatever its parent column
  holds, cycles included: as many levels of recursion as there are rows are enough. The nodes of the
  result are the entities with a chain of parents up to a root, each once; without cycles these are
  all the entities, and those of a cycle are left out.
\<close>

theorem entity_tree_returns:
  assumes "distinct (map r_id rows)" "length rows \<le> n"
  shows "\<exists>ts. build_entity_tree n leq rows = Some ts \<and> distinct (concat (map node_rows ts)) \<and>
    set (concat (map node_rows ts)) = {x. rooted rows x} \<and>
    (acyclic (parent_rel rows) \<longrightarrow> set (concat (map node_rows ts)) = set rows)"
proof -
  have "rooted rows x \<Longrightarrow> x \<in> set rows" for x by (auto simp: rooted_def chain_def)
  then have "acyclic (parent_rel rows) \<Longrightarrow> {x. rooted rows x} = set rows"
    using acyclic_rooted [OF assms(1)] by blast
  then show ?thesis using build_entity_tree_run [OF assms, of leq] by auto
qed

definition entities_ok :: "db \<Rightarrow> bool" where
  "entities_ok s \<longleftrightarrow> table_ok (\<lambda>_. True) (db_next s) (db_entities s) \<and> acyclic (parent_rel (db_entities s)) \<and>
     (\<forall>r \<in> set (db_entities s). \<forall>p. ae_parent r = Some p \<longrightarrow>
        (\<exists>q \<in> set (db_entities s). r_id q = p \<and> r_tenant q = r_tenant r))"

lemma climb_complete:
  assumes d: "distinct (map r_id t)"
    and up: "\<forall>r \<in> set t. \<forall>p. ae_parent r = Some p \<longrightarrow> (\<exists>q \<in> set t. r_id q = p \<and> r_tenant q = r_tenant r)"
  shows "r \<in> set t \<Longrightarrow> mine ac r \<Longrightarrow> (r_id r, a) \<in> parent_rel t ^^ Suc k \<Longrightarrow> k < n \<Longrightarrow> climb ac t a n (Some (r_id r))"
proof (induction n arbitrary: r k)
  case (Suc n)
  have only: "q = r" if "q \<in> set t" "r_id q = r_id r" for q
    using d that Suc.prems(1) by (metis (no_types, lifting) distinct_map inj_onD)
  obtain q where q: "first_in ac (has_id (r_id r)) t = Some q"
    using Suc.prems(1,2) first_in_None_iff [of ac "has_id (r_id r)" t] by (cases "first_in ac (has_id (r_id r)) t") (auto simp: has_id_def)
  then have f: "first_in ac (has_id (r_id r)) t = Some r"
    using only first_in_Some [OF q] by (simp add: has_id_def)
  obtain p where p: "(r_id r, p) \<in> parent_rel t" "(p, a) \<in> parent_rel t ^^ k"
    using relpow_Suc_D2 [OF Suc.prems(3)] by blast
  then have pr: "ae_parent r = Some p" using only by (auto simp: parent_rel_def)
  show ?case
  proof (cases k)
    case 0
    then show ?thesis using p pr f by simp
  next
    case (Suc j)
    obtain q where q: "q \<in> set t" "r_id q = p" "r_tenant q = r_tenant r" using up pr Suc.prems(1) by blast
    then have "climb ac t a n (Some (r_id q))"
      using Suc.prems(2,4) p(2) Suc \<open>k < Suc n\<close> by (intro Suc.IH [of q j]) (simp_all add: mine_def)
    then show ?thesis using f pr q(2) by simp
  qed
qed simp

datatype universe_call =
    Create_Entity create_entity_dto
  | Update_Entity uuid update_entity_dto
  | Delete_Entity uuid
  | Create_Process create_process_dto
  | Update_Process uuid update_process_dto

fun call_universe :: "actor \<Rightarrow> env \<Rightarrow> universe_call \<Rightarrow> db \<Rightarrow> db" where
  "call_universe ac env (Create_Entity cdto) s = snd (create_entity ac env cdto s)"
| "call_universe ac env (Update_Entity i udto) s = snd (update_entity ac env i udto s)"
| "call_universe ac env (Delete_Entity i) s = snd (delete_entity ac env i s)"
| "call_universe ac env (Create_Process pdto) s = snd (create_process ac env pdto s)"
| "call_universe ac env (Update_Process i qdto) s = snd (update_process ac env i qdto s)"

lemma call_universe_confined: "confined (ac_tenant ac) s (call_universe ac env c s)"
proof -
  have k: "confined (ac_tenant ac) s (snd (m s))" if "keeps (confined (ac_tenant ac)) m" for m :: "'a op"
    using that by (simp add: keeps_def)
  show ?thesis
    using k [OF entities_confined(1)] k [OF entities_confined(2)] k [OF entities_confined(3)]
      k [OF processes_confined(1)] k [OF processes_confined(2)]
    by (cases c) simp_all
qed

lemma universe_tables [simp]:
  "db_entities (insert_entity e s) = db_entities s @ [e]" "db_next (insert_entity e s) = db_next s + 1"
  "db_entities (update_entity_row ac i g s) = update_in ac (has_id i) g (db_entities s)"
  "db_next (update_entity_row ac i g s) = db_next s"
  by (simp_all add: insert_entity_def insert_row_def update_entity_row_def)

lemma find_entity_Some: "find_entity ac i s = Some e \<Longrightarrow> e \<in> set (db_entities s) \<and> mine ac e \<and> r_id e = i"
  by (auto simp: find_entity_def has_id_def dest: first_in_Some)

lemma assert_entity_found: "assert_entity ac i s = (Inr e, s') \<Longrightarrow> find_entity ac i s = Some e"
  by (simp add: assert_entity_def ok_h)

lemma create_entity_run:
  assumes "create_entity ac env dto s = (x, s')"
  shows "db_entities s' = db_entities s \<or>
    (db_entities s' = db_entities s @ [new_entity ac env dto s] \<and> db_next s < db_next s' \<and>
     (\<forall>p. cy_parent dto = Some p \<longrightarrow> (\<exists>q. find_entity ac p s = Some q)))"
  using assms [unfolded create_entity_def] parent_check_reads
proof (cases rule: then_check_cases)
  case par: (2 u)
  have p: "\<forall>p. cy_parent dto = Some p \<longrightarrow> (\<exists>q. find_entity ac p s = Some q)"
    using par(1) by (auto simp: run_h assert_entity_def split: option.splits)
  from par(2) entity_code_unique_reads show ?thesis
  proof (cases rule: then_check_cases)
    case new: 2
    have "s' = audited ac env (audit_of ''entity.created'' ''AuditEntity'' (db_next s) No_Snapshot
        (Entity_Row (new_entity ac env dto s)) []) (insert_entity (new_entity ac env dto s) s)"
      using new(2) by (simp add: run_h)
    then have "db_entities s' = db_entities s @ [new_entity ac env dto s]" "db_next s < db_next s'"
      by (simp_all add: audited_def)
    then show ?thesis using p by blast
  qed simp
qed simp

lemma update_entity_run:
  assumes "update_entity ac env i dto s = (x, s')"
  shows "(s' = s \<and> \<not> is_ok x) \<or>
    (\<exists>e. find_entity ac i s = Some e \<and> db_entities s' = update_in ac (has_id i) (patch_entity dto) (db_entities s) \<and>
       (\<forall>p. uy_parent dto = Value p \<longrightarrow> p \<noteq> i \<and> (\<exists>q. find_entity ac p s = Some q) \<and> \<not> is_descendant ac p i s))"
  using assms [unfolded update_entity_def] assert_entity_reads
proof (cases rule: bind_check_cases)
  case (2 e)
  have e: "find_entity ac i s = Some e" by (rule assert_entity_found [OF 2(1)])
  from 2(2) move_check_reads show ?thesis
  proof (cases rule: then_check_cases)
    case mv: (2 u)
    have m: "\<forall>p. uy_parent dto = Value p \<longrightarrow> p \<noteq> i \<and> (\<exists>q. find_entity ac p s = Some q) \<and> \<not> is_descendant ac p i s"
      using mv(1) by (auto simp: run_h check_move_def assert_entity_def split: field.splits option.splits if_splits)
    show ?thesis
    proof (cases "fst (entity_code_unique ac (ae_code (patch_entity dto e)) (Some i) s)")
      case (Inl er)
      then have "s' = s \<and> \<not> is_ok x"
        using mv(2) by (auto simp: run_h Let_def entity_code_unique_def split: if_splits)
      then show ?thesis by blast
    next
      case (Inr y)
      then have "db_entities s' = update_in ac (has_id i) (patch_entity dto) (db_entities s)"
        using mv(2) by (auto simp: run_h Let_def entity_code_unique_def split: if_splits)
      then show ?thesis using e m by blast
    qed
  qed simp
qed simp

lemma delete_entity_run:
  assumes "delete_entity ac env i s = (x, s')"
  shows "db_entities s' = db_entities s \<or>
    db_entities s' = update_in ac (has_id i) (deleted_entity (env_now env)) (db_entities s)"
  using assms by (auto simp: delete_entity_def assert_entity_def run_h split: option.splits if_splits)

lemma process_tables:
  "db_entities (snd (create_process ac env pdto s)) = db_entities s"
  "db_entities (snd (update_process ac env i qdto s)) = db_entities s"
  by (auto simp: create_process_def update_process_def process_code_unique_def assert_entity_def run_h Let_def
      split: option.splits)

text \<open>Rewriting rows without touching keys, tenants or parents keeps the hierarchy.\<close>

lemma update_in_rows:
  assumes "\<And>r. r_id (g r) = r_id r" "\<And>r. r_tenant (g r) = r_tenant r" "q \<in> set t"
  shows "\<exists>q' \<in> set (update_in ac P g t). r_id q' = r_id q \<and> r_tenant q' = r_tenant q"
  using assms unfolding set_update_in by (cases "mine ac q \<and> P q") force+

lemma entities_ok_move:
  assumes ok: "entities_ok s" and tabs: "db_entities s' = update_in ac (has_id i) g (db_entities s)" "db_next s \<le> db_next s'"
    and g: "\<And>r. r_id (g r) = r_id r" "\<And>r. r_tenant (g r) = r_tenant r"
    and par: "\<And>r. ae_parent (g r) = ae_parent r \<or> ae_parent (g r) = w"
    and new: "\<And>p. w = Some p \<Longrightarrow> (\<exists>q \<in> set (db_entities s). mine ac q \<and> r_id q = p) \<and> (p, i) \<notin> (parent_rel (db_entities s))\<^sup>*"
  shows "entities_ok s'"
proof -
  let ?t = "db_entities s" and ?t' = "update_in ac (has_id i) g (db_entities s)"
  have ids: "map r_id ?t' = map r_id ?t" unfolding update_in_def using g(1) by (intro map_update_rows_id)
  then have img: "r_id ` set ?t' = r_id ` set ?t" by (metis list.set_map)
  have lt: "r_id r < db_next s'" if "r \<in> set ?t'" for r
  proof -
    have "r_id r \<in> r_id ` set ?t" using that unfolding img [symmetric] by (rule imageI)
    then obtain q where "q \<in> set ?t" "r_id q = r_id r" by auto
    moreover from this have "r_id q < db_next s" using ok unfolding entities_ok_def table_ok_def by blast
    ultimately show ?thesis using tabs(2) by linarith
  qed
  then have tab: "table_ok (\<lambda>_. True) (db_next s') ?t'"
    using ok ids by (simp add: entities_ok_def table_ok_def)
  have sub: "parent_rel ?t' \<subseteq> (case w of None \<Rightarrow> parent_rel ?t | Some p \<Rightarrow> insert (i, p) (parent_rel ?t))"
  proof
    fix x assume "x \<in> parent_rel ?t'"
    then obtain r p where r: "x = (r_id r, p)" "r \<in> set ?t'" "ae_parent r = Some p" by (auto simp: parent_rel_def)
    from r(2) show "x \<in> (case w of None \<Rightarrow> parent_rel ?t | Some p \<Rightarrow> insert (i, p) (parent_rel ?t))"
    proof (cases rule: update_in_cases)
      case (updated q)
      then have i: "r_id r = i" "r_id q = i" using g(1) by (simp_all add: has_id_def)
      show ?thesis
      proof (cases "ae_parent r = ae_parent q")
        case True
        then have "x \<in> parent_rel ?t" using parent_relI [of q ?t p] updated(1) i r by simp
        then show ?thesis by (cases w) auto
      next
        case False
        then have "w = Some p" using par [of q] updated r(3) by simp
        then show ?thesis using i r(1) by simp
      qed
    next
      case kept
      then have "x \<in> parent_rel ?t" using r by (auto simp: parent_rel_def)
      then show ?thesis by (cases w) auto
    qed
  qed
  have "acyclic (case w of None \<Rightarrow> parent_rel ?t | Some p \<Rightarrow> insert (i, p) (parent_rel ?t))"
    using ok new by (cases w) (auto simp: entities_ok_def acyclic_insert)
  then have ac: "acyclic (parent_rel ?t')" using sub by (rule acyclic_subset)
  have up: "\<exists>q \<in> set ?t'. r_id q = p \<and> r_tenant q = r_tenant r" if "r \<in> set ?t'" "ae_parent r = Some p" for r p
  proof -
    have "\<exists>q \<in> set ?t. r_id q = p \<and> r_tenant q = r_tenant r"
      using that(1)
    proof (cases rule: update_in_cases)
      case (updated q)
      then have q: "ae_parent q = Some p \<or> w = Some p" "r_tenant r = r_tenant q" "mine ac q"
        using par [of q] that(2) g(2) by auto
      then show ?thesis using ok updated(1) new unfolding entities_ok_def mine_def by metis
    next
      case kept
      then show ?thesis using ok that(2) unfolding entities_ok_def by blast
    qed
    then show ?thesis using update_in_rows [OF g, of _ ?t ac "has_id i"] by metis
  qed
  show ?thesis using tab ac up unfolding entities_ok_def tabs(1) by blast
qed

lemma entities_ok_insert:
  assumes ok: "entities_ok s" and tabs: "db_entities s' = db_entities s @ [e]" "r_id e = db_next s" "db_next s < db_next s'"
    and par: "\<And>p. ae_parent e = Some p \<Longrightarrow> \<exists>q \<in> set (db_entities s). r_id q = p \<and> r_tenant q = r_tenant e"
  shows "entities_ok s'"
proof -
  let ?t = "db_entities s"
  have lt: "r_id q < db_next s" if "q \<in> set ?t" for q using ok that by (auto simp: entities_ok_def table_ok_def)
  have "db_next s \<notin> r_id ` set ?t" "\<forall>r \<in> set ?t. r_id r < db_next s'"
    using lt tabs(3) by (metis imageE less_irrefl, metis order_less_trans)
  then have tab: "table_ok (\<lambda>_. True) (db_next s') (db_entities s')"
    using ok tabs(2,3) unfolding tabs(1) by (simp add: entities_ok_def table_ok_def)
  have "parent_rel (db_entities s') = (case ae_parent e of None \<Rightarrow> parent_rel ?t | Some p \<Rightarrow> insert (db_next s, p) (parent_rel ?t))"
  proof (cases "ae_parent e")
    case None
    then show ?thesis by (auto simp: parent_rel_def tabs(1))
  next
    case (Some p)
    have "parent_rel (?t @ [e]) = insert (r_id e, p) (parent_rel ?t)" using Some by (auto simp: parent_rel_def)
    then show ?thesis using Some tabs(1,2) by simp
  qed
  moreover have "(p, db_next s) \<notin> (parent_rel ?t)\<^sup>*" if p: "ae_parent e = Some p" for p
  proof
    assume "(p, db_next s) \<in> (parent_rel ?t)\<^sup>*"
    then show False
    proof (cases rule: rtranclE)
      case base
      obtain q where "q \<in> set ?t" "r_id q = p" using par [OF p] by blast
      then show ?thesis using lt [of q] base by simp
    next
      case (step y)
      then obtain r where "r \<in> set ?t" "ae_parent r = Some (db_next s)" by (auto simp: parent_rel_def)
      then obtain q where "q \<in> set ?t" "r_id q = db_next s" using ok unfolding entities_ok_def by blast
      then show ?thesis using lt [of q] by simp
    qed
  qed
  ultimately have "acyclic (parent_rel (db_entities s'))"
    using ok by (cases "ae_parent e") (auto simp: entities_ok_def acyclic_insert)
  moreover have "\<forall>r \<in> set (db_entities s'). \<forall>p. ae_parent r = Some p \<longrightarrow>
      (\<exists>q \<in> set (db_entities s'). r_id q = p \<and> r_tenant q = r_tenant r)"
    using ok par unfolding entities_ok_def tabs(1) by (simp add: ball_Un)
  ultimately show ?thesis using tab unfolding entities_ok_def by blast
qed

lemma shallow_not_descendant:
  assumes "entities_ok s" "parent_rel (db_entities s) ^^ 65 = {}" "q \<in> set (db_entities s)" "mine ac q"
    and "\<not> is_descendant ac (r_id q) i s" "r_id q \<noteq> i"
  shows "(r_id q, i) \<notin> (parent_rel (db_entities s))\<^sup>*"
proof
  let ?R = "parent_rel (db_entities s)"
  assume "(r_id q, i) \<in> ?R\<^sup>*"
  then obtain k where k: "(r_id q, i) \<in> ?R ^^ k" by (auto dest: rtrancl_imp_relpow)
  then obtain j where j: "k = Suc j" using assms(6) by (cases k) auto
  have "j < 64"
  proof (rule ccontr)
    assume "\<not> j < 64"
    then have "?R ^^ k = ?R ^^ 65 O ?R ^^ (k - 65)" using j by (simp flip: relpow_add)
    then show False using k assms(2) by simp
  qed
  then have "climb ac (db_entities s) i 64 (Some (r_id q))"
    using assms(1,3,4) k j by (intro climb_complete [where k = j]) (auto simp: entities_ok_def table_ok_def)
  then show False using assms(5) by (simp add: is_descendant_def)
qed

text \<open>
  C25. In a hierarchy of at most 64 levels below the top, the moves keep it a hierarchy: after any
  call to the universe's endpoints, by any user, the parents still form no cycle, every parent is an
  entity of the same tenant, and keys are unique. (An entity without parent is on level 0.)
\<close>

theorem moves_keep_hierarchy:
  assumes "entities_ok s" "parent_rel (db_entities s) ^^ 65 = {}"
  shows "entities_ok (call_universe ac env c s)"
proof (cases c)
  case (Create_Entity dto)
  obtain x s' where run: "create_entity ac env dto s = (x, s')" by (cases "create_entity ac env dto s")
  have le: "db_next s \<le> db_next s'"
    using confined_next [OF call_universe_confined [of ac s env c]] run Create_Entity by simp
  from create_entity_run [OF run] have "entities_ok s'"
  proof
    assume "db_entities s' = db_entities s"
    then show ?thesis using assms(1) le by (auto simp: entities_ok_def intro: table_ok_grow)
  next
    assume new: "db_entities s' = db_entities s @ [new_entity ac env dto s] \<and> db_next s < db_next s' \<and>
      (\<forall>p. cy_parent dto = Some p \<longrightarrow> (\<exists>q. find_entity ac p s = Some q))"
    show ?thesis
    proof (rule entities_ok_insert [OF assms(1), of _ "new_entity ac env dto s"])
      fix p assume "ae_parent (new_entity ac env dto s) = Some p"
      then obtain q where "find_entity ac p s = Some q" using new by auto
      then show "\<exists>q \<in> set (db_entities s). r_id q = p \<and> r_tenant q = r_tenant (new_entity ac env dto s)"
        using find_entity_Some [of ac p s q] by (auto simp: mine_def)
    qed (use new in simp_all)
  qed
  then show ?thesis using run Create_Entity by simp
next
  case (Update_Entity i dto)
  obtain x s' where run: "update_entity ac env i dto s = (x, s')" by (cases "update_entity ac env i dto s")
  have le: "db_next s \<le> db_next s'"
    using confined_next [OF call_universe_confined [of ac s env c]] run Update_Entity by simp
  from update_entity_run [OF run] have "entities_ok s'"
  proof
    assume u: "\<exists>e. find_entity ac i s = Some e \<and> db_entities s' = update_in ac (has_id i) (patch_entity dto) (db_entities s) \<and>
       (\<forall>p. uy_parent dto = Value p \<longrightarrow> p \<noteq> i \<and> (\<exists>q. find_entity ac p s = Some q) \<and> \<not> is_descendant ac p i s)"
    show ?thesis
    proof (rule entities_ok_move [OF assms(1) _ le, of ac i "patch_entity dto" "or_null (uy_parent dto)"])
      show "ae_parent (patch_entity dto r) = ae_parent r \<or> ae_parent (patch_entity dto r) = or_null (uy_parent dto)" for r
        by (cases "uy_parent dto") (simp_all add: patch_entity_def)
      fix p assume "or_null (uy_parent dto) = Some p"
      then have "uy_parent dto = Value p" by (cases "uy_parent dto") simp_all
      then obtain q where "p \<noteq> i" "find_entity ac p s = Some q" "\<not> is_descendant ac p i s" using u by blast
      then show "(\<exists>q \<in> set (db_entities s). mine ac q \<and> r_id q = p) \<and> (p, i) \<notin> (parent_rel (db_entities s))\<^sup>*"
        using shallow_not_descendant [OF assms, of q ac i] find_entity_Some [of ac p s q] by auto
    qed (use u in auto)
  qed (use assms(1) in simp)
  then show ?thesis using run Update_Entity by simp
next
  case (Delete_Entity i)
  obtain x s' where run: "delete_entity ac env i s = (x, s')" by (cases "delete_entity ac env i s")
  have le: "db_next s \<le> db_next s'"
    using confined_next [OF call_universe_confined [of ac s env c]] run Delete_Entity by simp
  from delete_entity_run [OF run] have "entities_ok s'"
  proof
    assume "db_entities s' = db_entities s"
    then show ?thesis using assms(1) le by (auto simp: entities_ok_def intro: table_ok_grow)
  next
    assume d: "db_entities s' = update_in ac (has_id i) (deleted_entity (env_now env)) (db_entities s)"
    show ?thesis by (rule entities_ok_move [OF assms(1) d le, of None]) simp_all
  qed
  then show ?thesis using run Delete_Entity by simp
next
  case (Create_Process dto)
  then show ?thesis using assms(1) confined_next [OF call_universe_confined [of ac s env c]]
    by (auto simp: entities_ok_def process_tables intro: table_ok_grow)
next
  case (Update_Process i dto)
  then show ?thesis using assms(1) confined_next [OF call_universe_confined [of ac s env c]]
    by (auto simp: entities_ok_def process_tables intro: table_ok_grow)
qed

section \<open>A hierarchy that is too deep\<close>

text \<open>A chain of entities: entity 1 is the root, and the parent of each other is its predecessor.\<close>

definition link_entity :: "nat \<Rightarrow> audit_entity" where
  "link_entity k =
     \<lparr> r_id = k, r_tenant = 1, r_created = 0, ae_parent = (if k = 1 then None else Some (k - 1)),
       ae_type = BUSINESS_UNIT, ae_code = show_nat k, ae_name = show_nat k, ae_description = None, ae_owner = None,
       ae_country = None, ae_objectives = [], ae_regulatory = JArr [], ae_rating = severity.MEDIUM,
       ae_last_audit = None, ae_next_audit = None, ae_frequency = None, ae_active = True, ae_metadata = JObj [],
       ae_deleted_at = None \<rparr>"

definition chain_db :: "nat \<Rightarrow> db" where
  "chain_db n = empty_db\<lparr> db_next := n + 1, db_entities := map link_entity [1..<n + 1] \<rparr>"

lemma link_entity_row [simp]:
  "r_id (link_entity k) = k" "r_tenant (link_entity k) = 1" "ae_deleted_at (link_entity k) = None"
  "ae_code (link_entity k) = show_nat k" "ae_parent (link_entity k) = (if k = 1 then None else Some (k - 1))"
  by (simp_all add: link_entity_def)

lemma chain_db_entities: "db_entities (chain_db n) = map link_entity [1..<n + 1]"
  and chain_db_next [simp]: "db_next (chain_db n) = n + 1"
  by (simp_all add: chain_db_def)

lemma chain_db_find:
  assumes "ac_tenant ac = 1" "1 \<le> k" "k \<le> n" "P (link_entity k)" "\<And>x. P x \<Longrightarrow> r_id x = k"
  shows "first_in ac P (db_entities (chain_db n)) = Some (link_entity k)"
proof -
  have "k \<in> set [1..<n + 1]" using assms(2,3) by auto
  then have "link_entity k \<in> set (db_entities (chain_db n))" "mine ac (link_entity k)"
    using assms(1) unfolding chain_db_entities set_map by (blast, simp add: mine_def)
  then have "first_in ac P (db_entities (chain_db n)) \<noteq> None" using assms(4) unfolding first_in_None_iff by blast
  then obtain q where q: "first_in ac P (db_entities (chain_db n)) = Some q" by blast
  then have "q \<in> set (db_entities (chain_db n))" "r_id q = k" using first_in_Some [OF q] assms(5) by auto
  then show ?thesis using q unfolding chain_db_entities by auto
qed

lemma chain_climb:
  assumes "ac_tenant ac = 1"
  shows "n + 1 < k \<Longrightarrow> k \<le> m \<Longrightarrow> \<not> climb ac (db_entities (chain_db m)) 1 n (Some k)"
proof (induction n arbitrary: k)
  case (Suc n)
  have "first_in ac (has_id k) (db_entities (chain_db m)) = Some (link_entity k)"
    using Suc.prems by (intro chain_db_find [OF assms]) (simp_all add: has_id_def)
  then show ?case using Suc.IH [of "k - 1"] Suc.prems by simp
qed simp

definition move_to :: "uuid \<Rightarrow> update_entity_dto" where
  "move_to p = \<lparr> uy_parent = Value p, uy_type = None, uy_code = None, uy_name = None, uy_description = None,
     uy_owner = Undefined, uy_country = None, uy_objectives = None, uy_regulatory = None, uy_rating = None,
     uy_last = Undefined, uy_next = Undefined, uy_frequency = Undefined, uy_metadata = None, uy_active = None \<rparr>"

lemma chain_db_row: "r \<in> set (db_entities (chain_db n)) \<longleftrightarrow> (\<exists>k. 1 \<le> k \<and> k \<le> n \<and> r = link_entity k)"
  unfolding chain_db_entities set_map set_upt by (auto simp: image_iff Bex_def)

lemma chain_rel: "parent_rel (db_entities (chain_db n)) = {(k, k - 1) | k. 1 < k \<and> k \<le> n}"
proof (intro equalityI subsetI)
  fix x assume "x \<in> parent_rel (db_entities (chain_db n))"
  then obtain k p where "1 \<le> k" "k \<le> n" "x = (k, p)" "ae_parent (link_entity k) = Some p"
    unfolding parent_rel_def chain_db_row by auto
  then show "x \<in> {(k, k - 1) | k. 1 < k \<and> k \<le> n}" by (auto split: if_splits)
next
  fix x assume "x \<in> {(k, k - 1) | k. 1 < k \<and> k \<le> n}"
  then obtain k where k: "1 < k" "k \<le> n" "x = (k, k - 1)" by blast
  then have "link_entity k \<in> set (db_entities (chain_db n))" unfolding chain_db_row by (intro exI [of _ k]) simp
  then show "x \<in> parent_rel (db_entities (chain_db n))" using parent_relI [of "link_entity k" _ "k - 1"] k by simp
qed

lemma chain_db_ok: "entities_ok (chain_db n)"
proof -
  have "acyclic (less_than\<inverse>)" by (simp add: acyclic_converse wf_acyclic)
  then have "acyclic (parent_rel (db_entities (chain_db n)))"
    by (rule acyclic_subset) (auto simp: chain_rel)
  moreover have "\<exists>q \<in> set (db_entities (chain_db n)). r_id q = p \<and> r_tenant q = r_tenant r"
    if r: "r \<in> set (db_entities (chain_db n))" and p: "ae_parent r = Some p" for r p
  proof -
    obtain k where k: "1 \<le> k" "k \<le> n" "r = link_entity k" using r unfolding chain_db_row by blast
    then have "k \<noteq> 1" "p = k - 1" using p by (auto split: if_splits)
    then have "1 \<le> p \<and> p \<le> n" using k by arith
    then have "link_entity p \<in> set (db_entities (chain_db n))" unfolding chain_db_row by blast
    then show ?thesis using k by (intro bexI [of _ "link_entity p"]) simp_all
  qed
  moreover have "table_ok (\<lambda>_. True) (n + 1) (map link_entity [1..<n + 1])"
    by (auto simp: table_ok_def comp_def)
  ultimately show ?thesis unfolding entities_ok_def chain_db_next chain_db_entities by blast
qed

definition ex_mover :: actor where
  "ex_mover = ex_actor 2 [AUDIT_MANAGER] [''universe:manage'']"

lemma ex_mover_tenant [simp]: "ac_tenant ex_mover = 1"
  by (simp add: ex_mover_def ex_actor_def)

definition closed_chain :: "audit_entity list" where
  "closed_chain = update_in ex_mover (has_id 1) (patch_entity (move_to 66)) (db_entities (chain_db 66))"

lemma closed_move:
  "\<exists>e s'. update_entity ex_mover ex_env 1 (move_to 66) (chain_db 66) = (Inr e, s') \<and> db_entities s' = closed_chain"
proof -
  have f: "find_entity ex_mover k (chain_db 66) = Some (link_entity k)" if "1 \<le> k" "k \<le> 66" for k
    unfolding find_entity_def by (rule chain_db_find) (use that in \<open>simp_all add: has_id_def\<close>)
  have d: "\<not> is_descendant ex_mover 66 1 (chain_db 66)"
    unfolding is_descendant_def by (rule chain_climb) simp_all
  have sn: "show_nat m = show_nat n \<longleftrightarrow> m = n" for m n by (metis show_nat_inj)
  have u: "entity_code_unique ex_mover (show_nat 1) (Some 1) (chain_db 66) = (Inr (), chain_db 66)"
    by (auto simp: entity_code_unique_def run_h table_simps chain_db_row sn)
  have c: "ae_code (patch_entity (move_to 66) (link_entity 1)) = show_nat 1" by (simp add: patch_entity_def move_to_def)
  have p: "uy_parent (move_to 66) = Value 66" by (simp add: move_to_def)
  show ?thesis
    by (simp add: update_entity_def check_move_def assert_entity_def run_h f d Let_def c u p closed_chain_def
        del: One_nat_def)
qed

lemma closed_chain_rows:
  "r \<in> set closed_chain \<longleftrightarrow> r = patch_entity (move_to 66) (link_entity 1) \<or> (\<exists>k. 1 < k \<and> k \<le> 66 \<and> r = link_entity k)"
proof -
  have "{r \<in> set (db_entities (chain_db 66)). mine ex_mover r \<and> has_id 1 r} = {link_entity 1}"
    "{r \<in> set (db_entities (chain_db 66)). \<not> (mine ex_mover r \<and> has_id 1 r)} = {link_entity k | k. 1 < k \<and> k \<le> 66}"
    unfolding chain_db_row by (auto simp: mine_def has_id_def) (metis less_imp_le)
  then show ?thesis unfolding closed_chain_def set_update_in by auto
qed

lemma closed_chain_parents: "r \<in> set closed_chain \<Longrightarrow> \<exists>p q. ae_parent r = Some p \<and> q \<in> set closed_chain \<and> r_id q = p"
proof -
  have last: "link_entity 66 \<in> set closed_chain" unfolding closed_chain_rows by (intro disjI2 exI [of _ 66]) simp
  have first: "patch_entity (move_to 66) (link_entity 1) \<in> set closed_chain" unfolding closed_chain_rows by blast
  assume "r \<in> set closed_chain"
  then consider "r = patch_entity (move_to 66) (link_entity 1)" | k where "1 < k" "k \<le> 66" "r = link_entity k"
    unfolding closed_chain_rows by blast
  then show ?thesis
  proof cases
    case 1
    then show ?thesis using last by (intro exI [of _ 66] exI [of _ "link_entity 66"]) (simp add: patch_entity_def move_to_def)
  next
    case (2 k)
    show ?thesis
    proof (cases "k = 2")
      case True
      then show ?thesis using first 2 by (intro exI [of _ 1] exI [of _ "patch_entity (move_to 66) (link_entity 1)"]) simp
    next
      case False
      then have "1 < k - 1 \<and> k - 1 \<le> 66" using 2 by arith
      then have "link_entity (k - 1) \<in> set closed_chain" unfolding closed_chain_rows by blast
      then show ?thesis using 2 by (intro exI [of _ "k - 1"] exI [of _ "link_entity (k - 1)"]) simp
    qed
  qed
qed

lemma closed_chain_cycle: "(1, 1) \<in> (parent_rel closed_chain)\<^sup>+"
proof -
  have step: "(k, k - 1) \<in> parent_rel closed_chain" if "1 < k" "k \<le> 66" for k
  proof -
    have "link_entity k \<in> set closed_chain" using that unfolding closed_chain_rows by blast
    then show ?thesis using parent_relI [of "link_entity k" _ "k - 1"] that by simp
  qed
  have down: "k < 66 \<Longrightarrow> (Suc k, 1) \<in> (parent_rel closed_chain)\<^sup>*" for k
  proof (induction k)
    case (Suc k)
    then show ?case using step [of "Suc (Suc k)"] by (simp add: converse_rtrancl_into_rtrancl)
  qed simp
  have "patch_entity (move_to 66) (link_entity 1) \<in> set closed_chain" unfolding closed_chain_rows by blast
  then have "(1, 66) \<in> parent_rel closed_chain"
    using parent_relI [of "patch_entity (move_to 66) (link_entity 1)" _ 66] by (simp add: patch_entity_def move_to_def)
  moreover have "(66, 1) \<in> (parent_rel closed_chain)\<^sup>*" using down [of 65] by simp
  ultimately show ?thesis by (rule rtrancl_into_trancl2)
qed

lemma closed_chain_lost: "build_entity_tree n leq closed_chain = Some []"
proof -
  have "parent_row closed_chain r \<noteq> None" if r: "r \<in> set closed_chain" for r
  proof -
    obtain p q where "ae_parent r = Some p" "q \<in> set closed_chain" "r_id q = p" using closed_chain_parents [OF r] by blast
    moreover from this have "find_first (has_id p) closed_chain \<noteq> None" unfolding find_first_None_iff by (auto simp: has_id_def)
    ultimately show ?thesis by (simp add: parent_row_def)
  qed
  then have "root_rows closed_chain = []" by (simp add: root_rows_def filter_empty_conv)
  then show ?thesis by (simp add: build_entity_tree_def sort_nodes_def)
qed

text \<open>
  C26. The check of a move climbs 64 levels, and no further. In a chain of 66 entities, which is a
  correct hierarchy, the top one can be moved below the last one: the request succeeds, the parents
  form a cycle, and none of the entities is in the tree any more.
\<close>

theorem deep_move_makes_cycle:
  "entities_ok (chain_db 66) \<and>
   (\<exists>e s'. update_entity ex_mover ex_env 1 (move_to 66) (chain_db 66) = (Inr e, s') \<and>
      (1, 1) \<in> (parent_rel (db_entities s'))\<^sup>+ \<and> build_entity_tree 66 leq (db_entities s') = Some [])"
  using chain_db_ok closed_move closed_chain_cycle closed_chain_lost by metis

section \<open>Examples\<close>

lemma entity_tree_returns_witness:
  "\<exists>ts. build_entity_tree 3 (\<lambda>x y. True) (db_entities (chain_db 3)) = Some ts \<and>
     set (concat (map node_rows ts)) = set (db_entities (chain_db 3))"
proof -
  have "distinct (map r_id (db_entities (chain_db 3)))" "length (db_entities (chain_db 3)) \<le> 3"
    by (simp_all add: chain_db_entities comp_def)
  from entity_tree_returns [OF this, of "\<lambda>x y. True"] show ?thesis
    using chain_db_ok [of 3] by (auto simp: entities_ok_def)
qed

lemma moves_keep_hierarchy_witness:
  "entities_ok (call_universe ex_mover ex_env (Update_Entity 2 (move_to 3)) (chain_db 3))"
proof (rule moves_keep_hierarchy [OF chain_db_ok])
  have steps: "(a, b) \<in> parent_rel (db_entities (chain_db 3)) ^^ n \<Longrightarrow> n < a \<and> a \<le> 3 \<or> n = 0" for a b n
  proof (induction n arbitrary: a)
    case (Suc n)
    obtain c where "(a, c) \<in> parent_rel (db_entities (chain_db 3))" "(c, b) \<in> parent_rel (db_entities (chain_db 3)) ^^ n"
      using relpow_Suc_D2 [OF Suc.prems] by blast
    then show ?case using Suc.IH [of c] unfolding chain_rel by auto
  qed simp
  have "(a, b) \<notin> parent_rel (db_entities (chain_db 3)) ^^ 65" for a b using steps [of a b 65] by linarith
  then show "parent_rel (db_entities (chain_db 3)) ^^ 65 = {}" by auto
qed

end
