(* ===== verification/Resources.thy ===== *)
theory Resources
  imports Workpapers
begin

text \<open>
  \<open>resources/resources.service.ts\<close>: weekly timesheets with their entries, their submission and
  approval, staff availability, and the utilisation summary. The total of a timesheet is a stored
  column that the service recomputes with every change of an entry, in the same transaction.
\<close>

section \<open>Queries\<close>

fun timesheet_status_name :: "timesheet_status \<Rightarrow> string" where
  "timesheet_status_name timesheet_status.OPEN = ''OPEN''"
| "timesheet_status_name timesheet_status.SUBMITTED = ''SUBMITTED''"
| "timesheet_status_name timesheet_status.APPROVED = ''APPROVED''"
| "timesheet_status_name timesheet_status.REJECTED = ''REJECTED''"

record timesheet_query =
  tq_page :: page_query
  tq_mine :: bool
  tq_user :: "uuid option"
  tq_status :: "timesheet_status option"
  tq_week :: "time option"
  tq_text :: "string option"

definition sees_all_timesheets :: "actor \<Rightarrow> bool" where
  "sees_all_timesheets ac \<longleftrightarrow> has_permission ac ''time:approve'' \<or> has_permission ac ''resource:read''"

text \<open>A later key of the condition overrides an earlier one, so a given user overrides \<open>mine\<close>.\<close>

definition timesheet_where :: "actor \<Rightarrow> env \<Rightarrow> timesheet_query \<Rightarrow> db \<Rightarrow> timesheet \<Rightarrow> bool" where
  "timesheet_where ac env q s t \<longleftrightarrow>
     (let chosen = (if sees_all_timesheets ac \<and> tq_user q \<noteq> None then tq_user q
                    else if \<not> sees_all_timesheets ac \<or> tq_mine q then Some (ac_user ac) else None)
      in opt_eq chosen (ts_user t)) \<and>
     opt_eq (tq_status q) (ts_status t) \<and>
     (case tq_week q of None \<Rightarrow> True | Some w \<Rightarrow> ts_week t = week_start (env_now env) (Some w)) \<and>
     (case find_first (has_id (ts_user t)) (db_users s) of
        None \<Rightarrow> tq_text q = None
      | Some u \<Rightarrow> opt_contains (tq_text q) [u_display_name u, u_email u])"

text \<open>A timesheet with its entries, by date and age.\<close>

definition sheet_entries :: "uuid \<Rightarrow> db \<Rightarrow> time_entry list" where
  "sheet_entries i s = sort_key te_date (sort_key r_created (filter (\<lambda>e. te_timesheet e = i) (db_entries s)))"

definition list_timesheets ::
  "actor \<Rightarrow> env \<Rightarrow> (timesheet list \<Rightarrow> timesheet list) \<Rightarrow> timesheet_query \<Rightarrow> (timesheet \<times> time_entry list) page op" where
  "list_timesheets ac env order q = gets_h (\<lambda>s.
     let pg = paginate (tq_page q) (order (many_in ac (timesheet_where ac env q s) (db_timesheets s)))
     in \<lparr> pg_items = map (\<lambda>t. (t, sheet_entries (r_id t) s)) (pg_items pg),
          pg_total = pg_total pg, pg_page = pg_page pg, pg_size = pg_size pg \<rparr>)"

definition active_codes :: "actor \<Rightarrow> db \<Rightarrow> charge_code list" where
  "active_codes ac s = many_in ac cc_active (db_codes s)"

text \<open>\<open>capacity > 0 ? Math.round((recorded / capacity) * 100) : null\<close>, on binary64 numbers.\<close>

definition utilisation_pct :: "rat \<Rightarrow> rat \<Rightarrow> int option" where
  "utilisation_pct recorded capacity =
     (if 0 < capacity then Some (math_round (fl (fl (recorded / capacity) * 100))) else None)"

record resource_summary =
  su_week :: time
  su_current :: "timesheet option"
  su_pending :: nat
  su_codes :: "charge_code list"
  su_capacity :: rat
  su_recorded :: rat
  su_utilisation :: "int option"
  su_upcoming :: "availability list"

definition recent_hours :: "actor \<Rightarrow> time \<Rightarrow> db \<Rightarrow> decimal" where
  "recent_hours ac since s = sum_list (map te_hours (many_in ac (\<lambda>e. since \<le> te_date e \<and>
     list_ex (\<lambda>t. r_id t = te_timesheet e \<and> ts_user t = ac_user ac) (db_timesheets s)) (db_entries s)))"

definition summary ::
  "actor \<Rightarrow> env \<Rightarrow> (charge_code list \<Rightarrow> charge_code list) \<Rightarrow> (availability list \<Rightarrow> availability list) \<Rightarrow>
   resource_summary op" where
  "summary ac env codes_order order = gets_h (\<lambda>s.
     let start = week_start (env_now env) None;
         capacity = fl ((case first_in ac (has_id (ac_user ac)) (db_users s) of
                           None \<Rightarrow> 40 | Some u \<Rightarrow> fl (u_weekly_capacity u)) * 4);
         recorded = fl (recent_hours ac (add_days (env_now env) (-28)) s)
     in \<lparr> su_week = start,
          su_current = first_in ac (\<lambda>t. ts_user t = ac_user ac \<and> ts_week t = start) (db_timesheets s),
          su_pending = (if has_permission ac ''time:approve''
                        then count_in ac (\<lambda>t. ts_status t = timesheet_status.SUBMITTED) (db_timesheets s) else 0),
          su_codes = codes_order (active_codes ac s),
          su_capacity = capacity, su_recorded = recorded, su_utilisation = utilisation_pct recorded capacity,
          su_upcoming = take 10 (order (many_in ac (\<lambda>a. av_start a \<le> add_days (env_now env) 60 \<and>
                          env_now env \<le> av_end a) (db_availability s))) \<rparr>)"

section \<open>Opening a timesheet\<close>

definition own_week :: "actor \<Rightarrow> time \<Rightarrow> timesheet \<Rightarrow> bool" where
  "own_week ac start t \<longleftrightarrow> ts_user t = ac_user ac \<and> ts_week t = start"

definition new_timesheet :: "actor \<Rightarrow> env \<Rightarrow> time \<Rightarrow> db \<Rightarrow> timesheet" where
  "new_timesheet ac env start s =
     \<lparr> r_id = db_next s, r_tenant = ac_tenant ac, r_created = env_now env, ts_user = ac_user ac,
       ts_week = start, ts_status = timesheet_status.OPEN, ts_total = 0, ts_submitted_at = None,
       ts_approved_by = None, ts_approved_at = None, ts_reject_reason = None \<rparr>"

definition insert_timesheet :: "timesheet \<Rightarrow> db \<Rightarrow> db" where
  "insert_timesheet t s = s\<lparr> db_timesheets := insert_row t (db_timesheets s), db_next := db_next s + 1 \<rparr>"

text \<open>The \<open>upsert\<close> on the unique key \<open>(userId, weekStart)\<close>: the row there is, or a new one.\<close>

definition upsert_timesheet :: "actor \<Rightarrow> env \<Rightarrow> time \<Rightarrow> timesheet op" where
  "upsert_timesheet ac env start =
     bind_h (gets_h (\<lambda>s. first_in ac (own_week ac start) (db_timesheets s))) (\<lambda>x. case x of
        Some t \<Rightarrow> return_h t
      | None \<Rightarrow>
          then_h (check_state_h (\<lambda>s. count_rows (own_week ac start) (db_timesheets s) = 0) UniqueViolation)
            (create_h (new_timesheet ac env start) insert_timesheet))"

definition current_timesheet :: "actor \<Rightarrow> env \<Rightarrow> time option \<Rightarrow> timesheet op" where
  "current_timesheet ac env week =
     bind_h (upsert_timesheet ac env (week_start (env_now env) week)) (\<lambda>t.
     then_h (audit_record ac env (audit_of ''timesheet.opened'' ''Timesheet'' (r_id t) No_Snapshot
               (Fields [(''userId'', JId (ts_user t)), (''weekStart'', JNum (of_int (ts_week t)))]) []))
     (return_h t))"

section \<open>Checks\<close>

definition find_timesheet :: "actor \<Rightarrow> uuid \<Rightarrow> db \<Rightarrow> timesheet option" where
  "find_timesheet ac i s = first_in ac (has_id i) (db_timesheets s)"

definition assert_timesheet :: "actor \<Rightarrow> uuid \<Rightarrow> timesheet op" where
  "assert_timesheet ac i = demand_h (find_timesheet ac i) (NotFound ''Timesheet not found'')"

definition editable_sheet :: "timesheet \<Rightarrow> bool" where
  "editable_sheet t \<longleftrightarrow> ts_status t \<in> {timesheet_status.OPEN, timesheet_status.REJECTED}"

definition assert_can_edit_own :: "actor \<Rightarrow> timesheet \<Rightarrow> unit op" where
  "assert_can_edit_own ac t =
     then_h (check_h (ts_user t = ac_user ac) (Forbidden ''Only the timesheet owner can edit entries''))
       (check_h (editable_sheet t)
          (Conflict (''Timesheet in status '' @ timesheet_status_name (ts_status t) @ '' cannot be edited'')))"

definition assert_charge_code :: "actor \<Rightarrow> uuid \<Rightarrow> unit op" where
  "assert_charge_code ac i = check_state_h (\<lambda>s. first_in ac (\<lambda>c. has_id i c \<and> cc_active c) (db_codes s) \<noteq> None)
     (BadRequest ''Charge code not found'')"

definition assert_time_engagement :: "actor \<Rightarrow> uuid \<Rightarrow> unit op" where
  "assert_time_engagement ac i = check_state_h
     (\<lambda>s. first_in ac (\<lambda>e. has_id i e \<and> e_deleted_at e = None) (db_engagements s) \<noteq> None)
     (BadRequest ''Engagement not found'')"

definition assert_staff :: "actor \<Rightarrow> uuid \<Rightarrow> unit op" where
  "assert_staff ac i = check_state_h
     (\<lambda>s. first_in ac (\<lambda>u. has_id i u \<and> u_deleted_at u = None) (db_users s) \<noteq> None)
     (BadRequest ''User not found'')"

section \<open>Entries\<close>

record create_entry_dto =
  ce_date :: time
  ce_charge_code :: uuid
  ce_engagement :: "uuid option"
  ce_hours :: decimal
  ce_notes :: "string option"

record update_entry_dto =
  ut_date :: "time option"
  ut_charge_code :: "uuid option"
  ut_engagement :: "uuid field"
  ut_hours :: "decimal option"
  ut_notes :: "string field"

definition new_entry :: "actor \<Rightarrow> env \<Rightarrow> uuid \<Rightarrow> create_entry_dto \<Rightarrow> db \<Rightarrow> time_entry" where
  "new_entry ac env i dto s =
     \<lparr> r_id = db_next s, r_tenant = ac_tenant ac, r_created = env_now env, te_timesheet = i,
       te_engagement = ce_engagement dto, te_charge_code = ce_charge_code dto,
       te_date = start_of_utc_day (ce_date dto), te_hours = ce_hours dto, te_notes = ce_notes dto \<rparr>"

definition insert_entry :: "time_entry \<Rightarrow> db \<Rightarrow> db" where
  "insert_entry e s = s\<lparr> db_entries := insert_row e (db_entries s), db_next := db_next s + 1 \<rparr>"

definition patch_entry :: "update_entry_dto \<Rightarrow> time_entry \<Rightarrow> time_entry" where
  "patch_entry dto e =
     e\<lparr> te_date := patch (map_option start_of_utc_day (ut_date dto)) (te_date e),
        te_charge_code := patch (ut_charge_code dto) (te_charge_code e),
        te_engagement := patch_nullable (ut_engagement dto) (te_engagement e),
        te_hours := patch (ut_hours dto) (te_hours e),
        te_notes := patch_nullable (ut_notes dto) (te_notes e) \<rparr>"

definition update_timesheet_row :: "actor \<Rightarrow> uuid \<Rightarrow> (timesheet \<Rightarrow> timesheet) \<Rightarrow> db \<Rightarrow> db" where
  "update_timesheet_row ac i g s = s\<lparr> db_timesheets := update_in ac (has_id i) g (db_timesheets s) \<rparr>"

definition entry_sum :: "actor \<Rightarrow> uuid \<Rightarrow> db \<Rightarrow> decimal" where
  "entry_sum ac i s = sum_list (map te_hours (many_in ac (\<lambda>e. te_timesheet e = i) (db_entries s)))"

definition recalculate_total :: "actor \<Rightarrow> uuid \<Rightarrow> unit op" where
  "recalculate_total ac i =
     bind_h (gets_h (entry_sum ac i)) (\<lambda>total.
     then_h (check_state_h (\<lambda>s. find_timesheet ac i s \<noteq> None) RecordRequired)
       (modify_h (update_timesheet_row ac i (\<lambda>t. t\<lparr> ts_total := total \<rparr>))))"

definition create_entry :: "actor \<Rightarrow> env \<Rightarrow> uuid \<Rightarrow> create_entry_dto \<Rightarrow> time_entry option op" where
  "create_entry ac env i dto =
     bind_h (assert_timesheet ac i) (\<lambda>sheet.
     then_h (assert_can_edit_own ac sheet)
    (then_h (check_h (is_within_week (start_of_utc_day (ce_date dto)) (ts_week sheet))
               (BadRequest ''Entry date must fall within the timesheet week''))
    (then_h (assert_charge_code ac (ce_charge_code dto))
    (then_h (check_given (ce_engagement dto) (assert_time_engagement ac))
    (bind_h (transaction_h (bind_h (create_h (new_entry ac env i dto) insert_entry) (\<lambda>e.
               then_h (recalculate_total ac i) (return_h e)))) (\<lambda>e.
     bind_h (gets_h (\<lambda>s. first_in ac (has_id (r_id e)) (db_entries s))) (\<lambda>after.
     then_h (audit_record ac env (audit_of ''time_entry.created'' ''TimeEntry'' (r_id e) No_Snapshot
               (case after of None \<Rightarrow> No_Snapshot | Some x \<Rightarrow> Time_Entry_Row x) []))
     (return_h after))))))))"

text \<open>An entry with the timesheet it belongs to, by its foreign key.\<close>

definition assert_entry :: "actor \<Rightarrow> uuid \<Rightarrow> (time_entry \<times> timesheet) op" where
  "assert_entry ac i =
     bind_h (demand_h (\<lambda>s. first_in ac (has_id i) (db_entries s)) (NotFound ''Time entry not found'')) (\<lambda>e.
     bind_h (demand_h (\<lambda>s. find_first (has_id (te_timesheet e)) (db_timesheets s)) RecordRequired) (\<lambda>t.
     then_h (assert_can_edit_own ac t) (return_h (e, t))))"

definition update_entry_row :: "actor \<Rightarrow> uuid \<Rightarrow> (time_entry \<Rightarrow> time_entry) \<Rightarrow> db \<Rightarrow> db" where
  "update_entry_row ac i g s = s\<lparr> db_entries := update_in ac (has_id i) g (db_entries s) \<rparr>"

definition update_entry :: "actor \<Rightarrow> env \<Rightarrow> uuid \<Rightarrow> update_entry_dto \<Rightarrow> time_entry option op" where
  "update_entry ac env i dto =
     bind_h (assert_entry ac i) (\<lambda>(before, sheet).
     then_h (check_given (map_option start_of_utc_day (ut_date dto)) (\<lambda>d.
               check_h (is_within_week d (ts_week sheet))
                 (BadRequest ''Entry date must fall within the timesheet week'')))
    (then_h (check_given (ut_charge_code dto) (assert_charge_code ac))
    (then_h (check_given (or_null (ut_engagement dto)) (assert_time_engagement ac))
    (then_h (transaction_h (then_h (modify_h (update_entry_row ac i (patch_entry dto)))
               (recalculate_total ac (te_timesheet before))))
    (then_h (audit_record ac env (audit_of ''time_entry.updated'' ''TimeEntry'' i (Time_Entry_Row before)
               (Time_Entry_Row (patch_entry dto before)) []))
     (gets_h (\<lambda>s. first_in ac (has_id i) (db_entries s))))))))"

definition delete_entry_row :: "actor \<Rightarrow> uuid \<Rightarrow> db \<Rightarrow> db" where
  "delete_entry_row ac i s = s\<lparr> db_entries := delete_in ac (has_id i) (db_entries s) \<rparr>"

definition delete_entry :: "actor \<Rightarrow> env \<Rightarrow> uuid \<Rightarrow> unit op" where
  "delete_entry ac env i =
     bind_h (assert_entry ac i) (\<lambda>(before, sheet).
     then_h (transaction_h (then_h (modify_h (delete_entry_row ac i))
               (recalculate_total ac (te_timesheet before))))
     (audit_record ac env (audit_of ''time_entry.deleted'' ''TimeEntry'' i (Time_Entry_Row before) No_Snapshot [])))"

section \<open>Submission and approval\<close>

definition submitted_sheet :: "time \<Rightarrow> timesheet \<Rightarrow> timesheet" where
  "submitted_sheet now t = t\<lparr> ts_status := timesheet_status.SUBMITTED, ts_submitted_at := Some now, ts_reject_reason := None \<rparr>"

definition submit_timesheet :: "actor \<Rightarrow> env \<Rightarrow> uuid \<Rightarrow> timesheet op" where
  "submit_timesheet ac env i =
     bind_h (assert_timesheet ac i) (\<lambda>before.
     then_h (check_h (ts_user before = ac_user ac) (Forbidden ''Only the timesheet owner can submit it''))
    (then_h (check_h (editable_sheet before)
               (Conflict (''Timesheet in status '' @ timesheet_status_name (ts_status before) @ '' cannot be submitted'')))
    (then_h (check_h (0 < ts_total before) (BadRequest ''Timesheet has no time entries''))
    (then_h (modify_h (update_timesheet_row ac i (submitted_sheet (env_now env))))
    (then_h (audit_record ac env (audit_of ''timesheet.submitted'' ''Timesheet'' i (Timesheet_Row before)
               (Timesheet_Row (submitted_sheet (env_now env) before)) []))
     (return_h (submitted_sheet (env_now env) before)))))))"

definition approved_sheet :: "uuid \<Rightarrow> time \<Rightarrow> timesheet \<Rightarrow> timesheet" where
  "approved_sheet user now t = t\<lparr> ts_status := timesheet_status.APPROVED, ts_approved_by := Some user,
     ts_approved_at := Some now, ts_reject_reason := None \<rparr>"

definition approve_timesheet :: "actor \<Rightarrow> env \<Rightarrow> uuid \<Rightarrow> timesheet op" where
  "approve_timesheet ac env i =
     then_h (check_h (has_permission ac ''time:approve'') (Forbidden ''Missing time approval permission''))
    (bind_h (assert_timesheet ac i) (\<lambda>before.
     then_h (check_h (ts_user before \<noteq> ac_user ac) (Forbidden ''You cannot approve your own timesheet''))
    (then_h (check_h (ts_status before = timesheet_status.SUBMITTED)
               (Conflict ''Only submitted timesheets can be approved''))
    (then_h (modify_h (update_timesheet_row ac i (approved_sheet (ac_user ac) (env_now env))))
    (then_h (audit_record ac env (audit_of ''timesheet.approved'' ''Timesheet'' i (Timesheet_Row before)
               (Timesheet_Row (approved_sheet (ac_user ac) (env_now env) before)) []))
     (return_h (approved_sheet (ac_user ac) (env_now env) before)))))))"

definition rejected_sheet :: "string \<Rightarrow> timesheet \<Rightarrow> timesheet" where
  "rejected_sheet reason t = t\<lparr> ts_status := timesheet_status.REJECTED, ts_reject_reason := Some reason,
     ts_approved_by := None, ts_approved_at := None \<rparr>"

definition reject_timesheet :: "actor \<Rightarrow> env \<Rightarrow> uuid \<Rightarrow> string \<Rightarrow> timesheet op" where
  "reject_timesheet ac env i reason =
     then_h (check_h (has_permission ac ''time:approve'') (Forbidden ''Missing time approval permission''))
    (bind_h (assert_timesheet ac i) (\<lambda>before.
     then_h (check_h (ts_user before \<noteq> ac_user ac) (Forbidden ''You cannot reject your own timesheet''))
    (then_h (check_h (ts_status before = timesheet_status.SUBMITTED)
               (Conflict ''Only submitted timesheets can be rejected''))
    (then_h (modify_h (update_timesheet_row ac i (rejected_sheet reason)))
    (then_h (audit_record ac env (audit_of ''timesheet.rejected'' ''Timesheet'' i (Timesheet_Row before)
               (Fields [(''status'', JStr (timesheet_status_name timesheet_status.REJECTED)),
                        (''rejectReason'', JStr reason)]) []))
     (return_h (rejected_sheet reason before)))))))"

section \<open>Availability\<close>

record availability_query =
  vq_page :: page_query
  vq_user :: "uuid option"
  vq_type :: "availability_type option"
  vq_from :: "time option"
  vq_to :: "time option"
  vq_text :: "string option"

definition availability_where :: "availability_query \<Rightarrow> db \<Rightarrow> availability \<Rightarrow> bool" where
  "availability_where q s a \<longleftrightarrow>
     opt_eq (vq_user q) (av_user a) \<and> opt_eq (vq_type q) (av_type a) \<and>
     (case vq_from q of None \<Rightarrow> True | Some d \<Rightarrow> start_of_utc_day d \<le> av_end a) \<and>
     (case vq_to q of None \<Rightarrow> True | Some d \<Rightarrow> av_start a \<le> start_of_utc_day d) \<and>
     (case find_first (has_id (av_user a)) (db_users s) of
        None \<Rightarrow> vq_text q = None | Some u \<Rightarrow> opt_contains (vq_text q) [u_display_name u])"

definition list_availability ::
  "actor \<Rightarrow> (availability list \<Rightarrow> availability list) \<Rightarrow> availability_query \<Rightarrow> availability page op" where
  "list_availability ac order q = gets_h (\<lambda>s.
     paginate (vq_page q) (order (many_in ac (availability_where q s) (db_availability s))))"

record create_availability_dto =
  va_user :: uuid
  va_type :: availability_type
  va_start :: time
  va_end :: time
  va_hours :: "decimal option"
  va_note :: "string option"

record update_availability_dto =
  vu_user :: "uuid option"
  vu_type :: "availability_type option"
  vu_start :: "time option"
  vu_end :: "time option"
  vu_hours :: "decimal option"
  vu_note :: "string field"

definition new_availability :: "actor \<Rightarrow> env \<Rightarrow> create_availability_dto \<Rightarrow> db \<Rightarrow> availability" where
  "new_availability ac env dto s =
     \<lparr> r_id = db_next s, r_tenant = ac_tenant ac, r_created = env_now env, av_user = va_user dto,
       av_type = va_type dto, av_start = start_of_utc_day (va_start dto), av_end = start_of_utc_day (va_end dto),
       av_hours = coalesce (va_hours dto) 8, av_note = va_note dto \<rparr>"

definition insert_availability :: "availability \<Rightarrow> db \<Rightarrow> db" where
  "insert_availability a s = s\<lparr> db_availability := insert_row a (db_availability s), db_next := db_next s + 1 \<rparr>"

definition create_availability :: "actor \<Rightarrow> env \<Rightarrow> create_availability_dto \<Rightarrow> availability op" where
  "create_availability ac env dto =
     then_h (check_h (start_of_utc_day (va_start dto) \<le> start_of_utc_day (va_end dto))
               (BadRequest ''endDate must be on or after startDate''))
    (then_h (assert_staff ac (va_user dto))
    (bind_h (create_h (new_availability ac env dto) insert_availability) (\<lambda>a.
     then_h (audit_record ac env (audit_of ''staff_availability.created'' ''StaffAvailability'' (r_id a) No_Snapshot
               (Availability_Row a) []))
     (return_h a))))"

definition patch_availability :: "update_availability_dto \<Rightarrow> availability \<Rightarrow> availability" where
  "patch_availability dto a =
     a\<lparr> av_user := patch (vu_user dto) (av_user a), av_type := patch (vu_type dto) (av_type a),
        av_start := patch (map_option start_of_utc_day (vu_start dto)) (av_start a),
        av_end := patch (map_option start_of_utc_day (vu_end dto)) (av_end a),
        av_hours := patch (vu_hours dto) (av_hours a), av_note := patch_nullable (vu_note dto) (av_note a) \<rparr>"

definition update_availability_row :: "actor \<Rightarrow> uuid \<Rightarrow> (availability \<Rightarrow> availability) \<Rightarrow> db \<Rightarrow> db" where
  "update_availability_row ac i g s = s\<lparr> db_availability := update_in ac (has_id i) g (db_availability s) \<rparr>"

definition update_availability :: "actor \<Rightarrow> env \<Rightarrow> uuid \<Rightarrow> update_availability_dto \<Rightarrow> availability op" where
  "update_availability ac env i dto =
     bind_h (demand_h (\<lambda>s. first_in ac (has_id i) (db_availability s)) (NotFound ''Availability record not found'')) (\<lambda>before.
     then_h (check_given (vu_user dto) (assert_staff ac))
    (let after = patch_availability dto before in
     then_h (check_h (av_start after \<le> av_end after) (BadRequest ''endDate must be on or after startDate''))
    (then_h (modify_h (update_availability_row ac i (patch_availability dto)))
    (then_h (audit_record ac env (audit_of ''staff_availability.updated'' ''StaffAvailability'' i
               (Availability_Row before) (Availability_Row after) []))
     (return_h after)))))"

section \<open>Confinement\<close>

lemma resource_checks_read [intro]:
  "reads (assert_timesheet ac i)" "reads (assert_can_edit_own ac t)" "reads (assert_charge_code ac c)"
  "reads (assert_time_engagement ac e)" "reads (assert_staff ac u)" "reads (assert_entry ac j)"
  unfolding assert_timesheet_def assert_can_edit_own_def assert_charge_code_def assert_time_engagement_def
    assert_staff_def assert_entry_def
  by (intro reads_intros)+

lemma resource_row_changes [simp]:
  "r_id (patch_entry dto e) = r_id e" "r_tenant (patch_entry dto e) = r_tenant e"
  "te_timesheet (patch_entry dto e) = te_timesheet e"
  "r_id (submitted_sheet now t) = r_id t" "r_tenant (submitted_sheet now t) = r_tenant t"
  "r_id (approved_sheet u now t) = r_id t" "r_tenant (approved_sheet u now t) = r_tenant t"
  "r_id (rejected_sheet reason t) = r_id t" "r_tenant (rejected_sheet reason t) = r_tenant t"
  "r_id (patch_availability vdto a) = r_id a" "r_tenant (patch_availability vdto a) = r_tenant a"
  by (simp_all add: patch_entry_def submitted_sheet_def approved_sheet_def rejected_sheet_def patch_availability_def)

lemma resource_writes_confined:
  "(\<And>t. r_tenant (g t) = r_tenant t) \<Longrightarrow> same_outside (ac_tenant ac) s (update_timesheet_row ac i g s)"
  "audit_grows s (update_timesheet_row ac i g s)"
  "(\<And>e. r_tenant (h e) = r_tenant e) \<Longrightarrow> same_outside (ac_tenant ac) s (update_entry_row ac i h s)"
  "audit_grows s (update_entry_row ac i h s)"
  "same_outside (ac_tenant ac) s (delete_entry_row ac i s)" "audit_grows s (delete_entry_row ac i s)"
  "(\<And>a. r_tenant (k a) = r_tenant a) \<Longrightarrow> same_outside (ac_tenant ac) s (update_availability_row ac i k s)"
  "audit_grows s (update_availability_row ac i k s)"
  by (simp_all add: update_timesheet_row_def update_entry_row_def delete_entry_row_def update_availability_row_def
      confined_writes)

lemmas resource_confined = confinement.keeps_reads [OF resource_checks_read(1)]
  confinement.keeps_reads [OF resource_checks_read(2)] confinement.keeps_reads [OF resource_checks_read(3)]
  confinement.keeps_reads [OF resource_checks_read(4)] confinement.keeps_reads [OF resource_checks_read(5)]
  confinement.keeps_reads [OF resource_checks_read(6)]

lemma recalculate_total_confined: "keeps (confined (ac_tenant ac)) (recalculate_total ac i)"
  unfolding recalculate_total_def by (intro confined_steps resource_writes_confined) simp

lemma current_timesheet_confined: "keeps (confined (ac_tenant ac)) (current_timesheet ac env w)"
  unfolding current_timesheet_def upsert_timesheet_def
  by (intro confined_steps) (simp_all add: new_timesheet_def insert_timesheet_def confined_writes)

lemma entry_changes_confined:
  "keeps (confined (ac_tenant ac)) (create_entry ac env i cdto)"
  "keeps (confined (ac_tenant ac)) (update_entry ac env i udto)"
  "keeps (confined (ac_tenant ac)) (delete_entry ac env i)"
  unfolding create_entry_def update_entry_def delete_entry_def split_def
  by (intro confined_steps check_given_confined resource_confined recalculate_total_confined resource_writes_confined;
      simp add: new_entry_def insert_entry_def confined_writes)+

lemma timesheet_moves_confined:
  "keeps (confined (ac_tenant ac)) (submit_timesheet ac env i)"
  "keeps (confined (ac_tenant ac)) (approve_timesheet ac env i)"
  "keeps (confined (ac_tenant ac)) (reject_timesheet ac env i reason)"
  unfolding submit_timesheet_def approve_timesheet_def reject_timesheet_def
  by (intro confined_steps resource_confined resource_writes_confined; simp)+

lemma availability_changes_confined:
  "keeps (confined (ac_tenant ac)) (create_availability ac env vcdto)"
  "keeps (confined (ac_tenant ac)) (update_availability ac env i vudto)"
  unfolding create_availability_def update_availability_def Let_def
  by (intro confined_steps check_given_confined resource_confined resource_writes_confined;
      simp add: new_availability_def insert_availability_def confined_writes)+

end
