(* ===== verification/Resource_Life.thy ===== *)
theory Resource_Life
  imports Resources Samples
begin

text \<open>
  The life of timesheets under every sequence of calls: one timesheet per user and week, entries
  within the week of an existing timesheet of the same tenant, the stored total equal to the sum
  of the entries, submission and approval by different users, and approved timesheets final.
\<close>

section \<open>What an operation does to the timesheets\<close>

definition same_sheet :: "(timesheet \<Rightarrow> timesheet) \<Rightarrow> bool" where
  "same_sheet g \<longleftrightarrow> (\<forall>x. r_id (g x) = r_id x \<and> r_tenant (g x) = r_tenant x \<and> ts_user (g x) = ts_user x \<and>
     ts_week (g x) = ts_week x)"

definition same_entry :: "(time_entry \<Rightarrow> time_entry) \<Rightarrow> bool" where
  "same_entry g \<longleftrightarrow> (\<forall>x. r_id (g x) = r_id x \<and> r_tenant (g x) = r_tenant x \<and> te_timesheet (g x) = te_timesheet x)"

definition sheet_ok :: "timesheet \<Rightarrow> bool" where
  "sheet_ok t \<longleftrightarrow> get_utc_day (ts_week t) = 1 \<and>
     (\<not> editable_sheet t \<longrightarrow> 0 < ts_total t \<and> ts_submitted_at t \<noteq> None) \<and>
     (ts_status t = timesheet_status.APPROVED \<longleftrightarrow> ts_approved_by t \<noteq> None) \<and>
     ts_approved_by t \<noteq> Some (ts_user t) \<and>
     (ts_status t = timesheet_status.REJECTED \<longrightarrow> ts_reject_reason t \<noteq> None)"

inductive entries_step :: "actor \<Rightarrow> timesheet \<Rightarrow> db \<Rightarrow> db \<Rightarrow> bool" for ac t where
  added: "db_entries s' = db_entries s @ [e] \<Longrightarrow> r_id e = db_next s \<Longrightarrow> db_next s < db_next s' \<Longrightarrow> mine ac e \<Longrightarrow>
    te_timesheet e = r_id t \<Longrightarrow> is_within_week (te_date e) (ts_week t) \<Longrightarrow> entries_step ac t s s'"
| changed: "b \<in> set (db_entries s) \<Longrightarrow> mine ac b \<Longrightarrow> te_timesheet b = r_id t \<Longrightarrow> same_entry g \<Longrightarrow>
    (is_within_week (te_date b) (ts_week t) \<Longrightarrow> is_within_week (te_date (g b)) (ts_week t)) \<Longrightarrow>
    db_entries s' = update_in ac (has_id (r_id b)) g (db_entries s) \<Longrightarrow> db_next s \<le> db_next s' \<Longrightarrow> entries_step ac t s s'"
| removed: "b \<in> set (db_entries s) \<Longrightarrow> mine ac b \<Longrightarrow> te_timesheet b = r_id t \<Longrightarrow>
    db_entries s' = delete_in ac (has_id (r_id b)) (db_entries s) \<Longrightarrow> db_next s \<le> db_next s' \<Longrightarrow> entries_step ac t s s'"

inductive time_step :: "actor \<Rightarrow> db \<Rightarrow> db \<Rightarrow> bool" for ac where
  idle: "db_timesheets s' = db_timesheets s \<Longrightarrow> db_entries s' = db_entries s \<Longrightarrow> db_next s \<le> db_next s' \<Longrightarrow>
    time_step ac s s'"
| opened: "db_timesheets s' = db_timesheets s @ [t] \<Longrightarrow> db_entries s' = db_entries s \<Longrightarrow> db_next s < db_next s' \<Longrightarrow>
    r_id t = db_next s \<Longrightarrow> sheet_ok t \<Longrightarrow> ts_total t = 0 \<Longrightarrow>
    count_rows (\<lambda>q. ts_user q = ts_user t \<and> ts_week q = ts_week t) (db_timesheets s) = 0 \<Longrightarrow> time_step ac s s'"
| moved: "find_timesheet ac i s = Some t \<Longrightarrow> ts_status t \<noteq> timesheet_status.APPROVED \<Longrightarrow> same_sheet g \<Longrightarrow>
    (sheet_ok t \<Longrightarrow> sheet_ok (g t)) \<Longrightarrow> ts_total (g t) = ts_total t \<Longrightarrow>
    db_timesheets s' = update_in ac (has_id i) g (db_timesheets s) \<Longrightarrow> db_entries s' = db_entries s \<Longrightarrow>
    db_next s \<le> db_next s' \<Longrightarrow> time_step ac s s'"
| edited: "t \<in> set (db_timesheets s) \<Longrightarrow> r_id t = i \<Longrightarrow> find_timesheet ac i s \<noteq> None \<Longrightarrow> editable_sheet t \<Longrightarrow>
    ts_user t = ac_user ac \<Longrightarrow> entries_step ac t s s' \<Longrightarrow>
    db_timesheets s' = update_in ac (has_id i) (\<lambda>x. x\<lparr> ts_total := entry_sum ac i s' \<rparr>) (db_timesheets s) \<Longrightarrow>
    time_step ac s s'"

section \<open>The operations are such steps\<close>

lemma week_start_is_monday: "get_utc_day (week_start n v) = 1"
  by (cases v) (simp_all only: week_start_None week_start_monday)

lemma audited_next: "db_next (audited ac env ev s) = db_next s + 1"
  by (simp add: audited_def)

lemma idle_audited: "time_step ac s (audited ac env ev s)"
  by (rule time_step.idle) (simp_all add: audited_next)

lemma idle_same: "time_step ac s s"
  by (rule time_step.idle) simp_all

lemma insert_timesheet_tables [simp]:
  "db_timesheets (insert_timesheet t s) = db_timesheets s @ [t]" "db_entries (insert_timesheet t s) = db_entries s"
  "db_next (insert_timesheet t s) = db_next s + 1"
  by (simp_all add: insert_timesheet_def insert_row_def)

lemma insert_entry_tables [simp]:
  "db_entries (insert_entry e s) = db_entries s @ [e]" "db_timesheets (insert_entry e s) = db_timesheets s"
  "db_next (insert_entry e s) = db_next s + 1"
  by (simp_all add: insert_entry_def insert_row_def)

lemma resource_row_tables [simp]:
  "db_timesheets (update_timesheet_row ac i g s) = update_in ac (has_id i) g (db_timesheets s)"
  "db_entries (update_timesheet_row ac i g s) = db_entries s" "db_next (update_timesheet_row ac i g s) = db_next s"
  "db_entries (update_entry_row ac i h s) = update_in ac (has_id i) h (db_entries s)"
  "db_timesheets (update_entry_row ac i h s) = db_timesheets s" "db_next (update_entry_row ac i h s) = db_next s"
  "db_entries (delete_entry_row ac i s) = delete_in ac (has_id i) (db_entries s)"
  "db_timesheets (delete_entry_row ac i s) = db_timesheets s" "db_next (delete_entry_row ac i s) = db_next s"
  by (simp_all add: update_timesheet_row_def update_entry_row_def delete_entry_row_def)

lemma current_timesheet_step:
  assumes "current_timesheet ac env w s = (x, s')" shows "time_step ac s s'"
proof -
  let ?d = "week_start (env_now env) w" and ?t = "new_timesheet ac env (week_start (env_now env) w) s"
  consider "s' = s" | ev where "s' = audited ac env ev s"
    | ev where "s' = audited ac env ev (insert_timesheet ?t s)" "count_rows (own_week ac ?d) (db_timesheets s) = 0"
    using assms by (auto simp: current_timesheet_def upsert_timesheet_def run_h split: if_splits option.splits)
  then show ?thesis
  proof cases
    case (3 ev)
    show ?thesis
    proof (rule time_step.opened)
      show "sheet_ok ?t"
        by (simp add: sheet_ok_def new_timesheet_def week_start_is_monday editable_sheet_def)
      show "count_rows (\<lambda>q. ts_user q = ts_user ?t \<and> ts_week q = ts_week ?t) (db_timesheets s) = 0"
        using 3(2) by (simp add: own_week_def [abs_def] new_timesheet_def)
    qed (simp_all add: 3(1) audited_next new_timesheet_def)
  qed (auto intro: idle_same idle_audited)
qed

lemma find_timesheet_SomeD:
  "find_timesheet ac i s = Some t \<Longrightarrow> t \<in> set (db_timesheets s) \<and> mine ac t \<and> r_id t = i"
  by (auto simp: find_timesheet_def has_id_def dest: first_in_Some)

text \<open>The recomputation in a transaction: all or nothing.\<close>

lemma recalculate_run:
  "recalculate_total ac i s =
     (if find_timesheet ac i s = None then (Inl RecordRequired, s)
      else (Inr (), update_timesheet_row ac i (\<lambda>t. t\<lparr> ts_total := entry_sum ac i s \<rparr>) s))"
  by (simp add: recalculate_total_def run_h)

lemma entry_sum_cong: "db_entries s' = db_entries s \<Longrightarrow> entry_sum ac i s' = entry_sum ac i s"
  by (simp add: entry_sum_def)

lemma find_timesheet_cong: "db_timesheets s' = db_timesheets s \<Longrightarrow> find_timesheet ac i s' = find_timesheet ac i s"
  by (simp add: find_timesheet_def)

lemma assert_can_edit_own_iff:
  "assert_can_edit_own ac t s = (Inr y, s') \<longleftrightarrow> s' = s \<and> ts_user t = ac_user ac \<and> editable_sheet t"
  by (auto simp: assert_can_edit_own_def ok_h)

lemma create_entry_step:
  assumes "create_entry ac env i dto s = (x, s')" shows "time_step ac s s'"
  using assms [unfolded create_entry_def] resource_checks_read(1)
proof (cases rule: bind_check_cases)
  case (2 t)
  have t: "find_timesheet ac i s = Some t" using 2(1) by (simp add: assert_timesheet_def ok_h)
  from 2(2) resource_checks_read(2) show ?thesis
  proof (cases rule: then_check_cases)
    case own: 2
    have o: "ts_user t = ac_user ac" "editable_sheet t" using own(1) by (simp_all add: assert_can_edit_own_iff)
    from own(2) reads_check show ?thesis
    proof (cases rule: then_check_cases)
      case wk: 2
      have w: "is_within_week (start_of_utc_day (ce_date dto)) (ts_week t)" using wk(1) by (simp add: ok_h)
      from wk(2) resource_checks_read(3) show ?thesis
      proof (cases rule: then_check_cases)
        case cc: 2
        from cc(2) check_given_reads [OF resource_checks_read(4)] show ?thesis
        proof (cases rule: then_check_cases)
          case 2
          let ?e = "new_entry ac env i dto s"
          let ?z = "insert_entry ?e s"
          let ?u = "update_timesheet_row ac i (\<lambda>t. t\<lparr> ts_total := entry_sum ac i ?z \<rparr>) ?z"
          have "find_timesheet ac i ?z \<noteq> None" using t find_timesheet_cong [of ?z s ac i] by simp
          then obtain ev where s': "s' = audited ac env ev ?u" using 2(2) by (auto simp: run_h recalculate_run)
          show ?thesis
          proof (rule time_step.edited)
            show "entries_step ac t s s'"
              by (rule entries_step.added [of _ _ ?e])
                 (use find_timesheet_SomeD [OF t] w in \<open>simp_all add: s' audited_next new_entry_def mine_def\<close>)
            show "db_timesheets s' = update_in ac (has_id i) (\<lambda>x. x\<lparr> ts_total := entry_sum ac i s' \<rparr>) (db_timesheets s)"
              by (simp add: s' entry_sum_cong [of "audited ac env ev ?u" ?z])
          qed (use t o find_timesheet_SomeD [OF t] in simp_all)
        qed (simp add: idle_same)
      qed (simp add: idle_same)
    qed (simp add: idle_same)
  qed (simp add: idle_same)
qed (simp add: idle_same)

lemma assert_entry_found:
  assumes "assert_entry ac i s = (Inr (e, t), s)"
  shows "e \<in> set (db_entries s)" "mine ac e" "r_id e = i" "t \<in> set (db_timesheets s)" "r_id t = te_timesheet e"
    "ts_user t = ac_user ac" "editable_sheet t"
  using assms
  by (auto simp: assert_entry_def ok_h assert_can_edit_own_def has_id_def dest!: first_in_Some find_first_Some)

lemma entry_transaction_step:
  assumes e: "assert_entry ac i s = (Inr (e, t), s)"
    and run: "transaction_h (then_h (modify_h f) (recalculate_total ac (te_timesheet e))) s = (x, s1)"
    and f: "db_timesheets (f s) = db_timesheets s" "db_next (f s) = db_next s"
    and step: "\<And>s'. db_entries s' = db_entries (f s) \<Longrightarrow> db_next s \<le> db_next s' \<Longrightarrow> entries_step ac t s s'"
    and s': "s' = s1 \<or> (\<exists>ev. s' = audited ac env ev s1)"
  shows "time_step ac s s'"
proof -
  let ?i = "te_timesheet e"
  let ?u = "update_timesheet_row ac ?i (\<lambda>t. t\<lparr> ts_total := entry_sum ac ?i (f s) \<rparr>) (f s)"
  note found = assert_entry_found [OF e]
  from run have "s1 = s \<or> (s1 = ?u \<and> find_timesheet ac ?i s \<noteq> None)"
    by (auto simp: run_h recalculate_run find_timesheet_cong [OF f(1)] split: if_splits)
  then show ?thesis
  proof
    assume "s1 = s"
    then show ?thesis using s' by (auto simp: idle_same idle_audited)
  next
    assume u: "s1 = ?u \<and> find_timesheet ac ?i s \<noteq> None"
    have tab: "db_entries s' = db_entries (f s)" "db_timesheets s' = db_timesheets ?u" "db_next s \<le> db_next s'"
      using s' u f by (auto simp: audited_next)
    show ?thesis
    proof (rule time_step.edited)
      show "entries_step ac t s s'" using tab by (intro step)
      show "db_timesheets s' = update_in ac (has_id ?i) (\<lambda>x. x\<lparr> ts_total := entry_sum ac ?i s' \<rparr>) (db_timesheets s)"
        by (simp add: tab(2) f(1) entry_sum_cong [OF tab(1)])
    qed (use found u in simp_all)
  qed
qed

lemma update_entry_step:
  assumes "update_entry ac env i dto s = (x, s')" shows "time_step ac s s'"
  using assms [unfolded update_entry_def] resource_checks_read(6)
proof (cases rule: bind_check_cases)
  case (2 et)
  obtain e t where et: "et = (e, t)" by (cases et)
  have e: "assert_entry ac i s = (Inr (e, t), s)" using 2(1) et by simp
  note found = assert_entry_found [OF e]
  from 2(2) [unfolded et prod.case] check_given_reads [OF reads_check] show ?thesis
  proof (cases rule: then_check_cases)
    case wk: 2
    have w: "\<forall>d. ut_date dto = Some d \<longrightarrow> is_within_week (start_of_utc_day d) (ts_week t)"
      using wk(1) by (auto simp: check_given_def ok_h)
    from wk(2) check_given_reads [OF resource_checks_read(3)] show ?thesis
    proof (cases rule: then_check_cases)
      case cc: 2
      from cc(2) check_given_reads [OF resource_checks_read(4)] show ?thesis
      proof (cases rule: then_check_cases)
        case rest: 2
        let ?f = "update_entry_row ac i (patch_entry dto)"
        obtain y s1 where tr: "transaction_h (then_h (modify_h ?f) (recalculate_total ac (te_timesheet e))) s = (y, s1)"
          by (meson surj_pair)
        then have "s' = s1 \<or> (\<exists>ev. s' = audited ac env ev s1)"
          using rest(2) by (auto simp: then_h_run [of "transaction_h _"] run_h split: sum.splits prod.splits simp del: transaction_h_run)
        then show ?thesis
        proof (rule entry_transaction_step [OF e tr, rotated 3])
          fix s2 :: db assume s2: "db_entries s2 = db_entries (?f s)" "db_next s \<le> db_next s2"
          show "entries_step ac t s s2"
          proof (rule entries_step.changed [of e])
            show "is_within_week (te_date (patch_entry dto e)) (ts_week t)" if "is_within_week (te_date e) (ts_week t)"
              using w that by (cases "ut_date dto") (simp_all add: patch_entry_def)
            show "same_entry (patch_entry dto)" by (simp add: same_entry_def)
          qed (use found s2 in simp_all)
        qed simp_all
      qed (simp add: idle_same)
    qed (simp add: idle_same)
  qed (simp add: idle_same)
qed (simp add: idle_same)

lemma delete_entry_step:
  assumes "delete_entry ac env i s = (x, s')" shows "time_step ac s s'"
  using assms [unfolded delete_entry_def] resource_checks_read(6)
proof (cases rule: bind_check_cases)
  case (2 et)
  obtain e t where et: "et = (e, t)" by (cases et)
  have e: "assert_entry ac i s = (Inr (e, t), s)" using 2(1) et by simp
  note found = assert_entry_found [OF e]
  let ?f = "delete_entry_row ac i"
  obtain y s1 where tr: "transaction_h (then_h (modify_h ?f) (recalculate_total ac (te_timesheet e))) s = (y, s1)"
    by (meson surj_pair)
  then have "s' = s1 \<or> (\<exists>ev. s' = audited ac env ev s1)"
    using 2(2) by (auto simp: et then_h_run [of "transaction_h _"] run_h split: sum.splits prod.splits simp del: transaction_h_run)
  then show ?thesis
  proof (rule entry_transaction_step [OF e tr, rotated 3])
    fix s2 :: db assume s2: "db_entries s2 = db_entries (?f s)" "db_next s \<le> db_next s2"
    show "entries_step ac t s s2" by (rule entries_step.removed [of e]) (use found s2 in simp_all)
  qed simp_all
qed (simp add: idle_same)

lemma sheet_move_ok:
  "sheet_ok t \<Longrightarrow> 0 < ts_total t \<Longrightarrow> editable_sheet t \<Longrightarrow> sheet_ok (submitted_sheet now t)"
  "sheet_ok t \<Longrightarrow> ts_status t = timesheet_status.SUBMITTED \<Longrightarrow> ts_user t \<noteq> u \<Longrightarrow> sheet_ok (approved_sheet u now t)"
  "sheet_ok t \<Longrightarrow> ts_status t = timesheet_status.SUBMITTED \<Longrightarrow> sheet_ok (rejected_sheet reason t)"
  by (auto simp: sheet_ok_def editable_sheet_def submitted_sheet_def approved_sheet_def rejected_sheet_def)

lemma same_sheet_moves: "same_sheet (submitted_sheet now)" "same_sheet (approved_sheet u now)" "same_sheet (rejected_sheet reason)"
  by (simp_all add: same_sheet_def submitted_sheet_def approved_sheet_def rejected_sheet_def)

lemma sheet_moves_run:
  "submit_timesheet ac env i s = (x, s') \<Longrightarrow> s' = s \<or> (\<exists>t ev. find_timesheet ac i s = Some t \<and> ts_user t = ac_user ac \<and>
     editable_sheet t \<and> 0 < ts_total t \<and> s' = audited ac env ev (update_timesheet_row ac i (submitted_sheet (env_now env)) s))"
  "approve_timesheet ac env i s = (x, s') \<Longrightarrow> s' = s \<or> (\<exists>t ev. find_timesheet ac i s = Some t \<and> ts_user t \<noteq> ac_user ac \<and>
     has_permission ac ''time:approve'' \<and> ts_status t = timesheet_status.SUBMITTED \<and>
     s' = audited ac env ev (update_timesheet_row ac i (approved_sheet (ac_user ac) (env_now env)) s))"
  "reject_timesheet ac env i reason s = (x, s') \<Longrightarrow> s' = s \<or> (\<exists>t ev. find_timesheet ac i s = Some t \<and> ts_user t \<noteq> ac_user ac \<and>
     has_permission ac ''time:approve'' \<and> ts_status t = timesheet_status.SUBMITTED \<and>
     s' = audited ac env ev (update_timesheet_row ac i (rejected_sheet reason) s))"
  by (auto simp: submit_timesheet_def approve_timesheet_def reject_timesheet_def assert_timesheet_def run_h
      split: if_splits option.splits)

lemma moved_audited:
  assumes "find_timesheet ac i s = Some t" "ts_status t \<noteq> timesheet_status.APPROVED" "same_sheet g"
    "sheet_ok t \<Longrightarrow> sheet_ok (g t)" "ts_total (g t) = ts_total t" "s' = audited ac env ev (update_timesheet_row ac i g s)"
  shows "time_step ac s s'"
  by (rule time_step.moved [OF assms(1-5)]) (simp_all add: assms(6) audited_next)

lemma sheet_moves_step:
  "submit_timesheet ac env i s = (x, s') \<Longrightarrow> time_step ac s s'"
  "approve_timesheet ac env i s = (x, s') \<Longrightarrow> time_step ac s s'"
  "reject_timesheet ac env i reason s = (x, s') \<Longrightarrow> time_step ac s s'"
proof -
  note total = submitted_sheet_def approved_sheet_def rejected_sheet_def
  have open_sheet: "editable_sheet t \<Longrightarrow> ts_status t \<noteq> timesheet_status.APPROVED" for t
    by (auto simp: editable_sheet_def)
  show "time_step ac s s'" if "submit_timesheet ac env i s = (x, s')"
    using sheet_moves_run(1) [OF that]
    by (elim disjE exE conjE)
       (simp add: idle_same, rule moved_audited, auto simp: open_sheet same_sheet_moves sheet_move_ok, simp add: total)
  show "time_step ac s s'" if "approve_timesheet ac env i s = (x, s')"
    using sheet_moves_run(2) [OF that]
    by (elim disjE exE conjE)
       (simp add: idle_same, rule moved_audited, auto simp: same_sheet_moves sheet_move_ok, simp add: total)
  show "time_step ac s s'" if "reject_timesheet ac env i reason s = (x, s')"
    using sheet_moves_run(3) [OF that]
    by (elim disjE exE conjE)
       (simp add: idle_same, rule moved_audited, auto simp: same_sheet_moves sheet_move_ok, simp add: total)
qed

lemma insert_availability_tables [simp]:
  "db_timesheets (insert_availability a s) = db_timesheets s" "db_entries (insert_availability a s) = db_entries s"
  "db_next (insert_availability a s) = db_next s + 1"
  "db_timesheets (update_availability_row ac i g s) = db_timesheets s"
  "db_entries (update_availability_row ac i g s) = db_entries s" "db_next (update_availability_row ac i g s) = db_next s"
  by (simp_all add: insert_availability_def update_availability_row_def)

lemma assert_staff_run: "assert_staff ac u s =
    (if first_in ac (\<lambda>x. has_id u x \<and> u_deleted_at x = None) (db_users s) \<noteq> None then (Inr (), s)
     else (Inl (BadRequest ''User not found''), s))"
  by (simp add: assert_staff_def run_h)

lemma check_given_run: "check_given v m s = (case v of None \<Rightarrow> (Inr (), s) | Some x \<Rightarrow> m x s)"
  by (simp add: check_given_def run_h split: option.split)

lemma availability_step:
  "create_availability ac env vdto s = (x, s') \<Longrightarrow> time_step ac s s'"
  "update_availability ac env i udto s = (x2, s') \<Longrightarrow> time_step ac s s'"
  by (rule time_step.idle;
      auto simp: create_availability_def update_availability_def Let_def run_h assert_staff_run check_given_run audited_next
        split: if_splits option.splits)+

section \<open>Calls\<close>

datatype resource_call =
    Current_Timesheet "time option"
  | Create_Entry uuid create_entry_dto
  | Update_Entry uuid update_entry_dto
  | Delete_Entry uuid
  | Submit_Timesheet uuid
  | Approve_Timesheet uuid
  | Reject_Timesheet uuid string
  | Create_Availability create_availability_dto
  | Update_Availability uuid update_availability_dto

fun call_resource :: "actor \<Rightarrow> env \<Rightarrow> resource_call \<Rightarrow> db \<Rightarrow> db" where
  "call_resource ac env (Current_Timesheet w) s = snd (current_timesheet ac env w s)"
| "call_resource ac env (Create_Entry i cdto) s = snd (create_entry ac env i cdto s)"
| "call_resource ac env (Update_Entry i udto) s = snd (update_entry ac env i udto s)"
| "call_resource ac env (Delete_Entry i) s = snd (delete_entry ac env i s)"
| "call_resource ac env (Submit_Timesheet i) s = snd (submit_timesheet ac env i s)"
| "call_resource ac env (Approve_Timesheet i) s = snd (approve_timesheet ac env i s)"
| "call_resource ac env (Reject_Timesheet i reason) s = snd (reject_timesheet ac env i reason s)"
| "call_resource ac env (Create_Availability vcdto) s = snd (create_availability ac env vcdto s)"
| "call_resource ac env (Update_Availability i vudto) s = snd (update_availability ac env i vudto s)"

definition call_resources :: "(actor \<times> env \<times> resource_call) list \<Rightarrow> db \<Rightarrow> db" where
  "call_resources calls s = fold (\<lambda>(ac, env, c). call_resource ac env c) calls s"

lemma call_resource_confined: "confined (ac_tenant ac) s (call_resource ac env c s)"
  by (cases c) (simp_all add: kept_confined current_timesheet_confined entry_changes_confined timesheet_moves_confined
        availability_changes_confined)

lemma call_resource_step: "time_step ac s (call_resource ac env c s)"
  by (cases c)
     (simp_all add: current_timesheet_step [OF surjective_pairing] create_entry_step [OF surjective_pairing]
       update_entry_step [OF surjective_pairing] delete_entry_step [OF surjective_pairing]
       sheet_moves_step [OF surjective_pairing] availability_step [OF surjective_pairing])

section \<open>The invariant\<close>

definition entry_fits :: "db \<Rightarrow> time_entry \<Rightarrow> bool" where
  "entry_fits s e \<longleftrightarrow> (\<exists>t \<in> set (db_timesheets s). r_id t = te_timesheet e \<and> r_tenant t = r_tenant e \<and>
     is_within_week (te_date e) (ts_week t))"

definition hours_on :: "db \<Rightarrow> uuid \<Rightarrow> decimal" where
  "hours_on s i = sum_list (map te_hours (filter (\<lambda>e. te_timesheet e = i) (db_entries s)))"

definition time_ok :: "db \<Rightarrow> bool" where
  "time_ok s \<longleftrightarrow> table_ok sheet_ok (db_next s) (db_timesheets s) \<and>
     table_ok (entry_fits s) (db_next s) (db_entries s) \<and>
     (\<forall>t \<in> set (db_timesheets s). ts_total t = hours_on s (r_id t)) \<and>
     distinct (map (\<lambda>t. (ts_user t, ts_week t)) (db_timesheets s))"

lemma time_okD:
  assumes "time_ok s"
  shows "table_ok sheet_ok (db_next s) (db_timesheets s)" "table_ok (entry_fits s) (db_next s) (db_entries s)"
    "\<And>t. t \<in> set (db_timesheets s) \<Longrightarrow> ts_total t = hours_on s (r_id t)"
    "distinct (map (\<lambda>t. (ts_user t, ts_week t)) (db_timesheets s))"
    "distinct (map r_id (db_timesheets s))" "distinct (map r_id (db_entries s))"
  using assms by (simp_all add: time_ok_def table_ok_def)

lemma same_id_same_row: "distinct (map r_id t) \<Longrightarrow> x \<in> set t \<Longrightarrow> y \<in> set t \<Longrightarrow> r_id x = r_id y \<Longrightarrow> x = y"
  by (auto simp: distinct_map inj_on_def)

lemma map_update_in: "(\<And>x. f (g x) = f x) \<Longrightarrow> map f (update_in ac P g t) = map f t"
  by (simp add: update_in_def update_rows_def)

lemma filter_update_in:
  assumes "\<And>r. r \<in> set t \<Longrightarrow> mine ac r \<Longrightarrow> P r \<Longrightarrow> \<not> Q r \<and> \<not> Q (g r)"
  shows "filter Q (update_in ac P g t) = filter Q t"
  using assms by (induction t) (auto simp: update_in_def update_rows_def)

lemma filter_delete_in:
  assumes "\<And>r. r \<in> set t \<Longrightarrow> mine ac r \<Longrightarrow> P r \<Longrightarrow> \<not> Q r"
  shows "filter Q (delete_in ac P t) = filter Q t"
  using assms by (induction t) (auto simp: delete_in_def delete_rows_def)

lemma entry_of_sheet:
  assumes "time_ok s" "e \<in> set (db_entries s)" "t \<in> set (db_timesheets s)" "te_timesheet e = r_id t"
  shows "r_tenant e = r_tenant t" "is_within_week (te_date e) (ts_week t)"
proof -
  obtain q where q: "q \<in> set (db_timesheets s)" "r_id q = te_timesheet e" "r_tenant q = r_tenant e"
      "is_within_week (te_date e) (ts_week q)"
    using time_okD(2) [OF assms(1)] assms(2) by (auto simp: table_ok_def entry_fits_def)
  have "q = t" using q(1,2) assms(3,4) by (intro same_id_same_row [OF time_okD(5) [OF assms(1)]]) simp_all
  then show "r_tenant e = r_tenant t" "is_within_week (te_date e) (ts_week t)" using q by simp_all
qed

text \<open>A step on the entries of one timesheet leaves the others alone and keeps the entries in place.\<close>

lemma entries_step_effect:
  assumes "entries_step ac t s s'" "time_ok s" "t \<in> set (db_timesheets s)" "mine ac t"
  shows "j \<noteq> r_id t \<Longrightarrow> filter (\<lambda>e. te_timesheet e = j) (db_entries s') = filter (\<lambda>e. te_timesheet e = j) (db_entries s)"
    "distinct (map r_id (db_entries s'))" "db_next s \<le> db_next s'"
    "e \<in> set (db_entries s') \<Longrightarrow> r_id e < db_next s' \<and>
       (e \<in> set (db_entries s) \<and> te_timesheet e \<noteq> r_id t \<or>
        mine ac e \<and> te_timesheet e = r_id t \<and> is_within_week (te_date e) (ts_week t))"
proof -
  note d = time_okD(6) [OF assms(2)]
  have lt: "r_id e < db_next s" if "e \<in> set (db_entries s)" for e
    using time_okD(2) [OF assms(2)] that by (simp add: table_ok_def)
  have old: "e \<in> set (db_entries s) \<and> te_timesheet e \<noteq> r_id t \<or>
      mine ac e \<and> te_timesheet e = r_id t \<and> is_within_week (te_date e) (ts_week t)" if "e \<in> set (db_entries s)" for e
    using that entry_of_sheet [OF assms(2) that assms(3)] assms(4) by (auto simp: mine_def)
  have "(j \<noteq> r_id t \<longrightarrow> filter (\<lambda>e. te_timesheet e = j) (db_entries s') = filter (\<lambda>e. te_timesheet e = j) (db_entries s)) \<and>
    distinct (map r_id (db_entries s')) \<and> db_next s \<le> db_next s' \<and>
    (\<forall>e \<in> set (db_entries s'). r_id e < db_next s' \<and>
       (e \<in> set (db_entries s) \<and> te_timesheet e \<noteq> r_id t \<or>
        mine ac e \<and> te_timesheet e = r_id t \<and> is_within_week (te_date e) (ts_week t)))"
    using assms(1)
  proof cases
    case (added a)
    have "db_next s \<notin> r_id ` set (db_entries s)" using lt by fastforce
    then show ?thesis using added d old lt by (auto dest!: lt)
  next
    case (changed b g)
    have only: "r = b" if "r \<in> set (db_entries s)" "has_id (r_id b) r" for r
      using same_id_same_row [OF d that(1) changed(1)] that(2) by (simp add: has_id_def)
    have "filter (\<lambda>e. te_timesheet e = j) (db_entries s') = filter (\<lambda>e. te_timesheet e = j) (db_entries s)" if "j \<noteq> r_id t"
      unfolding changed(6) using that changed(3,4)
      by (intro filter_update_in) (auto dest!: only simp: same_entry_def)
    moreover have "map r_id (db_entries s') = map r_id (db_entries s)"
      unfolding changed(6) using changed(4) by (intro map_update_in) (simp add: same_entry_def)
    moreover have "r_id e < db_next s' \<and>
       (e \<in> set (db_entries s) \<and> te_timesheet e \<noteq> r_id t \<or>
        mine ac e \<and> te_timesheet e = r_id t \<and> is_within_week (te_date e) (ts_week t))" if "e \<in> set (db_entries s')" for e
      using that unfolding changed(6)
    proof (cases rule: update_in_cases)
      case (updated q)
      have q: "q = b" by (rule only [OF updated(1,3)])
      have "r_id b < db_next s'" using lt [OF changed(1)] changed(7) by simp
      then show ?thesis
        using updated(4) q changed(2-5) entry_of_sheet(2) [OF assms(2) changed(1) assms(3) changed(3)]
        by (simp add: same_entry_def mine_def)
    next
      case kept
      then show ?thesis using old [OF kept] lt [OF kept] changed(7) by simp
    qed
    ultimately show ?thesis using d changed(7) by simp
  next
    case (removed b)
    have only: "r = b" if "r \<in> set (db_entries s)" "has_id (r_id b) r" for r
      using same_id_same_row [OF d that(1) removed(1)] that(2) by (simp add: has_id_def)
    have "filter (\<lambda>e. te_timesheet e = j) (db_entries s') = filter (\<lambda>e. te_timesheet e = j) (db_entries s)" if "j \<noteq> r_id t"
      unfolding removed(4) using that removed(3) by (intro filter_delete_in) (auto dest!: only)
    moreover have "distinct (map r_id (db_entries s'))"
      unfolding removed(4) using d by (simp add: delete_in_def delete_rows_def distinct_map_filter)
    moreover have "e \<in> set (db_entries s)" if "e \<in> set (db_entries s')" for e
      using that unfolding removed(4) by (simp add: delete_in_def delete_rows_def)
    ultimately show ?thesis using removed(5) old lt by (meson order_less_le_trans)
  qed
  then show "j \<noteq> r_id t \<Longrightarrow> filter (\<lambda>e. te_timesheet e = j) (db_entries s') = filter (\<lambda>e. te_timesheet e = j) (db_entries s)"
    "distinct (map r_id (db_entries s'))" "db_next s \<le> db_next s'"
    "e \<in> set (db_entries s') \<Longrightarrow> r_id e < db_next s' \<and>
       (e \<in> set (db_entries s) \<and> te_timesheet e \<noteq> r_id t \<or>
        mine ac e \<and> te_timesheet e = r_id t \<and> is_within_week (te_date e) (ts_week t))"
    by blast+
qed

lemma time_ok_cong:
  assumes "db_timesheets s' = db_timesheets s" "db_entries s' = db_entries s" "db_next s \<le> db_next s'" "time_ok s"
  shows "time_ok s'"
proof -
  have "entry_fits s' = entry_fits s" "hours_on s' = hours_on s"
    using assms(1,2) by (simp_all add: entry_fits_def hours_on_def fun_eq_iff)
  then show ?thesis using assms by (auto simp: time_ok_def intro: table_ok_grow)
qed

lemma entry_fits_mono:
  assumes "\<And>t. t \<in> set (db_timesheets s) \<Longrightarrow> \<exists>u \<in> set (db_timesheets s'). r_id u = r_id t \<and> r_tenant u = r_tenant t \<and> ts_week u = ts_week t"
    "entry_fits s e"
  shows "entry_fits s' e"
  using assms(2) assms(1) unfolding entry_fits_def by metis

text \<open>A rewriting of the rows of one timesheet keeps its key, and the rows its entries refer to.\<close>

lemma same_sheet_update:
  assumes "same_sheet g"
  shows "map r_id (update_in ac P g t) = map r_id t"
    "map (\<lambda>t. (ts_user t, ts_week t)) (update_in ac P g t) = map (\<lambda>t. (ts_user t, ts_week t)) t"
    "q \<in> set t \<Longrightarrow> \<exists>u \<in> set (update_in ac P g t). r_id u = r_id q \<and> r_tenant u = r_tenant q \<and> ts_week u = ts_week q"
proof -
  show "map r_id (update_in ac P g t) = map r_id t"
    "map (\<lambda>t. (ts_user t, ts_week t)) (update_in ac P g t) = map (\<lambda>t. (ts_user t, ts_week t)) t"
    using assms by (intro map_update_in; simp add: same_sheet_def)+
  show "\<exists>u \<in> set (update_in ac P g t). r_id u = r_id q \<and> r_tenant u = r_tenant q \<and> ts_week u = ts_week q" if "q \<in> set t"
    using assms that by (cases "mine ac q \<and> P q") (auto simp: set_update_in same_sheet_def)
qed

lemma time_ok_moved:
  assumes "time_ok s" "find_timesheet ac i s = Some t" "same_sheet g" "sheet_ok t \<Longrightarrow> sheet_ok (g t)"
    "ts_total (g t) = ts_total t" "db_timesheets s' = update_in ac (has_id i) g (db_timesheets s)"
    "db_entries s' = db_entries s" "db_next s \<le> db_next s'"
  shows "time_ok s'"
proof -
  note ok = time_okD [OF assms(1)]
  note t = find_timesheet_SomeD [OF assms(2)]
  note keep = same_sheet_update [OF assms(3)]
  have only: "q = t" if "q \<in> set (db_timesheets s)" "has_id i q" for q
    using same_id_same_row [OF ok(5) that(1), of t] t that(2) by (simp add: has_id_def)
  have "r_id q < db_next s' \<and> sheet_ok q \<and> ts_total q = hours_on s' (r_id q)" if "q \<in> set (db_timesheets s')" for q
    using that unfolding assms(6)
  proof (cases rule: update_in_cases)
    case (updated p)
    then show ?thesis
      using only [OF updated(1,3)] ok(1) ok(3) [of t] t assms(3-5,7,8)
      by (auto simp: table_ok_def same_sheet_def hours_on_def)
  next
    case kept
    then show ?thesis using ok(1) ok(3) [OF kept] assms(7,8) by (auto simp: table_ok_def hours_on_def)
  qed
  moreover have "entry_fits s' e" if "e \<in> set (db_entries s)" for e
  proof (rule entry_fits_mono [of s s'])
    show "\<exists>u \<in> set (db_timesheets s'). r_id u = r_id q \<and> r_tenant u = r_tenant q \<and> ts_week u = ts_week q"
      if "q \<in> set (db_timesheets s)" for q
      using keep(3) [OF that] unfolding assms(6) .
    show "entry_fits s e" using ok(2) that by (simp add: table_ok_def)
  qed
  ultimately show ?thesis
    using ok keep(1,2) assms(6-8) by (auto simp: time_ok_def table_ok_def)
qed

lemma time_ok_opened:
  assumes "time_ok s" "db_timesheets s' = db_timesheets s @ [t]" "db_entries s' = db_entries s" "db_next s < db_next s'"
    "r_id t = db_next s" "sheet_ok t" "ts_total t = 0"
    "count_rows (\<lambda>q. ts_user q = ts_user t \<and> ts_week q = ts_week t) (db_timesheets s) = 0"
  shows "time_ok s'"
proof -
  note ok = time_okD [OF assms(1)]
  have "te_timesheet e < db_next s" if "e \<in> set (db_entries s)" for e
    using ok(1,2) that unfolding table_ok_def entry_fits_def by metis
  then have "filter (\<lambda>e. te_timesheet e = db_next s) (db_entries s) = []" by (fastforce simp: filter_empty_conv)
  then have "hours_on s (db_next s) = 0" by (simp add: hours_on_def)
  moreover have "hours_on s' = hours_on s" using assms(3) by (simp add: hours_on_def fun_eq_iff)
  moreover have "entry_fits s' e" if "e \<in> set (db_entries s)" for e
    using ok(2) that assms(2) by (intro entry_fits_mono [of s s']) (auto simp: table_ok_def)
  moreover have "db_next s \<notin> r_id ` set (db_timesheets s)" using ok(1) by (fastforce simp: table_ok_def)
  moreover have "(ts_user t, ts_week t) \<notin> (\<lambda>t. (ts_user t, ts_week t)) ` set (db_timesheets s)"
    using assms(8) by (auto simp: table_simps)
  ultimately show ?thesis
    using ok assms by (auto simp: time_ok_def table_ok_def)
qed

lemma time_ok_edited:
  assumes "time_ok s" "t \<in> set (db_timesheets s)" "r_id t = i" "find_timesheet ac i s \<noteq> None" "editable_sheet t"
    "entries_step ac t s s'"
    "db_timesheets s' = update_in ac (has_id i) (\<lambda>x. x\<lparr> ts_total := entry_sum ac i s' \<rparr>) (db_timesheets s)"
  shows "time_ok s'"
proof -
  note ok = time_okD [OF assms(1)]
  let ?g = "\<lambda>x. x\<lparr> ts_total := entry_sum ac i s' \<rparr>"
  have g: "same_sheet ?g" by (simp add: same_sheet_def)
  note keep = same_sheet_update [OF g]
  have only: "q = t" if "q \<in> set (db_timesheets s)" "has_id i q" for q
    using same_id_same_row [OF ok(5) that(1) assms(2)] assms(3) that(2) by (simp add: has_id_def)
  have m: "mine ac t" using assms(4) only by (auto simp: find_timesheet_def has_id_def dest!: first_in_Some)
  note eff = entries_step_effect [OF assms(6,1,2) m]
  have sum: "entry_sum ac i s' = hours_on s' i"
    unfolding entry_sum_def hours_on_def many_in_def find_many_def using eff(4) assms(3)
    by (intro arg_cong [where f = "\<lambda>x. sum_list (map te_hours x)"] filter_cong) auto
  have "r_id q < db_next s' \<and> sheet_ok q \<and> ts_total q = hours_on s' (r_id q)" if "q \<in> set (db_timesheets s')" for q
  proof -
    have "q \<in> ?g ` {r \<in> set (db_timesheets s). mine ac r \<and> has_id i r} \<or>
        q \<in> {r \<in> set (db_timesheets s). \<not> (mine ac r \<and> has_id i r)}"
      using that unfolding assms(7) set_update_in by blast
    then show ?thesis
    proof
      assume "q \<in> ?g ` {r \<in> set (db_timesheets s). mine ac r \<and> has_id i r}"
      then have "q = ?g t" using only by auto
      then show ?thesis
        using ok(1) assms(2,3,5) eff(3) sum by (auto simp: table_ok_def sheet_ok_def editable_sheet_def)
    next
      assume "q \<in> {r \<in> set (db_timesheets s). \<not> (mine ac r \<and> has_id i r)}"
      then have q: "q \<in> set (db_timesheets s)" "r_id q \<noteq> i" using only m by (auto simp: has_id_def)
      then have "hours_on s' (r_id q) = hours_on s (r_id q)" using eff(1) assms(3) by (simp add: hours_on_def)
      then show ?thesis using q ok(1) ok(3) [OF q(1)] eff(3) by (auto simp: table_ok_def)
    qed
  qed
  moreover have "entry_fits s' e" if "e \<in> set (db_entries s')" for e
  proof -
    from eff(4) [OF that] consider "e \<in> set (db_entries s)"
      | "mine ac e" "te_timesheet e = r_id t" "is_within_week (te_date e) (ts_week t)" by blast
    then show ?thesis
    proof cases
      case 1
      show ?thesis
      proof (rule entry_fits_mono [of s s'])
        show "\<exists>u \<in> set (db_timesheets s'). r_id u = r_id q \<and> r_tenant u = r_tenant q \<and> ts_week u = ts_week q"
          if "q \<in> set (db_timesheets s)" for q
          using keep(3) [OF that] unfolding assms(7) .
        show "entry_fits s e" using ok(2) 1 by (simp add: table_ok_def)
      qed
    next
      case 2
      obtain u where "u \<in> set (db_timesheets s')" "r_id u = r_id t" "r_tenant u = r_tenant t" "ts_week u = ts_week t"
        using keep(3) [OF assms(2)] unfolding assms(7) by blast
      then show ?thesis using 2 m by (auto simp: entry_fits_def mine_def)
    qed
  qed
  ultimately show ?thesis
    using ok(4,5) eff(2,4) keep(1,2) unfolding time_ok_def table_ok_def
    by (simp add: assms(7) [symmetric]) (metis (no_types, lifting) assms(7))
qed

lemma time_step_ok: "time_step ac s s' \<Longrightarrow> time_ok s \<Longrightarrow> time_ok s'"
proof (induction rule: time_step.induct)
  case (idle s' s)
  then show ?case by (rule time_ok_cong)
next
  case (opened s' s t)
  show ?case by (rule time_ok_opened [OF opened(8,1-7)])
next
  case (moved i s t g s')
  show ?case by (rule time_ok_moved [OF moved(9,1,3-8)])
next
  case (edited t s i s')
  show ?case by (rule time_ok_edited [OF edited(8,1-4) edited(6,7)])
qed

text \<open>
  C31. The timesheets stay consistent under every sequence of calls, by whichever users: keys are
  unique, a user has one timesheet per week, which starts on a Monday; every entry belongs to a
  timesheet of its tenant and lies within its week; the stored total of a timesheet is the sum of
  the hours of its entries; a timesheet is submitted or approved only with hours on it, is approved
  exactly when it has an approver, who is not its owner, and a rejected one has its reason.
\<close>

theorem timesheets_invariant:
  assumes "time_ok s"
  shows "time_ok (call_resources calls s)"
  using assms
proof (induction calls arbitrary: s)
  case (Cons c calls)
  obtain ac env d where c: "c = (ac, env, d)" by (cases c)
  have "time_ok (call_resource ac env d s)" by (rule time_step_ok [OF call_resource_step Cons.prems])
  from Cons.IH [OF this] show ?case by (simp add: c call_resources_def)
qed (simp add: call_resources_def)

section \<open>Submitted and approved timesheets\<close>

text \<open>Only the owner changes the hours of a timesheet, and only while it is open or rejected.\<close>

lemma hours_by_owner_only:
  assumes "time_step ac s s'" "time_ok s" "t \<in> set (db_timesheets s)" "\<not> editable_sheet t \<or> ts_user t \<noteq> ac_user ac"
  shows "filter (\<lambda>e. te_timesheet e = r_id t) (db_entries s') = filter (\<lambda>e. te_timesheet e = r_id t) (db_entries s)"
  using assms(1)
proof cases
  case (edited q i)
  note ok = time_okD [OF assms(2)]
  have "r_id t \<noteq> r_id q"
    using same_id_same_row [OF ok(5) assms(3) edited(1)] assms(4) edited(4,5) by auto
  moreover have "mine ac q"
  proof -
    obtain p where p: "find_timesheet ac i s = Some p" using edited(3) by blast
    then have "p = q" using find_timesheet_SomeD [OF p] edited(1,2) by (intro same_id_same_row [OF ok(5)]) auto
    then show ?thesis using find_timesheet_SomeD [OF p] by simp
  qed
  ultimately show ?thesis by (intro entries_step_effect(1) [OF edited(6) assms(2) edited(1)])
qed simp_all

lemma approved_sheet_kept:
  assumes "time_step ac s s'" "time_ok s" "t \<in> set (db_timesheets s)" "ts_status t = timesheet_status.APPROVED"
  shows "t \<in> set (db_timesheets s')"
proof -
  note same = same_id_same_row [OF time_okD(5) [OF assms(2)] assms(3)]
  from assms(1) show ?thesis
  proof cases
    case (moved i q)
    then have "r_id t \<noteq> i" using same [of q] find_timesheet_SomeD [OF moved(1)] assms(4) by auto
    then show ?thesis using assms(3) by (simp add: moved(6) set_update_in has_id_def)
  next
    case (edited q i)
    then have "r_id t \<noteq> i" using same [of q] assms(4) by (auto simp: editable_sheet_def)
    then show ?thesis using assms(3) by (simp add: edited(7) set_update_in has_id_def)
  qed (simp_all add: assms(3))
qed

text \<open>
  An approved timesheet is final: whatever calls are made afterwards, by whichever users, its
  row stays as it was approved, and so do its entries; none is added, changed or removed.
\<close>

theorem approved_timesheet_final:
  assumes "time_ok s" "t \<in> set (db_timesheets s)" "ts_status t = timesheet_status.APPROVED"
  shows "t \<in> set (db_timesheets (call_resources calls s)) \<and>
    filter (\<lambda>e. te_timesheet e = r_id t) (db_entries (call_resources calls s)) =
    filter (\<lambda>e. te_timesheet e = r_id t) (db_entries s)"
  using assms(1,2)
proof (induction calls arbitrary: s)
  case (Cons c calls)
  obtain ac env d where c: "c = (ac, env, d)" by (cases c)
  note step = call_resource_step [of ac s env d]
  have "\<not> editable_sheet t" using assms(3) by (simp add: editable_sheet_def)
  then have "filter (\<lambda>e. te_timesheet e = r_id t) (db_entries (call_resource ac env d s)) =
      filter (\<lambda>e. te_timesheet e = r_id t) (db_entries s)"
    using hours_by_owner_only [OF step Cons.prems] by simp
  with Cons.IH [OF time_step_ok [OF step Cons.prems(1)] approved_sheet_kept [OF step Cons.prems assms(3)]]
  show ?case by (simp add: c call_resources_def)
qed (simp add: call_resources_def)

section \<open>Examples\<close>

text \<open>A week of user 2 (from Monday, 5 January 1970) with one entry, approved by user 3.\<close>

definition ex_sheet :: timesheet where
  "ex_sheet = \<lparr> r_id = 70, r_tenant = 1, r_created = 0, ts_user = 2, ts_week = 4 * 86400000,
     ts_status = timesheet_status.APPROVED, ts_total = 15 / 2, ts_submitted_at = Some 0, ts_approved_by = Some 3,
     ts_approved_at = Some 0, ts_reject_reason = None \<rparr>"

definition ex_entry :: time_entry where
  "ex_entry = \<lparr> r_id = 71, r_tenant = 1, r_created = 0, te_timesheet = 70, te_engagement = None,
     te_charge_code = 5, te_date = 5 * 86400000, te_hours = 15 / 2, te_notes = None \<rparr>"

definition ex_week :: db where
  "ex_week = empty_db\<lparr> db_next := 100, db_timesheets := [ex_sheet], db_entries := [ex_entry] \<rparr>"

definition ex_clerk :: actor where
  "ex_clerk = ex_actor 2 [JUNIOR_AUDITOR] [''time:approve'']"

lemma ex_week_ok: "time_ok ex_week"
  by (simp add: time_ok_def ex_week_def table_ok_def entry_fits_def hours_on_def sheet_ok_def editable_sheet_def
      ex_sheet_def ex_entry_def get_utc_day_def day_of_def ms_per_day_def is_within_week_def add_days_def)

lemma timesheets_invariant_witness:
  "time_ok (call_resources [(ex_clerk, ex_env, Current_Timesheet None),
     (ex_clerk, ex_env, Delete_Entry 71), (ex_clerk, ex_env, Submit_Timesheet 100)] ex_week)"
  by (rule timesheets_invariant [OF ex_week_ok])

lemma approved_timesheet_final_witness:
  "ex_sheet \<in> set (db_timesheets (call_resources [(ex_clerk, ex_env, Delete_Entry 71),
     (ex_clerk, ex_env, Reject_Timesheet 70 ''late'')] ex_week))"
  using approved_timesheet_final [OF ex_week_ok, of ex_sheet]
  by (simp add: ex_week_def ex_sheet_def)

end
