(* ===== verification/Programs.thy ===== *)
theory Programs
  imports Workpapers
begin

text \<open>
  \<open>programs/programs.service.ts\<close>: the audit programmes of an engagement and their steps, from a
  library item or by hand, their approval, the order of the steps, and the workpaper started from
  a step.
\<close>

fun program_status_name :: "program_status \<Rightarrow> string" where
  "program_status_name program_status.DRAFT = ''DRAFT''"
| "program_status_name program_status.PENDING_APPROVAL = ''PENDING_APPROVAL''"
| "program_status_name program_status.APPROVED = ''APPROVED''"
| "program_status_name program_status.IN_PROGRESS = ''IN_PROGRESS''"
| "program_status_name program_status.COMPLETED = ''COMPLETED''"

section \<open>Steps from a library item\<close>

record step_input =
  sn_section :: string
  sn_reference :: string
  sn_objective :: string
  sn_procedure :: string
  sn_hours :: "rat option"
  sn_order :: int

text \<open>\<open>typeof x === 'string' && x.trim() ? x.trim() : d\<close>\<close>

definition trimmed_or :: "json option \<Rightarrow> string \<Rightarrow> string" where
  "trimmed_or v d = (case json_string v of None \<Rightarrow> d | Some x \<Rightarrow> if trim x \<noteq> [] then trim x else d)"

definition json_number :: "json option \<Rightarrow> rat option" where
  "json_number v = (case v of Some (JNum n) \<Rightarrow> Some n | _ \<Rightarrow> None)"

definition json_list :: "json option \<Rightarrow> json list" where
  "json_list v = (case v of Some (JArr xs) \<Rightarrow> xs | _ \<Rightarrow> [])"

definition library_step :: "string \<Rightarrow> nat \<Rightarrow> nat \<Rightarrow> json \<Rightarrow> step_input" where
  "library_step section si i st =
     \<lparr> sn_section = section,
       sn_reference = trimmed_or (json_field st ''reference'') (show_nat (si + 1) @ ''.'' @ show_nat (i + 1)),
       sn_objective = coalesce (json_string (json_field st ''objective'')) [],
       sn_procedure = coalesce (json_string (json_field st ''procedure'')) [],
       sn_hours = json_number (json_field st ''estimatedHours''), sn_order = 0 \<rparr>"

definition library_section :: "nat \<Rightarrow> json \<Rightarrow> step_input list" where
  "library_section si sec =
     (let name = trimmed_or (json_field sec ''name'') (''Section '' @ show_nat (si + 1));
          steps = json_list (json_field sec ''steps'')
      in map2 (library_step name si) [0..<length steps] steps)"

text \<open>The running number over all sections.\<close>

definition numbered :: "step_input list \<Rightarrow> step_input list" where
  "numbered xs = map2 (\<lambda>n x. x\<lparr> sn_order := int n \<rparr>) [0..<length xs] xs"

definition steps_from_library_content :: "json \<Rightarrow> step_input list" where
  "steps_from_library_content content =
     (let sections = json_list (json_field content ''sections'')
      in numbered (concat (map2 library_section [0..<length sections] sections)))"

text \<open>The first reference that has been seen before.\<close>

fun repeated_reference :: "string list \<Rightarrow> string list \<Rightarrow> string option" where
  "repeated_reference seen [] = None"
| "repeated_reference seen (r # rs) = (if r \<in> set seen then Some r else repeated_reference (r # seen) rs)"

section \<open>Programmes\<close>

definition live_engagement :: "actor \<Rightarrow> uuid \<Rightarrow> db \<Rightarrow> engagement option" where
  "live_engagement ac i s = first_in ac (\<lambda>e. has_id i e \<and> e_deleted_at e = None) (db_engagements s)"

definition program_steps_of :: "uuid \<Rightarrow> db \<Rightarrow> program_step list" where
  "program_steps_of p s = filter (\<lambda>st. st_program st = p) (db_steps s)"

definition list_programs :: "actor \<Rightarrow> uuid \<Rightarrow> (program \<times> program_step list) list op" where
  "list_programs ac e =
     then_h (check_state_h (\<lambda>s. live_engagement ac e s \<noteq> None) (NotFound ''Engagement not found''))
       (gets_h (\<lambda>s. map (\<lambda>p. (p, sort_key st_order (program_steps_of (r_id p) s)))
          (sort_key r_created (many_in ac (\<lambda>p. pr_engagement p = e) (db_programs s)))))"

record create_program_dto =
  cp_title :: string
  cp_description :: "string option"
  cp_library :: "uuid option"

definition visible_item :: "actor \<Rightarrow> library_item \<Rightarrow> bool" where
  "visible_item ac l \<longleftrightarrow> li_tenant l = Some (ac_tenant ac) \<or> li_tenant l = None"

definition find_library_program :: "actor \<Rightarrow> uuid \<Rightarrow> db \<Rightarrow> library_item option" where
  "find_library_program ac i s = find_first (\<lambda>l. visible_item ac l \<and> li_id l = i \<and> li_type l = AUDIT_PROGRAM \<and>
     li_status l \<in> {PUBLISHED, library_status.DRAFT, library_status.PENDING_APPROVAL}) (db_library s)"

text \<open>\<open>usageCount: { increment: 1 }\<close>\<close>

definition count_usage :: "actor \<Rightarrow> uuid \<Rightarrow> db \<Rightarrow> db" where
  "count_usage ac i s = s\<lparr> db_library :=
     update_rows (\<lambda>l. visible_item ac l \<and> li_id l = i) (\<lambda>l. l\<lparr> li_usage := li_usage l + 1 \<rparr>) (db_library s) \<rparr>"

definition library_steps :: "actor \<Rightarrow> uuid option \<Rightarrow> step_input list op" where
  "library_steps ac lib =
     (case lib of
        None \<Rightarrow> return_h []
      | Some i \<Rightarrow>
          bind_h (demand_h (find_library_program ac i) (BadRequest ''Library audit programme not found'')) (\<lambda>item.
          let steps = steps_from_library_content (li_content item) in
          then_h (check_h (steps \<noteq> []) (BadRequest ''Library item has no steps''))
         (then_h (case repeated_reference [] (map sn_reference steps) of
                    None \<Rightarrow> return_h ()
                  | Some r \<Rightarrow> throw_h (BadRequest (''Library item has duplicate step reference '' @ r)))
         (then_h (modify_h (count_usage ac (li_id item)))
           (return_h steps)))))"

definition new_program :: "actor \<Rightarrow> env \<Rightarrow> uuid \<Rightarrow> create_program_dto \<Rightarrow> db \<Rightarrow> program" where
  "new_program ac env e dto s =
     \<lparr> r_id = db_next s, r_tenant = ac_tenant ac, r_created = env_now env, pr_engagement = e,
       pr_title = cp_title dto, pr_description = cp_description dto, pr_status = program_status.DRAFT,
       pr_library = cp_library dto, pr_approved_by = None, pr_approved_at = None \<rparr>"

definition library_step_row :: "actor \<Rightarrow> env \<Rightarrow> uuid \<Rightarrow> step_input \<Rightarrow> db \<Rightarrow> program_step" where
  "library_step_row ac env p x s =
     \<lparr> r_id = db_next s, r_tenant = ac_tenant ac, r_created = env_now env, st_program = p,
       st_section = sn_section x, st_reference = sn_reference x, st_order = sn_order x,
       st_objective = sn_objective x, st_procedure = sn_procedure x, st_risk = None, st_control = None,
       st_assignee = None, st_hours = sn_hours x, st_status = step_status.NOT_STARTED \<rparr>"

definition insert_step :: "program_step \<Rightarrow> db \<Rightarrow> db" where
  "insert_step st s = s\<lparr> db_steps := insert_row st (db_steps s), db_next := db_next s + 1 \<rparr>"

definition insert_steps :: "actor \<Rightarrow> env \<Rightarrow> uuid \<Rightarrow> step_input list \<Rightarrow> db \<Rightarrow> db" where
  "insert_steps ac env p xs s = fold (\<lambda>x t. insert_step (library_step_row ac env p x t) t) xs s"

definition insert_program :: "actor \<Rightarrow> env \<Rightarrow> step_input list \<Rightarrow> program \<Rightarrow> db \<Rightarrow> db" where
  "insert_program ac env xs p s =
     insert_steps ac env (r_id p) xs (s\<lparr> db_programs := insert_row p (db_programs s), db_next := db_next s + 1 \<rparr>)"

definition create_program :: "actor \<Rightarrow> env \<Rightarrow> uuid \<Rightarrow> create_program_dto \<Rightarrow> program op" where
  "create_program ac env e dto =
     bind_h (demand_h (live_engagement ac e) (NotFound ''Engagement not found'')) (\<lambda>g.
     then_h (check_h (e_stage g \<noteq> engagement_stage.CLOSED) (Conflict ''Closed engagements cannot receive programmes''))
    (bind_h (library_steps ac (cp_library dto)) (\<lambda>steps.
     bind_h (create_h (new_program ac env e dto) (insert_program ac env steps)) (\<lambda>p.
     then_h (audit_record ac env (audit_of ''program.created'' ''AuditProgram'' (r_id p) No_Snapshot (Program_Row p) []))
     (return_h p)))))"

definition find_program :: "actor \<Rightarrow> uuid \<Rightarrow> db \<Rightarrow> program option" where
  "find_program ac i s = first_in ac (has_id i) (db_programs s)"

definition assert_program :: "actor \<Rightarrow> uuid \<Rightarrow> program op" where
  "assert_program ac i = demand_h (find_program ac i) (NotFound ''Programme not found'')"

definition update_program_row :: "actor \<Rightarrow> uuid \<Rightarrow> (program \<Rightarrow> program) \<Rightarrow> db \<Rightarrow> db" where
  "update_program_row ac i g s = s\<lparr> db_programs := update_in ac (has_id i) g (db_programs s) \<rparr>"

definition approved_program :: "uuid \<Rightarrow> time \<Rightarrow> program \<Rightarrow> program" where
  "approved_program user now p =
     p\<lparr> pr_status := program_status.APPROVED, pr_approved_by := Some user, pr_approved_at := Some now \<rparr>"

definition quoted :: "string \<Rightarrow> string" where
  "quoted x = [CHR 0x22] @ x @ [CHR 0x22]"

definition approve_program :: "actor \<Rightarrow> env \<Rightarrow> uuid \<Rightarrow> program op" where
  "approve_program ac env i =
     bind_h (assert_program ac i) (\<lambda>p.
     then_h (check_h (pr_status p \<notin> {program_status.APPROVED, program_status.IN_PROGRESS, program_status.COMPLETED})
               (Conflict (''Programme is already '' @ to_lower (program_status_name (pr_status p)))))
    (then_h (check_state_h (\<lambda>s. count_in ac (\<lambda>st. st_program st = i) (db_steps s) \<noteq> 0)
               (BadRequest ''A programme needs at least one step before approval''))
    (then_h (modify_h (update_program_row ac i (approved_program (ac_user ac) (env_now env))))
    (then_h (audit_record ac env (audit_of ''program.approved'' ''AuditProgram'' i
               (Fields [(''status'', JStr (program_status_name (pr_status p)))])
               (Fields [(''status'', JStr (program_status_name program_status.APPROVED))]) []))
    (bind_h (gets_h (\<lambda>s. first_in ac (has_id (pr_engagement p)) (db_engagements s))) (\<lambda>e.
     then_h (case e of
               None \<Rightarrow> return_h ()
             | Some g \<Rightarrow> when_h (e_lead g \<noteq> None \<and> e_lead g \<noteq> Some (ac_user ac))
                 (notify ac env (e_lead g)
                   \<lparr> ni_type = ''program.approved'',
                     ni_title = ''Programme '' @ quoted (pr_title p) @ '' approved on '' @ e_number g,
                     ni_body = None, ni_link = Some (''/engagements/'' @ show_nat (pr_engagement p) @ ''/programme''),
                     ni_payload = JObj [(''programId'', JId i)] \<rparr>))
     (return_h (approved_program (ac_user ac) (env_now env) p))))))))"

section \<open>Steps\<close>

record create_step_dto =
  cs_section :: string
  cs_reference :: string
  cs_objective :: string
  cs_procedure :: string
  cs_risk :: "uuid option"
  cs_control :: "uuid option"
  cs_assignee :: "uuid option"
  cs_hours :: "decimal option"
  cs_order :: "int option"

record update_step_dto =
  us_section :: "string option"
  us_reference :: "string option"
  us_objective :: "string option"
  us_procedure :: "string option"
  us_risk :: "uuid field"
  us_control :: "uuid field"
  us_assignee :: "uuid field"
  us_hours :: "decimal field"
  us_order :: "int option"
  us_status :: "step_status option"

definition notify_step_assignee :: "actor \<Rightarrow> env \<Rightarrow> uuid option \<Rightarrow> string \<Rightarrow> string \<Rightarrow> uuid \<Rightarrow> unit op" where
  "notify_step_assignee ac env assignee reference objective e =
     when_h (assignee \<noteq> None \<and> assignee \<noteq> Some (ac_user ac))
       (notify ac env assignee
          \<lparr> ni_type = ''program_step.assigned'', ni_title = ''Programme step '' @ reference @ '' assigned to you'',
            ni_body = Some objective, ni_link = Some (''/engagements/'' @ show_nat e @ ''/programme''),
            ni_payload = JObj [(''engagementId'', JId e)] \<rparr>)"

text \<open>\<open>dto.sortOrder ?? (max ?? -1) + 1\<close>\<close>

definition next_order :: "actor \<Rightarrow> uuid \<Rightarrow> db \<Rightarrow> int" where
  "next_order ac p s =
     (case map st_order (many_in ac (\<lambda>st. st_program st = p) (db_steps s)) of
        [] \<Rightarrow> 0 | n # ns \<Rightarrow> fold max ns n + 1)"

definition new_step :: "actor \<Rightarrow> env \<Rightarrow> uuid \<Rightarrow> create_step_dto \<Rightarrow> int \<Rightarrow> db \<Rightarrow> program_step" where
  "new_step ac env p dto n s =
     \<lparr> r_id = db_next s, r_tenant = ac_tenant ac, r_created = env_now env, st_program = p,
       st_section = cs_section dto, st_reference = cs_reference dto, st_order = n,
       st_objective = cs_objective dto, st_procedure = cs_procedure dto, st_risk = cs_risk dto,
       st_control = cs_control dto, st_assignee = cs_assignee dto, st_hours = cs_hours dto,
       st_status = step_status.NOT_STARTED \<rparr>"

definition duplicate_step :: "string \<Rightarrow> http_error" where
  "duplicate_step ref = Conflict (''Step reference '' @ ref @ '' already exists in this programme'')"

text \<open>The constraint \<open>@@unique([programId, reference])\<close>, for a row other than \<open>i\<close>.\<close>

definition step_unique :: "uuid \<Rightarrow> string \<Rightarrow> uuid option \<Rightarrow> unit op" where
  "step_unique p ref i = check_state_h (\<lambda>s. count_rows (\<lambda>st. st_program st = p \<and> st_reference st = ref \<and>
     Some (r_id st) \<noteq> i) (db_steps s) = 0) UniqueViolation"

definition started_program :: "program \<Rightarrow> program" where
  "started_program p = p\<lparr> pr_status := program_status.IN_PROGRESS \<rparr>"

definition add_step :: "actor \<Rightarrow> env \<Rightarrow> uuid \<Rightarrow> create_step_dto \<Rightarrow> program_step op" where
  "add_step ac env i dto =
     bind_h (assert_program ac i) (\<lambda>p.
     then_h (check_h (pr_status p \<noteq> program_status.COMPLETED) (Conflict ''Completed programmes cannot be changed''))
    (then_h (check_state_h (\<lambda>s. first_in ac (\<lambda>st. st_program st = i \<and> st_reference st = cs_reference dto)
               (db_steps s) = None) (duplicate_step (cs_reference dto)))
    (bind_h (gets_h (\<lambda>s. coalesce (cs_order dto) (next_order ac i s))) (\<lambda>n.
     then_h (step_unique i (cs_reference dto) None)
    (bind_h (create_h (new_step ac env i dto n) insert_step) (\<lambda>st.
     then_h (when_h (pr_status p = program_status.APPROVED) (modify_h (update_program_row ac i started_program)))
    (then_h (audit_record ac env (audit_of ''program_step.created'' ''AuditProgramStep'' (r_id st) No_Snapshot
               (Step_Row st) []))
    (then_h (notify_step_assignee ac env (st_assignee st) (st_reference st) (st_objective st) (pr_engagement p))
     (return_h st)))))))))"

definition patch_step :: "update_step_dto \<Rightarrow> program_step \<Rightarrow> program_step" where
  "patch_step dto st =
     st\<lparr> st_section := patch (us_section dto) (st_section st), st_reference := patch (us_reference dto) (st_reference st),
         st_objective := patch (us_objective dto) (st_objective st),
         st_procedure := patch (us_procedure dto) (st_procedure st),
         st_risk := patch_nullable (us_risk dto) (st_risk st), st_control := patch_nullable (us_control dto) (st_control st),
         st_assignee := patch_nullable (us_assignee dto) (st_assignee st),
         st_hours := patch_nullable (us_hours dto) (st_hours st), st_order := patch (us_order dto) (st_order st),
         st_status := patch (us_status dto) (st_status st) \<rparr>"

definition find_step :: "actor \<Rightarrow> uuid \<Rightarrow> db \<Rightarrow> program_step option" where
  "find_step ac i s = first_in ac (has_id i) (db_steps s)"

text \<open>A step with its programme, by its foreign key.\<close>

definition assert_step :: "actor \<Rightarrow> uuid \<Rightarrow> (program_step \<times> program) op" where
  "assert_step ac i =
     bind_h (demand_h (find_step ac i) (NotFound ''Programme step not found'')) (\<lambda>st.
     bind_h (demand_h (\<lambda>s. find_first (has_id (st_program st)) (db_programs s)) RecordRequired) (\<lambda>p.
     return_h (st, p)))"

definition update_step_row :: "actor \<Rightarrow> uuid \<Rightarrow> (program_step \<Rightarrow> program_step) \<Rightarrow> db \<Rightarrow> db" where
  "update_step_row ac i g s = s\<lparr> db_steps := update_in ac (has_id i) g (db_steps s) \<rparr>"

definition check_step_renamed :: "actor \<Rightarrow> uuid \<Rightarrow> update_step_dto \<Rightarrow> program_step \<Rightarrow> unit op" where
  "check_step_renamed ac i dto st =
     (case us_reference dto of
        None \<Rightarrow> return_h ()
      | Some ref \<Rightarrow> when_h (ref \<noteq> [] \<and> ref \<noteq> st_reference st)
          (check_state_h (\<lambda>s. first_in ac (\<lambda>x. st_program x = st_program st \<and> st_reference x = ref \<and> \<not> has_id i x)
             (db_steps s) = None) (duplicate_step ref)))"

definition update_step :: "actor \<Rightarrow> env \<Rightarrow> uuid \<Rightarrow> update_step_dto \<Rightarrow> program_step op" where
  "update_step ac env i dto =
     bind_h (assert_step ac i) (\<lambda>(before, p).
     then_h (check_step_renamed ac i dto before)
    (let after = patch_step dto before in
     then_h (step_unique (st_program before) (st_reference after) (Some i))
    (then_h (modify_h (update_step_row ac i (patch_step dto)))
    (then_h (when_h (us_status dto \<noteq> None \<and> pr_status p = program_status.APPROVED \<and>
                     us_status dto \<noteq> Some step_status.NOT_STARTED)
               (modify_h (update_program_row ac (st_program before) started_program)))
    (then_h (audit_record ac env (audit_of ''program_step.updated'' ''AuditProgramStep'' i (Step_Row before)
               (Step_Row after) []))
    (then_h (when_h (or_null (us_assignee dto) \<noteq> None \<and> or_null (us_assignee dto) \<noteq> st_assignee before)
               (notify_step_assignee ac env (or_null (us_assignee dto)) (st_reference after) (st_objective after)
                  (pr_engagement p)))
     (return_h after)))))))"

definition delete_step :: "actor \<Rightarrow> env \<Rightarrow> uuid \<Rightarrow> unit op" where
  "delete_step ac env i =
     bind_h (demand_h (find_step ac i) (NotFound ''Programme step not found'')) (\<lambda>before.
     then_h (check_state_h (\<lambda>s. count_rows (\<lambda>w. w_step w = Some i) (db_workpapers s) = 0)
               (Conflict ''Step has linked workpapers; mark it NOT_APPLICABLE instead''))
    (then_h (modify_h (\<lambda>s. s\<lparr> db_steps := delete_in ac (has_id i) (db_steps s) \<rparr>))
     (audit_record ac env (audit_of ''program_step.deleted'' ''AuditProgramStep'' i (Step_Row before) No_Snapshot []))))"

section \<open>The order of the steps\<close>

definition new_order :: "uuid list \<Rightarrow> uuid list \<Rightarrow> uuid list" where
  "new_order chosen ids = chosen @ filter (\<lambda>i. i \<notin> set chosen) ids"

text \<open>The loop over the positions, one update each.\<close>

definition set_positions :: "actor \<Rightarrow> uuid list \<Rightarrow> unit op" where
  "set_positions ac ids =
     for_h (\<lambda>(n, i). modify_h (update_step_row ac i (\<lambda>st. st\<lparr> st_order := int n \<rparr>))) (enumerate 0 ids)"

definition reorder_steps :: "actor \<Rightarrow> env \<Rightarrow> uuid \<Rightarrow> uuid list \<Rightarrow> program option op" where
  "reorder_steps ac env i chosen =
     then_h (bind_h (assert_program ac i) (\<lambda>_. return_h ()))
    (bind_h (gets_h (\<lambda>s. map r_id (many_in ac (\<lambda>st. st_program st = i) (db_steps s)))) (\<lambda>ids.
     then_h (check_h (list_all (\<lambda>c. c \<in> set ids) chosen) (BadRequest ''stepIds contains steps not in this programme''))
    (let ordered = new_order chosen ids in
     then_h (transaction_h (set_positions ac ordered))
    (then_h (audit_record ac env (audit_of ''program.reordered'' ''AuditProgram'' i No_Snapshot No_Snapshot
               [(''order'', JArr (map JId ordered))]))
     (gets_h (find_program ac i))))))"

section \<open>A workpaper from a step\<close>

fun show_base36 :: "nat \<Rightarrow> string" where
  "show_base36 n =
     (let d = n mod 36; c = char_of (if d < 10 then 48 + d else 87 + d)
      in if n < 36 then [c] else show_base36 (n div 36) @ [c])"

declare show_base36.simps [simp del]

text \<open>\<open>now.toString(36).slice(-4).toUpperCase()\<close>\<close>

definition clock_suffix :: "time \<Rightarrow> string" where
  "clock_suffix now = (let x = show_base36 (nat now) in map upper_char (drop (length x - 4) x))"

definition shortened :: "nat \<Rightarrow> string \<Rightarrow> string" where
  "shortened n x = (if length x > n then take (n - 3) x @ ''...'' else x)"

definition create_workpaper_from_step :: "actor \<Rightarrow> env \<Rightarrow> uuid \<Rightarrow> workpaper op" where
  "create_workpaper_from_step ac env i =
     bind_h (assert_step ac i) (\<lambda>(st, p).
     bind_h (gets_h (\<lambda>s. first_in ac (\<lambda>w. w_step w = Some i \<and> w_deleted_at w = None) (db_workpapers s))) (\<lambda>existing.
     then_h (case existing of
               None \<Rightarrow> return_h ()
             | Some w \<Rightarrow> throw_h (Conflict (''Workpaper '' @ w_reference w @ '' is already linked to this step'')))
    (bind_h (gets_h (\<lambda>s. first_in ac (\<lambda>w. w_engagement w = pr_engagement p \<and> w_reference w = st_reference st)
               (db_workpapers s))) (\<lambda>taken.
     create_workpaper ac env (pr_engagement p)
       \<lparr> cw_reference = (if taken = None then st_reference st
                         else st_reference st @ ''-'' @ clock_suffix (env_now env)),
         cw_title = shortened 200 (st_objective st), cw_objective = Some (st_objective st),
         cw_procedure = Some (st_procedure st), cw_risk = st_risk st, cw_control = st_control st,
         cw_template = None, cw_step = Some (r_id st), cw_sort = Some (st_order st) \<rparr>))))"

section \<open>Confinement\<close>

lemma program_checks_read [intro]:
  "reads (assert_program ac i)" "reads (assert_step ac j)" "reads (check_step_renamed ac j udto st)"
  "reads (step_unique p ref k)"
  unfolding assert_program_def assert_step_def check_step_renamed_def step_unique_def by (intro reads_intros)+

lemmas program_confined = workpaper_confined confinement.keeps_reads [OF program_checks_read(1)]
  confinement.keeps_reads [OF program_checks_read(2)] confinement.keeps_reads [OF program_checks_read(3)]
  confinement.keeps_reads [OF program_checks_read(4)]

lemma program_row_changes [simp]:
  "r_id (approved_program u now p) = r_id p" "r_tenant (approved_program u now p) = r_tenant p"
  "r_id (started_program p) = r_id p" "r_tenant (started_program p) = r_tenant p"
  "pr_status (started_program p) = program_status.IN_PROGRESS"
  "r_id (patch_step dto st) = r_id st" "r_tenant (patch_step dto st) = r_tenant st"
  "st_program (patch_step dto st) = st_program st"
  by (simp_all add: approved_program_def started_program_def patch_step_def)

lemma library_usage_core:
  "map item_core (filter (\<lambda>l. li_tenant l \<noteq> Some (ac_tenant ac)) (db_library (count_usage ac i s))) =
   map item_core (filter (\<lambda>l. li_tenant l \<noteq> Some (ac_tenant ac)) (db_library s))"
proof -
  have "map item_core (filter (\<lambda>l. li_tenant l \<noteq> Some (ac_tenant ac))
        (update_rows (\<lambda>l. visible_item ac l \<and> li_id l = i) (\<lambda>l. l\<lparr> li_usage := li_usage l + 1 \<rparr>) t)) =
      map item_core (filter (\<lambda>l. li_tenant l \<noteq> Some (ac_tenant ac)) t)" for t
    by (induction t) (auto simp: item_core_def visible_item_def update_rows_def)
  then show ?thesis by (simp add: count_usage_def)
qed

lemma count_usage_confined:
  "same_outside (ac_tenant ac) s (count_usage ac i s)" "audit_grows s (count_usage ac i s)"
  unfolding same_outside_def library_usage_core by (simp_all add: count_usage_def audit_grows_def)

lemma insert_steps_confined:
  "same_outside (ac_tenant ac) s (insert_steps ac env p xs s) \<and> audit_grows s (insert_steps ac env p xs s)"
proof (induction xs arbitrary: s)
  case (Cons x xs)
  let ?t = "insert_step (library_step_row ac env p x s) s"
  have "same_outside (ac_tenant ac) s ?t" "audit_grows s ?t"
    by (simp_all add: insert_step_def library_step_row_def confined_writes)
  with Cons [of ?t] show ?case
    by (auto simp: insert_steps_def intro: isolation.trans append_only.trans)
qed (simp add: insert_steps_def isolation.refl append_only.refl)

lemma insert_program_confined:
  assumes "r_tenant p = ac_tenant ac"
  shows "same_outside (ac_tenant ac) s (insert_program ac env xs p s)" "audit_grows s (insert_program ac env xs p s)"
proof -
  let ?t = "s\<lparr> db_programs := insert_row p (db_programs s), db_next := db_next s + 1 \<rparr>"
  have t: "same_outside (ac_tenant ac) s ?t" "audit_grows s ?t" using assms by (simp_all add: confined_writes)
  show "same_outside (ac_tenant ac) s (insert_program ac env xs p s)"
    unfolding insert_program_def by (rule isolation.trans [OF t(1)]) (simp add: insert_steps_confined)
  show "audit_grows s (insert_program ac env xs p s)"
    unfolding insert_program_def by (rule append_only.trans [OF t(2)]) (simp add: insert_steps_confined)
qed

lemma program_writes_confined:
  "(\<And>p. r_tenant (g p) = r_tenant p) \<Longrightarrow> same_outside (ac_tenant ac) s (update_program_row ac i g s)"
  "audit_grows s (update_program_row ac i g s)"
  "(\<And>x. r_tenant (h x) = r_tenant x) \<Longrightarrow> same_outside (ac_tenant ac) s (update_step_row ac i h s)"
  "audit_grows s (update_step_row ac i h s)"
  by (simp_all add: update_program_row_def update_step_row_def confined_writes)

lemma notify_step_assignee_confined:
  "keeps (confined (ac_tenant ac)) (notify_step_assignee ac env a ref ob e)"
  unfolding notify_step_assignee_def by (intro confined_steps)

lemma library_steps_confined: "keeps (confined (ac_tenant ac)) (library_steps ac l)"
  unfolding library_steps_def Let_def by (intro confined_steps count_usage_confined)

lemma create_program_confined: "keeps (confined (ac_tenant ac)) (create_program ac env e dto)"
  unfolding create_program_def
  by (intro confined_steps library_steps_confined insert_program_confined) (simp_all add: new_program_def)

lemma approve_program_confined: "keeps (confined (ac_tenant ac)) (approve_program ac env i)"
  unfolding approve_program_def by (intro confined_steps program_confined program_writes_confined) simp_all

lemma step_changes_confined:
  "keeps (confined (ac_tenant ac)) (add_step ac env i cdto)"
  "keeps (confined (ac_tenant ac)) (update_step ac env i udto)"
  "keeps (confined (ac_tenant ac)) (delete_step ac env i)"
  unfolding add_step_def update_step_def delete_step_def split_def Let_def
  by (intro confined_steps program_confined program_writes_confined notify_step_assignee_confined;
      simp add: insert_step_def new_step_def confined_writes)+

lemma reorder_steps_confined: "keeps (confined (ac_tenant ac)) (reorder_steps ac env i chosen)"
  unfolding reorder_steps_def set_positions_def Let_def split_def
  by (intro confined_steps program_confined program_writes_confined confinement.keeps_for) simp_all

lemma create_workpaper_from_step_confined:
  "keeps (confined (ac_tenant ac)) (create_workpaper_from_step ac env i)"
  unfolding create_workpaper_from_step_def split_def
  by (intro confined_steps program_confined create_workpaper_confined)

end
