(* ===== verification/Program_Life.thy ===== *)
theory Program_Life
  imports Programs Samples
begin

text \<open>
  The life of programmes: unique references within a programme, approval recorded exactly for the
  programmes past it, steps in existing programmes, and the order the reordering leaves behind.
\<close>

section \<open>The invariant\<close>

definition past_approval :: "program_status set" where
  "past_approval = {program_status.APPROVED, program_status.IN_PROGRESS, program_status.COMPLETED}"

definition program_ok :: "program \<Rightarrow> bool" where
  "program_ok p \<longleftrightarrow> (pr_status p \<in> past_approval \<longleftrightarrow> pr_approved_by p \<noteq> None) \<and>
     (pr_approved_at p = None \<longleftrightarrow> pr_approved_by p = None)"

definition step_key :: "program_step \<Rightarrow> uuid \<times> string" where
  "step_key st = (st_program st, st_reference st)"

definition step_fits :: "db \<Rightarrow> program_step \<Rightarrow> bool" where
  "step_fits s st \<longleftrightarrow> (\<exists>p \<in> set (db_programs s). r_id p = st_program st \<and> r_tenant p = r_tenant st)"

definition programs_ok :: "db \<Rightarrow> bool" where
  "programs_ok s \<longleftrightarrow> table_ok program_ok (db_next s) (db_programs s) \<and>
     table_ok (step_fits s) (db_next s) (db_steps s) \<and> distinct (map step_key (db_steps s))"

definition keeps_programs :: "db \<Rightarrow> db \<Rightarrow> bool" where
  "keeps_programs s s' \<longleftrightarrow> (programs_ok s \<longrightarrow> programs_ok s')"

interpretation programs_frame: frame keeps_programs
  by unfold_locales (auto simp: keeps_programs_def)

lemma programs_ok_cong:
  assumes "programs_ok s" "db_programs s' = db_programs s" "db_steps s' = db_steps s" "db_next s \<le> db_next s'"
  shows "programs_ok s'"
proof -
  have "step_fits s' = step_fits s" using assms(2) by (simp add: step_fits_def fun_eq_iff)
  then show ?thesis using assms by (auto simp: programs_ok_def intro: table_ok_grow)
qed

lemma programs_ok_audited: "programs_ok s \<Longrightarrow> programs_ok (audited ac env ev s)"
  by (erule programs_ok_cong) (simp_all add: audited_def)

lemma programs_ok_notified: "programs_ok s \<Longrightarrow> programs_ok (notified ac env u inp s)"
  by (erule programs_ok_cong) (simp_all add: notified_def split: option.split)

lemma notify_step_assignee_run:
  "notify_step_assignee ac env a ref ob e s = (Inr (), s) \<or>
   (\<exists>inp. notify_step_assignee ac env a ref ob e s = (Inr (), notified ac env a inp s))"
  by (auto simp: notify_step_assignee_def run_h)

lemma update_program_tables [simp]:
  "db_programs (update_program_row ac i g s) = update_in ac (has_id i) g (db_programs s)"
  "db_steps (update_program_row ac i g s) = db_steps s" "db_next (update_program_row ac i g s) = db_next s"
  "db_steps (update_step_row ac i h s) = update_in ac (has_id i) h (db_steps s)"
  "db_programs (update_step_row ac i h s) = db_programs s" "db_next (update_step_row ac i h s) = db_next s"
  "db_steps (insert_step st s) = db_steps s @ [st]" "db_programs (insert_step st s) = db_programs s"
  "db_next (insert_step st s) = db_next s + 1"
  by (simp_all add: update_program_row_def update_step_row_def insert_step_def insert_row_def)

text \<open>The writes, one by one.\<close>

lemma programs_ok_update_program:
  assumes "programs_ok s" "\<And>p. r_id (g p) = r_id p \<and> r_tenant (g p) = r_tenant p"
    "\<And>p. p \<in> set (db_programs s) \<Longrightarrow> r_id p = i \<Longrightarrow> program_ok p \<Longrightarrow> program_ok (g p)"
  shows "programs_ok (update_program_row ac i g s)"
proof -
  let ?t = "update_in ac (has_id i) g (db_programs s)"
  have "map r_id ?t = map r_id (db_programs s)"
    unfolding update_in_def using assms(2) by (intro map_update_rows_id) simp
  moreover have "r_id p < db_next s \<and> program_ok p" if "p \<in> set ?t" for p
    using that
  proof (cases rule: update_in_cases)
    case (updated q)
    then show ?thesis using assms by (auto simp: programs_ok_def table_ok_def has_id_def)
  qed (use assms(1) in \<open>auto simp: programs_ok_def table_ok_def\<close>)
  moreover have "step_fits (update_program_row ac i g s) st" if fits: "step_fits s st" for st
  proof -
    obtain p where "p \<in> set (db_programs s)" "r_id p = st_program st" "r_tenant p = r_tenant st"
      using fits by (auto simp: step_fits_def)
    moreover from this have "(if mine ac p \<and> has_id i p then g p else p) \<in> set ?t" by (auto simp: set_update_in)
    ultimately show ?thesis
      using assms(2) unfolding step_fits_def by (intro bexI [of _ "if mine ac p \<and> has_id i p then g p else p"]) auto
  qed
  ultimately show ?thesis using assms(1) by (auto simp: programs_ok_def table_ok_def)
qed

lemma programs_ok_update_step:
  assumes "programs_ok s" "\<And>x. r_id (h x) = r_id x \<and> r_tenant (h x) = r_tenant x \<and> st_program (h x) = st_program x"
    "\<And>x y. x \<in> set (db_steps s) \<Longrightarrow> y \<in> set (db_steps s) \<Longrightarrow> r_id x = i \<Longrightarrow> r_id y \<noteq> i \<Longrightarrow> step_key x \<noteq> step_key y \<Longrightarrow>
       step_key (h x) \<noteq> step_key y"
  shows "programs_ok (update_step_row ac i h s)"
proof -
  let ?f = "\<lambda>x. if mine ac x \<and> has_id i x then h x else x"
  have t: "update_in ac (has_id i) h (db_steps s) = map ?f (db_steps s)"
    by (simp add: update_in_def update_rows_def)
  have ids: "map (r_id \<circ> ?f) (db_steps s) = map r_id (db_steps s)" using assms(2) by simp
  have d: "distinct (map r_id (db_steps s))" "distinct (map step_key (db_steps s))"
    using assms(1) by (simp_all add: programs_ok_def table_ok_def)
  have keys: "step_key x \<noteq> step_key y" if "x \<in> set (db_steps s)" "y \<in> set (db_steps s)" "r_id x \<noteq> r_id y" for x y
    using d(2) that by (auto simp: distinct_map inj_on_def)
  have "inj_on (step_key \<circ> ?f) (set (db_steps s))"
  proof (rule inj_onI)
    fix x y assume xy: "x \<in> set (db_steps s)" "y \<in> set (db_steps s)" "(step_key \<circ> ?f) x = (step_key \<circ> ?f) y"
    show "x = y"
    proof (rule ccontr)
      assume "x \<noteq> y"
      then have n: "r_id x \<noteq> r_id y" using d(1) xy(1,2) by (auto simp: distinct_map inj_on_def)
      show False
        using xy(3) keys [OF xy(1,2) n] keys [OF xy(2,1)] n assms(3) [of x y] assms(3) [of y x] xy(1,2)
        by (auto simp: has_id_def split: if_splits)
    qed
  qed
  then have "distinct (map step_key (map ?f (db_steps s)))"
    using d(1) by (simp add: distinct_map)
  moreover have "table_ok (step_fits s) (db_next s) (map ?f (db_steps s))"
    using assms(1,2) by (auto simp: programs_ok_def table_ok_def step_fits_def ids)
  moreover have "step_fits (update_step_row ac i h s) = step_fits s" by (simp add: step_fits_def fun_eq_iff)
  ultimately show ?thesis using assms(1) by (simp add: programs_ok_def t)
qed

lemma programs_ok_insert_step:
  assumes "programs_ok s" "r_id st = db_next s" "step_fits s st" "step_key st \<notin> step_key ` set (db_steps s)"
  shows "programs_ok (insert_step st s)"
proof -
  have "db_next s \<notin> r_id ` set (db_steps s)" using assms(1) by (fastforce simp: programs_ok_def table_ok_def)
  moreover have "step_fits (insert_step st s) = step_fits s" by (simp add: step_fits_def fun_eq_iff)
  ultimately show ?thesis using assms by (auto simp: programs_ok_def table_ok_def)
qed

lemma library_step_row_fields [simp]:
  "r_id (library_step_row ac env i x s) = db_next s" "r_tenant (library_step_row ac env i x s) = ac_tenant ac"
  "st_program (library_step_row ac env i x s) = i" "st_reference (library_step_row ac env i x s) = sn_reference x"
  by (simp_all add: library_step_row_def)

lemma programs_ok_insert_steps:
  assumes "programs_ok s" "\<exists>p \<in> set (db_programs s). r_id p = i \<and> r_tenant p = ac_tenant ac"
    "distinct (map sn_reference xs)" "\<And>st. st \<in> set (db_steps s) \<Longrightarrow> st_program st = i \<Longrightarrow> st_reference st \<notin> sn_reference ` set xs"
  shows "programs_ok (insert_steps ac env i xs s)"
  using assms
proof (induction xs arbitrary: s)
  case (Cons x xs)
  let ?st = "library_step_row ac env i x s"
  have "st_reference st \<noteq> sn_reference x" if "st \<in> set (db_steps s)" "st_program st = i" for st
    using Cons.prems(4) [OF that] by simp
  then have "step_key ?st \<notin> step_key ` set (db_steps s)" by (force simp: step_key_def)
  then have ok: "programs_ok (insert_step ?st s)"
    using Cons.prems by (intro programs_ok_insert_step) (auto simp: step_fits_def)
  have fresh: "st_reference st \<notin> sn_reference ` set xs"
    if st: "st \<in> set (db_steps (insert_step ?st s))" "st_program st = i" for st
  proof (cases "st \<in> set (db_steps s)")
    case True
    then show ?thesis using Cons.prems(4) [OF True st(2)] by simp
  next
    case False
    then have "st = ?st" using st(1) by simp
    then have "st_reference st = sn_reference x" by simp
    then show ?thesis using Cons.prems(3) by simp
  qed
  have "programs_ok (insert_steps ac env i xs (insert_step ?st s))"
    using Cons.prems(2,3) by (intro Cons.IH [OF ok] fresh) simp_all
  then show ?case by (simp add: insert_steps_def)
qed (simp add: insert_steps_def)

lemma programs_ok_insert_program:
  assumes "programs_ok s" "r_id p = db_next s" "r_tenant p = ac_tenant ac" "program_ok p" "distinct (map sn_reference xs)"
  shows "programs_ok (insert_program ac env xs p s)"
proof -
  let ?t = "s\<lparr> db_programs := insert_row p (db_programs s), db_next := db_next s + 1 \<rparr>"
  have "db_next s \<notin> r_id ` set (db_programs s)" using assms(1) by (fastforce simp: programs_ok_def table_ok_def)
  moreover have "step_fits ?t st" if "step_fits s st" for st using that by (auto simp: step_fits_def insert_row_def)
  ultimately have t: "programs_ok ?t"
    using assms(1,2,4) by (auto simp: programs_ok_def table_ok_def insert_row_def)
  have old: "st_program st < db_next s" if "st \<in> set (db_steps s)" for st
    using assms(1) that unfolding programs_ok_def table_ok_def step_fits_def by metis
  show ?thesis unfolding insert_program_def
    by (rule programs_ok_insert_steps [OF t]) (use assms(2,3,5) old in \<open>fastforce simp: insert_row_def\<close>)+
qed

section \<open>The operations keep it\<close>

lemma repeated_reference_None: "repeated_reference seen rs = None \<longleftrightarrow> distinct rs \<and> set rs \<inter> set seen = {}"
  by (induction rs arbitrary: seen) auto

lemma count_usage_tables [simp]:
  "db_programs (count_usage ac i s) = db_programs s" "db_steps (count_usage ac i s) = db_steps s"
  "db_next (count_usage ac i s) = db_next s"
  by (simp_all add: count_usage_def)

lemma library_steps_run:
  assumes "library_steps ac l s = (x, s')"
  shows "db_programs s' = db_programs s \<and> db_steps s' = db_steps s \<and> db_next s' = db_next s \<and>
    (\<forall>xs. x = Inr xs \<longrightarrow> distinct (map sn_reference xs))"
  using assms
  by (auto simp: library_steps_def run_h Let_def repeated_reference_None split: option.splits if_splits)

lemma create_program_keeps: "keeps keeps_programs (create_program ac env e dto)"
  unfolding keeps_def keeps_programs_def
proof (intro allI impI)
  fix s :: db assume ok: "programs_ok s"
  obtain x s1 where lib: "library_steps ac (cp_library dto) s = (x, s1)" by (cases "library_steps ac (cp_library dto) s")
  note l = library_steps_run [OF lib]
  have ok1: "programs_ok s1" using ok l by (auto intro: programs_ok_cong)
  have "programs_ok (insert_program ac env xs (new_program ac env e dto s1) s1)" if "x = Inr xs" for xs
    using that l by (intro programs_ok_insert_program [OF ok1]) (auto simp: new_program_def program_ok_def past_approval_def)
  then show "programs_ok (snd (create_program ac env e dto s))"
    using ok ok1 by (auto simp: create_program_def run_h lib programs_ok_audited split: option.splits sum.splits)
qed

lemma approve_program_keeps: "keeps keeps_programs (approve_program ac env i)"
  unfolding keeps_def keeps_programs_def
proof (intro allI impI)
  fix s :: db assume ok: "programs_ok s"
  have "programs_ok (update_program_row ac i (approved_program u now) s)" for u now
    by (rule programs_ok_update_program [OF ok]) (simp_all add: program_ok_def approved_program_def past_approval_def)
  then show "programs_ok (snd (approve_program ac env i s))"
    using ok by (auto simp: approve_program_def assert_program_def run_h programs_ok_audited programs_ok_notified
        split: option.splits)
qed

lemma start_program_ok:
  assumes "programs_ok s" "p \<in> set (db_programs s)" "r_id p = i" "pr_status p = program_status.APPROVED"
  shows "programs_ok (update_program_row ac i started_program s)"
proof (rule programs_ok_update_program [OF assms(1)])
  fix q assume "q \<in> set (db_programs s)" "r_id q = i" "program_ok q"
  moreover have "distinct (map r_id (db_programs s))" using assms(1) by (simp add: programs_ok_def table_ok_def)
  ultimately have "q = p" using assms(2,3) by (auto simp: distinct_map inj_on_def)
  then show "program_ok (started_program q)"
    using \<open>program_ok q\<close> assms(4) by (simp add: program_ok_def started_program_def past_approval_def)
qed simp

lemma step_unique_run:
  "step_unique p ref i s = (if \<forall>st \<in> set (db_steps s). st_program st = p \<and> st_reference st = ref \<longrightarrow> Some (r_id st) = i
     then (Inr (), s) else (Inl UniqueViolation, s))"
  by (auto simp: step_unique_def run_h table_simps)

lemma notify_step_ok: "programs_ok s \<Longrightarrow> programs_ok (snd (notify_step_assignee ac env a ref ob e s))"
  using notify_step_assignee_run [of ac env a ref ob e s] programs_ok_notified by auto

lemma then_return_snd: "snd (then_h m (return_h x) s) = snd (m s)"
  by (simp add: run_h split: prod.split sum.split)

lemma add_step_keeps: "keeps keeps_programs (add_step ac env i dto)"
  unfolding keeps_def keeps_programs_def
proof (intro allI impI)
  fix s :: db assume ok: "programs_ok s"
  obtain r s' where run: "add_step ac env i dto s = (r, s')" by (cases "add_step ac env i dto s")
  have "programs_ok s'"
    using run [unfolded add_step_def] program_checks_read(1)
  proof (cases rule: bind_check_cases)
    case (2 p)
    have p: "p \<in> set (db_programs s)" "mine ac p" "r_id p = i"
      using 2(1) by (auto simp: assert_program_def find_program_def ok_h has_id_def dest: first_in_Some)
    let ?st = "new_step ac env i dto (coalesce (cs_order dto) (next_order ac i s)) s"
    have ins: "programs_ok (insert_step ?st s)"
      if "\<forall>st \<in> set (db_steps s). st_program st = i \<longrightarrow> st_reference st \<noteq> cs_reference dto"
    proof (rule programs_ok_insert_step [OF ok])
      show "step_fits s ?st" using p by (auto simp: step_fits_def new_step_def mine_def)
      show "step_key ?st \<notin> step_key ` set (db_steps s)" using that by (force simp: step_key_def new_step_def)
    qed (simp add: new_step_def)
    have started: "programs_ok (update_program_row ac i started_program t)"
      if "programs_ok t" "db_programs t = db_programs s" "pr_status p = program_status.APPROVED" for t
      using that p by (intro start_program_ok [of t p]) simp_all
    show ?thesis
      using 2(2) ok
      by (auto simp: run_h step_unique_run notify_step_assignee_def split: if_splits
          intro!: programs_ok_audited programs_ok_notified started ins)
  qed (simp add: ok)
  then show "programs_ok (snd (add_step ac env i dto s))" by (simp add: run)
qed

lemma step_found:
  assumes "assert_step ac i s = (Inr (st, p), s)"
  shows "st \<in> set (db_steps s)" "mine ac st" "r_id st = i" "p \<in> set (db_programs s)" "r_id p = st_program st"
  using assms by (auto simp: assert_step_def find_step_def ok_h has_id_def dest!: first_in_Some find_first_Some)

lemma update_step_keeps: "keeps keeps_programs (update_step ac env i dto)"
  unfolding keeps_def keeps_programs_def
proof (intro allI impI)
  fix s :: db assume ok: "programs_ok s"
  obtain r s' where run: "update_step ac env i dto s = (r, s')" by (cases "update_step ac env i dto s")
  have "programs_ok s'"
    using run [unfolded update_step_def] program_checks_read(2)
  proof (cases rule: bind_check_cases)
    case (2 sp)
    obtain st p where sp: "sp = (st, p)" by (cases sp)
    note found = step_found [OF 2(1) [unfolded sp]]
    from 2(2) [unfolded sp prod.case] program_checks_read(3) show ?thesis
    proof (cases rule: then_check_cases)
      case rest: 2
      have upd: "programs_ok (update_step_row ac i (patch_step dto) s)"
        if u: "\<forall>x \<in> set (db_steps s). st_program x = st_program st \<and> st_reference x = st_reference (patch_step dto st) \<longrightarrow> r_id x = i"
      proof (rule programs_ok_update_step [OF ok])
        fix x y assume x: "x \<in> set (db_steps s)" "y \<in> set (db_steps s)" "r_id x = i" "r_id y \<noteq> i"
        have "x = st" using ok x(1,3) found(1,3) by (auto simp: programs_ok_def table_ok_def distinct_map inj_on_def)
        then show "step_key (patch_step dto x) \<noteq> step_key y" using u x(2,4) by (auto simp: step_key_def)
      qed simp
      have started: "programs_ok (update_program_row ac (st_program st) started_program t)"
        if "programs_ok t" "db_programs t = db_programs s" "pr_status p = program_status.APPROVED" for t
        using that found by (intro start_program_ok [of t p]) simp_all
      show ?thesis
        using rest(2) ok
        by (auto simp: run_h Let_def step_unique_run notify_step_assignee_def split: if_splits
            intro!: programs_ok_audited programs_ok_notified started upd)
    qed (simp add: ok)
  qed (simp add: ok)
  then show "programs_ok (snd (update_step ac env i dto s))" by (simp add: run)
qed

lemma delete_step_keeps: "keeps keeps_programs (delete_step ac env i)"
  unfolding keeps_def keeps_programs_def
proof (intro allI impI)
  fix s :: db assume ok: "programs_ok s"
  have "programs_ok (s\<lparr> db_steps := delete_in ac P (db_steps s) \<rparr>)" for P
    using ok by (auto simp: programs_ok_def table_ok_def delete_in_def delete_rows_def distinct_map_filter step_fits_def)
  then show "programs_ok (snd (delete_step ac env i s))"
    using ok by (auto simp: delete_step_def run_h programs_ok_audited split: option.splits)
qed

lemma reorder_steps_keeps: "keeps keeps_programs (reorder_steps ac env i chosen)"
  unfolding reorder_steps_def set_positions_def Let_def split_def audit_record_def
  by (intro programs_frame.keeps_intros programs_frame.keeps_reads [OF program_checks_read(1)]
      programs_frame.keeps_modify)
     (auto simp: keeps_programs_def step_key_def intro!: programs_ok_audited programs_ok_update_step)

lemma set_step_status_ok: "programs_ok s \<Longrightarrow> programs_ok (set_step_status ac P v s)"
proof -
  assume ok: "programs_ok s"
  have "map r_id (update_in ac P (\<lambda>x. x\<lparr> st_status := v \<rparr>) (db_steps s)) = map r_id (db_steps s)"
    "map step_key (update_in ac P (\<lambda>x. x\<lparr> st_status := v \<rparr>) (db_steps s)) = map step_key (db_steps s)"
    unfolding update_in_def by (intro map_update_rows_id; simp add: step_key_def)+
  moreover have "r_id st < db_next s \<and> step_fits s st"
    if "st \<in> set (update_in ac P (\<lambda>x. x\<lparr> st_status := v \<rparr>) (db_steps s))" for st
    using that ok by (cases rule: update_in_cases) (auto simp: programs_ok_def table_ok_def step_fits_def)
  moreover have "step_fits (set_step_status ac P v s) = step_fits s"
    by (simp add: set_step_status_def step_fits_def fun_eq_iff)
  ultimately show ?thesis
    using ok by (simp add: programs_ok_def table_ok_def set_step_status_def)
qed

lemma create_workpaper_from_step_keeps: "keeps keeps_programs (create_workpaper_from_step ac env i)"
proof -
  have ins: "keeps_programs s (insert_workpaper w s)" for w s
    by (auto simp: keeps_programs_def insert_workpaper_def intro: programs_ok_cong)
  have lk: "reads (template_content ac tp)" "reads (workpaper_unique e ref k)" for tp e ref k
    unfolding template_content_def workpaper_unique_def by (intro reads_intros)+
  show ?thesis
    unfolding create_workpaper_from_step_def create_workpaper_def split_def audit_record_def check_given_def
    by (intro programs_frame.keeps_intros programs_frame.keeps_reads [OF program_checks_read(2)]
        programs_frame.keeps_reads [OF lk(1)] programs_frame.keeps_reads [OF lk(2)]
        programs_frame.keeps_modify programs_frame.keeps_create ins)
       (simp_all add: keeps_programs_def programs_ok_audited set_step_status_ok)
qed

datatype program_call =
    Create_Program uuid create_program_dto
  | Approve_Program uuid
  | Add_Step uuid create_step_dto
  | Update_Step uuid update_step_dto
  | Delete_Step uuid
  | Reorder_Steps uuid "uuid list"
  | Workpaper_From_Step uuid

fun call_program :: "actor \<Rightarrow> env \<Rightarrow> program_call \<Rightarrow> db \<Rightarrow> db" where
  "call_program ac env (Create_Program e cdto) s = snd (create_program ac env e cdto s)"
| "call_program ac env (Approve_Program i) s = snd (approve_program ac env i s)"
| "call_program ac env (Add_Step i adto) s = snd (add_step ac env i adto s)"
| "call_program ac env (Update_Step i udto) s = snd (update_step ac env i udto s)"
| "call_program ac env (Delete_Step i) s = snd (delete_step ac env i s)"
| "call_program ac env (Reorder_Steps i chosen) s = snd (reorder_steps ac env i chosen s)"
| "call_program ac env (Workpaper_From_Step i) s = snd (create_workpaper_from_step ac env i s)"

definition call_programs :: "(actor \<times> env \<times> program_call) list \<Rightarrow> db \<Rightarrow> db" where
  "call_programs calls s = fold (\<lambda>(ac, env, c). call_program ac env c) calls s"

lemma call_program_confined: "confined (ac_tenant ac) s (call_program ac env c s)"
  by (cases c) (simp_all add: kept_confined create_program_confined approve_program_confined step_changes_confined
        reorder_steps_confined create_workpaper_from_step_confined)

lemma call_program_keeps: "keeps_programs s (call_program ac env c s)"
proof -
  have k: "keeps_programs s (snd (m s))" if "keeps keeps_programs m" for m :: "'a op"
    using that by (simp add: keeps_def)
  show ?thesis
    by (cases c) (simp_all add: k create_program_keeps approve_program_keeps add_step_keeps update_step_keeps
        delete_step_keeps reorder_steps_keeps create_workpaper_from_step_keeps)
qed

text \<open>
  C32. Programmes stay consistent under every sequence of calls: keys are unique, every step belongs
  to a programme of its tenant, no two steps of a programme have the same reference, and a
  programme is approved, in progress or completed exactly when it carries its approver and the time
  of the approval.
\<close>

theorem programs_invariant:
  assumes "programs_ok s"
  shows "programs_ok (call_programs calls s)"
  using assms
proof (induction calls arbitrary: s)
  case (Cons c calls)
  obtain ac env d where c: "c = (ac, env, d)" by (cases c)
  have "programs_ok (call_program ac env d s)"
    using call_program_keeps [of s ac env d] Cons.prems by (simp add: keeps_programs_def)
  from Cons.IH [OF this] show ?case by (simp add: c call_programs_def)
qed (simp add: call_programs_def)

section \<open>Reordering\<close>

text \<open>The position of a member of a list.\<close>

definition place :: "'a list \<Rightarrow> 'a \<Rightarrow> nat" where
  "place xs x = length (takeWhile (\<lambda>y. y \<noteq> x) xs)"

lemma place_Cons: "place (y # xs) x = (if x = y then 0 else Suc (place xs x))"
  by (simp add: place_def)

lemma map_place: "distinct xs \<Longrightarrow> map (place xs) xs = [0..<length xs]"
proof (induction xs)
  case (Cons x xs)
  then have "map (place (x # xs)) xs = map (\<lambda>y. Suc (place xs y)) xs" by (auto simp: place_Cons)
  also have "\<dots> = map Suc (map (place xs) xs)" by simp
  also have "\<dots> = [1..<length (x # xs)]" using Cons by (simp add: map_Suc_upt del: upt_Suc)
  finally have "map (place (x # xs)) xs = [1..<length (x # xs)]" .
  moreover have "place (x # xs) x = 0" by (simp add: place_Cons)
  ultimately show ?case by (simp only: list.map upt_conv_Cons) (simp add: upt_conv_Cons del: upt_Suc)
qed simp

lemma inj_place: "inj_on (place xs) (set xs)"
proof (induction xs)
  case (Cons x xs)
  then show ?case by (auto simp: inj_on_def place_Cons)
qed simp

lemma set_positions_run:
  assumes "distinct ids"
  shows "\<exists>s'. for_h (\<lambda>(n, i). modify_h (update_step_row ac i (\<lambda>st. st\<lparr> st_order := int n \<rparr>))) (enumerate n ids) s = (Inr (), s') \<and>
    db_steps s' = map (\<lambda>st. if mine ac st \<and> r_id st \<in> set ids then st\<lparr> st_order := int (n + place ids (r_id st)) \<rparr> else st) (db_steps s)"
  using assms
proof (induction ids arbitrary: n s)
  case Nil
  then show ?case by (simp add: run_h)
next
  case (Cons i ids)
  let ?t = "update_step_row ac i (\<lambda>st. st\<lparr> st_order := int n \<rparr>) s"
  obtain s' where s': "for_h (\<lambda>(n, i). modify_h (update_step_row ac i (\<lambda>st. st\<lparr> st_order := int n \<rparr>))) (enumerate (Suc n) ids) ?t = (Inr (), s')"
    "db_steps s' = map (\<lambda>st. if mine ac st \<and> r_id st \<in> set ids then st\<lparr> st_order := int (Suc n + place ids (r_id st)) \<rparr> else st) (db_steps ?t)"
    using Cons.IH [of "Suc n" ?t] Cons.prems by auto
  have "db_steps s' = map (\<lambda>st. if mine ac st \<and> r_id st \<in> set (i # ids)
      then st\<lparr> st_order := int (n + place (i # ids) (r_id st)) \<rparr> else st) (db_steps s)"
    unfolding s'(2) using Cons.prems by (auto simp: update_in_def update_rows_def has_id_def place_Cons mine_def)
  moreover have "for_h (\<lambda>(n, i). modify_h (update_step_row ac i (\<lambda>st. st\<lparr> st_order := int n \<rparr>))) (enumerate n (i # ids)) s =
      for_h (\<lambda>(n, i). modify_h (update_step_row ac i (\<lambda>st. st\<lparr> st_order := int n \<rparr>))) (enumerate (Suc n) ids) ?t"
    by (simp add: run_h)
  ultimately show ?case using s'(1) by metis
qed

text \<open>
  After a reordering with distinct steps, the steps of the programme by their order are the
  chosen ones in the chosen order, followed by the others as they were listed; none is lost or
  added, and the steps of other programmes stay as they were.
\<close>

theorem reorder_positions:
  assumes "programs_ok s" "distinct chosen" "reorder_steps ac env i chosen s = (Inr v, s')"
  shows "map r_id (sort_key st_order (many_in ac (\<lambda>st. st_program st = i) (db_steps s'))) =
      chosen @ filter (\<lambda>j. j \<notin> set chosen) (map r_id (many_in ac (\<lambda>st. st_program st = i) (db_steps s))) \<and>
    filter (\<lambda>st. st_program st \<noteq> i) (db_steps s') = filter (\<lambda>st. st_program st \<noteq> i) (db_steps s)"
proof -
  let ?mine = "many_in ac (\<lambda>st. st_program st = i)"
  let ?ids = "map r_id (?mine (db_steps s))"
  let ?ord = "new_order chosen ?ids"
  have sub: "set chosen \<subseteq> set ?ids"
    using assms(3) by (auto simp: reorder_steps_def ok_h list_all_iff assert_program_def)
  have d: "distinct (map r_id (db_steps s))" using assms(1) by (simp add: programs_ok_def table_ok_def)
  then have di: "distinct ?ids" by (simp add: many_in_def find_many_def distinct_map_filter)
  have ord: "distinct ?ord" "set ?ord = set ?ids"
    using assms(2) di sub by (auto simp: new_order_def)
  let ?f = "\<lambda>st :: program_step. if mine ac st \<and> r_id st \<in> set ?ord then st\<lparr> st_order := int (place ?ord (r_id st)) \<rparr> else st"
  obtain t where t: "set_positions ac ?ord s = (Inr (), t)" "db_steps t = map ?f (db_steps s)"
    using set_positions_run [OF ord(1), of ac 0 s] unfolding set_positions_def by auto
  then have s': "db_steps s' = map ?f (db_steps s)"
    using assms(3) by (auto simp: reorder_steps_def ok_h assert_program_def Let_def)
  have only: "st_program st = i" if st: "st \<in> set (db_steps s)" "mine ac st" "r_id st \<in> set ?ord" for st
  proof -
    obtain q where "q \<in> set (db_steps s)" "st_program q = i" "r_id q = r_id st"
      using st(3) unfolding ord(2) by (auto simp: many_in_def table_simps)
    then show ?thesis using st(1) d by (auto simp: distinct_map inj_on_def)
  qed
  have mem: "r_id st \<in> set ?ord" if "st \<in> set (?mine (db_steps s))" for st using that ord(2) by simp
  have rows: "?mine (db_steps s') = map ?f (?mine (db_steps s))"
    unfolding s' many_in_def find_many_def filter_map
    by (intro arg_cong [where f = "map _"] filter_cong) (auto simp: mine_def)
  have other: "filter (\<lambda>st. st_program st \<noteq> i) (db_steps s') = filter (\<lambda>st. st_program st \<noteq> i) (db_steps s)"
  proof -
    have "(\<lambda>st. st_program st \<noteq> i) \<circ> ?f = (\<lambda>st. st_program st \<noteq> i)" by (rule ext) simp
    moreover have "map ?f (filter (\<lambda>st. st_program st \<noteq> i) (db_steps s)) = filter (\<lambda>st. st_program st \<noteq> i) (db_steps s)"
      using only by (intro map_idI) auto
    ultimately show ?thesis unfolding s' filter_map by (simp only:)
  qed
  let ?z = "sort_key st_order (?mine (db_steps s'))"
  have z: "set (map r_id ?z) = set ?ids" "distinct (map r_id ?z)"
  proof -
    have "map r_id (?mine (db_steps s')) = ?ids" unfolding rows by simp
    then have "distinct (map r_id (?mine (db_steps s')))" "r_id ` set (?mine (db_steps s')) = set ?ids"
      using di by (simp, metis set_map)
    then show "set (map r_id ?z) = set ?ids" "distinct (map r_id ?z)" by (simp_all add: distinct_map)
  qed
  have st: "st_order st = int (place ?ord (r_id st))" if "st \<in> set ?z" for st
  proof -
    have "st \<in> ?f ` set (?mine (db_steps s))" using that unfolding rows by simp
    then obtain q where q: "q \<in> set (?mine (db_steps s))" "st = ?f q" by blast
    have "mine ac q" using q(1) by (simp add: table_simps)
    then show ?thesis using q(2) mem [OF q(1)] by simp
  qed
  have "map r_id ?z = ?ord"
  proof (rule map_sorted_distinct_set_unique [of "place ?ord"])
    show "inj_on (place ?ord) (set (map r_id ?z) \<union> set ?ord)" using inj_place [of ?ord] z(1) ord(2) by simp
    have "map int (map (place ?ord) (map r_id ?z)) = map st_order ?z" using st by simp
    moreover have "sorted (map st_order ?z)" by simp
    ultimately have "sorted (map int (map (place ?ord) (map r_id ?z)))" by metis
    then show "sorted (map (place ?ord) (map r_id ?z))" by (simp only: sorted_map) (auto simp: sorted_wrt_map sorted_wrt_iff_nth_less)
    show "sorted (map (place ?ord) ?ord)" by (simp add: map_place [OF ord(1)])
    show "distinct (map (place ?ord) (map r_id ?z))"
      using z ord(2) inj_place [of ?ord] by (subst distinct_map) simp
    show "distinct (map (place ?ord) ?ord)" by (simp add: map_place [OF ord(1)])
    show "set (map r_id ?z) = set ?ord" using z(1) ord(2) by simp
  qed
  then show ?thesis using other by (simp add: new_order_def)
qed

section \<open>Examples\<close>

definition ex_program :: program where
  "ex_program = \<lparr> r_id = 80, r_tenant = 1, r_created = 0, pr_engagement = 10, pr_title = ''Payroll'',
     pr_description = None, pr_status = program_status.DRAFT, pr_library = None, pr_approved_by = None,
     pr_approved_at = None \<rparr>"

definition ex_step :: "uuid \<Rightarrow> string \<Rightarrow> int \<Rightarrow> program_step" where
  "ex_step i ref n = \<lparr> r_id = i, r_tenant = 1, r_created = 0, st_program = 80, st_section = ''Planning'',
     st_reference = ref, st_order = n, st_objective = [], st_procedure = [], st_risk = None, st_control = None,
     st_assignee = None, st_hours = None, st_status = step_status.NOT_STARTED \<rparr>"

definition ex_program_db :: db where
  "ex_program_db = empty_db\<lparr> db_next := 100, db_programs := [ex_program],
     db_steps := [ex_step 81 ''P.1'' 0, ex_step 82 ''P.2'' 1, ex_step 83 ''P.3'' 2] \<rparr>"

definition ex_planner :: actor where
  "ex_planner = ex_actor 2 [AUDIT_MANAGER] [''program:approve'']"

lemma ex_programs_ok: "programs_ok ex_program_db"
  by (simp add: programs_ok_def table_ok_def ex_program_db_def ex_program_def ex_step_def program_ok_def
      past_approval_def step_fits_def step_key_def)

lemma programs_invariant_witness:
  "programs_ok (call_programs [(ex_planner, ex_env, Approve_Program 80), (ex_planner, ex_env, Delete_Step 82),
     (ex_planner, ex_env, Reorder_Steps 80 [83])] ex_program_db)"
  by (rule programs_invariant [OF ex_programs_ok])

lemma ex_reorder_run: "\<exists>v s'. reorder_steps ex_planner ex_env 80 [83] ex_program_db = (Inr v, s')"
  by (simp add: reorder_steps_def assert_program_def find_program_def set_positions_def run_h Let_def new_order_def
      ex_program_db_def ex_program_def ex_step_def ex_planner_def ex_rows many_in_def find_many_def mine_def has_id_def
      first_in_def find_first_Cons, force)

lemma reorder_positions_witness:
  "\<exists>v s'. reorder_steps ex_planner ex_env 80 [83] ex_program_db = (Inr v, s') \<and>
     map r_id (sort_key st_order (many_in ex_planner (\<lambda>st. st_program st = 80) (db_steps s'))) = [83, 81, 82]"
proof -
  obtain v s' where run: "reorder_steps ex_planner ex_env 80 [83] ex_program_db = (Inr v, s')"
    using ex_reorder_run by blast
  show ?thesis
    using reorder_positions [OF ex_programs_ok _ run] run
    by (simp add: ex_program_db_def ex_step_def ex_planner_def ex_rows many_in_def find_many_def mine_def)
qed

end
