(* ===== verification/Reminders.thy ===== *)
theory Reminders
  imports Requests Ageing Samples
begin

text \<open>
  \<open>jobs/reminders.service.ts\<close>: the daily job of a worker. For every active tenant it reminds the
  owners of the actionable findings and of the open requests that the schedule (\<open>Ageing\<close>) selects,
  escalates by the days overdue, and alerts once a week about overdue milestones. The job runs
  without a user; its events carry no actor.
\<close>

section \<open>The context of the job\<close>

definition job_actor :: "uuid \<Rightarrow> time \<Rightarrow> actor" where
  "job_actor tn now =
     \<lparr> ac_tenant = tn, ac_user = 0, ac_email = Some ''system'', ac_roles = [], ac_permissions = [],
       ac_ip = None, ac_agent = None, ac_request = Some (''job-reminders-'' @ iso_date now) \<rparr>"

text \<open>An event with \<open>actorId: null\<close>.\<close>

definition job_audited :: "actor \<Rightarrow> env \<Rightarrow> audit_input \<Rightarrow> db \<Rightarrow> db" where
  "job_audited ac env inp s =
     s\<lparr> db_audit := insert_row ((audit_entry ac env inp s)\<lparr> at_actor := None \<rparr>) (db_audit s), db_next := db_next s + 1 \<rparr>"

definition users_with_role :: "actor \<Rightarrow> role_key \<Rightarrow> db \<Rightarrow> uuid list" where
  "users_with_role ac k s = map r_id (many_in ac (\<lambda>u. u_deleted_at u = None \<and> u_status u = user_status.ACTIVE \<and>
     k \<in> set (u_roles u)) (db_users s))"

text \<open>A loop that counts the turns that report success.\<close>

fun for_count_h :: "('a \<Rightarrow> ('s, bool) handler) \<Rightarrow> 'a list \<Rightarrow> ('s, nat) handler" where
  "for_count_h f [] = return_h 0"
| "for_count_h f (x # xs) = bind_h (f x) (\<lambda>b. bind_h (for_count_h f xs) (\<lambda>n. return_h (if b then n + 1 else n)))"

definition engagement_ref :: "uuid \<Rightarrow> db \<Rightarrow> engagement option" where
  "engagement_ref i s = find_first (has_id i) (db_engagements s)"

text \<open>\<open>engagement.managerId ?? engagement.leadId\<close>\<close>

definition responsible :: "engagement option \<Rightarrow> uuid option" where
  "responsible e = (case e of None \<Rightarrow> None | Some g \<Rightarrow> coalesce_opt (e_manager g) (e_lead g))"

definition number_of_engagement :: "engagement option \<Rightarrow> string" where
  "number_of_engagement e = (case e of None \<Rightarrow> [] | Some g \<Rightarrow> e_number g)"

section \<open>Findings\<close>

definition reminded_finding :: "time \<Rightarrow> nat \<Rightarrow> finding \<Rightarrow> finding \<Rightarrow> finding" where
  "reminded_finding now level f row =
     row\<lparr> f_reminders := f_reminders row + 1, f_last_reminder := Some now, f_escalation := max (f_escalation f) level \<rparr>"

definition finding_reminder_recipients :: "uuid list \<Rightarrow> uuid list \<Rightarrow> engagement option \<Rightarrow> nat \<Rightarrow> finding \<Rightarrow> uuid option list" where
  "finding_reminder_recipients caes partners e level f =
     [f_owner f] @ (if 1 \<le> level then [responsible e] else []) @ (if 2 \<le> level then map Some caes else []) @
     (if 3 \<le> level then map Some partners else [])"

definition finding_reminder :: "finding \<Rightarrow> engagement option \<Rightarrow> time \<Rightarrow> reminder_decision \<Rightarrow> notify_input" where
  "finding_reminder f e due d =
     \<lparr> ni_type = (if rd_reason d = before_due then ''finding.reminder'' else ''finding.overdue''),
       ni_title = (if rd_reason d = before_due
         then f_reference f @ '' '' @ f_title f @ '' is due in '' @ show_nat (nat (rd_days_until_due d)) @ '' day(s)''
         else f_reference f @ '' '' @ f_title f @ '' is '' @ show_nat (nat (rd_days_overdue d)) @ '' day(s) overdue'' @
              (if 2 \<le> rd_level d then '' (escalated)'' else [])),
       ni_body = Some (''Engagement '' @ number_of_engagement e @ ''. Due '' @ iso_date due @ ''. Escalation level '' @
                       show_nat (rd_level d) @ ''.''),
       ni_link = Some (''/findings/'' @ show_nat (r_id f)),
       ni_payload = JObj [(''findingId'', JId (r_id f)), (''escalationLevel'', JNum (of_nat (rd_level d))),
                          (''daysOverdue'', JNum (of_int (rd_days_overdue d)))] \<rparr>"

definition remind_finding :: "actor \<Rightarrow> env \<Rightarrow> uuid list \<Rightarrow> uuid list \<Rightarrow> finding \<Rightarrow> bool op" where
  "remind_finding ac env caes partners f =
     (case f_due f of
        None \<Rightarrow> return_h False
      | Some due \<Rightarrow>
          let d = reminder_decision_for due (f_last_reminder f) (env_now env) in
          if \<not> rd_remind d then return_h False
          else
            bind_h (gets_h (engagement_ref (f_engagement f))) (\<lambda>e.
            let recipients = finding_reminder_recipients caes partners e (rd_level d) f in
            then_h (notify_many ac env recipients (finding_reminder f e due d))
           (then_h (modify_h (update_finding_row ac (r_id f) (reminded_finding (env_now env) (rd_level d) f)))
           (then_h (modify_h (job_audited ac env (audit_of
                (if f_escalation f < rd_level d then ''finding.escalated'' else ''finding.reminder_sent'')
                ''Finding'' (r_id f) No_Snapshot No_Snapshot
                [(''escalationLevel'', JNum (of_nat (rd_level d))), (''daysOverdue'', JNum (of_int (rd_days_overdue d))),
                 (''recipients'', JArr (map JId (dedupe (present recipients))))])))
             (return_h True)))))"

definition actionable_finding :: "finding \<Rightarrow> bool" where
  "actionable_finding f \<longleftrightarrow> f_deleted_at f = None \<and> f_status f \<in> set actionable_statuses \<and> f_due f \<noteq> None"

section \<open>Requests\<close>

definition reminded_request :: "time \<Rightarrow> document_request \<Rightarrow> document_request" where
  "reminded_request now r = r\<lparr> q_reminders := q_reminders r + 1, q_last_reminder := Some now \<rparr>"

definition request_reminder :: "document_request \<Rightarrow> engagement option \<Rightarrow> reminder_decision \<Rightarrow> notify_input" where
  "request_reminder r e d =
     \<lparr> ni_type = (if rd_reason d = before_due then ''request.reminder'' else ''request.overdue''),
       ni_title = (if rd_reason d = before_due
         then ''Request '' @ q_reference r @ '' '' @ q_title r @ '' is due in '' @ show_nat (nat (rd_days_until_due d)) @ '' day(s)''
         else ''Request '' @ q_reference r @ '' '' @ q_title r @ '' is '' @ show_nat (nat (rd_days_overdue d)) @ '' day(s) overdue''),
       ni_body = Some (''Engagement '' @ number_of_engagement e @ ''. Due '' @ iso_date (q_due r) @ ''.''),
       ni_link = Some (''/requests/'' @ show_nat (r_id r)),
       ni_payload = JObj [(''requestId'', JId (r_id r)), (''escalationLevel'', JNum (of_nat (rd_level d)))] \<rparr>"

definition remind_request :: "actor \<Rightarrow> env \<Rightarrow> document_request \<Rightarrow> bool op" where
  "remind_request ac env r =
     (let d = reminder_decision_for (q_due r) (q_last_reminder r) (env_now env) in
      if \<not> rd_remind d then return_h False
      else
        bind_h (gets_h (engagement_ref (q_engagement r))) (\<lambda>e.
        then_h (notify_many ac env
                  ([q_assignee r] @ (if 1 \<le> rd_level d then [Some (q_requested_by r)] else []) @
                   (if 2 \<le> rd_level d then [responsible e] else [])) (request_reminder r e d))
       (then_h (modify_h (update_request_row ac (r_id r) (reminded_request (env_now env))))
       (then_h (modify_h (job_audited ac env (audit_of ''request.reminder_sent'' ''DocumentRequest'' (r_id r)
                  No_Snapshot No_Snapshot [(''escalationLevel'', JNum (of_nat (rd_level d)))])))
         (return_h True)))))"

definition open_request :: "document_request \<Rightarrow> bool" where
  "open_request r \<longleftrightarrow> q_status r \<in> {request_status.OPEN, RETURNED}"

section \<open>Milestones\<close>

definition payload_id :: "json \<Rightarrow> string \<Rightarrow> uuid option" where
  "payload_id j k = (case j of JObj kvs \<Rightarrow> (case map_of kvs k of Some (JId i) \<Rightarrow> Some i | _ \<Rightarrow> None) | _ \<Rightarrow> None)"

definition recent_alerts :: "actor \<Rightarrow> time \<Rightarrow> uuid \<Rightarrow> db \<Rightarrow> nat" where
  "recent_alerts ac now i s = count_in ac (\<lambda>n. nt_type n = ''milestone.overdue'' \<and> add_days now (-7) \<le> r_created n \<and>
     payload_id (nt_payload n) ''milestoneId'' = Some i) (db_notifications s)"

definition overdue_milestone :: "db \<Rightarrow> time \<Rightarrow> milestone \<Rightarrow> bool" where
  "overdue_milestone s now m \<longleftrightarrow> ms_completed m = None \<and> ms_due m < now \<and>
     (case engagement_ref (ms_engagement m) s of
        None \<Rightarrow> False | Some e \<Rightarrow> e_deleted_at e = None \<and> e_status e = engagement_status.ACTIVE)"

definition milestone_alert :: "milestone \<Rightarrow> engagement option \<Rightarrow> time \<Rightarrow> notify_input" where
  "milestone_alert m e now =
     (let days = (now - ms_due m) div 86400000
      in \<lparr> ni_type = ''milestone.overdue'',
           ni_title = ''Milestone '' @ [CHR 0x22] @ ms_name m @ [CHR 0x22] @ '' on '' @ number_of_engagement e @ '' is '' @
                      show_nat (nat days) @ '' day(s) overdue'',
           ni_body = None, ni_link = Some (''/engagements/'' @ show_nat (ms_engagement m)),
           ni_payload = JObj [(''milestoneId'', JId (r_id m)), (''engagementId'', JId (ms_engagement m)),
                              (''daysOverdue'', JNum (of_int days))] \<rparr>)"

definition alert_milestone :: "actor \<Rightarrow> env \<Rightarrow> milestone \<Rightarrow> bool op" where
  "alert_milestone ac env m =
     bind_h (gets_h (recent_alerts ac (env_now env) (r_id m))) (\<lambda>n.
     if 0 < n then return_h False
     else
       bind_h (gets_h (engagement_ref (ms_engagement m))) (\<lambda>e.
       then_h (notify_many ac env (case e of None \<Rightarrow> [] | Some g \<Rightarrow> [e_lead g, e_manager g])
                 (milestone_alert m e (env_now env)))
         (return_h True)))"

section \<open>The job\<close>

record reminder_summary =
  rm_tenants :: nat
  rm_findings :: nat
  rm_requests :: nat
  rm_milestones :: nat
  rm_errors :: nat

definition run_for_tenant :: "env \<Rightarrow> uuid \<Rightarrow> reminder_summary op" where
  "run_for_tenant env tn =
     (let ac = job_actor tn (env_now env) in
      bind_h (gets_h (users_with_role ac CHIEF_AUDIT_EXECUTIVE)) (\<lambda>caes.
      bind_h (gets_h (users_with_role ac AUDIT_PARTNER)) (\<lambda>partners.
      bind_h (gets_h (\<lambda>s. many_in ac actionable_finding (db_findings s))) (\<lambda>fs.
      bind_h (for_count_h (remind_finding ac env caes partners) fs) (\<lambda>nf.
      bind_h (gets_h (\<lambda>s. many_in ac open_request (db_requests s))) (\<lambda>qs.
      bind_h (for_count_h (remind_request ac env) qs) (\<lambda>nq.
      bind_h (gets_h (\<lambda>s. many_in ac (overdue_milestone s (env_now env)) (db_milestones s))) (\<lambda>ms.
      bind_h (for_count_h (alert_milestone ac env) ms) (\<lambda>nm.
      return_h \<lparr> rm_tenants = 1, rm_findings = nf, rm_requests = nq, rm_milestones = nm, rm_errors = 0 \<rparr>)))))))))"

definition add_summary :: "reminder_summary \<Rightarrow> reminder_summary \<Rightarrow> reminder_summary" where
  "add_summary a b = \<lparr> rm_tenants = rm_tenants a + rm_tenants b, rm_findings = rm_findings a + rm_findings b,
     rm_requests = rm_requests a + rm_requests b, rm_milestones = rm_milestones a + rm_milestones b,
     rm_errors = rm_errors a + rm_errors b \<rparr>"

definition no_reminders :: reminder_summary where
  "no_reminders = \<lparr> rm_tenants = 0, rm_findings = 0, rm_requests = 0, rm_milestones = 0, rm_errors = 0 \<rparr>"

text \<open>An exception in the run of a tenant is counted, and the run goes on with the next tenant.\<close>

definition failed_run :: reminder_summary where
  "failed_run = no_reminders\<lparr> rm_tenants := 1, rm_errors := 1 \<rparr>"

fun run_tenants :: "env \<Rightarrow> uuid list \<Rightarrow> reminder_summary \<Rightarrow> reminder_summary op" where
  "run_tenants env [] acc s = (Inr acc, s)"
| "run_tenants env (tn # tns) acc s =
     (case run_for_tenant env tn s of
        (Inl e, s') \<Rightarrow> run_tenants env tns (add_summary acc failed_run) s'
      | (Inr r, s') \<Rightarrow> run_tenants env tns (add_summary acc r) s')"

text \<open>A run that is still in progress makes another one return at once.\<close>

definition run_all :: "env \<Rightarrow> bool \<Rightarrow> reminder_summary op" where
  "run_all env running =
     (if running then return_h no_reminders
      else bind_h (gets_h (\<lambda>s. map t_id (filter t_active (db_tenants s)))) (\<lambda>tns. run_tenants env tns no_reminders))"

section \<open>Confinement\<close>

lemma job_tenant [simp]: "ac_tenant (job_actor tn now) = tn"
  by (simp add: job_actor_def)

lemma job_audited_confined:
  "same_outside (ac_tenant ac) s (job_audited ac env inp s)" "audit_grows s (job_audited ac env inp s)"
  by (simp_all add: job_audited_def audit_entry_def confined_writes)

lemma keeps_for_count:
  assumes "\<And>x. keeps (confined tn) (f x)" shows "keeps (confined tn) (for_count_h f xs)"
  by (induction xs) (auto intro!: confinement.keeps_return confinement.keeps_bind assms)

lemma reminders_confined:
  "keeps (confined (ac_tenant ac)) (remind_finding ac env caes partners f)"
  "keeps (confined (ac_tenant ac)) (remind_request ac env r)"
  "keeps (confined (ac_tenant ac)) (alert_milestone ac env m)"
proof -
  have f: "same_outside (ac_tenant ac) s (update_finding_row ac i (reminded_finding now l f) s)"
    "audit_grows s (update_finding_row ac i (reminded_finding now l f) s)" for s i now l f
    by (simp_all add: update_finding_row_def reminded_finding_def confined_writes)
  show "keeps (confined (ac_tenant ac)) (remind_finding ac env caes partners f)"
    unfolding remind_finding_def Let_def by (intro confined_steps f job_audited_confined)
  show "keeps (confined (ac_tenant ac)) (remind_request ac env r)"
    unfolding remind_request_def Let_def
    by (intro confined_steps update_request_row_confined job_audited_confined) (simp_all add: reminded_request_def)
  show "keeps (confined (ac_tenant ac)) (alert_milestone ac env m)"
    unfolding alert_milestone_def by (intro confined_steps)
qed

lemma run_for_tenant_confined: "keeps (confined tn) (run_for_tenant env tn)"
  unfolding run_for_tenant_def Let_def
  by (intro confinement.keeps_bind confinement.keeps_gets confinement.keeps_return keeps_for_count)
     (use reminders_confined [of "job_actor tn (env_now env)"] in simp_all)

end
