(* ===== verification/Risks.thy ===== *)
theory Risks
  imports Universe Workpapers Samples
begin

text \<open>
  \<open>risks/risks.service.ts\<close>: the risk register, its assessments, the categories and the scoring
  models. The arithmetic is that of \<open>Scoring\<close>. The columns \<open>residualLikelihood\<close> and
  \<open>residualImpact\<close> are of type \<open>Int\<close>, while \<open>scoreRisk\<close> returns two decimals: what the database client
  writes for such a number is the parameter \<open>icol\<close>, where \<open>None\<close> is its refusal of the query.
\<close>

section \<open>Scoring models\<close>

record model_params =
  mp_model :: "scoring_model option"
  mp_weights :: scoring_weights
  mp_thresholds :: thresholds

text \<open>\<open>z.number().min(0).default(d)\<close> on one key of an object.\<close>

definition parse_weight :: "json \<Rightarrow> string \<Rightarrow> rat \<Rightarrow> rat option" where
  "parse_weight j k d = (case json_field j k of None \<Rightarrow> Some d
     | Some (JNum n) \<Rightarrow> if 0 \<le> n then Some n else None | _ \<Rightarrow> None)"

definition parse_weights :: "json \<Rightarrow> scoring_weights option" where
  "parse_weights j = (case j of JObj _ \<Rightarrow>
     (case (parse_weight j ''likelihood'' 1, parse_weight j ''impact'' 1, parse_weight j ''velocity'' 0) of
        (Some l, Some i, Some v) \<Rightarrow> Some \<lparr> sw_likelihood = Some l, sw_impact = Some i, sw_velocity = Some v \<rparr>
      | _ \<Rightarrow> None) | _ \<Rightarrow> None)"

definition parse_thresholds :: "json \<Rightarrow> thresholds option" where
  "parse_thresholds j =
     (case (json_field j ''LOW'', json_field j ''MEDIUM'', json_field j ''HIGH'', json_field j ''CRITICAL'') of
        (Some (JNum l), Some (JNum m), Some (JNum h), Some (JNum c)) \<Rightarrow>
          Some \<lparr> th_low = l, th_medium = m, th_high = h, th_critical = c \<rparr>
      | _ \<Rightarrow> None)"

text \<open>\<open>v ?? d\<close> on a JSON value, which may be \<open>null\<close>, and \<open>json(v)\<close>.\<close>

definition json_or :: "json option \<Rightarrow> json \<Rightarrow> json" where
  "json_or v d = (case v of None \<Rightarrow> d | Some JNull \<Rightarrow> d | Some j \<Rightarrow> j)"

definition json_arg :: "json option \<Rightarrow> json option" where
  "json_arg v = map_option (\<lambda>j. json_or (Some j) (JObj [])) v"

definition model_params :: "scoring_model option \<Rightarrow> model_params" where
  "model_params m =
     \<lparr> mp_model = m,
       mp_weights = coalesce (parse_weights (json_or (map_option sc_weights m) (JObj []))) default_weights,
       mp_thresholds = coalesce (parse_thresholds (json_or (map_option sc_thresholds m) (JObj []))) default_thresholds \<rparr>"

text \<open>The default model, or the oldest one; a model that is asked for must exist.\<close>

definition oldest_model :: "actor \<Rightarrow> db \<Rightarrow> scoring_model option" where
  "oldest_model ac s = (case sort_key r_created (many_in ac (\<lambda>_. True) (db_models s)) of [] \<Rightarrow> None | m # _ \<Rightarrow> Some m)"

definition default_model :: "actor \<Rightarrow> uuid option \<Rightarrow> model_params op" where
  "default_model ac i =
     (case i of
        Some j \<Rightarrow> bind_h (demand_h (\<lambda>s. first_in ac (has_id j) (db_models s)) (NotFound ''Scoring model not found''))
                    (\<lambda>m. return_h (model_params (Some m)))
      | None \<Rightarrow> gets_h (\<lambda>s. model_params (coalesce_opt (first_in ac sc_default (db_models s)) (oldest_model ac s))))"

section \<open>The scores of a risk\<close>

record risk_values =
  rv_likelihood :: int
  rv_impact :: int
  rv_effectiveness :: int
  rv_velocity :: velocity
  rv_appetite :: "rat option"

text \<open>A decimal of the request or of a column is a binary64 number when it is computed with (\<open>fl\<close>).\<close>

definition compute_scores :: "risk_values \<Rightarrow> model_params \<Rightarrow> risk_score_result result" where
  "compute_scores v p =
     (case score_risk \<lparr> ri_likelihood = of_int (rv_likelihood v), ri_impact = of_int (rv_impact v),
                        ri_effectiveness = of_int (rv_effectiveness v), ri_velocity = Some (rv_velocity v),
                        ri_appetite = rv_appetite v \<rparr> (mp_weights p) (mp_thresholds p) of
        None \<Rightarrow> Inl (PlainError ''ZodError'') | Some r \<Rightarrow> Inr r)"

text \<open>The two residual factors as integer columns.\<close>

definition int_columns :: "(rat \<Rightarrow> int option) \<Rightarrow> risk_score_result \<Rightarrow> (int \<times> int) result" where
  "int_columns icol r = (case (icol (rs_residual_likelihood r), icol (rs_residual_impact r)) of
     (Some l, Some i) \<Rightarrow> Inr (l, i) | _ \<Rightarrow> Inl (BadRequest ''Invalid query or payload''))"

definition scored :: "risk_values \<Rightarrow> risk_score_result \<Rightarrow> int \<Rightarrow> int \<Rightarrow> risk \<Rightarrow> risk" where
  "scored v r l i k =
     k\<lparr> k_likelihood := rv_likelihood v, k_impact := rv_impact v, k_effectiveness := rv_effectiveness v,
        k_velocity := rv_velocity v, k_inherent_score := rs_inherent r, k_res_likelihood := l, k_res_impact := i,
        k_res_score := rs_residual r, k_risk_rating := rs_rating r, k_within := rs_within_appetite r \<rparr>"

section \<open>The register\<close>

record risk_query =
  kq_page :: page_query
  kq_entity :: "uuid option"
  kq_process :: "uuid option"
  kq_category :: "uuid option"
  kq_owner :: "uuid option"
  kq_rating :: "severity option"
  kq_status :: "risk_status option"
  kq_text :: "string option"

definition risk_where :: "risk_query \<Rightarrow> risk \<Rightarrow> bool" where
  "risk_where q k \<longleftrightarrow>
     k_deleted_at k = None \<and> opt_eq (map_option Some (kq_entity q)) (k_entity k) \<and>
     opt_eq (map_option Some (kq_process q)) (k_process k) \<and> opt_eq (map_option Some (kq_category q)) (k_category k) \<and>
     opt_eq (map_option Some (kq_owner q)) (k_owner k) \<and> opt_eq (kq_rating q) (k_risk_rating k) \<and>
     opt_eq (kq_status q) (k_status k) \<and> opt_contains (kq_text q) [k_title k, k_code k]"

definition list_risks :: "actor \<Rightarrow> (risk list \<Rightarrow> risk list) \<Rightarrow> risk_query \<Rightarrow> risk page op" where
  "list_risks ac order q = gets_h (\<lambda>s. paginate (kq_page q) (order (many_in ac (risk_where q) (db_risks s))))"

definition find_risk :: "actor \<Rightarrow> uuid \<Rightarrow> db \<Rightarrow> risk option" where
  "find_risk ac i s = first_in ac (\<lambda>k. has_id i k \<and> k_deleted_at k = None) (db_risks s)"

definition assert_risk :: "actor \<Rightarrow> uuid \<Rightarrow> risk op" where
  "assert_risk ac i = demand_h (find_risk ac i) (NotFound ''Risk not found'')"

definition get_risk ::
  "actor \<Rightarrow> (risk_assessment list \<Rightarrow> risk_assessment list) \<Rightarrow> uuid \<Rightarrow> (risk \<times> risk_assessment list \<times> control list) op" where
  "get_risk ac order i =
     bind_h (assert_risk ac i) (\<lambda>k.
     gets_h (\<lambda>s. (k, take 10 (order (filter (\<lambda>a. ra_risk a = i) (db_assessments s))),
                  filter (\<lambda>c. i \<in> set (ctl_risks c)) (db_controls s))))"

record create_risk_dto =
  ck_code :: string
  ck_title :: string
  ck_description :: "string option"
  ck_category :: "uuid option"
  ck_entity :: "uuid option"
  ck_process :: "uuid option"
  ck_owner :: "uuid option"
  ck_source :: "string option"
  ck_status :: "risk_status option"
  ck_likelihood :: "int option"
  ck_impact :: "int option"
  ck_effectiveness :: "int option"
  ck_velocity :: "velocity option"
  ck_appetite :: "rat option"
  ck_tags :: "string list option"

definition created_values :: "create_risk_dto \<Rightarrow> risk_values" where
  "created_values dto =
     \<lparr> rv_likelihood = coalesce (ck_likelihood dto) 3, rv_impact = coalesce (ck_impact dto) 3,
       rv_effectiveness = coalesce (ck_effectiveness dto) 3, rv_velocity = coalesce (ck_velocity dto) velocity.MODERATE,
       rv_appetite = map_option fl (ck_appetite dto) \<rparr>"

definition new_risk :: "actor \<Rightarrow> env \<Rightarrow> create_risk_dto \<Rightarrow> risk_score_result \<Rightarrow> int \<Rightarrow> int \<Rightarrow> db \<Rightarrow> risk" where
  "new_risk ac env dto r l i s =
     (let v = created_values dto
      in \<lparr> r_id = db_next s, r_tenant = ac_tenant ac, r_created = env_now env, k_code = ck_code dto,
           k_title = ck_title dto, k_description = ck_description dto, k_category = ck_category dto,
           k_entity = ck_entity dto, k_process = ck_process dto, k_owner = ck_owner dto, k_source = ck_source dto,
           k_status = coalesce (ck_status dto) risk_status.ACTIVE, k_likelihood = rv_likelihood v,
           k_impact = rv_impact v, k_inherent_score = rs_inherent r, k_effectiveness = rv_effectiveness v,
           k_res_likelihood = l, k_res_impact = i, k_res_score = rs_residual r, k_velocity = rv_velocity v,
           k_risk_rating = rs_rating r, k_appetite = ck_appetite dto, k_within = rs_within_appetite r,
           k_assessed_at = None, k_tags = coalesce (ck_tags dto) [], k_deleted_at = None \<rparr>)"

definition insert_risk :: "risk \<Rightarrow> db \<Rightarrow> db" where
  "insert_risk k s = s\<lparr> db_risks := insert_row k (db_risks s), db_next := db_next s + 1 \<rparr>"

text \<open>The constraint \<open>@@unique([tenantId, code])\<close> of risks, for a row other than \<open>i\<close>.\<close>

definition risk_code_unique :: "actor \<Rightarrow> string \<Rightarrow> uuid option \<Rightarrow> unit op" where
  "risk_code_unique ac code i = check_state_h (\<lambda>s. count_in ac (\<lambda>k. k_code k = code \<and> Some (r_id k) \<noteq> i)
     (db_risks s) = 0) UniqueViolation"

definition create_risk :: "actor \<Rightarrow> env \<Rightarrow> (rat \<Rightarrow> int option) \<Rightarrow> create_risk_dto \<Rightarrow> risk op" where
  "create_risk ac env icol dto =
     bind_h (default_model ac None) (\<lambda>p.
     bind_h (lift_h (compute_scores (created_values dto) p)) (\<lambda>r.
     bind_h (lift_h (int_columns icol r)) (\<lambda>(l, i).
     then_h (risk_code_unique ac (ck_code dto) None)
    (bind_h (create_h (new_risk ac env dto r l i) insert_risk) (\<lambda>k.
     then_h (audit_record ac env (audit_of ''risk.created'' ''Risk'' (r_id k) No_Snapshot (Risk_Row k) []))
     (return_h k))))))"

record update_risk_dto =
  uk_code :: "string option"
  uk_title :: "string option"
  uk_description :: "string option"
  uk_category :: "uuid field"
  uk_entity :: "uuid field"
  uk_process :: "uuid field"
  uk_owner :: "uuid field"
  uk_source :: "string option"
  uk_status :: "risk_status option"
  uk_likelihood :: "int option"
  uk_impact :: "int option"
  uk_effectiveness :: "int option"
  uk_velocity :: "velocity option"
  uk_appetite :: "rat field"
  uk_tags :: "string list option"

definition updated_values :: "update_risk_dto \<Rightarrow> risk \<Rightarrow> risk_values" where
  "updated_values dto k =
     \<lparr> rv_likelihood = coalesce (uk_likelihood dto) (k_likelihood k), rv_impact = coalesce (uk_impact dto) (k_impact k),
       rv_effectiveness = coalesce (uk_effectiveness dto) (k_effectiveness k),
       rv_velocity = coalesce (uk_velocity dto) (k_velocity k),
       rv_appetite = map_option fl (patch_nullable (uk_appetite dto) (k_appetite k)) \<rparr>"

definition patch_risk :: "update_risk_dto \<Rightarrow> risk_values \<Rightarrow> risk_score_result \<Rightarrow> int \<Rightarrow> int \<Rightarrow> risk \<Rightarrow> risk" where
  "patch_risk dto v r l i k =
     (scored v r l i k)\<lparr> k_code := patch (uk_code dto) (k_code k), k_title := patch (uk_title dto) (k_title k),
        k_description := coalesce_opt (uk_description dto) (k_description k),
        k_category := patch_nullable (uk_category dto) (k_category k),
        k_entity := patch_nullable (uk_entity dto) (k_entity k),
        k_process := patch_nullable (uk_process dto) (k_process k),
        k_owner := patch_nullable (uk_owner dto) (k_owner k),
        k_source := coalesce_opt (uk_source dto) (k_source k), k_status := patch (uk_status dto) (k_status k),
        k_tags := patch (uk_tags dto) (k_tags k), k_appetite := patch_nullable (uk_appetite dto) (k_appetite k) \<rparr>"

definition update_risk_row :: "actor \<Rightarrow> uuid \<Rightarrow> (risk \<Rightarrow> risk) \<Rightarrow> db \<Rightarrow> db" where
  "update_risk_row ac i g s = s\<lparr> db_risks := update_in ac (has_id i) g (db_risks s) \<rparr>"

definition update_risk :: "actor \<Rightarrow> env \<Rightarrow> (rat \<Rightarrow> int option) \<Rightarrow> uuid \<Rightarrow> update_risk_dto \<Rightarrow> risk op" where
  "update_risk ac env icol i dto =
     bind_h (assert_risk ac i) (\<lambda>before.
     bind_h (default_model ac None) (\<lambda>p.
     let v = updated_values dto before in
     bind_h (lift_h (compute_scores v p)) (\<lambda>r.
     bind_h (lift_h (int_columns icol r)) (\<lambda>(l, m).
     let after = patch_risk dto v r l m before in
     then_h (risk_code_unique ac (k_code after) (Some i))
    (then_h (modify_h (update_risk_row ac i (patch_risk dto v r l m)))
    (then_h (audit_record ac env (audit_of ''risk.updated'' ''Risk'' i (Risk_Row before) (Risk_Row after) []))
     (return_h after)))))))"

section \<open>Assessments\<close>

record assess_risk_dto =
  as_period :: string
  as_likelihood :: int
  as_impact :: int
  as_effectiveness :: int
  as_velocity :: velocity
  as_rationale :: "string option"
  as_model :: "uuid option"

definition assessed_values :: "assess_risk_dto \<Rightarrow> risk \<Rightarrow> risk_values" where
  "assessed_values dto k =
     \<lparr> rv_likelihood = as_likelihood dto, rv_impact = as_impact dto, rv_effectiveness = as_effectiveness dto,
       rv_velocity = as_velocity dto, rv_appetite = map_option fl (k_appetite k) \<rparr>"

definition new_assessment ::
  "actor \<Rightarrow> env \<Rightarrow> uuid \<Rightarrow> assess_risk_dto \<Rightarrow> model_params \<Rightarrow> risk_score_result \<Rightarrow> int \<Rightarrow> int \<Rightarrow> db \<Rightarrow> risk_assessment" where
  "new_assessment ac env k dto p r l i s =
     \<lparr> r_id = db_next s, r_tenant = ac_tenant ac, r_created = env_now env, ra_risk = k,
       ra_model = map_option r_id (mp_model p), ra_period = as_period dto, ra_likelihood = as_likelihood dto,
       ra_impact = as_impact dto, ra_inherent_score = rs_inherent r, ra_effectiveness = as_effectiveness dto,
       ra_res_likelihood = l, ra_res_impact = i, ra_res_score = rs_residual r, ra_velocity = as_velocity dto,
       ra_rating = rs_rating r, ra_rationale = as_rationale dto, ra_assessed_by = ac_user ac,
       ra_assessed_at = env_now env \<rparr>"

definition insert_assessment :: "risk_assessment \<Rightarrow> db \<Rightarrow> db" where
  "insert_assessment a s = s\<lparr> db_assessments := insert_row a (db_assessments s), db_next := db_next s + 1 \<rparr>"

definition assessed :: "time \<Rightarrow> risk_values \<Rightarrow> risk_score_result \<Rightarrow> int \<Rightarrow> int \<Rightarrow> risk \<Rightarrow> risk" where
  "assessed now v r l i k = (scored v r l i k)\<lparr> k_assessed_at := Some now \<rparr>"

definition assess_risk ::
  "actor \<Rightarrow> env \<Rightarrow> (rat \<Rightarrow> int option) \<Rightarrow> uuid \<Rightarrow> assess_risk_dto \<Rightarrow> (risk_assessment \<times> risk) op" where
  "assess_risk ac env icol i dto =
     bind_h (assert_risk ac i) (\<lambda>k.
     bind_h (default_model ac (as_model dto)) (\<lambda>p.
     let v = assessed_values dto k in
     bind_h (lift_h (compute_scores v p)) (\<lambda>r.
     bind_h (transaction_h (
       bind_h (lift_h (int_columns icol r)) (\<lambda>(l, m).
       bind_h (create_h (new_assessment ac env i dto p r l m) insert_assessment) (\<lambda>a.
       then_h (modify_h (update_risk_row ac i (assessed (env_now env) v r l m)))
         (return_h (a, assessed (env_now env) v r l m k)))))) (\<lambda>(a, after).
     then_h (audit_record ac env (audit_of ''risk.assessed'' ''Risk'' i (Risk_Row k) (Risk_Row after)
               [(''assessmentId'', JId (r_id a))]))
     (return_h (a, after))))))"

section \<open>The heat map\<close>

record heat_cell =
  hc_likelihood :: int
  hc_impact :: int
  hc_count :: nat
  hc_score :: int
  hc_rating :: severity

record heat_map =
  hp_cells :: "heat_cell list"
  hp_thresholds :: thresholds
  hp_model :: "uuid option"

definition residual_cell :: "risk \<Rightarrow> int \<times> int" where
  "residual_cell k = (k_res_likelihood k, k_res_impact k)"

definition heatmap :: "actor \<Rightarrow> risk_status option \<Rightarrow> heat_map op" where
  "heatmap ac st =
     bind_h (default_model ac None) (\<lambda>p.
     gets_h (\<lambda>s.
       let rows = many_in ac (\<lambda>k. k_deleted_at k = None \<and> k_status k = coalesce st risk_status.ACTIVE) (db_risks s);
           counts = map_of (group_by (remdups (map residual_cell rows)) residual_cell rows)
       in \<lparr> hp_cells = concat (map (\<lambda>l. map (\<lambda>i.
              \<lparr> hc_likelihood = l, hc_impact = i, hc_count = coalesce (counts (l, i)) 0, hc_score = l * i,
                hc_rating = rating_for (of_int (l * i)) (mp_thresholds p) \<rparr>) [1..5]) [1..5]),
            hp_thresholds = mp_thresholds p, hp_model = map_option r_id (mp_model p) \<rparr>))"

section \<open>Categories\<close>

definition list_categories :: "actor \<Rightarrow> (risk_category list \<Rightarrow> risk_category list) \<Rightarrow> (risk_category \<times> nat) list op" where
  "list_categories ac order = gets_h (\<lambda>s. map (\<lambda>c. (c, count_rows (\<lambda>k. k_category k = Some (r_id c)) (db_risks s)))
     (order (many_in ac (\<lambda>_. True) (db_categories s))))"

record create_category_dto =
  cc_code :: string
  cc_name :: string
  cc_description :: "string option"
  cc_weight :: "rat option"
  cc_colour :: "string option"

definition new_category :: "actor \<Rightarrow> env \<Rightarrow> create_category_dto \<Rightarrow> db \<Rightarrow> risk_category" where
  "new_category ac env dto s =
     \<lparr> r_id = db_next s, r_tenant = ac_tenant ac, r_created = env_now env, rk_code = cc_code dto, rk_name = cc_name dto,
       rk_description = cc_description dto, rk_weight = coalesce (cc_weight dto) 1, rk_colour = cc_colour dto \<rparr>"

definition create_category :: "actor \<Rightarrow> env \<Rightarrow> create_category_dto \<Rightarrow> risk_category op" where
  "create_category ac env dto =
     then_h (check_state_h (\<lambda>s. count_in ac (\<lambda>c. rk_code c = cc_code dto) (db_categories s) = 0) UniqueViolation)
    (bind_h (create_h (new_category ac env dto)
              (\<lambda>c s. s\<lparr> db_categories := insert_row c (db_categories s), db_next := db_next s + 1 \<rparr>)) (\<lambda>c.
     then_h (audit_record ac env (audit_of ''risk_category.created'' ''RiskCategory'' (r_id c) No_Snapshot (Category_Row c) []))
     (return_h c)))"

section \<open>The scoring models of a tenant\<close>

definition list_models :: "actor \<Rightarrow> (scoring_model list \<Rightarrow> scoring_model list) \<Rightarrow> scoring_model list op" where
  "list_models ac order = gets_h (\<lambda>s. order (many_in ac (\<lambda>_. True) (db_models s)))"

record create_model_dto =
  co_name :: string
  co_default :: "bool option"
  co_likelihood_scale :: json
  co_impact_scale :: json
  co_weights :: "json option"
  co_thresholds :: "json option"
  co_appetite :: "json option"

definition validate_model_json :: "json option \<Rightarrow> json option \<Rightarrow> unit op" where
  "validate_model_json w t =
     then_h (check_h (\<not> json_truthy w \<or> parse_weights (the w) \<noteq> None)
               (BadRequest ''weights must contain non-negative likelihood, impact and velocity''))
     (check_h (\<not> json_truthy t \<or> parse_thresholds (the t) \<noteq> None)
               (BadRequest ''thresholds must contain LOW, MEDIUM, HIGH and CRITICAL numbers''))"

definition default_weights_json :: json where
  "default_weights_json = JObj [(''likelihood'', JNum 1), (''impact'', JNum 1), (''velocity'', JNum 0)]"

definition default_thresholds_json :: json where
  "default_thresholds_json = JObj [(''LOW'', JNum 5), (''MEDIUM'', JNum 10), (''HIGH'', JNum 16), (''CRITICAL'', JNum 25)]"

definition new_model :: "actor \<Rightarrow> env \<Rightarrow> create_model_dto \<Rightarrow> bool \<Rightarrow> db \<Rightarrow> scoring_model" where
  "new_model ac env dto d s =
     \<lparr> r_id = db_next s, r_tenant = ac_tenant ac, r_created = env_now env, sc_name = co_name dto, sc_default = d,
       sc_likelihood_scale = co_likelihood_scale dto, sc_impact_scale = co_impact_scale dto,
       sc_weights = json_or (co_weights dto) default_weights_json,
       sc_thresholds = json_or (co_thresholds dto) default_thresholds_json,
       sc_appetite = json_or (co_appetite dto) (JObj []) \<rparr>"

definition insert_model :: "scoring_model \<Rightarrow> db \<Rightarrow> db" where
  "insert_model m s = s\<lparr> db_models := insert_row m (db_models s), db_next := db_next s + 1 \<rparr>"

text \<open>The default mark is taken from the models that have it, but for \<open>i\<close>.\<close>

definition clear_defaults :: "actor \<Rightarrow> uuid option \<Rightarrow> db \<Rightarrow> db" where
  "clear_defaults ac i s = s\<lparr> db_models := update_in ac (\<lambda>m. sc_default m \<and> Some (r_id m) \<noteq> i)
     (\<lambda>m. m\<lparr> sc_default := False \<rparr>) (db_models s) \<rparr>"

text \<open>The constraint \<open>@@unique([tenantId, name])\<close> of scoring models, for a row other than \<open>i\<close>.\<close>

definition model_name_unique :: "actor \<Rightarrow> string \<Rightarrow> uuid option \<Rightarrow> unit op" where
  "model_name_unique ac nm i = check_state_h (\<lambda>s. count_in ac (\<lambda>m. sc_name m = nm \<and> Some (r_id m) \<noteq> i)
     (db_models s) = 0) UniqueViolation"

definition create_model :: "actor \<Rightarrow> env \<Rightarrow> create_model_dto \<Rightarrow> scoring_model op" where
  "create_model ac env dto =
     then_h (validate_model_json (co_weights dto) (co_thresholds dto))
    (bind_h (gets_h (\<lambda>s. count_in ac (\<lambda>_. True) (db_models s))) (\<lambda>n.
     let d = coalesce (co_default dto) (n = 0) in
     bind_h (transaction_h (
       then_h (when_h d (modify_h (clear_defaults ac None)))
      (then_h (model_name_unique ac (co_name dto) None)
       (create_h (new_model ac env dto d) insert_model)))) (\<lambda>m.
     then_h (audit_record ac env (audit_of ''scoring_model.created'' ''ScoringModel'' (r_id m) No_Snapshot (Model_Row m) []))
     (return_h m))))"

record update_model_dto =
  uo_name :: "string option"
  uo_default :: "bool option"
  uo_likelihood_scale :: "json option"
  uo_impact_scale :: "json option"
  uo_weights :: "json option"
  uo_thresholds :: "json option"
  uo_appetite :: "json option"

definition patch_model :: "update_model_dto \<Rightarrow> scoring_model \<Rightarrow> scoring_model" where
  "patch_model dto m =
     m\<lparr> sc_name := patch (uo_name dto) (sc_name m), sc_default := patch (uo_default dto) (sc_default m),
        sc_likelihood_scale := patch (json_arg (uo_likelihood_scale dto)) (sc_likelihood_scale m),
        sc_impact_scale := patch (json_arg (uo_impact_scale dto)) (sc_impact_scale m),
        sc_weights := patch (json_arg (uo_weights dto)) (sc_weights m), sc_thresholds := patch (json_arg (uo_thresholds dto)) (sc_thresholds m),
        sc_appetite := patch (json_arg (uo_appetite dto)) (sc_appetite m) \<rparr>"

definition update_model_row :: "actor \<Rightarrow> uuid \<Rightarrow> (scoring_model \<Rightarrow> scoring_model) \<Rightarrow> db \<Rightarrow> db" where
  "update_model_row ac i g s = s\<lparr> db_models := update_in ac (has_id i) g (db_models s) \<rparr>"

definition update_model :: "actor \<Rightarrow> env \<Rightarrow> uuid \<Rightarrow> update_model_dto \<Rightarrow> scoring_model op" where
  "update_model ac env i dto =
     then_h (validate_model_json (uo_weights dto) (uo_thresholds dto))
    (bind_h (demand_h (\<lambda>s. first_in ac (has_id i) (db_models s)) (NotFound ''Scoring model not found'')) (\<lambda>before.
     bind_h (transaction_h (
       then_h (when_h (uo_default dto = Some True) (modify_h (clear_defaults ac (Some i))))
      (then_h (model_name_unique ac (patch (uo_name dto) (sc_name before)) (Some i))
      (then_h (modify_h (update_model_row ac i (patch_model dto)))
       (return_h (patch_model dto before)))))) (\<lambda>after.
     then_h (audit_record ac env (audit_of ''scoring_model.updated'' ''ScoringModel'' i (Model_Row before) (Model_Row after) []))
     (return_h after))))"

section \<open>Confinement\<close>

lemma default_model_reads [intro]: "reads (default_model ac i)"
  by (cases i) (auto simp: default_model_def)

lemma risk_checks_read [intro]:
  "reads (assert_risk ac i)" "reads (risk_code_unique ac code k)" "reads (model_name_unique ac nm k)"
  "reads (validate_model_json w t)"
  unfolding assert_risk_def risk_code_unique_def model_name_unique_def validate_model_json_def by (intro reads_intros)+

lemma risk_row_changes [simp]:
  "r_tenant (patch_risk dto v r l i k) = r_tenant k" "r_id (patch_risk dto v r l i k) = r_id k"
  "r_tenant (assessed now v r l i k) = r_tenant k" "r_id (assessed now v r l i k) = r_id k"
  "r_tenant (patch_model mdto m) = r_tenant m" "r_id (patch_model mdto m) = r_id m"
  by (simp_all add: patch_risk_def assessed_def scored_def patch_model_def)

lemmas risks_confined = confinement.keeps_reads [OF default_model_reads]
  confinement.keeps_reads [OF risk_checks_read(1)] confinement.keeps_reads [OF risk_checks_read(2)]
  confinement.keeps_reads [OF risk_checks_read(3)] confinement.keeps_reads [OF risk_checks_read(4)]

lemma risk_writes_confined:
  "(\<And>x. r_tenant (g x) = r_tenant x) \<Longrightarrow> same_outside (ac_tenant ac) s (update_risk_row ac i g s)"
  "audit_grows s (update_risk_row ac i g s)"
  "(\<And>x. r_tenant (h x) = r_tenant x) \<Longrightarrow> same_outside (ac_tenant ac) s (update_model_row ac i h s)"
  "audit_grows s (update_model_row ac i h s)"
  "same_outside (ac_tenant ac) s (clear_defaults ac j s)" "audit_grows s (clear_defaults ac j s)"
  by (simp_all add: update_risk_row_def update_model_row_def clear_defaults_def confined_writes)

lemma risk_changes_confined:
  "keeps (confined (ac_tenant ac)) (create_risk ac env icol cdto)"
  "keeps (confined (ac_tenant ac)) (update_risk ac env icol i udto)"
  "keeps (confined (ac_tenant ac)) (assess_risk ac env icol i adto)"
  unfolding create_risk_def update_risk_def assess_risk_def Let_def
  by (intro risks_confined risk_writes_confined confined_steps;
      simp add: insert_risk_def new_risk_def Let_def insert_assessment_def new_assessment_def confined_writes)+

lemma model_changes_confined:
  "keeps (confined (ac_tenant ac)) (create_category ac env gdto)"
  "keeps (confined (ac_tenant ac)) (create_model ac env mdto)"
  "keeps (confined (ac_tenant ac)) (update_model ac env i odto)"
  unfolding create_category_def create_model_def update_model_def Let_def
  by (intro risks_confined risk_writes_confined confined_steps;
      simp add: new_category_def insert_model_def new_model_def confined_writes)+

end
