(* ===== verification/Keyed.thy ===== *)
theory Keyed
  imports Store
begin

text \<open>
  Tables with a unique key next to the primary key: what the unique constraints of the schema keep.
  The services check a constraint by counting the rows with the same key, so that an insertion or an
  update that passes the check keeps the table keyed.
\<close>

definition keyed :: "('r row_scheme \<Rightarrow> 'k) \<Rightarrow> nat \<Rightarrow> 'r row_scheme list \<Rightarrow> bool" where
  "keyed key n t \<longleftrightarrow> distinct (map r_id t) \<and> (\<forall>r\<in>set t. r_id r < n) \<and> distinct (map key t)"

lemma keyed_grow: "keyed key n t \<Longrightarrow> n \<le> m \<Longrightarrow> keyed key m t"
  by (auto simp: keyed_def)

lemma keyed_same: "keyed key n t \<Longrightarrow> x \<in> set t \<Longrightarrow> y \<in> set t \<Longrightarrow> r_id x = r_id y \<Longrightarrow> x = y"
  by (auto simp: keyed_def distinct_map inj_on_def)

lemma keyed_differ: "keyed key n t \<Longrightarrow> x \<in> set t \<Longrightarrow> y \<in> set t \<Longrightarrow> r_id x \<noteq> r_id y \<Longrightarrow> key x \<noteq> key y"
  by (auto simp: keyed_def distinct_map inj_on_def)

lemma keyed_insert:
  assumes "keyed key n t" "r_id r = n" "\<And>x. x \<in> set t \<Longrightarrow> key x \<noteq> key r"
  shows "keyed key (n + 1) (insert_row r t)"
  using assms by (fastforce simp: keyed_def insert_row_def)

lemma keyed_update:
  assumes "keyed key n t" "\<And>r. r_id (g r) = r_id r"
    "\<And>x y. x \<in> set t \<Longrightarrow> y \<in> set t \<Longrightarrow> mine ac x \<Longrightarrow> P x \<Longrightarrow> r_id x \<noteq> r_id y \<Longrightarrow>
       key (g x) \<noteq> (if mine ac y \<and> P y then key (g y) else key y)"
  shows "keyed key n (update_in ac P g t)"
proof -
  let ?f = "\<lambda>x. if mine ac x \<and> P x then g x else x"
  have t: "update_in ac P g t = map ?f t" by (simp add: update_in_def update_rows_def)
  have ids: "map r_id (map ?f t) = map r_id t" using assms(2) by simp
  have "inj_on (key \<circ> ?f) (set t)"
  proof (rule inj_onI)
    fix x y assume xy: "x \<in> set t" "y \<in> set t" "(key \<circ> ?f) x = (key \<circ> ?f) y"
    show "x = y"
    proof (rule ccontr)
      assume "x \<noteq> y"
      then have n: "r_id x \<noteq> r_id y" using keyed_same [OF assms(1) xy(1,2)] by auto
      show False
        using xy(3) keyed_differ [OF assms(1) xy(1,2) n] n assms(3) [OF xy(1,2)] assms(3) [OF xy(2,1)]
        by (auto split: if_splits)
    qed
  qed
  moreover have "distinct t" using assms(1) by (simp add: keyed_def distinct_map)
  ultimately have "distinct (map key (map ?f t))" by (simp add: distinct_map)
  then show ?thesis unfolding keyed_def t ids using assms(1,2) by (auto simp: keyed_def)
qed

lemma keyed_update_key:
  assumes "keyed key n t" "\<And>r. r_id (g r) = r_id r" "\<And>r. key (g r) = key r"
  shows "keyed key n (update_in ac P g t)"
  by (rule keyed_update [OF assms(1,2)]) (use keyed_differ [OF assms(1)] assms(3) in auto)

text \<open>An update of one row, after the check that no other row has its new key.\<close>

lemma keyed_update_row:
  assumes "keyed key n t" "\<And>r. r_id (g r) = r_id r" "\<And>r. r \<in> set t \<Longrightarrow> has_id i r \<Longrightarrow> r = b"
    "\<And>y. y \<in> set t \<Longrightarrow> r_id y \<noteq> i \<Longrightarrow> key y \<noteq> key (g b)"
  shows "keyed key n (update_in ac (has_id i) g t)"
proof (rule keyed_update [OF assms(1,2)])
  fix x y assume "x \<in> set t" "y \<in> set t" "mine ac x" "has_id i x" "r_id x \<noteq> r_id y"
  then show "key (g x) \<noteq> (if mine ac y \<and> has_id i y then key (g y) else key y)"
    using assms(3) [of x] assms(4) [of y] by (auto simp: has_id_def)
qed

lemma keyed_delete: "keyed key n t \<Longrightarrow> keyed key n (delete_in ac P t)"
  by (auto simp: keyed_def delete_in_def delete_rows_def distinct_map_filter)

lemma set_update_in_cases:
  "r \<in> set (update_in ac P g t) \<Longrightarrow> (\<exists>x\<in>set t. mine ac x \<and> P x \<and> r = g x) \<or> (r \<in> set t \<and> \<not> (mine ac r \<and> P r))"
  by (auto simp: set_update_in)

lemma ball_update_in:
  assumes "\<forall>x\<in>set t. Q x" "\<And>x. x \<in> set t \<Longrightarrow> mine ac x \<Longrightarrow> P x \<Longrightarrow> Q x \<Longrightarrow> Q (g x)"
  shows "\<forall>x\<in>set (update_in ac P g t). Q x"
  using assms by (auto dest!: set_update_in_cases)

text \<open>Where as many rows are counted as there are different ids, every id has one.\<close>

lemma counted_all:
  assumes "distinct (map r_id t)" "count_in ac (\<lambda>k. r_id k \<in> set ids \<and> P k) t = length (dedupe ids)" "i \<in> set ids"
  shows "\<exists>k\<in>set t. r_id k = i \<and> mine ac k \<and> P k"
proof -
  let ?rows = "filter (\<lambda>k. mine ac k \<and> r_id k \<in> set ids \<and> P k) t"
  have "distinct (map r_id ?rows)" using assms(1) by (simp add: distinct_map_filter)
  from distinct_card [OF this] have "card (r_id ` set ?rows) = length ?rows"
    by (simp only: set_map length_map)
  also have "length ?rows = card (set ids)"
    using assms(2) distinct_card [of "dedupe ids"] by (simp add: count_in_def count_rows_def)
  finally have "card (r_id ` set ?rows) = card (set ids)" .
  moreover have "r_id ` set ?rows \<subseteq> set ids" by auto
  ultimately have "i \<in> r_id ` set ?rows" using card_subset_eq [of "set ids" "r_id ` set ?rows"] assms(3) by simp
  then show ?thesis by auto
qed

end
