(* ===== verification/Risk_Life.thy ===== *)
theory Risk_Life
  imports Risks Keyed
begin

text \<open>
  The register under every sequence of calls: the scores that are stored with a risk and with an
  assessment are those of its stored inputs, codes are unique, and a tenant has at most one default
  scoring model. Of the database client only this is assumed: an integer column gets the number
  itself or one of the two integers next to it.
\<close>

definition rounds :: "(rat \<Rightarrow> int option) \<Rightarrow> bool" where
  "rounds icol \<longleftrightarrow> (\<forall>x n. icol x = Some n \<longrightarrow> \<lfloor>x\<rfloor> \<le> n \<and> n \<le> \<lceil>x\<rceil>)"

section \<open>Scores that follow from the inputs\<close>

text \<open>The scores of some model with valid weights.\<close>

definition score_of :: "risk_values \<Rightarrow> risk_score_result \<Rightarrow> bool" where
  "score_of v r \<longleftrightarrow> (\<exists>p. compute_scores v p = Inr r)"

definition risk_inputs :: "risk \<Rightarrow> risk_values" where
  "risk_inputs k = \<lparr> rv_likelihood = k_likelihood k, rv_impact = k_impact k, rv_effectiveness = k_effectiveness k,
     rv_velocity = k_velocity k, rv_appetite = map_option fl (k_appetite k) \<rparr>"

definition risk_scored :: "(rat \<Rightarrow> int option) \<Rightarrow> risk \<Rightarrow> bool" where
  "risk_scored icol k \<longleftrightarrow> (\<exists>r. score_of (risk_inputs k) r \<and> k_inherent_score k = rs_inherent r \<and>
     icol (rs_residual_likelihood r) = Some (k_res_likelihood k) \<and> icol (rs_residual_impact r) = Some (k_res_impact k) \<and>
     k_res_score k = rs_residual r \<and> k_risk_rating k = rs_rating r \<and> k_within k = rs_within_appetite r)"

definition assessment_inputs :: "risk_assessment \<Rightarrow> rat option \<Rightarrow> risk_values" where
  "assessment_inputs a app = \<lparr> rv_likelihood = ra_likelihood a, rv_impact = ra_impact a,
     rv_effectiveness = ra_effectiveness a, rv_velocity = ra_velocity a, rv_appetite = app \<rparr>"

definition assessment_scored :: "(rat \<Rightarrow> int option) \<Rightarrow> risk_assessment \<Rightarrow> bool" where
  "assessment_scored icol a \<longleftrightarrow> (\<exists>app r. score_of (assessment_inputs a app) r \<and> ra_inherent_score a = rs_inherent r \<and>
     icol (rs_residual_likelihood r) = Some (ra_res_likelihood a) \<and> icol (rs_residual_impact r) = Some (ra_res_impact a) \<and>
     ra_res_score a = rs_residual r \<and> ra_rating a = rs_rating r)"

definition one_default :: "scoring_model list \<Rightarrow> bool" where
  "one_default t \<longleftrightarrow> (\<forall>m\<in>set t. \<forall>m'\<in>set t. sc_default m \<and> sc_default m' \<and> r_tenant m = r_tenant m' \<longrightarrow> m = m')"

definition risk_key :: "risk \<Rightarrow> uuid \<times> string" where
  "risk_key k = (r_tenant k, k_code k)"

definition model_key :: "scoring_model \<Rightarrow> uuid \<times> string" where
  "model_key m = (r_tenant m, sc_name m)"

definition risks_ok :: "(rat \<Rightarrow> int option) \<Rightarrow> db \<Rightarrow> bool" where
  "risks_ok icol s \<longleftrightarrow> keyed risk_key (db_next s) (db_risks s) \<and> keyed model_key (db_next s) (db_models s) \<and>
     (\<forall>k\<in>set (db_risks s). risk_scored icol k) \<and> (\<forall>a\<in>set (db_assessments s). assessment_scored icol a) \<and>
     one_default (db_models s)"

lemma risks_ok_cong:
  assumes "risks_ok icol s" "db_risks s' = db_risks s" "db_models s' = db_models s"
    "db_assessments s' = db_assessments s" "db_next s \<le> db_next s'"
  shows "risks_ok icol s'"
  using assms by (auto simp: risks_ok_def intro: keyed_grow)

lemma risks_ok_audited: "risks_ok icol s \<Longrightarrow> risks_ok icol (audited ac env ev s)"
  by (erule risks_ok_cong) (simp_all add: audited_def)

lemma risk_code_unique_run:
  "risk_code_unique ac code i s = (if \<forall>k\<in>set (db_risks s). mine ac k \<and> k_code k = code \<longrightarrow> Some (r_id k) = i
     then (Inr (), s) else (Inl UniqueViolation, s))"
  by (auto simp: risk_code_unique_def run_h count_in_def table_simps)

lemma model_name_unique_run:
  "model_name_unique ac nm i s = (if \<forall>m\<in>set (db_models s). mine ac m \<and> sc_name m = nm \<longrightarrow> Some (r_id m) = i
     then (Inr (), s) else (Inl UniqueViolation, s))"
  by (auto simp: model_name_unique_def run_h count_in_def table_simps)

lemma int_columns_ok: "int_columns icol r = Inr (l, i) \<longleftrightarrow>
    icol (rs_residual_likelihood r) = Some l \<and> icol (rs_residual_impact r) = Some i"
  by (auto simp: int_columns_def split: option.splits)

lemma score_of_computed: "compute_scores v p = Inr r \<Longrightarrow> score_of v r"
  by (auto simp: score_of_def)

section \<open>The writes\<close>

lemma risks_ok_insert:
  assumes "risks_ok icol s" "r_id k = db_next s" "risk_scored icol k"
    "\<And>x. x \<in> set (db_risks s) \<Longrightarrow> risk_key x \<noteq> risk_key k"
  shows "risks_ok icol (insert_risk k s)"
proof -
  note ok = assms(1) [unfolded risks_ok_def]
  have "keyed risk_key (db_next s + 1) (insert_row k (db_risks s))" using ok assms(2,4) by (intro keyed_insert) simp_all
  moreover have "keyed model_key (db_next s + 1) (db_models s)" using ok keyed_grow le_add1 by blast
  ultimately show ?thesis using ok assms(3) by (simp add: risks_ok_def insert_risk_def table_simps)
qed

lemma risks_ok_update:
  assumes "risks_ok icol s" "\<And>x. r_id (g x) = r_id x" "\<And>x. r_tenant (g x) = r_tenant x"
    "k \<in> set (db_risks s)" "r_id k = i" "risk_scored icol (g k)"
    "\<And>x. x \<in> set (db_risks s) \<Longrightarrow> r_id x \<noteq> i \<Longrightarrow> risk_key x \<noteq> risk_key (g k)"
  shows "risks_ok icol (update_risk_row ac i g s)"
proof -
  note ok = assms(1) [unfolded risks_ok_def]
  have one: "x = k" if "x \<in> set (db_risks s)" "has_id i x" for x
    using keyed_same [of risk_key "db_next s" "db_risks s" x k] that ok assms(4,5) by (simp add: has_id_def)
  have "keyed risk_key (db_next s) (update_in ac (has_id i) g (db_risks s))"
    using ok by (intro keyed_update_row [where b = k] one assms) auto
  moreover have "\<forall>x\<in>set (update_in ac (has_id i) g (db_risks s)). risk_scored icol x"
    using ok assms(6) by (intro ball_update_in) (auto dest: one)
  ultimately show ?thesis using ok by (simp add: risks_ok_def update_risk_row_def)
qed

lemma risks_ok_clear: "risks_ok icol s \<Longrightarrow> risks_ok icol (clear_defaults ac i s)"
proof -
  assume ok: "risks_ok icol s"
  have "keyed model_key (db_next s) (db_models (clear_defaults ac i s))"
    using ok unfolding clear_defaults_def
    by (auto simp: risks_ok_def model_key_def intro: keyed_update_key)
  moreover have kept: "m \<in> set (db_models s)" if "m \<in> set (db_models (clear_defaults ac i s))" "sc_default m" for m
    using that by (auto simp: clear_defaults_def dest!: set_update_in_cases)
  have "one_default (db_models (clear_defaults ac i s))"
    unfolding one_default_def using ok kept by (auto simp: risks_ok_def one_default_def)
  ultimately show ?thesis using ok by (simp add: risks_ok_def clear_defaults_def)
qed

lemma cleared: "m \<in> set (db_models (clear_defaults ac i s)) \<Longrightarrow> r_tenant m = ac_tenant ac \<Longrightarrow> Some (r_id m) \<noteq> i \<Longrightarrow> \<not> sc_default m"
  by (auto simp: clear_defaults_def mine_def dest!: set_update_in_cases)

lemma risks_ok_insert_model:
  assumes "risks_ok icol s" "r_id m = db_next s" "\<And>x. x \<in> set (db_models s) \<Longrightarrow> model_key x \<noteq> model_key m"
    "\<And>x. x \<in> set (db_models s) \<Longrightarrow> r_tenant x = r_tenant m \<Longrightarrow> sc_default m \<Longrightarrow> \<not> sc_default x"
  shows "risks_ok icol (insert_model m s)"
proof -
  note ok = assms(1) [unfolded risks_ok_def]
  have "keyed model_key (db_next s + 1) (insert_row m (db_models s))" using ok assms(2,3) by (intro keyed_insert) simp_all
  moreover have "keyed risk_key (db_next s + 1) (db_risks s)" using ok keyed_grow le_add1 by blast
  moreover have "one_default (insert_row m (db_models s))"
    using ok assms(4) unfolding one_default_def table_simps by (metis insert_iff)
  ultimately show ?thesis using ok by (simp add: risks_ok_def insert_model_def)
qed

lemma risks_ok_update_model:
  assumes "risks_ok icol s" "\<And>x. r_id (g x) = r_id x" "\<And>x. r_tenant (g x) = r_tenant x"
    "m \<in> set (db_models s)" "r_id m = i"
    "\<And>x. x \<in> set (db_models s) \<Longrightarrow> r_id x \<noteq> i \<Longrightarrow> model_key x \<noteq> model_key (g m)"
    "\<And>x. x \<in> set (db_models s) \<Longrightarrow> r_tenant x = r_tenant m \<Longrightarrow> r_id x \<noteq> i \<Longrightarrow> sc_default (g m) \<Longrightarrow> \<not> sc_default x"
  shows "risks_ok icol (update_model_row ac i g s)"
proof -
  note ok = assms(1) [unfolded risks_ok_def]
  have one: "x = m" if "x \<in> set (db_models s)" "has_id i x" for x
    using keyed_same [of model_key "db_next s" "db_models s" x m] that ok assms(4,5) by (simp add: has_id_def)
  have "keyed model_key (db_next s) (update_in ac (has_id i) g (db_models s))"
    using ok by (intro keyed_update_row [where b = m] one assms) auto
  moreover have "one_default (update_in ac (has_id i) g (db_models s))"
    unfolding one_default_def
  proof (intro ballI impI)
    fix x y assume xy: "x \<in> set (update_in ac (has_id i) g (db_models s))" "y \<in> set (update_in ac (has_id i) g (db_models s))"
      "sc_default x \<and> sc_default y \<and> r_tenant x = r_tenant y"
    have row: "(z = g m \<and> mine ac m) \<or> (z \<in> set (db_models s) \<and> (r_id z \<noteq> i \<or> \<not> mine ac m))"
      if "z \<in> set (update_in ac (has_id i) g (db_models s))" for z
      using set_update_in_cases [OF that] one by (fastforce simp: has_id_def)
    show "x = y"
      using row [OF xy(1)] row [OF xy(2)] xy(3) ok assms(3) [of m] assms(7)
      unfolding one_default_def by metis
  qed
  ultimately show ?thesis using ok by (simp add: risks_ok_def update_model_row_def)
qed

section \<open>The operations\<close>

definition keeps_risks :: "(rat \<Rightarrow> int option) \<Rightarrow> db \<Rightarrow> db \<Rightarrow> bool" where
  "keeps_risks icol s s' \<longleftrightarrow> (risks_ok icol s \<longrightarrow> risks_ok icol s')"

interpretation risks_frame: frame "keeps_risks icol" for icol
  by unfold_locales (auto simp: keeps_risks_def)

lemma default_model_run: "default_model ac None s = (Inr (model_params
    (coalesce_opt (first_in ac sc_default (db_models s)) (oldest_model ac s))), s)"
  by (simp add: default_model_def run_h)

lemma find_risk_row: "find_risk ac i s = Some k \<Longrightarrow> k \<in> set (db_risks s) \<and> mine ac k \<and> r_id k = i \<and> k_deleted_at k = None"
  by (auto simp: find_risk_def has_id_def dest: first_in_Some)

lemma create_risk_keeps: "risks_ok icol s \<Longrightarrow> risks_ok icol (snd (create_risk ac env icol dto s))"
proof -
  assume ok: "risks_ok icol s"
  have "risks_ok icol (insert_risk (new_risk ac env dto r l i s) s)"
    if "compute_scores (created_values dto) p = Inr r" "int_columns icol r = Inr (l, i)"
      "\<forall>k\<in>set (db_risks s). mine ac k \<longrightarrow> k_code k \<noteq> ck_code dto" for p r l i
  proof (rule risks_ok_insert [OF ok])
    have "risk_inputs (new_risk ac env dto r l i s) = created_values dto"
      by (simp add: risk_inputs_def new_risk_def created_values_def Let_def)
    then show "risk_scored icol (new_risk ac env dto r l i s)"
      using that(2) score_of_computed [OF that(1)] by (auto simp: risk_scored_def int_columns_ok new_risk_def Let_def)
  qed (use that(3) in \<open>auto simp: new_risk_def Let_def risk_key_def mine_def\<close>)
  then show ?thesis
    using ok by (auto simp: create_risk_def run_h default_model_run risk_code_unique_run risks_ok_audited
        split: sum.splits prod.splits)
qed

lemma update_risk_keeps: "risks_ok icol s \<Longrightarrow> risks_ok icol (snd (update_risk ac env icol i dto s))"
proof -
  assume ok: "risks_ok icol s"
  have "risks_ok icol (update_risk_row ac i (patch_risk dto (updated_values dto k) r l m) s)"
    if k: "find_risk ac i s = Some k" and sc: "compute_scores (updated_values dto k) p = Inr r" "int_columns icol r = Inr (l, m)"
      and u: "\<forall>x\<in>set (db_risks s). mine ac x \<and> k_code x = k_code (patch_risk dto (updated_values dto k) r l m k) \<longrightarrow> r_id x = i"
    for k p r l m
  proof (rule risks_ok_update [OF ok, where k = k])
    have "risk_inputs (patch_risk dto (updated_values dto k) r l m k) = updated_values dto k"
      by (simp add: risk_inputs_def patch_risk_def scored_def updated_values_def)
    then show "risk_scored icol (patch_risk dto (updated_values dto k) r l m k)"
      using sc(2) score_of_computed [OF sc(1)] by (auto simp: risk_scored_def int_columns_ok patch_risk_def scored_def)
    show "risk_key x \<noteq> risk_key (patch_risk dto (updated_values dto k) r l m k)"
      if "x \<in> set (db_risks s)" "r_id x \<noteq> i" for x
      using u that find_risk_row [OF k] by (auto simp: risk_key_def mine_def)
  qed (use find_risk_row [OF k] in auto)
  then show ?thesis
    using ok by (auto simp: update_risk_def assert_risk_def run_h default_model_run risk_code_unique_run risks_ok_audited
        Let_def split: sum.splits prod.splits option.splits)
qed

lemma assess_risk_keeps: "risks_ok icol s \<Longrightarrow> risks_ok icol (snd (assess_risk ac env icol i dto s))"
proof -
  assume ok: "risks_ok icol s"
  have "risks_ok icol (update_risk_row ac i (assessed now (assessed_values dto k) r l m)
      (insert_assessment (new_assessment ac env i dto p r l m s) s))"
    if k: "find_risk ac i s = Some k" and sc: "compute_scores (assessed_values dto k) p = Inr r" "int_columns icol r = Inr (l, m)"
    for k p r l m now
  proof (rule risks_ok_update [where k = k])
    let ?s = "insert_assessment (new_assessment ac env i dto p r l m s) s"
    have "assessment_scored icol (new_assessment ac env i dto p r l m s)"
      unfolding assessment_scored_def
      using sc(2) score_of_computed [OF sc(1)]
      by (intro exI [of _ "map_option fl (k_appetite k)"] exI [of _ r])
         (simp add: int_columns_ok new_assessment_def assessment_inputs_def assessed_values_def)
    moreover have "keyed risk_key (db_next s + 1) (db_risks s)" "keyed model_key (db_next s + 1) (db_models s)"
      using ok keyed_grow le_add1 unfolding risks_ok_def by blast+
    ultimately show "risks_ok icol ?s"
      using ok by (simp add: risks_ok_def insert_assessment_def table_simps)
    have "risk_inputs (assessed now (assessed_values dto k) r l m k) = assessed_values dto k"
      by (simp add: risk_inputs_def assessed_def scored_def assessed_values_def)
    then show "risk_scored icol (assessed now (assessed_values dto k) r l m k)"
      using sc(2) score_of_computed [OF sc(1)] by (auto simp: risk_scored_def int_columns_ok assessed_def scored_def)
    show "risk_key x \<noteq> risk_key (assessed now (assessed_values dto k) r l m k)"
      if "x \<in> set (db_risks ?s)" "r_id x \<noteq> i" for x
      using that find_risk_row [OF k] keyed_differ [of risk_key "db_next s" "db_risks s" x k] ok
      by (auto simp: risks_ok_def insert_assessment_def assessed_def scored_def risk_key_def)
  qed (use find_risk_row [OF k] in \<open>auto simp: insert_assessment_def\<close>)
  moreover have "snd (default_model ac (as_model dto) t) = t" for t
    using default_model_reads by (simp add: reads_def)
  ultimately show ?thesis
    using ok by (auto simp: assess_risk_def assert_risk_def run_h risks_ok_audited Let_def
        split: sum.splits prod.splits option.splits dest!: readsD [OF default_model_reads])
qed

lemma create_category_keeps: "risks_ok icol s \<Longrightarrow> risks_ok icol (snd (create_category ac env dto s))"
  by (auto simp: create_category_def run_h intro!: risks_ok_audited elim!: risks_ok_cong)

lemma clear_defaults_tables [simp]:
  "db_next (clear_defaults ac i s) = db_next s"
  by (simp add: clear_defaults_def)

lemma clear_defaults_model:
  "m \<in> set (db_models (clear_defaults ac i s)) \<Longrightarrow>
     \<exists>x\<in>set (db_models s). r_id x = r_id m \<and> r_tenant x = r_tenant m \<and> sc_name x = sc_name m"
  by (auto simp: clear_defaults_def dest!: set_update_in_cases)

lemma create_model_keeps: "risks_ok icol s \<Longrightarrow> risks_ok icol (snd (create_model ac env dto s))"
proof -
  assume ok: "risks_ok icol s"
  have "risks_ok icol (insert_model (new_model ac env dto d t) t)"
    if "t = (if d then clear_defaults ac None s else s)"
      "\<forall>m\<in>set (db_models t). mine ac m \<longrightarrow> sc_name m \<noteq> co_name dto" for d t
  proof (rule risks_ok_insert_model)
    show "risks_ok icol t" using ok that(1) by (simp add: risks_ok_clear)
    show "model_key x \<noteq> model_key (new_model ac env dto d t)" if "x \<in> set (db_models t)" for x
      using \<open>\<forall>m\<in>_. _\<close> that by (auto simp: model_key_def new_model_def mine_def)
    show "\<not> sc_default x" if "x \<in> set (db_models t)" "r_tenant x = r_tenant (new_model ac env dto d t)"
      "sc_default (new_model ac env dto d t)" for x
      using that \<open>t = _\<close> cleared [of x ac None s] by (simp add: new_model_def)
  qed (simp add: new_model_def)
  from this [of "clear_defaults ac None s" True] this [of s False] show ?thesis
    using ok
    by (auto simp: create_model_def validate_model_json_def run_h model_name_unique_run Let_def risks_ok_audited split: sum.splits prod.splits if_splits)
qed

lemma update_model_keeps: "risks_ok icol s \<Longrightarrow> risks_ok icol (snd (update_model ac env i dto s))"
proof -
  assume ok: "risks_ok icol s"
  have "risks_ok icol (update_model_row ac i (patch_model dto) t)"
    if t: "t = (if uo_default dto = Some True then clear_defaults ac (Some i) s else s)"
      and m: "first_in ac (has_id i) (db_models s) = Some m"
      and u: "\<forall>x\<in>set (db_models t). mine ac x \<and> sc_name x = patch (uo_name dto) (sc_name m) \<longrightarrow> r_id x = i" for m t
  proof -
    have m': "m \<in> set (db_models s)" "mine ac m" "r_id m = i" using first_in_Some [OF m] by (auto simp: has_id_def)
    have okt: "risks_ok icol t" using ok t by (simp add: risks_ok_clear)
    have mt: "m \<in> set (db_models t)"
      using t m' by (auto simp: clear_defaults_def set_update_in)
    show ?thesis
    proof (rule risks_ok_update_model [OF okt _ _ mt m'(3)])
      show "model_key x \<noteq> model_key (patch_model dto m)" if "x \<in> set (db_models t)" "r_id x \<noteq> i" for x
        using u that m'(2) by (auto simp: model_key_def mine_def patch_model_def)
      show "\<not> sc_default x" if "x \<in> set (db_models t)" "r_tenant x = r_tenant m" "r_id x \<noteq> i" "sc_default (patch_model dto m)" for x
      proof (cases "uo_default dto")
        case None
        then have "sc_default m" using that(4) by (simp add: patch_model_def)
        moreover have "t = s" using None t by simp
        ultimately show ?thesis using ok that(1-3) m' by (auto simp: risks_ok_def one_default_def)
      next
        case (Some b)
        then have "t = clear_defaults ac (Some i) s" using that(4) t by (cases b) (simp_all add: patch_model_def)
        then show ?thesis using that(1-3) m'(2) cleared [of x ac "Some i" s] by (simp add: mine_def)
      qed
    qed simp_all
  qed
  then show ?thesis
    using ok
    by (auto simp: update_model_def validate_model_json_def run_h model_name_unique_run risks_ok_audited split: sum.splits prod.splits option.splits if_splits)
qed

datatype risk_call =
    Create_Risk create_risk_dto
  | Update_Risk uuid update_risk_dto
  | Assess_Risk uuid assess_risk_dto
  | Create_Category create_category_dto
  | Create_Model create_model_dto
  | Update_Model uuid update_model_dto

fun call_risk :: "(rat \<Rightarrow> int option) \<Rightarrow> actor \<Rightarrow> env \<Rightarrow> risk_call \<Rightarrow> db \<Rightarrow> db" where
  "call_risk icol ac env (Create_Risk cdto) s = snd (create_risk ac env icol cdto s)"
| "call_risk icol ac env (Update_Risk i udto) s = snd (update_risk ac env icol i udto s)"
| "call_risk icol ac env (Assess_Risk i adto) s = snd (assess_risk ac env icol i adto s)"
| "call_risk icol ac env (Create_Category gdto) s = snd (create_category ac env gdto s)"
| "call_risk icol ac env (Create_Model mdto) s = snd (create_model ac env mdto s)"
| "call_risk icol ac env (Update_Model i odto) s = snd (update_model ac env i odto s)"

definition call_risks :: "(rat \<Rightarrow> int option) \<Rightarrow> (actor \<times> env \<times> risk_call) list \<Rightarrow> db \<Rightarrow> db" where
  "call_risks icol calls s = fold (\<lambda>(ac, env, c). call_risk icol ac env c) calls s"

lemma call_risk_confined: "confined (ac_tenant ac) s (call_risk icol ac env c s)"
  by (cases c) (simp_all add: kept_confined risk_changes_confined model_changes_confined)

lemma call_risk_keeps: "risks_ok icol s \<Longrightarrow> risks_ok icol (call_risk icol ac env c s)"
  by (cases c) (simp_all add: create_risk_keeps update_risk_keeps assess_risk_keeps create_category_keeps
      create_model_keeps update_model_keeps)


section \<open>The heat map\<close>

lemma score_of_range:
  assumes "score_of v r"
  shows "1 \<le> rs_residual_likelihood r \<and> rs_residual_likelihood r \<le> 5" "1 \<le> rs_residual_impact r \<and> rs_residual_impact r \<le> 5"
  using assms residual_factor_range
  by (auto simp: score_of_def compute_scores_def score_risk_def Let_def split: option.splits if_splits)

lemma rounds_range:
  assumes "rounds icol" "icol x = Some n" "1 \<le> x \<and> x \<le> 5" shows "n \<in> set [1..5]"
proof -
  have n: "\<lfloor>x\<rfloor> \<le> n" "n \<le> \<lceil>x\<rceil>" using assms(1,2) by (auto simp: rounds_def)
  have "1 \<le> \<lfloor>x\<rfloor>" "\<lceil>x\<rceil> \<le> 5" using assms(3) by (simp_all add: le_floor_iff ceiling_le_iff)
  from order_trans [OF this(1) n(1)] order_trans [OF n(2) this(2)] show ?thesis by simp
qed

lemma scored_cell:
  assumes "risk_scored icol k" "rounds icol" shows "residual_cell k \<in> set (List.product [1..5] [1..5])"
  using assms score_of_range rounds_range [OF assms(2)] by (auto simp: risk_scored_def residual_cell_def)

lemma group_by_count:
  "coalesce (map_of (group_by (remdups (map key rows)) key rows) c) 0 = length (filter (\<lambda>r. key r = c) rows)"
proof -
  have "map_of (filter (\<lambda>p. snd p > 0) (map (\<lambda>k. (k, n k)) ks)) c = (if c \<in> set ks \<and> 0 < n c then Some (n c) else None)"
    for n :: "'a \<Rightarrow> nat" and ks
    by (induction ks) auto
  then show ?thesis by (auto simp: group_by_def filter_empty_conv)
qed

lemma counts_partition:
  assumes "distinct ks" "\<And>r. r \<in> set rows \<Longrightarrow> key r \<in> set ks"
  shows "sum_list (map (\<lambda>k. length (filter (\<lambda>r. key r = k) rows)) ks) = length rows"
  using assms(2)
proof (induction rows)
  case (Cons r rows)
  have "sum_list (map (\<lambda>k. length (filter (\<lambda>x. key x = k) (r # rows))) ks) =
      sum_list (map (\<lambda>k. if key r = k then 1 else 0) ks) + sum_list (map (\<lambda>k. length (filter (\<lambda>x. key x = k) rows)) ks)"
    by (induction ks) auto
  moreover have "sum_list (map (\<lambda>k. if key r = k then 1 else 0) ks) = (1::nat)"
    using assms(1) Cons.prems [of r] by (induction ks) auto
  ultimately show ?case using Cons by simp
qed (simp add: sum_list_0)

definition shown_risks :: "actor \<Rightarrow> risk_status \<Rightarrow> db \<Rightarrow> risk list" where
  "shown_risks ac st s = filter (\<lambda>k. r_tenant k = ac_tenant ac \<and> k_deleted_at k = None \<and> k_status k = st) (db_risks s)"

text \<open>
  C35. The heat map shows every risk once: it has the twenty-five cells of the scale in order, each
  with the number of the live risks of the tenant in the status asked for (active when none is
  given) whose residual factors are those of the cell, and the counts add up to the number of these
  risks. It changes nothing.
\<close>

theorem heat_map_complete:
  assumes "risks_ok icol s" "rounds icol" "heatmap ac st s = (Inr h, s')"
  shows "s' = s \<and> map (\<lambda>c. (hc_likelihood c, hc_impact c)) (hp_cells h) = List.product [1..5] [1..5] \<and>
    list_all (\<lambda>c. hc_count c = length (filter (\<lambda>k. residual_cell k = (hc_likelihood c, hc_impact c))
                    (shown_risks ac (coalesce st risk_status.ACTIVE) s))) (hp_cells h) \<and>
    sum_list (map hc_count (hp_cells h)) = length (shown_risks ac (coalesce st risk_status.ACTIVE) s)"
proof -
  let ?rows = "shown_risks ac (coalesce st risk_status.ACTIVE) s"
  let ?n = "\<lambda>c. length (filter (\<lambda>k. residual_cell k = c) ?rows)"
  have rows: "many_in ac (\<lambda>k. k_deleted_at k = None \<and> k_status k = coalesce st risk_status.ACTIVE) (db_risks s) = ?rows"
    by (simp add: many_in_def find_many_def shown_risks_def mine_def)
  have cells: "hp_cells h = map (\<lambda>(l, i). \<lparr> hc_likelihood = l, hc_impact = i, hc_count = ?n (l, i), hc_score = l * i,
      hc_rating = rating_for (of_int (l * i)) (hp_thresholds h) \<rparr>) (List.product [1..5] [1..5])" and same: "s' = s"
    using assms(3) by (auto simp: heatmap_def ok_h default_model_run Let_def rows group_by_count
        List.product_concat_map map_concat comp_def)
  have "residual_cell k \<in> set (List.product [1..5] [1..5])" if "k \<in> set ?rows" for k
    using that assms(1,2) scored_cell by (auto simp: risks_ok_def shown_risks_def)
  then have "sum_list (map ?n (List.product [1..5] [1..5])) = length ?rows"
    by (intro counts_partition) (simp_all add: distinct_product)
  then show ?thesis unfolding cells same by (simp add: list_all_iff split_def comp_def)
qed

section \<open>A register\<close>

text \<open>A client that writes the integer below.\<close>

definition ex_column :: "rat \<Rightarrow> int option" where
  "ex_column x = Some \<lfloor>x\<rfloor>"

definition ex_values :: risk_values where
  "ex_values = \<lparr> rv_likelihood = 3, rv_impact = 3, rv_effectiveness = 3, rv_velocity = velocity.MODERATE, rv_appetite = None \<rparr>"

definition ex_scores :: risk_score_result where
  "ex_scores = the (score_risk \<lparr> ri_likelihood = 3, ri_impact = 3, ri_effectiveness = 3,
     ri_velocity = Some velocity.MODERATE, ri_appetite = None \<rparr> default_weights default_thresholds)"

definition ex_risk :: risk where
  "ex_risk = \<lparr> r_id = 70, r_tenant = 1, r_created = 0, k_code = ''R-1'', k_title = ''Fraud'', k_description = None,
     k_category = None, k_entity = None, k_process = None, k_owner = None, k_source = None,
     k_status = risk_status.ACTIVE, k_likelihood = 3, k_impact = 3, k_inherent_score = rs_inherent ex_scores,
     k_effectiveness = 3, k_res_likelihood = \<lfloor>rs_residual_likelihood ex_scores\<rfloor>,
     k_res_impact = \<lfloor>rs_residual_impact ex_scores\<rfloor>, k_res_score = rs_residual ex_scores,
     k_velocity = velocity.MODERATE, k_risk_rating = rs_rating ex_scores, k_appetite = None,
     k_within = rs_within_appetite ex_scores, k_assessed_at = None, k_tags = [], k_deleted_at = None \<rparr>"

definition ex_model :: scoring_model where
  "ex_model = \<lparr> r_id = 71, r_tenant = 1, r_created = 0, sc_name = ''Standard'', sc_default = True,
     sc_likelihood_scale = JArr [], sc_impact_scale = JArr [], sc_weights = default_weights_json,
     sc_thresholds = default_thresholds_json, sc_appetite = JObj [] \<rparr>"

definition ex_register :: db where
  "ex_register = ex_db\<lparr> db_risks := [ex_risk], db_models := [ex_model] \<rparr>"

definition ex_model_dto :: create_model_dto where
  "ex_model_dto = \<lparr> co_name = ''Strict'', co_default = Some True, co_likelihood_scale = JArr [],
     co_impact_scale = JArr [], co_weights = None, co_thresholds = None, co_appetite = None \<rparr>"

lemma ex_column_rounds: "rounds ex_column"
  by (auto simp: rounds_def ex_column_def floor_le_ceiling)

lemma ex_scores_computed: "compute_scores ex_values (model_params None) = Inr ex_scores"
proof -
  have "model_params None = \<lparr> mp_model = None, mp_weights = default_weights, mp_thresholds = default_thresholds \<rparr>"
    by (simp add: model_params_def json_or_def parse_weights_def parse_weight_def parse_thresholds_def
        json_field_def default_weights_def)
  then show ?thesis
    by (simp add: compute_scores_def ex_values_def ex_scores_def score_risk_def Let_def valid_input_def scale_value_def
        valid_weights_def default_weights_def weight_likelihood_def weight_impact_def weight_velocity_def)
qed

lemma ex_register_ok: "risks_ok ex_column ex_register"
proof -
  have "risk_inputs ex_risk = ex_values" by (simp add: risk_inputs_def ex_risk_def ex_values_def)
  then have "risk_scored ex_column ex_risk"
    using score_of_computed [OF ex_scores_computed] unfolding risk_scored_def
    by (intro exI [of _ ex_scores]) (simp add: ex_risk_def ex_column_def)
  moreover have "db_assessments ex_register = []" by (simp add: ex_register_def ex_db_def empty_db_def)
  ultimately show ?thesis
    by (simp add: risks_ok_def ex_register_def keyed_def one_default_def) (simp add: ex_risk_def ex_model_def)
qed


lemma heat_map_complete_witness:
  "\<exists>h. heatmap (ex_actor 2 [] []) None ex_register = (Inr h, ex_register) \<and> sum_list (map hc_count (hp_cells h)) = 1"
proof -
  obtain h s' where h: "heatmap (ex_actor 2 [] []) None ex_register = (Inr h, s')"
    by (auto simp: heatmap_def run_h default_model_run)
  have "length (shown_risks (ex_actor 2 [] []) risk_status.ACTIVE ex_register) = 1"
    by (simp add: shown_risks_def ex_register_def ex_actor_def ex_risk_def)
  with heat_map_complete [OF ex_register_ok ex_column_rounds h] h show ?thesis by auto
qed

end
