(* ===== verification/Controls.thy ===== *)
theory Controls
  imports Risks
begin

text \<open>
  \<open>controls/controls.service.ts\<close>: the controls with the risks they mitigate, and their tests. The
  rows of the join table are the list of risk ids of a control. A conclusive test sets the
  effectiveness of its control.
\<close>

section \<open>Reading\<close>

text \<open>\<open>effectivenessFor\<close>\<close>

fun effectiveness_for :: "control_test_result \<Rightarrow> control_effectiveness option" where
  "effectiveness_for PASS = Some EFFECTIVE"
| "effectiveness_for PASS_WITH_EXCEPTIONS = Some PARTIALLY_EFFECTIVE"
| "effectiveness_for FAIL = Some INEFFECTIVE"
| "effectiveness_for _ = None"

text \<open>\<open>controlResponse\<close>: the control with the risks behind its links.\<close>

definition control_response :: "db \<Rightarrow> control \<Rightarrow> control \<times> risk list" where
  "control_response s c = (c, present (map (\<lambda>i. find_first (has_id i) (db_risks s)) (ctl_risks c)))"

record control_query =
  ctq_page :: page_query
  ctq_process :: "uuid option"
  ctq_risk :: "uuid option"
  ctq_type :: "control_type option"
  ctq_nature :: "control_nature option"
  ctq_effectiveness :: "control_effectiveness option"
  ctq_key :: "bool option"
  ctq_text :: "string option"

definition control_where :: "control_query \<Rightarrow> control \<Rightarrow> bool" where
  "control_where q c \<longleftrightarrow>
     ctl_deleted_at c = None \<and> opt_eq (map_option Some (ctq_process q)) (ctl_process c) \<and>
     (case ctq_risk q of None \<Rightarrow> True | Some k \<Rightarrow> k \<in> set (ctl_risks c)) \<and> opt_eq (ctq_type q) (ctl_type c) \<and>
     opt_eq (ctq_nature q) (ctl_nature c) \<and> opt_eq (ctq_effectiveness q) (ctl_effectiveness c) \<and>
     opt_eq (ctq_key q) (ctl_key c) \<and> opt_contains (ctq_text q) [ctl_title c, ctl_code c]"

definition list_controls :: "actor \<Rightarrow> (control list \<Rightarrow> control list) \<Rightarrow> control_query \<Rightarrow> (control \<times> risk list) page op" where
  "list_controls ac order q = gets_h (\<lambda>s.
     let pg = paginate (ctq_page q) (order (many_in ac (control_where q) (db_controls s)))
     in \<lparr> pg_items = map (control_response s) (pg_items pg), pg_total = pg_total pg, pg_page = pg_page pg,
          pg_size = pg_size pg \<rparr>)"

definition find_control :: "actor \<Rightarrow> uuid \<Rightarrow> db \<Rightarrow> control option" where
  "find_control ac i s = first_in ac (\<lambda>c. has_id i c \<and> ctl_deleted_at c = None) (db_controls s)"

definition assert_control :: "actor \<Rightarrow> uuid \<Rightarrow> control op" where
  "assert_control ac i = demand_h (find_control ac i) (NotFound ''Control not found'')"

definition get_control ::
  "actor \<Rightarrow> (control_test list \<Rightarrow> control_test list) \<Rightarrow> uuid \<Rightarrow> ((control \<times> risk list) \<times> control_test list) op" where
  "get_control ac order i =
     bind_h (assert_control ac i) (\<lambda>c.
     gets_h (\<lambda>s. (control_response s c, take 20 (order (filter (\<lambda>t. tt_control t = i) (db_tests s))))))"

section \<open>Creating and changing controls\<close>

definition assert_risks :: "actor \<Rightarrow> uuid list \<Rightarrow> unit op" where
  "assert_risks ac ids =
     (if ids = [] then return_h ()
      else check_state_h (\<lambda>s. count_in ac (\<lambda>k. r_id k \<in> set ids \<and> k_deleted_at k = None) (db_risks s) =
                              length (dedupe ids))
             (BadRequest ''One or more risks were not found''))"

text \<open>The constraint \<open>@@unique([tenantId, code])\<close> of controls, for a row other than \<open>i\<close>.\<close>

definition control_code_unique :: "actor \<Rightarrow> string \<Rightarrow> uuid option \<Rightarrow> unit op" where
  "control_code_unique ac code i = check_state_h (\<lambda>s. count_in ac (\<lambda>c. ctl_code c = code \<and> Some (r_id c) \<noteq> i)
     (db_controls s) = 0) UniqueViolation"

record create_control_dto =
  cn_code :: string
  cn_title :: string
  cn_description :: "string option"
  cn_process :: "uuid option"
  cn_owner :: "uuid option"
  cn_frequency :: "control_frequency option"
  cn_type :: "control_type option"
  cn_nature :: "control_nature option"
  cn_key :: "bool option"
  cn_frameworks :: "json list option"
  cn_risks :: "uuid list option"

definition new_control :: "actor \<Rightarrow> env \<Rightarrow> create_control_dto \<Rightarrow> db \<Rightarrow> control" where
  "new_control ac env dto s =
     \<lparr> r_id = db_next s, r_tenant = ac_tenant ac, r_created = env_now env, ctl_code = cn_code dto,
       ctl_title = cn_title dto, ctl_description = cn_description dto, ctl_process = cn_process dto,
       ctl_owner = cn_owner dto, ctl_frequency = coalesce (cn_frequency dto) MONTHLY,
       ctl_type = coalesce (cn_type dto) PREVENTIVE, ctl_nature = coalesce (cn_nature dto) MANUAL,
       ctl_key = coalesce (cn_key dto) False, ctl_effectiveness = NOT_TESTED, ctl_design = None, ctl_operating = None,
       ctl_tested_at = None, ctl_frameworks = JArr (coalesce (cn_frameworks dto) []), ctl_active = True,
       ctl_deleted_at = None, ctl_risks = coalesce (cn_risks dto) [] \<rparr>"

definition insert_control :: "control \<Rightarrow> db \<Rightarrow> db" where
  "insert_control c s = s\<lparr> db_controls := insert_row c (db_controls s), db_next := db_next s + 1 \<rparr>"

text \<open>A risk that is named twice violates the key of the join table.\<close>

definition create_control :: "actor \<Rightarrow> env \<Rightarrow> create_control_dto \<Rightarrow> (control \<times> risk list) op" where
  "create_control ac env dto =
     then_h (assert_risks ac (coalesce (cn_risks dto) []))
    (then_h (control_code_unique ac (cn_code dto) None)
    (then_h (check_h (distinct (coalesce (cn_risks dto) [])) UniqueViolation)
    (bind_h (create_h (new_control ac env dto) insert_control) (\<lambda>c.
     then_h (audit_record ac env (audit_of ''control.created'' ''Control'' (r_id c) No_Snapshot (Control_Row c) []))
     (gets_h (\<lambda>s. control_response s c))))))"

record update_control_dto =
  un_code :: "string option"
  un_title :: "string option"
  un_description :: "string option"
  un_process :: "uuid field"
  un_owner :: "uuid field"
  un_frequency :: "control_frequency option"
  un_type :: "control_type option"
  un_nature :: "control_nature option"
  un_key :: "bool option"
  un_active :: "bool option"
  un_effectiveness :: "control_effectiveness option"
  un_frameworks :: "json list option"
  un_risks :: "uuid list option"

definition patch_control :: "update_control_dto \<Rightarrow> control \<Rightarrow> control" where
  "patch_control dto c =
     c\<lparr> ctl_code := patch (un_code dto) (ctl_code c), ctl_title := patch (un_title dto) (ctl_title c),
        ctl_description := coalesce_opt (un_description dto) (ctl_description c),
        ctl_process := patch_nullable (un_process dto) (ctl_process c), ctl_owner := patch_nullable (un_owner dto) (ctl_owner c),
        ctl_frequency := patch (un_frequency dto) (ctl_frequency c), ctl_type := patch (un_type dto) (ctl_type c),
        ctl_nature := patch (un_nature dto) (ctl_nature c), ctl_key := patch (un_key dto) (ctl_key c),
        ctl_active := patch (un_active dto) (ctl_active c),
        ctl_effectiveness := patch (un_effectiveness dto) (ctl_effectiveness c),
        ctl_frameworks := patch (map_option JArr (un_frameworks dto)) (ctl_frameworks c) \<rparr>"

definition update_control_row :: "actor \<Rightarrow> uuid \<Rightarrow> (control \<Rightarrow> control) \<Rightarrow> db \<Rightarrow> db" where
  "update_control_row ac i g s = s\<lparr> db_controls := update_in ac (has_id i) g (db_controls s) \<rparr>"

definition linked :: "uuid list \<Rightarrow> control \<Rightarrow> control" where
  "linked ids c = c\<lparr> ctl_risks := ids \<rparr>"

definition risk_ids :: "uuid list \<Rightarrow> snapshot" where
  "risk_ids ids = Fields [(''riskIds'', JArr (map JId ids))]"

definition set_risks ::
  "actor \<Rightarrow> env \<Rightarrow> (control_test list \<Rightarrow> control_test list) \<Rightarrow> uuid \<Rightarrow> uuid list \<Rightarrow>
   ((control \<times> risk list) \<times> control_test list) op" where
  "set_risks ac env order i ids =
     bind_h (assert_control ac i) (\<lambda>c.
     let chosen = dedupe ids in
     then_h (assert_risks ac chosen)
    (then_h (modify_h (update_control_row ac i (linked chosen)))
    (then_h (audit_record ac env (audit_of ''control.risks_set'' ''Control'' i (risk_ids (ctl_risks c)) (risk_ids chosen) []))
     (get_control ac order i))))"

text \<open>The fields are written first; the links follow, with checks of their own.\<close>

definition update_control ::
  "actor \<Rightarrow> env \<Rightarrow> (control_test list \<Rightarrow> control_test list) \<Rightarrow> uuid \<Rightarrow> update_control_dto \<Rightarrow> (control \<times> risk list) op" where
  "update_control ac env order i dto =
     bind_h (assert_control ac i) (\<lambda>before.
     then_h (control_code_unique ac (ctl_code (patch_control dto before)) (Some i))
    (then_h (modify_h (update_control_row ac i (patch_control dto)))
    (bind_h (case un_risks dto of
               None \<Rightarrow> gets_h (\<lambda>s. control_response s (patch_control dto before))
             | Some ids \<Rightarrow> bind_h (set_risks ac env order i ids) (\<lambda>(cr, _). return_h cr)) (\<lambda>after.
     then_h (audit_record ac env (audit_of ''control.updated'' ''Control'' i (Control_Row before) (Control_Row (fst after)) []))
     (return_h after)))))"

section \<open>Tests\<close>

definition tested :: "control_test_type \<Rightarrow> control_test_result \<Rightarrow> control_effectiveness \<Rightarrow> time \<Rightarrow> control \<Rightarrow> control" where
  "tested ty res eff t c =
     (let c' = c\<lparr> ctl_effectiveness := eff, ctl_tested_at := Some t \<rparr>
      in if ty = DESIGN then c'\<lparr> ctl_design := Some (res = PASS) \<rparr> else c'\<lparr> ctl_operating := Some (res = PASS) \<rparr>)"

definition apply_test_outcome ::
  "actor \<Rightarrow> env \<Rightarrow> uuid \<Rightarrow> control_test_type \<Rightarrow> control_test_result \<Rightarrow> time option \<Rightarrow> unit op" where
  "apply_test_outcome ac env i ty res on =
     (case effectiveness_for res of
        None \<Rightarrow> return_h ()
      | Some eff \<Rightarrow>
          then_h (check_state_h (\<lambda>s. first_in ac (has_id i) (db_controls s) \<noteq> None) RecordRequired)
            (modify_h (update_control_row ac i (tested ty res eff (coalesce on (env_now env))))))"

record create_test_dto =
  ctt_engagement :: "uuid option"
  ctt_workpaper :: "uuid option"
  ctt_type :: control_test_type
  ctt_period_start :: "time option"
  ctt_period_end :: "time option"
  ctt_population :: "int option"
  ctt_sample :: "int option"
  ctt_exceptions :: "int option"
  ctt_result :: "control_test_result option"
  ctt_procedure :: "string option"
  ctt_conclusion :: "string option"
  ctt_remediation :: "string option"
  ctt_tested_at :: "time option"

definition concluded :: "control_test_result \<Rightarrow> bool" where
  "concluded r \<longleftrightarrow> r \<noteq> control_test_result.NOT_STARTED \<and> r \<noteq> control_test_result.IN_PROGRESS"

definition new_test :: "actor \<Rightarrow> env \<Rightarrow> uuid \<Rightarrow> create_test_dto \<Rightarrow> db \<Rightarrow> control_test" where
  "new_test ac env c dto s =
     \<lparr> r_id = db_next s, r_tenant = ac_tenant ac, r_created = env_now env, tt_control = c,
       tt_engagement = ctt_engagement dto, tt_workpaper = ctt_workpaper dto, tt_type = ctt_type dto,
       tt_period_start = ctt_period_start dto, tt_period_end = ctt_period_end dto, tt_population = ctt_population dto,
       tt_sample = ctt_sample dto, tt_exceptions = coalesce (ctt_exceptions dto) 0,
       tt_result = coalesce (ctt_result dto) control_test_result.NOT_STARTED, tt_procedure = ctt_procedure dto,
       tt_conclusion = ctt_conclusion dto, tt_remediation = ctt_remediation dto, tt_tested_by = Some (ac_user ac),
       tt_tested_at = coalesce_opt (ctt_tested_at dto)
         (case ctt_result dto of None \<Rightarrow> None | Some r \<Rightarrow> if concluded r then Some (env_now env) else None) \<rparr>"

definition insert_test :: "control_test \<Rightarrow> db \<Rightarrow> db" where
  "insert_test t s = s\<lparr> db_tests := insert_row t (db_tests s), db_next := db_next s + 1 \<rparr>"

definition create_test :: "actor \<Rightarrow> env \<Rightarrow> uuid \<Rightarrow> create_test_dto \<Rightarrow> control_test op" where
  "create_test ac env c dto =
     then_h (assert_control ac c)
    (bind_h (create_h (new_test ac env c dto) insert_test) (\<lambda>t.
     then_h (apply_test_outcome ac env c (tt_type t) (tt_result t) (tt_tested_at t))
    (then_h (audit_record ac env (audit_of ''control_test.created'' ''ControlTest'' (r_id t) No_Snapshot (Control_Test_Row t) []))
     (return_h t))))"

record update_test_dto =
  utt_engagement :: "uuid field"
  utt_workpaper :: "uuid field"
  utt_type :: "control_test_type option"
  utt_period_start :: "time field"
  utt_period_end :: "time field"
  utt_population :: "int field"
  utt_sample :: "int field"
  utt_exceptions :: "int option"
  utt_result :: "control_test_result option"
  utt_procedure :: "string option"
  utt_conclusion :: "string option"
  utt_remediation :: "string option"
  utt_tested_at :: "time field"

text \<open>A new result: the tester is the user, and the time of the test is now unless there is one.\<close>

definition new_result :: "update_test_dto \<Rightarrow> control_test \<Rightarrow> bool" where
  "new_result dto t \<longleftrightarrow> (case utt_result dto of None \<Rightarrow> False | Some r \<Rightarrow> r \<noteq> tt_result t)"

text \<open>\<open>toDate(testedAt) ?? ...\<close>: \<open>null\<close> is passed over, so that the column is never cleared.\<close>

definition patch_test :: "uuid \<Rightarrow> time \<Rightarrow> update_test_dto \<Rightarrow> control_test \<Rightarrow> control_test" where
  "patch_test u now dto t =
     t\<lparr> tt_engagement := patch_nullable (utt_engagement dto) (tt_engagement t),
        tt_workpaper := patch_nullable (utt_workpaper dto) (tt_workpaper t), tt_type := patch (utt_type dto) (tt_type t),
        tt_period_start := patch_nullable (utt_period_start dto) (tt_period_start t),
        tt_period_end := patch_nullable (utt_period_end dto) (tt_period_end t),
        tt_population := patch_nullable (utt_population dto) (tt_population t),
        tt_sample := patch_nullable (utt_sample dto) (tt_sample t),
        tt_exceptions := patch (utt_exceptions dto) (tt_exceptions t), tt_result := patch (utt_result dto) (tt_result t),
        tt_procedure := coalesce_opt (utt_procedure dto) (tt_procedure t),
        tt_conclusion := coalesce_opt (utt_conclusion dto) (tt_conclusion t),
        tt_remediation := coalesce_opt (utt_remediation dto) (tt_remediation t),
        tt_tested_at := (case or_null (utt_tested_at dto) of
            Some d \<Rightarrow> Some d
          | None \<Rightarrow> if new_result dto t \<and> tt_tested_at t = None then Some now else tt_tested_at t),
        tt_tested_by := (if new_result dto t then Some u else tt_tested_by t) \<rparr>"

definition update_test_row :: "actor \<Rightarrow> uuid \<Rightarrow> (control_test \<Rightarrow> control_test) \<Rightarrow> db \<Rightarrow> db" where
  "update_test_row ac i g s = s\<lparr> db_tests := update_in ac (has_id i) g (db_tests s) \<rparr>"

definition update_test :: "actor \<Rightarrow> env \<Rightarrow> uuid \<Rightarrow> update_test_dto \<Rightarrow> control_test op" where
  "update_test ac env i dto =
     bind_h (demand_h (\<lambda>s. first_in ac (has_id i) (db_tests s)) (NotFound ''Control test not found'')) (\<lambda>before.
     let after = patch_test (ac_user ac) (env_now env) dto before in
     then_h (modify_h (update_test_row ac i (patch_test (ac_user ac) (env_now env) dto)))
    (then_h (when_h (tt_result after \<noteq> tt_result before)
              (apply_test_outcome ac env (tt_control after) (tt_type after) (tt_result after) (tt_tested_at after)))
    (then_h (audit_record ac env (audit_of ''control_test.updated'' ''ControlTest'' i (Control_Test_Row before)
               (Control_Test_Row after) []))
     (return_h after))))"

section \<open>Confinement\<close>

lemma control_checks_read [intro]:
  "reads (assert_control ac i)" "reads (assert_risks ac ids)" "reads (control_code_unique ac code k)"
  "reads (get_control ac order i)"
  unfolding assert_control_def assert_risks_def control_code_unique_def get_control_def by (intro reads_intros)+

lemmas controls_confined = confinement.keeps_reads [OF control_checks_read(1)]
  confinement.keeps_reads [OF control_checks_read(2)] confinement.keeps_reads [OF control_checks_read(3)]
  confinement.keeps_reads [OF control_checks_read(4)]

lemma control_row_changes [simp]:
  "r_tenant (patch_control dto c) = r_tenant c" "r_id (patch_control dto c) = r_id c"
  "r_tenant (linked ids c) = r_tenant c" "r_id (linked ids c) = r_id c"
  "r_tenant (tested ty res eff t c) = r_tenant c" "r_id (tested ty res eff t c) = r_id c"
  "r_tenant (patch_test u now tdto q) = r_tenant q" "r_id (patch_test u now tdto q) = r_id q"
  "tt_control (patch_test u now tdto q) = tt_control q"
  by (simp_all add: patch_control_def linked_def tested_def patch_test_def Let_def)

lemma control_writes_confined:
  "(\<And>x. r_tenant (g x) = r_tenant x) \<Longrightarrow> same_outside (ac_tenant ac) s (update_control_row ac i g s)"
  "audit_grows s (update_control_row ac i g s)"
  "(\<And>x. r_tenant (h x) = r_tenant x) \<Longrightarrow> same_outside (ac_tenant ac) s (update_test_row ac i h s)"
  "audit_grows s (update_test_row ac i h s)"
  by (simp_all add: update_control_row_def update_test_row_def confined_writes)

lemma set_risks_confined: "keeps (confined (ac_tenant ac)) (set_risks ac env order i ids)"
  unfolding set_risks_def Let_def
  by (intro controls_confined control_writes_confined confined_steps) simp_all

lemma apply_test_outcome_confined: "keeps (confined (ac_tenant ac)) (apply_test_outcome ac env i ty res on)"
  unfolding apply_test_outcome_def
  by (intro controls_confined control_writes_confined confined_steps) simp_all

lemma control_changes_confined:
  "keeps (confined (ac_tenant ac)) (create_control ac env cdto)"
  "keeps (confined (ac_tenant ac)) (update_control ac env order i udto)"
  unfolding create_control_def update_control_def
  by (intro controls_confined set_risks_confined control_writes_confined confined_steps;
      simp add: insert_control_def new_control_def confined_writes)+

lemma test_changes_confined:
  "keeps (confined (ac_tenant ac)) (create_test ac env i tdto)"
  "keeps (confined (ac_tenant ac)) (update_test ac env i wdto)"
  unfolding create_test_def update_test_def Let_def
  by (intro controls_confined apply_test_outcome_confined control_writes_confined confined_steps;
      simp add: insert_test_def new_test_def confined_writes)+

end
