(* ===== verification/Control_Life.thy ===== *)
theory Control_Life
  imports Controls Risk_Life
begin

text \<open>
  Controls under every sequence of calls: codes are unique, every link leads to a risk of the tenant, no
  risk is linked twice, and a concluded test has its tester and its date. An update of a control that
  fails on its links has already changed the control.
\<close>

section \<open>The invariant\<close>

definition control_key :: "control \<Rightarrow> uuid \<times> string" where
  "control_key c = (r_tenant c, ctl_code c)"

definition links_fit :: "db \<Rightarrow> control \<Rightarrow> bool" where
  "links_fit s c \<longleftrightarrow> distinct (ctl_risks c) \<and>
     (\<forall>i\<in>set (ctl_risks c). \<exists>k\<in>set (db_risks s). r_id k = i \<and> r_tenant k = r_tenant c)"

definition test_fits :: "db \<Rightarrow> control_test \<Rightarrow> bool" where
  "test_fits s t \<longleftrightarrow> (\<exists>c\<in>set (db_controls s). r_id c = tt_control t \<and> r_tenant c = r_tenant t) \<and>
     (concluded (tt_result t) \<longrightarrow> tt_tested_at t \<noteq> None \<and> tt_tested_by t \<noteq> None)"

definition controls_ok :: "db \<Rightarrow> bool" where
  "controls_ok s \<longleftrightarrow> distinct (map r_id (db_risks s)) \<and> keyed control_key (db_next s) (db_controls s) \<and>
     (\<forall>c\<in>set (db_controls s). links_fit s c) \<and> table_ok (test_fits s) (db_next s) (db_tests s)"

lemma controls_ok_cong:
  assumes "controls_ok s" "db_risks s' = db_risks s" "db_controls s' = db_controls s" "db_tests s' = db_tests s"
    "db_next s \<le> db_next s'"
  shows "controls_ok s'"
proof -
  have "links_fit s' = links_fit s" "test_fits s' = test_fits s"
    using assms(2,3) by (simp_all add: links_fit_def test_fits_def fun_eq_iff)
  then show ?thesis using assms by (auto simp: controls_ok_def intro: keyed_grow table_ok_grow)
qed

lemma controls_ok_audited: "controls_ok s \<Longrightarrow> controls_ok (audited ac env ev s)"
  by (erule controls_ok_cong) (simp_all add: audited_def)

lemma assert_risks_ok:
  assumes "assert_risks ac ids s = (Inr (), s')" "distinct (map r_id (db_risks s))" "i \<in> set ids"
  shows "\<exists>k\<in>set (db_risks s). r_id k = i \<and> r_tenant k = ac_tenant ac"
  using counted_all [of "db_risks s" ac ids "\<lambda>k. k_deleted_at k = None" i] assms
  by (auto simp: assert_risks_def ok_h mine_def split: if_splits)

lemma assert_risks_run:
  "assert_risks ac ids s = (Inr (), s) \<or> assert_risks ac ids s = (Inl (BadRequest ''One or more risks were not found''), s)"
  by (simp add: assert_risks_def run_h)

lemma control_code_unique_run:
  "control_code_unique ac code i s = (if \<forall>c\<in>set (db_controls s). mine ac c \<and> ctl_code c = code \<longrightarrow> Some (r_id c) = i
     then (Inr (), s) else (Inl UniqueViolation, s))"
  by (auto simp: control_code_unique_def run_h count_in_def table_simps)

lemma find_control_row:
  "find_control ac i s = Some c \<Longrightarrow> c \<in> set (db_controls s) \<and> mine ac c \<and> r_id c = i \<and> ctl_deleted_at c = None"
  by (auto simp: find_control_def has_id_def dest: first_in_Some)

section \<open>The writes\<close>

lemma controls_ok_insert:
  assumes "controls_ok s" "r_id c = db_next s" "links_fit s c" "\<And>x. x \<in> set (db_controls s) \<Longrightarrow> control_key x \<noteq> control_key c"
  shows "controls_ok (insert_control c s)"
proof -
  note ok = assms(1) [unfolded controls_ok_def]
  have "keyed control_key (db_next s + 1) (insert_row c (db_controls s))"
    using ok assms(2,4) by (intro keyed_insert) simp_all
  moreover have "links_fit (insert_control c s) = links_fit s" by (simp add: links_fit_def insert_control_def fun_eq_iff)
  moreover have "table_ok (test_fits (insert_control c s)) (db_next s + 1) (db_tests s)"
    using ok by (auto simp: table_ok_def test_fits_def insert_control_def table_simps)
  ultimately show ?thesis using ok assms(3) by (simp add: controls_ok_def insert_control_def table_simps)
qed

lemma controls_ok_update:
  assumes "controls_ok s" "\<And>x. r_id (g x) = r_id x" "\<And>x. r_tenant (g x) = r_tenant x"
    "\<And>c. c \<in> set (db_controls s) \<Longrightarrow> mine ac c \<Longrightarrow> r_id c = i \<Longrightarrow> links_fit s (g c)"
    "\<And>c x. c \<in> set (db_controls s) \<Longrightarrow> mine ac c \<Longrightarrow> r_id c = i \<Longrightarrow> x \<in> set (db_controls s) \<Longrightarrow> r_id x \<noteq> i \<Longrightarrow>
       control_key x \<noteq> control_key (g c)"
  shows "controls_ok (update_control_row ac i g s)"
proof -
  note ok = assms(1) [unfolded controls_ok_def]
  let ?t = "update_in ac (has_id i) g (db_controls s)"
  have "keyed control_key (db_next s) ?t"
  proof (rule keyed_update [OF _ assms(2)])
    show "control_key (g x) \<noteq> (if mine ac y \<and> has_id i y then control_key (g y) else control_key y)"
      if "x \<in> set (db_controls s)" "y \<in> set (db_controls s)" "mine ac x" "has_id i x" "r_id x \<noteq> r_id y" for x y
      using assms(5) [of x y] that by (auto simp: has_id_def)
  qed (use ok in simp)
  moreover have "\<forall>c\<in>set ?t. links_fit s c"
    using ok assms(4) by (intro ball_update_in) (auto simp: has_id_def)
  moreover have "links_fit (update_control_row ac i g s) = links_fit s" by (simp add: links_fit_def update_control_row_def fun_eq_iff)
  moreover have "test_fits (update_control_row ac i g s) t" if fits: "test_fits s t" for t
  proof -
    obtain c where "c \<in> set (db_controls s)" "r_id c = tt_control t" "r_tenant c = r_tenant t"
      using fits unfolding test_fits_def by blast
    then have "\<exists>c\<in>set ?t. r_id c = tt_control t \<and> r_tenant c = r_tenant t"
      using assms(2,3) by (intro bexI [of _ "if mine ac c \<and> has_id i c then g c else c"]) (auto simp: set_update_in)
    then show ?thesis using fits by (simp add: test_fits_def update_control_row_def)
  qed
  ultimately show ?thesis using ok by (auto simp: controls_ok_def table_ok_def update_control_row_def)
qed

lemma controls_ok_tested:
  "controls_ok s \<Longrightarrow> controls_ok (update_control_row ac i (tested ty res eff d) s)"
proof (rule controls_ok_update)
  assume ok: "controls_ok s"
  have r: "ctl_risks (tested ty res eff d c) = ctl_risks c" "ctl_code (tested ty res eff d c) = ctl_code c" for c
    by (simp_all add: tested_def Let_def)
  show "links_fit s (tested ty res eff d c)" if "c \<in> set (db_controls s)" for c
    using ok that by (simp add: controls_ok_def links_fit_def r)
  show "control_key x \<noteq> control_key (tested ty res eff d c)"
    if "c \<in> set (db_controls s)" "r_id c = i" "x \<in> set (db_controls s)" "r_id x \<noteq> i" for c x
    using ok that keyed_differ [of control_key "db_next s" "db_controls s" x c]
    by (simp add: controls_ok_def control_key_def r)
qed simp_all

lemma controls_ok_insert_test:
  assumes "controls_ok s" "r_id t = db_next s" "test_fits s t" shows "controls_ok (insert_test t s)"
proof -
  have "links_fit (insert_test t s) = links_fit s" "test_fits (insert_test t s) = test_fits s"
    by (simp_all add: links_fit_def test_fits_def insert_test_def fun_eq_iff)
  moreover have "keyed control_key (db_next s + 1) (db_controls s)"
    using assms(1) keyed_grow le_add1 unfolding controls_ok_def by blast
  moreover have "table_ok (test_fits s) (db_next s + 1) (insert_row t (db_tests s))"
    using assms by (fastforce simp: controls_ok_def table_ok_def insert_row_def)
  ultimately show ?thesis using assms(1) by (simp add: controls_ok_def insert_test_def)
qed

lemma controls_ok_update_test:
  assumes "controls_ok s" "\<And>x. r_id (h x) = r_id x"
    "\<And>t. t \<in> set (db_tests s) \<Longrightarrow> test_fits s t \<Longrightarrow> test_fits s (h t)"
  shows "controls_ok (update_test_row ac i h s)"
proof -
  have "links_fit (update_test_row ac i h s) = links_fit s" "test_fits (update_test_row ac i h s) = test_fits s"
    by (simp_all add: links_fit_def test_fits_def update_test_row_def fun_eq_iff)
  moreover have "map r_id (update_in ac (has_id i) h (db_tests s)) = map r_id (db_tests s)"
    unfolding update_in_def using assms(2) by (intro map_update_rows_id) simp
  moreover have "\<forall>t\<in>set (update_in ac (has_id i) h (db_tests s)). r_id t < db_next s \<and> test_fits s t"
    using assms by (intro ball_update_in) (auto simp: controls_ok_def table_ok_def)
  ultimately show ?thesis using assms(1) by (simp add: controls_ok_def update_test_row_def table_ok_def)
qed

section \<open>The operations\<close>

lemma create_control_keeps:
  assumes "controls_ok s" shows "controls_ok (snd (create_control ac env dto s))"
proof -
  have "controls_ok (insert_control (new_control ac env dto s) s)"
    if "assert_risks ac (coalesce (cn_risks dto) []) s = (Inr (), s)" "distinct (coalesce (cn_risks dto) [])"
      "\<forall>c\<in>set (db_controls s). mine ac c \<longrightarrow> ctl_code c \<noteq> cn_code dto"
  proof (rule controls_ok_insert [OF assms])
    show "links_fit s (new_control ac env dto s)"
      using that(2) assert_risks_ok [OF that(1)] assms by (auto simp: links_fit_def new_control_def controls_ok_def)
    show "control_key x \<noteq> control_key (new_control ac env dto s)" if "x \<in> set (db_controls s)" for x
      using \<open>\<forall>c\<in>_. _\<close> that by (auto simp: control_key_def new_control_def mine_def)
  qed (simp add: new_control_def)
  then show ?thesis
    using assert_risks_run [of ac "coalesce (cn_risks dto) []" s] assms
    by (auto simp: create_control_def run_h control_code_unique_run controls_ok_audited)
qed

lemma controls_ok_linked:
  assumes "controls_ok s" "assert_risks ac ids s = (Inr (), s)" "distinct ids"
  shows "controls_ok (update_control_row ac i (linked ids) s)"
proof (rule controls_ok_update [OF assms(1)])
  show "links_fit s (linked ids c)" if "mine ac c" for c
    using assms(3) assert_risks_ok [OF assms(2)] assms(1) that
    by (auto simp: links_fit_def linked_def controls_ok_def mine_def)
  show "control_key x \<noteq> control_key (linked ids c)"
    if "c \<in> set (db_controls s)" "r_id c = i" "x \<in> set (db_controls s)" "r_id x \<noteq> i" for c x
    using assms(1) that keyed_differ [of control_key "db_next s" "db_controls s" x c]
    by (simp add: controls_ok_def control_key_def linked_def)
qed simp_all

lemma get_control_same: "snd (get_control ac order i s) = s"
  using control_checks_read(4) by (simp add: reads_def)

lemma set_risks_keeps:
  assumes "controls_ok s" shows "controls_ok (snd (set_risks ac env order i ids s))"
  using assert_risks_run [of ac "dedupe ids" s] assms
  by (auto simp: set_risks_def assert_control_def run_h Let_def get_control_same controls_ok_audited controls_ok_linked
      split: option.splits)

lemma update_control_keeps:
  assumes "controls_ok s" shows "controls_ok (snd (update_control ac env order i dto s))"
proof -
  have upd: "controls_ok (update_control_row ac i (patch_control dto) s)"
    if c: "find_control ac i s = Some c"
      and u: "\<forall>x\<in>set (db_controls s). mine ac x \<and> ctl_code x = ctl_code (patch_control dto c) \<longrightarrow> r_id x = i" for c
  proof (rule controls_ok_update [OF assms])
    have one: "x = c" if "x \<in> set (db_controls s)" "r_id x = i" for x
      using keyed_same [of control_key "db_next s" "db_controls s" x c] assms that find_control_row [OF c]
      by (simp add: controls_ok_def)
    show "links_fit s (patch_control dto x)" if "x \<in> set (db_controls s)" for x
      using assms that by (simp add: controls_ok_def links_fit_def patch_control_def)
    show "control_key y \<noteq> control_key (patch_control dto x)"
      if "x \<in> set (db_controls s)" "mine ac x" "r_id x = i" "y \<in> set (db_controls s)" "r_id y \<noteq> i" for x y
      using u that one [OF that(1,3)] by (auto simp: control_key_def mine_def)
  qed simp_all
  have "controls_ok (snd ((case un_risks dto of None \<Rightarrow> gets_h (\<lambda>s. control_response s (patch_control dto c))
             | Some ids \<Rightarrow> bind_h (set_risks ac env order i ids) (\<lambda>(cr, _). return_h cr)) t))"
    if "controls_ok t" for c t
  proof (cases "un_risks dto")
    case (Some ids)
    then show ?thesis
      using set_risks_keeps [OF that, of ac env order i ids] by (auto simp: run_h split: sum.splits prod.splits)
  qed (simp add: run_h that)
  note rest = this
  show ?thesis
  proof (cases "find_control ac i s")
    case (Some c)
    show ?thesis
    proof (cases "control_code_unique ac (ctl_code (patch_control dto c)) (Some i) s = (Inr (), s)")
      case True
      then have "controls_ok (update_control_row ac i (patch_control dto) s)"
        by (intro upd [OF Some]) (auto simp: control_code_unique_run split: if_splits)
      from rest [OF this, of c] True Some show ?thesis
        by (auto simp: update_control_def assert_control_def run_h controls_ok_audited split: sum.splits prod.splits)
    next
      case False
      then show ?thesis using Some assms
        by (auto simp: update_control_def assert_control_def run_h control_code_unique_run split: if_splits)
    qed
  qed (simp add: update_control_def assert_control_def run_h assms)
qed

lemma apply_test_outcome_keeps: "controls_ok s \<Longrightarrow> controls_ok (snd (apply_test_outcome ac env i ty res on s))"
  by (auto simp: apply_test_outcome_def run_h controls_ok_tested split: option.split)

lemma create_test_keeps:
  assumes "controls_ok s" shows "controls_ok (snd (create_test ac env i dto s))"
proof -
  have "controls_ok (insert_test (new_test ac env i dto s) s)" if "find_control ac i s = Some c" for c
  proof (rule controls_ok_insert_test [OF assms])
    have "\<exists>c\<in>set (db_controls s). r_id c = i \<and> r_tenant c = ac_tenant ac"
      using find_control_row [OF that] by (auto simp: mine_def)
    then show "test_fits s (new_test ac env i dto s)"
      by (auto simp: test_fits_def new_test_def concluded_def split: option.splits)
  qed (simp add: new_test_def)
  note ins = this
  have "controls_ok (snd (apply_test_outcome ac env i ty res on (insert_test (new_test ac env i dto s) s)))"
    if "find_control ac i s = Some c" for c ty res on
    by (rule apply_test_outcome_keeps) (rule ins [OF that])
  note out = this
  show ?thesis
  proof (cases "find_control ac i s")
    case (Some c)
    then show ?thesis
      using out [OF Some, of "tt_type (new_test ac env i dto s)" "tt_result (new_test ac env i dto s)"
          "tt_tested_at (new_test ac env i dto s)"]
      by (auto simp: create_test_def assert_control_def run_h controls_ok_audited split: sum.splits prod.splits)
  qed (simp add: create_test_def assert_control_def run_h assms)
qed

lemma patch_test_fits: "test_fits s t \<Longrightarrow> test_fits s (patch_test u now dto t)"
  by (auto simp: test_fits_def patch_test_def new_result_def split: option.splits)

lemma update_test_keeps:
  assumes "controls_ok s" shows "controls_ok (snd (update_test ac env i dto s))"
proof -
  let ?s = "update_test_row ac i (patch_test (ac_user ac) (env_now env) dto) s"
  have "controls_ok ?s" by (rule controls_ok_update_test [OF assms]) (simp_all add: patch_test_fits)
  then have "controls_ok (snd (when_h b (apply_test_outcome ac env j ty res on) ?s))" for b j ty res on
    using apply_test_outcome_keeps by (simp add: run_h)
  then show ?thesis
    using assms unfolding update_test_def Let_def
    by (auto simp: bind_h_run then_h_run demand_h_run modify_h_run return_h_run audit_record_run controls_ok_audited
        split: option.splits sum.splits prod.splits) (metis snd_conv controls_ok_audited)+
qed


section \<open>The calls\<close>

datatype control_call =
    Create_Control create_control_dto
  | Update_Control "control_test list \<Rightarrow> control_test list" uuid update_control_dto
  | Set_Risks "control_test list \<Rightarrow> control_test list" uuid "uuid list"
  | Create_Test uuid create_test_dto
  | Update_Test uuid update_test_dto

fun call_control :: "actor \<Rightarrow> env \<Rightarrow> control_call \<Rightarrow> db \<Rightarrow> db" where
  "call_control ac env (Create_Control cdto) s = snd (create_control ac env cdto s)"
| "call_control ac env (Update_Control order i udto) s = snd (update_control ac env order i udto s)"
| "call_control ac env (Set_Risks order i ids) s = snd (set_risks ac env order i ids s)"
| "call_control ac env (Create_Test i tdto) s = snd (create_test ac env i tdto s)"
| "call_control ac env (Update_Test i wdto) s = snd (update_test ac env i wdto s)"

definition call_controls :: "(actor \<times> env \<times> control_call) list \<Rightarrow> db \<Rightarrow> db" where
  "call_controls calls s = fold (\<lambda>(ac, env, c). call_control ac env c) calls s"

lemma call_control_confined: "confined (ac_tenant ac) s (call_control ac env c s)"
  by (cases c) (simp_all add: kept_confined control_changes_confined set_risks_confined test_changes_confined)

lemma call_control_keeps: "controls_ok s \<Longrightarrow> controls_ok (call_control ac env c s)"
  by (cases c) (simp_all add: create_control_keeps update_control_keeps set_risks_keeps create_test_keeps update_test_keeps)

text \<open>
  C36. The control library stays consistent under every sequence of calls: keys and control codes are
  unique within a tenant, every control is linked to existing risks of its tenant and to none of
  them twice, every test belongs to a control of its tenant, and a test with a conclusion has a
  tester and a date.
\<close>

theorem controls_invariant:
  assumes "controls_ok s"
  shows "controls_ok (call_controls calls s)"
  using assms
proof (induction calls arbitrary: s)
  case (Cons c calls)
  obtain ac env d where c: "c = (ac, env, d)" by (cases c)
  from Cons.IH [OF call_control_keeps [OF Cons.prems]] show ?case by (simp add: c call_controls_def)
qed (simp add: call_controls_def)

text \<open>
  C37. A control update that is refused for its risks has already changed the control: when a change
  of a control names a risk that does not exist, the answer is the error about the risks, the fields
  of the control carry the new values all the same, its links are as before, and no audit event
  records the change.
\<close>

theorem failed_link_keeps_edit:
  assumes "controls_ok s" "find_control ac i s = Some c" "un_code dto = None" "un_risks dto = Some ids"
    "k \<in> set ids" "k \<notin> r_id ` set (db_risks s)" "update_control ac env order i dto s = (r, s')"
  shows "r = Inl (BadRequest ''One or more risks were not found'') \<and>
    find_control ac i s' = Some (patch_control dto c) \<and> ctl_risks (patch_control dto c) = ctl_risks c \<and>
    db_audit s' = db_audit s"
proof -
  let ?t = "update_control_row ac i (patch_control dto) s"
  note c = find_control_row [OF assms(2)]
  have "control_code_unique ac (ctl_code (patch_control dto c)) (Some i) s = (Inr (), s)"
    using assms(1,3) c keyed_differ [of control_key "db_next s" "db_controls s" _ c]
    by (fastforce simp: control_code_unique_run patch_control_def controls_ok_def control_key_def mine_def)
  moreover have found: "find_control ac i ?t = Some (patch_control dto c)"
    unfolding find_control_def update_control_row_def
    using first_in_rewritten [OF _ _ _ assms(2) [unfolded find_control_def], of "patch_control dto"]
    by (simp add: patch_control_def)
  moreover have "assert_risks ac (dedupe ids) ?t = (Inl (BadRequest ''One or more risks were not found''), ?t)"
    using assert_risks_run [of ac "dedupe ids" ?t] assert_risks_ok [of ac "dedupe ids" ?t ?t k] assms(1,5,6)
    by (auto simp: controls_ok_def update_control_row_def)
  ultimately show ?thesis
    using assms(2,4,7) by (auto simp: update_control_def set_risks_def assert_control_def run_h Let_def
        patch_control_def update_control_row_def)
qed

section \<open>A control library\<close>

definition ex_control :: control where
  "ex_control = \<lparr> r_id = 80, r_tenant = 1, r_created = 0, ctl_code = ''C-1'', ctl_title = ''Approval'',
     ctl_description = None, ctl_process = None, ctl_owner = None, ctl_frequency = MONTHLY, ctl_type = PREVENTIVE,
     ctl_nature = MANUAL, ctl_key = True, ctl_effectiveness = NOT_TESTED, ctl_design = None, ctl_operating = None,
     ctl_tested_at = None, ctl_frameworks = JArr [], ctl_active = True, ctl_deleted_at = None, ctl_risks = [70] \<rparr>"

definition ex_controls :: db where
  "ex_controls = ex_register\<lparr> db_controls := [ex_control] \<rparr>"

lemma ex_controls_ok: "controls_ok ex_controls"
  by (simp add: controls_ok_def keyed_def links_fit_def table_ok_def ex_controls_def ex_register_def ex_control_def
      ex_risk_def ex_db_def empty_db_def)

definition ex_test_dto :: create_test_dto where
  "ex_test_dto = \<lparr> ctt_engagement = None, ctt_workpaper = None, ctt_type = OPERATING, ctt_period_start = None,
     ctt_period_end = None, ctt_population = Some 40, ctt_sample = Some 5, ctt_exceptions = Some 2,
     ctt_result = Some FAIL, ctt_procedure = None, ctt_conclusion = None, ctt_remediation = None, ctt_tested_at = None \<rparr>"

lemma controls_invariant_witness:
  "controls_ok (call_controls [(ex_actor 2 [] [], ex_env, Create_Test 80 ex_test_dto)] ex_controls) \<and>
   map ctl_effectiveness (db_controls (call_controls [(ex_actor 2 [] [], ex_env, Create_Test 80 ex_test_dto)] ex_controls)) =
     [INEFFECTIVE]"
  by (rule conjI [OF controls_invariant [OF ex_controls_ok]])
     (simp add: call_controls_def create_test_def assert_control_def find_control_def apply_test_outcome_def run_h
      new_test_def ex_test_dto_def insert_test_def update_control_row_def tested_def ex_controls_def ex_register_def
      ex_control_def ex_actor_def table_simps audited_def Let_def has_id_def)

definition ex_relink :: update_control_dto where
  "ex_relink = \<lparr> un_code = None, un_title = Some ''Four eyes'', un_description = None, un_process = Undefined,
     un_owner = Undefined, un_frequency = None, un_type = None, un_nature = None, un_key = None, un_active = None,
     un_effectiveness = None, un_frameworks = None, un_risks = Some [70, 99] \<rparr>"

lemma failed_link_keeps_edit_witness:
  "\<exists>s'. update_control (ex_actor 2 [] []) ex_env (\<lambda>t. t) 80 ex_relink ex_controls =
       (Inl (BadRequest ''One or more risks were not found''), s') \<and>
     map_option ctl_title (find_control (ex_actor 2 [] []) 80 s') = Some ''Four eyes'' \<and> db_audit s' = []"
proof -
  obtain r s' where run: "update_control (ex_actor 2 [] []) ex_env (\<lambda>t. t) 80 ex_relink ex_controls = (r, s')" by fastforce
  have "find_control (ex_actor 2 [] []) 80 ex_controls = Some ex_control"
    by (simp add: find_control_def ex_controls_def ex_actor_def ex_control_def has_id_def)
  moreover have "99 \<notin> r_id ` set (db_risks ex_controls)"
    by (simp add: ex_controls_def ex_register_def ex_risk_def)
  moreover have "db_audit ex_controls = []" by (simp add: ex_controls_def ex_register_def)
  ultimately show ?thesis
    using failed_link_keeps_edit [OF ex_controls_ok _ _ _ _ _ run, of ex_control "[70, 99]" 99] run
    by (simp add: ex_relink_def patch_control_def)
qed

end
