(* ===== verification/Evidence.thy ===== *)
theory Evidence
  imports Findings Workpapers Samples
begin

text \<open>
  \<open>evidence/evidence.service.ts\<close>: the evidence of an engagement, numbered within it, with its links to
  a workpaper of the engagement and to a stored document.
\<close>

text \<open>\<open>nextEvidenceReference\<close>\<close>

definition next_evidence_reference :: "string option \<Rightarrow> string" where
  "next_evidence_reference latest =
     (let m = (case latest of None \<Rightarrow> None | Some l \<Rightarrow> if l = [] then None else parse_reference ''E-'' l);
          sq = (case m of None \<Rightarrow> 1 | Some n \<Rightarrow> n + 1)
      in ''E-'' @ pad sq 3)"

record evidence_query =
  evq_page :: page_query
  evq_workpaper :: "uuid option"
  evq_type :: "evidence_type option"
  evq_text :: "string option"

definition evidence_where :: "uuid \<Rightarrow> evidence_query \<Rightarrow> evidence \<Rightarrow> bool" where
  "evidence_where e q v \<longleftrightarrow>
     ev_engagement v = e \<and> opt_eq (map_option Some (evq_workpaper q)) (ev_workpaper v) \<and> opt_eq (evq_type q) (ev_type v) \<and>
     opt_contains (evq_text q) [ev_description v, ev_reference v]"

definition list_evidence :: "actor \<Rightarrow> (evidence list \<Rightarrow> evidence list) \<Rightarrow> uuid \<Rightarrow> evidence_query \<Rightarrow> evidence page op" where
  "list_evidence ac order e q =
     then_h (demand_h (find_engagement ac e) (NotFound ''Engagement not found''))
       (gets_h (\<lambda>s. paginate (evq_page q) (order (many_in ac (evidence_where e q) (db_evidence s)))))"

section \<open>The links\<close>

definition workpaper_on :: "actor \<Rightarrow> uuid \<Rightarrow> uuid \<Rightarrow> db \<Rightarrow> workpaper option" where
  "workpaper_on ac e w s = first_in ac (\<lambda>x. has_id w x \<and> w_engagement x = e \<and> w_deleted_at x = None) (db_workpapers s)"

definition assert_workpaper_on :: "actor \<Rightarrow> uuid \<Rightarrow> uuid \<Rightarrow> workpaper op" where
  "assert_workpaper_on ac e w = demand_h (workpaper_on ac e w) (BadRequest ''Workpaper not found on this engagement'')"

definition assert_linkable :: "actor \<Rightarrow> uuid \<Rightarrow> unit op" where
  "assert_linkable ac i =
     bind_h (demand_h (\<lambda>s. first_in ac (\<lambda>d. has_id i d \<and> d_deleted_at d = None) (db_documents s))
               (BadRequest ''Document not found'')) (\<lambda>d.
     check_h (d_owner_type d \<noteq> Some ''AiContext'')
       (BadRequest ''Private AI context cannot be linked as shared evidence. Upload the document to the engagement separately.''))"

section \<open>Creation\<close>

record create_evidence_dto =
  cev_engagement :: uuid
  cev_workpaper :: "uuid option"
  cev_document :: "uuid option"
  cev_description :: string
  cev_type :: "evidence_type option"
  cev_from :: "string option"
  cev_obtained_at :: "time option"
  cev_sufficient :: "bool option"

definition latest_evidence_reference :: "actor \<Rightarrow> uuid \<Rightarrow> db \<Rightarrow> string option" where
  "latest_evidence_reference ac e s =
     highest (map ev_reference (many_in ac (\<lambda>v. ev_engagement v = e \<and> starts_with ''E-'' (ev_reference v)) (db_evidence s)))"

definition new_evidence :: "actor \<Rightarrow> env \<Rightarrow> create_evidence_dto \<Rightarrow> string \<Rightarrow> db \<Rightarrow> evidence" where
  "new_evidence ac env dto ref s =
     \<lparr> r_id = db_next s, r_tenant = ac_tenant ac, r_created = env_now env, ev_engagement = cev_engagement dto,
       ev_workpaper = cev_workpaper dto, ev_document = cev_document dto, ev_reference = ref,
       ev_description = cev_description dto, ev_type = coalesce (cev_type dto) DOCUMENT, ev_from = cev_from dto,
       ev_obtained_at = cev_obtained_at dto, ev_obtained_by = ac_user ac, ev_sufficient = cev_sufficient dto,
       ev_findings = [] \<rparr>"

definition insert_evidence :: "evidence \<Rightarrow> db \<Rightarrow> db" where
  "insert_evidence v s = s\<lparr> db_evidence := insert_row v (db_evidence s), db_next := db_next s + 1 \<rparr>"

text \<open>The constraint \<open>@@unique([engagementId, reference])\<close> holds across the whole table.\<close>

definition create_referenced_evidence :: "actor \<Rightarrow> env \<Rightarrow> create_evidence_dto \<Rightarrow> string \<Rightarrow> evidence op" where
  "create_referenced_evidence ac env dto ref =
     then_h (check_state_h (\<lambda>s. count_rows (\<lambda>v. ev_engagement v = cev_engagement dto \<and> ev_reference v = ref)
               (db_evidence s) = 0) UniqueViolation)
       (create_h (new_evidence ac env dto ref) insert_evidence)"

definition check_new_evidence :: "actor \<Rightarrow> create_evidence_dto \<Rightarrow> unit op" where
  "check_new_evidence ac dto =
     then_h (demand_h (find_engagement ac (cev_engagement dto)) (NotFound ''Engagement not found''))
    (then_h (check_given (cev_workpaper dto) (\<lambda>w.
               bind_h (assert_workpaper_on ac (cev_engagement dto) w) (\<lambda>x.
               check_h (\<not> w_locked x) (Conflict ''Workpaper is signed off and locked''))))
     (check_given (cev_document dto) (assert_linkable ac)))"

text \<open>A document without an owner becomes one of the evidence.\<close>

definition own_by_evidence :: "actor \<Rightarrow> uuid \<Rightarrow> uuid option \<Rightarrow> db \<Rightarrow> db" where
  "own_by_evidence ac v doc s = (case doc of None \<Rightarrow> s
     | Some i \<Rightarrow> s\<lparr> db_documents := update_in ac (\<lambda>d. has_id i d \<and> d_owner_type d = None)
         (\<lambda>d. d\<lparr> d_owner_type := Some ''Evidence'', d_owner := Some v \<rparr>) (db_documents s) \<rparr>)"

definition create_evidence :: "actor \<Rightarrow> env \<Rightarrow> create_evidence_dto \<Rightarrow> evidence op" where
  "create_evidence ac env dto =
     then_h (check_new_evidence ac dto)
    (bind_h (allocate_h (latest_evidence_reference ac (cev_engagement dto))
               (\<lambda>latest. Inr (next_evidence_reference latest)) (create_referenced_evidence ac env dto) 5) (\<lambda>created.
     case created of
       None \<Rightarrow> throw_h (Conflict ''Could not allocate an evidence reference'')
     | Some v \<Rightarrow>
         then_h (modify_h (own_by_evidence ac (r_id v) (cev_document dto)))
        (then_h (audit_record ac env (audit_of ''evidence.created'' ''Evidence'' (r_id v) No_Snapshot (Evidence_Row v) []))
          (demand_h (\<lambda>s. first_in ac (has_id (r_id v)) (db_evidence s)) RecordRequired))))"

section \<open>Update\<close>

record update_evidence_dto =
  uev_workpaper :: "uuid field"
  uev_document :: "uuid field"
  uev_description :: "string option"
  uev_type :: "evidence_type option"
  uev_from :: "string option"
  uev_obtained_at :: "time field"
  uev_sufficient :: "bool field"

definition patch_evidence :: "update_evidence_dto \<Rightarrow> evidence \<Rightarrow> evidence" where
  "patch_evidence dto v =
     v\<lparr> ev_workpaper := patch_nullable (uev_workpaper dto) (ev_workpaper v),
        ev_document := patch_nullable (uev_document dto) (ev_document v),
        ev_description := patch (uev_description dto) (ev_description v), ev_type := patch (uev_type dto) (ev_type v),
        ev_from := coalesce_opt (uev_from dto) (ev_from v),
        ev_obtained_at := patch_nullable (uev_obtained_at dto) (ev_obtained_at v),
        ev_sufficient := patch_nullable (uev_sufficient dto) (ev_sufficient v) \<rparr>"

definition find_evidence :: "actor \<Rightarrow> uuid \<Rightarrow> db \<Rightarrow> evidence option" where
  "find_evidence ac i s = first_in ac (has_id i) (db_evidence s)"

text \<open>The workpaper must belong to the engagement; whether it is locked is not asked.\<close>

definition check_new_links :: "actor \<Rightarrow> update_evidence_dto \<Rightarrow> evidence \<Rightarrow> unit op" where
  "check_new_links ac dto v =
     then_h (check_given (or_null (uev_workpaper dto)) (\<lambda>w. then_h (assert_workpaper_on ac (ev_engagement v) w) (return_h ())))
       (check_given (or_null (uev_document dto)) (assert_linkable ac))"

definition update_evidence_row :: "actor \<Rightarrow> uuid \<Rightarrow> (evidence \<Rightarrow> evidence) \<Rightarrow> db \<Rightarrow> db" where
  "update_evidence_row ac i g s = s\<lparr> db_evidence := update_in ac (has_id i) g (db_evidence s) \<rparr>"

definition update_evidence :: "actor \<Rightarrow> env \<Rightarrow> uuid \<Rightarrow> update_evidence_dto \<Rightarrow> evidence op" where
  "update_evidence ac env i dto =
     bind_h (demand_h (find_evidence ac i) (NotFound ''Evidence not found'')) (\<lambda>before.
     then_h (check_new_links ac dto before)
    (then_h (modify_h (update_evidence_row ac i (patch_evidence dto)))
    (then_h (audit_record ac env (audit_of ''evidence.updated'' ''Evidence'' i (Evidence_Row before)
               (Evidence_Row (patch_evidence dto before)) []))
     (return_h (patch_evidence dto before)))))"

section \<open>Confinement\<close>

lemma evidence_checks_read [intro]:
  "reads (assert_workpaper_on ac e w)" "reads (assert_linkable ac i)"
  unfolding assert_workpaper_on_def assert_linkable_def by (intro reads_intros)+

lemma evidence_links_read [intro]: "reads (check_new_evidence ac dto)" "reads (check_new_links ac udto v)"
  unfolding check_new_evidence_def check_new_links_def by (intro reads_intros check_given_reads evidence_checks_read)+

lemmas evidence_confined = confinement.keeps_reads [OF evidence_links_read(1)]
  confinement.keeps_reads [OF evidence_links_read(2)]

lemma patch_evidence_rows [simp]:
  "r_tenant (patch_evidence dto v) = r_tenant v" "r_id (patch_evidence dto v) = r_id v"
  "ev_engagement (patch_evidence dto v) = ev_engagement v" "ev_reference (patch_evidence dto v) = ev_reference v"
  by (simp_all add: patch_evidence_def)

lemma evidence_writes_confined:
  "(\<And>x. r_tenant (g x) = r_tenant x) \<Longrightarrow> same_outside (ac_tenant ac) s (update_evidence_row ac i g s)"
  "audit_grows s (update_evidence_row ac i g s)"
  "same_outside (ac_tenant ac) s (own_by_evidence ac v doc s)" "audit_grows s (own_by_evidence ac v doc s)"
  by (simp_all add: update_evidence_row_def own_by_evidence_def confined_writes split: option.split)

lemma create_referenced_evidence_confined: "keeps (confined (ac_tenant ac)) (create_referenced_evidence ac env dto ref)"
  unfolding create_referenced_evidence_def
  by (intro confined_steps; simp add: insert_evidence_def new_evidence_def confined_writes)

lemma evidence_changes_confined:
  "keeps (confined (ac_tenant ac)) (create_evidence ac env dto)"
  "keeps (confined (ac_tenant ac)) (update_evidence ac env i udto)"
  unfolding create_evidence_def update_evidence_def
  by (intro evidence_confined create_referenced_evidence_confined evidence_writes_confined confinement.keeps_allocate
      confined_steps; simp)+

end
