(* ===== verification/Document_Life.thy ===== *)
theory Document_Life
  imports Documents
begin

text \<open>
  The calls of the document service, and what none of them changes: the owner of a document.
\<close>

datatype document_call =
    Presign_Upload string presign_dto
  | Complete_Upload storage uuid "string option"
  | Put_Content storage uuid nat string
  | Get_Content storage uuid
  | Download_Document uuid
  | Remove_Document uuid

fun call_document :: "actor \<Rightarrow> env \<Rightarrow> document_call \<Rightarrow> db \<Rightarrow> db" where
  "call_document ac env (Presign_Upload key dto) s = snd (presign_upload ac env key dto s)"
| "call_document ac env (Complete_Upload so i claimed) s = snd (complete_upload ac env so i claimed s)"
| "call_document ac env (Put_Content so i len sha) s = snd (put_content ac env so i len sha s)"
| "call_document ac env (Get_Content so i) s = snd (get_content ac env so i s)"
| "call_document ac env (Download_Document i) s = snd (download_document ac env i s)"
| "call_document ac env (Remove_Document i) s = snd (remove_document ac env i s)"

lemma call_document_confined: "confined (ac_tenant ac) s (call_document ac env c s)"
  by (cases c)
     (simp_all add: kept_confined presign_upload_confined complete_upload_confined put_content_confined
       document_reads_confined remove_document_confined)

end
