(* ===== verification/Evidence_Life.thy ===== *)
theory Evidence_Life
  imports Evidence Document_Life Keyed
begin

text \<open>
  Evidence under every sequence of calls: references are unique within an engagement, a linked workpaper
  is one of the engagement, and a private document of an AI context is never shared through evidence.
\<close>

section \<open>The invariant\<close>

definition ev_key :: "evidence \<Rightarrow> uuid \<times> string" where
  "ev_key v = (ev_engagement v, ev_reference v)"

definition evidence_fits :: "db \<Rightarrow> evidence \<Rightarrow> bool" where
  "evidence_fits s v \<longleftrightarrow>
     (\<exists>e\<in>set (db_engagements s). r_id e = ev_engagement v \<and> r_tenant e = r_tenant v) \<and>
     (\<forall>w. ev_workpaper v = Some w \<longrightarrow>
        (\<exists>x\<in>set (db_workpapers s). r_id x = w \<and> r_tenant x = r_tenant v \<and> w_engagement x = ev_engagement v)) \<and>
     (\<forall>i. ev_document v = Some i \<longrightarrow>
        (\<exists>d\<in>set (db_documents s). r_id d = i \<and> r_tenant d = r_tenant v \<and> d_owner_type d \<noteq> Some ''AiContext''))"

definition evidence_ok :: "db \<Rightarrow> bool" where
  "evidence_ok s \<longleftrightarrow> keyed ev_key (db_next s) (db_evidence s) \<and> (\<forall>v\<in>set (db_evidence s). evidence_fits s v)"

text \<open>What the writes beside the table leave of the links.\<close>

definition links_kept :: "db \<Rightarrow> db \<Rightarrow> bool" where
  "links_kept s s' \<longleftrightarrow> db_engagements s' = db_engagements s \<and> db_workpapers s' = db_workpapers s \<and>
     (\<forall>d\<in>set (db_documents s). \<exists>d'\<in>set (db_documents s'). r_id d' = r_id d \<and> r_tenant d' = r_tenant d \<and>
        (d_owner_type d \<noteq> Some ''AiContext'' \<longrightarrow> d_owner_type d' \<noteq> Some ''AiContext''))"

lemma links_kept_same [simp]:
  "db_engagements s' = db_engagements s \<Longrightarrow> db_workpapers s' = db_workpapers s \<Longrightarrow> db_documents s' = db_documents s \<Longrightarrow>
   links_kept s s'"
  by (auto simp: links_kept_def)

lemma evidence_fits_kept: "links_kept s s' \<Longrightarrow> evidence_fits s v \<Longrightarrow> evidence_fits s' v"
  unfolding evidence_fits_def links_kept_def by metis

lemma evidence_ok_kept:
  assumes "evidence_ok s" "links_kept s s'" "db_evidence s' = db_evidence s" "db_next s \<le> db_next s'"
  shows "evidence_ok s'"
  using assms evidence_fits_kept [OF assms(2)] by (auto simp: evidence_ok_def intro: keyed_grow)

lemma evidence_ok_audited: "evidence_ok s \<Longrightarrow> evidence_ok (audited ac env ev s)"
  by (erule evidence_ok_kept) (simp_all add: audited_def)

lemma own_by_evidence_kept: "links_kept s (own_by_evidence ac v doc s)"
proof (cases doc)
  case (Some i)
  let ?g = "\<lambda>d :: document. d\<lparr> d_owner_type := Some ''Evidence'', d_owner := Some v \<rparr>"
  have "\<exists>d'\<in>set (update_in ac (\<lambda>d. has_id i d \<and> d_owner_type d = None) ?g (db_documents s)).
      r_id d' = r_id d \<and> r_tenant d' = r_tenant d \<and> (d_owner_type d \<noteq> Some ''AiContext'' \<longrightarrow> d_owner_type d' \<noteq> Some ''AiContext'')"
    if "d \<in> set (db_documents s)" for d
    using that
    by (intro bexI [of _ "if mine ac d \<and> has_id i d \<and> d_owner_type d = None then ?g d else d"]) (auto simp: set_update_in)
  then show ?thesis by (simp add: links_kept_def own_by_evidence_def Some)
qed (simp add: own_by_evidence_def)

lemma evidence_ok_owned: "evidence_ok s \<Longrightarrow> evidence_ok (own_by_evidence ac v doc s)"
  by (erule evidence_ok_kept [OF _ own_by_evidence_kept]) (simp_all add: own_by_evidence_def split: option.split)

section \<open>Creation\<close>

lemma assert_linkable_run:
  "assert_linkable ac i s = (Inr (), s) \<or> (\<exists>e. assert_linkable ac i s = (Inl e, s))"
  "assert_linkable ac i s = (Inr (), s') \<Longrightarrow>
     \<exists>d\<in>set (db_documents s). r_id d = i \<and> mine ac d \<and> d_owner_type d \<noteq> Some ''AiContext''"
  by (auto simp: assert_linkable_def run_h ok_h has_id_def dest: first_in_Some split: option.splits)

lemma workpaper_on_Some:
  "workpaper_on ac e w s = Some x \<Longrightarrow> x \<in> set (db_workpapers s) \<and> mine ac x \<and> r_id x = w \<and> w_engagement x = e"
  by (auto simp: workpaper_on_def has_id_def dest: first_in_Some)

lemma check_new_evidence_fits:
  assumes "check_new_evidence ac dto s = (Inr (), s')"
  shows "evidence_fits s (new_evidence ac env dto ref t)"
proof -
  obtain e where "find_engagement ac (cev_engagement dto) s = Some e"
    using assms by (auto simp: check_new_evidence_def ok_h)
  then have "e \<in> set (db_engagements s)" "r_id e = cev_engagement dto" "r_tenant e = ac_tenant ac"
    by (auto simp: find_engagement_def has_id_def mine_def dest: first_in_Some)
  moreover have "\<exists>x\<in>set (db_workpapers s). r_id x = w \<and> r_tenant x = ac_tenant ac \<and> w_engagement x = cev_engagement dto"
    if "cev_workpaper dto = Some w" for w
    using assms that
    by (auto simp: check_new_evidence_def check_given_def ok_h assert_workpaper_on_def mine_def dest!: workpaper_on_Some)
  moreover have "\<exists>d\<in>set (db_documents s). r_id d = i \<and> r_tenant d = ac_tenant ac \<and> d_owner_type d \<noteq> Some ''AiContext''"
    if doc: "cev_document dto = Some i" for i
  proof -
    obtain s1 where "assert_linkable ac i s1 = (Inr (), s')" and "s1 = s"
      using assms doc by (auto simp: check_new_evidence_def check_given_def ok_h assert_workpaper_on_def split: option.splits)
    then show ?thesis using assert_linkable_run(2) by (auto simp: mine_def)
  qed
  ultimately show ?thesis by (auto simp: evidence_fits_def new_evidence_def)
qed

lemma create_referenced_keeps:
  assumes "evidence_ok s" "\<And>t. evidence_fits s (new_evidence ac env dto ref t)"
    "create_referenced_evidence ac env dto ref s = (r, s')"
  shows "evidence_ok s'" "links_kept s s'"
proof -
  let ?v = "new_evidence ac env dto ref s"
  have ins: "evidence_ok (insert_evidence ?v s)"
    if "\<forall>v\<in>set (db_evidence s). \<not> (ev_engagement v = cev_engagement dto \<and> ev_reference v = ref)"
  proof -
    have "keyed ev_key (db_next s + 1) (insert_row ?v (db_evidence s))"
      using assms(1) that by (intro keyed_insert) (auto simp: evidence_ok_def new_evidence_def ev_key_def)
    moreover have "links_kept s (insert_evidence ?v s)" by (simp add: insert_evidence_def)
    note keep = evidence_fits_kept [OF this, unfolded insert_evidence_def]
    ultimately show ?thesis
      using assms(1,2) by (auto simp: evidence_ok_def insert_evidence_def table_simps intro: keep)
  qed
  show "evidence_ok s'" "links_kept s s'"
    using assms(3) ins assms(1)
    by (auto simp: create_referenced_evidence_def run_h table_simps insert_evidence_def split: if_splits)
qed

lemma allocate_evidence_keeps:
  assumes "evidence_ok s" "\<And>ref t. evidence_fits s (new_evidence ac env dto ref t)"
    "allocate_h latest next (create_referenced_evidence ac env dto) n s = (r, s')"
  shows "evidence_ok s'"
  using assms
proof (induction n arbitrary: s)
  case (Suc n)
  note step = create_referenced_keeps [OF Suc.prems(1,2)]
  show ?case
    using Suc.prems(3)
  proof (cases "next (latest s)")
    case (Inr ref)
    obtain q t where t: "create_referenced_evidence ac env dto ref s = (q, t)"
      by (cases "create_referenced_evidence ac env dto ref s")
    have ok: "evidence_ok t" "\<And>ref u. evidence_fits t (new_evidence ac env dto ref u)"
      using step [OF t] evidence_fits_kept Suc.prems(2) by blast+
    from Suc.prems(3) Inr t ok(1) show ?thesis
      by (auto split: sum.splits if_splits intro: Suc.IH [OF ok])
  qed (use Suc.prems in auto)
qed simp

lemma create_evidence_keeps:
  assumes "evidence_ok s" shows "evidence_ok (snd (create_evidence ac env dto s))"
proof -
  obtain r s' where run: "create_evidence ac env dto s = (r, s')" by (cases "create_evidence ac env dto s")
  have "evidence_ok s'"
    using run [unfolded create_evidence_def] evidence_links_read(1)
  proof (cases rule: then_check_cases)
    case (2 x)
    then have fits: "evidence_fits s (new_evidence ac env dto ref t)" for ref t
      using check_new_evidence_fits by auto
    obtain q s1 where q: "allocate_h (latest_evidence_reference ac (cev_engagement dto))
        (\<lambda>latest. Inr (next_evidence_reference latest)) (create_referenced_evidence ac env dto) 5 s = (q, s1)" by fastforce
    have "evidence_ok s1" by (rule allocate_evidence_keeps [OF assms fits q])
    with 2(2) q show ?thesis
      by (auto simp: run_h split: sum.splits option.splits intro!: evidence_ok_audited evidence_ok_owned)
  qed (simp add: assms)
  then show ?thesis by (simp add: run)
qed

section \<open>Update\<close>

lemma update_evidence_keeps:
  assumes "evidence_ok s" shows "evidence_ok (snd (update_evidence ac env i dto s))"
proof -
  obtain r s' where run: "update_evidence ac env i dto s = (r, s')" by (cases "update_evidence ac env i dto s")
  have "evidence_ok (update_evidence_row ac i (patch_evidence dto) s)"
    if v: "find_evidence ac i s = Some v" and c: "check_new_links ac dto v s = (Inr x, s1)" for v x s1
  proof -
    note ok = assms [unfolded evidence_ok_def]
    have v': "v \<in> set (db_evidence s)" "mine ac v" "r_id v = i"
      using v by (auto simp: find_evidence_def has_id_def dest: first_in_Some)
    have fits: "evidence_fits s (patch_evidence dto v)"
    proof -
      have "\<exists>x\<in>set (db_workpapers s). r_id x = w \<and> r_tenant x = r_tenant v \<and> w_engagement x = ev_engagement v"
        if "uev_workpaper dto = Value w" for w
        using c that v'(2)
        by (auto simp: check_new_links_def check_given_def ok_h assert_workpaper_on_def mine_def dest!: workpaper_on_Some)
      moreover have "\<exists>d\<in>set (db_documents s). r_id d = j \<and> r_tenant d = r_tenant v \<and> d_owner_type d \<noteq> Some ''AiContext''"
        if doc: "uev_document dto = Value j" for j
      proof -
        have "assert_linkable ac j s = (Inr x, s1)"
          using c doc by (auto simp: check_new_links_def check_given_def ok_h assert_workpaper_on_def split: option.splits)
        then show ?thesis using assert_linkable_run(2) v'(2) by (auto simp: mine_def)
      qed
      moreover have "evidence_fits s v" using ok v'(1) by blast
      ultimately show ?thesis
        by (cases "uev_workpaper dto"; cases "uev_document dto")
           (auto simp: evidence_fits_def patch_evidence_def)
    qed
    have one: "x = v" if "x \<in> set (db_evidence s)" "has_id i x" for x
      using keyed_same [of ev_key "db_next s" "db_evidence s" x v] that ok v' by (simp add: has_id_def)
    have "keyed ev_key (db_next s) (update_in ac (has_id i) (patch_evidence dto) (db_evidence s))"
      using ok by (intro keyed_update_key) (auto simp: ev_key_def)
    moreover have "\<forall>x\<in>set (update_in ac (has_id i) (patch_evidence dto) (db_evidence s)). evidence_fits s x"
      using ok fits by (intro ball_update_in) (auto dest: one)
    moreover have "links_kept s (update_evidence_row ac i (patch_evidence dto) s)" by (simp add: update_evidence_row_def)
    note keep = evidence_fits_kept [OF this, unfolded update_evidence_row_def]
    ultimately show ?thesis
      by (auto simp: evidence_ok_def update_evidence_row_def intro: keep)
  qed
  moreover have "check_new_links ac dto v s = (q, s1) \<Longrightarrow> s1 = s" for v q s1
    using readsD [OF evidence_links_read(2)] .
  ultimately have "evidence_ok s'"
    using run assms
    by (auto simp: update_evidence_def run_h split: option.splits prod.splits sum.splits intro!: evidence_ok_audited) blast+
  then show ?thesis by (simp add: run)
qed

section \<open>Evidence and documents together\<close>

text \<open>The document service leaves the evidence alone and takes no document away from the shared ones.\<close>

definition sharing_kept :: "db \<Rightarrow> db \<Rightarrow> bool" where
  "sharing_kept s s' \<longleftrightarrow> links_kept s s' \<and> db_evidence s' = db_evidence s \<and> db_next s \<le> db_next s'"

interpretation sharing: frame sharing_kept
proof
  show "sharing_kept s u" if "sharing_kept s t" "sharing_kept t u" for s t u
  proof -
    have "links_kept s u"
      using that unfolding sharing_kept_def links_kept_def by fastforce
    then show ?thesis using that by (simp add: sharing_kept_def)
  qed
qed (simp add: sharing_kept_def)

lemma sharing_audited: "keeps sharing_kept (audit_record ac env ev)"
  by (simp add: keeps_def run_h sharing_kept_def audited_def)

lemmas sharing_reads = sharing.keeps_reads [OF assert_document_reads] sharing.keeps_reads [OF get_document_reads]
  sharing.keeps_reads [OF assert_upload_owner_reads]

lemma sharing_insert_document: "sharing_kept s (insert_document d s)"
  by (auto simp: sharing_kept_def links_kept_def insert_document_def table_simps)

lemma sharing_update_documents:
  assumes "\<And>d. r_id (g d) = r_id d" "\<And>d. r_tenant (g d) = r_tenant d" "\<And>d. d_owner_type (g d) = d_owner_type d"
  shows "sharing_kept s (s\<lparr> db_documents := update_in ac P g (db_documents s) \<rparr>)"
proof -
  have "\<exists>d'\<in>set (update_in ac P g (db_documents s)). r_id d' = r_id d \<and> r_tenant d' = r_tenant d \<and>
      (d_owner_type d \<noteq> Some ''AiContext'' \<longrightarrow> d_owner_type d' \<noteq> Some ''AiContext'')" if "d \<in> set (db_documents s)" for d
    using that assms by (intro bexI [of _ "if mine ac d \<and> P d then g d else d"]) (auto simp: set_update_in)
  then show ?thesis by (simp add: sharing_kept_def links_kept_def)
qed

lemma sharing_version: "sharing_kept s (s\<lparr> db_document_versions := t, db_next := Suc (db_next s) \<rparr>)"
  by (simp add: sharing_kept_def)

lemma complete_upload_sharing: "keeps sharing_kept (complete_upload ac env so i claimed)"
  unfolding complete_upload_def
  by (intro sharing.keeps_intros sharing.keeps_modify sharing_reads sharing_audited keeps_confined_scan)
     (simp_all add: mark_uploaded_def sharing_update_documents add_first_version_def sharing.refl sharing_version)

lemma document_calls_sharing:
  "keeps sharing_kept (presign_upload ac env key dto)" "keeps sharing_kept (put_content ac env so i len sha)"
  "keeps sharing_kept (get_content ac env so i)" "keeps sharing_kept (download_document ac env i)"
  "keeps sharing_kept (remove_document ac env i)"
  unfolding presign_upload_def put_content_def get_content_def download_document_def remove_document_def
    assert_classification_def Let_def
  by (intro sharing.keeps_intros sharing.keeps_modify sharing.keeps_create sharing_reads sharing_audited
      complete_upload_sharing sharing_insert_document sharing_update_documents; simp)+

lemma call_document_sharing: "sharing_kept s (call_document ac env c s)"
  using complete_upload_sharing document_calls_sharing by (cases c) (simp_all add: keeps_def)

datatype evidence_call =
    Create_Evidence create_evidence_dto
  | Update_Evidence uuid update_evidence_dto

fun call_evidence :: "actor \<Rightarrow> env \<Rightarrow> evidence_call \<Rightarrow> db \<Rightarrow> db" where
  "call_evidence ac env (Create_Evidence cdto) s = snd (create_evidence ac env cdto s)"
| "call_evidence ac env (Update_Evidence i udto) s = snd (update_evidence ac env i udto s)"

lemma call_evidence_confined: "confined (ac_tenant ac) s (call_evidence ac env c s)"
  by (cases c) (simp_all add: kept_confined evidence_changes_confined)

definition call_files :: "(actor \<times> env \<times> (evidence_call + document_call)) list \<Rightarrow> db \<Rightarrow> db" where
  "call_files calls s = fold (\<lambda>(ac, env, c). case_sum (call_evidence ac env) (call_document ac env) c) calls s"

lemma call_files_keeps: "evidence_ok s \<Longrightarrow> evidence_ok (case_sum (call_evidence ac env) (call_document ac env) c s)"
proof (cases c)
  case (Inl e)
  then show "evidence_ok s \<Longrightarrow> ?thesis" by (cases e) (simp_all add: create_evidence_keeps update_evidence_keeps)
next
  case (Inr d)
  then show "evidence_ok s \<Longrightarrow> ?thesis"
    using call_document_sharing [of s ac env d] by (auto simp: sharing_kept_def intro: evidence_ok_kept)
qed

text \<open>
  C38. The evidence of a tenant stays linked and private under every sequence of calls of the evidence
  and of the document service: keys are unique and so are references within an engagement, every
  evidence belongs to an engagement of its tenant, the workpaper it names belongs to that engagement,
  and the document it names is one of the tenant that is not the private context of an AI session.
\<close>

theorem evidence_invariant:
  assumes "evidence_ok s"
  shows "evidence_ok (call_files calls s)"
  using assms
proof (induction calls arbitrary: s)
  case (Cons c calls)
  obtain ac env d where c: "c = (ac, env, d)" by (cases c)
  from Cons.IH [OF call_files_keeps [OF Cons.prems]] show ?case by (simp add: c call_files_def)
qed (simp add: call_files_def)

definition ex_evidence_dto :: create_evidence_dto where
  "ex_evidence_dto = \<lparr> cev_engagement = 10, cev_workpaper = Some 20, cev_document = Some 40,
     cev_description = ''List'', cev_type = None, cev_from = None, cev_obtained_at = None, cev_sufficient = None \<rparr>"

lemma evidence_invariant_witness:
  "evidence_ok (call_files [(ex_actor 2 [] [], ex_env, Inl (Create_Evidence ex_evidence_dto))] ex_db) \<and>
   map ev_reference (db_evidence (call_files [(ex_actor 2 [] [], ex_env, Inl (Create_Evidence ex_evidence_dto))] ex_db)) =
     [''E-001'']"
proof
  show "evidence_ok (call_files [(ex_actor 2 [] [], ex_env, Inl (Create_Evidence ex_evidence_dto))] ex_db)"
    by (rule evidence_invariant) (simp add: evidence_ok_def keyed_def)
  let ?ac = "ex_actor 2 [] []"
  have one: "pad (Suc 0) 3 = ''001''" by code_simp
  have "check_new_evidence ?ac ex_evidence_dto ex_db = (Inr (), ex_db)"
    by (simp add: check_new_evidence_def check_given_def find_engagement_def assert_workpaper_on_def workpaper_on_def
        assert_linkable_def run_h ex_evidence_dto_def ex_rows has_id_def)
  moreover have "create_referenced_evidence ?ac ex_env ex_evidence_dto ''E-001'' ex_db =
      (Inr (new_evidence ?ac ex_env ex_evidence_dto ''E-001'' ex_db),
       insert_evidence (new_evidence ?ac ex_env ex_evidence_dto ''E-001'' ex_db) ex_db)"
    by (simp add: create_referenced_evidence_def run_h count_rows_def)
  moreover have "next_evidence_reference (latest_evidence_reference ?ac 10 ex_db) = ''E-001''"
    by (simp add: next_evidence_reference_def latest_evidence_reference_def table_simps many_in_def find_many_def
        highest_def one)
  ultimately have al: "allocate_h (latest_evidence_reference ?ac 10) (\<lambda>latest. Inr (next_evidence_reference latest))
      (create_referenced_evidence ?ac ex_env ex_evidence_dto) 5 ex_db =
      (Inr (Some (new_evidence ?ac ex_env ex_evidence_dto ''E-001'' ex_db)),
       insert_evidence (new_evidence ?ac ex_env ex_evidence_dto ''E-001'' ex_db) ex_db)"
    using allocate_first [where r = "''E-001''" and latest = "latest_evidence_reference ?ac 10"
        and ?next = "\<lambda>latest. Inr (next_evidence_reference latest)" and n = 4
        and create = "create_referenced_evidence ?ac ex_env ex_evidence_dto" and s = ex_db]
    by simp
  have "cev_engagement ex_evidence_dto = 10" by (simp add: ex_evidence_dto_def)
  then show "map ev_reference (db_evidence (call_files [(?ac, ex_env, Inl (Create_Evidence ex_evidence_dto))] ex_db)) =
     [''E-001'']"
    using \<open>check_new_evidence _ _ _ = _\<close> al
    by (simp add: call_files_def create_evidence_def run_h)
       (simp add: own_by_evidence_def insert_evidence_def new_evidence_def insert_row_def first_in_Cons has_id_def
        split: option.split)
qed

end
