(* ===== verification/Collaboration.thy ===== *)
theory Collaboration
  imports Findings Samples
begin

text \<open>
  \<open>collaboration/tasks.service.ts\<close> and \<open>collaboration/comments.service.ts\<close>: the task board and the
  comments on engagements, findings, requests and workpapers. Portal users work on their own tasks,
  and see and write only comments that are not internal.
\<close>

section \<open>Tasks\<close>

definition task_scope :: "actor \<Rightarrow> task \<Rightarrow> bool" where
  "task_scope ac t \<longleftrightarrow> \<not> is_portal_scoped ac \<or> tk_assignee t = Some (ac_user ac) \<or> tk_created_by t = ac_user ac"

record task_query =
  tkq_page :: page_query
  tkq_mine :: bool
  tkq_status :: "task_status option"
  tkq_engagement :: "uuid option"
  tkq_assignee :: "uuid option"
  tkq_target_type :: "string option"
  tkq_target :: "uuid option"
  tkq_text :: "string option"

definition task_where :: "actor \<Rightarrow> task_query \<Rightarrow> task \<Rightarrow> bool" where
  "task_where ac q t \<longleftrightarrow>
     task_scope ac t \<and>
     (tkq_mine q \<longrightarrow> tk_assignee t = Some (ac_user ac) \<or> (tk_created_by t = ac_user ac \<and> tk_assignee t = None)) \<and>
     opt_eq (tkq_status q) (tk_status t) \<and> opt_eq (map_option Some (tkq_engagement q)) (tk_engagement t) \<and>
     opt_eq (map_option Some (tkq_assignee q)) (tk_assignee t) \<and>
     (case tkq_target_type q of None \<Rightarrow> True | Some ty \<Rightarrow> ty = [] \<or> tk_target_type t = Some ty) \<and>
     opt_eq (map_option Some (tkq_target q)) (tk_target t) \<and> opt_contains (tkq_text q) [tk_title t]"

definition list_tasks :: "actor \<Rightarrow> (task list \<Rightarrow> task list) \<Rightarrow> task_query \<Rightarrow> task page op" where
  "list_tasks ac order q = gets_h (\<lambda>s. paginate (tkq_page q) (order (many_in ac (task_where ac q) (db_tasks s))))"

text \<open>Target type and id come together, and the caller may comment on the target.\<close>

definition together :: http_error where
  "together = BadRequest ''targetType and targetId must be supplied together''"

definition check_target :: "actor \<Rightarrow> string option \<Rightarrow> uuid option \<Rightarrow> unit op" where
  "check_target ac ty i =
     (case (ty, i) of
        (Some x, Some j) \<Rightarrow> if x = [] then throw_h together else assert_comment_target ac x j
      | _ \<Rightarrow> throw_h together)"

record create_task_dto =
  ctk_engagement :: "uuid option"
  ctk_target_type :: "string option"
  ctk_target :: "uuid option"
  ctk_title :: string
  ctk_description :: "string option"
  ctk_assignee :: "uuid option"
  ctk_due :: "time option"
  ctk_priority :: "task_priority option"

definition new_task :: "actor \<Rightarrow> env \<Rightarrow> create_task_dto \<Rightarrow> db \<Rightarrow> task" where
  "new_task ac env dto s =
     \<lparr> r_id = db_next s, r_tenant = ac_tenant ac, r_created = env_now env, tk_engagement = ctk_engagement dto,
       tk_target_type = ctk_target_type dto, tk_target = ctk_target dto, tk_title = ctk_title dto,
       tk_description = ctk_description dto, tk_assignee = ctk_assignee dto, tk_created_by = ac_user ac,
       tk_due = ctk_due dto, tk_priority = coalesce (ctk_priority dto) task_priority.MEDIUM, tk_status = TODO,
       tk_completed_at = None \<rparr>"

definition insert_task :: "task \<Rightarrow> db \<Rightarrow> db" where
  "insert_task t s = s\<lparr> db_tasks := insert_row t (db_tasks s), db_next := db_next s + 1 \<rparr>"

definition task_notice :: "string \<Rightarrow> string \<Rightarrow> task \<Rightarrow> string option \<Rightarrow> notify_input" where
  "task_notice ty what t body =
     \<lparr> ni_type = ty, ni_title = what @ '': '' @ tk_title t, ni_body = body,
       ni_link = Some (''/tasks/'' @ show_nat (r_id t)), ni_payload = JObj [(''taskId'', JId (r_id t))] \<rparr>"

definition create_task :: "actor \<Rightarrow> env \<Rightarrow> create_task_dto \<Rightarrow> task op" where
  "create_task ac env dto =
     then_h (check_given (ctk_engagement dto) (assert_engagement_access ac))
    (then_h (if truthy (ctk_target_type dto) \<or> ctk_target dto \<noteq> None
             then check_target ac (ctk_target_type dto) (ctk_target dto) else return_h ())
    (then_h (check_h (\<not> (is_portal_scoped ac \<and> ctk_assignee dto \<noteq> None \<and> ctk_assignee dto \<noteq> Some (ac_user ac)))
               (Forbidden ''Portal users cannot assign tasks to other users''))
    (then_h (check_given (ctk_assignee dto) (\<lambda>u. check_state_h (\<lambda>s.
               first_in ac (\<lambda>x. has_id u x \<and> u_deleted_at x = None) (db_users s) \<noteq> None)
               (BadRequest ''Assignee not found'')))
    (bind_h (create_h (new_task ac env dto) insert_task) (\<lambda>t.
     then_h (audit_record ac env (audit_of ''task.created'' ''Task'' (r_id t) No_Snapshot (Task_Row t) []))
    (then_h (when_h (tk_assignee t \<noteq> None \<and> tk_assignee t \<noteq> Some (ac_user ac))
               (notify ac env (tk_assignee t) (task_notice ''task.assigned'' ''Task assigned'' t
                  (map_option (\<lambda>d. ''Due '' @ iso_date d) (tk_due t)))))
     (return_h t)))))))"

record update_task_dto =
  utk_engagement :: "uuid field"
  utk_target_type :: "string field"
  utk_target :: "uuid field"
  utk_title :: "string option"
  utk_description :: "string option"
  utk_assignee :: "uuid field"
  utk_due :: "time field"
  utk_priority :: "task_priority option"
  utk_status :: "task_status option"

text \<open>The fields that portal users may not send.\<close>

definition protected_given :: "update_task_dto \<Rightarrow> bool" where
  "protected_given dto \<longleftrightarrow> supplied (utk_engagement dto) \<or> supplied (utk_target_type dto) \<or> supplied (utk_target dto) \<or>
     supplied (utk_assignee dto) \<or> utk_title dto \<noteq> None"

definition patch_task :: "time \<Rightarrow> update_task_dto \<Rightarrow> task \<Rightarrow> task" where
  "patch_task now dto t =
     t\<lparr> tk_engagement := patch_nullable (utk_engagement dto) (tk_engagement t),
        tk_target_type := patch_nullable (utk_target_type dto) (tk_target_type t),
        tk_target := patch_nullable (utk_target dto) (tk_target t), tk_title := patch (utk_title dto) (tk_title t),
        tk_description := coalesce_opt (utk_description dto) (tk_description t),
        tk_assignee := patch_nullable (utk_assignee dto) (tk_assignee t),
        tk_due := patch_nullable (utk_due dto) (tk_due t), tk_priority := patch (utk_priority dto) (tk_priority t),
        tk_status := patch (utk_status dto) (tk_status t),
        tk_completed_at := (case utk_status dto of None \<Rightarrow> tk_completed_at t
           | Some st \<Rightarrow> if st = DONE then Some (coalesce (tk_completed_at t) now) else None) \<rparr>"

definition find_task :: "actor \<Rightarrow> uuid \<Rightarrow> db \<Rightarrow> task option" where
  "find_task ac i s = first_in ac (\<lambda>t. has_id i t \<and> task_scope ac t) (db_tasks s)"

definition may_edit_task :: "actor \<Rightarrow> task \<Rightarrow> bool" where
  "may_edit_task ac t \<longleftrightarrow> tk_assignee t = Some (ac_user ac) \<or> tk_created_by t = ac_user ac \<or>
     has_permission ac ''engagement:manage''"

definition check_task_change :: "actor \<Rightarrow> update_task_dto \<Rightarrow> task \<Rightarrow> unit op" where
  "check_task_change ac dto t =
     (if is_portal_scoped ac
      then check_h (\<not> protected_given dto)
             (Forbidden ''Portal users may update only task status, description, due date, or priority'')
      else
        then_h (check_given (or_null (utk_engagement dto)) (assert_engagement_access ac))
          (if truthy (or_null (utk_target_type dto)) \<or> or_null (utk_target dto) \<noteq> None
           then check_target ac (coalesce_opt (or_null (utk_target_type dto)) (tk_target_type t))
                  (coalesce_opt (or_null (utk_target dto)) (tk_target t))
           else return_h ()))"

definition update_task_row :: "actor \<Rightarrow> uuid \<Rightarrow> (task \<Rightarrow> task) \<Rightarrow> db \<Rightarrow> db" where
  "update_task_row ac i g s = s\<lparr> db_tasks := update_in ac (has_id i) g (db_tasks s) \<rparr>"

definition notify_task_change :: "actor \<Rightarrow> env \<Rightarrow> update_task_dto \<Rightarrow> task \<Rightarrow> task \<Rightarrow> unit op" where
  "notify_task_change ac env dto before after =
     (let who = or_null (utk_assignee dto)
      in if who \<noteq> None \<and> who \<noteq> tk_assignee before \<and> who \<noteq> Some (ac_user ac)
         then notify ac env who (task_notice ''task.assigned'' ''Task assigned'' after None)
         else when_h (utk_status dto = Some DONE \<and> tk_created_by before \<noteq> ac_user ac)
                (notify ac env (Some (tk_created_by before)) (task_notice ''task.completed'' ''Task completed'' after None)))"

definition update_task :: "actor \<Rightarrow> env \<Rightarrow> uuid \<Rightarrow> update_task_dto \<Rightarrow> task op" where
  "update_task ac env i dto =
     bind_h (demand_h (find_task ac i) (NotFound ''Task not found'')) (\<lambda>before.
     then_h (check_h (may_edit_task ac before)
               (Forbidden ''Only the assignee, creator or an engagement manager can edit this task''))
    (then_h (check_task_change ac dto before)
    (let after = patch_task (env_now env) dto before in
     then_h (modify_h (update_task_row ac i (patch_task (env_now env) dto)))
    (then_h (audit_record ac env (audit_of ''task.updated'' ''Task'' i (Task_Row before) (Task_Row after) []))
    (then_h (notify_task_change ac env dto before after)
     (return_h after))))))"

section \<open>Comments\<close>

definition is_audit_function :: "actor \<Rightarrow> bool" where
  "is_audit_function ac \<longleftrightarrow> list_ex (\<lambda>r. r \<in> set audit_function_roles) (ac_roles ac)"

definition list_comments :: "actor \<Rightarrow> (comment list \<Rightarrow> comment list) \<Rightarrow> page_query \<Rightarrow> string \<Rightarrow> uuid \<Rightarrow> comment page op" where
  "list_comments ac order q ty i =
     then_h (assert_comment_target ac ty i)
       (gets_h (\<lambda>s. paginate q (order (many_in ac (\<lambda>c. cm_target_type c = ty \<and> cm_target c = i \<and> cm_deleted_at c = None \<and>
          (is_audit_function ac \<or> \<not> cm_internal c)) (db_comments s)))))"

record create_comment_dto =
  ccm_target_type :: string
  ccm_target :: uuid
  ccm_body :: string
  ccm_parent :: "uuid option"
  ccm_internal :: "bool option"
  ccm_mentions :: "uuid list option"

definition comment_internal :: "actor \<Rightarrow> create_comment_dto \<Rightarrow> bool" where
  "comment_internal ac dto = (is_audit_function ac \<and> coalesce (ccm_internal dto) True)"

definition new_comment :: "actor \<Rightarrow> env \<Rightarrow> create_comment_dto \<Rightarrow> db \<Rightarrow> comment" where
  "new_comment ac env dto s =
     \<lparr> r_id = db_next s, r_tenant = ac_tenant ac, r_created = env_now env, cm_target_type = ccm_target_type dto,
       cm_target = ccm_target dto, cm_parent = ccm_parent dto, cm_author = ac_user ac, cm_body = ccm_body dto,
       cm_mentions = dedupe (coalesce (ccm_mentions dto) []), cm_internal = comment_internal ac dto, cm_deleted_at = None \<rparr>"

definition insert_comment :: "comment \<Rightarrow> db \<Rightarrow> db" where
  "insert_comment c s = s\<lparr> db_comments := insert_row c (db_comments s), db_next := db_next s + 1 \<rparr>"

definition mention_notice :: "string \<Rightarrow> comment \<Rightarrow> notify_input" where
  "mention_notice who c =
     \<lparr> ni_type = ''comment.mentioned'', ni_title = who @ '' mentioned you in a comment'',
       ni_body = Some (if length (cm_body c) > 200 then take 197 (cm_body c) @ ''...'' else cm_body c),
       ni_link = Some (''/'' @ to_lower (cm_target_type c) @ ''s/'' @ show_nat (cm_target c)),
       ni_payload = JObj [(''commentId'', JId (r_id c)), (''targetType'', JStr (cm_target_type c)),
                          (''targetId'', JId (cm_target c))] \<rparr>"

text \<open>\<open>who\<close> is the display name of the author, which the guard put into the request.\<close>

definition create_comment :: "actor \<Rightarrow> env \<Rightarrow> string \<Rightarrow> create_comment_dto \<Rightarrow> comment op" where
  "create_comment ac env who dto =
     then_h (assert_comment_target ac (ccm_target_type dto) (ccm_target dto))
    (then_h (check_h (\<not> (is_portal_scoped ac \<and> list_ex (\<lambda>u. u \<noteq> ac_user ac) (coalesce (ccm_mentions dto) [])))
               (BadRequest ''Portal comments cannot mention other users''))
    (then_h (check_given (ccm_parent dto) (\<lambda>p. check_state_h (\<lambda>s. first_in ac (\<lambda>c. has_id p c \<and>
               cm_target_type c = ccm_target_type dto \<and> cm_target c = ccm_target dto \<and> cm_deleted_at c = None)
               (db_comments s) \<noteq> None) (BadRequest ''Parent comment not found on this target'')))
    (let mentions = dedupe (coalesce (ccm_mentions dto) []) in
     then_h (check_state_h (\<lambda>s. mentions = [] \<or>
               count_in ac (\<lambda>u. r_id u \<in> set mentions \<and> u_deleted_at u = None) (db_users s) = length mentions)
               (BadRequest ''One or more mentioned users were not found''))
    (bind_h (create_h (new_comment ac env dto) insert_comment) (\<lambda>c.
     then_h (audit_record ac env (audit_of ''comment.created'' (ccm_target_type dto) (ccm_target dto) No_Snapshot
               (Fields [(''commentId'', JId (r_id c)), (''isInternal'', JBool (cm_internal c))]) []))
    (then_h (notify_many ac env (map Some (filter (\<lambda>u. u \<noteq> ac_user ac) mentions)) (mention_notice who c))
     (return_h c)))))))"

section \<open>Confinement\<close>

lemma collaboration_reads [intro]:
  "reads (check_target ac ty i)"
  unfolding check_target_def by (auto intro!: reads_intros assert_comment_target_reads split: option.split)

lemma check_task_change_reads [intro]: "reads (check_task_change ac dto t)"
  unfolding check_task_change_def by (intro reads_intros check_given_reads assert_access_reads collaboration_reads)

lemmas collaboration_confined = confinement.keeps_reads [OF collaboration_reads]
  confinement.keeps_reads [OF check_task_change_reads] confinement.keeps_reads [OF check_given_reads [OF assert_access_reads(1)]]
  check_given_confined access_confined

lemma patch_task_rows [simp]: "r_tenant (patch_task now dto t) = r_tenant t" "r_id (patch_task now dto t) = r_id t"
  by (simp_all add: patch_task_def)

lemma notify_task_change_confined: "keeps (confined (ac_tenant ac)) (notify_task_change ac env dto b a)"
  unfolding notify_task_change_def Let_def by (intro confined_steps)

lemma tasks_confined:
  "keeps (confined (ac_tenant ac)) (create_task ac env dto)"
  "keeps (confined (ac_tenant ac)) (update_task ac env i udto)"
  unfolding create_task_def update_task_def Let_def
  by (intro collaboration_confined notify_task_change_confined confined_steps;
      simp add: insert_task_def new_task_def update_task_row_def confined_writes)+

lemma comments_confined: "keeps (confined (ac_tenant ac)) (create_comment ac env who dto)"
  unfolding create_comment_def Let_def
  by (intro collaboration_confined confined_steps; simp add: insert_comment_def new_comment_def confined_writes)

end
