(* ===== verification/Collaboration_Life.thy ===== *)
theory Collaboration_Life
  imports Collaboration Keyed
begin

text \<open>
  Tasks and comments under every sequence of calls: a task is done exactly when it has a date of
  completion, replies stay on the target of the comment they answer, and portal users never see or
  write an internal comment.
\<close>

section \<open>The invariant\<close>

definition task_fits :: "db \<Rightarrow> task \<Rightarrow> bool" where
  "task_fits s t \<longleftrightarrow> (tk_status t = DONE \<longleftrightarrow> tk_completed_at t \<noteq> None) \<and>
     (\<forall>e. tk_engagement t = Some e \<longrightarrow> (\<exists>x\<in>set (db_engagements s). r_id x = e \<and> r_tenant x = r_tenant t))"

definition comment_fits :: "db \<Rightarrow> comment \<Rightarrow> bool" where
  "comment_fits s c \<longleftrightarrow> distinct (cm_mentions c) \<and>
     (\<forall>u\<in>set (cm_mentions c). \<exists>x\<in>set (db_users s). r_id x = u \<and> r_tenant x = r_tenant c) \<and>
     (\<forall>p. cm_parent c = Some p \<longrightarrow>
        (\<exists>x\<in>set (db_comments s). r_id x = p \<and> r_id x < r_id c \<and> r_tenant x = r_tenant c \<and>
           cm_target_type x = cm_target_type c \<and> cm_target x = cm_target c))"

definition collaboration_ok :: "db \<Rightarrow> bool" where
  "collaboration_ok s \<longleftrightarrow> distinct (map r_id (db_users s)) \<and> table_ok (task_fits s) (db_next s) (db_tasks s) \<and>
     table_ok (comment_fits s) (db_next s) (db_comments s)"

lemma collaboration_ok_cong:
  assumes "collaboration_ok s" "db_users s' = db_users s" "db_engagements s' = db_engagements s"
    "db_tasks s' = db_tasks s" "db_comments s' = db_comments s" "db_next s \<le> db_next s'"
  shows "collaboration_ok s'"
proof -
  have "task_fits s' = task_fits s" "comment_fits s' = comment_fits s"
    using assms(2,3,5) by (simp_all add: task_fits_def comment_fits_def fun_eq_iff)
  then show ?thesis using assms by (auto simp: collaboration_ok_def intro: table_ok_grow)
qed

lemma collaboration_ok_audited: "collaboration_ok s \<Longrightarrow> collaboration_ok (audited ac env ev s)"
  by (erule collaboration_ok_cong) (simp_all add: audited_def)

lemma notified_next: "db_next s \<le> db_next (notified ac env uid ni s)"
  by (simp add: notified_def split: option.splits)

lemma collaboration_ok_notified: "collaboration_ok s \<Longrightarrow> collaboration_ok (notified ac env uid ni s)"
  by (erule collaboration_ok_cong) (simp_all add: notified_next)

lemma collaboration_ok_notified_many: "collaboration_ok s \<Longrightarrow> collaboration_ok (notified_many ac env uids ni s)"
proof -
  have "collaboration_ok s \<Longrightarrow> collaboration_ok (fold (\<lambda>i. notified ac env (Some i) ni) xs s)" for xs s
    by (induction xs arbitrary: s) (simp_all add: collaboration_ok_notified)
  then show "collaboration_ok s \<Longrightarrow> ?thesis" by (simp add: notified_many_def)
qed

lemmas collaboration_ok_after = collaboration_ok_audited collaboration_ok_notified collaboration_ok_notified_many

section \<open>Tasks\<close>

lemma collaboration_ok_insert_task:
  assumes "collaboration_ok s" "r_id t = db_next s" "task_fits s t" shows "collaboration_ok (insert_task t s)"
proof -
  have "task_fits (insert_task t s) = task_fits s" "comment_fits (insert_task t s) = comment_fits s"
    by (simp_all add: task_fits_def comment_fits_def insert_task_def fun_eq_iff)
  moreover have "table_ok (task_fits s) (db_next s + 1) (insert_row t (db_tasks s))"
    using assms by (fastforce simp: collaboration_ok_def table_ok_def insert_row_def)
  moreover have "table_ok (comment_fits s) (db_next s + 1) (db_comments s)"
    using assms(1) table_ok_grow le_add1 unfolding collaboration_ok_def by blast
  ultimately show ?thesis using assms(1) by (simp add: collaboration_ok_def insert_task_def)
qed

lemma create_task_keeps:
  assumes "collaboration_ok s" shows "collaboration_ok (snd (create_task ac env dto s))"
proof -
  obtain r s' where run: "create_task ac env dto s = (r, s')" by (cases "create_task ac env dto s")
  have ins: "collaboration_ok (insert_task (new_task ac env dto s) s)"
    if "\<forall>e. ctk_engagement dto = Some e \<longrightarrow> (\<exists>x\<in>set (db_engagements s). r_id x = e \<and> r_tenant x = ac_tenant ac)"
    using that by (intro collaboration_ok_insert_task assms) (simp_all add: task_fits_def new_task_def)
  have "collaboration_ok s'"
    using run [unfolded create_task_def] check_given_reads [OF assert_access_reads(1)]
  proof (cases rule: then_check_cases)
    case (2 x)
    then have e: "\<forall>e. ctk_engagement dto = Some e \<longrightarrow> (\<exists>x\<in>set (db_engagements s). r_id x = e \<and> r_tenant x = ac_tenant ac)"
      by (auto simp: check_given_def assert_engagement_access_run mine_def split: if_splits)
    have "reads (if truthy (ctk_target_type dto) \<or> ctk_target dto \<noteq> None
        then check_target ac (ctk_target_type dto) (ctk_target dto) else return_h ())"
      by (intro reads_intros collaboration_reads)
    with 2(2) show ?thesis
    proof (cases rule: then_check_cases)
      case (2 y)
      then show ?thesis
        using ins [OF e] assms
        by (auto simp: run_h check_given_def Let_def collaboration_ok_after split: option.splits if_splits)
    qed (simp add: assms)
  qed (simp add: assms)
  then show ?thesis by (simp add: run)
qed

lemma patch_task_fits:
  assumes "task_fits s t" "\<forall>e. utk_engagement dto = Value e \<longrightarrow> (\<exists>x\<in>set (db_engagements s). r_id x = e \<and> r_tenant x = r_tenant t)"
  shows "task_fits s (patch_task now dto t)"
  using assms by (cases "utk_engagement dto") (auto simp: task_fits_def patch_task_def split: option.splits)

lemma check_task_change_engagement:
  assumes "check_task_change ac dto t s = (Inr x, s')" "utk_engagement dto = Value e"
  shows "\<exists>x\<in>set (db_engagements s). r_id x = e \<and> r_tenant x = ac_tenant ac"
  using assms
  by (auto simp: check_task_change_def check_given_def protected_given_def run_h then_h_run bind_h_def
      assert_engagement_access_run mine_def split: if_splits)

lemma find_task_row:
  "find_task ac i s = Some t \<Longrightarrow> t \<in> set (db_tasks s) \<and> mine ac t \<and> r_id t = i \<and> task_scope ac t"
  by (auto simp: find_task_def has_id_def dest: first_in_Some)

lemma update_task_keeps:
  assumes "collaboration_ok s" shows "collaboration_ok (snd (update_task ac env i dto s))"
proof -
  let ?s = "update_task_row ac i (patch_task (env_now env) dto) s"
  have upd: "collaboration_ok ?s" if t: "find_task ac i s = Some t" and c: "check_task_change ac dto t s = (Inr x, s')" for t x s'
  proof -
    note t' = find_task_row [OF t]
    have "task_fits s t" using assms t' by (simp add: collaboration_ok_def table_ok_def)
    then have "task_fits s (patch_task (env_now env) dto t)"
      using check_task_change_engagement [OF c] t' by (intro patch_task_fits) (auto simp: mine_def)
    then have "row_step ac (task_fits s) (db_next s) (db_next s) (db_tasks s)
        (update_in ac (has_id i) (patch_task (env_now env) dto) (db_tasks s))"
      using t' by (intro row_step_update [where r = t]) simp_all
    then have "table_ok (task_fits s) (db_next s) (update_in ac (has_id i) (patch_task (env_now env) dto) (db_tasks s))"
      using assms unfolding collaboration_ok_def by (blast intro: row_step_ok)
    moreover have "task_fits ?s = task_fits s" "comment_fits ?s = comment_fits s"
      by (simp_all add: task_fits_def comment_fits_def update_task_row_def fun_eq_iff)
    ultimately show ?thesis using assms by (simp add: collaboration_ok_def update_task_row_def)
  qed
  have note_ok: "collaboration_ok (snd (notify_task_change ac env dto b a t))" if "collaboration_ok t" for a b t
    using that by (simp add: notify_task_change_def run_h Let_def collaboration_ok_after)
  have same: "check_task_change ac dto t s = (q, s1) \<Longrightarrow> s1 = s" for t q s1
    using readsD [OF check_task_change_reads] .
  show ?thesis
  proof (cases "find_task ac i s")
    case (Some t)
    obtain q s1 where c: "check_task_change ac dto t s = (q, s1)" by fastforce
    show ?thesis
    proof (cases q)
      case (Inr x)
      have ok: "collaboration_ok ?s" using upd [OF Some] c Inr by blast
      have "collaboration_ok (audited ac env ev ?s)" for ev using ok by (rule collaboration_ok_audited)
      note rest = note_ok [OF this]
      show ?thesis
        using rest [where ev1 = "audit_of ''task.updated'' ''Task'' i (Task_Row t) (Task_Row (patch_task (env_now env) dto t)) []"
            and b = t and a = "patch_task (env_now env) dto t"] Some c Inr same [OF c] assms
        by (auto simp: update_task_def run_h Let_def split: sum.splits prod.splits)
    qed (use Some c same [OF c] assms in \<open>auto simp: update_task_def run_h\<close>)
  qed (simp add: update_task_def run_h assms)
qed

section \<open>Comments\<close>

lemma collaboration_ok_insert_comment:
  assumes "collaboration_ok s" "r_id c = db_next s" "comment_fits s c" shows "collaboration_ok (insert_comment c s)"
proof -
  have t: "task_fits (insert_comment c s) = task_fits s"
    by (simp add: task_fits_def insert_comment_def fun_eq_iff)
  have c: "comment_fits (insert_comment c s) x" if "comment_fits s x" for x
    using that by (auto simp: comment_fits_def insert_comment_def table_simps)
  have "table_ok (task_fits s) (db_next s + 1) (db_tasks s)"
    using assms(1) table_ok_grow le_add1 unfolding collaboration_ok_def by blast
  moreover have "table_ok (comment_fits (insert_comment c s)) (db_next s + 1) (insert_row c (db_comments s))"
    using assms c by (fastforce simp: collaboration_ok_def table_ok_def insert_row_def)
  ultimately show ?thesis using assms(1) t by (simp add: collaboration_ok_def insert_comment_def)
qed

lemma create_comment_keeps:
  assumes "collaboration_ok s" shows "collaboration_ok (snd (create_comment ac env who dto s))"
proof -
  obtain r s' where run: "create_comment ac env who dto s = (r, s')" by (cases "create_comment ac env who dto s")
  let ?m = "dedupe (coalesce (ccm_mentions dto) [])"
  have ins: "collaboration_ok (insert_comment (new_comment ac env dto s) s)"
    if m: "?m = [] \<or> count_in ac (\<lambda>u. r_id u \<in> set ?m \<and> u_deleted_at u = None) (db_users s) = length ?m"
      and p: "\<forall>p. ccm_parent dto = Some p \<longrightarrow> first_in ac (\<lambda>c. has_id p c \<and> cm_target_type c = ccm_target_type dto \<and>
        cm_target c = ccm_target dto \<and> cm_deleted_at c = None) (db_comments s) \<noteq> None"
  proof (rule collaboration_ok_insert_comment [OF assms])
    have "\<exists>x\<in>set (db_users s). r_id x = u \<and> r_tenant x = ac_tenant ac" if u: "u \<in> set ?m" for u
    proof -
      have "?m \<noteq> []" using u by (metis empty_iff list.set(1))
      then show ?thesis
        using counted_all [of "db_users s" ac "coalesce (ccm_mentions dto) []" "\<lambda>u. u_deleted_at u = None" u] m u assms
        by (auto simp: collaboration_ok_def mine_def)
    qed
    moreover have "\<exists>x\<in>set (db_comments s). r_id x = q \<and> r_id x < db_next s \<and> r_tenant x = ac_tenant ac \<and>
        cm_target_type x = ccm_target_type dto \<and> cm_target x = ccm_target dto" if q: "ccm_parent dto = Some q" for q
    proof -
      obtain x where "first_in ac (\<lambda>c. has_id q c \<and> cm_target_type c = ccm_target_type dto \<and>
          cm_target c = ccm_target dto \<and> cm_deleted_at c = None) (db_comments s) = Some x"
        using p q by fastforce
      then show ?thesis using assms
        by (auto simp: collaboration_ok_def table_ok_def has_id_def mine_def dest!: first_in_Some)
    qed
    ultimately show "comment_fits s (new_comment ac env dto s)"
      by (simp add: comment_fits_def new_comment_def)
  qed (simp add: new_comment_def)
  have "collaboration_ok s'"
    using run [unfolded create_comment_def] assert_comment_target_reads
  proof (cases rule: then_check_cases)
    case (2 x)
    then show ?thesis
      using ins assms
      by (auto simp: run_h check_given_def Let_def collaboration_ok_after split: option.splits if_splits)
  qed (simp add: assms)
  then show ?thesis by (simp add: run)
qed

section \<open>The calls\<close>

datatype collaboration_call =
    Create_Task create_task_dto
  | Update_Task uuid update_task_dto
  | Create_Comment string create_comment_dto

fun call_collaboration :: "actor \<Rightarrow> env \<Rightarrow> collaboration_call \<Rightarrow> db \<Rightarrow> db" where
  "call_collaboration ac env (Create_Task tdto) s = snd (create_task ac env tdto s)"
| "call_collaboration ac env (Update_Task i udto) s = snd (update_task ac env i udto s)"
| "call_collaboration ac env (Create_Comment who cdto) s = snd (create_comment ac env who cdto s)"

definition call_collaborations :: "(actor \<times> env \<times> collaboration_call) list \<Rightarrow> db \<Rightarrow> db" where
  "call_collaborations calls s = fold (\<lambda>(ac, env, c). call_collaboration ac env c) calls s"

lemma call_collaboration_confined: "confined (ac_tenant ac) s (call_collaboration ac env c s)"
  by (cases c) (simp_all add: kept_confined tasks_confined comments_confined)

lemma call_collaboration_keeps: "collaboration_ok s \<Longrightarrow> collaboration_ok (call_collaboration ac env c s)"
  by (cases c) (simp_all add: create_task_keeps update_task_keeps create_comment_keeps)

text \<open>
  C39. Tasks and comments stay consistent under every sequence of calls: keys are unique; a task is
  done exactly when it has a date of completion, and the engagement it names is one of its tenant;
  the users a comment mentions are users of its tenant, each named once, and the comment it answers
  is an earlier one of the same tenant on the same target.
\<close>

theorem collaboration_invariant:
  assumes "collaboration_ok s"
  shows "collaboration_ok (call_collaborations calls s)"
  using assms
proof (induction calls arbitrary: s)
  case (Cons c calls)
  obtain ac env d where c: "c = (ac, env, d)" by (cases c)
  from Cons.IH [OF call_collaboration_keeps [OF Cons.prems]] show ?case by (simp add: c call_collaborations_def)
qed (simp add: call_collaborations_def)

section \<open>Portal users\<close>

text \<open>What a portal user cannot change of a task, and whose tasks are theirs.\<close>

definition task_core :: "task \<Rightarrow> task" where
  "task_core t = t\<lparr> tk_description := None, tk_due := None, tk_priority := task_priority.MEDIUM, tk_status := TODO,
     tk_completed_at := None \<rparr>"

definition task_of_any :: "actor list \<Rightarrow> task \<Rightarrow> bool" where
  "task_of_any acs t \<longleftrightarrow> list_ex (\<lambda>ac. mine ac t \<and> (tk_assignee t = Some (ac_user ac) \<or> tk_created_by t = ac_user ac)) acs"

definition portal_kept :: "actor list \<Rightarrow> db \<Rightarrow> db \<Rightarrow> bool" where
  "portal_kept acs s s' \<longleftrightarrow> filter cm_internal (db_comments s') = filter cm_internal (db_comments s) \<and>
     (\<exists>f new. db_tasks s' = map f (db_tasks s) @ new \<and>
        (\<forall>t\<in>set (db_tasks s). task_core (f t) = task_core t \<and> (task_of_any acs t \<or> f t = t)))"

lemma task_of_any_core: "task_core t = task_core u \<Longrightarrow> task_of_any acs t = task_of_any acs u"
proof -
  assume same: "task_core t = task_core u"
  have "r_tenant (task_core t) = r_tenant (task_core u)" "tk_assignee (task_core t) = tk_assignee (task_core u)"
    "tk_created_by (task_core t) = tk_created_by (task_core u)" by (simp_all only: same)
  then have "r_tenant t = r_tenant u" "tk_assignee t = tk_assignee u" "tk_created_by t = tk_created_by u"
    by (simp_all add: task_core_def)
  then show ?thesis by (simp add: task_of_any_def mine_def)
qed

lemma portal_kept_same:
  "db_tasks s' = db_tasks s \<Longrightarrow> filter cm_internal (db_comments s') = filter cm_internal (db_comments s) \<Longrightarrow> portal_kept acs s s'"
  unfolding portal_kept_def by (intro conjI exI [of _ "\<lambda>t. t"] exI [of _ "[]"]) simp_all

interpretation portal: frame "portal_kept acs" for acs
proof
  show "portal_kept acs s u" if kept: "portal_kept acs s t" "portal_kept acs t u" for s t u
  proof -
    obtain f new where f: "db_tasks t = map f (db_tasks s) @ new"
      "\<forall>x\<in>set (db_tasks s). task_core (f x) = task_core x \<and> (task_of_any acs x \<or> f x = x)"
      using kept(1) by (auto simp: portal_kept_def)
    obtain g more where g: "db_tasks u = map g (db_tasks t) @ more"
      "\<forall>x\<in>set (db_tasks t). task_core (g x) = task_core x \<and> (task_of_any acs x \<or> g x = x)"
      using kept(2) by (auto simp: portal_kept_def)
    have "task_core (g (f x)) = task_core x \<and> (task_of_any acs x \<or> g (f x) = x)" if "x \<in> set (db_tasks s)" for x
    proof -
      have "f x \<in> set (db_tasks t)" using f(1) that by simp
      from bspec [OF g(2) this] bspec [OF f(2) that] task_of_any_core [of "f x" x acs] show ?thesis by auto
    qed
    moreover have "db_tasks u = map (\<lambda>x. g (f x)) (db_tasks s) @ map g new @ more" using f(1) g(1) by simp
    ultimately show ?thesis using kept unfolding portal_kept_def by (intro conjI exI [of _ "\<lambda>x. g (f x)"]) auto
  qed
qed (simp add: portal_kept_same)

lemma portal_notices:
  "keeps (portal_kept acs) (audit_record ac env ev)" "keeps (portal_kept acs) (notify ac env uid ni)"
  by (simp_all add: keeps_def run_h portal_kept_same)

lemma notified_many_collaboration [simp]:
  "db_tasks (notified_many ac env uids ni s) = db_tasks s" "db_comments (notified_many ac env uids ni s) = db_comments s"
proof -
  have "db_tasks (fold (\<lambda>i. notified ac env (Some i) ni) xs s) = db_tasks s \<and>
      db_comments (fold (\<lambda>i. notified ac env (Some i) ni) xs s) = db_comments s" for xs
    by (induction xs arbitrary: s) simp_all
  then show "db_tasks (notified_many ac env uids ni s) = db_tasks s"
    "db_comments (notified_many ac env uids ni s) = db_comments s" by (simp_all add: notified_many_def)
qed

lemma portal_notices_many: "keeps (portal_kept acs) (notify_many ac env uids ni)"
  by (simp add: keeps_def run_h portal_kept_same)

lemmas portal_steps = portal.keeps_intros portal.keeps_modify portal.keeps_create portal_notices portal_notices_many
  portal.keeps_reads [OF collaboration_reads] portal.keeps_reads [OF check_task_change_reads]
  portal.keeps_reads [OF check_given_reads [OF assert_access_reads(1)]] portal.keeps_reads [OF assert_comment_target_reads]

lemma portal_insert_task: "portal_kept acs s (insert_task t s)"
  unfolding portal_kept_def
  by (intro conjI exI [of _ "\<lambda>t. t"] exI [of _ "[t]"]) (simp_all add: insert_task_def insert_row_def)

lemma create_task_portal: "keeps (portal_kept acs) (create_task ac env dto)"
  unfolding create_task_def check_given_def
  by (intro portal_steps portal_insert_task portal.keeps_reads [OF assert_access_reads(1)])

lemma portal_not_audit: "is_portal_scoped ac \<Longrightarrow> \<not> is_audit_function ac"
  by (simp add: is_portal_scoped_def is_audit_function_def Let_def)

lemma create_comment_portal:
  assumes "is_portal_scoped ac" shows "keeps (portal_kept acs) (create_comment ac env who dto)"
proof -
  have "portal_kept acs s (insert_comment (new_comment ac env dto s) s)" for s
    using portal_not_audit [OF assms]
    by (intro portal_kept_same) (simp_all add: insert_comment_def insert_row_def new_comment_def comment_internal_def)
  then show ?thesis
    unfolding create_comment_def check_given_def by (intro portal_steps)
qed

lemma patch_task_core:
  assumes "\<not> protected_given dto" shows "task_core (patch_task now dto t) = task_core t"
proof -
  have "utk_engagement dto = Undefined" "utk_target_type dto = Undefined" "utk_target dto = Undefined"
    "utk_assignee dto = Undefined" "utk_title dto = None"
    using assms by (cases "utk_engagement dto"; cases "utk_target_type dto"; cases "utk_target dto"; cases "utk_assignee dto";
        simp add: protected_given_def)+
  then show ?thesis by (simp add: task_core_def patch_task_def)
qed

lemma update_task_portal:
  assumes "collaboration_ok s" "is_portal_scoped ac" "ac \<in> set acs"
  shows "portal_kept acs s (snd (update_task ac env i dto s))"
proof (cases "find_task ac i s")
  case (Some t)
  note t = find_task_row [OF Some]
  let ?s = "update_task_row ac i (patch_task (env_now env) dto) s"
  show ?thesis
  proof (cases "protected_given dto")
    case False
    have "portal_kept acs s ?s"
      unfolding portal_kept_def
    proof (intro conjI exI [of _ "\<lambda>x. if mine ac x \<and> has_id i x then patch_task (env_now env) dto x else x"] exI [of _ "[]"] ballI)
      fix x assume x: "x \<in> set (db_tasks s)"
      have "x = t" if "has_id i x"
        using that x t assms(1) by (auto simp: collaboration_ok_def table_ok_def has_id_def distinct_map inj_on_def)
      moreover have "task_of_any acs t"
        using t assms(2,3) by (auto simp: task_of_any_def list_ex_iff task_scope_def)
      ultimately show "task_of_any acs x \<or> (if mine ac x \<and> has_id i x then patch_task (env_now env) dto x else x) = x"
        by auto
    qed (simp_all add: update_task_row_def update_in_def update_rows_def patch_task_core [OF False])
    moreover have "portal_kept acs ?s (snd (then_h (audit_record ac env ev) (then_h (notify_task_change ac env dto b a) (return_h a)) ?s))"
      for ev b a
    proof -
      have "keeps (portal_kept acs) (then_h (audit_record ac env ev) (then_h (notify_task_change ac env dto b a) (return_h a)))"
        unfolding notify_task_change_def by (intro portal_steps)
      then show ?thesis by (simp add: keeps_def)
    qed
    ultimately have changed: "portal_kept acs s (snd (then_h (audit_record ac env ev)
        (then_h (notify_task_change ac env dto b a) (return_h a)) ?s))" for ev b a
      by (rule portal.trans)
    have "check_task_change ac dto t s = (Inr (), s)"
      using False assms(2) by (simp add: check_task_change_def run_h)
    then have "update_task ac env i dto s = (if may_edit_task ac t
        then then_h (audit_record ac env (audit_of ''task.updated'' ''Task'' i (Task_Row t)
               (Task_Row (patch_task (env_now env) dto t)) []))
            (then_h (notify_task_change ac env dto t (patch_task (env_now env) dto t))
              (return_h (patch_task (env_now env) dto t))) ?s
        else (Inl (Forbidden ''Only the assignee, creator or an engagement manager can edit this task''), s))"
      using Some by (simp add: update_task_def run_h Let_def)
    then show ?thesis using changed by (simp add: portal.refl)
  next
    case True
    then show ?thesis
      using Some assms(2) by (simp add: update_task_def run_h check_task_change_def portal.refl)
  qed
qed (simp add: update_task_def run_h portal.refl)

lemma call_portal:
  assumes "collaboration_ok s" "is_portal_scoped ac" "ac \<in> set acs"
  shows "portal_kept acs s (call_collaboration ac env c s)"
proof (cases c)
  case (Create_Task dto)
  then show ?thesis using create_task_portal by (simp add: keeps_def)
next
  case (Update_Task i dto)
  then show ?thesis using update_task_portal [OF assms] by simp
next
  case (Create_Comment who dto)
  then show ?thesis using create_comment_portal [OF assms(2)] by (simp add: keeps_def)
qed

text \<open>
  C40. Whatever a group of portal users does on the task board and in the comments, they write no
  internal comment and change none; of every task that was there its title, engagement, target,
  assignee and creator stay as they were, and a task that is neither assigned to one of them nor
  created by one stays as it was altogether. Nor do they read internal comments: a list they get
  holds none, and only comments on the target they asked for, in their tenant.
\<close>

theorem portal_users_confined:
  assumes "collaboration_ok s" "\<And>ac env c. (ac, env, c) \<in> set calls \<Longrightarrow> is_portal_scoped ac \<and> ac \<in> set acs"
    "\<And>t. set (order t) \<subseteq> set t"
  shows "portal_kept acs s (call_collaborations calls s) \<and>
    (is_portal_scoped me \<and> list_comments me order q ty i (call_collaborations calls s) = (Inr pg, s') \<longrightarrow>
       list_all (\<lambda>c. \<not> cm_internal c \<and> r_tenant c = ac_tenant me \<and> cm_target_type c = ty \<and> cm_target c = i) (pg_items pg))"
proof
  show "portal_kept acs s (call_collaborations calls s)"
    using assms(1,2)
  proof (induction calls arbitrary: s)
    case (Cons c calls)
    obtain ac env d where c: "c = (ac, env, d)" by (cases c)
    have "portal_kept acs s (call_collaboration ac env d s)"
      using Cons.prems c by (intro call_portal) auto
    moreover have "portal_kept acs (call_collaboration ac env d s) (call_collaborations calls (call_collaboration ac env d s))"
      using Cons.prems by (intro Cons.IH call_collaboration_keeps) auto
    ultimately show ?case by (auto simp: c call_collaborations_def intro: portal.trans)
  qed (simp add: call_collaborations_def portal.refl)
  let ?s = "call_collaborations calls s"
  show "is_portal_scoped me \<and> list_comments me order q ty i ?s = (Inr pg, s') \<longrightarrow>
       list_all (\<lambda>c. \<not> cm_internal c \<and> r_tenant c = ac_tenant me \<and> cm_target_type c = ty \<and> cm_target c = i) (pg_items pg)"
  proof
    assume l: "is_portal_scoped me \<and> list_comments me order q ty i ?s = (Inr pg, s')"
    have "pg = paginate q (order (many_in me (\<lambda>c. cm_target_type c = ty \<and> cm_target c = i \<and> cm_deleted_at c = None \<and>
          \<not> cm_internal c) (db_comments s')))"
      using l portal_not_audit [of me] by (auto simp: list_comments_def ok_h)
    then show "list_all (\<lambda>c. \<not> cm_internal c \<and> r_tenant c = ac_tenant me \<and> cm_target_type c = ty \<and> cm_target c = i) (pg_items pg)"
      by (auto simp: list_all_iff paginate_def many_in_def find_many_def mine_def Let_def
          dest!: in_set_takeD in_set_dropD subsetD [OF assms(3)])
  qed
qed

section \<open>A board\<close>

definition ex_task :: task where
  "ex_task = \<lparr> r_id = 90, r_tenant = 1, r_created = 0, tk_engagement = Some 10, tk_target_type = None, tk_target = None,
     tk_title = ''Send contracts'', tk_description = None, tk_assignee = Some 4, tk_created_by = 2, tk_due = None,
     tk_priority = task_priority.MEDIUM, tk_status = TODO, tk_completed_at = None \<rparr>"

definition ex_comment :: comment where
  "ex_comment = \<lparr> r_id = 91, r_tenant = 1, r_created = 0, cm_target_type = ''Engagement'', cm_target = 10, cm_parent = None,
     cm_author = 2, cm_body = ''Check with legal'', cm_mentions = [2], cm_internal = True, cm_deleted_at = None \<rparr>"

definition ex_board :: db where
  "ex_board = ex_db\<lparr> db_tasks := [ex_task], db_comments := [ex_comment] \<rparr>"

definition ex_done :: update_task_dto where
  "ex_done = \<lparr> utk_engagement = Undefined, utk_target_type = Undefined, utk_target = Undefined, utk_title = None,
     utk_description = None, utk_assignee = Undefined, utk_due = Undefined, utk_priority = None, utk_status = Some DONE \<rparr>"

definition ex_owner :: actor where
  "ex_owner = ex_actor 4 [BUSINESS_OWNER] []"

lemma ex_board_ok: "collaboration_ok ex_board"
  by (simp add: collaboration_ok_def table_ok_def task_fits_def comment_fits_def ex_board_def ex_task_def ex_comment_def
      ex_user_def ex_engagement_def)

lemma ex_owner_portal: "is_portal_scoped ex_owner"
  by (simp add: ex_owner_def ex_actor_def is_portal_scoped_def audit_function_roles_def Let_def)

lemma ex_done_run:
  "map tk_status (db_tasks (call_collaborations [(ex_owner, ex_env, Update_Task 90 ex_done)] ex_board)) = [DONE]"
  using ex_owner_portal
  by (simp add: call_collaborations_def update_task_def find_task_def run_h check_task_change_def Let_def
      notify_task_change_def update_task_row_def)
     (simp add: ex_board_def ex_task_def ex_owner_def ex_actor_def has_id_def task_scope_def may_edit_task_def
      protected_given_def ex_done_def run_h patch_task_def table_simps update_in_def update_rows_def mine_def
      update_task_row_def)

lemma collaboration_invariant_witness:
  "collaboration_ok (call_collaborations [(ex_owner, ex_env, Update_Task 90 ex_done)] ex_board) \<and>
   map tk_status (db_tasks (call_collaborations [(ex_owner, ex_env, Update_Task 90 ex_done)] ex_board)) = [DONE]"
  by (rule conjI [OF collaboration_invariant [OF ex_board_ok] ex_done_run])

lemma portal_users_confined_witness:
  "portal_kept [ex_owner] ex_board (call_collaborations [(ex_owner, ex_env, Update_Task 90 ex_done)] ex_board) \<and>
   map tk_status (db_tasks (call_collaborations [(ex_owner, ex_env, Update_Task 90 ex_done)] ex_board)) = [DONE]"
  using portal_users_confined [OF ex_board_ok, of "[(ex_owner, ex_env, Update_Task 90 ex_done)]" "[ex_owner]" "\<lambda>t. t"]
    ex_owner_portal ex_done_run by auto

end
