(* ===== verification/Services.thy ===== *)
theory Services
  imports Engagement_Life Finding_Life Workpaper_Life Request_Life Plan_Life Universe_Life Resource_Life Program_Life
    Reminders Risk_Life Control_Life Evidence_Life Collaboration_Life
begin

text \<open>
  The services together. A call is a request to any endpoint of the modelled services; whatever
  calls are made, by whichever users and in any order, the rows of a tenant change only through
  its own users, and the audit trail only grows.
\<close>

datatype engagement_call =
    Create_Engagement create_engagement_dto
  | Update_Engagement uuid update_engagement_dto
  | Transition_Engagement uuid transition_dto
  | Add_Member uuid add_member_dto
  | Remove_Member uuid uuid
  | Add_Stakeholder uuid create_stakeholder_dto
  | Remove_Stakeholder uuid uuid
  | Add_Milestone uuid create_milestone_dto
  | Update_Milestone uuid uuid update_milestone_dto
  | Delete_Milestone uuid uuid

fun call_engagement :: "actor \<Rightarrow> env \<Rightarrow> engagement_call \<Rightarrow> db \<Rightarrow> db" where
  "call_engagement ac env (Create_Engagement cdto) s = snd (create_engagement ac env cdto None s)"
| "call_engagement ac env (Update_Engagement i udto) s = snd (update_engagement ac env i udto s)"
| "call_engagement ac env (Transition_Engagement i tdto) s = snd (transition_engagement ac env i tdto s)"
| "call_engagement ac env (Add_Member i mdto) s = snd (add_member ac env i mdto s)"
| "call_engagement ac env (Remove_Member i u) s = snd (remove_member ac env i u s)"
| "call_engagement ac env (Add_Stakeholder i sdto) s = snd (add_stakeholder ac env i sdto s)"
| "call_engagement ac env (Remove_Stakeholder i j) s = snd (remove_stakeholder ac env i j s)"
| "call_engagement ac env (Add_Milestone i ldto) s = snd (add_milestone ac env i ldto s)"
| "call_engagement ac env (Update_Milestone i j kdto) s = snd (update_milestone ac env i j kdto s)"
| "call_engagement ac env (Delete_Milestone i j) s = snd (delete_milestone ac env i j s)"

datatype service_call =
    Engagement_Call engagement_call
  | Document_Call document_call
  | Finding_Call finding_call
  | Workpaper_Call workpaper_call
  | Request_Call request_call
  | Plan_Call plan_call
  | Universe_Call universe_call
  | Resource_Call resource_call
  | Program_Call program_call
  | Risk_Call "rat \<Rightarrow> int option" risk_call
  | Control_Call control_call
  | Evidence_Call evidence_call
  | Collaboration_Call collaboration_call
  | Create_Management create_management_dto
  | Update_Management uuid update_management_dto
  | Daily_Reminders

fun call_service :: "actor \<Rightarrow> env \<Rightarrow> service_call \<Rightarrow> db \<Rightarrow> db" where
  "call_service ac env (Engagement_Call ec) s = call_engagement ac env ec s"
| "call_service ac env (Document_Call dc) s = call_document ac env dc s"
| "call_service ac env (Finding_Call fc) s = call_finding ac env fc s"
| "call_service ac env (Workpaper_Call wc) s = call_workpaper ac env wc s"
| "call_service ac env (Request_Call rc) s = call_request ac env rc s"
| "call_service ac env (Plan_Call pc) s = call_plan ac env pc s"
| "call_service ac env (Universe_Call uc) s = call_universe ac env uc s"
| "call_service ac env (Resource_Call tc) s = call_resource ac env tc s"
| "call_service ac env (Program_Call gc) s = call_program ac env gc s"
| "call_service ac env (Risk_Call icol kc) s = call_risk icol ac env kc s"
| "call_service ac env (Control_Call nc) s = call_control ac env nc s"
| "call_service ac env (Evidence_Call vc) s = call_evidence ac env vc s"
| "call_service ac env (Collaboration_Call bc) s = call_collaboration ac env bc s"
| "call_service ac env (Create_Management cmdto) s = snd (create_management_request ac env cmdto s)"
| "call_service ac env (Update_Management i umdto) s = snd (update_management_request ac env i umdto s)"
| "call_service ac env Daily_Reminders s = snd (run_for_tenant env (ac_tenant ac) s)"

definition call_services :: "(actor \<times> env \<times> service_call) list \<Rightarrow> db \<Rightarrow> db" where
  "call_services calls s = fold (\<lambda>(ac, env, c). call_service ac env c) calls s"

lemma call_engagement_confined: "confined (ac_tenant ac) s (call_engagement ac env c s)"
  by (cases c)
     (simp_all add: kept_confined create_engagement_confined update_engagement_confined
       transition_engagement_confined member_changes_confined)

lemma call_service_confined: "confined (ac_tenant ac) s (call_service ac env c s)"
  by (cases c)
     (simp_all add: kept_confined call_engagement_confined call_document_confined call_finding_confined
       call_workpaper_confined call_request_confined call_plan_confined call_universe_confined
       call_resource_confined call_program_confined call_risk_confined call_control_confined
       call_evidence_confined call_collaboration_confined run_for_tenant_confined management_confined)

section \<open>The view of a tenant\<close>

definition rows_of :: "uuid \<Rightarrow> 'r row_scheme list \<Rightarrow> 'r row_scheme list" where
  "rows_of tn t = filter (\<lambda>r. r_tenant r = tn) t"

text \<open>The library a tenant sees: its own items and the shared ones, whose usage count is common.\<close>

definition library_view :: "uuid \<Rightarrow> library_item list \<Rightarrow> library_item list" where
  "library_view tn t = filter (\<lambda>l. li_tenant l = None \<or> li_tenant l = Some tn) (map item_core t)"

text \<open>All that is stored for a tenant, table by table.\<close>

definition tenant_view :: "uuid \<Rightarrow> db \<Rightarrow> db" where
  "tenant_view tn s =
     \<lparr> db_next = 0, db_tenants = db_tenants s, db_users = rows_of tn (db_users s),
        db_role_permissions = rows_of tn (db_role_permissions s), db_tokens = rows_of tn (db_tokens s),
        db_entities = rows_of tn (db_entities s),
        db_processes = rows_of tn (db_processes s), db_plans = rows_of tn (db_plans s),
        db_items = rows_of tn (db_items s), db_management = rows_of tn (db_management s),
        db_engagements = rows_of tn (db_engagements s), db_members = rows_of tn (db_members s),
        db_stakeholders = rows_of tn (db_stakeholders s), db_milestones = rows_of tn (db_milestones s),
        db_stages = rows_of tn (db_stages s), db_programs = rows_of tn (db_programs s),
        db_steps = rows_of tn (db_steps s), db_templates = filter (\<lambda>t. tp_tenant t = Some tn) (db_templates s),
        db_library = library_view tn (db_library s), db_workpapers = rows_of tn (db_workpapers s),
        db_versions = rows_of tn (db_versions s), db_notes = rows_of tn (db_notes s),
        db_reviews = rows_of tn (db_reviews s), db_documents = rows_of tn (db_documents s),
        db_document_versions = rows_of tn (db_document_versions s), db_evidence = rows_of tn (db_evidence s),
        db_findings = rows_of tn (db_findings s), db_recommendations = rows_of tn (db_recommendations s),
        db_changes = rows_of tn (db_changes s), db_requests = rows_of tn (db_requests s),
        db_codes = rows_of tn (db_codes s), db_timesheets = rows_of tn (db_timesheets s),
        db_entries = rows_of tn (db_entries s), db_availability = rows_of tn (db_availability s),
        db_categories = rows_of tn (db_categories s), db_models = rows_of tn (db_models s), db_risks = rows_of tn (db_risks s),
        db_assessments = rows_of tn (db_assessments s), db_controls = rows_of tn (db_controls s), db_tests = rows_of tn (db_tests s),
        db_tasks = rows_of tn (db_tasks s), db_comments = rows_of tn (db_comments s),
        db_notifications = rows_of tn (db_notifications s), db_audit = rows_of tn (db_audit s) \<rparr>"

lemma rows_of_outside: "tn \<noteq> u \<Longrightarrow> outside u t' = outside u t \<Longrightarrow> rows_of tn t' = rows_of tn t"
proof -
  assume "tn \<noteq> u" "outside u t' = outside u t"
  moreover have "rows_of tn x = filter (\<lambda>r. r_tenant r = tn) (outside u x)" for x :: "'a row_scheme list"
    using \<open>tn \<noteq> u\<close> by (auto simp: rows_of_def outside_def intro: filter_cong)
  ultimately show ?thesis by simp
qed

lemma templates_outside:
  assumes "tn \<noteq> u" "filter (\<lambda>t. tp_tenant t \<noteq> Some u) x = filter (\<lambda>t. tp_tenant t \<noteq> Some u) y"
  shows "filter (\<lambda>t. tp_tenant t = Some tn) x = filter (\<lambda>t. tp_tenant t = Some tn) y"
proof -
  have "filter (\<lambda>t. tp_tenant t = Some tn) z =
      filter (\<lambda>t. tp_tenant t = Some tn) (filter (\<lambda>t. tp_tenant t \<noteq> Some u) z)" for z
    using assms(1) by (auto intro: filter_cong)
  then show ?thesis using assms(2) by metis
qed

lemma library_outside:
  assumes "tn \<noteq> u"
    "map item_core (filter (\<lambda>l. li_tenant l \<noteq> Some u) x) = map item_core (filter (\<lambda>l. li_tenant l \<noteq> Some u) y)"
  shows "library_view tn x = library_view tn y"
proof -
  have t: "li_tenant (item_core l) = li_tenant l" for l by (simp add: item_core_def)
  have "library_view tn z = filter (\<lambda>l. li_tenant l = None \<or> li_tenant l = Some tn)
      (map item_core (filter (\<lambda>l. li_tenant l \<noteq> Some u) z))" for z
    using assms(1) by (induction z) (auto simp: library_view_def t)
  then show ?thesis using assms(2) by simp
qed

lemma tenant_view_other:
  assumes "confined u s s'" "tn \<noteq> u"
  shows "tenant_view tn s' = tenant_view tn s"
proof -
  have o: "same_outside u s s'" using assms(1) by (simp add: confined_def both_def)
  note same = o [unfolded same_outside_def]
  note rows = rows_of_outside [OF assms(2)]
  have tables:
    "db_tenants s' = db_tenants s"
    "rows_of tn (db_users s') = rows_of tn (db_users s)"
    "rows_of tn (db_role_permissions s') = rows_of tn (db_role_permissions s)"
    "rows_of tn (db_tokens s') = rows_of tn (db_tokens s)"
    "rows_of tn (db_entities s') = rows_of tn (db_entities s)"
    "rows_of tn (db_processes s') = rows_of tn (db_processes s)"
    "rows_of tn (db_plans s') = rows_of tn (db_plans s)"
    "rows_of tn (db_items s') = rows_of tn (db_items s)"
    "rows_of tn (db_management s') = rows_of tn (db_management s)"
    "rows_of tn (db_engagements s') = rows_of tn (db_engagements s)"
    "rows_of tn (db_members s') = rows_of tn (db_members s)"
    "rows_of tn (db_stakeholders s') = rows_of tn (db_stakeholders s)"
    "rows_of tn (db_milestones s') = rows_of tn (db_milestones s)"
    "rows_of tn (db_stages s') = rows_of tn (db_stages s)"
    "rows_of tn (db_programs s') = rows_of tn (db_programs s)"
    "rows_of tn (db_steps s') = rows_of tn (db_steps s)"
    "filter (\<lambda>t. tp_tenant t = Some tn) (db_templates s') = filter (\<lambda>t. tp_tenant t = Some tn) (db_templates s)"
    "library_view tn (db_library s') = library_view tn (db_library s)"
    "rows_of tn (db_workpapers s') = rows_of tn (db_workpapers s)"
    "rows_of tn (db_versions s') = rows_of tn (db_versions s)"
    "rows_of tn (db_notes s') = rows_of tn (db_notes s)"
    "rows_of tn (db_reviews s') = rows_of tn (db_reviews s)"
    "rows_of tn (db_documents s') = rows_of tn (db_documents s)"
    "rows_of tn (db_document_versions s') = rows_of tn (db_document_versions s)"
    "rows_of tn (db_evidence s') = rows_of tn (db_evidence s)"
    "rows_of tn (db_findings s') = rows_of tn (db_findings s)"
    "rows_of tn (db_recommendations s') = rows_of tn (db_recommendations s)"
    "rows_of tn (db_changes s') = rows_of tn (db_changes s)"
    "rows_of tn (db_requests s') = rows_of tn (db_requests s)"
    "rows_of tn (db_codes s') = rows_of tn (db_codes s)"
    "rows_of tn (db_timesheets s') = rows_of tn (db_timesheets s)"
    "rows_of tn (db_entries s') = rows_of tn (db_entries s)"
    "rows_of tn (db_availability s') = rows_of tn (db_availability s)"
    "rows_of tn (db_categories s') = rows_of tn (db_categories s)"
    "rows_of tn (db_models s') = rows_of tn (db_models s)"
    "rows_of tn (db_risks s') = rows_of tn (db_risks s)"
    "rows_of tn (db_assessments s') = rows_of tn (db_assessments s)"
    "rows_of tn (db_controls s') = rows_of tn (db_controls s)"
    "rows_of tn (db_tests s') = rows_of tn (db_tests s)"
    "rows_of tn (db_tasks s') = rows_of tn (db_tasks s)"
    "rows_of tn (db_comments s') = rows_of tn (db_comments s)"
    "rows_of tn (db_notifications s') = rows_of tn (db_notifications s)"
    "rows_of tn (db_audit s') = rows_of tn (db_audit s)"
    by (insert same; elim conjE; (assumption | rule rows, assumption | rule templates_outside [OF assms(2)], assumption | rule library_outside [OF assms(2)], assumption))+
  show ?thesis unfolding tenant_view_def tables ..
qed

text \<open>
  C1. Tenants are isolated. Whatever calls the users of other tenants make to the services, in any
  order and number, everything that is stored for a tenant stays as it was: its engagements,
  findings, workpapers, documents, requests, plans, notifications and its audit trail.
\<close>

theorem tenants_isolated:
  assumes "list_all (\<lambda>(ac, _, _). ac_tenant ac \<noteq> tn) calls"
  shows "tenant_view tn (call_services calls s) = tenant_view tn s"
  using assms
proof (induction calls arbitrary: s)
  case (Cons c calls)
  obtain ac env d where c: "c = (ac, env, d)" by (cases c)
  have "tenant_view tn (call_service ac env d s) = tenant_view tn s"
    using Cons.prems by (intro tenant_view_other [OF call_service_confined]) (simp add: c)
  with Cons show ?case by (simp add: c call_services_def)
qed (simp add: call_services_def)

text \<open>
  C2. The audit trail is append-only: whatever calls are made, by whichever users, the events
  recorded before are still there, unchanged and in their order, in front of the new ones.
\<close>

theorem audit_trail_append_only: "\<exists>new. db_audit (call_services calls s) = db_audit s @ new"
proof (induction calls arbitrary: s)
  case (Cons c calls)
  obtain ac env d where c: "c = (ac, env, d)" by (cases c)
  have "audit_grows s (call_service ac env d s)"
    using call_service_confined [of ac s env d] by (simp add: confined_def both_def)
  then obtain new where "db_audit (call_service ac env d s) = db_audit s @ new" by (auto simp: audit_grows_def)
  with Cons [of "call_service ac env d s"] show ?case by (auto simp: c call_services_def)
qed (simp add: call_services_def)

definition ex_stranger :: actor where
  "ex_stranger = ex_manager\<lparr> ac_tenant := 2 \<rparr>"

lemma tenants_isolated_witness:
  "tenant_view 1 (call_services [(ex_stranger, ex_env, Plan_Call (Create_Plan ex_plan_dto)),
     (ex_stranger, ex_env, Plan_Call (Transition_Plan 60 \<lparr> td_action = ''approve'', td_comment = None \<rparr>))] ex_db) =
   tenant_view 1 ex_db"
  by (rule tenants_isolated) (simp add: ex_stranger_def)

end
