(* ===== verification/Secrets.thy ===== *)
theory Secrets
  imports Prelude "HOL-Library.Multiset"
begin

text \<open>
  The generated secrets (\<open>common/crypto.ts\<close>) and the password rules (\<open>auth/password.ts\<close>). The bytes
  that \<open>randomBytes\<close> returns are arguments, so that what is proved holds for all of them. The ciphers
  and digests of \<open>node:crypto\<close> are library calls; they are parameters of the account model.
\<close>

section \<open>Generators\<close>

definition code_alphabet :: string where
  "code_alphabet = ''ABCDEFGHJKLMNPQRSTUVWXYZ23456789''"

text \<open>One character per byte, with a dash after the fourth.\<close>

definition random_recovery_code :: "nat list \<Rightarrow> string" where
  "random_recovery_code bytes =
     concat (map (\<lambda>i. [code_alphabet ! (bytes ! i mod length code_alphabet)] @ (if i = 3 then ''-'' else [])) [0..<8])"

definition upper_set :: string where "upper_set = ''ABCDEFGHJKLMNPQRSTUVWXYZ''"
definition lower_set :: string where "lower_set = ''abcdefghjkmnpqrstuvwxyz''"
definition digit_set :: string where "digit_set = ''23456789''"
definition symbol_set :: string where "symbol_set = ''!@#$%&*''"

definition pick :: "string \<Rightarrow> nat \<Rightarrow> char" where
  "pick chars byte = chars ! (byte mod length chars)"

definition swap_at :: "nat \<Rightarrow> nat \<Rightarrow> 'a list \<Rightarrow> 'a list" where
  "swap_at i j xs = xs[i := xs ! j, j := xs ! i]"

text \<open>The Fisher-Yates loop, from the last index down to 1; \<open>byte\<close> yields the byte drawn for an index.\<close>

fun shuffle_down :: "(nat \<Rightarrow> nat) \<Rightarrow> nat \<Rightarrow> 'a list \<Rightarrow> 'a list" where
  "shuffle_down byte 0 xs = xs"
| "shuffle_down byte (Suc i) xs = shuffle_down byte i (swap_at (Suc i) (byte (Suc i) mod (Suc i + 1)) xs)"

text \<open>\<open>drawn\<close> are the bytes of the fourteen picks, \<open>byte\<close> those of the shuffle.\<close>

definition random_password :: "nat list \<Rightarrow> (nat \<Rightarrow> nat) \<Rightarrow> string" where
  "random_password drawn byte =
     (let everything = upper_set @ lower_set @ digit_set @ symbol_set;
          chars = [pick upper_set (drawn ! 0), pick lower_set (drawn ! 1), pick digit_set (drawn ! 2),
                   pick symbol_set (drawn ! 3)] @ map (\<lambda>k. pick everything (drawn ! k)) [4..<14]
      in shuffle_down byte 13 chars)"

text \<open>Equality of two buffers of the same length.\<close>

definition safe_equal :: "string \<Rightarrow> string \<Rightarrow> bool" where
  "safe_equal a b \<longleftrightarrow> length a = length b \<and> a = b"

section \<open>Password rules\<close>

definition is_lower_az :: "char \<Rightarrow> bool" where
  "is_lower_az c = (97 \<le> (of_char c :: nat) \<and> (of_char c :: nat) \<le> 122)"

definition is_upper_az :: "char \<Rightarrow> bool" where
  "is_upper_az c = (65 \<le> (of_char c :: nat) \<and> (of_char c :: nat) \<le> 90)"

text \<open>
  The pattern \<open>^(?=.*[a-z])(?=.*[A-Z])(?=.*\d).+$\<close>: the dot does not match a line terminator, and
  without the multi-line flag the anchors are those of the whole string.
\<close>

definition line_end :: "char \<Rightarrow> bool" where
  "line_end c = ((of_char c :: nat) \<in> {10, 13})"

definition password_rules :: "string \<Rightarrow> bool" where
  "password_rules p \<longleftrightarrow> 12 \<le> length p \<and> length p \<le> 128 \<and>
     list_ex is_lower_az p \<and> list_ex is_upper_az p \<and> list_ex is_digit p \<and> \<not> list_ex line_end p"

section \<open>Codes typed by a user\<close>

text \<open>
  \<open>code.replace(/\s+/g, '').toUpperCase()\<close>. The upper case of the sharp s is two letters; the micro
  sign and the y with diaeresis, whose upper case is outside the modelled code points, are kept.
\<close>

definition upper_chars :: "char \<Rightarrow> string" where
  "upper_chars c =
     (let n = of_char c :: nat
      in if n = 223 then ''SS''
         else if (97 \<le> n \<and> n \<le> 122) \<or> (224 \<le> n \<and> n \<le> 254 \<and> n \<noteq> 247) then [char_of (n - 32)] else [c])"

definition normalize_code :: "string \<Rightarrow> string" where
  "normalize_code code = concat (map upper_chars (filter (\<lambda>c. \<not> is_space c) code))"

definition six_digits :: "string \<Rightarrow> bool" where
  "six_digits code \<longleftrightarrow> length code = 6 \<and> list_all is_digit code"

section \<open>Properties\<close>

lemma mset_swap_at: "i < length xs \<Longrightarrow> j < length xs \<Longrightarrow> mset (swap_at i j xs) = mset xs"
  unfolding swap_at_def by (rule mset_swap)

lemma length_swap_at [simp]: "length (swap_at i j xs) = length xs"
  by (simp add: swap_at_def)

lemma mset_shuffle_down: "n < length xs \<Longrightarrow> mset (shuffle_down byte n xs) = mset xs"
proof (induction n arbitrary: xs)
  case (Suc n)
  have "byte (Suc n) mod (Suc n + 1) < Suc (Suc n)" by simp
  then have "byte (Suc n) mod (Suc n + 1) < length xs" using Suc.prems by linarith
  then show ?case using Suc by (simp add: mset_swap_at del: add_2_eq_Suc')
qed simp

lemma pick_in: "chars \<noteq> [] \<Longrightarrow> pick chars byte \<in> set chars"
  unfolding pick_def by (intro nth_mem) simp

lemma character_sets:
  "list_all is_upper_az upper_set" "list_all is_lower_az lower_set" "list_all is_digit digit_set"
  "list_all (\<lambda>c. \<not> line_end c) (upper_set @ lower_set @ digit_set @ symbol_set)"
  by (simp_all add: upper_set_def lower_set_def digit_set_def symbol_set_def is_upper_az_def is_lower_az_def
      is_digit_def line_end_def of_char_def)

text \<open>
  C28. A generated temporary password satisfies the rules the service enforces on chosen passwords,
  whatever bytes the generator draws, and it has fourteen characters.
\<close>

theorem temporary_password_meets_rules:
  "password_rules (random_password drawn byte) \<and> length (random_password drawn byte) = 14"
proof -
  let ?all = "upper_set @ lower_set @ digit_set @ symbol_set"
  let ?chars = "[pick upper_set (drawn ! 0), pick lower_set (drawn ! 1), pick digit_set (drawn ! 2),
    pick symbol_set (drawn ! 3)] @ map (\<lambda>k. pick ?all (drawn ! k)) [4..<14]"
  have ne: "upper_set \<noteq> []" "lower_set \<noteq> []" "digit_set \<noteq> []" "symbol_set \<noteq> []"
    by (simp_all add: upper_set_def lower_set_def digit_set_def symbol_set_def)
  have m: "mset (random_password drawn byte) = mset ?chars"
    unfolding random_password_def Let_def by (rule mset_shuffle_down) simp
  then have s: "set (random_password drawn byte) = set ?chars" by (rule mset_eq_setD)
  have l: "length (random_password drawn byte) = length ?chars" using m by (rule mset_eq_length)
  have "set ?chars \<subseteq> set ?all"
    using pick_in [OF ne(1)] pick_in [OF ne(2)] pick_in [OF ne(3)] pick_in [OF ne(4)] pick_in [of ?all] ne(1) by auto
  then have "\<not> list_ex line_end (random_password drawn byte)"
    using character_sets(4) s by (auto simp: list_ex_iff list_all_iff)
  moreover have "list_ex is_lower_az (random_password drawn byte)"
    using pick_in [OF ne(2), of "drawn ! 1"] character_sets(2) s by (auto simp: list_ex_iff list_all_iff)
  moreover have "list_ex is_upper_az (random_password drawn byte)"
    using pick_in [OF ne(1), of "drawn ! 0"] character_sets(1) s by (auto simp: list_ex_iff list_all_iff)
  moreover have "list_ex is_digit (random_password drawn byte)"
    using pick_in [OF ne(3), of "drawn ! 2"] character_sets(3) s by (auto simp: list_ex_iff list_all_iff)
  ultimately show ?thesis using l by (simp add: password_rules_def)
qed

text \<open>The normalisation of typed codes leaves a recovery code as it is, and none looks like a one-time code.\<close>

lemma code_alphabet_upper: "list_all (\<lambda>c. \<not> is_space c \<and> upper_chars c = [c]) (CHR ''-'' # code_alphabet)"
  by (simp add: code_alphabet_def is_space_def upper_chars_def Let_def of_char_def)

lemma normalize_recovery_code: "normalize_code (random_recovery_code bytes) = random_recovery_code bytes"
proof -
  have keep: "normalize_code s = s" if "set s \<subseteq> set (CHR ''-'' # code_alphabet)" for s
    using that code_alphabet_upper by (induction s) (auto simp: normalize_code_def list_all_iff)
  have "code_alphabet ! (n mod length code_alphabet) \<in> set code_alphabet" for n
    by (intro nth_mem mod_less_divisor) (simp add: code_alphabet_def)
  then have "set (random_recovery_code bytes) \<subseteq> set (CHR ''-'' # code_alphabet)"
    by (auto simp: random_recovery_code_def)
  then show ?thesis by (rule keep)
qed

lemma recovery_code_not_totp: "\<not> six_digits (random_recovery_code bytes)"
proof -
  have "length (random_recovery_code bytes) = 9"
    by (simp add: random_recovery_code_def upt_rec)
  then show ?thesis by (simp add: six_digits_def)
qed

end
