(* ===== verification/Accounts.thy ===== *)
theory Accounts
  imports Store Secrets
begin

text \<open>
  Who is calling: \<open>auth/user-access.service.ts\<close> (the effective user and its cache),
  \<open>auth/token.service.ts\<close>, \<open>auth/cookies.ts\<close> and the two guards in front of every endpoint
  (\<open>auth/guards\<close>). The hash, cipher, one-time-code and token libraries are the fields of
  \<open>auth_library\<close>; a \<open>jwt\<close> library function takes the clock, as tokens expire. The state is the
  database with the cache of the process.
\<close>

section \<open>Library and configuration\<close>

record jwt_claims =
  jc_sub :: uuid
  jc_tenant :: uuid
  jc_email :: "string option"
  jc_roles :: "role_key list"
  jc_purpose :: "string option"

text \<open>
  \<open>verify\<close> of argon2 (hash, then password; \<open>None\<close> is an exception), \<open>sha256\<close>, the cipher with the
  configured key (\<open>None\<close>: the payload does not decrypt), \<open>authenticator.check\<close> of a code against a
  secret at a time, \<open>keyuri\<close>, and \<open>jwt.sign\<close> and \<open>jwt.verify\<close> with an audience and, for signing, a
  life time in seconds.
\<close>

record auth_library =
  lb_argon_verify :: "string \<Rightarrow> string \<Rightarrow> bool option"
  lb_sha256 :: "string \<Rightarrow> string"
  lb_decrypt :: "string \<Rightarrow> string option"
  lb_totp :: "string \<Rightarrow> string \<Rightarrow> time \<Rightarrow> bool"
  lb_keyuri :: "string \<Rightarrow> string \<Rightarrow> string"
  lb_jwt_sign :: "jwt_claims \<Rightarrow> string option \<Rightarrow> int \<Rightarrow> time \<Rightarrow> string"
  lb_jwt_verify :: "string \<Rightarrow> string option \<Rightarrow> time \<Rightarrow> jwt_claims option"

datatype mfa_enforcement = Mfa_Off | Mfa_Audit | Mfa_All

record auth_config =
  cf_access_ttl :: int
  cf_refresh_ttl :: int
  cf_mfa :: mfa_enforcement

text \<open>\<open>verifyPassword\<close>: no hash, or an exception, is a mismatch.\<close>

definition verify_password :: "auth_library \<Rightarrow> string option \<Rightarrow> string \<Rightarrow> bool" where
  "verify_password lib hashed password = (case hashed of None \<Rightarrow> False
     | Some h \<Rightarrow> h \<noteq> [] \<and> (case lb_argon_verify lib h password of None \<Rightarrow> False | Some ok \<Rightarrow> ok))"

section \<open>The effective user\<close>

record auth_user =
  au_id :: uuid
  au_tenant_id :: uuid
  au_email :: string
  au_display_name :: string
  au_first_name :: "string option"
  au_last_name :: "string option"
  au_job_title :: "string option"
  au_avatar :: "string option"
  au_status :: user_status
  au_provider :: auth_provider
  au_mfa_enabled :: bool
  au_must_change :: bool
  au_mfa_required :: bool
  au_roles :: "role_key list"
  au_permissions :: "permission_key list"
  au_tenant :: "tenant option"

text \<open>
  The tenant is joined by its key; \<open>None\<close> does not occur under the foreign key. The permissions of
  a user are those of the role matrix with those an administrator stored for the roles.
\<close>

definition tenant_row :: "uuid \<Rightarrow> db \<Rightarrow> tenant option" where
  "tenant_row i s = find_first (\<lambda>t. t_id t = i) (db_tenants s)"

definition tenant_active :: "tenant option \<Rightarrow> bool" where
  "tenant_active t = (case t of None \<Rightarrow> False | Some r \<Rightarrow> t_active r)"

definition stored_permissions :: "uuid \<Rightarrow> role_key \<Rightarrow> db \<Rightarrow> permission_key list" where
  "stored_permissions tn r s = map rp_key (filter (\<lambda>p. r_tenant p = tn \<and> rp_role p = r) (db_role_permissions s))"

definition build_auth_user :: "mfa_enforcement \<Rightarrow> user \<Rightarrow> db \<Rightarrow> auth_user" where
  "build_auth_user enforcement u s =
     (let roles = dedupe (u_roles u);
          granted = concat (map role_permissions roles) @
                    concat (map (\<lambda>r. stored_permissions (r_tenant u) r s) (u_roles u));
          audit = list_ex (\<lambda>r. r \<in> set audit_function_roles) roles
      in \<lparr> au_id = r_id u, au_tenant_id = r_tenant u, au_email = u_email u, au_display_name = u_display_name u,
           au_first_name = u_first_name u, au_last_name = u_last_name u, au_job_title = u_job_title u,
           au_avatar = u_avatar u, au_status = u_status u, au_provider = u_provider u,
           au_mfa_enabled = u_mfa_enabled u, au_must_change = u_must_change_password u,
           au_mfa_required = (u_provider u = LOCAL \<and> \<not> u_mfa_enabled u \<and>
             (enforcement = Mfa_All \<or> enforcement = Mfa_Audit \<and> audit)),
           au_roles = roles, au_permissions = sort (dedupe granted), au_tenant = tenant_row (r_tenant u) s \<rparr>)"

text \<open>The cache of a process: the user with the time it expires.\<close>

record auth_state =
  ss_db :: db
  ss_cache :: "uuid \<Rightarrow> (time \<times> auth_user) option"

type_synonym 'a auth_op = "(auth_state, 'a) handler"

definition on_db :: "'a op \<Rightarrow> 'a auth_op" where
  "on_db m = (\<lambda>S. case m (ss_db S) of (r, s) \<Rightarrow> (r, S\<lparr> ss_db := s \<rparr>))"

definition cache_ttl :: int where
  "cache_ttl = 60000"

definition find_user :: "uuid \<Rightarrow> db \<Rightarrow> user option" where
  "find_user i s = find_first (\<lambda>u. has_id i u \<and> u_deleted_at u = None) (db_users s)"

definition cached_user :: "env \<Rightarrow> uuid \<Rightarrow> auth_state \<Rightarrow> auth_user option" where
  "cached_user env i S = (case ss_cache S i of None \<Rightarrow> None
     | Some (expires, v) \<Rightarrow> if env_now env < expires then Some v else None)"

definition load_fresh :: "auth_config \<Rightarrow> env \<Rightarrow> uuid \<Rightarrow> auth_user option auth_op" where
  "load_fresh cf env i = (\<lambda>S. case find_user i (ss_db S) of
       None \<Rightarrow> (Inr None, S\<lparr> ss_cache := (ss_cache S)(i := None) \<rparr>)
     | Some u \<Rightarrow> let v = build_auth_user (cf_mfa cf) u (ss_db S)
                 in (Inr (Some v), S\<lparr> ss_cache := (ss_cache S)(i \<mapsto> (env_now env + cache_ttl, v)) \<rparr>))"

definition load_user :: "auth_config \<Rightarrow> env \<Rightarrow> uuid \<Rightarrow> auth_user option auth_op" where
  "load_user cf env i = (\<lambda>S. case cached_user env i S of
       Some v \<Rightarrow> (Inr (Some v), S)
     | None \<Rightarrow> load_fresh cf env i S)"

definition invalidate :: "uuid \<Rightarrow> unit auth_op" where
  "invalidate i = modify_h (\<lambda>S. S\<lparr> ss_cache := (ss_cache S)(i := None) \<rparr>)"

section \<open>Tokens\<close>

definition api_audience :: string where
  "api_audience = ''auditsphere-api''"

definition access_claims :: "auth_user \<Rightarrow> jwt_claims" where
  "access_claims u = \<lparr> jc_sub = au_id u, jc_tenant = au_tenant_id u, jc_email = Some (au_email u),
     jc_roles = au_roles u, jc_purpose = None \<rparr>"

definition sign_access :: "auth_library \<Rightarrow> auth_config \<Rightarrow> env \<Rightarrow> jwt_claims \<Rightarrow> string" where
  "sign_access lib cf env claims = lb_jwt_sign lib claims (Some api_audience) (cf_access_ttl cf div 1000) (env_now env)"

definition verify_access :: "auth_library \<Rightarrow> env \<Rightarrow> string \<Rightarrow> jwt_claims option" where
  "verify_access lib env token = (case lb_jwt_verify lib token (Some api_audience) (env_now env) of
       None \<Rightarrow> None
     | Some c \<Rightarrow> if truthy (jc_purpose c) then None else Some c)"

definition sign_mfa :: "auth_library \<Rightarrow> env \<Rightarrow> uuid \<Rightarrow> uuid \<Rightarrow> string" where
  "sign_mfa lib env sub tid = lb_jwt_sign lib
     \<lparr> jc_sub = sub, jc_tenant = tid, jc_email = None, jc_roles = [], jc_purpose = Some ''mfa'' \<rparr> None (5 * 60) (env_now env)"

definition verify_mfa_token :: "auth_library \<Rightarrow> env \<Rightarrow> string \<Rightarrow> jwt_claims result" where
  "verify_mfa_token lib env token = (case lb_jwt_verify lib token None (env_now env) of
       None \<Rightarrow> Inl (Unauthorized ''MFA challenge expired, sign in again'')
     | Some c \<Rightarrow> if jc_purpose c \<noteq> Some ''mfa'' then Inl (Unauthorized ''Invalid MFA token'') else Inr c)"

section \<open>Guards\<close>

record http_request =
  hr_access_cookie :: "string option"
  hr_authorization :: "string option"

text \<open>\<open>readCookie\<close>, and the pattern \<open>^bearer\s+\<close> of either case, with what follows it.\<close>

definition read_cookie :: "string option \<Rightarrow> string option" where
  "read_cookie c = (case c of None \<Rightarrow> None | Some v \<Rightarrow> if v = [] then None else Some v)"

definition strip_bearer :: "string \<Rightarrow> string option" where
  "strip_bearer h =
     (let rest = drop 6 h
      in if to_lower (take 6 h) = ''bearer'' \<and> rest \<noteq> [] \<and> is_space (hd rest)
         then Some (trim (dropWhile is_space rest)) else None)"

definition extract_access_token :: "http_request \<Rightarrow> string option" where
  "extract_access_token req = (case read_cookie (hr_access_cookie req) of
       Some v \<Rightarrow> Some v
     | None \<Rightarrow> Option.bind (hr_authorization req) strip_bearer)"

text \<open>The decorators of an endpoint.\<close>

record endpoint =
  ep_public :: bool
  ep_during_password_change :: bool
  ep_during_mfa_enrolment :: bool
  ep_required :: "permission_key list"

definition bind_input :: "auth_user \<Rightarrow> bind_user_input" where
  "bind_input u = \<lparr> bu_id = au_id u, bu_tenant = au_tenant_id u, bu_email = au_email u, bu_roles = au_roles u,
     bu_permissions = au_permissions u \<rparr>"

text \<open>
  \<open>canActivate\<close> of the JWT guard: the user it attaches to the request, if any, and the context it
  leaves. A failure on a public endpoint lets the request through without a user.
\<close>

definition session_valid :: "jwt_claims \<Rightarrow> auth_user option \<Rightarrow> auth_user option" where
  "session_valid claims user = (case user of None \<Rightarrow> None
     | Some u \<Rightarrow> if au_status u = user_status.ACTIVE \<and> tenant_active (au_tenant u) \<and> au_tenant_id u = jc_tenant claims
                 then Some u else None)"

definition refuse_unless_public :: "endpoint \<Rightarrow> request_context \<Rightarrow> string \<Rightarrow> (auth_user option \<times> request_context) auth_op" where
  "refuse_unless_public ep cx message =
     (if ep_public ep then return_h (None, cx) else throw_h (Unauthorized message))"

definition jwt_guard ::
  "auth_library \<Rightarrow> auth_config \<Rightarrow> env \<Rightarrow> endpoint \<Rightarrow> http_request \<Rightarrow> request_context \<Rightarrow>
   (auth_user option \<times> request_context) auth_op" where
  "jwt_guard lib cf env ep req cx =
     (case extract_access_token req of
        None \<Rightarrow> refuse_unless_public ep cx ''Authentication required''
      | Some token \<Rightarrow>
          if token = [] then refuse_unless_public ep cx ''Authentication required''
          else (case verify_access lib env token of
             None \<Rightarrow> refuse_unless_public ep cx ''Session is invalid or has expired''
           | Some claims \<Rightarrow>
               bind_h (load_user cf env (jc_sub claims)) (\<lambda>loaded. case session_valid claims loaded of
                  None \<Rightarrow> refuse_unless_public ep cx ''Session is no longer valid''
                | Some u \<Rightarrow>
                    then_h (check_h (ep_public ep \<or> \<not> au_must_change u \<or> ep_during_password_change ep)
                       (Forbidden ''You must replace the temporary password before continuing''))
                   (then_h (check_h (ep_public ep \<or> \<not> au_mfa_required u \<or> ep_during_mfa_enrolment ep)
                       (Forbidden ''You must enrol two-step verification before continuing''))
                    (return_h (Some u, the (bind_user (bind_input u) (Some cx))))))))"

fun join_or :: "string list \<Rightarrow> string" where
  "join_or [] = []"
| "join_or [x] = x"
| "join_or (x # xs) = x @ '' or '' @ join_or xs"

definition permissions_guard :: "permission_key list \<Rightarrow> auth_user option \<Rightarrow> unit result" where
  "permissions_guard required user =
     (if required = [] then Inr ()
      else (case user of
         None \<Rightarrow> Inl (Unauthorized ''Authentication required'')
       | Some u \<Rightarrow> if list_ex (\<lambda>k. k \<in> set (au_permissions u)) required then Inr ()
                   else Inl (Forbidden (''Missing permission: '' @ join_or required))))"

text \<open>Both guards, in the order the application installs them, in front of an endpoint.\<close>

definition guarded :: "auth_library \<Rightarrow> auth_config \<Rightarrow> env \<Rightarrow> endpoint \<Rightarrow> http_request \<Rightarrow> request_context \<Rightarrow>
   (auth_user option \<times> request_context) auth_op" where
  "guarded lib cf env ep req cx = bind_h (jwt_guard lib cf env ep req cx) (\<lambda>(user, cx').
     then_h (lift_h (permissions_guard (ep_required ep) user)) (return_h (user, cx')))"

end
