(* ===== verification/Sessions.thy ===== *)
theory Sessions
  imports Accounts
begin

text \<open>
  \<open>auth/auth.service.ts\<close>: login with its lockout, the second factor, sessions with rotating refresh
  tokens, and the password change. What a request draws at random (tokens, secrets, salts, the
  initialisation vector of the cipher) is its \<open>auth_random\<close>. A new family of refresh tokens, a
  generated UUID in the source, is named by the number of its first token.
\<close>

section \<open>Constants and inputs\<close>

definition max_failed_logins :: nat where
  "max_failed_logins = 5"

definition lockout_minutes :: int where
  "lockout_minutes = 15"

definition recovery_code_count :: nat where
  "recovery_code_count = 8"

definition generic_login_error :: string where
  "generic_login_error = ''Invalid email or password''"

record auth_random =
  ar_token :: string
  ar_secret :: string
  ar_bytes :: "nat \<Rightarrow> nat list"
  ar_drawn :: "nat list"
  ar_shuffle :: "nat \<Rightarrow> nat"
  ar_hash :: "nat \<Rightarrow> string \<Rightarrow> string"
  ar_encrypt :: "string \<Rightarrow> string"

record request_meta =
  rm_ip :: "string option"
  rm_agent :: "string option"

record login_dto =
  li_email :: string
  li_password :: string
  li_slug :: "string option"

record issued_tokens =
  it_access :: string
  it_refresh :: string

datatype login_result =
    Login_Session auth_user issued_tokens
  | Login_Mfa string

fun user_status_name :: "user_status \<Rightarrow> string" where
  "user_status_name user_status.INVITED = ''INVITED''"
| "user_status_name user_status.ACTIVE = ''ACTIVE''"
| "user_status_name user_status.SUSPENDED = ''SUSPENDED''"
| "user_status_name user_status.DEACTIVATED = ''DEACTIVATED''"

text \<open>
  An event recorded before authentication names its tenant and user; address, agent and request id
  are those of the context.
\<close>

definition subject :: "request_context \<Rightarrow> uuid \<Rightarrow> uuid \<Rightarrow> string option \<Rightarrow> actor" where
  "subject cx tn u email =
     \<lparr> ac_tenant = tn, ac_user = u, ac_email = email, ac_roles = [], ac_permissions = [],
       ac_ip = cx_ip cx, ac_agent = cx_agent cx, ac_request = Some (cx_request cx) \<rparr>"

definition user_event :: "request_context \<Rightarrow> env \<Rightarrow> user \<Rightarrow> string \<Rightarrow> (string \<times> json) list \<Rightarrow> unit auth_op" where
  "user_event cx env u action metadata =
     on_db (audit_record (subject cx (r_tenant u) (r_id u) (Some (u_email u))) env
       (audit_of action ''User'' (r_id u) No_Snapshot No_Snapshot metadata))"

text \<open>An event of the signed-in user about an account.\<close>

definition account_event :: "actor \<Rightarrow> env \<Rightarrow> string \<Rightarrow> uuid \<Rightarrow> unit auth_op" where
  "account_event ac env action i =
     on_db (audit_record ac env (audit_of action ''User'' i No_Snapshot No_Snapshot []))"

text \<open>\<open>user.update\<close> by primary key.\<close>

definition set_user :: "uuid \<Rightarrow> (user \<Rightarrow> user) \<Rightarrow> db \<Rightarrow> db" where
  "set_user i g s = s\<lparr> db_users := update_rows (has_id i) g (db_users s) \<rparr>"

definition write_user :: "uuid \<Rightarrow> (user \<Rightarrow> user) \<Rightarrow> unit auth_op" where
  "write_user i g = on_db (modify_h (set_user i g))"

section \<open>Sessions\<close>

definition find_token :: "string \<Rightarrow> db \<Rightarrow> refresh_token option" where
  "find_token h s = find_first (\<lambda>t. rt_hash t = h) (db_tokens s)"

text \<open>The constraint \<open>tokenHash @unique\<close>.\<close>

definition token_hash_unique :: "string \<Rightarrow> unit op" where
  "token_hash_unique h = check_state_h (\<lambda>s. find_token h s = None) UniqueViolation"

definition insert_token :: "refresh_token \<Rightarrow> db \<Rightarrow> db" where
  "insert_token t s = s\<lparr> db_tokens := insert_row t (db_tokens s), db_next := db_next s + 1 \<rparr>"

definition create_token :: "env \<Rightarrow> uuid \<Rightarrow> uuid \<Rightarrow> string \<Rightarrow> uuid option \<Rightarrow> string option \<Rightarrow> string option \<Rightarrow> time \<Rightarrow> refresh_token auth_op" where
  "create_token env tn u h family agent ip expires =
     on_db (then_h (token_hash_unique h) (create_h (\<lambda>s.
       \<lparr> r_id = db_next s, r_tenant = tn, r_created = env_now env, rt_user = u, rt_hash = h,
         rt_family = coalesce family (db_next s), rt_agent = agent, rt_ip = ip, rt_expires = expires,
         rt_revoked = None, rt_replaced_by = None \<rparr>) insert_token))"

definition issue_session ::
  "auth_library \<Rightarrow> auth_config \<Rightarrow> env \<Rightarrow> request_context \<Rightarrow> auth_random \<Rightarrow> uuid \<Rightarrow> request_meta \<Rightarrow> string \<Rightarrow>
   (auth_user \<times> issued_tokens) auth_op" where
  "issue_session lib cf env cx rnd i meta method =
     bind_h (load_fresh cf env i) (\<lambda>loaded. case loaded of
        None \<Rightarrow> throw_h (Unauthorized ''User not found'')
      | Some u \<Rightarrow>
          then_h (create_token env (au_tenant_id u) (au_id u) (lb_sha256 lib (ar_token rnd)) None
                    (rm_agent meta) (rm_ip meta) (env_now env + cf_refresh_ttl cf))
         (then_h (on_db (audit_record (subject cx (au_tenant_id u) (au_id u) (Some (au_email u))) env
                    (audit_of ''auth.login'' ''User'' (au_id u) No_Snapshot No_Snapshot [(''method'', JStr method)])))
          (return_h (u, \<lparr> it_access = sign_access lib cf env (access_claims u), it_refresh = ar_token rnd \<rparr>))))"

text \<open>\<open>updateMany\<close> on the tokens that are not revoked yet.\<close>

definition revoke_tokens :: "env \<Rightarrow> (refresh_token \<Rightarrow> bool) \<Rightarrow> db \<Rightarrow> db" where
  "revoke_tokens env P s =
     s\<lparr> db_tokens := update_rows (\<lambda>t. P t \<and> rt_revoked t = None) (\<lambda>t. t\<lparr> rt_revoked := Some (env_now env) \<rparr>) (db_tokens s) \<rparr>"

definition revoke_where :: "env \<Rightarrow> (refresh_token \<Rightarrow> bool) \<Rightarrow> unit auth_op" where
  "revoke_where env P = on_db (modify_h (revoke_tokens env P))"

definition replace_token :: "env \<Rightarrow> uuid \<Rightarrow> uuid \<Rightarrow> db \<Rightarrow> db" where
  "replace_token env i next s = s\<lparr> db_tokens := update_rows (has_id i)
     (\<lambda>t. t\<lparr> rt_revoked := Some (env_now env), rt_replaced_by := Some next \<rparr>) (db_tokens s) \<rparr>"

text \<open>The writes of a refresh, after its checks have read the token and the user.\<close>

definition rotate_token ::
  "auth_library \<Rightarrow> auth_config \<Rightarrow> env \<Rightarrow> request_context \<Rightarrow> auth_random \<Rightarrow> request_meta \<Rightarrow> refresh_token \<Rightarrow> auth_user \<Rightarrow>
   (auth_user \<times> issued_tokens) auth_op" where
  "rotate_token lib cf env cx rnd meta existing u =
     bind_h (create_token env (r_tenant existing) (rt_user existing) (lb_sha256 lib (ar_token rnd)) (Some (rt_family existing))
               (coalesce_opt (rm_agent meta) (rt_agent existing)) (coalesce_opt (rm_ip meta) (rt_ip existing))
               (env_now env + cf_refresh_ttl cf)) (\<lambda>next.
     then_h (on_db (modify_h (replace_token env (r_id existing) (r_id next))))
    (then_h (on_db (audit_record (subject cx (au_tenant_id u) (au_id u) (Some (au_email u))) env
               (audit_of ''auth.refresh'' ''RefreshToken'' (r_id next) No_Snapshot No_Snapshot [])))
     (return_h (u, \<lparr> it_access = sign_access lib cf env (access_claims u), it_refresh = ar_token rnd \<rparr>))))"

text \<open>The reuse of a rotated token revokes its family.\<close>

definition refuse_reuse :: "env \<Rightarrow> request_context \<Rightarrow> refresh_token \<Rightarrow> 'a auth_op" where
  "refuse_reuse env cx existing =
     then_h (revoke_where env (\<lambda>t. rt_family t = rt_family existing))
    (then_h (on_db (audit_record (subject cx (r_tenant existing) (rt_user existing) (cx_email cx)) env
               (audit_of ''auth.refresh_reuse_detected'' ''RefreshToken'' (r_id existing) No_Snapshot No_Snapshot
                  [(''family'', JId (rt_family existing))])))
     (throw_h (Unauthorized ''Refresh token reuse detected; session revoked'')))"

definition may_continue :: "auth_user option \<Rightarrow> auth_user option" where
  "may_continue loaded = (case loaded of None \<Rightarrow> None
     | Some u \<Rightarrow> if au_status u = user_status.ACTIVE \<and> tenant_active (au_tenant u) then Some u else None)"

text \<open>The checks of a refresh, up to the first write of its success path.\<close>

definition check_refresh ::
  "auth_library \<Rightarrow> auth_config \<Rightarrow> env \<Rightarrow> request_context \<Rightarrow> string option \<Rightarrow> (refresh_token \<times> auth_user) auth_op" where
  "check_refresh lib cf env cx raw =
     (case read_cookie raw of
        None \<Rightarrow> throw_h (Unauthorized ''No refresh token'')
      | Some token \<Rightarrow>
          bind_h (on_db (demand_h (find_token (lb_sha256 lib token)) (Unauthorized ''Invalid refresh token''))) (\<lambda>existing.
          if rt_revoked existing \<noteq> None then refuse_reuse env cx existing
          else then_h (check_h (env_now env < rt_expires existing) (Unauthorized ''Refresh token expired''))
              (bind_h (load_fresh cf env (rt_user existing)) (\<lambda>loaded. case may_continue loaded of
                 None \<Rightarrow> throw_h (Unauthorized ''Session is no longer valid'')
               | Some u \<Rightarrow> return_h (existing, u)))))"

definition refresh ::
  "auth_library \<Rightarrow> auth_config \<Rightarrow> env \<Rightarrow> request_context \<Rightarrow> auth_random \<Rightarrow> string option \<Rightarrow> request_meta \<Rightarrow>
   (auth_user \<times> issued_tokens) auth_op" where
  "refresh lib cf env cx rnd raw meta =
     bind_h (check_refresh lib cf env cx raw) (\<lambda>(existing, u). rotate_token lib cf env cx rnd meta existing u)"

text \<open>The signed-in user, if the guard has attached one, is \<open>user\<close>.\<close>

definition logout :: "auth_library \<Rightarrow> env \<Rightarrow> request_context \<Rightarrow> string option \<Rightarrow> actor option \<Rightarrow> unit auth_op" where
  "logout lib env cx raw user =
     (let signed_in = (case user of None \<Rightarrow> return_h () | Some ac \<Rightarrow> account_event ac env ''auth.logout'' (ac_user ac))
      in case read_cookie raw of
           None \<Rightarrow> signed_in
         | Some token \<Rightarrow> bind_h (on_db (gets_h (find_token (lb_sha256 lib token)))) (\<lambda>found. case found of
               None \<Rightarrow> signed_in
             | Some existing \<Rightarrow>
                 then_h (when_h (rt_revoked existing = None) (revoke_where env (\<lambda>t. rt_family t = rt_family existing)))
                  (on_db (audit_record (subject cx (r_tenant existing) (rt_user existing) (Option.bind user ac_email)) env
                     (audit_of ''auth.logout'' ''User'' (rt_user existing) No_Snapshot No_Snapshot [])))))"

definition revoke_all_sessions :: "auth_library \<Rightarrow> env \<Rightarrow> uuid \<Rightarrow> string option \<Rightarrow> unit auth_op" where
  "revoke_all_sessions lib env i except =
     bind_h (on_db (gets_h (\<lambda>s. case read_cookie except of None \<Rightarrow> None
        | Some token \<Rightarrow> map_option rt_family (find_token (lb_sha256 lib token) s)))) (\<lambda>keep.
     revoke_where env (\<lambda>t. rt_user t = i \<and> (case keep of None \<Rightarrow> True | Some f \<Rightarrow> rt_family t \<noteq> f)))"

section \<open>Login\<close>

text \<open>The account of an address is the oldest one, in the named tenant if one is named.\<close>

definition find_login_user :: "login_dto \<Rightarrow> db \<Rightarrow> user option" where
  "find_login_user dto s =
     (case sort_key r_created (filter (\<lambda>u. to_lower (u_email u) = to_lower (li_email dto) \<and> u_deleted_at u = None \<and>
        (case read_cookie (li_slug dto) of None \<Rightarrow> True
         | Some slug \<Rightarrow> map_option t_slug (tenant_row (r_tenant u) s) = Some slug)) (db_users s)) of
        [] \<Rightarrow> None
      | u # _ \<Rightarrow> Some u)"

definition failed_login :: "time \<Rightarrow> user \<Rightarrow> user \<Rightarrow> user" where
  "failed_login now read row =
     (let count = u_failed_count read + 1; lock = max_failed_logins \<le> count
      in row\<lparr> u_failed_count := (if lock then 0 else count),
              u_locked_until := (if lock then Some (now + lockout_minutes * 60000) else u_locked_until read) \<rparr>)"

definition register_failed_login :: "env \<Rightarrow> request_context \<Rightarrow> user \<Rightarrow> unit auth_op" where
  "register_failed_login env cx u =
     (let count = u_failed_count u + 1; lock = max_failed_logins \<le> count
      in then_h (write_user (r_id u) (failed_login (env_now env) u))
          (user_event cx env u (if lock then ''auth.account_locked'' else ''auth.login_failed'')
             [(''failedLoginCount'', JNum (of_nat count)), (''locked'', JBool lock)]))"

definition login_denied :: "user \<Rightarrow> db \<Rightarrow> bool" where
  "login_denied u s \<longleftrightarrow> u_status u = user_status.SUSPENDED \<or> u_status u = user_status.DEACTIVATED \<or>
     \<not> tenant_active (tenant_row (r_tenant u) s)"

definition locked :: "time \<Rightarrow> user \<Rightarrow> bool" where
  "locked now u \<longleftrightarrow> (case u_locked_until u of None \<Rightarrow> False | Some t \<Rightarrow> now < t)"

definition admitted :: "time \<Rightarrow> user \<Rightarrow> user \<Rightarrow> user" where
  "admitted now read row = row\<lparr> u_failed_count := 0, u_locked_until := None, u_last_login := Some now,
     u_status := (if u_status read = user_status.INVITED then user_status.ACTIVE else u_status read) \<rparr>"

text \<open>What follows for the account of the address.\<close>

definition login_account ::
  "auth_library \<Rightarrow> auth_config \<Rightarrow> env \<Rightarrow> request_context \<Rightarrow> auth_random \<Rightarrow> string \<Rightarrow> request_meta \<Rightarrow> user \<Rightarrow> login_result auth_op" where
  "login_account lib cf env cx rnd password meta u =
     (if u_provider u \<noteq> LOCAL \<or> \<not> truthy (u_password_hash u) then throw_h (Unauthorized generic_login_error)
      else bind_h (on_db (gets_h (login_denied u))) (\<lambda>denied.
        if denied then
          then_h (user_event cx env u ''auth.login_denied''
                    [(''reason'', JStr ''status''), (''status'', JStr (user_status_name (u_status u)))])
            (throw_h (Unauthorized generic_login_error))
        else if locked (env_now env) u then
          then_h (user_event cx env u ''auth.login_locked''
                    [(''lockedUntil'', (case u_locked_until u of None \<Rightarrow> JNull | Some t \<Rightarrow> JNum (of_int t)))])
            (throw_h (Unauthorized generic_login_error))
        else if \<not> verify_password lib (u_password_hash u) password then
          then_h (register_failed_login env cx u) (throw_h (Unauthorized generic_login_error))
        else
          then_h (write_user (r_id u) (admitted (env_now env) u))
         (then_h (invalidate (r_id u))
          (if u_mfa_enabled u then
             then_h (user_event cx env u ''auth.mfa_challenged'' [])
               (return_h (Login_Mfa (sign_mfa lib env (r_id u) (r_tenant u))))
           else
             bind_h (issue_session lib cf env cx rnd (r_id u) meta ''password'') (\<lambda>(v, tokens).
               return_h (Login_Session v tokens))))))"

definition login ::
  "auth_library \<Rightarrow> auth_config \<Rightarrow> env \<Rightarrow> request_context \<Rightarrow> auth_random \<Rightarrow> login_dto \<Rightarrow> request_meta \<Rightarrow> login_result auth_op" where
  "login lib cf env cx rnd dto meta =
     bind_h (on_db (gets_h (find_login_user dto))) (\<lambda>found. case found of
        None \<Rightarrow> throw_h (Unauthorized generic_login_error)
      | Some u \<Rightarrow> login_account lib cf env cx rnd (li_password dto) meta u)"

section \<open>The second factor\<close>

text \<open>A payload that does not decrypt is an exception of the cipher.\<close>

definition decrypt_secret :: "auth_library \<Rightarrow> string \<Rightarrow> string auth_op" where
  "decrypt_secret lib payload = (case lb_decrypt lib payload of
     None \<Rightarrow> throw_h (PlainError ''Unsupported state or unable to authenticate data'') | Some secret \<Rightarrow> return_h secret)"

definition use_recovery_code :: "auth_library \<Rightarrow> env \<Rightarrow> request_context \<Rightarrow> user \<Rightarrow> string \<Rightarrow> bool auth_op" where
  "use_recovery_code lib env cx u code =
     (case find_first (\<lambda>h. verify_password lib (Some h) code) (u_recovery_codes u) of
        None \<Rightarrow> return_h False
      | Some h \<Rightarrow>
          then_h (write_user (r_id u) (\<lambda>row. row\<lparr> u_recovery_codes := filter (\<lambda>x. x \<noteq> h) (u_recovery_codes u) \<rparr>))
         (then_h (user_event cx env u ''auth.recovery_code_used''
                    [(''remaining'', JNum (of_nat (length (u_recovery_codes u)) - 1))])
          (return_h True)))"

definition check_mfa_code :: "auth_library \<Rightarrow> env \<Rightarrow> request_context \<Rightarrow> user \<Rightarrow> string \<Rightarrow> bool auth_op" where
  "check_mfa_code lib env cx u code =
     (let normalized = normalize_code code
      in bind_h (if six_digits normalized \<and> truthy (u_mfa_secret u)
                 then bind_h (decrypt_secret lib (the (u_mfa_secret u))) (\<lambda>secret.
                        return_h (lb_totp lib normalized secret (env_now env)))
                 else return_h False)
           (\<lambda>ok. if ok then return_h True else use_recovery_code lib env cx u normalized))"

definition verify_mfa ::
  "auth_library \<Rightarrow> auth_config \<Rightarrow> env \<Rightarrow> request_context \<Rightarrow> auth_random \<Rightarrow> string \<Rightarrow> string \<Rightarrow> request_meta \<Rightarrow>
   (auth_user \<times> issued_tokens) auth_op" where
  "verify_mfa lib cf env cx rnd token code meta =
     bind_h (lift_h (verify_mfa_token lib env token)) (\<lambda>claims.
     bind_h (on_db (demand_h (\<lambda>s. case find_user (jc_sub claims) s of None \<Rightarrow> None
               | Some u \<Rightarrow> if u_mfa_enabled u \<and> truthy (u_mfa_secret u) then Some u else None)
               (Unauthorized ''MFA is not enabled''))) (\<lambda>u.
     bind_h (check_mfa_code lib env cx u code) (\<lambda>ok.
       if \<not> ok then then_h (user_event cx env u ''auth.mfa_failed'' [])
                      (throw_h (Unauthorized ''Invalid verification code''))
       else issue_session lib cf env cx rnd (r_id u) meta ''mfa'')))"

definition own_account :: "uuid \<Rightarrow> user auth_op" where
  "own_account i = on_db (demand_h (find_user i) RecordRequired)"

definition mfa_setup :: "auth_library \<Rightarrow> actor \<Rightarrow> env \<Rightarrow> auth_random \<Rightarrow> uuid \<Rightarrow> (string \<times> string) auth_op" where
  "mfa_setup lib ac env rnd i =
     bind_h (own_account i) (\<lambda>u.
     then_h (check_h (\<not> u_mfa_enabled u) (BadRequest ''MFA is already enabled; disable it before re-enrolling''))
    (then_h (write_user i (\<lambda>row. row\<lparr> u_mfa_secret := Some (ar_encrypt rnd (ar_secret rnd)) \<rparr>))
    (then_h (account_event ac env ''auth.mfa_setup_started'' i)
     (return_h (ar_secret rnd, lb_keyuri lib (u_email u) (ar_secret rnd))))))"

definition recovery_codes :: "auth_random \<Rightarrow> string list" where
  "recovery_codes rnd = map (\<lambda>k. random_recovery_code (ar_bytes rnd k)) [0..<recovery_code_count]"

definition hash_codes :: "auth_random \<Rightarrow> string list \<Rightarrow> string list" where
  "hash_codes rnd codes = map (\<lambda>(k, c). ar_hash rnd k c) (enumerate 0 codes)"

definition mfa_enable :: "auth_library \<Rightarrow> actor \<Rightarrow> env \<Rightarrow> auth_random \<Rightarrow> uuid \<Rightarrow> string \<Rightarrow> string list auth_op" where
  "mfa_enable lib ac env rnd i code =
     bind_h (own_account i) (\<lambda>u.
     then_h (check_h (\<not> u_mfa_enabled u) (BadRequest ''MFA is already enabled''))
    (then_h (check_h (truthy (u_mfa_secret u)) (BadRequest ''Run MFA setup first''))
    (bind_h (decrypt_secret lib (the (u_mfa_secret u))) (\<lambda>secret.
     then_h (check_h (lb_totp lib (filter (\<lambda>c. \<not> is_space c) code) secret (env_now env))
               (BadRequest ''Invalid verification code''))
    (then_h (write_user i (\<lambda>row. row\<lparr> u_mfa_enabled := True, u_recovery_codes := hash_codes rnd (recovery_codes rnd) \<rparr>))
    (then_h (invalidate i)
    (then_h (account_event ac env ''auth.mfa_enabled'' i)
     (return_h (recovery_codes rnd)))))))))"

definition without_mfa :: "user \<Rightarrow> user" where
  "without_mfa row = row\<lparr> u_mfa_enabled := False, u_mfa_secret := None, u_recovery_codes := [] \<rparr>"

definition mfa_disable :: "auth_library \<Rightarrow> actor \<Rightarrow> env \<Rightarrow> request_context \<Rightarrow> uuid \<Rightarrow> string \<Rightarrow> unit auth_op" where
  "mfa_disable lib ac env cx i code =
     bind_h (own_account i) (\<lambda>u.
     then_h (check_h (u_mfa_enabled u) (BadRequest ''MFA is not enabled''))
    (bind_h (check_mfa_code lib env cx u code) (\<lambda>ok.
     then_h (check_h ok (BadRequest ''Invalid verification code''))
    (then_h (write_user i without_mfa)
    (then_h (invalidate i)
     (account_event ac env ''auth.mfa_disabled'' i))))))"

section \<open>Password and profile\<close>

definition new_password :: "string \<Rightarrow> bool \<Rightarrow> user \<Rightarrow> user" where
  "new_password h must_change row =
     row\<lparr> u_password_hash := Some h, u_failed_count := 0, u_locked_until := None, u_must_change_password := must_change \<rparr>"

definition change_password ::
  "auth_library \<Rightarrow> actor \<Rightarrow> env \<Rightarrow> auth_random \<Rightarrow> uuid \<Rightarrow> string \<Rightarrow> string \<Rightarrow> string option \<Rightarrow> unit auth_op" where
  "change_password lib ac env rnd i current new refresh_cookie =
     bind_h (own_account i) (\<lambda>u.
     then_h (check_h (u_provider u = LOCAL) (BadRequest ''Password is managed by your identity provider''))
    (then_h (check_h (verify_password lib (u_password_hash u) current) (BadRequest ''Current password is incorrect''))
    (then_h (check_h (current \<noteq> new) (BadRequest ''New password must differ from the current one''))
    (then_h (write_user i (new_password (ar_hash rnd 0 new) False))
    (then_h (invalidate i)
    (then_h (revoke_all_sessions lib env i refresh_cookie)
     (account_event ac env ''auth.password_changed'' i)))))))"

definition me :: "auth_config \<Rightarrow> env \<Rightarrow> uuid \<Rightarrow> auth_user auth_op" where
  "me cf env i = bind_h (load_user cf env i) (\<lambda>loaded. case loaded of
     None \<Rightarrow> throw_h (Unauthorized ''User not found'') | Some u \<Rightarrow> return_h u)"

end
