(* ===== verification/Users.thy ===== *)
theory Users
  imports Sessions Engagements
begin

text \<open>
  \<open>users/users.service.ts\<close>: the administration of accounts. A role row of the database is identified
  with its key (the upsert of \<open>ensureRoles\<close> creates it when it is missing, and nothing else writes it),
  so that an account holds role keys and \<open>ensure_roles\<close> removes duplicates; the name and the
  description of a role row are left out.
\<close>

section \<open>Views and queries\<close>

definition view_user :: "user \<Rightarrow> user_view" where
  "view_user u =
     \<lparr> uv_id = r_id u, uv_email = u_email u, uv_display_name = u_display_name u, uv_first_name = u_first_name u,
       uv_last_name = u_last_name u, uv_job_title = u_job_title u, uv_office_location = u_office_location u,
       uv_country = u_country u, uv_phone = u_phone u, uv_avatar = u_avatar u, uv_status = u_status u,
       uv_provider = u_provider u, uv_mfa_enabled = u_mfa_enabled u, uv_last_login = u_last_login u,
       uv_weekly_capacity = u_weekly_capacity u, uv_charge_rate = u_charge_rate u, uv_created = r_created u,
       uv_roles = dedupe (u_roles u) \<rparr>"

record user_query =
  uq_page :: page_query
  uq_status :: "user_status option"
  uq_role :: "role_key option"
  uq_text :: "string option"

definition has_some_role :: "role_key option \<Rightarrow> user \<Rightarrow> bool" where
  "has_some_role r u \<longleftrightarrow> (case r of None \<Rightarrow> True | Some k \<Rightarrow> k \<in> set (u_roles u))"

definition list_users :: "actor \<Rightarrow> (user list \<Rightarrow> user list) \<Rightarrow> user_query \<Rightarrow> user_view page op" where
  "list_users ac order q = gets_h (\<lambda>s. paginate (uq_page q) (map view_user (order (many_in ac (\<lambda>u.
     u_deleted_at u = None \<and> opt_eq (uq_status q) (u_status u) \<and> has_some_role (uq_role q) u \<and>
     opt_contains (uq_text q) [u_email u, u_display_name u]) (db_users s)))))"

record user_option =
  uo_id :: uuid
  uo_display_name :: string
  uo_email :: string
  uo_avatar :: "string option"
  uo_job_title :: "string option"

definition user_options :: "actor \<Rightarrow> (user list \<Rightarrow> user list) \<Rightarrow> user_query \<Rightarrow> user_option page op" where
  "user_options ac order q = gets_h (\<lambda>s. paginate (uq_page q) (map (\<lambda>u.
       \<lparr> uo_id = r_id u, uo_display_name = u_display_name u, uo_email = u_email u, uo_avatar = u_avatar u,
         uo_job_title = u_job_title u \<rparr>)
     (order (many_in ac (\<lambda>u. u_deleted_at u = None \<and> u_status u = user_status.ACTIVE \<and> has_some_role (uq_role q) u \<and>
        opt_contains (uq_text q) [u_email u, u_display_name u]) (db_users s)))))"

definition find_account :: "actor \<Rightarrow> uuid \<Rightarrow> db \<Rightarrow> user option" where
  "find_account ac i s = first_in ac (\<lambda>u. has_id i u \<and> u_deleted_at u = None) (db_users s)"

definition account :: "actor \<Rightarrow> uuid \<Rightarrow> user auth_op" where
  "account ac i = on_db (demand_h (find_account ac i) (NotFound ''User not found''))"

definition get_user :: "actor \<Rightarrow> uuid \<Rightarrow> user_view auth_op" where
  "get_user ac i = bind_h (account ac i) (\<lambda>u. return_h (view_user u))"

section \<open>Changes\<close>

definition ensure_roles :: "role_key list \<Rightarrow> role_key list" where
  "ensure_roles keys = dedupe keys"

record create_user_dto =
  cu_email :: string
  cu_display_name :: string
  cu_first_name :: "string option"
  cu_last_name :: "string option"
  cu_job_title :: "string option"
  cu_office_location :: "string option"
  cu_country :: "string option"
  cu_phone :: "string option"
  cu_avatar :: "string option"
  cu_weekly_capacity :: "decimal option"
  cu_charge_rate :: "decimal option"
  cu_roles :: "role_key list"
  cu_password :: "string option"

definition temporary_password :: "auth_random \<Rightarrow> create_user_dto \<Rightarrow> string option" where
  "temporary_password rnd dto =
     (if truthy (cu_password dto) then None else Some (random_password (ar_drawn rnd) (ar_shuffle rnd)))"

definition new_user :: "actor \<Rightarrow> env \<Rightarrow> string \<Rightarrow> create_user_dto \<Rightarrow> db \<Rightarrow> user" where
  "new_user ac env h dto s =
     \<lparr> r_id = db_next s, r_tenant = ac_tenant ac, r_created = env_now env, u_email = cu_email dto,
       u_display_name = cu_display_name dto, u_first_name = cu_first_name dto, u_last_name = cu_last_name dto,
       u_job_title = cu_job_title dto, u_office_location = cu_office_location dto, u_country = cu_country dto,
       u_phone = cu_phone dto, u_avatar = cu_avatar dto,
       u_status = (if truthy (cu_password dto) then user_status.ACTIVE else user_status.INVITED),
       u_provider = LOCAL, u_password_hash = Some h, u_mfa_enabled = False, u_mfa_secret = None,
       u_recovery_codes = [], u_last_login = None, u_failed_count = 0, u_locked_until = None,
       u_charge_rate = cu_charge_rate dto, u_weekly_capacity = coalesce (cu_weekly_capacity dto) 40,
       u_deleted_at = None, u_must_change_password = False, u_roles = ensure_roles (cu_roles dto) \<rparr>"

definition insert_user :: "user \<Rightarrow> db \<Rightarrow> db" where
  "insert_user u s = s\<lparr> db_users := insert_row u (db_users s), db_next := db_next s + 1 \<rparr>"

definition create_user :: "actor \<Rightarrow> env \<Rightarrow> auth_random \<Rightarrow> create_user_dto \<Rightarrow> (user_view \<times> string option) auth_op" where
  "create_user ac env rnd dto =
     then_h (on_db (check_state_h (\<lambda>s. first_in ac (\<lambda>u. to_lower (u_email u) = to_lower (cu_email dto)) (db_users s) = None)
               (Conflict ''A user with this email already exists'')))
    (let temporary = temporary_password rnd dto;
         h = ar_hash rnd 0 (the (coalesce_opt (cu_password dto) temporary))
     in bind_h (on_db (create_h (new_user ac env h dto) insert_user)) (\<lambda>u.
        then_h (on_db (audit_record ac env (audit_of ''user.created'' ''User'' (r_id u) No_Snapshot (User_View (view_user u)) [])))
        (return_h (view_user u, temporary))))"

record update_user_dto =
  uu_display_name :: "string option"
  uu_first_name :: "string option"
  uu_last_name :: "string option"
  uu_job_title :: "string option"
  uu_office_location :: "string option"
  uu_country :: "string option"
  uu_phone :: "string option"
  uu_avatar :: "string option"
  uu_weekly_capacity :: "decimal option"
  uu_charge_rate :: "decimal option"
  uu_status :: "user_status option"

definition patch_user :: "update_user_dto \<Rightarrow> user \<Rightarrow> user" where
  "patch_user dto u =
     u\<lparr> u_display_name := patch (uu_display_name dto) (u_display_name u),
        u_first_name := coalesce_opt (uu_first_name dto) (u_first_name u),
        u_last_name := coalesce_opt (uu_last_name dto) (u_last_name u),
        u_job_title := coalesce_opt (uu_job_title dto) (u_job_title u),
        u_office_location := coalesce_opt (uu_office_location dto) (u_office_location u),
        u_country := coalesce_opt (uu_country dto) (u_country u), u_phone := coalesce_opt (uu_phone dto) (u_phone u),
        u_avatar := coalesce_opt (uu_avatar dto) (u_avatar u),
        u_weekly_capacity := patch (uu_weekly_capacity dto) (u_weekly_capacity u),
        u_charge_rate := coalesce_opt (uu_charge_rate dto) (u_charge_rate u),
        u_status := patch (uu_status dto) (u_status u),
        u_deleted_at := (if uu_status dto = Some user_status.DEACTIVATED then None else u_deleted_at u) \<rparr>"

definition write_account :: "actor \<Rightarrow> uuid \<Rightarrow> (user \<Rightarrow> user) \<Rightarrow> unit auth_op" where
  "write_account ac i g = on_db (modify_h (\<lambda>s. s\<lparr> db_users := update_in ac (has_id i) g (db_users s) \<rparr>))"

text \<open>A status that ends the sessions of an account.\<close>

definition ends_sessions :: "user_status option \<Rightarrow> bool" where
  "ends_sessions st \<longleftrightarrow> (case st of None \<Rightarrow> False | Some x \<Rightarrow> x \<noteq> user_status.ACTIVE \<and> x \<noteq> user_status.INVITED)"

definition update_user :: "actor \<Rightarrow> env \<Rightarrow> uuid \<Rightarrow> update_user_dto \<Rightarrow> user_view auth_op" where
  "update_user ac env i dto =
     bind_h (account ac i) (\<lambda>before.
     then_h (check_h (uu_status dto = None \<or> i \<noteq> ac_user ac \<or> uu_status dto = Some user_status.ACTIVE)
               (BadRequest ''You cannot suspend or deactivate your own account''))
    (let after = patch_user dto before in
     then_h (write_account ac i (patch_user dto))
    (then_h (when_h (ends_sessions (uu_status dto)) (revoke_where env (\<lambda>t. rt_user t = i)))
    (then_h (invalidate i)
    (then_h (on_db (audit_record ac env (audit_of ''user.updated'' ''User'' i (User_View (view_user before))
               (User_View (view_user after)) [])))
     (return_h (view_user after)))))))"

fun role_key_name :: "role_key \<Rightarrow> string" where
  "role_key_name GLOBAL_ADMIN = ''GLOBAL_ADMIN''"
| "role_key_name AUDIT_PARTNER = ''AUDIT_PARTNER''"
| "role_key_name CHIEF_AUDIT_EXECUTIVE = ''CHIEF_AUDIT_EXECUTIVE''"
| "role_key_name AUDIT_MANAGER = ''AUDIT_MANAGER''"
| "role_key_name SENIOR_AUDITOR = ''SENIOR_AUDITOR''"
| "role_key_name JUNIOR_AUDITOR = ''JUNIOR_AUDITOR''"
| "role_key_name BUSINESS_OWNER = ''BUSINESS_OWNER''"
| "role_key_name MANAGEMENT_REVIEWER = ''MANAGEMENT_REVIEWER''"
| "role_key_name AUDIT_COMMITTEE_VIEWER = ''AUDIT_COMMITTEE_VIEWER''"

definition role_fields :: "role_key list \<Rightarrow> snapshot" where
  "role_fields roles = Fields [(''roles'', JArr (map (\<lambda>r. JStr (role_key_name r)) roles))]"

definition set_roles :: "actor \<Rightarrow> env \<Rightarrow> uuid \<Rightarrow> role_key list \<Rightarrow> user_view auth_op" where
  "set_roles ac env i roles =
     bind_h (account ac i) (\<lambda>before.
     then_h (check_h (i \<noteq> ac_user ac \<or> GLOBAL_ADMIN \<in> set roles \<or> GLOBAL_ADMIN \<notin> set (ac_roles ac))
               (BadRequest ''You cannot remove your own administrator role''))
    (then_h (write_account ac i (\<lambda>u. u\<lparr> u_roles := ensure_roles roles \<rparr>))
    (then_h (invalidate i)
    (bind_h (get_user ac i) (\<lambda>after.
     then_h (on_db (audit_record ac env (audit_of ''user.roles_changed'' ''User'' i (role_fields (dedupe (u_roles before)))
               (role_fields (uv_roles after)) [])))
     (return_h after))))))"

definition reset_password :: "actor \<Rightarrow> env \<Rightarrow> auth_random \<Rightarrow> uuid \<Rightarrow> string auth_op" where
  "reset_password ac env rnd i =
     then_h (check_h (i \<noteq> ac_user ac) (BadRequest ''Use Change password for your own account''))
    (bind_h (account ac i) (\<lambda>u.
     then_h (check_h (u_provider u = LOCAL) (BadRequest ''This password is managed by the identity provider''))
    (let temporary = random_password (ar_drawn rnd) (ar_shuffle rnd) in
     then_h (write_account ac i (new_password (ar_hash rnd 0 temporary) True))
    (then_h (revoke_where env (\<lambda>t. rt_user t = i))
    (then_h (invalidate i)
    (then_h (account_event ac env ''user.password_reset'' i)
     (return_h temporary)))))))"

definition reset_mfa :: "actor \<Rightarrow> env \<Rightarrow> uuid \<Rightarrow> unit auth_op" where
  "reset_mfa ac env i =
     then_h (check_h (i \<noteq> ac_user ac) (BadRequest ''You cannot administratively reset your own MFA''))
    (bind_h (account ac i) (\<lambda>u.
     then_h (check_h (u_provider u = LOCAL) (BadRequest ''MFA is managed by the identity provider''))
    (then_h (write_account ac i without_mfa)
    (then_h (revoke_where env (\<lambda>t. rt_user t = i))
    (then_h (invalidate i)
     (account_event ac env ''user.mfa_reset'' i))))))"

text \<open>The roles of the tenant with their permissions, and the permission keys.\<close>

definition list_roles :: "actor \<Rightarrow> ((role_key \<times> permission_key list) list \<times> permission_key list) op" where
  "list_roles ac = gets_h (\<lambda>s.
     (map (\<lambda>k. (k, sort (dedupe (role_permissions k @ stored_permissions (ac_tenant ac) k s)))) role_keys, permission_keys))"

end
