(* ===== verification/Account_Life.thy ===== *)
theory Account_Life
  imports Users Samples
begin

text \<open>
  Accounts in motion: a call is a request to any endpoint of login, sessions and user administration,
  or the passage of a request through the guards. The cache of effective users stays coherent with
  the database, so the guards decide on the rows as they are; a suspension ends the sessions of an
  account.
\<close>

datatype account_call =
    Login_Call login_dto
  | Verify_Mfa_Call string string
  | Refresh_Call "string option"
  | Logout_Call "string option" "actor option"
  | Mfa_Setup_Call actor
  | Mfa_Enable_Call actor string
  | Mfa_Disable_Call actor string
  | Change_Password_Call actor string string "string option"
  | Me_Call uuid
  | Guard_Call endpoint http_request
  | Create_User_Call actor create_user_dto
  | Update_User_Call actor uuid update_user_dto
  | Set_Roles_Call actor uuid "role_key list"
  | Reset_Password_Call actor uuid
  | Reset_Mfa_Call actor uuid

record account_env =
  ax_env :: env
  ax_context :: request_context
  ax_random :: auth_random
  ax_meta :: request_meta

fun call_account :: "auth_library \<Rightarrow> auth_config \<Rightarrow> account_env \<Rightarrow> account_call \<Rightarrow> auth_state \<Rightarrow> auth_state" where
  "call_account lib cf x (Login_Call dto) S = snd (login lib cf (ax_env x) (ax_context x) (ax_random x) dto (ax_meta x) S)"
| "call_account lib cf x (Verify_Mfa_Call token code) S =
     snd (verify_mfa lib cf (ax_env x) (ax_context x) (ax_random x) token code (ax_meta x) S)"
| "call_account lib cf x (Refresh_Call raw) S = snd (refresh lib cf (ax_env x) (ax_context x) (ax_random x) raw (ax_meta x) S)"
| "call_account lib cf x (Logout_Call raw user) S = snd (logout lib (ax_env x) (ax_context x) raw user S)"
| "call_account lib cf x (Mfa_Setup_Call ac) S = snd (mfa_setup lib ac (ax_env x) (ax_random x) (ac_user ac) S)"
| "call_account lib cf x (Mfa_Enable_Call ac code) S = snd (mfa_enable lib ac (ax_env x) (ax_random x) (ac_user ac) code S)"
| "call_account lib cf x (Mfa_Disable_Call ac code) S = snd (mfa_disable lib ac (ax_env x) (ax_context x) (ac_user ac) code S)"
| "call_account lib cf x (Change_Password_Call ac current new cookie) S =
     snd (change_password lib ac (ax_env x) (ax_random x) (ac_user ac) current new cookie S)"
| "call_account lib cf x (Me_Call i) S = snd (me cf (ax_env x) i S)"
| "call_account lib cf x (Guard_Call ep req) S = snd (guarded lib cf (ax_env x) ep req (ax_context x) S)"
| "call_account lib cf x (Create_User_Call ac dto) S = snd (create_user ac (ax_env x) (ax_random x) dto S)"
| "call_account lib cf x (Update_User_Call ac i dto) S = snd (update_user ac (ax_env x) i dto S)"
| "call_account lib cf x (Set_Roles_Call ac i roles) S = snd (set_roles ac (ax_env x) i roles S)"
| "call_account lib cf x (Reset_Password_Call ac i) S = snd (reset_password ac (ax_env x) (ax_random x) i S)"
| "call_account lib cf x (Reset_Mfa_Call ac i) S = snd (reset_mfa ac (ax_env x) i S)"

section \<open>The cache\<close>

text \<open>Every entry, expired or not, is what a fresh read would compute.\<close>

definition fresh_value :: "auth_config \<Rightarrow> uuid \<Rightarrow> db \<Rightarrow> auth_user option" where
  "fresh_value cf i s = map_option (\<lambda>u. build_auth_user (cf_mfa cf) u s) (find_user i s)"

definition cache_ok :: "auth_config \<Rightarrow> auth_state \<Rightarrow> bool" where
  "cache_ok cf S \<longleftrightarrow> (\<forall>i expires v. ss_cache S i = Some (expires, v) \<longrightarrow> fresh_value cf i (ss_db S) = Some v)"

definition coherent :: "auth_config \<Rightarrow> auth_state \<Rightarrow> auth_state \<Rightarrow> bool" where
  "coherent cf S S' \<longleftrightarrow> (cache_ok cf S \<longrightarrow> cache_ok cf S')"

interpretation coherence: frame "coherent cf" for cf
  by unfold_locales (simp_all add: coherent_def)

text \<open>What an effective user is computed from.\<close>

definition same_accounts :: "db \<Rightarrow> db \<Rightarrow> bool" where
  "same_accounts s s' \<longleftrightarrow> db_users s' = db_users s \<and> db_tenants s' = db_tenants s \<and>
     db_role_permissions s' = db_role_permissions s"

interpretation accounts: frame same_accounts
  by unfold_locales (simp_all add: same_accounts_def)

lemma on_db_run [run_h]: "on_db m S = (case m (ss_db S) of (r, s) \<Rightarrow> (r, S\<lparr> ss_db := s \<rparr>))"
  by (simp add: on_db_def)

lemma build_auth_user_cong:
  "db_tenants s' = db_tenants s \<Longrightarrow> db_role_permissions s' = db_role_permissions s \<Longrightarrow>
   build_auth_user enf u s' = build_auth_user enf u s"
  by (simp add: build_auth_user_def tenant_row_def stored_permissions_def cong: map_cong)

lemma fresh_value_same: "same_accounts s s' \<Longrightarrow> fresh_value cf i s' = fresh_value cf i s"
  by (simp add: fresh_value_def find_user_def same_accounts_def build_auth_user_cong [of s' s])

lemma on_db_state: "snd (on_db m S) = S\<lparr> ss_db := snd (m (ss_db S)) \<rparr>"
  by (simp add: on_db_def split_beta)

lemma keeps_on_db:
  assumes "keeps same_accounts m"
  shows "keeps (coherent cf) (on_db m)"
proof -
  have same: "fresh_value cf i (snd (m s)) = fresh_value cf i s" for i s
    using assms by (intro fresh_value_same) (simp add: keeps_def)
  show ?thesis unfolding keeps_def coherent_def cache_ok_def on_db_state by (simp add: same)
qed

lemma reads_on_db [intro]: "reads m \<Longrightarrow> reads (on_db m)"
  unfolding reads_def on_db_state by simp

lemma audit_same_accounts: "keeps same_accounts (audit_record ac env inp)"
  by (simp add: keeps_def run_h same_accounts_def audited_def)

lemma tokens_same_accounts:
  "keeps same_accounts (then_h (token_hash_unique h) (create_h mk insert_token))"
  "keeps same_accounts (modify_h (revoke_tokens env P))"
  "keeps same_accounts (modify_h (replace_token env i n))"
  unfolding token_hash_unique_def
  by (intro accounts.keeps_intros accounts.keeps_create accounts.keeps_modify;
      simp add: same_accounts_def insert_token_def revoke_tokens_def replace_token_def)+

lemma events_coherent:
  "keeps (coherent cf) (user_event cx env u action metadata)"
  "keeps (coherent cf) (account_event ac env action i)"
  "keeps (coherent cf) (on_db (audit_record ac env inp))"
  "keeps (coherent cf) (revoke_where env P)"
  "keeps (coherent cf) (create_token env tn v h family agent ip expires)"
  "keeps (coherent cf) (on_db (modify_h (replace_token env j n)))"
  unfolding user_event_def account_event_def revoke_where_def create_token_def
  by (intro keeps_on_db audit_same_accounts tokens_same_accounts)+

lemma load_coherent:
  "keeps (coherent cf) (load_fresh cf env i)"
  "keeps (coherent cf) (load_user cf env i)"
  unfolding load_user_def load_fresh_def keeps_def coherent_def cache_ok_def fresh_value_def
  by (auto simp: Let_def split: option.splits)

text \<open>An account is written and then dropped from the cache, or only columns are written that the effective user does not have.\<close>

definition writes_row :: "(user \<Rightarrow> user) \<Rightarrow> bool" where
  "writes_row g \<longleftrightarrow> (\<forall>u. r_id (g u) = r_id u)"

lemma find_user_update_other:
  assumes "\<And>r. r_id (g r) = r_id r" "j \<noteq> i" "\<And>r. P r \<Longrightarrow> r_id r = i"
  shows "find_user j (s\<lparr> db_users := update_rows P g (db_users s) \<rparr>) = find_user j s"
  unfolding find_user_def using assms by (auto simp: has_id_def intro!: find_first_update_rows_other)

lemma cache_ok_write_invalidate:
  assumes "cache_ok cf S" "\<And>r. r_id (g r) = r_id r" "\<And>r. P r \<Longrightarrow> r_id r = i"
  shows "cache_ok cf (S\<lparr> ss_db := (ss_db S)\<lparr> db_users := update_rows P g (db_users (ss_db S)) \<rparr>,
           ss_cache := (ss_cache S)(i := None) \<rparr>)"
  using assms(1) find_user_update_other [of g _ i P "ss_db S"] assms(2,3)
  by (auto simp: cache_ok_def fresh_value_def build_auth_user_cong [of "ss_db S\<lparr> db_users := _ \<rparr>" "ss_db S"])

definition account_write :: "uuid \<Rightarrow> unit auth_op \<Rightarrow> bool" where
  "account_write i w \<longleftrightarrow> (\<exists>P g. (\<forall>r. r_id (g r) = r_id r) \<and> (\<forall>r. P r \<longrightarrow> r_id r = i) \<and>
     w = on_db (modify_h (\<lambda>s. s\<lparr> db_users := update_rows P g (db_users s) \<rparr>)))"

lemma account_write_user: "(\<And>r. r_id (g r) = r_id r) \<Longrightarrow> account_write i (write_user i g)"
  unfolding account_write_def write_user_def
  by (rule exI [of _ "has_id i"], rule exI [of _ g]) (simp add: has_id_def set_user_def [abs_def])

lemma account_write_account: "(\<And>r. r_id (g r) = r_id r) \<Longrightarrow> account_write i (write_account ac i g)"
  unfolding account_write_def write_account_def
  by (rule exI [of _ "\<lambda>r. mine ac r \<and> has_id i r"], rule exI [of _ g]) (simp add: has_id_def update_in_def)

lemma keeps_write_invalidate:
  assumes "account_write i w" "keeps (coherent cf) n"
  shows "keeps (coherent cf) (then_h w (then_h (invalidate i) n))"
proof -
  obtain P g where w: "\<And>r. r_id (g r) = r_id r" "\<And>r. P r \<Longrightarrow> r_id r = i"
      "w = on_db (modify_h (\<lambda>s. s\<lparr> db_users := update_rows P g (db_users s) \<rparr>))"
    using assms(1) unfolding account_write_def by auto
  show ?thesis
    using cache_ok_write_invalidate [of cf _ g P i, OF _ w(1,2)] assms(2)
    unfolding w(3) keeps_def coherent_def by (simp add: run_h invalidate_def)
qed

lemma keeps_write_revoke_invalidate:
  assumes "account_write i w" "keeps (coherent cf) n"
  shows "keeps (coherent cf) (then_h w (then_h (when_h c (revoke_where env Q)) (then_h (invalidate i) n)))"
    and "keeps (coherent cf) (then_h w (then_h (revoke_where env Q) (then_h (invalidate i) n)))"
proof -
  obtain P g where w: "\<And>r. r_id (g r) = r_id r" "\<And>r. P r \<Longrightarrow> r_id r = i"
      "w = on_db (modify_h (\<lambda>s. s\<lparr> db_users := update_rows P g (db_users s) \<rparr>))"
    using assms(1) unfolding account_write_def by auto
  have "cache_ok cf (S\<lparr> ss_db := revoke_tokens env Q ((ss_db S)\<lparr> db_users := update_rows P g (db_users (ss_db S)) \<rparr>),
      ss_cache := (ss_cache S)(i := None) \<rparr>)" if "cache_ok cf S" for S
    using cache_ok_write_invalidate [OF that w(1,2)]
    by (auto simp: cache_ok_def revoke_tokens_def fresh_value_def find_user_def build_auth_user_def tenant_row_def
        stored_permissions_def Let_def)
  note revoked = this and kept = cache_ok_write_invalidate [of cf _ g P i, OF _ w(1,2)]
  show "keeps (coherent cf) (then_h w (then_h (when_h c (revoke_where env Q)) (then_h (invalidate i) n)))"
    "keeps (coherent cf) (then_h w (then_h (revoke_where env Q) (then_h (invalidate i) n)))"
    using assms(2) revoked kept
    unfolding w(3) keeps_def coherent_def by (simp_all add: run_h invalidate_def revoke_where_def)
qed

lemma keeps_write_hidden:
  assumes "\<And>u. r_id (g u) = r_id u" "\<And>u. u_deleted_at (g u) = u_deleted_at u"
    "\<And>u s. build_auth_user (cf_mfa cf) (g u) s = build_auth_user (cf_mfa cf) u s"
  shows "keeps (coherent cf) (write_user i g)"
proof -
  let ?h = "\<lambda>r. if has_id i r then g r else r"
  have find: "find_user j (set_user i g s) = map_option ?h (find_user j s)" for j s
  proof -
    have "find_first Q (map ?h t) = map_option ?h (find_first Q t)" if "\<And>r. Q (?h r) = Q r" for Q and t :: "user list"
      using that by (induction t) (simp_all add: find_first_Cons)
    then show ?thesis using assms(1,2) by (simp add: find_user_def set_user_def update_rows_def has_id_def)
  qed
  have same: "fresh_value cf j (set_user i g s) = fresh_value cf j s" for j s
  proof -
    have "build_auth_user (cf_mfa cf) u (set_user i g s) = build_auth_user (cf_mfa cf) u s" for u
      by (rule build_auth_user_cong) (simp_all add: set_user_def)
    then show ?thesis
      unfolding fresh_value_def find option.map_comp comp_def using assms(3) by (intro map_option_cong) auto
  qed
  show ?thesis
    unfolding keeps_def coherent_def cache_ok_def write_user_def on_db_state by (simp add: run_h same)
qed

lemma fresh_value_insert:
  "fresh_value cf i s = Some v \<Longrightarrow> fresh_value cf i (insert_user u s) = Some v"
proof -
  have "find_first Q t = Some r \<Longrightarrow> find_first Q (t @ [u]) = Some r" for Q r and t :: "user list"
    by (induction t) (auto simp: find_first_Cons split: if_splits)
  then show "fresh_value cf i s = Some v \<Longrightarrow> fresh_value cf i (insert_user u s) = Some v"
    by (auto simp: fresh_value_def find_user_def insert_user_def insert_row_def
        build_auth_user_cong [of "s\<lparr> db_users := _, db_next := _ \<rparr>" s])
qed

lemma keeps_create_user: "keeps (coherent cf) (on_db (create_h mk insert_user))"
  unfolding keeps_def coherent_def cache_ok_def on_db_state by (auto simp: run_h fresh_value_insert)

section \<open>Every call keeps the cache coherent\<close>

lemma hidden_writes:
  "build_auth_user enf (failed_login now r u) s = build_auth_user enf u s"
  "build_auth_user enf (u\<lparr> u_recovery_codes := cs \<rparr>) s = build_auth_user enf u s"
  "build_auth_user enf (u\<lparr> u_mfa_secret := sec \<rparr>) s = build_auth_user enf u s"
  by (simp_all add: build_auth_user_def failed_login_def Let_def)

lemma account_rows [simp]:
  "r_id (failed_login now r u) = r_id u" "u_deleted_at (failed_login now r u) = u_deleted_at u"
  "r_id (admitted now r u) = r_id u" "r_id (without_mfa u) = r_id u" "r_id (new_password h c u) = r_id u"
  "r_id (patch_user udto u) = r_id u" "r_tenant (patch_user udto u) = r_tenant u"
  by (simp_all add: failed_login_def admitted_def without_mfa_def new_password_def patch_user_def Let_def)

lemmas coherent_reads = coherence.keeps_reads [OF reads_on_db]

lemmas coherent_steps = keeps_write_revoke_invalidate keeps_write_invalidate events_coherent load_coherent
  keeps_create_user coherence.keeps_intros

lemma register_failed_login_coherent: "keeps (coherent cf) (register_failed_login env cx u)"
  unfolding register_failed_login_def Let_def
  by (intro coherence.keeps_then events_coherent keeps_write_hidden) (simp_all add: hidden_writes)

lemma gets_on_db_coherent:
  "keeps (coherent cf) (on_db (gets_h f))"
  "keeps (coherent cf) (on_db (demand_h d e))"
  "keeps (coherent cf) (on_db (check_state_h c e))"
  by (intro coherent_reads reads_gets reads_demand reads_check_state)+

lemma issue_session_coherent: "keeps (coherent cf) (issue_session lib cf env cx rnd i meta method)"
  unfolding issue_session_def by (intro coherent_steps)

lemma login_coherent: "keeps (coherent cf) (login lib cf env cx rnd dto meta)"
  unfolding login_def login_account_def
  by (intro gets_on_db_coherent register_failed_login_coherent issue_session_coherent account_write_user coherent_steps;
      simp)

lemma check_mfa_code_coherent: "keeps (coherent cf) (check_mfa_code lib env cx u code)"
  unfolding check_mfa_code_def use_recovery_code_def decrypt_secret_def Let_def
  by (intro coherence.keeps_intros events_coherent keeps_write_hidden; simp add: hidden_writes)

lemma second_factor_coherent:
  "keeps (coherent cf) (verify_mfa lib cf env cx rnd token code meta)"
  "keeps (coherent cf) (mfa_enable lib ac env rnd i code)"
  "keeps (coherent cf) (mfa_disable lib ac env cx i code)"
  unfolding verify_mfa_def mfa_enable_def mfa_disable_def own_account_def decrypt_secret_def
  by (intro gets_on_db_coherent check_mfa_code_coherent issue_session_coherent account_write_user coherent_steps; simp)+

lemma mfa_setup_coherent: "keeps (coherent cf) (mfa_setup lib ac env rnd i)"
  unfolding mfa_setup_def own_account_def
  by (intro gets_on_db_coherent events_coherent keeps_write_hidden coherence.keeps_intros; simp add: hidden_writes)

lemma refresh_coherent: "keeps (coherent cf) (refresh lib cf env cx rnd raw meta)"
  unfolding refresh_def check_refresh_def rotate_token_def refuse_reuse_def
  by (intro gets_on_db_coherent coherent_steps)

lemma logout_coherent: "keeps (coherent cf) (logout lib env cx raw u)"
  unfolding logout_def Let_def by (intro gets_on_db_coherent coherent_steps)

lemma change_password_coherent: "keeps (coherent cf) (change_password lib ac env rnd i current new cookie)"
  unfolding change_password_def own_account_def revoke_all_sessions_def
  by (intro gets_on_db_coherent account_write_user coherent_steps; simp)

lemma me_coherent: "keeps (coherent cf) (me cf env i)"
  unfolding me_def by (intro coherent_steps)

lemma guard_coherent: "keeps (coherent cf) (guarded lib cf env ep req cx)"
  unfolding guarded_def jwt_guard_def refuse_unless_public_def by (intro coherent_steps)

lemma users_coherent:
  "keeps (coherent cf) (create_user ac env rnd cdto)"
  "keeps (coherent cf) (update_user ac env i udto)"
  "keeps (coherent cf) (set_roles ac env i roles)"
  "keeps (coherent cf) (reset_password ac env rnd i)"
  "keeps (coherent cf) (reset_mfa ac env i)"
  unfolding create_user_def update_user_def set_roles_def reset_password_def reset_mfa_def get_user_def account_def
    Let_def
  by (intro gets_on_db_coherent account_write_account coherent_steps; simp)+

definition call_accounts :: "auth_library \<Rightarrow> auth_config \<Rightarrow> (account_env \<times> account_call) list \<Rightarrow> auth_state \<Rightarrow> auth_state" where
  "call_accounts lib cf calls S = fold (\<lambda>(x, c). call_account lib cf x c) calls S"

lemma call_account_coherent: "coherent cf S (call_account lib cf x c S)"
proof -
  have run: "keeps (coherent cf) m \<Longrightarrow> coherent cf S (snd (m S))" for m :: "'a auth_op" by (simp add: keeps_def)
  show ?thesis
    by (cases c) (simp_all add: run login_coherent second_factor_coherent refresh_coherent logout_coherent
        mfa_setup_coherent change_password_coherent me_coherent guard_coherent users_coherent)
qed

lemma call_accounts_coherent:
  assumes "cache_ok cf S"
  shows "cache_ok cf (call_accounts lib cf calls S)"
  using assms
proof (induction calls arbitrary: S)
  case (Cons c calls)
  obtain x a where c: "c = (x, a)" by (cases c)
  have "cache_ok cf (call_account lib cf x a S)"
    using call_account_coherent [of cf S lib x a] Cons.prems by (simp add: coherent_def)
  then show ?case using Cons.IH unfolding c call_accounts_def by simp
qed (simp add: call_accounts_def)

text \<open>
  C8. The cache of effective users is coherent. After any sequence of logins, refreshes, changes of
  accounts and guarded requests, in any order, every entry of the cache is what a fresh read of the
  database would compute, so that a change of status, roles or second factor acts at once.
\<close>

theorem cache_stays_coherent:
  assumes "cache_ok cf S"
  shows "cache_ok cf (call_accounts lib cf calls S)"
  using assms by (rule call_accounts_coherent)

section \<open>What the guards admit\<close>

lemma load_user_coherent_value:
  assumes "cache_ok cf S" "load_user cf env i S = (r, S')"
  shows "r = Inr (fresh_value cf i (ss_db S))" "ss_db S' = ss_db S"
proof -
  have "r = Inr (fresh_value cf i (ss_db S)) \<and> ss_db S' = ss_db S"
  proof (cases "cached_user env i S")
    case None
    then show ?thesis using assms(2)
      by (auto simp: load_user_def load_fresh_def fresh_value_def Let_def split: option.splits)
  next
    case (Some v)
    then obtain expires where "ss_cache S i = Some (expires, v)"
      by (auto simp: cached_user_def split: option.splits if_splits)
    then have "fresh_value cf i (ss_db S) = Some v" using assms(1) unfolding cache_ok_def by blast
    then show ?thesis using assms(2) Some by (simp add: load_user_def)
  qed
  then show "r = Inr (fresh_value cf i (ss_db S))" "ss_db S' = ss_db S" by simp_all
qed

text \<open>The user whose valid token a request carries, as the database has it.\<close>

definition bearer_of :: "auth_library \<Rightarrow> auth_config \<Rightarrow> env \<Rightarrow> http_request \<Rightarrow> db \<Rightarrow> auth_user option" where
  "bearer_of lib cf env req s = (case extract_access_token req of None \<Rightarrow> None
     | Some token \<Rightarrow> if token = [] then None else (case verify_access lib env token of None \<Rightarrow> None
         | Some claims \<Rightarrow> session_valid claims (fresh_value cf (jc_sub claims) s)))"

definition may_pass :: "endpoint \<Rightarrow> auth_user \<Rightarrow> bool" where
  "may_pass ep u \<longleftrightarrow> (ep_public ep \<or> (au_must_change u \<longrightarrow> ep_during_password_change ep) \<and>
     (au_mfa_required u \<longrightarrow> ep_during_mfa_enrolment ep))"

lemma guarded_run:
  assumes "cache_ok cf S"
  shows "\<exists>S'. ss_db S' = ss_db S \<and> jwt_guard lib cf env ep req cx S =
    (case bearer_of lib cf env req (ss_db S) of
       None \<Rightarrow> (if ep_public ep then Inr (None, cx) else Inl (Unauthorized (
          case extract_access_token req of None \<Rightarrow> ''Authentication required'' | Some token \<Rightarrow>
            if token = [] then ''Authentication required'' else if verify_access lib env token = None
            then ''Session is invalid or has expired'' else ''Session is no longer valid'')))
     | Some u \<Rightarrow> if may_pass ep u then Inr (Some u, the (bind_user (bind_input u) (Some cx)))
         else Inl (Forbidden (if au_must_change u \<and> \<not> ep_during_password_change ep
           then ''You must replace the temporary password before continuing''
           else ''You must enrol two-step verification before continuing'')), S')"
proof (cases "extract_access_token req")
  case None
  then show ?thesis by (simp add: jwt_guard_def bearer_of_def refuse_unless_public_def run_h)
next
  case (Some token)
  show ?thesis
  proof (cases "token = [] \<or> verify_access lib env token = None")
    case True
    then show ?thesis using Some by (auto simp: jwt_guard_def bearer_of_def refuse_unless_public_def run_h)
  next
    case False
    then obtain claims where c: "verify_access lib env token = Some claims" by blast
    obtain r S' where l: "load_user cf env (jc_sub claims) S = (r, S')" by (cases "load_user cf env (jc_sub claims) S")
    note v = load_user_coherent_value [OF assms l]
    show ?thesis
      using Some False c l v
      by (cases "session_valid claims (fresh_value cf (jc_sub claims) (ss_db S))")
         (auto simp: jwt_guard_def bearer_of_def refuse_unless_public_def run_h may_pass_def)
  qed
qed

lemma set_dedupe_granted:
  "set (au_permissions (build_auth_user enf u s)) =
     (\<Union>r \<in> set (u_roles u). set (role_permissions r) \<union> set (stored_permissions (r_tenant u) r s))"
  by (auto simp: build_auth_user_def Let_def set_dedupe)

lemma build_auth_user_fields [simp]:
  "au_id (build_auth_user enf u s) = r_id u" "au_tenant_id (build_auth_user enf u s) = r_tenant u"
  "au_status (build_auth_user enf u s) = u_status u" "au_tenant (build_auth_user enf u s) = tenant_row (r_tenant u) s"
  "au_email (build_auth_user enf u s) = u_email u" "au_must_change (build_auth_user enf u s) = u_must_change_password u"
  by (simp_all add: build_auth_user_def Let_def)

lemma bearer_of_Some:
  assumes "bearer_of lib cf env req s = Some v"
  shows "\<exists>token claims u. extract_access_token req = Some token \<and> verify_access lib env token = Some claims \<and>
    find_user (jc_sub claims) s = Some u \<and> v = build_auth_user (cf_mfa cf) u s \<and> u_status u = user_status.ACTIVE \<and>
    tenant_active (tenant_row (r_tenant u) s) \<and> r_tenant u = jc_tenant claims"
  using assms by (auto simp: bearer_of_def session_valid_def fresh_value_def split: option.splits if_splits)

text \<open>
  C3. A request passes the guards only as an anonymous request to a public endpoint that asks for no
  permission, or with a valid access token of an active account in an active tenant, that of the
  token; then one of the required permissions is granted to one of the roles of the account by the
  matrix or by the tenant, a temporary password and a missing second factor are let through only
  where the endpoint allows it, and the services run in the context of that account.
\<close>

theorem guards_admit_only:
  assumes "cache_ok cf S" "guarded lib cf env ep req cx S = (Inr (caller, cx'), S')"
  shows "case caller of
      None \<Rightarrow> ep_public ep \<and> ep_required ep = [] \<and> cx' = cx
    | Some v \<Rightarrow> \<exists>token claims u. extract_access_token req = Some token \<and> verify_access lib env token = Some claims \<and>
        find_user (jc_sub claims) (ss_db S) = Some u \<and> u_status u = user_status.ACTIVE \<and>
        tenant_active (tenant_row (r_tenant u) (ss_db S)) \<and> r_tenant u = jc_tenant claims \<and>
        v = build_auth_user (cf_mfa cf) u (ss_db S) \<and> may_pass ep v \<and>
        (ep_required ep = [] \<or> (\<exists>k \<in> set (ep_required ep). \<exists>r \<in> set (u_roles u).
           k \<in> set (role_permissions r) \<union> set (stored_permissions (r_tenant u) r (ss_db S)))) \<and>
        cx_tenant cx' = Some (r_tenant u) \<and> cx_user cx' = Some (r_id u) \<and> cx_permissions cx' = au_permissions v"
proof (cases "bearer_of lib cf env req (ss_db S)")
  case None
  then show ?thesis using guarded_run [OF assms(1), of lib env ep req cx] assms(2)
    by (auto simp: guarded_def run_h permissions_guard_def split: if_splits)
next
  case (Some v)
  then have pass: "may_pass ep v" "caller = Some v" "cx' = the (bind_user (bind_input v) (Some cx))"
    "permissions_guard (ep_required ep) (Some v) = Inr ()"
    using guarded_run [OF assms(1), of lib env ep req cx] assms(2)
    by (auto simp: guarded_def run_h split: if_splits sum.splits)
  obtain token claims u where u: "extract_access_token req = Some token" "verify_access lib env token = Some claims"
    "find_user (jc_sub claims) (ss_db S) = Some u" "v = build_auth_user (cf_mfa cf) u (ss_db S)"
    "u_status u = user_status.ACTIVE" "tenant_active (tenant_row (r_tenant u) (ss_db S))" "r_tenant u = jc_tenant claims"
    using bearer_of_Some [OF Some] by blast
  have "ep_required ep = [] \<or> (\<exists>k \<in> set (ep_required ep). k \<in> set (au_permissions v))"
    using pass(4) by (auto simp: permissions_guard_def list_ex_iff split: if_splits)
  then have "ep_required ep = [] \<or> (\<exists>k \<in> set (ep_required ep). \<exists>r \<in> set (u_roles u).
         k \<in> set (role_permissions r) \<union> set (stored_permissions (r_tenant u) r (ss_db S)))"
    unfolding u(4) set_dedupe_granted by auto
  moreover have "cx_tenant cx' = Some (r_tenant u)" "cx_user cx' = Some (r_id u)" "cx_permissions cx' = au_permissions v"
    unfolding pass(3) u(4) by (simp_all add: bind_user_def bind_input_def)
  ultimately show ?thesis using pass(1,2) u by simp
qed

section \<open>Suspension\<close>

text \<open>The account is known and none of its rows is of a status that can sign in.\<close>

definition suspended_status :: "user_status \<Rightarrow> bool" where
  "suspended_status st \<longleftrightarrow> st = user_status.SUSPENDED \<or> st = user_status.DEACTIVATED"

definition barred :: "uuid \<Rightarrow> db \<Rightarrow> bool" where
  "barred i s \<longleftrightarrow> i < db_next s \<and> (\<forall>u \<in> set (db_users s). r_id u = i \<longrightarrow> suspended_status (u_status u))"

definition bars :: "uuid \<Rightarrow> auth_state \<Rightarrow> auth_state \<Rightarrow> bool" where
  "bars i S S' \<longleftrightarrow> (barred i (ss_db S) \<longrightarrow> barred i (ss_db S'))"

interpretation bars: frame "bars i" for i
  by unfold_locales (simp_all add: bars_def)

definition same_users :: "db \<Rightarrow> db \<Rightarrow> bool" where
  "same_users s s' \<longleftrightarrow> db_users s' = db_users s \<and> db_next s \<le> db_next s'"

interpretation users: frame same_users
  by unfold_locales (auto simp: same_users_def)

lemma bars_on_db:
  assumes "keeps same_users m"
  shows "keeps (bars i) (on_db m)"
  using assms unfolding keeps_def bars_def on_db_state same_users_def barred_def
  by simp (meson order_less_le_trans)

lemma bars_cache: "ss_db (snd (m S)) = ss_db S \<Longrightarrow> bars i S (snd (m S))"
  by (simp add: bars_def)

lemma audit_same_users: "keeps same_users (audit_record ac env inp)"
  by (simp add: keeps_def run_h same_users_def audited_def)

lemma tokens_same_users:
  "keeps same_users (then_h (token_hash_unique h) (create_h mk insert_token))"
  "keeps same_users (modify_h (revoke_tokens env P))"
  "keeps same_users (modify_h (replace_token env j n))"
  unfolding token_hash_unique_def
  by (intro users.keeps_intros users.keeps_create users.keeps_modify;
      simp add: same_users_def insert_token_def revoke_tokens_def replace_token_def)+

lemma load_keeps_db: "ss_db (snd (load_fresh cf env i S)) = ss_db S" "ss_db (snd (load_user cf env i S)) = ss_db S"
  "ss_db (snd (invalidate i S)) = ss_db S"
  by (simp_all add: load_user_def load_fresh_def invalidate_def run_h Let_def split: option.splits)

lemma events_bar:
  "keeps (bars i) (user_event cx env u action metadata)"
  "keeps (bars i) (account_event ac env action j)"
  "keeps (bars i) (on_db (audit_record ac env inp))"
  "keeps (bars i) (revoke_where env P)"
  "keeps (bars i) (create_token env tn v h family agent ip expires)"
  "keeps (bars i) (on_db (modify_h (replace_token env j n)))"
  unfolding user_event_def account_event_def revoke_where_def create_token_def
  by (intro bars_on_db audit_same_users tokens_same_users)+

lemma loads_bar:
  "keeps (bars i) (load_fresh cf env j)"
  "keeps (bars i) (load_user cf env j)"
  "keeps (bars i) (invalidate j)"
  by (simp_all add: keeps_def bars_def load_keeps_db)

lemma gets_on_db_bar:
  "keeps (bars i) (on_db (gets_h f))"
  "keeps (bars i) (on_db (demand_h d e))"
  "keeps (bars i) (on_db (check_state_h c e))"
  by (intro bars.keeps_reads reads_on_db reads_gets reads_demand reads_check_state)+

lemma bars_update_rows:
  assumes "\<And>u. r_id (g u) = r_id u"
    "\<And>u. P u \<Longrightarrow> r_id u = i \<Longrightarrow> suspended_status (u_status u) \<Longrightarrow> suspended_status (u_status (g u))"
  shows "barred i s \<Longrightarrow> barred i (s\<lparr> db_users := update_rows P g (db_users s) \<rparr>)"
  using assms by (auto simp: barred_def update_rows_def)

lemma write_user_bars:
  assumes "\<And>u. r_id (g u) = r_id u" "\<And>u. suspended_status (u_status u) \<Longrightarrow> suspended_status (u_status (g u))"
  shows "keeps (bars i) (write_user j g)" "keeps (bars i) (write_account ac j g)"
  unfolding keeps_def bars_def write_user_def write_account_def on_db_state update_in_def
  using assms by (auto simp: run_h set_user_def intro!: bars_update_rows)

lemma write_other_bars:
  assumes "\<And>u. r_id (g u) = r_id u" "i \<noteq> j"
  shows "keeps (bars i) (write_user j g)" "keeps (bars i) (write_account ac j g)"
  unfolding keeps_def bars_def write_user_def write_account_def on_db_state update_in_def
  using assms by (auto simp: run_h set_user_def has_id_def intro!: bars_update_rows)

lemma create_user_bars: "keeps (bars i) (on_db (create_h (new_user ac env h dto) insert_user))"
  unfolding keeps_def bars_def on_db_state
  by (auto simp: run_h barred_def insert_user_def insert_row_def new_user_def)

lemmas bar_steps = events_bar loads_bar gets_on_db_bar create_user_bars bars.keeps_intros

lemma suspended_rows [simp]:
  "u_status (failed_login now r u) = u_status u" "u_status (without_mfa u) = u_status u"
  "u_status (new_password h c u) = u_status u"
  by (simp_all add: failed_login_def without_mfa_def new_password_def Let_def)

lemma issue_session_bar: "keeps (bars i) (issue_session lib cf env cx rnd j meta method)"
  unfolding issue_session_def by (intro bar_steps)

lemma register_failed_login_bar: "keeps (bars i) (register_failed_login env cx u)"
  unfolding register_failed_login_def Let_def by (intro write_user_bars bar_steps) simp_all

lemma find_login_user_Some:
  assumes "find_login_user dto s = Some u"
  shows "u \<in> set (db_users s)" "to_lower (u_email u) = to_lower (li_email dto)" "u_deleted_at u = None"
proof -
  let ?us = "filter (\<lambda>u. to_lower (u_email u) = to_lower (li_email dto) \<and> u_deleted_at u = None \<and>
        (case read_cookie (li_slug dto) of None \<Rightarrow> True
         | Some slug \<Rightarrow> map_option t_slug (tenant_row (r_tenant u) s) = Some slug)) (db_users s)"
  obtain us where "sort_key r_created ?us = u # us"
    using assms by (auto simp: find_login_user_def split: list.splits)
  then have "u \<in> set (sort_key r_created ?us)" by simp
  then show "u \<in> set (db_users s)" "to_lower (u_email u) = to_lower (li_email dto)" "u_deleted_at u = None"
    by simp_all
qed

lemma login_bar: "keeps (bars i) (login lib cf env cx rnd dto meta)"
  unfolding keeps_def
proof
  fix S
  show "bars i S (snd (login lib cf env cx rnd dto meta S))"
  proof (cases "find_login_user dto (ss_db S)")
    case None
    then show ?thesis by (simp add: login_def run_h bars_def)
  next
    case (Some u)
    note u = find_login_user_Some(1) [OF Some]
    consider "r_id u \<noteq> i" | "\<not> barred i (ss_db S)" | "r_id u = i" "barred i (ss_db S)" by blast
    then show ?thesis
    proof cases
      case 1
      then have "keeps (bars i) (login_account lib cf env cx rnd (li_password dto) meta u)"
        unfolding login_account_def
        by (intro write_other_bars register_failed_login_bar issue_session_bar bar_steps; simp)
      then show ?thesis using Some by (simp add: login_def run_h keeps_def)
    next
      case 3
      then have "login_denied u (ss_db S)" using u by (auto simp: barred_def login_denied_def suspended_status_def)
      then show ?thesis using Some by (auto simp: login_def login_account_def run_h bars_def barred_def user_event_def audited_def)
    qed (simp add: bars_def)
  qed
qed

lemma check_mfa_code_bar: "keeps (bars i) (check_mfa_code lib env cx u code)"
  unfolding check_mfa_code_def use_recovery_code_def decrypt_secret_def Let_def
  by (intro write_user_bars bar_steps; simp)

lemma self_service_bar:
  "keeps (bars i) (verify_mfa lib cf env cx rnd token code meta)"
  "keeps (bars i) (mfa_setup lib ac env rnd j)"
  "keeps (bars i) (mfa_enable lib ac env rnd j code)"
  "keeps (bars i) (mfa_disable lib ac env cx j code)"
  "keeps (bars i) (change_password lib ac env rnd j current new cookie)"
  "keeps (bars i) (me cf env j)"
  "keeps (bars i) (guarded lib cf env ep req cx)"
  "keeps (bars i) (refresh lib cf env cx rnd raw meta)"
  "keeps (bars i) (logout lib env cx raw who)"
  unfolding verify_mfa_def mfa_setup_def mfa_enable_def mfa_disable_def change_password_def own_account_def
    decrypt_secret_def revoke_all_sessions_def me_def guarded_def jwt_guard_def refuse_unless_public_def
    refresh_def check_refresh_def rotate_token_def refuse_reuse_def logout_def Let_def
  by (intro write_user_bars check_mfa_code_bar issue_session_bar bar_steps; simp)+

lemma administration_bar:
  "keeps (bars i) (create_user ac env rnd cdto)"
  "keeps (bars i) (set_roles ac env j roles)"
  "keeps (bars i) (reset_password ac env rnd j)"
  "keeps (bars i) (reset_mfa ac env j)"
  unfolding create_user_def set_roles_def reset_password_def reset_mfa_def get_user_def account_def Let_def
  by (intro write_user_bars bar_steps; simp)+

lemma ends_sessions_iff: "ends_sessions st \<longleftrightarrow> (\<exists>y. st = Some y \<and> suspended_status y)"
proof -
  have "x \<noteq> user_status.ACTIVE \<and> x \<noteq> user_status.INVITED \<longleftrightarrow> suspended_status x" for x
    by (cases x) (simp_all add: suspended_status_def)
  then show ?thesis by (simp add: ends_sessions_def split: option.split)
qed

lemma update_user_bar:
  assumes "j \<noteq> i \<or> ends_sessions (uu_status udto) \<or> uu_status udto = None"
  shows "keeps (bars i) (update_user ac env j udto)"
proof -
  have "keeps (bars i) (write_account ac j (patch_user udto))"
  proof (cases "j = i")
    case True
    then have "suspended_status (u_status u) \<Longrightarrow> suspended_status (u_status (patch_user udto u))" for u
      using assms by (auto simp: ends_sessions_iff patch_user_def)
    then show ?thesis by (intro write_user_bars) simp_all
  qed (intro write_other_bars; simp)
  then show ?thesis unfolding update_user_def account_def Let_def by (intro bar_steps)
qed

fun reinstates :: "uuid \<Rightarrow> account_call \<Rightarrow> bool" where
  "reinstates i (Update_User_Call ac j dto) = (j = i \<and> uu_status dto \<noteq> None \<and> \<not> ends_sessions (uu_status dto))"
| "reinstates i _ = False"

lemma call_account_bar:
  assumes "\<not> reinstates i c"
  shows "bars i S (call_account lib cf x c S)"
proof -
  have run: "keeps (bars i) m \<Longrightarrow> bars i S (snd (m S))" for m :: "'a auth_op" by (simp add: keeps_def)
  show ?thesis
    using assms
    by (cases c) (auto simp: run login_bar self_service_bar administration_bar intro!: run update_user_bar)
qed

lemma call_accounts_bar:
  "\<forall>(x, c) \<in> set calls. \<not> reinstates i c \<Longrightarrow> bars i S (call_accounts lib cf calls S)"
proof (induction calls arbitrary: S)
  case (Cons c calls)
  obtain x a where c: "c = (x, a)" by (cases c)
  have "bars i S (call_account lib cf x a S)" using Cons.prems c by (intro call_account_bar) simp
  moreover have "bars i (call_account lib cf x a S) (call_accounts lib cf calls (call_account lib cf x a S))"
    using Cons by simp
  ultimately have "bars i S (call_accounts lib cf calls (call_account lib cf x a S))" by (rule bars.trans)
  then show ?case by (simp add: c call_accounts_def)
qed (simp add: call_accounts_def bars_def)

lemma update_user_run:
  assumes "update_user ac env i dto S = (Inr v, S')" "ends_sessions (uu_status dto)"
  shows "\<exists>u. find_account ac i (ss_db S) = Some u \<and>
    db_users (ss_db S') = update_in ac (has_id i) (patch_user dto) (db_users (ss_db S)) \<and>
    db_tokens (ss_db S') = db_tokens (revoke_tokens env (\<lambda>t. rt_user t = i) (ss_db S)) \<and>
    db_next (ss_db S) \<le> db_next (ss_db S') \<and> uv_status v = the (uu_status dto)"
  using assms
  by (auto simp: update_user_def account_def ok_h run_h write_account_def revoke_where_def revoke_tokens_def
      invalidate_def audited_def Let_def view_user_def patch_user_def ends_sessions_iff split: option.splits sum.splits if_splits)

lemma barred_refuses:
  assumes "barred i s"
  shows "session_valid claims (fresh_value cf i s) = None" "may_continue (fresh_value cf i s) = None"
    and "find_login_user dto s = Some u \<Longrightarrow> r_id u = i \<Longrightarrow> login_denied u s"
proof -
  have "suspended_status (u_status u)" if "find_user i s = Some u" for u
    using that assms by (auto simp: find_user_def barred_def has_id_def dest!: find_first_Some)
  then have st: "fresh_value cf i s = Some v \<Longrightarrow> suspended_status (au_status v)" for v
    by (auto simp: fresh_value_def)
  then show "session_valid claims (fresh_value cf i s) = None" "may_continue (fresh_value cf i s) = None"
    by (cases "fresh_value cf i s"; fastforce simp: session_valid_def may_continue_def suspended_status_def)+
  show "find_login_user dto s = Some u \<Longrightarrow> r_id u = i \<Longrightarrow> login_denied u s"
    using find_login_user_Some(1) [of dto s u] assms by (auto simp: barred_def login_denied_def suspended_status_def)
qed

lemma load_fresh_value: "fst (load_fresh cf env i S) = Inr (fresh_value cf i (ss_db S))"
  by (simp add: load_fresh_def fresh_value_def Let_def split: option.split)

lemma barred_no_refresh:
  assumes "barred i (ss_db S)" "find_token (lb_sha256 lib raw) (ss_db S) = Some t" "rt_user t = i"
  shows "\<not> is_ok (fst (refresh lib cf env cx rnd (Some raw) meta S))"
proof -
  obtain S' where l: "load_fresh cf env i S = (Inr (fresh_value cf i (ss_db S)), S')"
    using load_fresh_value [of cf env i S] by (metis prod.collapse)
  show ?thesis
    using assms l barred_refuses(2) [OF assms(1), of cf]
    by (auto simp: refresh_def check_refresh_def refuse_reuse_def revoke_where_def run_h read_cookie_def)
qed

lemma revoke_tokens_tokens: "db_tokens (revoke_tokens env P s) =
    map (\<lambda>t. if P t \<and> rt_revoked t = None then t\<lparr> rt_revoked := Some (env_now env) \<rparr> else t) (db_tokens s)"
  by (simp add: revoke_tokens_def update_rows_def)

lemma revoke_tokens_user:
  "t \<in> set (db_tokens (revoke_tokens env (\<lambda>t. rt_user t = i) s)) \<Longrightarrow> rt_user t = i \<Longrightarrow> rt_revoked t \<noteq> None"
proof -
  assume "t \<in> set (db_tokens (revoke_tokens env (\<lambda>t. rt_user t = i) s))" and i: "rt_user t = i"
  then obtain q where "t = (if rt_user q = i \<and> rt_revoked q = None then q\<lparr> rt_revoked := Some (env_now env) \<rparr> else q)"
    unfolding revoke_tokens_tokens by (simp only: set_map) blast
  then show "rt_revoked t \<noteq> None" using i by (cases "rt_user q = i \<and> rt_revoked q = None") simp_all
qed

lemma barred_no_login:
  assumes "barred i (ss_db S)" "find_login_user dto (ss_db S) = Some u" "r_id u = i"
  shows "\<not> is_ok (fst (login lib cf env cx rnd dto meta S))"
  using assms(2) barred_refuses(3) [OF assms]
  by (auto simp: login_def login_account_def run_h user_event_def)

lemma barred_no_passage:
  assumes "cache_ok cf S" "barred i (ss_db S)" "extract_access_token req = Some token"
    "verify_access lib env token = Some claims" "jc_sub claims = i" "\<not> ep_public ep"
  shows "\<not> is_ok (fst (guarded lib cf env ep req cx S))"
proof -
  have "bearer_of lib cf env req (ss_db S) = None"
    using assms(3-5) barred_refuses(1) [OF assms(2), of claims cf] by (simp add: bearer_of_def)
  then show ?thesis
    using guarded_run [OF assms(1), of lib env ep req cx] assms(6) by (auto simp: guarded_def run_h)
qed

text \<open>
  C4. Suspending or deactivating an account ends its sessions, at once and for good. All its refresh
  tokens are revoked, and after any further calls by anybody, as long as no administrator reinstates
  the account, no access token of it passes the guards of an endpoint that is not public, no refresh
  token of it is renewed, and no password signs it in.
\<close>

theorem suspension_ends_sessions:
  assumes "cache_ok cf S" "table_ok (\<lambda>_. True) (db_next (ss_db S)) (db_users (ss_db S))"
    and "update_user ac env i dto S = (Inr v, S')" "ends_sessions (uu_status dto)"
    and "\<forall>(x, c) \<in> set calls. \<not> reinstates i c" "later = call_accounts lib cf calls S'"
  shows "(\<forall>t \<in> set (db_tokens (ss_db S')). rt_user t = i \<longrightarrow> rt_revoked t \<noteq> None) \<and>
    (\<forall>env ep req cx token claims. extract_access_token req = Some token \<and>
       verify_access lib env token = Some claims \<and> jc_sub claims = i \<and> \<not> ep_public ep \<longrightarrow>
       \<not> is_ok (fst (guarded lib cf env ep req cx later))) \<and>
    (\<forall>env cx rnd raw meta t. find_token (lb_sha256 lib raw) (ss_db later) = Some t \<and> rt_user t = i \<longrightarrow>
       \<not> is_ok (fst (refresh lib cf env cx rnd (Some raw) meta later))) \<and>
    (\<forall>env cx rnd login_dto meta u. find_login_user login_dto (ss_db later) = Some u \<and> r_id u = i \<longrightarrow>
       \<not> is_ok (fst (login lib cf env cx rnd login_dto meta later)))"
proof -
  obtain u where u: "find_account ac i (ss_db S) = Some u"
    "db_users (ss_db S') = update_in ac (has_id i) (patch_user dto) (db_users (ss_db S))"
    "db_tokens (ss_db S') = db_tokens (revoke_tokens env (\<lambda>t. rt_user t = i) (ss_db S))"
    "db_next (ss_db S) \<le> db_next (ss_db S')"
    using update_user_run [OF assms(3,4)] by blast
  obtain st where st: "uu_status dto = Some st" "suspended_status st" using assms(4) unfolding ends_sessions_iff by blast
  have mem: "u \<in> set (db_users (ss_db S))" "mine ac u" "r_id u = i"
    using first_in_Some [OF u(1) [unfolded find_account_def]] by (simp_all add: has_id_def)
  have only: "q = u" if "q \<in> set (db_users (ss_db S))" "r_id q = i" for q
    using that mem(1,3) assms(2) unfolding table_ok_def by (auto simp: distinct_map dest: inj_onD)
  have "suspended_status (u_status q)" if q: "q \<in> set (db_users (ss_db S'))" "r_id q = i" for q
  proof -
    consider p where "q = patch_user dto p" | "q \<in> set (db_users (ss_db S))" "\<not> (mine ac q \<and> has_id i q)"
      using q(1) unfolding u(2) set_update_in by blast
    then show ?thesis
    proof cases
      case 1
      then show ?thesis using st by (simp add: patch_user_def)
    next
      case 2
      then have "q = u" using only q(2) by blast
      then show ?thesis using 2(2) mem by (simp add: has_id_def)
    qed
  qed
  moreover have "i < db_next (ss_db S')"
  proof -
    have "r_id u < db_next (ss_db S)" using assms(2) mem(1) unfolding table_ok_def by blast
    then show ?thesis using mem(3) u(4) by linarith
  qed
  ultimately have "barred i (ss_db S')" unfolding barred_def by blast
  then have b: "barred i (ss_db later)"
    using call_accounts_bar [OF assms(5), of S' lib cf] unfolding assms(6) bars_def by blast
  have "coherent cf S (snd (update_user ac env i dto S))" using users_coherent(2) unfolding keeps_def by blast
  then have "cache_ok cf S'" using assms(1,3) by (simp add: coherent_def)
  then have c: "cache_ok cf later" unfolding assms(6) by (rule call_accounts_coherent)
  have "\<forall>t \<in> set (db_tokens (ss_db S')). rt_user t = i \<longrightarrow> rt_revoked t \<noteq> None"
    unfolding u(3) using revoke_tokens_user by blast
  then show ?thesis
    by (intro conjI allI impI; (elim conjE)?)
       (blast, (rule barred_no_passage [OF c b] barred_no_refresh [OF b] barred_no_login [OF b]; assumption)+)
qed

section \<open>Examples\<close>

definition ex_lib :: auth_library where
  "ex_lib = \<lparr> lb_argon_verify = (\<lambda>h p. Some (h = p)), lb_sha256 = (\<lambda>t. t), lb_decrypt = Some,
     lb_totp = (\<lambda>c s now. c = s), lb_keyuri = (\<lambda>e s. s), lb_jwt_sign = (\<lambda>c a n now. ''access''),
     lb_jwt_verify = (\<lambda>t a now. if t = ''access'' then Some \<lparr> jc_sub = 2, jc_tenant = 1, jc_email = None,
       jc_roles = [], jc_purpose = None \<rparr> else None) \<rparr>"

definition ex_config :: auth_config where
  "ex_config = \<lparr> cf_access_ttl = 900000, cf_refresh_ttl = 604800000, cf_mfa = Mfa_Off \<rparr>"

definition ex_random :: auth_random where
  "ex_random = \<lparr> ar_token = ''r1'', ar_secret = ''123456'', ar_bytes = (\<lambda>_. []), ar_drawn = [], ar_shuffle = (\<lambda>_. 0),
     ar_hash = (\<lambda>_ p. p), ar_encrypt = (\<lambda>s. s) \<rparr>"

definition ex_context :: request_context where
  "ex_context = open_context ''q'' None None"

definition ex_meta :: request_meta where
  "ex_meta = \<lparr> rm_ip = None, rm_agent = None \<rparr>"

definition ex_token :: "uuid \<Rightarrow> string \<Rightarrow> time option \<Rightarrow> refresh_token" where
  "ex_token i h revoked = \<lparr> r_id = i, r_tenant = 1, r_created = 0, rt_user = 2, rt_hash = h, rt_family = 70,
     rt_agent = None, rt_ip = None, rt_expires = 1800000000000, rt_revoked = revoked, rt_replaced_by = None \<rparr>"

definition ex_accounts :: auth_state where
  "ex_accounts = \<lparr> ss_db = ex_db\<lparr>
       db_tenants := [\<lparr> t_id = 1, t_slug = ''bdo'', t_name = ''BDO'', t_active = True \<rparr>],
       db_users := [(ex_user 2 [AUDIT_MANAGER])\<lparr> u_password_hash := Some ''secret'' \<rparr>, ex_user 3 [GLOBAL_ADMIN]],
       db_tokens := [ex_token 70 ''old'' (Some 1), ex_token 71 ''r0'' None] \<rparr>, ss_cache = (\<lambda>_. None) \<rparr>"

definition ex_account_env :: account_env where
  "ex_account_env = \<lparr> ax_env = ex_env, ax_context = ex_context, ax_random = ex_random, ax_meta = ex_meta \<rparr>"

definition ex_admin :: actor where
  "ex_admin = ex_actor 3 [GLOBAL_ADMIN] [''user:manage'']"

definition ex_suspend :: update_user_dto where
  "ex_suspend = \<lparr> uu_display_name = None, uu_first_name = None, uu_last_name = None, uu_job_title = None,
     uu_office_location = None, uu_country = None, uu_phone = None, uu_avatar = None, uu_weekly_capacity = None,
     uu_charge_rate = None, uu_status = Some user_status.SUSPENDED \<rparr>"

lemma ex_accounts_db [simp]:
  "db_users (ss_db ex_accounts) = [(ex_user 2 [AUDIT_MANAGER])\<lparr> u_password_hash := Some ''secret'' \<rparr>, ex_user 3 [GLOBAL_ADMIN]]"
  "db_tokens (ss_db ex_accounts) = [ex_token 70 ''old'' (Some 1), ex_token 71 ''r0'' None]"
  "db_tenants (ss_db ex_accounts) = [\<lparr> t_id = 1, t_slug = ''bdo'', t_name = ''BDO'', t_active = True \<rparr>]"
  "db_next (ss_db ex_accounts) = 100" "ss_cache ex_accounts = (\<lambda>_. None)"
  by (simp_all add: ex_accounts_def)

lemma ex_user_row [simp]:
  "r_id (ex_user i roles) = i" "r_tenant (ex_user i roles) = 1" "u_deleted_at (ex_user i roles) = None"
  "u_status (ex_user i roles) = user_status.ACTIVE"
  by (simp_all add: ex_user_def)

lemma ex_cache_ok: "cache_ok ex_config ex_accounts"
  by (simp add: cache_ok_def)

lemma cache_stays_coherent_witness:
  "cache_ok ex_config (call_accounts ex_lib ex_config [(ex_account_env, Me_Call 2),
     (ex_account_env, Update_User_Call ex_admin 2 ex_suspend), (ex_account_env, Me_Call 2)] ex_accounts)"
  by (rule cache_stays_coherent [OF ex_cache_ok])

definition ex_endpoint :: endpoint where
  "ex_endpoint = \<lparr> ep_public = False, ep_during_password_change = False, ep_during_mfa_enrolment = False,
     ep_required = [''engagement:read''] \<rparr>"

definition ex_request_in :: http_request where
  "ex_request_in = \<lparr> hr_access_cookie = Some ''access'', hr_authorization = None \<rparr>"

lemma ex_bearer: "bearer_of ex_lib ex_config ex_env ex_request_in (ss_db ex_accounts) =
    Some (build_auth_user Mfa_Off ((ex_user 2 [AUDIT_MANAGER])\<lparr> u_password_hash := Some ''secret'' \<rparr>) (ss_db ex_accounts))"
  by (simp add: bearer_of_def extract_access_token_def read_cookie_def ex_request_in_def verify_access_def ex_lib_def
      fresh_value_def find_user_def find_first_Cons has_id_def ex_config_def session_valid_def tenant_active_def
      tenant_row_def)

lemma ex_manager_reads: "''engagement:read'' \<in> set (role_permissions AUDIT_MANAGER)"
  by code_simp

lemma ex_passes: "\<exists>v cx' S'. guarded ex_lib ex_config ex_env ex_endpoint ex_request_in ex_context ex_accounts = (Inr (Some v, cx'), S')"
proof -
  let ?v = "build_auth_user Mfa_Off ((ex_user 2 [AUDIT_MANAGER])\<lparr> u_password_hash := Some ''secret'' \<rparr>) (ss_db ex_accounts)"
  have "may_pass ex_endpoint ?v"
    by (simp add: may_pass_def build_auth_user_def Let_def ex_user_def)
  moreover have "''engagement:read'' \<in> set (au_permissions ?v)"
    unfolding set_dedupe_granted using ex_manager_reads by (simp add: ex_user_def)
  ultimately show ?thesis
    using guarded_run [OF ex_cache_ok, of ex_lib ex_env ex_endpoint ex_request_in ex_context]
    by (auto simp: ex_bearer guarded_def run_h permissions_guard_def ex_endpoint_def)
qed

lemma guards_admit_only_witness:
  "\<exists>v cx' S' u. guarded ex_lib ex_config ex_env ex_endpoint ex_request_in ex_context ex_accounts = (Inr (Some v, cx'), S') \<and>
     find_user 2 (ss_db ex_accounts) = Some u \<and> cx_user cx' = Some (r_id u)"
proof -
  obtain v cx' S' where run: "guarded ex_lib ex_config ex_env ex_endpoint ex_request_in ex_context ex_accounts = (Inr (Some v, cx'), S')"
    using ex_passes by blast
  show ?thesis
    using guards_admit_only [OF ex_cache_ok run] run
    by (auto simp: verify_access_def ex_lib_def split: if_splits)
qed

lemma ex_suspended: "\<exists>v S'. update_user ex_admin ex_env 2 ex_suspend ex_accounts = (Inr v, S')"
  by (simp add: update_user_def account_def find_account_def run_h has_id_def ex_admin_def ex_actor_def ex_suspend_def
      write_account_def revoke_where_def invalidate_def ends_sessions_def Let_def)

lemma suspension_ends_sessions_witness:
  "\<exists>v S'. update_user ex_admin ex_env 2 ex_suspend ex_accounts = (Inr v, S') \<and>
     \<not> is_ok (fst (guarded ex_lib ex_config ex_env ex_endpoint ex_request_in ex_context
       (call_accounts ex_lib ex_config [(ex_account_env, Me_Call 2)] S')))"
proof -
  obtain v S' where run: "update_user ex_admin ex_env 2 ex_suspend ex_accounts = (Inr v, S')" using ex_suspended by blast
  have "table_ok (\<lambda>_. True) (db_next (ss_db ex_accounts)) (db_users (ss_db ex_accounts))" by (simp add: table_ok_def)
  moreover have "ends_sessions (uu_status ex_suspend)" by (simp add: ex_suspend_def ends_sessions_def)
  moreover have "\<forall>(x, c) \<in> set [(ex_account_env, Me_Call 2)]. \<not> reinstates 2 c" by simp
  ultimately have "\<not> is_ok (fst (guarded ex_lib ex_config ex_env ex_endpoint ex_request_in ex_context
      (call_accounts ex_lib ex_config [(ex_account_env, Me_Call 2)] S')))"
    using suspension_ends_sessions [OF ex_cache_ok _ run _ _ refl, of "[(ex_account_env, Me_Call 2)]" ex_lib]
    by (auto simp: extract_access_token_def read_cookie_def ex_request_in_def verify_access_def ex_lib_def ex_endpoint_def)
  then show ?thesis using run by blast
qed

end
