(* ===== verification/Session_Life.thy ===== *)
theory Session_Life
  imports Account_Life
begin

text \<open>
  Refresh tokens and the lockout. A family of refresh tokens is a session: at most one token of it is
  live, a refresh replaces it, and the reuse of a replaced one ends the session for good; the service
  refines an abstract book of sessions. The lockout bounds how many passwords can be tried.
\<close>

section \<open>The invariant of the tokens\<close>

definition live_token :: "refresh_token \<Rightarrow> bool" where
  "live_token t \<longleftrightarrow> rt_revoked t = None"

definition tokens_ok :: "db \<Rightarrow> bool" where
  "tokens_ok s \<longleftrightarrow> table_ok (\<lambda>t. rt_family t < db_next s) (db_next s) (db_tokens s) \<and>
     distinct (map rt_hash (db_tokens s)) \<and>
     distinct (map rt_family (filter live_token (db_tokens s)))"

definition same_tokens :: "db \<Rightarrow> db \<Rightarrow> bool" where
  "same_tokens s s' \<longleftrightarrow> db_tokens s' = db_tokens s \<and> db_next s \<le> db_next s'"

interpretation tokens: frame same_tokens
  by unfold_locales (auto simp: same_tokens_def)

lemma tokens_ok_same: "same_tokens s s' \<Longrightarrow> tokens_ok s \<Longrightarrow> tokens_ok s'"
  by (auto simp: tokens_ok_def same_tokens_def table_ok_def)

text \<open>A token revoked in place keeps its key, hash and family.\<close>

definition revokes :: "(refresh_token \<Rightarrow> refresh_token) \<Rightarrow> bool" where
  "revokes g \<longleftrightarrow> (\<forall>t. r_id (g t) = r_id t \<and> rt_hash (g t) = rt_hash t \<and> rt_family (g t) = rt_family t \<and>
     rt_user (g t) = rt_user t \<and> (live_token (g t) \<longrightarrow> live_token t))"

lemma distinct_map_filter_weaken:
  assumes "distinct (map f (filter P xs))" "\<And>x. Q x \<Longrightarrow> P x"
  shows "distinct (map f (filter Q xs))"
  using assms by (induction xs) (auto split: if_splits)

lemma tokens_ok_revokes:
  assumes "tokens_ok s" "revokes g" "db_tokens s' = map g (db_tokens s)" "db_next s \<le> db_next s'"
  shows "tokens_ok s'"
proof -
  have g: "r_id (g t) = r_id t" "rt_hash (g t) = rt_hash t" "rt_family (g t) = rt_family t"
    "live_token (g t) \<Longrightarrow> live_token t" for t using assms(2) unfolding revokes_def by blast+
  have "map rt_family (filter live_token (map g xs)) = map rt_family (filter (live_token \<circ> g) xs)" for xs
    by (induction xs) (simp_all add: g)
  moreover have "distinct (map rt_family (filter (live_token \<circ> g) (db_tokens s)))"
    by (rule distinct_map_filter_weaken [where P = live_token])
       (use assms(1) g(4) in \<open>simp_all add: tokens_ok_def\<close>)
  moreover have "table_ok (\<lambda>t. rt_family t < db_next s') (db_next s') (db_tokens s')"
  proof -
    have "\<forall>t \<in> set (db_tokens s). r_id t < db_next s' \<and> rt_family t < db_next s'"
      using assms(1,4) unfolding tokens_ok_def table_ok_def by (meson order_less_le_trans)
    then show ?thesis using assms(1) unfolding tokens_ok_def table_ok_def assms(3) by (simp add: g comp_def)
  qed
  ultimately show ?thesis using assms(1) unfolding tokens_ok_def assms(3) by (simp add: g comp_def)
qed

definition spent :: "env \<Rightarrow> uuid \<Rightarrow> uuid \<Rightarrow> refresh_token \<Rightarrow> refresh_token" where
  "spent env i n t = (if has_id i t then t\<lparr> rt_revoked := Some (env_now env), rt_replaced_by := Some n \<rparr> else t)"

lemma spent_fields [simp]:
  "r_id (spent env i n t) = r_id t" "rt_hash (spent env i n t) = rt_hash t" "rt_family (spent env i n t) = rt_family t"
  "rt_user (spent env i n t) = rt_user t" "live_token (spent env i n t) \<longleftrightarrow> live_token t \<and> r_id t \<noteq> i"
  by (simp_all add: spent_def live_token_def has_id_def)

lemma revokes_intros:
  "revokes (\<lambda>t. if P t \<and> rt_revoked t = None then t\<lparr> rt_revoked := Some now \<rparr> else t)"
  "revokes (spent env i n)"
  by (simp_all add: revokes_def) (simp add: live_token_def)

lemma replace_token_tokens: "db_tokens (replace_token env i n s) = map (spent env i n) (db_tokens s)"
  by (simp add: replace_token_def update_rows_def spent_def [abs_def])

lemma revoke_tokens_next [simp]: "db_next (revoke_tokens env P s) = db_next s" "db_next (replace_token env i n s) = db_next s"
  by (simp_all add: revoke_tokens_def replace_token_def)

text \<open>A first token of a new family.\<close>

lemma tokens_ok_insert:
  assumes "tokens_ok s" "r_id t = db_next s" "rt_family t \<le> db_next s" "find_token (rt_hash t) s = None"
    "\<And>x. x \<in> set (db_tokens s) \<Longrightarrow> live_token x \<Longrightarrow> rt_family x \<noteq> rt_family t"
  shows "tokens_ok (insert_token t s)"
proof -
  have "rt_hash t \<notin> rt_hash ` set (db_tokens s)"
    using assms(4) by (auto simp: find_token_def find_first_None_iff)
  moreover have "db_next s \<notin> r_id ` set (db_tokens s)"
    using assms(1) by (auto simp: tokens_ok_def table_ok_def)
  moreover have "rt_family t \<notin> rt_family ` set (filter live_token (db_tokens s))"
    using assms(5) by (force simp: image_iff)
  moreover have "\<forall>x \<in> set (db_tokens s). r_id x < Suc (db_next s) \<and> rt_family x < Suc (db_next s)"
    using assms(1) unfolding tokens_ok_def table_ok_def by (auto simp: less_SucI)
  ultimately show ?thesis
    using assms(1-3) by (simp add: tokens_ok_def table_ok_def insert_token_def insert_row_def)
qed

section \<open>What a refresh writes\<close>

definition next_token ::
  "auth_library \<Rightarrow> auth_config \<Rightarrow> env \<Rightarrow> auth_random \<Rightarrow> request_meta \<Rightarrow> refresh_token \<Rightarrow> db \<Rightarrow> refresh_token" where
  "next_token lib cf env rnd meta t s =
     \<lparr> r_id = db_next s, r_tenant = r_tenant t, r_created = env_now env, rt_user = rt_user t,
       rt_hash = lb_sha256 lib (ar_token rnd), rt_family = rt_family t,
       rt_agent = coalesce_opt (rm_agent meta) (rt_agent t), rt_ip = coalesce_opt (rm_ip meta) (rt_ip t),
       rt_expires = env_now env + cf_refresh_ttl cf, rt_revoked = None, rt_replaced_by = None \<rparr>"

definition may_renew :: "auth_library \<Rightarrow> auth_config \<Rightarrow> env \<Rightarrow> auth_random \<Rightarrow> refresh_token \<Rightarrow> db \<Rightarrow> bool" where
  "may_renew lib cf env rnd t s \<longleftrightarrow> env_now env < rt_expires t \<and> may_continue (fresh_value cf (rt_user t) s) \<noteq> None \<and>
     find_token (lb_sha256 lib (ar_token rnd)) s = None"

lemma refresh_cases:
  assumes "refresh lib cf env cx rnd raw meta S = (r, S')"
  obtains (refused) "\<not> is_ok r" "same_tokens (ss_db S) (ss_db S')"
      "\<And>raw' t. raw = Some raw' \<Longrightarrow> raw' \<noteq> [] \<Longrightarrow> find_token (lb_sha256 lib raw') (ss_db S) = Some t \<Longrightarrow>
         live_token t \<and> \<not> may_renew lib cf env rnd t (ss_db S)"
  | (reused) raw' t where "raw = Some raw'" "raw' \<noteq> []" "find_token (lb_sha256 lib raw') (ss_db S) = Some t"
      "\<not> live_token t" "\<not> is_ok r"
      "db_tokens (ss_db S') = db_tokens (revoke_tokens env (\<lambda>x. rt_family x = rt_family t) (ss_db S))"
      "db_next (ss_db S) \<le> db_next (ss_db S')"
  | (renewed) raw' t where "raw = Some raw'" "raw' \<noteq> []" "find_token (lb_sha256 lib raw') (ss_db S) = Some t"
      "live_token t" "is_ok r" "may_renew lib cf env rnd t (ss_db S)"
      "db_tokens (ss_db S') = db_tokens (replace_token env (r_id t) (db_next (ss_db S))
         (insert_token (next_token lib cf env rnd meta t (ss_db S)) (ss_db S)))"
      "db_next (ss_db S) < db_next (ss_db S')"
proof (cases "read_cookie raw")
  case None
  then have "\<not> is_ok r \<and> same_tokens (ss_db S) (ss_db S')"
    using assms by (auto simp: refresh_def check_refresh_def run_h same_tokens_def)
  then show ?thesis using None by (intro that(1)) (auto simp: read_cookie_def)
next
  case (Some token)
  then have raw: "raw = Some token" "token \<noteq> []" by (auto simp: read_cookie_def split: option.splits if_splits)
  show ?thesis
  proof (cases "find_token (lb_sha256 lib token) (ss_db S)")
    case None
    then have "\<not> is_ok r \<and> same_tokens (ss_db S) (ss_db S')"
      using assms Some by (auto simp: refresh_def check_refresh_def run_h same_tokens_def)
    then show ?thesis using None raw by (intro that(1)) auto
  next
    case t: (Some t)
    show ?thesis
    proof (cases "rt_revoked t = None")
      case False
      then have "\<not> is_ok r"
        "db_tokens (ss_db S') = db_tokens (revoke_tokens env (\<lambda>x. rt_family x = rt_family t) (ss_db S))"
        "db_next (ss_db S) \<le> db_next (ss_db S')"
        using assms Some t
        by (auto simp: refresh_def check_refresh_def refuse_reuse_def revoke_where_def run_h audited_def)
      then show ?thesis using False by (intro that(2) [OF raw t]) (simp_all add: live_token_def)
    next
      case True
      obtain S1 where l: "load_fresh cf env (rt_user t) S = (Inr (fresh_value cf (rt_user t) (ss_db S)), S1)"
        "ss_db S1 = ss_db S"
        using load_fresh_value [of cf env "rt_user t" S] load_keeps_db(1) [of cf env "rt_user t" S]
        by (metis prod.collapse)
      show ?thesis
      proof (cases "may_renew lib cf env rnd t (ss_db S)")
        case no: False
        have "\<not> is_ok r \<and> same_tokens (ss_db S) (ss_db S')"
          using assms Some t True l no
          by (cases "env_now env < rt_expires t"; cases "may_continue (fresh_value cf (rt_user t) (ss_db S))")
             (auto simp: refresh_def check_refresh_def rotate_token_def create_token_def token_hash_unique_def run_h
              may_renew_def same_tokens_def)
        then show ?thesis using raw t True no by (intro that(1)) (auto simp: live_token_def)
      next
        case yes: True
        then obtain v where "may_continue (fresh_value cf (rt_user t) (ss_db S)) = Some v" by (auto simp: may_renew_def)
        then have "is_ok r" "db_tokens (ss_db S') = db_tokens (replace_token env (r_id t) (db_next (ss_db S))
             (insert_token (next_token lib cf env rnd meta t (ss_db S)) (ss_db S)))"
          "db_next (ss_db S) < db_next (ss_db S')"
          using assms Some t True l yes
          by (auto simp: refresh_def check_refresh_def rotate_token_def create_token_def token_hash_unique_def run_h
              may_renew_def next_token_def audited_def insert_token_def replace_token_def)
        then show ?thesis using True yes by (intro that(3) [OF raw t]) (simp_all add: live_token_def)
      qed
    qed
  qed
qed

section \<open>The book of sessions\<close>

text \<open>
  What the tokens stand for: each issued hash belongs to a family, and a family is at most one hash
  that can be presented. A session is opened under an unused family, renewed by presenting its live
  hash, or closed.
\<close>

record session_book =
  bk_family :: "string \<Rightarrow> uuid option"
  bk_live :: "uuid \<Rightarrow> string option"

definition book_of :: "db \<Rightarrow> session_book" where
  "book_of s =
     \<lparr> bk_family = (\<lambda>h. map_option rt_family (find_token h s)),
       bk_live = (\<lambda>f. map_option rt_hash (find_first (\<lambda>t. live_token t \<and> rt_family t = f) (db_tokens s))) \<rparr>"

definition open_session :: "string \<Rightarrow> uuid \<Rightarrow> session_book \<Rightarrow> session_book" where
  "open_session h f b = b\<lparr> bk_family := (bk_family b)(h \<mapsto> f), bk_live := (bk_live b)(f \<mapsto> h) \<rparr>"

definition close_sessions :: "uuid set \<Rightarrow> session_book \<Rightarrow> session_book" where
  "close_sessions F b = b\<lparr> bk_live := (\<lambda>f. if f \<in> F then None else bk_live b f) \<rparr>"

inductive book_step :: "session_book \<Rightarrow> session_book \<Rightarrow> bool" where
  opened: "bk_family b h = None \<Longrightarrow> f \<notin> ran (bk_family b) \<Longrightarrow> book_step b (open_session h f b)"
| renewed: "bk_family b h = Some f \<Longrightarrow> bk_live b f = Some h \<Longrightarrow> bk_family b h' = None \<Longrightarrow>
    book_step b (open_session h' f b)"
| closed: "book_step b (close_sessions F b)"

text \<open>A family that has been closed is never opened again.\<close>

definition closed_family :: "uuid \<Rightarrow> session_book \<Rightarrow> bool" where
  "closed_family f b \<longleftrightarrow> f \<in> ran (bk_family b) \<and> bk_live b f = None"

lemma closed_family_step: "book_step b b' \<Longrightarrow> closed_family f b \<Longrightarrow> closed_family f b'"
proof (induction rule: book_step.induct)
  case (opened b h g)
  then show ?case by (auto simp: closed_family_def open_session_def ran_map_upd)
next
  case (renewed b h g h')
  then show ?case by (auto simp: closed_family_def open_session_def ran_map_upd)
qed (auto simp: closed_family_def close_sessions_def)

lemma closed_family_steps: "book_step\<^sup>*\<^sup>* b b' \<Longrightarrow> closed_family f b \<Longrightarrow> closed_family f b'"
  by (induction rule: rtranclp_induct) (auto dest: closed_family_step)

lemma option_eqI: "(\<And>a. x = Some a \<longleftrightarrow> y = Some a) \<Longrightarrow> x = y"
  by (cases x; cases y) auto

lemma find_token_Some: "find_token h s = Some t \<Longrightarrow> t \<in> set (db_tokens s) \<and> rt_hash t = h"
  by (auto simp: find_token_def dest: find_first_Some)

lemma find_token_None: "find_token h s = None \<longleftrightarrow> h \<notin> rt_hash ` set (db_tokens s)"
  by (auto simp: find_token_def find_first_None_iff)

lemma find_token_None_hash: "find_token h s = None \<longleftrightarrow> (\<forall>t \<in> set (db_tokens s). rt_hash t \<noteq> h)"
  by (auto simp: find_token_def find_first_None_iff)

lemma close_sessions_idle: "close_sessions {} b = b" "bk_live b f = None \<Longrightarrow> close_sessions {f} b = b"
  by (auto simp: close_sessions_def intro!: session_book.equality)

lemma tokens_ok_unique:
  assumes "tokens_ok s" "x \<in> set (db_tokens s)" "y \<in> set (db_tokens s)"
  shows "rt_hash x = rt_hash y \<Longrightarrow> x = y" "r_id x = r_id y \<Longrightarrow> x = y"
    "live_token x \<Longrightarrow> live_token y \<Longrightarrow> rt_family x = rt_family y \<Longrightarrow> x = y"
  using assms unfolding tokens_ok_def table_ok_def distinct_map by (auto dest: inj_onD)

lemma bk_family_iff:
  assumes "tokens_ok s"
  shows "bk_family (book_of s) h = Some f \<longleftrightarrow> (\<exists>t \<in> set (db_tokens s). rt_hash t = h \<and> rt_family t = f)"
proof
  assume "bk_family (book_of s) h = Some f"
  then show "\<exists>t \<in> set (db_tokens s). rt_hash t = h \<and> rt_family t = f"
    by (auto simp: book_of_def dest: find_token_Some)
next
  assume "\<exists>t \<in> set (db_tokens s). rt_hash t = h \<and> rt_family t = f"
  then obtain t where t: "t \<in> set (db_tokens s)" "rt_hash t = h" "rt_family t = f" by blast
  then have "find_token h s \<noteq> None" unfolding find_token_None by blast
  then obtain q where q: "find_token h s = Some q" by blast
  then have "q = t" using tokens_ok_unique(1) [OF assms, of q t] find_token_Some t by auto
  then show "bk_family (book_of s) h = Some f" using q t(3) by (simp add: book_of_def)
qed

lemma bk_live_iff:
  assumes "tokens_ok s"
  shows "bk_live (book_of s) f = Some h \<longleftrightarrow>
    (\<exists>t \<in> set (db_tokens s). live_token t \<and> rt_family t = f \<and> rt_hash t = h)"
proof
  assume "bk_live (book_of s) f = Some h"
  then show "\<exists>t \<in> set (db_tokens s). live_token t \<and> rt_family t = f \<and> rt_hash t = h"
    by (auto simp: book_of_def dest!: find_first_Some)
next
  assume "\<exists>t \<in> set (db_tokens s). live_token t \<and> rt_family t = f \<and> rt_hash t = h"
  then obtain t where t: "t \<in> set (db_tokens s)" "live_token t" "rt_family t = f" "rt_hash t = h" by blast
  then have "find_first (\<lambda>t. live_token t \<and> rt_family t = f) (db_tokens s) \<noteq> None" unfolding find_first_None_iff by blast
  then obtain q where q: "find_first (\<lambda>t. live_token t \<and> rt_family t = f) (db_tokens s) = Some q" by blast
  then have "q = t" using tokens_ok_unique(3) [OF assms, of q t] find_first_Some [OF q] t by auto
  then show "bk_live (book_of s) f = Some h" using q t(4) by (simp add: book_of_def)
qed

lemma book_eqI:
  assumes "tokens_ok s"
    and "\<And>h f. bk_family b h = Some f \<longleftrightarrow> (\<exists>t \<in> set (db_tokens s). rt_hash t = h \<and> rt_family t = f)"
    and "\<And>h f. bk_live b f = Some h \<longleftrightarrow> (\<exists>t \<in> set (db_tokens s). live_token t \<and> rt_family t = f \<and> rt_hash t = h)"
  shows "book_of s = b"
proof (rule session_book.equality)
  show "bk_family (book_of s) = bk_family b"
    by (intro ext option_eqI) (simp add: bk_family_iff [OF assms(1)] assms(2))
  show "bk_live (book_of s) = bk_live b"
    by (intro ext option_eqI) (simp add: bk_live_iff [OF assms(1)] assms(3))
qed simp

text \<open>The writes of the service, read in the book.\<close>

lemma book_of_insert:
  assumes ok: "tokens_ok s" and ok': "tokens_ok (insert_token t s)"
    and "find_token (rt_hash t) s = None" "rt_family t = db_next s" "live_token t"
  shows "book_of (insert_token t s) = open_session (rt_hash t) (rt_family t) (book_of s)"
    and "book_step (book_of s) (book_of (insert_token t s))"
proof -
  have tok: "set (db_tokens (insert_token t s)) = insert t (set (db_tokens s))"
    by (simp add: insert_token_def insert_row_def)
  have fresh: "\<forall>x \<in> set (db_tokens s). rt_hash x \<noteq> rt_hash t \<and> rt_family x \<noteq> rt_family t"
  proof
    fix x assume x: "x \<in> set (db_tokens s)"
    then have "rt_family x < db_next s" using assms(1) by (simp add: tokens_ok_def table_ok_def)
    moreover have "rt_hash x \<in> rt_hash ` set (db_tokens s)" using x by (rule imageI)
    ultimately show "rt_hash x \<noteq> rt_hash t \<and> rt_family x \<noteq> rt_family t"
      using assms(3,4) unfolding find_token_None by auto
  qed
  show eq: "book_of (insert_token t s) = open_session (rt_hash t) (rt_family t) (book_of s)"
  proof (rule book_eqI [OF ok'])
    show "bk_family (open_session (rt_hash t) (rt_family t) (book_of s)) h = Some f \<longleftrightarrow>
        (\<exists>x \<in> set (db_tokens (insert_token t s)). rt_hash x = h \<and> rt_family x = f)" for h f
      using fresh by (auto simp: open_session_def tok bk_family_iff [OF ok])
    show "bk_live (open_session (rt_hash t) (rt_family t) (book_of s)) f = Some h \<longleftrightarrow>
        (\<exists>x \<in> set (db_tokens (insert_token t s)). live_token x \<and> rt_family x = f \<and> rt_hash x = h)" for h f
      using fresh assms(5) by (auto simp: open_session_def tok bk_live_iff [OF ok])
  qed
  have "bk_family (book_of s) (rt_hash t) = None" using assms(3) by (simp add: book_of_def)
  moreover have "rt_family t \<notin> ran (bk_family (book_of s))"
    using fresh by (auto simp: ran_def bk_family_iff [OF ok])
  ultimately show "book_step (book_of s) (book_of (insert_token t s))" unfolding eq by (rule opened)
qed

lemma book_of_revoke:
  assumes ok: "tokens_ok s" and ok': "tokens_ok s'" and s': "db_tokens s' = db_tokens (revoke_tokens env P s)"
  shows "book_of s' = close_sessions (rt_family ` {t \<in> set (db_tokens s). live_token t \<and> P t}) (book_of s)"
proof (rule book_eqI [OF ok'])
  let ?g = "\<lambda>t. if P t \<and> rt_revoked t = None then t\<lparr> rt_revoked := Some (env_now env) \<rparr> else t"
  have g: "rt_hash (?g t) = rt_hash t" "rt_family (?g t) = rt_family t" "live_token (?g t) \<longleftrightarrow> live_token t \<and> \<not> P t" for t
    by (auto simp: live_token_def)
  have tok: "(\<exists>x \<in> set (db_tokens s'). Q x) \<longleftrightarrow> (\<exists>t \<in> set (db_tokens s). Q (?g t))" for Q
    unfolding s' revoke_tokens_tokens set_map by blast
  show "bk_family (close_sessions (rt_family ` {t \<in> set (db_tokens s). live_token t \<and> P t}) (book_of s)) h = Some f \<longleftrightarrow>
      (\<exists>x \<in> set (db_tokens s'). rt_hash x = h \<and> rt_family x = f)" for h f
    unfolding tok g by (simp add: close_sessions_def bk_family_iff [OF ok])
  have "(\<exists>t \<in> set (db_tokens s). (live_token t \<and> \<not> P t) \<and> rt_family t = f \<and> rt_hash t = h) \<longleftrightarrow>
      f \<notin> rt_family ` {t \<in> set (db_tokens s). live_token t \<and> P t} \<and>
      (\<exists>t \<in> set (db_tokens s). live_token t \<and> rt_family t = f \<and> rt_hash t = h)" for h f
    using tokens_ok_unique(3) [OF ok] by (auto simp: image_iff)
  then show "bk_live (close_sessions (rt_family ` {t \<in> set (db_tokens s). live_token t \<and> P t}) (book_of s)) f = Some h \<longleftrightarrow>
      (\<exists>x \<in> set (db_tokens s'). live_token x \<and> rt_family x = f \<and> rt_hash x = h)" for h f
    unfolding tok g by (simp add: close_sessions_def bk_live_iff [OF ok])
qed

text \<open>A renewal leaves the family of the token with one live token, the next one.\<close>

definition rotated :: "env \<Rightarrow> refresh_token \<Rightarrow> refresh_token \<Rightarrow> db \<Rightarrow> refresh_token list" where
  "rotated env t n s = db_tokens (replace_token env (r_id t) (r_id n) (insert_token n s))"

lemma rotated_tokens:
  assumes "tokens_ok s" "t \<in> set (db_tokens s)" "r_id n = db_next s"
  shows "rotated env t n s = map (spent env (r_id t) (r_id n)) (db_tokens s) @ [n]"
proof -
  have "r_id t < r_id n" using assms by (auto simp: tokens_ok_def table_ok_def)
  then show ?thesis
    by (simp add: rotated_def replace_token_tokens insert_token_def insert_row_def spent_def has_id_def)
qed

lemma rotated_member:
  assumes "x \<in> set (rotated env t n s)"
  obtains y where "y \<in> set (db_tokens s)" "rt_family x = rt_family y" "live_token x \<Longrightarrow> live_token y" "rt_hash x = rt_hash y"
    | "rt_family x = rt_family n" "rt_hash x = rt_hash n"
proof -
  let ?g = "spent env (r_id t) (r_id n)"
  have "x \<in> ?g ` (insert n (set (db_tokens s)))"
    using assms by (simp add: rotated_def replace_token_tokens insert_token_def insert_row_def)
  then obtain y where y: "x = ?g y" "y = n \<or> y \<in> set (db_tokens s)" by blast
  from y(2) show ?thesis
  proof
    assume "y = n"
    then show ?thesis using y(1) by (intro that(2)) simp_all
  next
    assume "y \<in> set (db_tokens s)"
    then show ?thesis using y(1) by (intro that(1) [of y]) simp_all
  qed
qed

lemma rotated_ok:
  assumes ok: "tokens_ok s" and t: "t \<in> set (db_tokens s)" "live_token t"
    and n: "r_id n = db_next s" "rt_family n = rt_family t" "find_token (rt_hash n) s = None" "live_token n"
    and s': "db_tokens s' = rotated env t n s" "db_next s < db_next s'"
  shows "tokens_ok s'"
proof -
  let ?g = "spent env (r_id t) (r_id n)"
  let ?s = "s\<lparr> db_tokens := map ?g (db_tokens s) \<rparr>"
  have ok': "tokens_ok ?s" by (rule tokens_ok_revokes [OF ok revokes_intros(2) [of env "r_id t" "r_id n"]]) simp_all
  have "tokens_ok (insert_token n ?s)"
  proof (rule tokens_ok_insert [OF ok'])
    show "rt_family n \<le> db_next ?s" using ok t(1) n(2) by (auto simp: tokens_ok_def table_ok_def)
    have "rt_hash ` set (db_tokens ?s) = rt_hash ` set (db_tokens s)" by (simp add: image_image)
    then show "find_token (rt_hash n) ?s = None" using n(3) unfolding find_token_None by simp
    fix x assume x: "x \<in> set (db_tokens ?s)" "live_token x"
    then obtain y where y: "y \<in> set (db_tokens s)" "x = ?g y" by auto
    then have "r_id y \<noteq> r_id t" "live_token y" using x(2) by simp_all
    then have "rt_family y \<noteq> rt_family t" using tokens_ok_unique(3) [OF ok y(1) t(1)] t(2) by auto
    then show "rt_family x \<noteq> rt_family n" using y(2) n(2) by simp
  qed (use n(1) in simp)
  moreover have "same_tokens (insert_token n ?s) s'"
  proof -
    have "db_tokens (insert_token n ?s) = map ?g (db_tokens s) @ [n]" "db_next (insert_token n ?s) = db_next s + 1"
      by (simp_all add: insert_token_def insert_row_def)
    moreover have "db_tokens s' = map ?g (db_tokens s) @ [n]"
      unfolding s'(1) by (rule rotated_tokens [OF ok t(1) n(1)])
    ultimately show ?thesis using s'(2) unfolding same_tokens_def by simp
  qed
  ultimately show ?thesis by (rule tokens_ok_same [rotated])
qed

lemma next_token_fields [simp]:
  "r_id (next_token lib cf env rnd meta t s) = db_next s" "rt_family (next_token lib cf env rnd meta t s) = rt_family t"
  "rt_hash (next_token lib cf env rnd meta t s) = lb_sha256 lib (ar_token rnd)"
  "live_token (next_token lib cf env rnd meta t s)" "rt_user (next_token lib cf env rnd meta t s) = rt_user t"
  by (simp_all add: next_token_def live_token_def)

section \<open>Every call follows the book\<close>

text \<open>What a call does to the sessions: the tokens stay sound, and the book makes some steps.\<close>

definition follows_book :: "auth_state \<Rightarrow> auth_state \<Rightarrow> bool" where
  "follows_book S S' \<longleftrightarrow> (tokens_ok (ss_db S) \<longrightarrow>
     tokens_ok (ss_db S') \<and> book_step\<^sup>*\<^sup>* (book_of (ss_db S)) (book_of (ss_db S')))"

interpretation sessions: frame follows_book
  by unfold_locales (auto simp: follows_book_def)

lemma book_of_same: "same_tokens s s' \<Longrightarrow> book_of s' = book_of s"
  by (simp add: book_of_def find_token_def same_tokens_def)

lemma frame_same_tokens: "same_tokens (ss_db S) (ss_db S') \<Longrightarrow> follows_book S S'"
  using tokens_ok_same book_of_same unfolding follows_book_def by (metis rtranclp.rtrancl_refl)

lemma frame_on_db: "keeps same_tokens m \<Longrightarrow> keeps follows_book (on_db m)"
  unfolding keeps_def on_db_state by (auto intro: frame_same_tokens)

lemma audit_same_tokens: "keeps same_tokens (audit_record ac env inp)"
  by (simp add: keeps_def run_h same_tokens_def audited_def)

lemma session_events:
  "keeps follows_book (user_event cx env u action metadata)"
  "keeps follows_book (account_event ac env action j)"
  "keeps follows_book (on_db (audit_record ac env inp))"
  unfolding user_event_def account_event_def by (intro frame_on_db audit_same_tokens)+

lemma session_writes:
  "keeps follows_book (write_user j g)"
  "keeps follows_book (write_account ac j g)"
  "keeps follows_book (on_db (create_h mk insert_user))"
  unfolding write_user_def write_account_def
  by (intro frame_on_db tokens.keeps_modify tokens.keeps_create; simp add: same_tokens_def set_user_def insert_user_def)+

lemma session_loads:
  "keeps follows_book (load_fresh cf env j)"
  "keeps follows_book (load_user cf env j)"
  "keeps follows_book (invalidate j)"
  by (simp_all add: keeps_def load_keeps_db frame_same_tokens same_tokens_def)

lemma session_reads:
  "keeps follows_book (on_db (gets_h h))"
  "keeps follows_book (on_db (demand_h d e))"
  "keeps follows_book (on_db (check_state_h c e))"
  by (intro sessions.keeps_reads reads_on_db reads_gets reads_demand reads_check_state)+

lemma follows_revoke:
  assumes "db_tokens (ss_db S') = db_tokens (revoke_tokens env P (ss_db S))" "db_next (ss_db S) \<le> db_next (ss_db S')"
  shows "follows_book S S'"
proof -
  have ok: "tokens_ok (ss_db S')" if "tokens_ok (ss_db S)"
    by (rule tokens_ok_revokes [OF that revokes_intros(1) assms(1) [unfolded revoke_tokens_tokens] assms(2)])
  then show ?thesis
    using book_of_revoke [OF _ _ assms(1)] unfolding follows_book_def by (metis book_step.closed r_into_rtranclp)
qed

lemma session_revoke: "keeps follows_book (revoke_where env P)"
  unfolding keeps_def revoke_where_def on_db_state by (auto simp: run_h intro: follows_revoke)

lemma session_create: "keeps follows_book (create_token env tn u h None agent ip expires)"
proof -
  have "follows_book S (S\<lparr> ss_db := insert_token t (ss_db S) \<rparr>)"
    if "find_token h (ss_db S) = None" "rt_hash t = h" "r_id t = db_next (ss_db S)" "rt_family t = db_next (ss_db S)"
      "live_token t" for S t
  proof -
    have "tokens_ok (insert_token t (ss_db S))" if ok: "tokens_ok (ss_db S)"
    proof -
      have "rt_family x \<noteq> rt_family t" if "x \<in> set (db_tokens (ss_db S))" for x
        using that ok \<open>rt_family t = _\<close> by (auto simp: tokens_ok_def table_ok_def)
      then show ?thesis
        using \<open>find_token h (ss_db S) = None\<close> \<open>rt_hash t = h\<close> \<open>r_id t = _\<close> \<open>rt_family t = _\<close>
        by (intro tokens_ok_insert [OF ok]) simp_all
    qed
    then show ?thesis
      using book_of_insert(2) [of "ss_db S" t] that by (auto simp: follows_book_def)
  qed
  then show ?thesis
    unfolding keeps_def create_token_def on_db_state
    by (auto simp: run_h token_hash_unique_def frame_same_tokens same_tokens_def live_token_def)
qed

lemmas session_steps = session_events session_writes session_loads session_reads session_revoke session_create
  sessions.keeps_intros

section \<open>A refresh, exactly\<close>

text \<open>
  Presenting a hash: an unknown one changes nothing, one that is not the live hash of its family
  closes the family, and the live one is exchanged for the new hash, if the rest allows it.
\<close>

definition present_hash :: "bool \<Rightarrow> string \<Rightarrow> string \<Rightarrow> session_book \<Rightarrow> bool \<times> session_book" where
  "present_hash allowed h h' b = (case bk_family b h of None \<Rightarrow> (False, b)
     | Some f \<Rightarrow> if bk_live b f \<noteq> Some h then (False, close_sessions {f} b)
                 else if allowed then (True, open_session h' f b) else (False, b))"

definition renewable :: "auth_library \<Rightarrow> auth_config \<Rightarrow> env \<Rightarrow> auth_random \<Rightarrow> string \<Rightarrow> db \<Rightarrow> bool" where
  "renewable lib cf env rnd raw s = (case find_token (lb_sha256 lib raw) s of None \<Rightarrow> False
     | Some t \<Rightarrow> may_renew lib cf env rnd t s)"

lemma book_of_rotated:
  assumes ok: "tokens_ok s" and ok': "tokens_ok s'" and t: "t \<in> set (db_tokens s)" "live_token t"
    and n: "r_id n = db_next s" "rt_family n = rt_family t" "find_token (rt_hash n) s = None" "live_token n"
    and s': "db_tokens s' = rotated env t n s"
  shows "book_of s' = open_session (rt_hash n) (rt_family t) (book_of s)"
proof (rule book_eqI [OF ok'])
  let ?g = "spent env (r_id t) (r_id n)"
  have tok: "(\<exists>x \<in> set (db_tokens s'). Q x) \<longleftrightarrow> Q n \<or> (\<exists>x \<in> set (db_tokens s). Q (?g x))" for Q
    unfolding s' rotated_tokens [OF ok t(1) n(1)] by auto
  have hash: "\<forall>x \<in> set (db_tokens s). rt_hash x \<noteq> rt_hash n" using n(3) unfolding find_token_None_hash .
  show "bk_family (open_session (rt_hash n) (rt_family t) (book_of s)) h = Some f \<longleftrightarrow>
      (\<exists>x \<in> set (db_tokens s'). rt_hash x = h \<and> rt_family x = f)" for h f
    unfolding tok using hash n(2) by (auto simp: open_session_def bk_family_iff [OF ok])
  have other: "rt_family x \<noteq> rt_family t" if "x \<in> set (db_tokens s)" "live_token x" "r_id x \<noteq> r_id t" for x
    using tokens_ok_unique(3) [OF ok that(1) t(1)] that t(2) by auto
  have same: "r_id x \<noteq> r_id t" if "rt_family x \<noteq> rt_family t" "x \<in> set (db_tokens s)" for x
    using tokens_ok_unique(2) [OF ok that(2) t(1)] that(1) by auto
  show "bk_live (open_session (rt_hash n) (rt_family t) (book_of s)) f = Some h \<longleftrightarrow>
      (\<exists>x \<in> set (db_tokens s'). live_token x \<and> rt_family x = f \<and> rt_hash x = h)" for h f
    unfolding tok using n(2,4) other same by (auto simp: open_session_def bk_live_iff [OF ok])
qed

lemma refresh_book:
  assumes ok: "tokens_ok (ss_db S)" and run: "refresh lib cf env cx rnd (Some raw) meta S = (r, S')" "raw \<noteq> []"
  shows "(is_ok r, book_of (ss_db S')) = present_hash (renewable lib cf env rnd raw (ss_db S)) (lb_sha256 lib raw)
      (lb_sha256 lib (ar_token rnd)) (book_of (ss_db S)) \<and> tokens_ok (ss_db S')"
  using run(1)
proof (cases rule: refresh_cases)
  case refused
  have ok': "tokens_ok (ss_db S')" using refused(2) ok by (rule tokens_ok_same)
  have "present_hash (renewable lib cf env rnd raw (ss_db S)) (lb_sha256 lib raw) h' (book_of (ss_db S)) =
      (False, book_of (ss_db S))" for h'
  proof (cases "find_token (lb_sha256 lib raw) (ss_db S)")
    case None
    then show ?thesis by (simp add: present_hash_def book_of_def)
  next
    case (Some t)
    then have t: "live_token t" "\<not> may_renew lib cf env rnd t (ss_db S)" using refused(3) run(2) by blast+
    then have "bk_live (book_of (ss_db S)) (rt_family t) = Some (lb_sha256 lib raw)"
      using find_token_Some [OF Some] unfolding bk_live_iff [OF ok] by blast
    then show ?thesis using Some t by (simp add: present_hash_def book_of_def renewable_def)
  qed
  then show ?thesis using refused(1) ok' book_of_same [OF refused(2)] by simp
next
  case (reused raw' t)
  have ok': "tokens_ok (ss_db S')"
    by (rule tokens_ok_revokes [OF ok revokes_intros(1) reused(6) [unfolded revoke_tokens_tokens] reused(7)])
  have raw: "raw' = raw" using reused(1) by simp
  note t = find_token_Some [OF reused(3) [unfolded raw]]
  have none: "bk_live (book_of (ss_db S)) (rt_family t) \<noteq> Some (lb_sha256 lib raw)"
    unfolding bk_live_iff [OF ok] using tokens_ok_unique(1) [OF ok _ conjunct1 [OF t]] t reused(4) by auto
  let ?F = "rt_family ` {x \<in> set (db_tokens (ss_db S)). live_token x \<and> rt_family x = rt_family t}"
  have "close_sessions ?F (book_of (ss_db S)) = close_sessions {rt_family t} (book_of (ss_db S))"
  proof (cases "?F = {}")
    case True
    then have "bk_live (book_of (ss_db S)) (rt_family t) = None"
      by (intro option_eqI) (auto simp: bk_live_iff [OF ok])
    then show ?thesis unfolding True by (simp add: close_sessions_idle)
  next
    case False
    then have "?F = {rt_family t}" by auto
    then show ?thesis by (rule arg_cong)
  qed
  then show ?thesis
    using book_of_revoke [OF ok ok' reused(6)] reused(3,5) none ok' unfolding raw
    by (simp add: present_hash_def book_of_def)
next
  case (renewed raw' t)
  let ?n = "next_token lib cf env rnd meta t (ss_db S)"
  have raw: "raw' = raw" using renewed(1) by simp
  note t = find_token_Some [OF renewed(3)]
  have eq: "db_tokens (ss_db S') = rotated env t ?n (ss_db S)" using renewed(7) by (simp add: rotated_def)
  have ok': "tokens_ok (ss_db S')"
    by (rule rotated_ok [OF ok _ renewed(4) _ _ _ _ eq renewed(8)]) (use t renewed(6) in \<open>simp_all add: may_renew_def\<close>)
  have "book_of (ss_db S') = open_session (rt_hash ?n) (rt_family t) (book_of (ss_db S))"
    by (rule book_of_rotated [OF ok ok' _ renewed(4) _ _ _ _ eq]) (use t renewed(6) in \<open>simp_all add: may_renew_def\<close>)
  moreover have "bk_live (book_of (ss_db S)) (rt_family t) = Some (lb_sha256 lib raw)"
    using t renewed(4) raw unfolding bk_live_iff [OF ok] by blast
  ultimately show ?thesis
    using renewed(3,5,6) ok' unfolding raw by (simp add: present_hash_def book_of_def renewable_def)
qed

text \<open>
  C5. The refresh of a session refines the presentation of a hash in the book of sessions: it succeeds
  exactly when the hash is the live one of its family and the token, the account and the tenant allow
  it; then the new hash takes its place; a hash that was replaced before closes the whole family; and
  nothing else in the book changes. The tokens stay sound.
\<close>

theorem refresh_refines_book:
  assumes "tokens_ok (ss_db S)" "refresh lib cf env cx rnd (Some raw) meta S = (r, S')" "raw \<noteq> []"
  shows "(is_ok r, book_of (ss_db S')) = present_hash (renewable lib cf env rnd raw (ss_db S)) (lb_sha256 lib raw)
      (lb_sha256 lib (ar_token rnd)) (book_of (ss_db S)) \<and> tokens_ok (ss_db S')"
  using assms by (rule refresh_book)

lemma refresh_frame: "keeps follows_book (refresh lib cf env cx rnd raw meta)"
  unfolding keeps_def
proof
  fix S
  obtain r S' where run: "refresh lib cf env cx rnd raw meta S = (r, S')" by (cases "refresh lib cf env cx rnd raw meta S")
  have "follows_book S S'"
    using run
  proof (cases rule: refresh_cases)
    case refused
    then show ?thesis by (intro frame_same_tokens)
  next
    case (reused raw' t)
    then show ?thesis by (intro follows_revoke)
  next
    case (renewed raw' t)
    let ?b = "book_of (ss_db S)"
    show ?thesis unfolding follows_book_def
    proof
      assume ok: "tokens_ok (ss_db S)"
      note b = refresh_book [OF ok run [unfolded renewed(1)] renewed(2)]
      note t = find_token_Some [OF renewed(3)]
      have "bk_live ?b (rt_family t) = Some (lb_sha256 lib raw')" "bk_family ?b (lb_sha256 lib raw') = Some (rt_family t)"
        using t renewed(3,4) unfolding bk_live_iff [OF ok] by (blast, simp add: book_of_def)
      moreover have "bk_family ?b (lb_sha256 lib (ar_token rnd)) = None"
        using renewed(6) by (simp add: may_renew_def book_of_def)
      ultimately have "book_step ?b (open_session (lb_sha256 lib (ar_token rnd)) (rt_family t) ?b)"
        by (intro book_step.renewed)
      moreover have "book_of (ss_db S') = open_session (lb_sha256 lib (ar_token rnd)) (rt_family t) ?b"
        using b renewed(3,5,6) \<open>bk_live ?b (rt_family t) = _\<close> \<open>bk_family ?b (lb_sha256 lib raw') = _\<close>
        by (simp add: present_hash_def renewable_def)
      ultimately show "tokens_ok (ss_db S') \<and> book_step\<^sup>*\<^sup>* ?b (book_of (ss_db S'))" using b by auto
    qed
  qed
  then show "follows_book S (snd (refresh lib cf env cx rnd raw meta S))" using run by simp
qed

lemma issue_session_frame: "keeps follows_book (issue_session lib cf env cx rnd j meta method)"
  unfolding issue_session_def by (intro session_steps)

lemma login_frame: "keeps follows_book (login lib cf env cx rnd dto meta)"
  unfolding login_def login_account_def register_failed_login_def Let_def by (intro issue_session_frame session_steps)

lemma check_mfa_code_frame: "keeps follows_book (check_mfa_code lib env cx u code)"
  unfolding check_mfa_code_def use_recovery_code_def decrypt_secret_def Let_def by (intro session_steps)

lemma self_service_frame:
  "keeps follows_book (verify_mfa lib cf env cx rnd token code meta)"
  "keeps follows_book (mfa_setup lib ac env rnd j)"
  "keeps follows_book (mfa_enable lib ac env rnd j code)"
  "keeps follows_book (mfa_disable lib ac env cx j code)"
  "keeps follows_book (change_password lib ac env rnd j current new cookie)"
  "keeps follows_book (me cf env j)"
  "keeps follows_book (guarded lib cf env ep req cx)"
  "keeps follows_book (logout lib env cx raw who)"
  unfolding verify_mfa_def mfa_setup_def mfa_enable_def mfa_disable_def change_password_def own_account_def
    decrypt_secret_def revoke_all_sessions_def me_def guarded_def jwt_guard_def refuse_unless_public_def logout_def Let_def
  by (intro check_mfa_code_frame issue_session_frame session_steps)+

lemma administration_frame:
  "keeps follows_book (create_user ac env rnd cdto)"
  "keeps follows_book (update_user ac env j udto)"
  "keeps follows_book (set_roles ac env j roles)"
  "keeps follows_book (reset_password ac env rnd j)"
  "keeps follows_book (reset_mfa ac env j)"
  unfolding create_user_def update_user_def set_roles_def reset_password_def reset_mfa_def get_user_def account_def Let_def
  by (intro session_steps)+

lemma call_account_frame: "follows_book S (call_account lib cf x c S)"
proof -
  have run: "keeps follows_book m \<Longrightarrow> follows_book S (snd (m S))" for m :: "'a auth_op" by (simp add: keeps_def)
  show ?thesis
    by (cases c) (simp_all add: run login_frame self_service_frame refresh_frame administration_frame)
qed

lemma call_accounts_frame: "follows_book S (call_accounts lib cf calls S)"
proof (induction calls arbitrary: S)
  case Nil
  show ?case by (simp add: call_accounts_def sessions.refl)
next
  case (Cons c calls)
  obtain x a where c: "c = (x, a)" by (cases c)
  have "follows_book S (call_accounts lib cf calls (call_account lib cf x a S))"
    by (rule sessions.trans [OF call_account_frame Cons.IH])
  then show ?case by (simp add: c call_accounts_def)
qed

section \<open>The end of a session\<close>

lemma not_live_refused:
  assumes "find_token (lb_sha256 lib raw) (ss_db S) = Some t" "\<not> live_token t"
  shows "\<not> is_ok (fst (refresh lib cf env cx rnd (Some raw) meta S))"
proof -
  obtain r S' where run: "refresh lib cf env cx rnd (Some raw) meta S = (r, S')"
    by (cases "refresh lib cf env cx rnd (Some raw) meta S")
  have "\<not> is_ok r"
    using run
  proof (cases rule: refresh_cases)
    case (renewed raw' q)
    then show ?thesis using assms by simp
  qed
  then show ?thesis using run by simp
qed

text \<open>
  C6. A refresh token that was replaced and is presented again ends its session for good: the request
  is refused, and after any further calls by anybody no token of the family is live and none of them
  is renewed. (A stolen token and its successor cannot both stay in use.)
\<close>

theorem reused_token_ends_session:
  assumes "tokens_ok (ss_db S)" "find_token (lb_sha256 lib raw) (ss_db S) = Some t" "\<not> live_token t" "raw \<noteq> []"
    and "refresh lib cf env cx rnd (Some raw) meta S = (r, S')" "later = call_accounts lib cf calls S'"
  shows "\<not> is_ok r \<and> (\<forall>x \<in> set (db_tokens (ss_db later)). rt_family x = rt_family t \<longrightarrow> \<not> live_token x) \<and>
    (\<forall>env cx rnd raw meta x. find_token (lb_sha256 lib raw) (ss_db later) = Some x \<and> rt_family x = rt_family t \<longrightarrow>
       \<not> is_ok (fst (refresh lib cf env cx rnd (Some raw) meta later)))"
proof -
  note b = refresh_book [OF assms(1,5,4)]
  note t = find_token_Some [OF assms(2)]
  have "bk_live (book_of (ss_db S)) (rt_family t) \<noteq> Some (lb_sha256 lib raw)"
    unfolding bk_live_iff [OF assms(1)] using tokens_ok_unique(1) [OF assms(1) _ conjunct1 [OF t]] t assms(3) by auto
  then have eq: "is_ok r = False" "book_of (ss_db S') = close_sessions {rt_family t} (book_of (ss_db S))"
    using b assms(2) by (simp_all add: present_hash_def book_of_def)
  have "bk_family (book_of (ss_db S)) (lb_sha256 lib raw) = Some (rt_family t)" using assms(2) by (simp add: book_of_def)
  then have "closed_family (rt_family t) (book_of (ss_db S'))"
    unfolding eq by (auto simp: closed_family_def close_sessions_def ran_def)
  moreover have "tokens_ok (ss_db later)" "book_step\<^sup>*\<^sup>* (book_of (ss_db S')) (book_of (ss_db later))"
    using call_accounts_frame [of S' lib cf calls] b unfolding assms(6) follows_book_def by blast+
  ultimately have closed: "closed_family (rt_family t) (book_of (ss_db later))" "tokens_ok (ss_db later)"
    using closed_family_steps by blast+
  have dead: "\<not> live_token x" if "x \<in> set (db_tokens (ss_db later))" "rt_family x = rt_family t" for x
    using closed(1) bk_live_iff [OF closed(2), of "rt_family t" "rt_hash x"] that by (auto simp: closed_family_def)
  then have "\<not> is_ok (fst (refresh lib cf env cx rnd (Some raw) meta later))"
    if "find_token (lb_sha256 lib raw) (ss_db later) = Some x" "rt_family x = rt_family t" for env cx rnd raw meta x
    using that find_token_Some [OF that(1)] by (intro not_live_refused) auto
  then show ?thesis using dead eq(1) by blast
qed

section \<open>Two refreshes at once\<close>

text \<open>
  C29. The checks of a refresh and its writes are separate calls of the database. When two requests
  with the same token have both passed the checks before either writes, both are served, and the
  session has two live tokens: the family is forked, and the reuse goes unnoticed.
\<close>

theorem concurrent_refresh_forks_session:
  assumes "tokens_ok (ss_db S)" "check_refresh lib cf env cx (Some raw) S = (Inr (t, u), S1)"
    and "check_refresh lib cf env' cx' (Some raw) S1 = (Inr (t', u'), S2)"
    and "find_token h (ss_db S) = None" "h = lb_sha256 lib (ar_token rnd)"
    and "find_token h' (ss_db S) = None" "h' = lb_sha256 lib (ar_token rnd')" "h \<noteq> h'"
    and "rotate_token lib cf env cx rnd meta t u S2 = (r, S3)"
    and "rotate_token lib cf env' cx' rnd' meta' t' u' S3 = (r', S4)"
  shows "is_ok r \<and> is_ok r' \<and>
    (\<exists>x \<in> set (db_tokens (ss_db S4)). \<exists>y \<in> set (db_tokens (ss_db S4)). rt_hash x = h \<and> rt_hash y = h' \<and>
       rt_family x = rt_family t \<and> rt_family y = rt_family t \<and> live_token x \<and> live_token y)"
proof -
  have same: "ss_db S' = ss_db S \<and> find_token (lb_sha256 lib raw) (ss_db S) = Some q \<and> live_token q"
    if "check_refresh lib cf e c (Some raw) S = (Inr (q, v), S')" for e c S q v S'
    using that load_keeps_db(1) [of cf e _ S]
    by (auto simp: check_refresh_def refuse_reuse_def revoke_where_def run_h live_token_def read_cookie_def
        split: option.splits if_splits sum.splits prod.splits) (metis snd_conv)+
  have t: "ss_db S2 = ss_db S" "t' = t" "live_token t" "t \<in> set (db_tokens (ss_db S))"
    using same [OF assms(2)] same [OF assms(3)] find_token_Some by auto
  have rot: "is_ok r0 \<and> db_tokens (ss_db S') = rotated e q n (ss_db S0) \<and> rt_hash n = lb_sha256 lib (ar_token rn) \<and>
      rt_family n = rt_family q \<and> live_token n \<and> r_id n = db_next (ss_db S0) \<and> db_next (ss_db S0) < db_next (ss_db S')"
    if "rotate_token lib cf e c rn m q v S0 = (r0, S')" "find_token (lb_sha256 lib (ar_token rn)) (ss_db S0) = None"
      "n = next_token lib cf e rn m q (ss_db S0)" for e c rn m q v S0 r0 S' n
    using that by (auto simp: rotate_token_def create_token_def token_hash_unique_def run_h next_token_def rotated_def
        live_token_def audited_def insert_token_def replace_token_def)
  define n where "n = next_token lib cf env rnd meta t (ss_db S2)"
  have n: "is_ok r" "db_tokens (ss_db S3) = rotated env t n (ss_db S)" "rt_hash n = h" "rt_family n = rt_family t"
    "live_token n" "r_id n = db_next (ss_db S)" "db_next (ss_db S) < db_next (ss_db S3)"
    using rot [OF assms(9) _ n_def] assms(4,5) t(1) by simp_all
  have s3: "db_tokens (ss_db S3) = map (spent env (r_id t) (r_id n)) (db_tokens (ss_db S)) @ [n]"
    unfolding n(2) by (rule rotated_tokens [OF assms(1) t(4) n(6)])
  have free: "find_token h' (ss_db S3) = None"
    using assms(6,8) n(3) unfolding find_token_None_hash s3 by auto
  define m where "m = next_token lib cf env' rnd' meta' t (ss_db S3)"
  have m: "is_ok r'" "db_tokens (ss_db S4) = rotated env' t m (ss_db S3)" "rt_hash m = h'" "rt_family m = rt_family t"
    "live_token m" "r_id m = db_next (ss_db S3)"
    using rot [OF assms(10) _ m_def [folded t(2)]] free assms(7) t(2) by simp_all
  have lt: "r_id t < r_id n" using assms(1) t(4) n(6) by (auto simp: tokens_ok_def table_ok_def)
  have "set (db_tokens (ss_db S4)) = spent env' (r_id t) (r_id m) ` (set (db_tokens (ss_db S3)) \<union> {m})"
    unfolding m(2) rotated_def replace_token_tokens by (simp add: insert_token_def insert_row_def)
  then have "spent env' (r_id t) (r_id m) n \<in> set (db_tokens (ss_db S4))" "spent env' (r_id t) (r_id m) m \<in> set (db_tokens (ss_db S4))"
    unfolding s3 by auto
  then show ?thesis
    using n m lt by (intro conjI bexI [of _ "spent env' (r_id t) (r_id m) n"] bexI [of _ "spent env' (r_id t) (r_id m) m"]) simp_all
qed

section \<open>The lockout\<close>

text \<open>A login compares the stored password of account \<open>i\<close> with what was typed.\<close>

definition compares :: "uuid \<Rightarrow> time \<Rightarrow> login_dto \<Rightarrow> db \<Rightarrow> bool" where
  "compares i now dto s = (case find_login_user dto s of None \<Rightarrow> False
     | Some u \<Rightarrow> r_id u = i \<and> u_provider u = LOCAL \<and> truthy (u_password_hash u) \<and> \<not> login_denied u s \<and> \<not> locked now u)"

type_synonym login_attempt = "account_env \<times> login_dto"

definition attempt :: "auth_library \<Rightarrow> auth_config \<Rightarrow> login_attempt \<Rightarrow> auth_state \<Rightarrow> auth_state" where
  "attempt lib cf a S = snd (login lib cf (ax_env (fst a)) (ax_context (fst a)) (ax_random (fst a)) (snd a) (ax_meta (fst a)) S)"

fun compared :: "auth_library \<Rightarrow> auth_config \<Rightarrow> uuid \<Rightarrow> login_attempt list \<Rightarrow> auth_state \<Rightarrow> nat" where
  "compared lib cf i [] S = 0"
| "compared lib cf i (a # as) S =
     (if compares i (env_now (ax_env (fst a))) (snd a) (ss_db S) then 1 else 0) + compared lib cf i as (attempt lib cf a S)"

lemma issue_session_users: "db_users (ss_db (snd (issue_session lib cf env cx rnd i meta method S))) = db_users (ss_db S)"
  by (auto simp: issue_session_def load_fresh_def create_token_def token_hash_unique_def insert_token_def run_h audited_def
      Let_def split: option.split)

lemma login_users:
  "db_users (ss_db (snd (login lib cf env cx rnd dto meta S))) =
    (case find_login_user dto (ss_db S) of None \<Rightarrow> db_users (ss_db S)
     | Some u \<Rightarrow> if compares (r_id u) (env_now env) dto (ss_db S)
         then update_rows (has_id (r_id u))
           (if verify_password lib (u_password_hash u) (li_password dto) then admitted (env_now env) u
            else failed_login (env_now env) u) (db_users (ss_db S))
         else db_users (ss_db S))"
proof (cases "find_login_user dto (ss_db S)")
  case None
  then show ?thesis by (simp add: login_def run_h)
next
  case (Some u)
  have mfa: "db_users (ss_db (snd (bind_h (issue_session lib cf env cx rnd (r_id u) meta ''password'')
      (\<lambda>(v, tokens). return_h (Login_Session v tokens)) S'))) = db_users (ss_db S')" for S'
    using issue_session_users [of lib cf env cx rnd "r_id u" meta "''password''" S']
    by (auto simp: run_h split: sum.split prod.split)
  show ?thesis
  proof (cases "compares (r_id u) (env_now env) dto (ss_db S)")
    case False
    then show ?thesis using Some
      by (auto simp: login_def login_account_def compares_def run_h user_event_def audited_def)
  next
    case True
    then show ?thesis using Some mfa
      by (auto simp: login_def login_account_def compares_def run_h user_event_def audited_def register_failed_login_def
          write_user_def set_user_def invalidate_def Let_def)
  qed
qed

text \<open>The passwords that may still be tried until \<open>until\<close>, as the row of the account has it.\<close>

definition budget :: "time \<Rightarrow> user \<Rightarrow> nat" where
  "budget until u = (if (case u_locked_until u of None \<Rightarrow> False | Some t \<Rightarrow> until \<le> t) then 0
     else max 1 (max_failed_logins - u_failed_count u))"

definition row_budget :: "time \<Rightarrow> uuid \<Rightarrow> db \<Rightarrow> nat" where
  "row_budget until i s = (case find_first (has_id i) (db_users s) of None \<Rightarrow> 0 | Some u \<Rightarrow> budget until u)"

lemma budget_le: "budget until u \<le> max_failed_logins"
  by (simp add: budget_def max_failed_logins_def)

lemma failed_login_budget:
  assumes "\<not> locked now u" "now < until" "until \<le> now + lockout_minutes * 60000"
  shows "budget until (failed_login now u u) + 1 \<le> budget until u"
  using assms by (auto simp: budget_def failed_login_def locked_def max_failed_logins_def Let_def split: option.splits)

lemma find_has_id:
  assumes "distinct (map r_id (db_users s))" "u \<in> set (db_users s)"
  shows "find_first (has_id (r_id u)) (db_users s) = Some u"
proof -
  have "find_first (has_id (r_id u)) (db_users s) \<noteq> None" using assms(2) by (auto simp: find_first_None_iff has_id_def)
  then obtain q where q: "find_first (has_id (r_id u)) (db_users s) = Some q" by blast
  then have "q \<in> set (db_users s)" "r_id q = r_id u" using find_first_Some [OF q] by (simp_all add: has_id_def)
  then have "q = u" using assms unfolding distinct_map by (auto dest: inj_onD)
  then show ?thesis using q by simp
qed

text \<open>The attempts under consideration: the password is not the one of the account.\<close>

definition wrong_for :: "auth_library \<Rightarrow> string option \<Rightarrow> login_dto \<Rightarrow> bool" where
  "wrong_for lib h dto \<longleftrightarrow> \<not> verify_password lib h (li_password dto)"

lemma attempt_budget:
  assumes "distinct (map r_id (db_users (ss_db S)))" "find_first (has_id i) (db_users (ss_db S)) = Some u"
    and "now < until" "until \<le> now + lockout_minutes * 60000" "now = env_now (ax_env (fst a))"
    and "wrong_for lib (u_password_hash u) (snd a)"
  shows "\<exists>u'. find_first (has_id i) (db_users (ss_db (attempt lib cf a S))) = Some u' \<and>
      u_password_hash u' = u_password_hash u \<and>
      budget until u' + (if compares i now (snd a) (ss_db S) then 1 else 0) \<le> budget until u"
    and "distinct (map r_id (db_users (ss_db (attempt lib cf a S))))"
proof -
  let ?dto = "snd a" and ?s = "ss_db S"
  have eq: "db_users (ss_db (attempt lib cf a S)) = (case find_login_user ?dto ?s of None \<Rightarrow> db_users ?s
     | Some q \<Rightarrow> if compares (r_id q) now ?dto ?s
         then update_rows (has_id (r_id q)) (if verify_password lib (u_password_hash q) (li_password ?dto)
            then admitted now q else failed_login now q) (db_users ?s)
         else db_users ?s)"
    unfolding attempt_def login_users assms(5) ..
  show "distinct (map r_id (db_users (ss_db (attempt lib cf a S))))"
    using assms(1) unfolding eq by (auto simp: map_update_rows_id split: option.split)
  show "\<exists>u'. find_first (has_id i) (db_users (ss_db (attempt lib cf a S))) = Some u' \<and>
      u_password_hash u' = u_password_hash u \<and> budget until u' + (if compares i now ?dto ?s then 1 else 0) \<le> budget until u"
  proof (cases "find_login_user ?dto ?s")
    case None
    then show ?thesis using assms(2) unfolding eq by (simp add: compares_def)
  next
    case (Some q)
    have q: "find_first (has_id (r_id q)) (db_users ?s) = Some q"
      by (rule find_has_id [OF assms(1) find_login_user_Some(1) [OF Some]])
    show ?thesis
    proof (cases "compares (r_id q) now ?dto ?s \<and> r_id q = i")
      case True
      then have "q = u" "\<not> locked now u" "\<not> verify_password lib (u_password_hash u) (li_password ?dto)"
        using q assms(2,6) Some by (auto simp: compares_def wrong_for_def)
      moreover have "find_first (has_id i) (update_rows (has_id i) (failed_login now u) (db_users ?s)) = Some (failed_login now u u)"
        using assms(2) by (subst find_first_update_rows) (simp_all add: has_id_def)
      moreover have "u_password_hash (failed_login now u u) = u_password_hash u" by (simp add: failed_login_def Let_def)
      ultimately show ?thesis
        using True Some failed_login_budget [OF _ assms(3,4), of u] unfolding eq by auto
    next
      case False
      have other: "find_first (has_id i) (update_rows (has_id (r_id q)) g (db_users ?s)) = Some u"
        if "r_id q \<noteq> i" "\<And>r. r_id (g r) = r_id r" for g
        using that assms(2) by (subst find_first_update_rows_other) (auto simp: has_id_def)
      have "\<not> compares i now ?dto ?s" using False Some by (auto simp: compares_def)
      then show ?thesis
        using False Some assms(2) other [of "admitted now q"] other [of "failed_login now q"] unfolding eq by auto
    qed
  qed
qed


section \<open>A suspended account and its second factor\<close>

text \<open>
  C30. The second step of a login does not look at the status of the account. A challenge that was
  issued before an account was suspended, or deactivated, and is answered with the right code within
  its five minutes, opens a session: the answer carries an access token and a live refresh token,
  although a login or a refresh would be refused. (The guards refuse the access token, but the refresh
  token becomes usable when the account is reinstated.)
\<close>

theorem second_factor_ignores_status:
  assumes "verify_mfa_token lib env token = Inr claims" "find_user (jc_sub claims) (ss_db S) = Some u"
    and "u_mfa_enabled u" "u_mfa_secret u = Some sec" "sec \<noteq> []" "lb_decrypt lib sec = Some secret"
    and "six_digits (normalize_code code)" "lb_totp lib (normalize_code code) secret (env_now env)"
    and "find_token (lb_sha256 lib (ar_token rnd)) (ss_db S) = None" "suspended_status (u_status u)"
  shows "\<exists>v tokens S'. verify_mfa lib cf env cx rnd token code meta S = (Inr (v, tokens), S') \<and>
    au_id v = r_id u \<and> suspended_status (au_status v) \<and>
    (\<exists>t \<in> set (db_tokens (ss_db S')). rt_user t = r_id u \<and> rt_hash t = lb_sha256 lib (it_refresh tokens) \<and> live_token t)"
proof -
  have id: "r_id u = jc_sub claims" using assms(2) by (auto simp: find_user_def has_id_def dest!: find_first_Some)
  show ?thesis
    using assms(1-10)
    by (auto simp: verify_mfa_def check_mfa_code_def decrypt_secret_def issue_session_def load_fresh_def create_token_def
        token_hash_unique_def insert_token_def insert_row_def run_h id live_token_def audited_def Let_def)
qed

section \<open>Examples\<close>

lemma ex_tokens_ok: "tokens_ok (ss_db ex_accounts)"
  by (simp add: tokens_ok_def table_ok_def ex_token_def live_token_def)

lemma ex_find_token: "find_token h (ss_db ex_accounts) =
    (if h = ''old'' then Some (ex_token 70 ''old'' (Some 1)) else if h = ''r0'' then Some (ex_token 71 ''r0'' None) else None)"
  by (auto simp: find_token_def find_first_Cons ex_token_def)

lemma refresh_refines_book_witness:
  "\<exists>r S'. refresh ex_lib ex_config ex_env ex_context ex_random (Some ''r0'') ex_meta ex_accounts = (r, S') \<and>
     (is_ok r, book_of (ss_db S')) =
       (True, open_session ''r1'' 70 (book_of (ss_db ex_accounts))) \<and> tokens_ok (ss_db S')"
proof -
  obtain r S' where run: "refresh ex_lib ex_config ex_env ex_context ex_random (Some ''r0'') ex_meta ex_accounts = (r, S')"
    by (cases "refresh ex_lib ex_config ex_env ex_context ex_random (Some ''r0'') ex_meta ex_accounts")
  have "renewable ex_lib ex_config ex_env ex_random ''r0'' (ss_db ex_accounts)"
    by (simp add: renewable_def ex_lib_def ex_find_token may_renew_def ex_token_def ex_env_def ex_random_def may_continue_def
        fresh_value_def find_user_def find_first_Cons has_id_def tenant_active_def tenant_row_def)
  moreover have "bk_family (book_of (ss_db ex_accounts)) ''r0'' = Some 70" "bk_live (book_of (ss_db ex_accounts)) 70 = Some ''r0''"
    by (simp_all add: book_of_def ex_find_token find_first_Cons live_token_def ex_token_def)
  ultimately show ?thesis
    using refresh_refines_book [OF ex_tokens_ok run] run
    by (simp add: present_hash_def) (simp add: ex_lib_def ex_random_def)
qed

lemma reused_token_ends_session_witness:
  "\<exists>r S'. refresh ex_lib ex_config ex_env ex_context ex_random (Some ''old'') ex_meta ex_accounts = (r, S') \<and> \<not> is_ok r \<and>
     (\<forall>x \<in> set (db_tokens (ss_db (call_accounts ex_lib ex_config [(ex_account_env, Refresh_Call (Some ''r0''))] S'))).
        rt_family x = 70 \<longrightarrow> \<not> live_token x)"
proof -
  obtain r S' where run: "refresh ex_lib ex_config ex_env ex_context ex_random (Some ''old'') ex_meta ex_accounts = (r, S')"
    by (cases "refresh ex_lib ex_config ex_env ex_context ex_random (Some ''old'') ex_meta ex_accounts")
  have t: "find_token (lb_sha256 ex_lib ''old'') (ss_db ex_accounts) = Some (ex_token 70 ''old'' (Some 1))"
    by (simp add: ex_find_token ex_lib_def)
  have "\<not> live_token (ex_token 70 ''old'' (Some 1))" "rt_family (ex_token 70 ''old'' (Some 1)) = 70"
    by (simp_all add: live_token_def ex_token_def)
  then show ?thesis
    using reused_token_ends_session [OF ex_tokens_ok t _ _ run refl] run by auto
qed

lemma ex_check: "check_refresh ex_lib ex_config ex_env ex_context (Some ''r0'') S =
    (Inr (ex_token 71 ''r0'' None, build_auth_user Mfa_Off ((ex_user 2 [AUDIT_MANAGER])\<lparr> u_password_hash := Some ''secret'' \<rparr>) (ss_db S)),
     S\<lparr> ss_cache := (ss_cache S)(2 \<mapsto> (env_now ex_env + cache_ttl,
        build_auth_user Mfa_Off ((ex_user 2 [AUDIT_MANAGER])\<lparr> u_password_hash := Some ''secret'' \<rparr>) (ss_db S))) \<rparr>)"
  if "ss_db S = ss_db ex_accounts"
  using that
  by (simp add: check_refresh_def run_h read_cookie_def ex_lib_def ex_find_token ex_token_def ex_env_def load_fresh_def
      find_user_def find_first_Cons has_id_def may_continue_def tenant_active_def tenant_row_def ex_config_def Let_def)

lemma concurrent_refresh_forks_session_witness:
  "\<exists>t u S1 t' u' S2 r S3 r' S4.
     check_refresh ex_lib ex_config ex_env ex_context (Some ''r0'') ex_accounts = (Inr (t, u), S1) \<and>
     check_refresh ex_lib ex_config ex_env ex_context (Some ''r0'') S1 = (Inr (t', u'), S2) \<and>
     rotate_token ex_lib ex_config ex_env ex_context ex_random ex_meta t u S2 = (r, S3) \<and>
     rotate_token ex_lib ex_config ex_env ex_context (ex_random\<lparr> ar_token := ''r2'' \<rparr>) ex_meta t' u' S3 = (r', S4) \<and>
     is_ok r \<and> is_ok r' \<and>
     (\<exists>x \<in> set (db_tokens (ss_db S4)). \<exists>y \<in> set (db_tokens (ss_db S4)). rt_hash x = ''r1'' \<and> rt_hash y = ''r2'' \<and>
        live_token x \<and> live_token y)"
proof -
  obtain t u S1 where a: "check_refresh ex_lib ex_config ex_env ex_context (Some ''r0'') ex_accounts = (Inr (t, u), S1)"
    "ss_db S1 = ss_db ex_accounts"
    using ex_check [OF refl] by simp
  obtain t' u' S2 where b: "check_refresh ex_lib ex_config ex_env ex_context (Some ''r0'') S1 = (Inr (t', u'), S2)"
    using ex_check [OF a(2)] by simp
  obtain r S3 where c: "rotate_token ex_lib ex_config ex_env ex_context ex_random ex_meta t u S2 = (r, S3)"
    by (cases "rotate_token ex_lib ex_config ex_env ex_context ex_random ex_meta t u S2")
  obtain r' S4 where d: "rotate_token ex_lib ex_config ex_env ex_context (ex_random\<lparr> ar_token := ''r2'' \<rparr>) ex_meta t' u' S3 = (r', S4)"
    by (cases "rotate_token ex_lib ex_config ex_env ex_context (ex_random\<lparr> ar_token := ''r2'' \<rparr>) ex_meta t' u' S3")
  have "is_ok r \<and> is_ok r' \<and>
     (\<exists>x \<in> set (db_tokens (ss_db S4)). \<exists>y \<in> set (db_tokens (ss_db S4)). rt_hash x = ''r1'' \<and> rt_hash y = ''r2'' \<and>
        rt_family x = rt_family t \<and> rt_family y = rt_family t \<and> live_token x \<and> live_token y)"
    by (rule concurrent_refresh_forks_session [OF ex_tokens_ok a(1) b _ _ _ _ _ c d])
       (simp_all add: ex_find_token ex_lib_def ex_random_def)
  then show ?thesis using a(1) b c d by blast
qed

definition ex_guess :: login_attempt where
  "ex_guess = (ex_account_env, \<lparr> li_email = ''u2'', li_password = ''wrong'', li_slug = None \<rparr>)"


definition ex_challenge_lib :: auth_library where
  "ex_challenge_lib = ex_lib\<lparr> lb_jwt_verify := (\<lambda>t a now. if t = ''challenge'' then Some \<lparr> jc_sub = 2, jc_tenant = 1,
     jc_email = None, jc_roles = [], jc_purpose = Some ''mfa'' \<rparr> else None) \<rparr>"

definition ex_suspended_user :: user where
  "ex_suspended_user = (ex_user 2 [AUDIT_MANAGER])\<lparr> u_status := user_status.SUSPENDED, u_mfa_enabled := True,
     u_mfa_secret := Some ''123456'' \<rparr>"

definition ex_suspended_accounts :: auth_state where
  "ex_suspended_accounts = ex_accounts\<lparr> ss_db := (ss_db ex_accounts)\<lparr> db_users := [ex_suspended_user] \<rparr> \<rparr>"

lemma second_factor_ignores_status_witness:
  "\<exists>v tokens S'. verify_mfa ex_challenge_lib ex_config ex_env ex_context ex_random ''challenge'' ''123456'' ex_meta
       ex_suspended_accounts = (Inr (v, tokens), S') \<and> suspended_status (au_status v) \<and>
     (\<exists>t \<in> set (db_tokens (ss_db S')). rt_user t = 2 \<and> live_token t)"
proof -
  let ?claims = "\<lparr> jc_sub = 2, jc_tenant = 1, jc_email = None, jc_roles = [], jc_purpose = Some ''mfa'' \<rparr>"
  have token: "verify_mfa_token ex_challenge_lib ex_env ''challenge'' = Inr ?claims"
    by (simp add: verify_mfa_token_def ex_challenge_lib_def ex_lib_def)
  have found: "find_user (jc_sub ?claims) (ss_db ex_suspended_accounts) = Some ex_suspended_user"
    by (simp add: find_user_def ex_suspended_accounts_def find_first_Cons has_id_def ex_suspended_user_def)
  have code: "normalize_code ''123456'' = ''123456''" "six_digits ''123456''" by code_simp+
  have "find_token (lb_sha256 ex_challenge_lib (ar_token ex_random)) (ss_db ex_suspended_accounts) = None"
    by (simp add: find_token_def find_first_Cons ex_suspended_accounts_def ex_token_def ex_random_def ex_challenge_lib_def ex_lib_def)
  then have "\<exists>v tokens S'. verify_mfa ex_challenge_lib ex_config ex_env ex_context ex_random ''challenge'' ''123456'' ex_meta
      ex_suspended_accounts = (Inr (v, tokens), S') \<and> au_id v = r_id ex_suspended_user \<and> suspended_status (au_status v) \<and>
      (\<exists>t \<in> set (db_tokens (ss_db S')). rt_user t = r_id ex_suspended_user \<and>
         rt_hash t = lb_sha256 ex_challenge_lib (it_refresh tokens) \<and> live_token t)"
    using code
    by (intro second_factor_ignores_status [OF token found, where sec = "''123456''" and secret = "''123456''"])
       (simp_all add: ex_suspended_user_def suspended_status_def ex_challenge_lib_def ex_lib_def)
  then show ?thesis by (auto simp: ex_suspended_user_def)
qed

end
