(* ===== verification/Tenant_Scope.thy ===== *)
theory Tenant_Scope
  imports Store
begin

text \<open>
  \<open>prisma/tenant-extension.ts\<close>: the rewriting of query arguments that confines every operation to a
  tenant. Arguments are JavaScript objects; what a \<open>where\<close> object selects is the documented meaning of
  its logical operators over the conditions on columns, which are a parameter. The scoped client of
  the services, \<open>first_in\<close> and the other operations of \<open>Store\<close>, is what the rewritten arguments select.
\<close>

section \<open>Models and operations\<close>

definition tenant_models :: "string list" where
  "tenant_models = [''User'', ''Role'', ''UserRole'', ''RefreshToken'', ''AuditEntity'', ''Process'',
     ''RiskCategory'', ''ScoringModel'', ''Risk'', ''RiskAssessment'', ''Control'', ''RiskControl'', ''ControlTest'',
     ''AuditPlan'', ''AuditPlanItem'', ''ManagementRequest'', ''Engagement'', ''EngagementMember'',
     ''EngagementStakeholder'', ''EngagementMilestone'', ''EngagementStageHistory'', ''AuditProgram'',
     ''AuditProgramStep'', ''Workpaper'', ''WorkpaperVersion'', ''ReviewNote'', ''Review'', ''Document'',
     ''DocumentVersion'', ''Evidence'', ''Finding'', ''Recommendation'', ''FindingStatusHistory'',
     ''DocumentRequest'', ''Task'', ''Comment'', ''Notification'', ''Approval'', ''AuditTrail'', ''ChargeCode'',
     ''Timesheet'', ''TimeEntry'', ''StaffAvailability'', ''AiInteraction'', ''RiskSignal'', ''DataConnector'',
     ''MonitoringRule'', ''MonitoringAlert'']"

definition shared_models :: "string list" where
  "shared_models = [''LibraryItem'', ''WorkpaperTemplate'']"

definition global_models :: "string list" where
  "global_models = [''Tenant'', ''Permission'', ''RolePermission'', ''Framework'', ''FrameworkReference'',
     ''LibraryItemFrameworkRef'']"

definition read_ops :: "string list" where
  "read_ops = [''findMany'', ''findFirst'', ''findFirstOrThrow'', ''findUnique'', ''findUniqueOrThrow'', ''count'',
     ''aggregate'', ''groupBy'']"

definition where_write_ops :: "string list" where
  "where_write_ops = [''update'', ''updateMany'', ''updateManyAndReturn'', ''delete'', ''deleteMany'']"

definition create_ops :: "string list" where
  "create_ops = [''create'', ''createMany'', ''createManyAndReturn'']"

section \<open>Arguments\<close>

text \<open>
  A value of an argument object. An object is the list of its properties, each at most once; \<open>set_key\<close>
  is the assignment \<open>{ ...o, key: value }\<close>.
\<close>

datatype arg =
    Arg_Null
  | Arg_Id uuid
  | Arg_Json json
  | Arg_List "arg list"
  | Arg_Obj "(string \<times> arg) list"

type_synonym arg_object = "(string \<times> arg) list"

fun set_key :: "string \<Rightarrow> arg \<Rightarrow> arg_object \<Rightarrow> arg_object" where
  "set_key k v [] = [(k, v)]"
| "set_key k v ((k', v') # kvs) = (if k' = k then (k, v) # kvs else (k', v') # set_key k v kvs)"

definition object_of :: "arg option \<Rightarrow> arg_object" where
  "object_of v = (case v of Some (Arg_Obj kvs) \<Rightarrow> kvs | _ \<Rightarrow> [])"

definition shared_scope :: "uuid \<Rightarrow> arg" where
  "shared_scope tn = Arg_Obj [(''OR'', Arg_List [Arg_Obj [(''tenantId'', Arg_Id tn)], Arg_Obj [(''tenantId'', Arg_Null)]])]"

text \<open>\<open>Array.isArray(base.AND) ? base.AND : base.AND ? [base.AND] : []\<close>.\<close>

definition and_list :: "arg_object \<Rightarrow> arg list" where
  "and_list base = (case map_of base ''AND'' of None \<Rightarrow> [] | Some (Arg_List vs) \<Rightarrow> vs | Some Arg_Null \<Rightarrow> [] | Some v \<Rightarrow> [v])"

definition scoped_where :: "string \<Rightarrow> arg option \<Rightarrow> uuid \<Rightarrow> arg_object" where
  "scoped_where model wh tn =
     (let base = object_of wh
      in if model \<in> set shared_models then set_key ''AND'' (Arg_List (and_list base @ [shared_scope tn])) base
         else set_key ''tenantId'' (Arg_Id tn) base)"

definition scoped_row :: "arg \<Rightarrow> uuid \<Rightarrow> arg" where
  "scoped_row d tn = Arg_Obj (set_key ''tenantId'' (Arg_Id tn) (object_of (Some d)))"

definition scoped_data :: "arg option \<Rightarrow> uuid \<Rightarrow> arg option" where
  "scoped_data data tn = (case data of None \<Rightarrow> None
     | Some (Arg_List ds) \<Rightarrow> Some (Arg_List (map (\<lambda>d. scoped_row d tn) ds))
     | Some d \<Rightarrow> if map_of (object_of (Some d)) ''tenant'' \<noteq> None then Some d else Some (scoped_row d tn))"

text \<open>An assignment of \<open>undefined\<close> leaves the property without a value.\<close>

definition assign :: "string \<Rightarrow> arg option \<Rightarrow> arg_object \<Rightarrow> arg_object" where
  "assign k v a = (case v of None \<Rightarrow> filter (\<lambda>(k', _). k' \<noteq> k) a | Some x \<Rightarrow> set_key k x a)"

definition apply_tenant_scope :: "string \<Rightarrow> string \<Rightarrow> arg_object \<Rightarrow> uuid \<Rightarrow> arg_object" where
  "apply_tenant_scope model operation a tn =
     (if model \<in> set global_models then a
      else if model \<notin> set tenant_models \<and> model \<notin> set shared_models then a
      else if operation \<in> set read_ops \<or> operation \<in> set where_write_ops then
        set_key ''where'' (Arg_Obj (scoped_where model (map_of a ''where'') tn)) a
      else if operation \<in> set create_ops then assign ''data'' (scoped_data (map_of a ''data'') tn) a
      else if operation = ''upsert'' then
        assign ''create'' (scoped_data (map_of a ''create'') tn)
          (set_key ''where'' (Arg_Obj (scoped_where model (map_of a ''where'') tn)) a)
      else a)"

section \<open>What a where object selects\<close>

text \<open>
  All properties of an object must hold. \<open>AND\<close>, \<open>OR\<close> and \<open>NOT\<close> combine objects; every other property
  is a condition on a column or relation, given by \<open>column\<close>.
\<close>

fun matches :: "(string \<Rightarrow> arg \<Rightarrow> 'r \<Rightarrow> bool) \<Rightarrow> 'r \<Rightarrow> arg \<Rightarrow> bool"
  and matches_key :: "(string \<Rightarrow> arg \<Rightarrow> 'r \<Rightarrow> bool) \<Rightarrow> 'r \<Rightarrow> string \<times> arg \<Rightarrow> bool" where
  "matches column r (Arg_Obj kvs) = (\<forall>kv \<in> set kvs. matches_key column r kv)"
| "matches column r _ = True"
| "matches_key column r (k, v) =
     (if k = ''AND'' then (case v of Arg_List ws \<Rightarrow> \<forall>w \<in> set ws. matches column r w | w \<Rightarrow> matches column r w)
      else if k = ''OR'' then (case v of Arg_List ws \<Rightarrow> \<exists>w \<in> set ws. matches column r w | w \<Rightarrow> matches column r w)
      else if k = ''NOT'' then (case v of Arg_List ws \<Rightarrow> \<forall>w \<in> set ws. \<not> matches column r w | w \<Rightarrow> \<not> matches column r w)
      else column k v r)"

section \<open>The scoped client\<close>

definition is_tenant_model :: "string \<Rightarrow> bool" where
  "is_tenant_model m \<longleftrightarrow> m \<in> set tenant_models"

text \<open>Each model is of one class.\<close>

lemma model_classes:
  "distinct (tenant_models @ shared_models @ global_models)"
  by code_simp

lemma tenant_model_class:
  assumes "m \<in> set tenant_models"
  shows "m \<notin> set shared_models" "m \<notin> set global_models"
  using assms model_classes by auto

lemma shared_model_class:
  assumes "m \<in> set shared_models"
  shows "m \<notin> set tenant_models" "m \<notin> set global_models"
  using assms model_classes by auto

lemma operation_classes:
  "opn \<in> set create_ops \<Longrightarrow> opn \<notin> set read_ops" "opn \<in> set create_ops \<Longrightarrow> opn \<notin> set where_write_ops"
  by (auto simp: create_ops_def read_ops_def where_write_ops_def)

lemma map_of_set_key [simp]: "map_of (set_key k v a) = (map_of a)(k \<mapsto> v)"
  by (induction k v a rule: set_key.induct) auto

lemma set_set_key:
  "distinct (map fst a) \<Longrightarrow> set (set_key k v a) = insert (k, v) {kv \<in> set a. fst kv \<noteq> k}"
  by (induction k v a rule: set_key.induct) (force simp: image_iff)+

text \<open>The properties of an object other than \<open>k\<close>.\<close>

definition without_key :: "string \<Rightarrow> arg_object \<Rightarrow> arg_object" where
  "without_key k a = filter (\<lambda>kv. fst kv \<noteq> k) a"

lemma matches_set_key:
  assumes "distinct (map fst a)"
  shows "matches column r (Arg_Obj (set_key k v a)) \<longleftrightarrow>
    matches_key column r (k, v) \<and> matches column r (Arg_Obj (without_key k a))"
  unfolding matches.simps set_set_key [OF assms] by (auto simp: without_key_def)

lemma matches_split:
  assumes "distinct (map fst a)" "map_of a k = Some v"
  shows "matches column r (Arg_Obj a) \<longleftrightarrow> matches_key column r (k, v) \<and> matches column r (Arg_Obj (without_key k a))"
proof -
  have "kv = (k, v)" if "kv \<in> set a" "fst kv = k" for kv
  proof -
    have "(k, snd kv) \<in> set a" using that by (metis prod.collapse)
    then have "map_of a k = Some (snd kv)" by (rule map_of_is_SomeI [OF assms(1)])
    then show ?thesis using assms(2) that(2) by (cases kv) simp
  qed
  moreover have "(k, v) \<in> set a" using assms(2) by (rule map_of_SomeD)
  ultimately have "set a = insert (k, v) {kv \<in> set a. fst kv \<noteq> k}" by blast
  then have "(\<forall>kv \<in> set a. Q kv) \<longleftrightarrow> Q (k, v) \<and> (\<forall>kv \<in> set (without_key k a). Q kv)" for Q
    unfolding without_key_def by auto
  then show ?thesis by simp
qed

lemma without_key_absent: "map_of a k = None \<Longrightarrow> without_key k a = a"
  by (force simp: without_key_def map_of_eq_None_iff filter_id_conv image_iff)

text \<open>The meaning of the two conditions that the rewriting adds.\<close>

definition reads_tenant :: "(string \<Rightarrow> arg \<Rightarrow> 'r \<Rightarrow> bool) \<Rightarrow> ('r \<Rightarrow> uuid option) \<Rightarrow> bool" where
  "reads_tenant column tenant_of \<longleftrightarrow> (\<forall>r t. column ''tenantId'' (Arg_Id t) r = (tenant_of r = Some t)) \<and>
     (\<forall>r. column ''tenantId'' Arg_Null r = (tenant_of r = None))"

lemma scoped_where_tenant:
  assumes "m \<notin> set shared_models" "distinct (map fst (object_of wh))" "reads_tenant column tenant_of"
  shows "matches column r (Arg_Obj (scoped_where m wh tn)) \<longleftrightarrow>
    tenant_of r = Some tn \<and> matches column r (Arg_Obj (without_key ''tenantId'' (object_of wh)))"
  using assms by (simp add: scoped_where_def Let_def matches_set_key reads_tenant_def del: matches.simps)

lemma matches_shared_scope:
  assumes "reads_tenant column tenant_of"
  shows "matches column r (shared_scope tn) \<longleftrightarrow> tenant_of r = Some tn \<or> tenant_of r = None"
  using assms by (auto simp: shared_scope_def reads_tenant_def)

lemma matches_and_list:
  assumes "distinct (map fst a)"
  shows "matches column r (Arg_Obj a) \<longleftrightarrow>
    (\<forall>w \<in> set (and_list a). matches column r w) \<and> matches column r (Arg_Obj (without_key ''AND'' a))"
proof (cases "map_of a ''AND''")
  case None
  then show ?thesis by (simp add: and_list_def without_key_absent)
next
  case (Some v)
  have "matches_key column r (''AND'', v) \<longleftrightarrow> (\<forall>w \<in> set (and_list a). matches column r w)"
    using Some by (cases v) (simp_all add: and_list_def)
  then show ?thesis using matches_split [OF assms Some, of column r] by simp
qed

lemma scoped_where_shared:
  assumes "m \<in> set shared_models" "distinct (map fst (object_of wh))" "reads_tenant column tenant_of"
  shows "matches column r (Arg_Obj (scoped_where m wh tn)) \<longleftrightarrow>
    (tenant_of r = Some tn \<or> tenant_of r = None) \<and> matches column r (Arg_Obj (object_of wh))"
proof -
  let ?a = "object_of wh"
  have "matches column r (Arg_Obj (scoped_where m wh tn)) \<longleftrightarrow>
      (\<forall>w \<in> set (and_list ?a @ [shared_scope tn]). matches column r w) \<and> matches column r (Arg_Obj (without_key ''AND'' ?a))"
    using assms(1,2) by (simp add: scoped_where_def Let_def matches_set_key del: matches.simps)
  also have "\<dots> \<longleftrightarrow> matches column r (shared_scope tn) \<and> matches column r (Arg_Obj ?a)"
    unfolding matches_and_list [OF assms(2), of column r] by auto
  finally show ?thesis unfolding matches_shared_scope [OF assms(3)] by blast
qed

lemma scope_rewrites_where:
  assumes "m \<in> set tenant_models \<union> set shared_models" "operation \<in> set read_ops \<union> set where_write_ops"
  shows "object_of (map_of (apply_tenant_scope m operation a tn) ''where'') = scoped_where m (map_of a ''where'') tn"
  using assms tenant_model_class [of m] shared_model_class [of m]
  by (auto simp: apply_tenant_scope_def object_of_def)

text \<open>The rows that the arguments of an operation select.\<close>

definition selected :: "(string \<Rightarrow> arg \<Rightarrow> 'r \<Rightarrow> bool) \<Rightarrow> arg_object \<Rightarrow> 'r \<Rightarrow> bool" where
  "selected column a r = matches column r (Arg_Obj (object_of (map_of a ''where'')))"

text \<open>
  C27. The scoped client is the tenant's part of the tables. Running an operation of a tenant-owned
  model with the rewritten arguments over a whole table, one of the reads or writes that take a
  \<open>where\<close>, is running the given condition over the rows of the tenant, whatever \<open>where\<close> the caller
  gives, nested conditions and a tenant of its own choice included: the operations on which the model
  of the services is built are the ones the extension implements.
\<close>

theorem scoped_client_refines:
  assumes "model \<in> set tenant_models" "operation \<in> set read_ops \<union> set where_write_ops"
    and "reads_tenant column (\<lambda>r. Some (r_tenant r))" "distinct (map fst (object_of (map_of a ''where'')))"
    and "scoped = selected column (apply_tenant_scope model operation a (ac_tenant ac))"
    and "wanted = (\<lambda>r. matches column r (Arg_Obj (without_key ''tenantId'' (object_of (map_of a ''where'')))))"
  shows "find_first scoped t = first_in ac wanted t \<and> find_many scoped t = many_in ac wanted t \<and>
    count_rows scoped t = count_in ac wanted t \<and> update_rows scoped f t = update_in ac wanted f t \<and>
    delete_rows scoped t = delete_in ac wanted t"
proof -
  have "scoped = (\<lambda>r. mine ac r \<and> wanted r)"
  proof
    fix r
    have "object_of (map_of (apply_tenant_scope model operation a (ac_tenant ac)) ''where'') =
        scoped_where model (map_of a ''where'') (ac_tenant ac)"
      using assms(1,2) by (intro scope_rewrites_where) auto
    then show "scoped r = (mine ac r \<and> wanted r)"
      using scoped_where_tenant [OF tenant_model_class(1) [OF assms(1)] assms(4,3)]
      by (simp add: assms(5,6) selected_def mine_def del: matches.simps)
  qed
  then show ?thesis by (simp add: first_in_def many_in_def count_in_def update_in_def delete_in_def)
qed

text \<open>
  Of the shared models a tenant reads its own rows and those of no tenant, and never a row of
  another tenant; but the same condition is put on updates and deletions, so that the client lets a
  tenant change and delete the rows that all tenants share.
\<close>

theorem shared_rows_writable:
  assumes "model \<in> set shared_models" "operation \<in> set read_ops \<union> set where_write_ops"
    and "reads_tenant column tenant_of" "distinct (map fst (object_of (map_of a ''where'')))"
  shows "selected column (apply_tenant_scope model operation a tn) r \<longleftrightarrow>
    (tenant_of r = Some tn \<or> tenant_of r = None) \<and> selected column a r"
proof -
  have "object_of (map_of (apply_tenant_scope model operation a tn) ''where'') = scoped_where model (map_of a ''where'') tn"
    using assms(1,2) by (intro scope_rewrites_where) auto
  then show ?thesis
    using scoped_where_shared [OF assms(1,4,3)] by (simp add: selected_def del: matches.simps)
qed

text \<open>The rows that an operation creates, where the caller does not write the tenant relation itself.\<close>

lemma created_rows_scoped:
  assumes "model \<in> set tenant_models \<union> set shared_models" "operation \<in> set create_ops"
    and "map_of a ''data'' = Some d" "map_of (object_of (Some d)) ''tenant'' = None"
  shows "\<exists>d'. map_of (apply_tenant_scope model operation a tn) ''data'' = Some d' \<and>
    (case d of Arg_List ds \<Rightarrow> d' = Arg_List (map (\<lambda>d. scoped_row d tn) ds) | _ \<Rightarrow> d' = scoped_row d tn)"
proof -
  have "apply_tenant_scope model operation a tn = assign ''data'' (scoped_data (map_of a ''data'') tn) a"
    using assms(1,2) tenant_model_class [of model] shared_model_class [of model] operation_classes [of operation]
    by (auto simp: apply_tenant_scope_def)
  then show ?thesis
    using assms(3,4) by (cases d) (simp_all add: scoped_data_def assign_def)
qed

lemma scoped_row_tenant: "map_of (object_of (Some (scoped_row d tn))) ''tenantId'' = Some (Arg_Id tn)"
  by (simp add: scoped_row_def object_of_def)

section \<open>Example\<close>

text \<open>A reader of the columns \<open>id\<close> and \<open>tenantId\<close> of a row.\<close>

definition ex_column :: "string \<Rightarrow> arg \<Rightarrow> row \<Rightarrow> bool" where
  "ex_column k v r = (if k = ''tenantId'' then v = Arg_Id (r_tenant r) else if k = ''id'' then v = Arg_Id (r_id r) else True)"

definition ex_caller :: actor where
  "ex_caller = \<lparr> ac_tenant = 1, ac_user = 2, ac_email = None, ac_roles = [], ac_permissions = [], ac_ip = None,
     ac_agent = None, ac_request = None \<rparr>"

definition ex_args :: arg_object where
  "ex_args = [(''where'', Arg_Obj [(''id'', Arg_Id 7), (''tenantId'', Arg_Id 9)])]"

lemma scoped_client_refines_witness:
  "find_first (selected ex_column (apply_tenant_scope ''Finding'' ''findFirst'' ex_args 1))
     [\<lparr> r_id = 7, r_tenant = 9, r_created = 0 \<rparr>, \<lparr> r_id = 7, r_tenant = 1, r_created = 0 \<rparr>] =
   Some \<lparr> r_id = 7, r_tenant = 1, r_created = 0 \<rparr>"
proof -
  let ?t = "[\<lparr> r_id = 7, r_tenant = 9, r_created = 0 \<rparr>, \<lparr> r_id = 7, r_tenant = 1, r_created = 0 \<rparr>] :: row list"
  have "reads_tenant ex_column (\<lambda>r. Some (r_tenant r))" by (auto simp: reads_tenant_def ex_column_def)
  moreover have "''Finding'' \<in> set tenant_models" "''findFirst'' \<in> set read_ops \<union> set where_write_ops"
    by (simp_all add: tenant_models_def read_ops_def)
  moreover have "distinct (map fst (object_of (map_of ex_args ''where'')))" by (simp add: ex_args_def object_of_def)
  ultimately have "find_first (selected ex_column (apply_tenant_scope ''Finding'' ''findFirst'' ex_args (ac_tenant ex_caller))) ?t =
      first_in ex_caller (\<lambda>r. matches ex_column r (Arg_Obj (without_key ''tenantId'' (object_of (map_of ex_args ''where''))))) ?t"
    using scoped_client_refines [of "''Finding''" "''findFirst''" ex_column ex_args _ ex_caller _ ?t "\<lambda>r. r"] by blast
  then show ?thesis
    by (simp add: ex_caller_def first_in_def find_first_Cons mine_def ex_args_def object_of_def without_key_def ex_column_def)
qed

end
