(* ===== verification/Reminder_Life.thy ===== *)
theory Reminder_Life
  imports Reminders
begin

text \<open>
  The daily job does not repeat itself: a second run at the same moment sends nothing and writes
  nothing, for any number of tenants. \<open>remindable\<close> is the contract of a loop that reminds about the
  rows of one table: a turn about a row that is not due does nothing, any other turn marks the row
  so that it is not due any more.
\<close>

section \<open>A loop over one table\<close>

locale remindable =
  fixes ac :: actor
    and tbl :: "db \<Rightarrow> 'r row_scheme list"
    and due :: "'r row_scheme \<Rightarrow> bool"
    and mark :: "'r row_scheme \<Rightarrow> 'r row_scheme \<Rightarrow> 'r row_scheme"
    and turn :: "'r row_scheme \<Rightarrow> bool op"
  assumes idle: "\<not> due f \<Longrightarrow> turn f s = (Inr False, s)"
    and marks: "due f \<Longrightarrow> \<exists>s'. turn f s = (Inr True, s') \<and> tbl s' = update_in ac (has_id (r_id f)) (mark f) (tbl s)"
    and marked: "\<not> due (mark f r)"
begin

lemma turn_row:
  assumes "turn f s = (x, s')" "r \<in> set (tbl s')" "mine ac r"
  shows "\<not> due r \<or> (r \<in> set (tbl s) \<and> (due f \<longrightarrow> r_id f \<noteq> r_id r))"
proof (cases "due f")
  case True
  with marks [of f s] assms(1) have "tbl s' = update_in ac (has_id (r_id f)) (mark f) (tbl s)" by auto
  with assms(2, 3) marked show ?thesis
    by (auto simp: update_in_def table_simps has_id_def)
next
  case False
  with idle [of f s] assms(1, 2) show ?thesis by simp
qed

lemma turn_succeeds: "\<exists>b s'. turn f s = (Inr b, s')"
  using idle [of f s] marks [of f s] by blast

lemma loop_row:
  assumes "r \<in> set (tbl (snd (for_count_h turn fs s)))" "mine ac r"
  shows "\<not> due r \<or> (r \<in> set (tbl s) \<and> (\<forall>f\<in>set fs. due f \<longrightarrow> r_id f \<noteq> r_id r))"
  using assms(1)
proof (induction fs arbitrary: s)
  case (Cons f fs)
  obtain b s1 where t: "turn f s = (Inr b, s1)" using turn_succeeds by blast
  have "snd (for_count_h turn (f # fs) s) = snd (for_count_h turn fs s1)"
    by (simp add: run_h t split: prod.splits sum.splits)
  with Cons.prems Cons.IH [of s1] have "\<not> due r \<or> (r \<in> set (tbl s1) \<and> (\<forall>f\<in>set fs. due f \<longrightarrow> r_id f \<noteq> r_id r))"
    by simp
  with turn_row [OF t _ assms(2)] show ?case by auto
qed (simp add: run_h)

lemma loop_settles:
  assumes "r \<in> set (tbl (snd (for_count_h turn (many_in ac P (tbl s)) s)))" "mine ac r" "P r"
  shows "\<not> due r"
  using loop_row [OF assms(1, 2)] assms(2, 3) by (auto simp: many_in_def table_simps)

lemma loop_idle: "(\<And>f. f \<in> set fs \<Longrightarrow> \<not> due f) \<Longrightarrow> for_count_h turn fs s = (Inr 0, s)"
  by (induction fs) (simp_all add: run_h idle)

lemma loop_succeeds: "\<exists>n s'. for_count_h turn fs s = (Inr n, s')"
proof (induction fs arbitrary: s)
  case (Cons f fs)
  obtain b s1 where t: "turn f s = (Inr b, s1)" using turn_succeeds by blast
  obtain n s2 where "for_count_h turn fs s1 = (Inr n, s2)" using Cons.IH by blast
  then show ?case by (simp add: run_h t)
qed (simp add: run_h)

end

section \<open>Findings and requests\<close>

definition finding_due :: "time \<Rightarrow> finding \<Rightarrow> bool" where
  "finding_due now f = (case f_due f of None \<Rightarrow> False
     | Some due \<Rightarrow> rd_remind (reminder_decision_for due (f_last_reminder f) now))"

definition finding_level :: "time \<Rightarrow> finding \<Rightarrow> nat" where
  "finding_level now f = (case f_due f of None \<Rightarrow> 0
     | Some due \<Rightarrow> rd_level (reminder_decision_for due (f_last_reminder f) now))"

definition request_due :: "time \<Rightarrow> document_request \<Rightarrow> bool" where
  "request_due now r = rd_remind (reminder_decision_for (q_due r) (q_last_reminder r) now)"

lemma not_twice: "\<not> rd_remind (reminder_decision_for due (Some now) now)"
  by (simp add: remind_iff reminded_on_def)

lemma job_audited_tables [simp]:
  "db_users (job_audited ac env inp s) = db_users s"
  "db_tenants (job_audited ac env inp s) = db_tenants s"
  "db_engagements (job_audited ac env inp s) = db_engagements s"
  "db_milestones (job_audited ac env inp s) = db_milestones s"
  "db_findings (job_audited ac env inp s) = db_findings s"
  "db_requests (job_audited ac env inp s) = db_requests s"
  "db_notifications (job_audited ac env inp s) = db_notifications s"
  by (simp_all add: job_audited_def)

interpretation finding_loop: remindable ac db_findings "finding_due (env_now env)"
  "\<lambda>f. reminded_finding (env_now env) (finding_level (env_now env) f) f" "remind_finding ac env caes partners"
  for ac env caes partners
proof
  fix f s
  show "\<not> finding_due (env_now env) f \<Longrightarrow> remind_finding ac env caes partners f s = (Inr False, s)"
    by (cases "f_due f") (simp_all add: finding_due_def remind_finding_def run_h Let_def)
  show "finding_due (env_now env) f \<Longrightarrow> \<exists>s'. remind_finding ac env caes partners f s = (Inr True, s') \<and>
      db_findings s' = update_in ac (has_id (r_id f))
        (reminded_finding (env_now env) (finding_level (env_now env) f) f) (db_findings s)"
    by (auto simp: finding_due_def finding_level_def remind_finding_def run_h Let_def update_finding_row_def
        split: option.splits)
next
  show "\<not> finding_due (env_now env) (reminded_finding (env_now env) (finding_level (env_now env) f) f r)" for f r
    by (simp add: finding_due_def reminded_finding_def not_twice split: option.splits)
qed

interpretation request_loop: remindable ac db_requests "request_due (env_now env)"
  "\<lambda>_. reminded_request (env_now env)" "remind_request ac env" for ac env
proof
  fix r s
  show "\<not> request_due (env_now env) r \<Longrightarrow> remind_request ac env r s = (Inr False, s)"
    by (simp add: request_due_def remind_request_def run_h Let_def)
  show "request_due (env_now env) r \<Longrightarrow> \<exists>s'. remind_request ac env r s = (Inr True, s') \<and>
      db_requests s' = update_in ac (has_id (r_id r)) (reminded_request (env_now env)) (db_requests s)"
    by (auto simp: request_due_def remind_request_def run_h Let_def update_request_row_def)
next
  show "\<not> request_due (env_now env) (reminded_request (env_now env) r)" for r
    by (simp add: request_due_def reminded_request_def not_twice)
qed

section \<open>What the job leaves alone\<close>

text \<open>The tables that only tell whom to remind, and the notifications, which are only added to.\<close>

definition job_frame :: "db \<Rightarrow> db \<Rightarrow> bool" where
  "job_frame s s' \<longleftrightarrow> db_tenants s' = db_tenants s \<and> db_users s' = db_users s \<and> db_engagements s' = db_engagements s \<and>
     db_milestones s' = db_milestones s \<and> (\<exists>new. db_notifications s' = db_notifications s @ new)"

interpretation job_steps: frame job_frame
  by unfold_locales (auto simp: job_frame_def)

lemma notified_grows: "\<exists>new. db_notifications (notified ac env u inp s) = db_notifications s @ new"
  by (auto simp: notified_def insert_row_def split: option.splits)

lemma notified_frame: "job_frame s (notified ac env u inp s)"
  by (simp add: job_frame_def notified_grows)

lemma notified_all_frame: "job_frame s (fold (\<lambda>i. notified ac env (Some i) inp) is s)"
proof (induction "is" arbitrary: s)
  case (Cons i "is")
  then show ?case by (auto intro: job_steps.trans notified_frame)
qed (simp add: job_steps.refl)

lemma job_frame_writes:
  "job_frame s (notified_many ac env us inp s)" "job_frame s (job_audited ac env ainp s)"
  "job_frame s (update_finding_row ac i g s)" "job_frame s (update_request_row ac i h s)"
  using notified_all_frame by (simp_all add: notified_many_def job_frame_def update_finding_row_def update_request_row_def)

lemma turns_keep:
  "keeps job_frame (remind_finding ac env caes partners f)" "keeps job_frame (remind_request ac env r)"
  "keeps job_frame (alert_milestone ac env m)"
proof -
  have n: "keeps job_frame (notify_many ac env us inp)" for us inp
    by (simp add: keeps_def run_h job_frame_writes)
  show "keeps job_frame (remind_finding ac env caes partners f)"
    unfolding remind_finding_def Let_def by (intro job_steps.keeps_intros job_steps.keeps_modify n job_frame_writes)
  show "keeps job_frame (remind_request ac env r)"
    unfolding remind_request_def Let_def by (intro job_steps.keeps_intros job_steps.keeps_modify n job_frame_writes)
  show "keeps job_frame (alert_milestone ac env m)"
    unfolding alert_milestone_def by (intro job_steps.keeps_intros n)
qed

lemma loop_keeps: "(\<And>x. keeps job_frame (f x)) \<Longrightarrow> keeps job_frame (for_count_h f xs)"
  by (induction xs) (auto intro!: job_steps.keeps_return job_steps.keeps_bind)

lemma alerts_frame: "keeps job_frame (for_count_h (alert_milestone ac env) ms)"
  by (rule loop_keeps) (rule turns_keep)

text \<open>The loops over one table do not touch the other.\<close>

definition same_findings :: "db \<Rightarrow> db \<Rightarrow> bool" where
  "same_findings s s' \<longleftrightarrow> db_findings s' = db_findings s"

definition same_requests :: "db \<Rightarrow> db \<Rightarrow> bool" where
  "same_requests s s' \<longleftrightarrow> db_requests s' = db_requests s"

interpretation findings_frame: frame same_findings
  by unfold_locales (simp_all add: same_findings_def)

interpretation requests_frame: frame same_requests
  by unfold_locales (simp_all add: same_requests_def)

lemma requests_keep_findings: "keeps same_findings (for_count_h (remind_request ac env) qs)"
proof -
  have "keeps same_findings (remind_request ac env r)" for r
    by (simp add: keeps_def same_findings_def remind_request_def run_h Let_def update_request_row_def)
  then show ?thesis by (induction qs) (auto intro!: findings_frame.keeps_return findings_frame.keeps_bind)
qed

lemma alerts_keep_rows:
  "keeps same_findings (for_count_h (alert_milestone ac env) ms)"
  "keeps same_requests (for_count_h (alert_milestone ac env) ms)"
proof -
  have "keeps same_findings (alert_milestone ac env m)" "keeps same_requests (alert_milestone ac env m)" for m
    by (simp_all add: keeps_def same_findings_def same_requests_def alert_milestone_def run_h)
  then show "keeps same_findings (for_count_h (alert_milestone ac env) ms)"
    "keeps same_requests (for_count_h (alert_milestone ac env) ms)"
    by (induction ms) (auto intro!: findings_frame.keeps_return findings_frame.keeps_bind
        requests_frame.keeps_return requests_frame.keeps_bind)
qed

section \<open>Milestones\<close>

text \<open>A milestone that was alerted about in the week, or about which nobody can be told.\<close>

definition alert_recipients :: "engagement option \<Rightarrow> uuid option list" where
  "alert_recipients e = (case e of None \<Rightarrow> [] | Some g \<Rightarrow> [e_lead g, e_manager g])"

definition reachable :: "actor \<Rightarrow> uuid \<Rightarrow> db \<Rightarrow> bool" where
  "reachable ac i s \<longleftrightarrow> (\<exists>u. first_in ac (\<lambda>u. r_id u = i \<and> u_deleted_at u = None) (db_users s) = Some u \<and>
     u_status u \<noteq> user_status.DEACTIVATED)"

definition alerted :: "actor \<Rightarrow> time \<Rightarrow> db \<Rightarrow> milestone \<Rightarrow> bool" where
  "alerted ac now s m \<longleftrightarrow> 0 < recent_alerts ac now (r_id m) s \<or>
     (\<forall>i\<in>set (present (alert_recipients (engagement_ref (ms_engagement m) s))). \<not> reachable ac i s)"

lemma notified_unreachable: "\<not> reachable ac i s \<Longrightarrow> notified ac env (Some i) inp s = s"
  by (auto simp: reachable_def notified_def split: option.splits)

lemma notified_many_unreachable:
  assumes "\<And>i. i \<in> set (present us) \<Longrightarrow> \<not> reachable ac i s" shows "notified_many ac env us inp s = s"
proof -
  have "fold (\<lambda>i. notified ac env (Some i) inp) is s = s" if "\<And>i. i \<in> set is \<Longrightarrow> \<not> reachable ac i s" for "is"
    using that by (induction "is") (simp_all add: notified_unreachable)
  from this [of "dedupe (present us)"] show ?thesis using assms by (simp add: notified_many_def)
qed

lemma reachable_frame: "job_frame s s' \<Longrightarrow> reachable ac i s' = reachable ac i s"
  by (simp add: reachable_def job_frame_def)

lemma recent_alerts_grow: "job_frame s s' \<Longrightarrow> recent_alerts ac now i s \<le> recent_alerts ac now i s'"
  by (auto simp: job_frame_def recent_alerts_def count_in_def count_rows_def)

lemma alerted_frame:
  assumes "job_frame s s'" "alerted ac now s m" shows "alerted ac now s' m"
proof -
  have "engagement_ref e s' = engagement_ref e s" for e using assms(1) by (simp add: engagement_ref_def job_frame_def)
  with assms(2) recent_alerts_grow [OF assms(1), of ac now "r_id m"] show ?thesis
    by (auto simp: alerted_def reachable_frame [OF assms(1)])
qed

lemma alert_idle:
  assumes "alerted ac (env_now env) s m" shows "\<exists>b. alert_milestone ac env m s = (Inr b, s)"
proof (cases "0 < recent_alerts ac (env_now env) (r_id m) s")
  case False
  with assms have "notified_many ac env (alert_recipients (engagement_ref (ms_engagement m) s)) inp s = s" for inp
    by (intro notified_many_unreachable) (simp add: alerted_def)
  with False show ?thesis by (intro exI [of _ True]) (simp add: alert_milestone_def run_h flip: alert_recipients_def)
qed (auto simp: alert_milestone_def run_h)

lemma alert_recorded:
  assumes "reachable ac i s"
  shows "0 < recent_alerts ac (env_now env) (r_id m) (notified ac env (Some i) (milestone_alert m e (env_now env)) s)"
proof -
  have "payload_id (ni_payload (milestone_alert m e (env_now env))) ''milestoneId'' = Some (r_id m)"
    "ni_type (milestone_alert m e (env_now env)) = ''milestone.overdue''"
    by (simp_all add: milestone_alert_def payload_id_def Let_def)
  with assms show ?thesis
    by (auto simp: reachable_def notified_def recent_alerts_def count_in_def count_rows_def insert_row_def mine_def
        add_days_def)
qed

lemma alert_recorded_many:
  assumes "i \<in> set is" "reachable ac i s"
  shows "0 < recent_alerts ac (env_now env) (r_id m)
           (fold (\<lambda>i. notified ac env (Some i) (milestone_alert m e (env_now env))) is s)"
  using assms
proof (induction "is" arbitrary: s)
  case (Cons j js)
  let ?n = "\<lambda>i. notified ac env (Some i) (milestone_alert m e (env_now env))"
  show ?case
  proof (cases "j = i")
    case True
    then show ?thesis
      using less_le_trans [OF alert_recorded [OF Cons.prems(2)] recent_alerts_grow [OF notified_all_frame]] by simp
  next
    case False
    have "reachable ac i (?n j s)" using Cons.prems(2) by (simp add: reachable_frame [OF notified_frame])
    with False Cons show ?thesis by simp
  qed
qed simp

lemma alert_turn:
  "\<exists>b s'. alert_milestone ac env m s = (Inr b, s') \<and> alerted ac (env_now env) s' m"
proof (cases "alerted ac (env_now env) s m")
  case True
  then show ?thesis using alert_idle by blast
next
  case False
  let ?e = "engagement_ref (ms_engagement m) s"
  let ?s = "notified_many ac env (alert_recipients ?e) (milestone_alert m ?e (env_now env)) s"
  from False obtain i where i: "i \<in> set (present (alert_recipients ?e))" "reachable ac i s"
    and n: "recent_alerts ac (env_now env) (r_id m) s = 0" by (auto simp: alerted_def)
  have "alerted ac (env_now env) ?s m"
    using alert_recorded_many [of i "dedupe (present (alert_recipients ?e))", OF _ i(2)] i(1)
    by (simp add: alerted_def notified_many_def)
  moreover have "alert_milestone ac env m s = (Inr True, ?s)"
    using n by (simp add: alert_milestone_def run_h flip: alert_recipients_def)
  ultimately show ?thesis by blast
qed

lemma alerts_settle:
  assumes "m \<in> set ms" shows "alerted ac (env_now env) (snd (for_count_h (alert_milestone ac env) ms s)) m"
  using assms
proof (induction ms arbitrary: s)
  case (Cons k ms)
  obtain b s1 where k: "alert_milestone ac env k s = (Inr b, s1)" "alerted ac (env_now env) s1 k"
    using alert_turn by blast
  have step: "snd (for_count_h (alert_milestone ac env) (k # ms) s) = snd (for_count_h (alert_milestone ac env) ms s1)"
    by (simp add: run_h k split: prod.splits sum.splits)
  have "job_frame s1 (snd (for_count_h (alert_milestone ac env) ms s1))"
    using alerts_frame by (simp add: keeps_def)
  with Cons k(2) show ?case unfolding step by (auto intro: alerted_frame)
qed simp

lemma alerts_idle:
  "(\<And>m. m \<in> set ms \<Longrightarrow> alerted ac (env_now env) s m) \<Longrightarrow> \<exists>n. for_count_h (alert_milestone ac env) ms s = (Inr n, s)"
proof (induction ms)
  case (Cons m ms)
  then obtain b n where "alert_milestone ac env m s = (Inr b, s)" "for_count_h (alert_milestone ac env) ms s = (Inr n, s)"
    using alert_idle [of ac env s m] by auto
  then show ?case by (simp add: run_h)
qed (simp add: run_h)

lemma alerts_succeed: "\<exists>n s'. for_count_h (alert_milestone ac env) ms s = (Inr n, s')"
proof (induction ms arbitrary: s)
  case (Cons m ms)
  obtain b s1 where t: "alert_milestone ac env m s = (Inr b, s1)" using alert_turn by blast
  obtain n s2 where "for_count_h (alert_milestone ac env) ms s1 = (Inr n, s2)" using Cons.IH by blast
  then show ?case by (simp add: run_h t)
qed (simp add: run_h)

section \<open>The run of a tenant\<close>

text \<open>Nothing of the tenant is due any more.\<close>

definition quiet :: "env \<Rightarrow> uuid \<Rightarrow> db \<Rightarrow> bool" where
  "quiet env tn s \<longleftrightarrow>
     (\<forall>f\<in>set (db_findings s). r_tenant f = tn \<and> actionable_finding f \<longrightarrow> \<not> finding_due (env_now env) f) \<and>
     (\<forall>r\<in>set (db_requests s). r_tenant r = tn \<and> open_request r \<longrightarrow> \<not> request_due (env_now env) r) \<and>
     (\<forall>m\<in>set (db_milestones s). r_tenant m = tn \<and> overdue_milestone s (env_now env) m \<longrightarrow>
        alerted (job_actor tn (env_now env)) (env_now env) s m)"

lemma quiet_run: "quiet env tn s \<Longrightarrow> \<exists>r. run_for_tenant env tn s = (Inr r, s)"
proof -
  assume q: "quiet env tn s"
  let ?ac = "job_actor tn (env_now env)"
  have f: "for_count_h (remind_finding ?ac env caes partners) (many_in ?ac actionable_finding (db_findings s)) s = (Inr 0, s)"
    for caes partners
    using q by (intro finding_loop.loop_idle) (auto simp: quiet_def many_in_def table_simps mine_def)
  have r: "for_count_h (remind_request ?ac env) (many_in ?ac open_request (db_requests s)) s = (Inr 0, s)"
    using q by (intro request_loop.loop_idle) (auto simp: quiet_def many_in_def table_simps mine_def)
  have "\<exists>n. for_count_h (alert_milestone ?ac env)
      (many_in ?ac (overdue_milestone s (env_now env)) (db_milestones s)) s = (Inr n, s)"
    using q by (intro alerts_idle) (auto simp: quiet_def many_in_def table_simps mine_def)
  then show ?thesis by (auto simp: run_for_tenant_def Let_def run_h f r)
qed

lemma run_quiet: "\<exists>r s'. run_for_tenant env tn s = (Inr r, s') \<and> quiet env tn s'"
proof -
  let ?ac = "job_actor tn (env_now env)"
  let ?f = "for_count_h (remind_finding ?ac env (users_with_role ?ac CHIEF_AUDIT_EXECUTIVE s)
      (users_with_role ?ac AUDIT_PARTNER s)) (many_in ?ac actionable_finding (db_findings s))"
  obtain nf s1 where f: "?f s = (Inr nf, s1)" using finding_loop.loop_succeeds by blast
  let ?r = "for_count_h (remind_request ?ac env) (many_in ?ac open_request (db_requests s1))"
  obtain nr s2 where r: "?r s1 = (Inr nr, s2)" using request_loop.loop_succeeds by blast
  let ?m = "for_count_h (alert_milestone ?ac env) (many_in ?ac (overdue_milestone s2 (env_now env)) (db_milestones s2))"
  obtain nm s3 where m: "?m s2 = (Inr nm, s3)" using alerts_succeed by blast
  have run: "run_for_tenant env tn s =
      (Inr \<lparr> rm_tenants = 1, rm_findings = nf, rm_requests = nr, rm_milestones = nm, rm_errors = 0 \<rparr>, s3)"
    by (simp add: run_for_tenant_def Let_def run_h f r m)
  have findings: "db_findings s3 = db_findings s1" and requests: "db_requests s3 = db_requests s2"
    using keepsD [OF requests_keep_findings r] keepsD [OF alerts_keep_rows(1) m] keepsD [OF alerts_keep_rows(2) m]
    by (simp_all add: same_findings_def same_requests_def)
  have frame: "job_frame s2 s3" using keepsD [OF alerts_frame m] .
  then have overdue: "overdue_milestone s3 now k = overdue_milestone s2 now k" "db_milestones s3 = db_milestones s2" for now k
    by (simp_all add: overdue_milestone_def engagement_ref_def job_frame_def)
  have "\<not> finding_due (env_now env) x" if "x \<in> set (db_findings s3)" "r_tenant x = tn" "actionable_finding x" for x
    using finding_loop.loop_settles [of x ?ac env "users_with_role ?ac CHIEF_AUDIT_EXECUTIVE s"
        "users_with_role ?ac AUDIT_PARTNER s" actionable_finding s] that f by (simp add: findings mine_def)
  moreover have "\<not> request_due (env_now env) x" if "x \<in> set (db_requests s3)" "r_tenant x = tn" "open_request x" for x
    using request_loop.loop_settles [of x ?ac env open_request s1] that r by (simp add: requests mine_def)
  moreover have "alerted ?ac (env_now env) s3 x"
    if "x \<in> set (db_milestones s3)" "r_tenant x = tn" "overdue_milestone s3 (env_now env) x" for x
    using alerts_settle [of x "many_in ?ac (overdue_milestone s2 (env_now env)) (db_milestones s2)" ?ac env s2] that m
    by (simp add: overdue many_in_def table_simps mine_def)
  ultimately show ?thesis using run by (auto simp: quiet_def)
qed

lemma run_frame: "keeps job_frame (run_for_tenant env tn)"
  unfolding run_for_tenant_def Let_def
  by (intro job_steps.keeps_bind job_steps.keeps_gets job_steps.keeps_return loop_keeps turns_keep)

section \<open>The run over all tenants\<close>

lemma quiet_other:
  assumes "quiet env tn s" "confined u s s'" "job_frame s s'" "u \<noteq> tn"
  shows "quiet env tn s'"
proof -
  have o: "outside u (db_findings s') = outside u (db_findings s)" "outside u (db_requests s') = outside u (db_requests s)"
    using assms(2) by (simp_all add: confined_def both_def same_outside_def)
  have "x \<in> set (db_findings s)" if "x \<in> set (db_findings s')" "r_tenant x = tn" for x
  proof -
    have "x \<in> set (outside u (db_findings s'))" using that assms(4) by (simp add: outside_def)
    then show ?thesis unfolding o by (simp add: outside_def)
  qed
  moreover have "x \<in> set (db_requests s)" if "x \<in> set (db_requests s')" "r_tenant x = tn" for x
  proof -
    have "x \<in> set (outside u (db_requests s'))" using that assms(4) by (simp add: outside_def)
    then show ?thesis unfolding o by (simp add: outside_def)
  qed
  moreover have "overdue_milestone s' now m = overdue_milestone s now m" "db_milestones s' = db_milestones s" for now m
    using assms(3) by (simp_all add: overdue_milestone_def engagement_ref_def job_frame_def)
  ultimately show ?thesis using assms(1) alerted_frame [OF assms(3)] by (auto simp: quiet_def)
qed

lemma run_keeps_quiet: "quiet env tn s \<Longrightarrow> quiet env tn (snd (run_for_tenant env u s))"
proof (cases "u = tn")
  case False
  assume "quiet env tn s"
  moreover have "confined u s (snd (run_for_tenant env u s))" "job_frame s (snd (run_for_tenant env u s))"
    using run_for_tenant_confined run_frame by (simp_all add: keeps_def)
  ultimately show ?thesis using False by (rule quiet_other)
qed (use quiet_run [of env tn s] in auto)

lemma run_tenants_step:
  "\<exists>acc'. run_tenants env (tn # tns) acc s = run_tenants env tns acc' (snd (run_for_tenant env tn s))"
  by (auto split: prod.splits sum.splits)

lemma run_tenants_quiet:
  "\<exists>acc'. run_tenants env tns acc s = (Inr acc', snd (run_tenants env tns acc s)) \<and>
     (\<forall>tn. quiet env tn s \<or> tn \<in> set tns \<longrightarrow> quiet env tn (snd (run_tenants env tns acc s))) \<and>
     db_tenants (snd (run_tenants env tns acc s)) = db_tenants s"
proof (induction tns arbitrary: acc s)
  case (Cons u tns)
  obtain acc' where step: "run_tenants env (u # tns) acc s = run_tenants env tns acc' (snd (run_for_tenant env u s))"
    using run_tenants_step by blast
  have "quiet env u (snd (run_for_tenant env u s))" using run_quiet [of env u s] by auto
  moreover have "db_tenants (snd (run_for_tenant env u s)) = db_tenants s"
    using run_frame [of env u] by (simp add: keeps_def job_frame_def)
  ultimately show ?case
    using Cons [of acc' "snd (run_for_tenant env u s)"] run_keeps_quiet [of env _ s u] unfolding step by auto
qed simp

lemma run_tenants_idle:
  "(\<And>tn. tn \<in> set tns \<Longrightarrow> quiet env tn s) \<Longrightarrow> snd (run_tenants env tns acc s) = s"
proof (induction tns arbitrary: acc)
  case (Cons u tns)
  then obtain r where "run_for_tenant env u s = (Inr r, s)" using quiet_run [of env u s] by auto
  with Cons show ?case by simp
qed simp

text \<open>
  C33. The daily job can be run again without harm: it never fails for any tenant, and a second run at
  the same time, over all tenants, sends no notification, marks no finding and no request and writes
  no event.
\<close>

theorem daily_job_idempotent:
  "\<exists>summary. run_all env False s = (Inr summary, snd (run_all env False s)) \<and>
     snd (run_all env False (snd (run_all env False s))) = snd (run_all env False s)"
proof -
  let ?tns = "map t_id (filter t_active (db_tenants s))"
  let ?s = "snd (run_tenants env ?tns no_reminders s)"
  obtain acc where ran: "run_tenants env ?tns no_reminders s = (Inr acc, ?s)"
    and quiet: "\<And>tn. tn \<in> set ?tns \<Longrightarrow> quiet env tn ?s" and same: "db_tenants ?s = db_tenants s"
    using run_tenants_quiet [of env ?tns no_reminders s] by blast
  have all: "run_all env False t = run_tenants env (map t_id (filter t_active (db_tenants t))) no_reminders t" for t
    by (simp add: run_all_def run_h)
  have "snd (run_all env False ?s) = ?s" unfolding all same by (rule run_tenants_idle) (rule quiet)
  with ran show ?thesis unfolding all by auto
qed

end
