(* ===== verification/Spec2Isabelle.thy ===== *)
theory Spec2Isabelle
  imports Scoring Ageing Pagination Services Session_Life Tenant_Scope Reminder_Life
begin

text \<open>
  BDO AuditSphere.
\<close>

end
